(* ===== verification/Notify_Prelude.thy ===== *)
theory Notify_Prelude
  imports Main "HOL-Library.Word" "HOL-Library.Signed_Division"
begin

text \<open>
  Shared vocabulary of the development: the types every component uses, the streams that
  carry the choices of the environment (clock readings, random identifiers, outcomes of calls
  to services), the shape of a Go function that returns an error beside a value, and the list
  lemmas about "rewrite the elements that match" that carry the table updates.
\<close>

section \<open>Basic types\<close>

text \<open>A \<^verbatim>\<open>uuid.UUID\<close> is an array of 16 bytes, compared bytewise.\<close>

type_synonym uuid = "128 word"

text \<open>
  \<^verbatim>\<open>time.Time\<close> is the number of nanoseconds since the epoch; \<^verbatim>\<open>time.Duration\<close> is a signed
  64-bit count of nanoseconds and wraps around as Go's does.
\<close>

type_synonym time = int

type_synonym duration = "64 word"

text \<open>Go strings and byte slices are sequences of bytes.\<close>

type_synonym bytes = string

text \<open>
  A Go \<^verbatim>\<open>map[string]string\<close>: \<open>None\<close> is the nil map, \<open>Some kvs\<close> lists the entries in the order
  in which a \<^verbatim>\<open>range\<close> over the map visits them (Go leaves that order open).
\<close>

type_synonym headers = "(string \<times> string) list option"

definition Duration_of_int :: "int \<Rightarrow> duration" where
  "Duration_of_int n = word_of_int n"

text \<open>\<^verbatim>\<open>t.Add(d)\<close>.\<close>

definition Time_Add :: "time \<Rightarrow> duration \<Rightarrow> time" where
  "Time_Add t d = t + sint d"

text \<open>\<^verbatim>\<open>d.Milliseconds()\<close>: the integer division of Go truncates towards zero.\<close>

definition Duration_Milliseconds :: "duration \<Rightarrow> int" where
  "Duration_Milliseconds d = sint d sdiv 1000000"

definition Second :: duration where
  "Second = 1000000000"

definition Millisecond :: duration where
  "Millisecond = 1000000"

definition Minute :: duration where
  "Minute = 60 * Second"

section \<open>Streams of environment choices\<close>

text \<open>
  What the environment answers to successive calls is a function from call numbers; taking
  the next answer shifts it.
\<close>

type_synonym 'a choices = "nat \<Rightarrow> 'a"

definition choices_tl :: "'a choices \<Rightarrow> 'a choices" where
  "choices_tl f = (\<lambda>n. f (Suc n))"

lemma choices_tl_apply [simp]: "choices_tl f n = f (Suc n)"
  by (simp add: choices_tl_def)

text \<open>A finite script of answers followed by a default.\<close>

definition script :: "'a list \<Rightarrow> 'a \<Rightarrow> 'a choices" where
  "script xs d = (\<lambda>n. if n < length xs then xs ! n else d)"

lemma script_0 [simp]: "script (x # xs) d 0 = x" "script [] d n = d"
  by (simp_all add: script_def)

lemma script_Suc [simp]: "script (x # xs) d (Suc n) = script xs d n"
  by (simp add: script_def)

lemma choices_tl_script [simp]:
  "choices_tl (script (x # xs) d) = script xs d" "choices_tl (script [] d) = script [] d"
  by (auto simp: fun_eq_iff)

section \<open>Rewriting the elements of a list that match\<close>

definition update_where :: "('a \<Rightarrow> bool) \<Rightarrow> ('a \<Rightarrow> 'a) \<Rightarrow> 'a list \<Rightarrow> 'a list" where
  "update_where p f xs = map (\<lambda>x. if p x then f x else x) xs"

definition count_where :: "('a \<Rightarrow> bool) \<Rightarrow> 'a list \<Rightarrow> nat" where
  "count_where p xs = length (filter p xs)"

lemma update_where_Nil [simp]: "update_where p f [] = []"
  by (simp add: update_where_def)

lemma update_where_Cons [simp]:
  "update_where p f (x # xs) = (if p x then f x else x) # update_where p f xs"
  by (simp add: update_where_def)

lemma update_where_append [simp]:
  "update_where p f (xs @ ys) = update_where p f xs @ update_where p f ys"
  by (simp add: update_where_def)

lemma length_update_where [simp]: "length (update_where p f xs) = length xs"
  by (simp add: update_where_def)

lemma count_where_Nil [simp]: "count_where p [] = 0"
  by (simp add: count_where_def)

lemma count_where_Cons [simp]:
  "count_where p (x # xs) = (if p x then Suc (count_where p xs) else count_where p xs)"
  by (simp add: count_where_def)

lemma count_where_append [simp]:
  "count_where p (xs @ ys) = count_where p xs + count_where p ys"
  by (simp add: count_where_def)

lemma count_where_0_iff: "count_where p xs = 0 \<longleftrightarrow> (\<forall>x\<in>set xs. \<not> p x)"
  by (induction xs) auto

lemma update_where_none: "count_where p xs = 0 \<Longrightarrow> update_where p f xs = xs"
  by (induction xs) (auto split: if_splits)

lemma set_update_where: "y \<in> set (update_where p f xs) \<longleftrightarrow> (\<exists>x\<in>set xs. y = (if p x then f x else x))"
  by (auto simp: update_where_def)

lemma map_update_where:
  assumes "\<And>x. p x \<Longrightarrow> g (f x) = g x"
  shows "map g (update_where p f xs) = map g xs"
  using assms by (auto simp: update_where_def)

text \<open>With a key that no two elements share, at most one element has a given key.\<close>

lemma count_where_distinct_key:
  assumes "distinct (map k xs)" and "\<And>x. p x \<Longrightarrow> k x = a"
  shows "count_where p xs \<le> 1"
  using assms
proof (induction xs)
  case Nil
  then show ?case by simp
next
  case (Cons x xs)
  show ?case
  proof (cases "p x")
    case True
    then have "k x = a" by (rule Cons.prems(2))
    have "\<not> p y" if "y \<in> set xs" for y
      using that Cons.prems(1) Cons.prems(2)[of y] \<open>k x = a\<close> by (auto simp: image_iff)
    then have "count_where p xs = 0"
      by (simp add: count_where_0_iff)
    then show ?thesis using True by simp
  next
    case False
    then show ?thesis using Cons by simp
  qed
qed

lemma count_where_1_find:
  "count_where p xs = 1 \<Longrightarrow> \<exists>ys x zs. xs = ys @ x # zs \<and> p x \<and> count_where p ys = 0 \<and> count_where p zs = 0"
proof (induction xs)
  case Nil
  then show ?case by simp
next
  case (Cons a xs)
  show ?case
  proof (cases "p a")
    case True
    with Cons.prems have "count_where p xs = 0" by simp
    with True have "a # xs = [] @ a # xs \<and> p a \<and> count_where p [] = 0 \<and> count_where p xs = 0"
      by simp
    then show ?thesis by blast
  next
    case False
    with Cons.prems have "count_where p xs = 1" by simp
    then obtain ys x zs where "xs = ys @ x # zs" "p x" "count_where p ys = 0" "count_where p zs = 0"
      using Cons.IH by blast
    with False have "a # xs = (a # ys) @ x # zs \<and> p x \<and> count_where p (a # ys) = 0 \<and> count_where p zs = 0"
      by simp
    then show ?thesis by blast
  qed
qed

end
