(* ===== verification/Task_Machine.thy ===== *)
theory Task_Machine
  imports Notify_Prelude
begin

text \<open>
  The public state machine of a notification (\<^verbatim>\<open>internal/notification/types.go\<close>, README): the
  abstract specification that the repository and the worker refine. A task is seen through its
  status, the number of finished attempts and the number allowed.
\<close>

section \<open>Statuses\<close>

abbreviation StatusPending :: string where "StatusPending \<equiv> ''pending''"
abbreviation StatusDelivering :: string where "StatusDelivering \<equiv> ''delivering''"
abbreviation StatusSucceeded :: string where "StatusSucceeded \<equiv> ''succeeded''"
abbreviation StatusRetrying :: string where "StatusRetrying \<equiv> ''retrying''"
abbreviation StatusFailed :: string where "StatusFailed \<equiv> ''failed''"

record TaskView =
  tv_Status :: string
  tv_Attempt :: int
  tv_Max :: int

definition terminal :: "TaskView \<Rightarrow> bool" where
  "terminal v \<longleftrightarrow> tv_Status v = StatusSucceeded \<or> tv_Status v = StatusFailed"

definition startable :: "TaskView \<Rightarrow> bool" where
  "startable v \<longleftrightarrow> tv_Status v = StatusPending \<or> tv_Status v = StatusRetrying"

definition started :: "TaskView \<Rightarrow> TaskView" where
  "started v = v\<lparr>tv_Status := StatusDelivering\<rparr>"

definition finished :: "string \<Rightarrow> TaskView \<Rightarrow> TaskView" where
  "finished st v = v\<lparr>tv_Status := st, tv_Attempt := tv_Attempt v + 1\<rparr>"

definition requeued :: "TaskView \<Rightarrow> TaskView" where
  "requeued v = v\<lparr>tv_Status := StatusPending, tv_Attempt := 0\<rparr>"

section \<open>Transitions\<close>

inductive task_step :: "TaskView \<Rightarrow> TaskView \<Rightarrow> bool" where
  start: "startable v \<Longrightarrow> task_step v (started v)"
| succeed: "tv_Status v = StatusDelivering \<Longrightarrow> task_step v (finished StatusSucceeded v)"
| reschedule: "tv_Status v = StatusDelivering \<Longrightarrow> tv_Attempt v + 1 < tv_Max v \<Longrightarrow>
     task_step v (finished StatusRetrying v)"
| give_up: "tv_Status v = StatusDelivering \<Longrightarrow> task_step v (finished StatusFailed v)"
| requeue: "tv_Status v = StatusFailed \<Longrightarrow> task_step v (requeued v)"

inductive_cases task_stepE: "task_step v w"

inductive task_steps :: "TaskView \<Rightarrow> TaskView \<Rightarrow> bool" where
  refl: "task_steps v v"
| step: "task_steps v w \<Longrightarrow> task_step w x \<Longrightarrow> task_steps v x"

section \<open>Well-formed tasks\<close>

text \<open>
  What the machine keeps: a known status, an attempt counter between 0 and the bound, and room
  for the next attempt while one is due or running.
\<close>

definition task_wf :: "TaskView \<Rightarrow> bool" where
  "task_wf v \<longleftrightarrow>
     tv_Status v \<in> {StatusPending, StatusDelivering, StatusSucceeded, StatusRetrying, StatusFailed}
     \<and> 0 \<le> tv_Attempt v \<and> tv_Attempt v \<le> tv_Max v \<and> 1 \<le> tv_Max v \<and> tv_Max v \<le> 20
     \<and> (tv_Status v \<in> {StatusPending, StatusDelivering, StatusRetrying} \<longrightarrow> tv_Attempt v < tv_Max v)
     \<and> (tv_Status v = StatusPending \<longrightarrow> tv_Attempt v = 0)
     \<and> (tv_Status v \<in> {StatusRetrying, StatusSucceeded, StatusFailed} \<longrightarrow> 1 \<le> tv_Attempt v)"

lemma task_step_wf: "task_step v w \<Longrightarrow> task_wf v \<Longrightarrow> task_wf w"
  by (induction rule: task_step.induct)
     (auto simp: task_wf_def startable_def started_def finished_def requeued_def)

lemma task_step_max: "task_step v w \<Longrightarrow> tv_Max w = tv_Max v"
  by (induction rule: task_step.induct) (simp_all add: started_def finished_def requeued_def)

lemma task_steps_wf: "task_steps v w \<Longrightarrow> task_wf v \<Longrightarrow> task_wf w"
  by (induction rule: task_steps.induct) (auto intro: task_step_wf)

text \<open>A delivered notification stays delivered.\<close>

lemma task_step_succeeded: "task_step v w \<Longrightarrow> tv_Status v \<noteq> StatusSucceeded"
  by (auto elim!: task_stepE simp: startable_def)

lemma task_steps_succeeded: "task_steps v w \<Longrightarrow> tv_Status v = StatusSucceeded \<Longrightarrow> w = v"
  by (induction rule: task_steps.induct) (auto dest: task_step_succeeded)

lemma task_steps_trans: "task_steps v w \<Longrightarrow> task_steps u v \<Longrightarrow> task_steps u w"
  by (induction rule: task_steps.induct) (auto intro: task_steps.step)

text \<open>The only way out of \<open>failed\<close> is the manual requeue, which starts the count afresh.\<close>

lemma task_step_from_failed: "task_step v w \<Longrightarrow> tv_Status v = StatusFailed \<Longrightarrow> w = requeued v"
  by (auto elim!: task_stepE simp: startable_def)

lemma task_step_from_delivering:
  "task_step v w \<Longrightarrow> tv_Status v = StatusDelivering \<Longrightarrow>
     tv_Attempt w = tv_Attempt v + 1 \<and> tv_Status w \<in> {StatusSucceeded, StatusRetrying, StatusFailed}"
  by (auto elim!: task_stepE simp: startable_def finished_def)

end
