(* ===== verification/Go_Errors.thy ===== *)
theory Go_Errors
  imports Notify_Prelude
begin

text \<open>
  Go error values. An error is nil (\<open>None\<close>) or a value of the type \<open>goerror\<close>: a sentinel of the
  program, an error known by its text only (a library's, a driver's, \<^verbatim>\<open>fmt.Errorf\<close> without
  \<^verbatim>\<open>%w\<close>), an error wrapped by \<^verbatim>\<open>fmt.Errorf("..%w..")\<close>, two errors joined by \<^verbatim>\<open>errors.Join\<close>, or
  one of the error structs of \<^verbatim>\<open>ent/ent.go\<close>.
\<close>

section \<open>Error values\<close>

datatype sentinel =
    ErrInvalid
  | ErrNotFound
  | ErrConflict
  | ErrLostClaim
  | ErrBlockedTarget

datatype goerror =
    Sentinel sentinel
  | ErrText string
  | ErrWrap string goerror string
  | ErrJoin goerror goerror
  | UniqueViolation string
  | ValidationError string goerror
  | NotFoundError string
  | NotSingularError string
  | NotLoadedError string
  | ConstraintError string goerror

fun sentinel_text :: "sentinel \<Rightarrow> string" where
  "sentinel_text ErrInvalid = ''invalid notification request''"
| "sentinel_text ErrNotFound = ''notification not found''"
| "sentinel_text ErrConflict = ''notification state conflict''"
| "sentinel_text ErrLostClaim = ''outbox event claim was lost''"
| "sentinel_text ErrBlockedTarget = ''target resolves to a private or internal address''"

text \<open>\<^verbatim>\<open>err.Error()\<close>.\<close>

fun error_text :: "goerror \<Rightarrow> string" where
  "error_text (Sentinel s) = sentinel_text s"
| "error_text (ErrText t) = t"
| "error_text (ErrWrap pre e post) = pre @ error_text e @ post"
| "error_text (ErrJoin a b) = error_text a @ [CHR 10] @ error_text b"
| "error_text (UniqueViolation t) = t"
| "error_text (ValidationError name e) = error_text e"
| "error_text (NotFoundError label) = ''ent: '' @ label @ '' not found''"
| "error_text (NotSingularError label) = ''ent: '' @ label @ '' not singular''"
| "error_text (NotLoadedError edge) = ''ent: '' @ edge @ '' edge was not loaded''"
| "error_text (ConstraintError msg e) = ''ent: constraint failed: '' @ msg"

text \<open>\<^verbatim>\<open>errors.Is(err, sentinel)\<close>: the error itself or one it unwraps to.\<close>

fun errors_Is :: "goerror \<Rightarrow> sentinel \<Rightarrow> bool" where
  "errors_Is (Sentinel s) t \<longleftrightarrow> s = t"
| "errors_Is (ErrWrap pre e post) t \<longleftrightarrow> errors_Is e t"
| "errors_Is (ErrJoin a b) t \<longleftrightarrow> errors_Is a t \<or> errors_Is b t"
| "errors_Is (ValidationError name e) t \<longleftrightarrow> errors_Is e t"
| "errors_Is (ConstraintError msg e) t \<longleftrightarrow> errors_Is e t"
| "errors_Is _ t \<longleftrightarrow> False"

text \<open>\<^verbatim>\<open>errors.As(err, &e)\<close> for a struct type, given as the test on one link of the chain.\<close>

fun errors_As :: "(goerror \<Rightarrow> bool) \<Rightarrow> goerror \<Rightarrow> bool" where
  "errors_As is (ErrWrap pre e post) \<longleftrightarrow> is (ErrWrap pre e post) \<or> errors_As is e"
| "errors_As is (ErrJoin a b) \<longleftrightarrow> is (ErrJoin a b) \<or> errors_As is a \<or> errors_As is b"
| "errors_As is (ValidationError name e) \<longleftrightarrow> is (ValidationError name e) \<or> errors_As is e"
| "errors_As is (ConstraintError msg e) \<longleftrightarrow> is (ConstraintError msg e) \<or> errors_As is e"
| "errors_As is e \<longleftrightarrow> is e"

section \<open>The error helpers of ent/ent.go\<close>

definition IsValidationError :: "goerror option \<Rightarrow> bool" where
  "IsValidationError err =
     (case err of None \<Rightarrow> False
      | Some e \<Rightarrow> errors_As (\<lambda>x. case x of ValidationError _ _ \<Rightarrow> True | _ \<Rightarrow> False) e)"

definition IsNotFound :: "goerror option \<Rightarrow> bool" where
  "IsNotFound err =
     (case err of None \<Rightarrow> False
      | Some e \<Rightarrow> errors_As (\<lambda>x. case x of NotFoundError _ \<Rightarrow> True | _ \<Rightarrow> False) e)"

definition MaskNotFound :: "goerror option \<Rightarrow> goerror option" where
  "MaskNotFound err = (if IsNotFound err then None else err)"

definition IsNotSingular :: "goerror option \<Rightarrow> bool" where
  "IsNotSingular err =
     (case err of None \<Rightarrow> False
      | Some e \<Rightarrow> errors_As (\<lambda>x. case x of NotSingularError _ \<Rightarrow> True | _ \<Rightarrow> False) e)"

definition IsNotLoaded :: "goerror option \<Rightarrow> bool" where
  "IsNotLoaded err =
     (case err of None \<Rightarrow> False
      | Some e \<Rightarrow> errors_As (\<lambda>x. case x of NotLoadedError _ \<Rightarrow> True | _ \<Rightarrow> False) e)"

definition IsConstraintError :: "goerror option \<Rightarrow> bool" where
  "IsConstraintError err =
     (case err of None \<Rightarrow> False
      | Some e \<Rightarrow> errors_As (\<lambda>x. case x of ConstraintError _ _ \<Rightarrow> True | _ \<Rightarrow> False) e)"

text \<open>\<^verbatim>\<open>errors.Join(a, b)\<close> drops nil arguments.\<close>

fun errors_Join :: "goerror option \<Rightarrow> goerror option \<Rightarrow> goerror option" where
  "errors_Join None b = b"
| "errors_Join a None = a"
| "errors_Join (Some a) (Some b) = Some (ErrJoin a b)"

lemma errors_Join_None [simp]: "errors_Join a None = a"
  by (cases a) simp_all

lemma errors_Join_eq_None [simp]: "errors_Join a b = None \<longleftrightarrow> a = None \<and> b = None"
  by (cases a; cases b) simp_all

lemma IsNotFound_simps [simp]:
  "\<not> IsNotFound None"
  "IsNotFound (Some (NotFoundError l))"
  "\<not> IsNotFound (Some (NotSingularError l))"
  "\<not> IsNotFound (Some (ErrText t))"
  "\<not> IsNotFound (Some (Sentinel s))"
  by (simp_all add: IsNotFound_def)

end
