(* ===== verification/Sql_Model.thy ===== *)
theory Sql_Model
  imports Go_Errors "HOL-Library.List_Lexorder" "HOL-Library.Char_ord" "HOL-Library.Sublist"
    "HOL-Library.Product_Lexorder" "HOL-Library.Option_ord" "HOL-Library.Multiset"
begin

text \<open>
  The database as the program sees it. Column values with NULL, rows, the conditions of a WHERE
  clause under SQL's three-valued logic, and what INSERT, UPDATE and SELECT mean for the rows of
  the three tables. The database driver itself (the packages below \<^verbatim>\<open>entgo.io/ent\<close> and
  PostgreSQL) is a parameter: the record \<open>db\<close> lists the calls the program makes, the locale
  \<open>database\<close> the documented behaviour it relies on, errors included. At the end the locale is
  interpreted on a reference database that keeps the tables in memory and takes the outcome of
  each call from a script.
\<close>

section \<open>Columns, values and rows\<close>

datatype table = Table_notifications | Table_delivery_attempts | Table_outbox_events

datatype column =
    FieldID | FieldURL | FieldMethod | FieldHeaders | FieldBody | FieldStatus
  | FieldAttemptCount | FieldMaxAttempts | FieldLastError | FieldNextAttemptAt
  | FieldCreatedAt | FieldUpdatedAt
  | FieldNotificationID | FieldAttemptNumber | FieldHTTPStatus | FieldErrorMessage | FieldDurationMs
  | FieldEventType | FieldScheduledAt | FieldStreamID | FieldLockedBy | FieldLockedAt
  | FieldPublishedAt

datatype sql_value =
    VUuid uuid
  | VString string
  | VInt int
  | VTime time
  | VBytes bytes
  | VJson headers

text \<open>A row gives each column its value; \<open>None\<close> is NULL.\<close>

type_synonym row = "column \<Rightarrow> sql_value option"

type_synonym tables = "table \<Rightarrow> row list"

text \<open>\<open><\<close> on column values: undefined between values of different types and on JSON.\<close>

fun sql_less :: "sql_value \<Rightarrow> sql_value \<Rightarrow> bool option" where
  "sql_less (VInt a) (VInt b) = Some (a < b)"
| "sql_less (VTime a) (VTime b) = Some (a < b)"
| "sql_less (VUuid a) (VUuid b) = Some (a < b)"
| "sql_less (VString a) (VString b) = Some (a < b)"
| "sql_less (VBytes a) (VBytes b) = Some (a < b)"
| "sql_less _ _ = None"

section \<open>Conditions\<close>

text \<open>
  The conditions that the generated \<^verbatim>\<open>where.go\<close> files build with \<^verbatim>\<open>sql.FieldEQ\<close> and its kin,
  as syntax; \<open>sql_eval\<close> is their meaning, with \<open>None\<close> for SQL's UNKNOWN.
\<close>

datatype sql_pred =
    PEQ column sql_value
  | PNEQ column sql_value
  | PIn column "sql_value list"
  | PNotIn column "sql_value list"
  | PGT column sql_value
  | PGTE column sql_value
  | PLT column sql_value
  | PLTE column sql_value
  | PContains column string
  | PHasPrefix column string
  | PHasSuffix column string
  | PIsNull column
  | PNotNull column
  | PAnd "sql_pred list"
  | POr "sql_pred list"
  | PNot sql_pred

definition not3 :: "bool option \<Rightarrow> bool option" where
  "not3 a = map_option Not a"

definition and3 :: "bool option \<Rightarrow> bool option \<Rightarrow> bool option" where
  "and3 a b = (if a = Some False \<or> b = Some False then Some False
               else if a = None \<or> b = None then None else Some True)"

definition or3 :: "bool option \<Rightarrow> bool option \<Rightarrow> bool option" where
  "or3 a b = (if a = Some True \<or> b = Some True then Some True
              else if a = None \<or> b = None then None else Some False)"

definition str_test :: "(string \<Rightarrow> bool) \<Rightarrow> sql_value option \<Rightarrow> bool option" where
  "str_test f v = (case v of Some (VString s) \<Rightarrow> Some (f s) | _ \<Rightarrow> None)"

fun sql_eval :: "sql_pred \<Rightarrow> row \<Rightarrow> bool option" where
  "sql_eval (PEQ c v) r = map_option (\<lambda>x. x = v) (r c)"
| "sql_eval (PNEQ c v) r = map_option (\<lambda>x. x \<noteq> v) (r c)"
| "sql_eval (PIn c vs) r = (if vs = [] then Some False else map_option (\<lambda>x. x \<in> set vs) (r c))"
| "sql_eval (PNotIn c vs) r = (if vs = [] then Some True else map_option (\<lambda>x. x \<notin> set vs) (r c))"
| "sql_eval (PGT c v) r = Option.bind (r c) (\<lambda>x. sql_less v x)"
| "sql_eval (PGTE c v) r = Option.bind (r c) (\<lambda>x. not3 (sql_less x v))"
| "sql_eval (PLT c v) r = Option.bind (r c) (\<lambda>x. sql_less x v)"
| "sql_eval (PLTE c v) r = Option.bind (r c) (\<lambda>x. not3 (sql_less v x))"
| "sql_eval (PContains c s) r = str_test (\<lambda>x. sublist s x) (r c)"
| "sql_eval (PHasPrefix c s) r = str_test (\<lambda>x. prefix s x) (r c)"
| "sql_eval (PHasSuffix c s) r = str_test (\<lambda>x. suffix s x) (r c)"
| "sql_eval (PIsNull c) r = Some (r c = None)"
| "sql_eval (PNotNull c) r = Some (r c \<noteq> None)"
| "sql_eval (PAnd ps) r = fold (\<lambda>p a. and3 a (sql_eval p r)) ps (Some True)"
| "sql_eval (POr ps) r = fold (\<lambda>p a. or3 a (sql_eval p r)) ps (Some False)"
| "sql_eval (PNot p) r = not3 (sql_eval p r)"

text \<open>A WHERE clause keeps the rows for which the condition is true, not false or unknown.\<close>

definition sql_holds :: "sql_pred list \<Rightarrow> row \<Rightarrow> bool" where
  "sql_holds ps r \<longleftrightarrow> (\<forall>p\<in>set ps. sql_eval p r = Some True)"

lemma sql_holds_Nil [simp]: "sql_holds [] r"
  by (simp add: sql_holds_def)

lemma sql_holds_Cons [simp]: "sql_holds (p # ps) r \<longleftrightarrow> sql_eval p r = Some True \<and> sql_holds ps r"
  by (simp add: sql_holds_def)

lemma sql_eval_PEQ_True [simp]: "sql_eval (PEQ c v) r = Some True \<longleftrightarrow> r c = Some v"
  by (cases "r c") auto

lemma sql_eval_PIn_True [simp]:
  "sql_eval (PIn c vs) r = Some True \<longleftrightarrow> (\<exists>v\<in>set vs. r c = Some v)"
  by (cases "r c") auto

lemma and3_True [simp]: "and3 a b = Some True \<longleftrightarrow> a = Some True \<and> b = Some True"
  by (cases a; cases b) (auto simp: and3_def)

lemma fold_and3_True:
  "fold (\<lambda>p a. and3 a (f p)) ps a = Some True \<longleftrightarrow> a = Some True \<and> (\<forall>p\<in>set ps. f p = Some True)"
  by (induction ps arbitrary: a) auto

lemma sql_eval_PAnd_True: "sql_eval (PAnd ps) r = Some True \<longleftrightarrow> sql_holds ps r"
  by (simp add: fold_and3_True sql_holds_def)

declare sql_eval.simps(1,3) [simp del]

section \<open>An order on values\<close>

text \<open>The order that ORDER BY uses within one type; the order between types is immaterial.\<close>

fun sql_key :: "sql_value \<Rightarrow> nat \<times> int \<times> string \<times> (string \<times> string) list option" where
  "sql_key (VUuid u) = (0, uint u, [], None)"
| "sql_key (VString s) = (1, 0, s, None)"
| "sql_key (VInt i) = (2, i, [], None)"
| "sql_key (VTime t) = (3, t, [], None)"
| "sql_key (VBytes b) = (4, 0, b, None)"
| "sql_key (VJson h) = (5, 0, [], h)"

lemma sql_key_inj: "sql_key a = sql_key b \<Longrightarrow> a = b"
  by (cases a; cases b) (simp_all add: word_uint_eq_iff)

instantiation sql_value :: linorder
begin

definition less_eq_sql_value :: "sql_value \<Rightarrow> sql_value \<Rightarrow> bool" where
  "less_eq_sql_value a b \<longleftrightarrow> sql_key a \<le> sql_key b"

definition less_sql_value :: "sql_value \<Rightarrow> sql_value \<Rightarrow> bool" where
  "less_sql_value a b \<longleftrightarrow> sql_key a < sql_key b"

instance
  by standard
     (unfold less_eq_sql_value_def less_sql_value_def,
      simp_all only: less_le_not_le order.refl linear,
      auto intro: order.trans sql_key_inj dest: order.antisym)

end

lemma VTime_le [simp]: "VTime a \<le> VTime b \<longleftrightarrow> a \<le> b"
  by (auto simp: less_eq_sql_value_def)

text \<open>ORDER BY with several columns, ascending, NULLs last.\<close>

fun column_le :: "sql_value option \<Rightarrow> sql_value option \<Rightarrow> bool" where
  "column_le _ None \<longleftrightarrow> True"
| "column_le None (Some _) \<longleftrightarrow> False"
| "column_le (Some a) (Some b) \<longleftrightarrow> a \<le> b"

fun order_le :: "column list \<Rightarrow> row \<Rightarrow> row \<Rightarrow> bool" where
  "order_le [] a b \<longleftrightarrow> True"
| "order_le (c # cs) a b \<longleftrightarrow> column_le (a c) (b c) \<and> (a c = b c \<longrightarrow> order_le cs a b)"

section \<open>Statements\<close>

text \<open>The specifications that the generated builders hand to \<^verbatim>\<open>sqlgraph\<close>.\<close>

record CreateSpec =
  cs_Table :: table
  cs_ID :: "uuid option"
  cs_Fields :: "(column \<times> sql_value) list"

record UpdateSpec =
  us_Table :: table
  us_Predicate :: "sql_pred list"
  us_Set :: "(column \<times> sql_value) list"
  us_Add :: "(column \<times> int) list"
  us_Clear :: "column list"

record QuerySpec =
  qs_Table :: table
  qs_Columns :: "column list"
  qs_Predicate :: "sql_pred list"
  qs_Order :: "column list"
  qs_Limit :: int
  qs_Offset :: int
  qs_Unique :: bool

text \<open>\<^verbatim>\<open>INSERT\<close>: columns that are not named are NULL; the primary key is the column \<open>id\<close>.\<close>

definition spec_row :: "CreateSpec \<Rightarrow> row" where
  "spec_row sp = (\<lambda>c. if c = FieldID then map_option VUuid (cs_ID sp) else map_of (cs_Fields sp) c)"

definition sql_insert :: "table \<Rightarrow> row \<Rightarrow> tables \<Rightarrow> (goerror + unit) \<times> tables" where
  "sql_insert tb r ts =
     (if \<exists>x\<in>set (ts tb). x FieldID = r FieldID
      then (Inl (UniqueViolation ''duplicate key value violates unique constraint''), ts)
      else (Inr (), ts(tb := ts tb @ [r])))"

definition stmt_create :: "CreateSpec \<Rightarrow> tables \<Rightarrow> (goerror + unit) \<times> tables" where
  "stmt_create sp = sql_insert (cs_Table sp) (spec_row sp)"

text \<open>\<^verbatim>\<open>UPDATE .. SET .. WHERE ..\<close> returns the number of rows it rewrote.\<close>

definition sql_update :: "table \<Rightarrow> sql_pred list \<Rightarrow> (row \<Rightarrow> row) \<Rightarrow> tables \<Rightarrow> (goerror + int) \<times> tables" where
  "sql_update tb ps f ts =
     (Inr (int (count_where (sql_holds ps) (ts tb))),
      ts(tb := update_where (sql_holds ps) f (ts tb)))"

definition add_int :: "sql_value option \<Rightarrow> int \<Rightarrow> sql_value option" where
  "add_int v n = (case v of Some (VInt m) \<Rightarrow> Some (VInt (m + n)) | None \<Rightarrow> Some (VInt n) | _ \<Rightarrow> v)"

definition spec_update :: "UpdateSpec \<Rightarrow> row \<Rightarrow> row" where
  "spec_update sp r =
     (let r1 = fold (\<lambda>c x. x(c := None)) (us_Clear sp) r;
          r2 = fold (\<lambda>(c, v) x. x(c := Some v)) (us_Set sp) r1
      in fold (\<lambda>(c, n) x. x(c := add_int (x c) n)) (us_Add sp) r2)"

definition stmt_update :: "UpdateSpec \<Rightarrow> tables \<Rightarrow> (goerror + int) \<times> tables" where
  "stmt_update sp = sql_update (us_Table sp) (us_Predicate sp) (spec_update sp)"

text \<open>
  What rows a \<^verbatim>\<open>SELECT\<close> may return: the matching rows in an order that respects ORDER BY, cut
  at the limit (0 is no limit).
\<close>

definition selected :: "QuerySpec \<Rightarrow> tables \<Rightarrow> row list \<Rightarrow> bool" where
  "selected q ts rs \<longleftrightarrow>
     (\<exists>xs. mset xs = mset (filter (sql_holds (qs_Predicate q)) (ts (qs_Table q)))
         \<and> sorted_wrt (order_le (qs_Order q)) xs
         \<and> rs = (if qs_Limit q = 0 then xs else take (nat (qs_Limit q)) xs))"

text \<open>
  One statement sent to the server: it took effect and its answer came back; or the caller sees
  an error, and the statement had no effect (a refusal) or took effect unnoticed (the connection
  broke before the answer).
\<close>

definition served :: "(tables \<Rightarrow> (goerror + 'a) \<times> tables) \<Rightarrow> tables \<Rightarrow> (goerror + 'a) \<Rightarrow> tables \<Rightarrow> bool" where
  "served stmt t r t' \<longleftrightarrow> stmt t = (r, t') \<or> (\<exists>e. r = Inl e \<and> (t' = t \<or> t' = snd (stmt t)))"

lemma servedE:
  assumes "served stmt t r t'"
  obtains (answered) "stmt t = (r, t')"
    | (refused) e where "r = Inl e" "t' = t"
    | (unnoticed) e where "r = Inl e" "t' = snd (stmt t)"
  using assms unfolding served_def by blast

section \<open>The database driver\<close>

text \<open>
  The calls the program makes: statements through \<^verbatim>\<open>sqlgraph\<close>, transactions through
  \<^verbatim>\<open>dialect.Driver\<close>, the clock, and \<^verbatim>\<open>uuid.New\<close>. Every call may change the state of the world
  \<open>'w\<close>.
\<close>

record 'w db =
  CreateNode :: "CreateSpec \<Rightarrow> 'w \<Rightarrow> (goerror + unit) \<times> 'w"
  UpdateNodes :: "UpdateSpec \<Rightarrow> 'w \<Rightarrow> (goerror + int) \<times> 'w"
  QueryNodes :: "QuerySpec \<Rightarrow> 'w \<Rightarrow> (goerror + row list) \<times> 'w"
  IsSqlConstraintError :: "goerror \<Rightarrow> bool"
  IsSqlNotFoundError :: "goerror \<Rightarrow> bool"
  BeginTx :: "'w \<Rightarrow> goerror option \<times> 'w"
  CommitTx :: "'w \<Rightarrow> goerror option \<times> 'w"
  RollbackTx :: "'w \<Rightarrow> goerror option \<times> 'w"
  time_Now :: "'w \<Rightarrow> time \<times> 'w"
  uuid_New :: "'w \<Rightarrow> uuid \<times> 'w"

text \<open>
  The documented behaviour: \<open>tabs\<close> are the tables as the session sees them, \<open>snap\<close> the tables
  to return to while a transaction is open. A COMMIT that reports an error has been rolled back
  by the server or has committed without the client learning so. A transaction is observed as
  one step: the sessions that run beside it are those of the interleaving model.
\<close>

locale database =
  fixes db :: "'w db"
    and tabs :: "'w \<Rightarrow> tables"
    and snap :: "'w \<Rightarrow> tables option"
  assumes create_served: "CreateNode db sp w = (r, w') \<Longrightarrow>
      served (stmt_create sp) (tabs w) r (tabs w') \<and> snap w' = snap w"
    and update_served: "us_Set usp \<noteq> [] \<Longrightarrow> UpdateNodes db usp w = (n, w') \<Longrightarrow>
      served (stmt_update usp) (tabs w) n (tabs w') \<and> snap w' = snap w"
    and query_frame: "QueryNodes db q w = (rs, w') \<Longrightarrow> tabs w' = tabs w \<and> snap w' = snap w"
    and query_rows: "qs_Offset q = 0 \<Longrightarrow> \<not> qs_Unique q \<Longrightarrow> QueryNodes db q w = (Inr xs, w') \<Longrightarrow>
      selected q (tabs w) xs"
    and begin_None: "BeginTx db w = (None, w') \<Longrightarrow> tabs w' = tabs w \<and> snap w' = Some (tabs w)"
    and begin_Some: "BeginTx db w = (Some e, w') \<Longrightarrow> tabs w' = tabs w \<and> snap w' = snap w"
    and commit_None: "snap w = Some t \<Longrightarrow> CommitTx db w = (None, w') \<Longrightarrow> tabs w' = tabs w \<and> snap w' = None"
    and commit_Some: "snap w = Some t \<Longrightarrow> CommitTx db w = (Some e, w') \<Longrightarrow>
      (tabs w' = t \<or> tabs w' = tabs w) \<and> snap w' = None"
    and rollback_open: "snap w = Some t \<Longrightarrow> RollbackTx db w = (x, w') \<Longrightarrow> tabs w' = t \<and> snap w' = None"
    and rollback_closed: "snap w = None \<Longrightarrow> RollbackTx db w = (x, w') \<Longrightarrow> tabs w' = tabs w \<and> snap w' = None"
    and now_frame: "time_Now db w = (tm, w') \<Longrightarrow> tabs w' = tabs w \<and> snap w' = snap w"
    and uuid_frame: "uuid_New db w = (u, w') \<Longrightarrow> tabs w' = tabs w \<and> snap w' = snap w"

section \<open>A reference database\<close>

text \<open>
  An in-memory database whose calls are answered from a script: \<open>Done\<close>, \<open>Refused\<close> with an error
  and no effect, or \<open>Unacked\<close> with an error after the effect.
\<close>

datatype outcome =
    Done
  | Refused string
  | Unacked string

record pg =
  pg_tables :: tables
  pg_tx :: "tables option"
  pg_clock :: "time choices"
  pg_rand :: "uuid choices"
  pg_net :: "outcome choices"

definition pg_call :: "(tables \<Rightarrow> (goerror + 'a) \<times> tables) \<Rightarrow> 'x pg_scheme \<Rightarrow> (goerror + 'a) \<times> 'x pg_scheme" where
  "pg_call stmt s =
     (let s1 = s\<lparr>pg_net := choices_tl (pg_net s)\<rparr> in
      case pg_net s 0 of
        Done \<Rightarrow> (case stmt (pg_tables s) of (res, t) \<Rightarrow> (res, s1\<lparr>pg_tables := t\<rparr>))
      | Refused m \<Rightarrow> (Inl (ErrText m), s1)
      | Unacked m \<Rightarrow> (case stmt (pg_tables s) of (_, t) \<Rightarrow> (Inl (ErrText m), s1\<lparr>pg_tables := t\<rparr>)))"

fun order_insert :: "column list \<Rightarrow> row \<Rightarrow> row list \<Rightarrow> row list" where
  "order_insert cs r [] = [r]"
| "order_insert cs r (x # xs) = (if order_le cs r x then r # x # xs else x # order_insert cs r xs)"

definition order_rows :: "column list \<Rightarrow> row list \<Rightarrow> row list" where
  "order_rows cs rs = foldr (order_insert cs) rs []"

definition stmt_query :: "QuerySpec \<Rightarrow> tables \<Rightarrow> (goerror + row list) \<times> tables" where
  "stmt_query q ts =
     (let rs = order_rows (qs_Order q) (filter (sql_holds (qs_Predicate q)) (ts (qs_Table q)))
      in (Inr (if qs_Limit q = 0 then rs else take (nat (qs_Limit q)) rs), ts))"

definition pg_begin :: "'x pg_scheme \<Rightarrow> goerror option \<times> 'x pg_scheme" where
  "pg_begin s =
     (let s1 = s\<lparr>pg_net := choices_tl (pg_net s)\<rparr> in
      case pg_net s 0 of
        Done \<Rightarrow> (None, s1\<lparr>pg_tx := Some (pg_tables s)\<rparr>)
      | Refused m \<Rightarrow> (Some (ErrText m), s1)
      | Unacked m \<Rightarrow> (Some (ErrText m), s1))"

definition pg_commit :: "'x pg_scheme \<Rightarrow> goerror option \<times> 'x pg_scheme" where
  "pg_commit s =
     (let s1 = s\<lparr>pg_net := choices_tl (pg_net s)\<rparr> in
      case pg_net s 0 of
        Done \<Rightarrow> (None, s1\<lparr>pg_tx := None\<rparr>)
      | Refused m \<Rightarrow>
          (Some (ErrText m),
           s1\<lparr>pg_tables := (case pg_tx s of None \<Rightarrow> pg_tables s | Some t \<Rightarrow> t), pg_tx := None\<rparr>)
      | Unacked m \<Rightarrow> (Some (ErrText m), s1\<lparr>pg_tx := None\<rparr>))"

definition pg_rollback :: "'x pg_scheme \<Rightarrow> goerror option \<times> 'x pg_scheme" where
  "pg_rollback s =
     (case pg_tx s of
        None \<Rightarrow> (Some (ErrText ''sql: transaction has already been committed or rolled back''), s)
      | Some t \<Rightarrow> (None, s\<lparr>pg_tables := t, pg_tx := None\<rparr>))"

definition pg_now :: "'x pg_scheme \<Rightarrow> time \<times> 'x pg_scheme" where
  "pg_now s = (pg_clock s 0, s\<lparr>pg_clock := choices_tl (pg_clock s)\<rparr>)"

definition pg_db :: "'x pg_scheme db" where
  "pg_db = \<lparr>CreateNode = (\<lambda>sp. pg_call (stmt_create sp)),
            UpdateNodes = (\<lambda>sp. pg_call (stmt_update sp)),
            QueryNodes = (\<lambda>q. pg_call (stmt_query q)),
            IsSqlConstraintError = (\<lambda>e. case e of UniqueViolation _ \<Rightarrow> True | _ \<Rightarrow> False),
            IsSqlNotFoundError = (\<lambda>e. False),
            BeginTx = pg_begin, CommitTx = pg_commit, RollbackTx = pg_rollback,
            time_Now = pg_now,
            uuid_New = (\<lambda>s. (pg_rand s 0, s\<lparr>pg_rand := choices_tl (pg_rand s)\<rparr>))\<rparr>"

lemma column_le_total: "\<not> column_le a b \<Longrightarrow> column_le b a \<and> a \<noteq> b"
  by (cases a; cases b) auto

lemma column_le_trans: "column_le a b \<Longrightarrow> column_le b c \<Longrightarrow> column_le a c"
  by (cases a; cases b; cases c) auto

lemma column_le_antisym: "column_le a b \<Longrightarrow> column_le b a \<Longrightarrow> a = b"
  by (cases a; cases b) auto

lemma column_le_refl [simp]: "column_le a a"
  by (cases a) auto

lemma order_le_total: "\<not> order_le cs a b \<Longrightarrow> order_le cs b a"
  by (induction cs) (auto dest: column_le_total column_le_antisym)

lemma order_le_trans: "order_le cs a b \<Longrightarrow> order_le cs b c \<Longrightarrow> order_le cs a c"
  by (induction cs) (auto intro: column_le_trans dest: column_le_antisym)

lemma mset_order_insert [simp]: "mset (order_insert cs r xs) = add_mset r (mset xs)"
  by (induction xs) auto

lemma mset_order_rows [simp]: "mset (order_rows cs xs) = mset xs"
  by (induction xs) (auto simp: order_rows_def)

lemma sorted_order_insert:
  "sorted_wrt (order_le cs) xs \<Longrightarrow> sorted_wrt (order_le cs) (order_insert cs r xs)"
proof (induction xs)
  case Nil
  then show ?case by simp
next
  case (Cons x xs)
  have "set (order_insert cs r xs) = insert r (set xs)"
    using mset_order_insert [of cs r xs] by (metis set_mset_add_mset_insert set_mset_mset)
  with Cons show ?case
    by (auto intro: order_le_trans dest: order_le_total)
qed

lemma sorted_order_rows: "sorted_wrt (order_le cs) (order_rows cs xs)"
  by (induction xs) (simp_all add: order_rows_def sorted_order_insert)

lemma pg_call_served:
  "pg_call stmt s = (r, s') \<Longrightarrow> served stmt (pg_tables s) r (pg_tables s') \<and> pg_tx s' = pg_tx s"
  by (auto simp: pg_call_def served_def Let_def split: outcome.splits prod.splits)

lemma pg_call_query:
  "pg_call (stmt_query q) s = (r, s') \<Longrightarrow> pg_tables s' = pg_tables s \<and> pg_tx s' = pg_tx s"
  by (auto simp: pg_call_def stmt_query_def Let_def split: outcome.splits)

lemma pg_call_query_rows:
  "pg_call (stmt_query q) s = (Inr xs, s') \<Longrightarrow> selected q (pg_tables s) xs"
  unfolding selected_def
  by (rule exI [of _ "order_rows (qs_Order q) (filter (sql_holds (qs_Predicate q)) (pg_tables s (qs_Table q)))"])
     (auto simp: pg_call_def stmt_query_def Let_def sorted_order_rows split: outcome.splits)

interpretation pg: database pg_db pg_tables pg_tx
  by unfold_locales
     (auto simp: pg_db_def pg_now_def pg_call_served pg_call_query pg_call_query_rows pg_begin_def pg_commit_def
        pg_rollback_def Let_def split: outcome.splits option.splits)

end
