(* ===== verification/Go_Strings.thy ===== *)
theory Go_Strings
  imports Notify_Prelude "HOL-Library.Sublist"
begin

text \<open>
  The functions of Go's \<^verbatim>\<open>strings\<close>, \<^verbatim>\<open>strconv\<close> and \<^verbatim>\<open>fmt\<close> that the program calls, on byte
  strings. The case tables of Unicode (\<^verbatim>\<open>strings.ToUpper\<close>, \<^verbatim>\<open>strings.ToLower\<close> on text with a
  byte outside ASCII) are a parameter; on ASCII text the functions are defined here.
\<close>

section \<open>Bytes\<close>

definition byte :: "char \<Rightarrow> nat" where
  "byte c = of_char c"

definition is_ascii :: "string \<Rightarrow> bool" where
  "is_ascii s \<longleftrightarrow> (\<forall>c\<in>set s. byte c < 128)"

definition is_digit :: "char \<Rightarrow> bool" where
  "is_digit c \<longleftrightarrow> 48 \<le> byte c \<and> byte c \<le> 57"

definition digit_value :: "char \<Rightarrow> nat" where
  "digit_value c = byte c - 48"

lemma is_ascii_Nil [simp]: "is_ascii []"
  by (simp add: is_ascii_def)

lemma is_ascii_Cons [simp]: "is_ascii (c # s) \<longleftrightarrow> byte c < 128 \<and> is_ascii s"
  by (simp add: is_ascii_def)

lemma is_ascii_append [simp]: "is_ascii (s @ t) \<longleftrightarrow> is_ascii s \<and> is_ascii t"
  by (auto simp: is_ascii_def)

section \<open>Case mapping\<close>

record unicode =
  uc_ToUpper :: "string \<Rightarrow> string"
  uc_ToLower :: "string \<Rightarrow> string"

definition ascii_upper :: "char \<Rightarrow> char" where
  "ascii_upper c = (if 97 \<le> byte c \<and> byte c \<le> 122 then char_of (byte c - 32) else c)"

definition ascii_lower :: "char \<Rightarrow> char" where
  "ascii_lower c = (if 65 \<le> byte c \<and> byte c \<le> 90 then char_of (byte c + 32) else c)"

definition ToUpper :: "unicode \<Rightarrow> string \<Rightarrow> string" where
  "ToUpper u s = (if is_ascii s then map ascii_upper s else uc_ToUpper u s)"

definition ToLower :: "unicode \<Rightarrow> string \<Rightarrow> string" where
  "ToLower u s = (if is_ascii s then map ascii_lower s else uc_ToLower u s)"

section \<open>Trimming\<close>

text \<open>
  The UTF-8 encodings of the runes for which \<^verbatim>\<open>unicode.IsSpace\<close> holds: tab to carriage return,
  space, U+0085, U+00A0, U+1680, U+2000 to U+200A, U+2028, U+2029, U+202F, U+205F, U+3000.
\<close>

definition space_runes :: "nat list list" where
  "space_runes =
     [[9], [10], [11], [12], [13], [32], [194, 133], [194, 160], [225, 154, 128]]
     @ map (\<lambda>i. [226, 128, i]) ([128, 129, 130, 131, 132, 133, 134, 135, 136, 137, 138] @ [168, 169, 175])
     @ [[226, 129, 159], [227, 128, 128]]"

fun strip_rune :: "nat list list \<Rightarrow> nat list \<Rightarrow> nat list option" where
  "strip_rune [] s = None"
| "strip_rune (w # ws) s = (if prefix w s then Some (drop (length w) s) else strip_rune ws s)"

lemma strip_rune_shorter:
  "strip_rune ws s = Some t \<Longrightarrow> [] \<notin> set ws \<Longrightarrow> length t < length s"
  by (induction ws s rule: strip_rune.induct) (auto split: if_splits simp: prefix_def)

lemma space_runes_nonempty: "[] \<notin> set space_runes" "[] \<notin> set (map rev space_runes)"
  by (auto simp: space_runes_def)

function trim_runes :: "bool \<Rightarrow> nat list \<Rightarrow> nat list" where
  "trim_runes backwards s =
     (case strip_rune (if backwards then map rev space_runes else space_runes) s of
        None \<Rightarrow> s | Some t \<Rightarrow> trim_runes backwards t)"
  by pat_completeness auto
termination
  by (relation "measure (\<lambda>(b, s). length s)")
     (auto intro!: strip_rune_shorter simp: space_runes_nonempty split: if_splits
        dest: strip_rune_shorter [OF _ space_runes_nonempty(1)] strip_rune_shorter [OF _ space_runes_nonempty(2)])

declare trim_runes.simps [simp del]

text \<open>\<^verbatim>\<open>strings.TrimSpace\<close>: leading runes, then trailing runes, read backwards.\<close>

definition TrimSpace :: "string \<Rightarrow> string" where
  "TrimSpace s = map char_of (rev (trim_runes True (rev (trim_runes False (map byte s)))))"

text \<open>\<^verbatim>\<open>strings.TrimSuffix\<close>.\<close>

definition TrimSuffix :: "string \<Rightarrow> string \<Rightarrow> string" where
  "TrimSuffix s t = (if suffix t s then take (length s - length t) s else s)"

text \<open>\<^verbatim>\<open>strings.ContainsAny\<close> with ASCII characters.\<close>

definition ContainsAny :: "string \<Rightarrow> string \<Rightarrow> bool" where
  "ContainsAny s chars \<longleftrightarrow> (\<exists>c\<in>set s. c \<in> set chars)"

section \<open>Numbers as text\<close>

fun nat_digits :: "nat \<Rightarrow> string" where
  "nat_digits n = (if n < 10 then [char_of (48 + n)]
                   else nat_digits (n div 10) @ [char_of (48 + n mod 10)])"

declare nat_digits.simps [simp del]

text \<open>\<^verbatim>\<open>strconv.Itoa\<close>, and \<^verbatim>\<open>%d\<close> of \<^verbatim>\<open>fmt\<close>.\<close>

definition Itoa :: "int \<Rightarrow> string" where
  "Itoa n = (if n < 0 then CHR ''-'' # nat_digits (nat (- n)) else nat_digits (nat n))"

text \<open>
  \<^verbatim>\<open>strconv.Atoi\<close> into a 64-bit int: an optional sign, at least one digit, nothing else, in range.
\<close>

definition digits_value :: "string \<Rightarrow> nat" where
  "digits_value s = foldl (\<lambda>n c. 10 * n + digit_value c) 0 s"

definition Atoi :: "string \<Rightarrow> int option" where
  "Atoi s =
     (let (neg, ds) = (case s of c # cs \<Rightarrow> if c = CHR ''-'' then (True, cs)
                                           else if c = CHR ''+'' then (False, cs) else (False, s)
                               | [] \<Rightarrow> (False, []));
          v = (if neg then - int (digits_value ds) else int (digits_value ds))
      in if ds = [] \<or> \<not> list_all is_digit ds then None
         else if - (2 ^ 63) \<le> v \<and> v < 2 ^ 63 then Some v else None)"

text \<open>
  \<^verbatim>\<open>%q\<close> (\<^verbatim>\<open>strconv.Quote\<close>): ASCII control characters, the quote and the backslash are escaped.
  Bytes of text outside ASCII are kept (Go escapes the unprintable runes among them).
\<close>

definition hex_digit :: "nat \<Rightarrow> char" where
  "hex_digit n = char_of (if n < 10 then 48 + n else 87 + n)"

definition quote_byte :: "char \<Rightarrow> string" where
  "quote_byte c =
     (if c = CHR 34 \<or> c = CHR 92 then [CHR 92, c]
      else if byte c = 7 then [CHR 92, CHR ''a'']
      else if byte c = 8 then [CHR 92, CHR ''b'']
      else if byte c = 12 then [CHR 92, CHR ''f'']
      else if byte c = 10 then [CHR 92, CHR ''n'']
      else if byte c = 13 then [CHR 92, CHR ''r'']
      else if byte c = 9 then [CHR 92, CHR ''t'']
      else if byte c = 11 then [CHR 92, CHR ''v'']
      else if byte c < 32 \<or> byte c = 127
           then [CHR 92, CHR ''x'', hex_digit (byte c div 16), hex_digit (byte c mod 16)]
      else [c])"

definition Quote :: "string \<Rightarrow> string" where
  "Quote s = [CHR 34] @ concat (map quote_byte s) @ [CHR 34]"

section \<open>Facts\<close>

lemma char_of_byte [simp]: "char_of (byte c) = c"
  by (simp add: byte_def)

lemma byte_eq_iff [simp]: "byte c = byte d \<longleftrightarrow> c = d"
  by (simp add: byte_def)

lemma byte_less_256: "byte c < 256"
  unfolding byte_def by (metis of_char_of nat_of_char_less_256)

lemma byte_char_of [simp]: "n < 256 \<Longrightarrow> byte (char_of n) = n"
  by (simp add: byte_def of_char_of)

lemma byte_ascii_upper: "byte (ascii_upper c) < 128 \<longleftrightarrow> byte c < 128"
  by (auto simp: ascii_upper_def)

lemma byte_ascii_lower: "byte (ascii_lower c) < 128 \<longleftrightarrow> byte c < 128"
  by (auto simp: ascii_lower_def)

lemma ascii_upper_idem [simp]: "ascii_upper (ascii_upper c) = ascii_upper c"
  by (auto simp: ascii_upper_def)

lemma ascii_lower_idem [simp]: "ascii_lower (ascii_lower c) = ascii_lower c"
  by (auto simp: ascii_lower_def)

lemma is_ascii_map_upper [simp]: "is_ascii (map ascii_upper s) \<longleftrightarrow> is_ascii s"
  by (auto simp: is_ascii_def byte_ascii_upper)

lemma is_ascii_map_lower [simp]: "is_ascii (map ascii_lower s) \<longleftrightarrow> is_ascii s"
  by (auto simp: is_ascii_def byte_ascii_lower)

lemma ToUpper_ascii: "is_ascii s \<Longrightarrow> ToUpper u s = map ascii_upper s"
  by (simp add: ToUpper_def)

lemma ToLower_ascii: "is_ascii s \<Longrightarrow> ToLower u s = map ascii_lower s"
  by (simp add: ToLower_def)

lemma ToUpper_Nil [simp]: "ToUpper u [] = []"
  by (simp add: ToUpper_def)

lemma ToLower_Nil [simp]: "ToLower u [] = []"
  by (simp add: ToLower_def)

lemma strip_rune_None_iff: "strip_rune ws s = None \<longleftrightarrow> (\<forall>w\<in>set ws. \<not> prefix w s)"
  by (induction ws s rule: strip_rune.induct) auto

lemma trim_runes_fixed:
  "strip_rune (if b then map rev space_runes else space_runes) (trim_runes b s) = None"
proof (induction b s rule: trim_runes.induct)
  case (1 b s)
  show ?case
  proof (cases "strip_rune (if b then map rev space_runes else space_runes) s")
    case None
    then show ?thesis by (simp add: trim_runes.simps [of b s])
  next
    case (Some t)
    then show ?thesis using 1 [OF Some] by (simp add: trim_runes.simps [of b s])
  qed
qed

lemma trim_runes_None:
  "strip_rune (if b then map rev space_runes else space_runes) s = None \<Longrightarrow> trim_runes b s = s"
  by (simp add: trim_runes.simps)

text \<open>Text of visible ASCII characters is not trimmed.\<close>

definition visible :: "char \<Rightarrow> bool" where
  "visible c \<longleftrightarrow> 33 \<le> byte c \<and> byte c < 128"

lemma strip_rune_visible:
  assumes "list_all visible s"
  shows "strip_rune (if b then map rev space_runes else space_runes) (map byte s) = None"
  using assms by (cases s) (auto simp: strip_rune_None_iff visible_def space_runes_def)

lemma TrimSpace_visible: "list_all visible s \<Longrightarrow> TrimSpace s = s"
  using strip_rune_visible [of s False] strip_rune_visible [of "rev s" True]
  by (simp add: TrimSpace_def trim_runes_None rev_map comp_def)

lemma nat_digits_nonempty [simp]: "nat_digits n \<noteq> []"
  by (subst nat_digits.simps) simp

lemma is_digit_char_of: "(n::nat) < 10 \<Longrightarrow> is_digit (char_of (48 + n))"
  by (simp add: is_digit_def)

lemma nat_digits_are_digits: "list_all is_digit (nat_digits n)"
proof (induction n rule: nat_digits.induct)
  case (1 n)
  then show ?case
    by (subst nat_digits.simps) (simp add: is_digit_char_of)
qed

lemma digits_value_snoc [simp]: "digits_value (s @ [c]) = 10 * digits_value s + digit_value c"
  by (simp add: digits_value_def)

lemma digits_value_nat_digits [simp]: "digits_value (nat_digits n) = n"
proof (induction n rule: nat_digits.induct)
  case (1 n)
  show ?case
  proof (cases "n < 10")
    case True
    then show ?thesis
      by (subst nat_digits.simps) (simp add: digits_value_def digit_value_def)
  next
    case False
    with 1 have IH: "digits_value (nat_digits (n div 10)) = n div 10" by simp
    from False show ?thesis
      by (subst nat_digits.simps) (simp add: IH digit_value_def)
  qed
qed

lemma digit_not_sign: "is_digit c \<Longrightarrow> c \<noteq> CHR ''-'' \<and> c \<noteq> CHR ''+''"
  by (auto simp: is_digit_def byte_def)

text \<open>Evaluated on binary numbers.\<close>

definition digits_int :: "string \<Rightarrow> int" where
  "digits_int s = foldl (\<lambda>n c. 10 * n + int (digit_value c)) 0 s"

lemma digits_int_value: "int (digits_value s) = digits_int s"
  by (induction s rule: rev_induct) (simp_all add: digits_value_def digits_int_def)

lemmas Atoi_code [code] = Atoi_def [unfolded digits_int_value]

text \<open>\<^verbatim>\<open>Atoi\<close> reads back what \<^verbatim>\<open>Itoa\<close> prints.\<close>

lemma Atoi_Itoa:
  assumes "- (2 ^ 63) \<le> n" "n < 2 ^ 63"
  shows "Atoi (Itoa n) = Some n"
proof (cases "n < 0")
  case True
  then show ?thesis using assms
    by (simp add: Atoi_def Itoa_def nat_digits_are_digits)
next
  case False
  obtain c cs where c: "nat_digits (nat n) = c # cs"
    by (cases "nat_digits (nat n)") auto
  then have "is_digit c" using nat_digits_are_digits [of "nat n"] by simp
  then have "c \<noteq> CHR ''-''" "c \<noteq> CHR ''+''" by (auto dest: digit_not_sign)
  moreover have "list_all is_digit (c # cs)" "digits_value (c # cs) = nat n"
    using nat_digits_are_digits [of "nat n"] digits_value_nat_digits [of "nat n"] by (simp_all add: c)
  ultimately show ?thesis using False assms
    by (simp add: Atoi_def Itoa_def c)
qed

section \<open>Identifiers as digits\<close>

text \<open>
  The environment prints identifiers injectively; the concrete worlds of the development use the
  decimal digits of the 128-bit number.
\<close>

definition uuid_digits :: "uuid \<Rightarrow> string" where
  "uuid_digits u = nat_digits (unat u)"

lemma digits_value_uuid [simp]: "of_nat (digits_value (uuid_digits u)) = u"
  by (simp add: uuid_digits_def)

lemma uuid_digits_inj: "uuid_digits a = uuid_digits b \<Longrightarrow> a = b"
  by (metis digits_value_uuid)

end
