(* ===== verification/Ent_Types.thy ===== *)
theory Ent_Types
  imports Sql_Model Go_Strings
begin

text \<open>
  The data of the ORM layer (\<^verbatim>\<open>ent/\<close>): column names, the values a mutation carries, the schema
  (\<^verbatim>\<open>ent/schema/*.go\<close>) and the defaults that \<^verbatim>\<open>ent/runtime.go\<close> takes from it, the scanning of
  result rows, and for each of the three entities its struct, columns, status constants and
  validators, \<^verbatim>\<open>scanValues\<close> and \<^verbatim>\<open>assignValues\<close>.

  JSON columns are kept decoded: the text of a JSON object and the map it stands for are not told
  apart. A nil byte slice and an empty one are not told apart either.
\<close>

section \<open>Columns and values\<close>

fun column_name :: "column \<Rightarrow> string" where
  "column_name FieldID = ''id''"
| "column_name FieldURL = ''url''"
| "column_name FieldMethod = ''method''"
| "column_name FieldHeaders = ''headers''"
| "column_name FieldBody = ''body''"
| "column_name FieldStatus = ''status''"
| "column_name FieldAttemptCount = ''attempt_count''"
| "column_name FieldMaxAttempts = ''max_attempts''"
| "column_name FieldLastError = ''last_error''"
| "column_name FieldNextAttemptAt = ''next_attempt_at''"
| "column_name FieldCreatedAt = ''created_at''"
| "column_name FieldUpdatedAt = ''updated_at''"
| "column_name FieldNotificationID = ''notification_id''"
| "column_name FieldAttemptNumber = ''attempt_number''"
| "column_name FieldHTTPStatus = ''http_status''"
| "column_name FieldErrorMessage = ''error_message''"
| "column_name FieldDurationMs = ''duration_ms''"
| "column_name FieldEventType = ''event_type''"
| "column_name FieldScheduledAt = ''scheduled_at''"
| "column_name FieldStreamID = ''stream_id''"
| "column_name FieldLockedBy = ''locked_by''"
| "column_name FieldLockedAt = ''locked_at''"
| "column_name FieldPublishedAt = ''published_at''"

datatype Op = OpCreate | OpDelete | OpDeleteOne | OpUpdate | OpUpdateOne

text \<open>\<^verbatim>\<open>ent.Value\<close>: a value with its dynamic type.\<close>

datatype ent_value =
    GoUUID uuid
  | GoString string
  | GoInt int
  | GoInt64 int
  | GoTime time
  | GoBytes bytes
  | GoMap headers
  | GoNotificationStatus string
  | GoDeliveryAttemptStatus string
  | GoOutboxEventStatus string

fun value_type_name :: "ent_value \<Rightarrow> string" where
  "value_type_name (GoUUID _) = ''uuid.UUID''"
| "value_type_name (GoString _) = ''string''"
| "value_type_name (GoInt _) = ''int''"
| "value_type_name (GoInt64 _) = ''int64''"
| "value_type_name (GoTime _) = ''time.Time''"
| "value_type_name (GoBytes _) = ''[]uint8''"
| "value_type_name (GoMap _) = ''map[string]string''"
| "value_type_name (GoNotificationStatus _) = ''notification.Status''"
| "value_type_name (GoDeliveryAttemptStatus _) = ''deliveryattempt.Status''"
| "value_type_name (GoOutboxEventStatus _) = ''outboxevent.Status''"

definition unexpected_value :: "ent_value \<Rightarrow> column \<Rightarrow> goerror" where
  "unexpected_value v c = ErrText (''unexpected type '' @ value_type_name v @ '' for field '' @ column_name c)"

text \<open>Addition of 64-bit integers, which wraps around.\<close>

definition int64_plus :: "int \<Rightarrow> int \<Rightarrow> int" where
  "int64_plus a b = sint (word_of_int (a + b) :: 64 word)"

text \<open>The zero value of \<^verbatim>\<open>time.Time\<close>, January 1 of the year 1, in nanoseconds from the epoch.\<close>

definition zero_time :: time where
  "zero_time = - 62135596800000000000"

section \<open>Helpers of the builders\<close>

definition field_or :: "'a \<Rightarrow> 'a option \<Rightarrow> 'a" where
  "field_or d x = (case x of Some v \<Rightarrow> v | None \<Rightarrow> d)"

definition spec_field :: "column \<Rightarrow> ('a \<Rightarrow> sql_value) \<Rightarrow> 'a option \<Rightarrow> (column \<times> sql_value) list" where
  "spec_field c f x = (case x of Some v \<Rightarrow> [(c, f v)] | None \<Rightarrow> [])"

definition spec_add :: "column \<Rightarrow> int option \<Rightarrow> (column \<times> int) list" where
  "spec_add c x = (case x of Some v \<Rightarrow> [(c, v)] | None \<Rightarrow> [])"

text \<open>The two shapes of check in \<^verbatim>\<open>check()\<close>, and their sequence, which stops at the first error.\<close>

definition missing :: "'a option \<Rightarrow> string \<Rightarrow> string \<Rightarrow> goerror option" where
  "missing x name msg = (case x of None \<Rightarrow> Some (ValidationError name (ErrText msg)) | Some _ \<Rightarrow> None)"

definition validated :: "'a option \<Rightarrow> ('a \<Rightarrow> goerror option) \<Rightarrow> string \<Rightarrow> string \<Rightarrow> goerror option" where
  "validated x f name msg =
     (case x of None \<Rightarrow> None
      | Some v \<Rightarrow> (case f v of Some e \<Rightarrow> Some (ValidationError name (ErrWrap msg e '''')) | None \<Rightarrow> None))"

fun first_error :: "goerror option list \<Rightarrow> goerror option" where
  "first_error [] = None"
| "first_error (Some e # es) = Some e"
| "first_error (None # es) = first_error es"

lemma builder_helpers [simp]:
  "field_or d (Some v) = v" "field_or d None = d"
  "spec_field c f (Some v) = [(c, f v)]" "spec_field c f None = []"
  "spec_add c (Some n) = [(c, n)]" "spec_add c None = []"
  "missing (Some v) name msg = None" "missing None name msg = Some (ValidationError name (ErrText msg))"
  "validated None g name msg = None"
  by (simp_all add: field_or_def spec_field_def spec_add_def missing_def validated_def)

lemma first_error_None: "first_error es = None \<longleftrightarrow> (\<forall>e\<in>set es. e = None)"
  by (induction es rule: first_error.induct) auto

section \<open>Schema and defaults\<close>

datatype field_type =
    TypeUUID | TypeString | TypeEnum | TypeInt | TypeInt64 | TypeTime | TypeBytes | TypeJSON

datatype field_default = NoDefault | DefaultStr string | DefaultInt int | DefaultTimeNow | DefaultUuidNew

record Field =
  fd_Name :: string
  fd_Type :: field_type
  fd_Optional :: bool
  fd_Nillable :: bool
  fd_Immutable :: bool
  fd_NotEmpty :: bool
  fd_Values :: "string list"
  fd_Default :: field_default
  fd_UpdateDefault :: field_default

definition field :: "field_type \<Rightarrow> string \<Rightarrow> Field" where
  "field t name = \<lparr>fd_Name = name, fd_Type = t, fd_Optional = False, fd_Nillable = False, fd_Immutable = False,
     fd_NotEmpty = False, fd_Values = [], fd_Default = NoDefault, fd_UpdateDefault = NoDefault\<rparr>"

definition Notification_Fields :: "Field list" where
  "Notification_Fields =
     [(field TypeUUID ''id'')\<lparr>fd_Default := DefaultUuidNew, fd_Immutable := True\<rparr>,
      (field TypeString ''url'')\<lparr>fd_NotEmpty := True\<rparr>,
      (field TypeString ''method'')\<lparr>fd_Default := DefaultStr ''POST''\<rparr>,
      (field TypeJSON ''headers'')\<lparr>fd_Optional := True\<rparr>,
      (field TypeBytes ''body'')\<lparr>fd_Optional := True\<rparr>,
      (field TypeEnum ''status'')\<lparr>fd_Values := [''pending'', ''delivering'', ''succeeded'', ''retrying'', ''failed''],
         fd_Default := DefaultStr ''pending''\<rparr>,
      (field TypeInt ''attempt_count'')\<lparr>fd_Default := DefaultInt 0\<rparr>,
      (field TypeInt ''max_attempts'')\<lparr>fd_Default := DefaultInt 5\<rparr>,
      (field TypeString ''last_error'')\<lparr>fd_Optional := True\<rparr>,
      (field TypeTime ''next_attempt_at'')\<lparr>fd_Optional := True, fd_Nillable := True\<rparr>,
      (field TypeTime ''created_at'')\<lparr>fd_Default := DefaultTimeNow, fd_Immutable := True\<rparr>,
      (field TypeTime ''updated_at'')\<lparr>fd_Default := DefaultTimeNow, fd_UpdateDefault := DefaultTimeNow\<rparr>]"

definition DeliveryAttempt_Fields :: "Field list" where
  "DeliveryAttempt_Fields =
     [(field TypeUUID ''id'')\<lparr>fd_Default := DefaultUuidNew, fd_Immutable := True\<rparr>,
      field TypeUUID ''notification_id'',
      field TypeInt ''attempt_number'',
      (field TypeEnum ''status'')\<lparr>fd_Values := [''succeeded'', ''retrying'', ''failed'']\<rparr>,
      (field TypeInt ''http_status'')\<lparr>fd_Optional := True\<rparr>,
      (field TypeString ''error_message'')\<lparr>fd_Optional := True\<rparr>,
      (field TypeInt64 ''duration_ms'')\<lparr>fd_Default := DefaultInt 0\<rparr>,
      (field TypeTime ''created_at'')\<lparr>fd_Default := DefaultTimeNow, fd_Immutable := True\<rparr>]"

definition OutboxEvent_Fields :: "Field list" where
  "OutboxEvent_Fields =
     [(field TypeUUID ''id'')\<lparr>fd_Default := DefaultUuidNew, fd_Immutable := True\<rparr>,
      field TypeUUID ''notification_id'',
      (field TypeString ''event_type'')\<lparr>fd_Default := DefaultStr ''notification.delivery_requested''\<rparr>,
      (field TypeEnum ''status'')\<lparr>fd_Values := [''pending'', ''publishing'', ''published'', ''failed''],
         fd_Default := DefaultStr ''pending''\<rparr>,
      (field TypeTime ''scheduled_at'')\<lparr>fd_Default := DefaultTimeNow\<rparr>,
      (field TypeString ''stream_id'')\<lparr>fd_Optional := True\<rparr>,
      (field TypeString ''locked_by'')\<lparr>fd_Optional := True\<rparr>,
      (field TypeTime ''locked_at'')\<lparr>fd_Optional := True, fd_Nillable := True\<rparr>,
      (field TypeString ''last_error'')\<lparr>fd_Optional := True\<rparr>,
      (field TypeTime ''published_at'')\<lparr>fd_Optional := True, fd_Nillable := True\<rparr>,
      (field TypeTime ''created_at'')\<lparr>fd_Default := DefaultTimeNow, fd_Immutable := True\<rparr>,
      (field TypeTime ''updated_at'')\<lparr>fd_Default := DefaultTimeNow, fd_UpdateDefault := DefaultTimeNow\<rparr>]"

text \<open>
  The type assertions of \<^verbatim>\<open>ent/runtime.go\<close> on a descriptor's default; on a mismatch the program
  would panic when it starts, which the lemma \<open>runtime_defaults\<close> below rules out.
\<close>

definition default_string :: "Field \<Rightarrow> string" where
  "default_string f = (case fd_Default f of DefaultStr s \<Rightarrow> s | _ \<Rightarrow> '''')"

definition default_int :: "Field \<Rightarrow> int" where
  "default_int f = (case fd_Default f of DefaultInt n \<Rightarrow> n | _ \<Rightarrow> 0)"

definition default_time :: "field_default \<Rightarrow> 'w db \<Rightarrow> 'w \<Rightarrow> time \<times> 'w" where
  "default_time d db w = (case d of DefaultTimeNow \<Rightarrow> time_Now db w | _ \<Rightarrow> (zero_time, w))"

definition default_uuid :: "field_default \<Rightarrow> 'w db \<Rightarrow> 'w \<Rightarrow> uuid \<times> 'w" where
  "default_uuid d db w = (case d of DefaultUuidNew \<Rightarrow> uuid_New db w | _ \<Rightarrow> (0, w))"

definition not_empty :: "string \<Rightarrow> goerror option" where
  "not_empty v = (if v = '''' then Some (ErrText ''value is less than the required length'') else None)"

definition notification_URLValidator :: "string \<Rightarrow> goerror option" where
  "notification_URLValidator v = (if fd_NotEmpty (Notification_Fields ! 1) then not_empty v else None)"

definition notification_DefaultMethod :: string where
  "notification_DefaultMethod = default_string (Notification_Fields ! 2)"

definition notification_DefaultAttemptCount :: int where
  "notification_DefaultAttemptCount = default_int (Notification_Fields ! 6)"

definition notification_DefaultMaxAttempts :: int where
  "notification_DefaultMaxAttempts = default_int (Notification_Fields ! 7)"

definition notification_DefaultCreatedAt :: "'w db \<Rightarrow> 'w \<Rightarrow> time \<times> 'w" where
  "notification_DefaultCreatedAt = default_time (fd_Default (Notification_Fields ! 10))"

definition notification_DefaultUpdatedAt :: "'w db \<Rightarrow> 'w \<Rightarrow> time \<times> 'w" where
  "notification_DefaultUpdatedAt = default_time (fd_Default (Notification_Fields ! 11))"

definition notification_UpdateDefaultUpdatedAt :: "'w db \<Rightarrow> 'w \<Rightarrow> time \<times> 'w" where
  "notification_UpdateDefaultUpdatedAt = default_time (fd_UpdateDefault (Notification_Fields ! 11))"

definition notification_DefaultID :: "'w db \<Rightarrow> 'w \<Rightarrow> uuid \<times> 'w" where
  "notification_DefaultID = default_uuid (fd_Default (Notification_Fields ! 0))"

definition deliveryattempt_DefaultDurationMs :: int where
  "deliveryattempt_DefaultDurationMs = default_int (DeliveryAttempt_Fields ! 6)"

definition deliveryattempt_DefaultCreatedAt :: "'w db \<Rightarrow> 'w \<Rightarrow> time \<times> 'w" where
  "deliveryattempt_DefaultCreatedAt = default_time (fd_Default (DeliveryAttempt_Fields ! 7))"

definition deliveryattempt_DefaultID :: "'w db \<Rightarrow> 'w \<Rightarrow> uuid \<times> 'w" where
  "deliveryattempt_DefaultID = default_uuid (fd_Default (DeliveryAttempt_Fields ! 0))"

definition outboxevent_DefaultEventType :: string where
  "outboxevent_DefaultEventType = default_string (OutboxEvent_Fields ! 2)"

definition outboxevent_DefaultScheduledAt :: "'w db \<Rightarrow> 'w \<Rightarrow> time \<times> 'w" where
  "outboxevent_DefaultScheduledAt = default_time (fd_Default (OutboxEvent_Fields ! 4))"

definition outboxevent_DefaultCreatedAt :: "'w db \<Rightarrow> 'w \<Rightarrow> time \<times> 'w" where
  "outboxevent_DefaultCreatedAt = default_time (fd_Default (OutboxEvent_Fields ! 10))"

definition outboxevent_DefaultUpdatedAt :: "'w db \<Rightarrow> 'w \<Rightarrow> time \<times> 'w" where
  "outboxevent_DefaultUpdatedAt = default_time (fd_Default (OutboxEvent_Fields ! 11))"

definition outboxevent_UpdateDefaultUpdatedAt :: "'w db \<Rightarrow> 'w \<Rightarrow> time \<times> 'w" where
  "outboxevent_UpdateDefaultUpdatedAt = default_time (fd_UpdateDefault (OutboxEvent_Fields ! 11))"

definition outboxevent_DefaultID :: "'w db \<Rightarrow> 'w \<Rightarrow> uuid \<times> 'w" where
  "outboxevent_DefaultID = default_uuid (fd_Default (OutboxEvent_Fields ! 0))"

lemma runtime_defaults [simp]:
  "notification_URLValidator v = not_empty v"
  "notification_DefaultMethod = ''POST''"
  "notification_DefaultAttemptCount = 0"
  "notification_DefaultMaxAttempts = 5"
  "notification_DefaultCreatedAt = time_Now"
  "notification_DefaultUpdatedAt = time_Now"
  "notification_UpdateDefaultUpdatedAt = time_Now"
  "notification_DefaultID = uuid_New"
  "deliveryattempt_DefaultDurationMs = 0"
  "deliveryattempt_DefaultCreatedAt = time_Now"
  "deliveryattempt_DefaultID = uuid_New"
  "outboxevent_DefaultEventType = ''notification.delivery_requested''"
  "outboxevent_DefaultScheduledAt = time_Now"
  "outboxevent_DefaultCreatedAt = time_Now"
  "outboxevent_DefaultUpdatedAt = time_Now"
  "outboxevent_UpdateDefaultUpdatedAt = time_Now"
  "outboxevent_DefaultID = uuid_New"
  by (simp_all add: notification_URLValidator_def notification_DefaultMethod_def
      notification_DefaultAttemptCount_def notification_DefaultMaxAttempts_def
      notification_DefaultCreatedAt_def notification_DefaultUpdatedAt_def
      notification_UpdateDefaultUpdatedAt_def notification_DefaultID_def
      deliveryattempt_DefaultDurationMs_def deliveryattempt_DefaultCreatedAt_def
      deliveryattempt_DefaultID_def outboxevent_DefaultEventType_def
      outboxevent_DefaultScheduledAt_def outboxevent_DefaultCreatedAt_def
      outboxevent_DefaultUpdatedAt_def outboxevent_UpdateDefaultUpdatedAt_def
      outboxevent_DefaultID_def Notification_Fields_def DeliveryAttempt_Fields_def
      OutboxEvent_Fields_def default_string_def default_int_def default_time_def
      default_uuid_def field_def fun_eq_iff)

section \<open>Scanning result rows\<close>

text \<open>
  \<^verbatim>\<open>scanValues\<close> chooses a destination for each column, \<^verbatim>\<open>database/sql\<close> converts the column into
  it, \<^verbatim>\<open>assignValues\<close> moves it into the struct.
\<close>

datatype holder = HoldBytes | HoldNullInt64 | HoldNullString | HoldNullTime | HoldUUID | HoldUnknown

datatype scanned =
    ScanBytes "bytes option"
  | ScanJson headers
  | ScanNullInt64 "int option"
  | ScanNullString "string option"
  | ScanNullTime "time option"
  | ScanUUID uuid
  | ScanUnknown

fun scanned_type_name :: "scanned \<Rightarrow> string" where
  "scanned_type_name (ScanBytes _) = ''*[]uint8''"
| "scanned_type_name (ScanJson _) = ''*[]uint8''"
| "scanned_type_name (ScanNullInt64 _) = ''*sql.NullInt64''"
| "scanned_type_name (ScanNullString _) = ''*sql.NullString''"
| "scanned_type_name (ScanNullTime _) = ''*sql.NullTime''"
| "scanned_type_name (ScanUUID _) = ''*uuid.UUID''"
| "scanned_type_name ScanUnknown = ''*sql.UnknownType''"

definition unexpected_scan :: "scanned \<Rightarrow> string \<Rightarrow> goerror" where
  "unexpected_scan v f = ErrText (''unexpected type '' @ scanned_type_name v @ '' for field '' @ f)"

definition unsupported_scan :: goerror where
  "unsupported_scan = ErrText ''sql: Scan error: unsupported conversion''"

definition sql_scan :: "holder \<Rightarrow> sql_value option \<Rightarrow> goerror + scanned" where
  "sql_scan h v =
     (case h of
        HoldBytes \<Rightarrow>
          (case v of
             None \<Rightarrow> Inr (ScanBytes None)
           | Some x \<Rightarrow>
               (case x of
                  VBytes b \<Rightarrow> Inr (ScanBytes (Some b)) | VJson j \<Rightarrow> Inr (ScanJson j) | _ \<Rightarrow> Inl unsupported_scan))
      | HoldNullInt64 \<Rightarrow>
          (case v of
             None \<Rightarrow> Inr (ScanNullInt64 None)
           | Some x \<Rightarrow> (case x of VInt n \<Rightarrow> Inr (ScanNullInt64 (Some n)) | _ \<Rightarrow> Inl unsupported_scan))
      | HoldNullString \<Rightarrow>
          (case v of
             None \<Rightarrow> Inr (ScanNullString None)
           | Some x \<Rightarrow> (case x of VString s \<Rightarrow> Inr (ScanNullString (Some s)) | _ \<Rightarrow> Inl unsupported_scan))
      | HoldNullTime \<Rightarrow>
          (case v of
             None \<Rightarrow> Inr (ScanNullTime None)
           | Some x \<Rightarrow> (case x of VTime t \<Rightarrow> Inr (ScanNullTime (Some t)) | _ \<Rightarrow> Inl unsupported_scan))
      | HoldUUID \<Rightarrow>
          (case v of
             None \<Rightarrow> Inr (ScanUUID 0)
           | Some x \<Rightarrow> (case x of VUuid u \<Rightarrow> Inr (ScanUUID u) | _ \<Rightarrow> Inl unsupported_scan))
      | HoldUnknown \<Rightarrow> Inr ScanUnknown)"

lemma sql_scan_simps [simp]:
  "sql_scan HoldBytes None = Inr (ScanBytes None)"
  "sql_scan HoldBytes (Some (VBytes b)) = Inr (ScanBytes (Some b))"
  "sql_scan HoldBytes (Some (VJson h)) = Inr (ScanJson h)"
  "sql_scan HoldNullInt64 None = Inr (ScanNullInt64 None)"
  "sql_scan HoldNullInt64 (Some (VInt n)) = Inr (ScanNullInt64 (Some n))"
  "sql_scan HoldNullString None = Inr (ScanNullString None)"
  "sql_scan HoldNullString (Some (VString s)) = Inr (ScanNullString (Some s))"
  "sql_scan HoldNullTime None = Inr (ScanNullTime None)"
  "sql_scan HoldNullTime (Some (VTime t)) = Inr (ScanNullTime (Some t))"
  "sql_scan HoldUUID None = Inr (ScanUUID 0)"
  "sql_scan HoldUUID (Some (VUuid u)) = Inr (ScanUUID u)"
  "sql_scan HoldUnknown v = Inr ScanUnknown"
  by (simp_all add: sql_scan_def)

fun scan_columns :: "holder list \<Rightarrow> sql_value option list \<Rightarrow> goerror + scanned list" where
  "scan_columns (h # hs) (v # vs) =
     (case sql_scan h v of Inl e \<Rightarrow> Inl e
      | Inr x \<Rightarrow> (case scan_columns hs vs of Inl e \<Rightarrow> Inl e | Inr xs \<Rightarrow> Inr (x # xs)))"
| "scan_columns _ _ = Inr []"

text \<open>The loop of \<^verbatim>\<open>assignValues\<close>.\<close>

fun assign_loop :: "(column \<Rightarrow> scanned \<Rightarrow> 'e \<Rightarrow> goerror + 'e) \<Rightarrow> column list \<Rightarrow> scanned list \<Rightarrow> 'e \<Rightarrow> goerror + 'e" where
  "assign_loop f (c # cs) (v # vs) e =
     (case f c v e of Inl err \<Rightarrow> Inl err | Inr e1 \<Rightarrow> assign_loop f cs vs e1)"
| "assign_loop f _ _ e = Inr e"

text \<open>
  What \<^verbatim>\<open>sqlAll\<close> makes of the rows: \<^verbatim>\<open>sqlgraph.QueryNodes\<close> calls the two callbacks on each row
  and stops at the first error.
\<close>

fun scan_rows ::
    "column list \<Rightarrow> (column list \<Rightarrow> holder list) \<Rightarrow> (column list \<Rightarrow> scanned list \<Rightarrow> goerror + 'e) \<Rightarrow> row list \<Rightarrow> goerror + 'e list" where
  "scan_rows cs scanValues assignValues [] = Inr []"
| "scan_rows cs scanValues assignValues (r # rs) =
     (case scan_columns (scanValues cs) (map r cs) of
        Inl e \<Rightarrow> Inl e
      | Inr vs \<Rightarrow>
          (case assignValues cs vs of
             Inl e \<Rightarrow> Inl e
           | Inr x \<Rightarrow>
               (case scan_rows cs scanValues assignValues rs of Inl e \<Rightarrow> Inl e | Inr xs \<Rightarrow> Inr (x # xs))))"

lemma scan_rows_map:
  assumes "\<And>r. r \<in> set rs \<Longrightarrow> \<exists>vs. scan_columns (sv cs) (map r cs) = Inr vs \<and> av cs vs = Inr (f r)"
  shows "scan_rows cs sv av rs = Inr (map f rs)"
  using assms
proof (induction rs)
  case Nil
  then show ?case by simp
next
  case (Cons r rs)
  from Cons.prems [of r] obtain vs where "scan_columns (sv cs) (map r cs) = Inr vs" "av cs vs = Inr (f r)"
    by auto
  moreover have "scan_rows cs sv av rs = Inr (map f rs)"
    by (rule Cons.IH) (use Cons.prems in auto)
  ultimately show ?case by simp
qed

section \<open>Notification\<close>

record Notification =
  n_ID :: uuid
  n_URL :: string
  n_Method :: string
  n_Headers :: headers
  n_Body :: bytes
  n_Status :: string
  n_AttemptCount :: int
  n_MaxAttempts :: int
  n_LastError :: string
  n_NextAttemptAt :: "time option"
  n_CreatedAt :: time
  n_UpdatedAt :: time

definition Notification_zero :: "Notification" where
  \<open>Notification_zero = \<lparr>n_ID = 0, n_URL = '''', n_Method = '''', n_Headers = None, n_Body = '''', n_Status = '''', n_AttemptCount = 0, n_MaxAttempts = 0, n_LastError = '''', n_NextAttemptAt = None, n_CreatedAt = zero_time, n_UpdatedAt = zero_time\<rparr>\<close>

definition Notification_scanValues :: "column list \<Rightarrow> holder list" where
  \<open>Notification_scanValues columns =
     map (\<lambda>c. case c of
         FieldHeaders \<Rightarrow> HoldBytes
       | FieldBody \<Rightarrow> HoldBytes
       | FieldAttemptCount \<Rightarrow> HoldNullInt64
       | FieldMaxAttempts \<Rightarrow> HoldNullInt64
       | FieldURL \<Rightarrow> HoldNullString
       | FieldMethod \<Rightarrow> HoldNullString
       | FieldStatus \<Rightarrow> HoldNullString
       | FieldLastError \<Rightarrow> HoldNullString
       | FieldNextAttemptAt \<Rightarrow> HoldNullTime
       | FieldCreatedAt \<Rightarrow> HoldNullTime
       | FieldUpdatedAt \<Rightarrow> HoldNullTime
       | FieldID \<Rightarrow> HoldUUID
       | _ \<Rightarrow> HoldUnknown) columns\<close>

definition Notification_assign :: "column \<Rightarrow> scanned \<Rightarrow> Notification \<Rightarrow> goerror + Notification" where
  \<open>Notification_assign c v e =
     (case c of
         FieldID \<Rightarrow> (case v of ScanUUID x \<Rightarrow> Inr (e\<lparr>n_ID := x\<rparr>) | _ \<Rightarrow> Inl (unexpected_scan v ''id''))
       | FieldURL \<Rightarrow> (case v of ScanNullString (Some x) \<Rightarrow> Inr (e\<lparr>n_URL := x\<rparr>) | ScanNullString None \<Rightarrow> Inr e | _ \<Rightarrow> Inl (unexpected_scan v ''url''))
       | FieldMethod \<Rightarrow> (case v of ScanNullString (Some x) \<Rightarrow> Inr (e\<lparr>n_Method := x\<rparr>) | ScanNullString None \<Rightarrow> Inr e | _ \<Rightarrow> Inl (unexpected_scan v ''method''))
       | FieldHeaders \<Rightarrow> (case v of ScanJson x \<Rightarrow> Inr (e\<lparr>n_Headers := x\<rparr>) | ScanBytes (Some b) \<Rightarrow>
            (if b = '''' then Inr e else Inl (ErrText ''unmarshal field headers: invalid JSON'')) | ScanBytes None \<Rightarrow> Inr e | _ \<Rightarrow> Inl (unexpected_scan v ''headers''))
       | FieldBody \<Rightarrow> (case v of ScanBytes (Some x) \<Rightarrow> Inr (e\<lparr>n_Body := x\<rparr>) | ScanBytes None \<Rightarrow> Inr (e\<lparr>n_Body := ''''\<rparr>) | _ \<Rightarrow> Inl (unexpected_scan v ''body''))
       | FieldStatus \<Rightarrow> (case v of ScanNullString (Some x) \<Rightarrow> Inr (e\<lparr>n_Status := x\<rparr>) | ScanNullString None \<Rightarrow> Inr e | _ \<Rightarrow> Inl (unexpected_scan v ''status''))
       | FieldAttemptCount \<Rightarrow> (case v of ScanNullInt64 (Some x) \<Rightarrow> Inr (e\<lparr>n_AttemptCount := x\<rparr>) | ScanNullInt64 None \<Rightarrow> Inr e | _ \<Rightarrow> Inl (unexpected_scan v ''attempt_count''))
       | FieldMaxAttempts \<Rightarrow> (case v of ScanNullInt64 (Some x) \<Rightarrow> Inr (e\<lparr>n_MaxAttempts := x\<rparr>) | ScanNullInt64 None \<Rightarrow> Inr e | _ \<Rightarrow> Inl (unexpected_scan v ''max_attempts''))
       | FieldLastError \<Rightarrow> (case v of ScanNullString (Some x) \<Rightarrow> Inr (e\<lparr>n_LastError := x\<rparr>) | ScanNullString None \<Rightarrow> Inr e | _ \<Rightarrow> Inl (unexpected_scan v ''last_error''))
       | FieldNextAttemptAt \<Rightarrow> (case v of ScanNullTime (Some x) \<Rightarrow> Inr (e\<lparr>n_NextAttemptAt := Some x\<rparr>) | ScanNullTime None \<Rightarrow> Inr e | _ \<Rightarrow> Inl (unexpected_scan v ''next_attempt_at''))
       | FieldCreatedAt \<Rightarrow> (case v of ScanNullTime (Some x) \<Rightarrow> Inr (e\<lparr>n_CreatedAt := x\<rparr>) | ScanNullTime None \<Rightarrow> Inr e | _ \<Rightarrow> Inl (unexpected_scan v ''created_at''))
       | FieldUpdatedAt \<Rightarrow> (case v of ScanNullTime (Some x) \<Rightarrow> Inr (e\<lparr>n_UpdatedAt := x\<rparr>) | ScanNullTime None \<Rightarrow> Inr e | _ \<Rightarrow> Inl (unexpected_scan v ''updated_at''))
       | _ \<Rightarrow> Inr e)\<close>

definition Notification_assignValues :: "column list \<Rightarrow> scanned list \<Rightarrow> Notification \<Rightarrow> goerror + Notification" where
  \<open>Notification_assignValues columns values e =
     (if length values < length columns
      then Inl (ErrText (''mismatch number of scan values: '' @ Itoa (int (length values)) @ '' != '' @ Itoa (int (length columns))))
      else assign_loop Notification_assign columns values e)\<close>

definition notification_Label :: "string" where
  \<open>notification_Label = ''notification''\<close>

definition notification_Columns :: "column list" where
  \<open>notification_Columns = [FieldID, FieldURL, FieldMethod, FieldHeaders, FieldBody, FieldStatus, FieldAttemptCount, FieldMaxAttempts, FieldLastError, FieldNextAttemptAt, FieldCreatedAt, FieldUpdatedAt]\<close>

definition notification_ValidColumn :: "column \<Rightarrow> bool" where
  \<open>notification_ValidColumn column = list_ex (\<lambda>c. column = c) notification_Columns\<close>

abbreviation notification_StatusPending :: string where "notification_StatusPending \<equiv> ''pending''"

abbreviation notification_StatusDelivering :: string where "notification_StatusDelivering \<equiv> ''delivering''"

abbreviation notification_StatusSucceeded :: string where "notification_StatusSucceeded \<equiv> ''succeeded''"

abbreviation notification_StatusRetrying :: string where "notification_StatusRetrying \<equiv> ''retrying''"

abbreviation notification_StatusFailed :: string where "notification_StatusFailed \<equiv> ''failed''"

definition notification_DefaultStatus :: string where
  "notification_DefaultStatus = notification_StatusPending"

definition notification_StatusValidator :: "string \<Rightarrow> goerror option" where
  \<open>notification_StatusValidator s =
     (if s \<in> {notification_StatusPending, notification_StatusDelivering, notification_StatusSucceeded, notification_StatusRetrying, notification_StatusFailed}
      then None else Some (ErrText (''notification: invalid enum value for status field: '' @ Quote s)))\<close>

definition notification_ByID :: "column list" where
  \<open>notification_ByID = [FieldID]\<close>

definition notification_ByURL :: "column list" where
  \<open>notification_ByURL = [FieldURL]\<close>

definition notification_ByMethod :: "column list" where
  \<open>notification_ByMethod = [FieldMethod]\<close>

definition notification_ByStatus :: "column list" where
  \<open>notification_ByStatus = [FieldStatus]\<close>

definition notification_ByAttemptCount :: "column list" where
  \<open>notification_ByAttemptCount = [FieldAttemptCount]\<close>

definition notification_ByMaxAttempts :: "column list" where
  \<open>notification_ByMaxAttempts = [FieldMaxAttempts]\<close>

definition notification_ByLastError :: "column list" where
  \<open>notification_ByLastError = [FieldLastError]\<close>

definition notification_ByNextAttemptAt :: "column list" where
  \<open>notification_ByNextAttemptAt = [FieldNextAttemptAt]\<close>

definition notification_ByCreatedAt :: "column list" where
  \<open>notification_ByCreatedAt = [FieldCreatedAt]\<close>

definition notification_ByUpdatedAt :: "column list" where
  \<open>notification_ByUpdatedAt = [FieldUpdatedAt]\<close>

lemmas notification_entity_defs =
  Notification_zero_def Notification_scanValues_def Notification_assign_def Notification_assignValues_def
  notification_Label_def notification_Columns_def notification_ValidColumn_def notification_DefaultStatus_def

section \<open>DeliveryAttempt\<close>

record DeliveryAttempt =
  d_ID :: uuid
  d_NotificationID :: uuid
  d_AttemptNumber :: int
  d_Status :: string
  d_HTTPStatus :: int
  d_ErrorMessage :: string
  d_DurationMs :: int
  d_CreatedAt :: time

definition DeliveryAttempt_zero :: "DeliveryAttempt" where
  \<open>DeliveryAttempt_zero = \<lparr>d_ID = 0, d_NotificationID = 0, d_AttemptNumber = 0, d_Status = '''', d_HTTPStatus = 0, d_ErrorMessage = '''', d_DurationMs = 0, d_CreatedAt = zero_time\<rparr>\<close>

definition DeliveryAttempt_scanValues :: "column list \<Rightarrow> holder list" where
  \<open>DeliveryAttempt_scanValues columns =
     map (\<lambda>c. case c of
         FieldAttemptNumber \<Rightarrow> HoldNullInt64
       | FieldHTTPStatus \<Rightarrow> HoldNullInt64
       | FieldDurationMs \<Rightarrow> HoldNullInt64
       | FieldStatus \<Rightarrow> HoldNullString
       | FieldErrorMessage \<Rightarrow> HoldNullString
       | FieldCreatedAt \<Rightarrow> HoldNullTime
       | FieldID \<Rightarrow> HoldUUID
       | FieldNotificationID \<Rightarrow> HoldUUID
       | _ \<Rightarrow> HoldUnknown) columns\<close>

definition DeliveryAttempt_assign :: "column \<Rightarrow> scanned \<Rightarrow> DeliveryAttempt \<Rightarrow> goerror + DeliveryAttempt" where
  \<open>DeliveryAttempt_assign c v e =
     (case c of
         FieldID \<Rightarrow> (case v of ScanUUID x \<Rightarrow> Inr (e\<lparr>d_ID := x\<rparr>) | _ \<Rightarrow> Inl (unexpected_scan v ''id''))
       | FieldNotificationID \<Rightarrow> (case v of ScanUUID x \<Rightarrow> Inr (e\<lparr>d_NotificationID := x\<rparr>) | _ \<Rightarrow> Inl (unexpected_scan v ''notification_id''))
       | FieldAttemptNumber \<Rightarrow> (case v of ScanNullInt64 (Some x) \<Rightarrow> Inr (e\<lparr>d_AttemptNumber := x\<rparr>) | ScanNullInt64 None \<Rightarrow> Inr e | _ \<Rightarrow> Inl (unexpected_scan v ''attempt_number''))
       | FieldStatus \<Rightarrow> (case v of ScanNullString (Some x) \<Rightarrow> Inr (e\<lparr>d_Status := x\<rparr>) | ScanNullString None \<Rightarrow> Inr e | _ \<Rightarrow> Inl (unexpected_scan v ''status''))
       | FieldHTTPStatus \<Rightarrow> (case v of ScanNullInt64 (Some x) \<Rightarrow> Inr (e\<lparr>d_HTTPStatus := x\<rparr>) | ScanNullInt64 None \<Rightarrow> Inr e | _ \<Rightarrow> Inl (unexpected_scan v ''http_status''))
       | FieldErrorMessage \<Rightarrow> (case v of ScanNullString (Some x) \<Rightarrow> Inr (e\<lparr>d_ErrorMessage := x\<rparr>) | ScanNullString None \<Rightarrow> Inr e | _ \<Rightarrow> Inl (unexpected_scan v ''error_message''))
       | FieldDurationMs \<Rightarrow> (case v of ScanNullInt64 (Some x) \<Rightarrow> Inr (e\<lparr>d_DurationMs := x\<rparr>) | ScanNullInt64 None \<Rightarrow> Inr e | _ \<Rightarrow> Inl (unexpected_scan v ''duration_ms''))
       | FieldCreatedAt \<Rightarrow> (case v of ScanNullTime (Some x) \<Rightarrow> Inr (e\<lparr>d_CreatedAt := x\<rparr>) | ScanNullTime None \<Rightarrow> Inr e | _ \<Rightarrow> Inl (unexpected_scan v ''created_at''))
       | _ \<Rightarrow> Inr e)\<close>

definition DeliveryAttempt_assignValues :: "column list \<Rightarrow> scanned list \<Rightarrow> DeliveryAttempt \<Rightarrow> goerror + DeliveryAttempt" where
  \<open>DeliveryAttempt_assignValues columns values e =
     (if length values < length columns
      then Inl (ErrText (''mismatch number of scan values: '' @ Itoa (int (length values)) @ '' != '' @ Itoa (int (length columns))))
      else assign_loop DeliveryAttempt_assign columns values e)\<close>

definition deliveryattempt_Label :: "string" where
  \<open>deliveryattempt_Label = ''delivery_attempt''\<close>

definition deliveryattempt_Columns :: "column list" where
  \<open>deliveryattempt_Columns = [FieldID, FieldNotificationID, FieldAttemptNumber, FieldStatus, FieldHTTPStatus, FieldErrorMessage, FieldDurationMs, FieldCreatedAt]\<close>

definition deliveryattempt_ValidColumn :: "column \<Rightarrow> bool" where
  \<open>deliveryattempt_ValidColumn column = list_ex (\<lambda>c. column = c) deliveryattempt_Columns\<close>

abbreviation deliveryattempt_StatusSucceeded :: string where "deliveryattempt_StatusSucceeded \<equiv> ''succeeded''"

abbreviation deliveryattempt_StatusRetrying :: string where "deliveryattempt_StatusRetrying \<equiv> ''retrying''"

abbreviation deliveryattempt_StatusFailed :: string where "deliveryattempt_StatusFailed \<equiv> ''failed''"

definition deliveryattempt_StatusValidator :: "string \<Rightarrow> goerror option" where
  \<open>deliveryattempt_StatusValidator s =
     (if s \<in> {deliveryattempt_StatusSucceeded, deliveryattempt_StatusRetrying, deliveryattempt_StatusFailed}
      then None else Some (ErrText (''deliveryattempt: invalid enum value for status field: '' @ Quote s)))\<close>

definition deliveryattempt_ByID :: "column list" where
  \<open>deliveryattempt_ByID = [FieldID]\<close>

definition deliveryattempt_ByNotificationID :: "column list" where
  \<open>deliveryattempt_ByNotificationID = [FieldNotificationID]\<close>

definition deliveryattempt_ByAttemptNumber :: "column list" where
  \<open>deliveryattempt_ByAttemptNumber = [FieldAttemptNumber]\<close>

definition deliveryattempt_ByStatus :: "column list" where
  \<open>deliveryattempt_ByStatus = [FieldStatus]\<close>

definition deliveryattempt_ByHTTPStatus :: "column list" where
  \<open>deliveryattempt_ByHTTPStatus = [FieldHTTPStatus]\<close>

definition deliveryattempt_ByErrorMessage :: "column list" where
  \<open>deliveryattempt_ByErrorMessage = [FieldErrorMessage]\<close>

definition deliveryattempt_ByDurationMs :: "column list" where
  \<open>deliveryattempt_ByDurationMs = [FieldDurationMs]\<close>

definition deliveryattempt_ByCreatedAt :: "column list" where
  \<open>deliveryattempt_ByCreatedAt = [FieldCreatedAt]\<close>

lemmas deliveryattempt_entity_defs =
  DeliveryAttempt_zero_def DeliveryAttempt_scanValues_def DeliveryAttempt_assign_def DeliveryAttempt_assignValues_def
  deliveryattempt_Label_def deliveryattempt_Columns_def deliveryattempt_ValidColumn_def

section \<open>OutboxEvent\<close>

record OutboxEvent =
  o_ID :: uuid
  o_NotificationID :: uuid
  o_EventType :: string
  o_Status :: string
  o_ScheduledAt :: time
  o_StreamID :: string
  o_LockedBy :: string
  o_LockedAt :: "time option"
  o_LastError :: string
  o_PublishedAt :: "time option"
  o_CreatedAt :: time
  o_UpdatedAt :: time

definition OutboxEvent_zero :: "OutboxEvent" where
  \<open>OutboxEvent_zero = \<lparr>o_ID = 0, o_NotificationID = 0, o_EventType = '''', o_Status = '''', o_ScheduledAt = zero_time, o_StreamID = '''', o_LockedBy = '''', o_LockedAt = None, o_LastError = '''', o_PublishedAt = None, o_CreatedAt = zero_time, o_UpdatedAt = zero_time\<rparr>\<close>

definition OutboxEvent_scanValues :: "column list \<Rightarrow> holder list" where
  \<open>OutboxEvent_scanValues columns =
     map (\<lambda>c. case c of
         FieldEventType \<Rightarrow> HoldNullString
       | FieldStatus \<Rightarrow> HoldNullString
       | FieldStreamID \<Rightarrow> HoldNullString
       | FieldLockedBy \<Rightarrow> HoldNullString
       | FieldLastError \<Rightarrow> HoldNullString
       | FieldScheduledAt \<Rightarrow> HoldNullTime
       | FieldLockedAt \<Rightarrow> HoldNullTime
       | FieldPublishedAt \<Rightarrow> HoldNullTime
       | FieldCreatedAt \<Rightarrow> HoldNullTime
       | FieldUpdatedAt \<Rightarrow> HoldNullTime
       | FieldID \<Rightarrow> HoldUUID
       | FieldNotificationID \<Rightarrow> HoldUUID
       | _ \<Rightarrow> HoldUnknown) columns\<close>

definition OutboxEvent_assign :: "column \<Rightarrow> scanned \<Rightarrow> OutboxEvent \<Rightarrow> goerror + OutboxEvent" where
  \<open>OutboxEvent_assign c v e =
     (case c of
         FieldID \<Rightarrow> (case v of ScanUUID x \<Rightarrow> Inr (e\<lparr>o_ID := x\<rparr>) | _ \<Rightarrow> Inl (unexpected_scan v ''id''))
       | FieldNotificationID \<Rightarrow> (case v of ScanUUID x \<Rightarrow> Inr (e\<lparr>o_NotificationID := x\<rparr>) | _ \<Rightarrow> Inl (unexpected_scan v ''notification_id''))
       | FieldEventType \<Rightarrow> (case v of ScanNullString (Some x) \<Rightarrow> Inr (e\<lparr>o_EventType := x\<rparr>) | ScanNullString None \<Rightarrow> Inr e | _ \<Rightarrow> Inl (unexpected_scan v ''event_type''))
       | FieldStatus \<Rightarrow> (case v of ScanNullString (Some x) \<Rightarrow> Inr (e\<lparr>o_Status := x\<rparr>) | ScanNullString None \<Rightarrow> Inr e | _ \<Rightarrow> Inl (unexpected_scan v ''status''))
       | FieldScheduledAt \<Rightarrow> (case v of ScanNullTime (Some x) \<Rightarrow> Inr (e\<lparr>o_ScheduledAt := x\<rparr>) | ScanNullTime None \<Rightarrow> Inr e | _ \<Rightarrow> Inl (unexpected_scan v ''scheduled_at''))
       | FieldStreamID \<Rightarrow> (case v of ScanNullString (Some x) \<Rightarrow> Inr (e\<lparr>o_StreamID := x\<rparr>) | ScanNullString None \<Rightarrow> Inr e | _ \<Rightarrow> Inl (unexpected_scan v ''stream_id''))
       | FieldLockedBy \<Rightarrow> (case v of ScanNullString (Some x) \<Rightarrow> Inr (e\<lparr>o_LockedBy := x\<rparr>) | ScanNullString None \<Rightarrow> Inr e | _ \<Rightarrow> Inl (unexpected_scan v ''locked_by''))
       | FieldLockedAt \<Rightarrow> (case v of ScanNullTime (Some x) \<Rightarrow> Inr (e\<lparr>o_LockedAt := Some x\<rparr>) | ScanNullTime None \<Rightarrow> Inr e | _ \<Rightarrow> Inl (unexpected_scan v ''locked_at''))
       | FieldLastError \<Rightarrow> (case v of ScanNullString (Some x) \<Rightarrow> Inr (e\<lparr>o_LastError := x\<rparr>) | ScanNullString None \<Rightarrow> Inr e | _ \<Rightarrow> Inl (unexpected_scan v ''last_error''))
       | FieldPublishedAt \<Rightarrow> (case v of ScanNullTime (Some x) \<Rightarrow> Inr (e\<lparr>o_PublishedAt := Some x\<rparr>) | ScanNullTime None \<Rightarrow> Inr e | _ \<Rightarrow> Inl (unexpected_scan v ''published_at''))
       | FieldCreatedAt \<Rightarrow> (case v of ScanNullTime (Some x) \<Rightarrow> Inr (e\<lparr>o_CreatedAt := x\<rparr>) | ScanNullTime None \<Rightarrow> Inr e | _ \<Rightarrow> Inl (unexpected_scan v ''created_at''))
       | FieldUpdatedAt \<Rightarrow> (case v of ScanNullTime (Some x) \<Rightarrow> Inr (e\<lparr>o_UpdatedAt := x\<rparr>) | ScanNullTime None \<Rightarrow> Inr e | _ \<Rightarrow> Inl (unexpected_scan v ''updated_at''))
       | _ \<Rightarrow> Inr e)\<close>

definition OutboxEvent_assignValues :: "column list \<Rightarrow> scanned list \<Rightarrow> OutboxEvent \<Rightarrow> goerror + OutboxEvent" where
  \<open>OutboxEvent_assignValues columns values e =
     (if length values < length columns
      then Inl (ErrText (''mismatch number of scan values: '' @ Itoa (int (length values)) @ '' != '' @ Itoa (int (length columns))))
      else assign_loop OutboxEvent_assign columns values e)\<close>

definition outboxevent_Label :: "string" where
  \<open>outboxevent_Label = ''outbox_event''\<close>

definition outboxevent_Columns :: "column list" where
  \<open>outboxevent_Columns = [FieldID, FieldNotificationID, FieldEventType, FieldStatus, FieldScheduledAt, FieldStreamID, FieldLockedBy, FieldLockedAt, FieldLastError, FieldPublishedAt, FieldCreatedAt, FieldUpdatedAt]\<close>

definition outboxevent_ValidColumn :: "column \<Rightarrow> bool" where
  \<open>outboxevent_ValidColumn column = list_ex (\<lambda>c. column = c) outboxevent_Columns\<close>

abbreviation outboxevent_StatusPending :: string where "outboxevent_StatusPending \<equiv> ''pending''"

abbreviation outboxevent_StatusPublishing :: string where "outboxevent_StatusPublishing \<equiv> ''publishing''"

abbreviation outboxevent_StatusPublished :: string where "outboxevent_StatusPublished \<equiv> ''published''"

abbreviation outboxevent_StatusFailed :: string where "outboxevent_StatusFailed \<equiv> ''failed''"

definition outboxevent_DefaultStatus :: string where
  "outboxevent_DefaultStatus = outboxevent_StatusPending"

definition outboxevent_StatusValidator :: "string \<Rightarrow> goerror option" where
  \<open>outboxevent_StatusValidator s =
     (if s \<in> {outboxevent_StatusPending, outboxevent_StatusPublishing, outboxevent_StatusPublished, outboxevent_StatusFailed}
      then None else Some (ErrText (''outboxevent: invalid enum value for status field: '' @ Quote s)))\<close>

definition outboxevent_ByID :: "column list" where
  \<open>outboxevent_ByID = [FieldID]\<close>

definition outboxevent_ByNotificationID :: "column list" where
  \<open>outboxevent_ByNotificationID = [FieldNotificationID]\<close>

definition outboxevent_ByEventType :: "column list" where
  \<open>outboxevent_ByEventType = [FieldEventType]\<close>

definition outboxevent_ByStatus :: "column list" where
  \<open>outboxevent_ByStatus = [FieldStatus]\<close>

definition outboxevent_ByScheduledAt :: "column list" where
  \<open>outboxevent_ByScheduledAt = [FieldScheduledAt]\<close>

definition outboxevent_ByStreamID :: "column list" where
  \<open>outboxevent_ByStreamID = [FieldStreamID]\<close>

definition outboxevent_ByLockedBy :: "column list" where
  \<open>outboxevent_ByLockedBy = [FieldLockedBy]\<close>

definition outboxevent_ByLockedAt :: "column list" where
  \<open>outboxevent_ByLockedAt = [FieldLockedAt]\<close>

definition outboxevent_ByLastError :: "column list" where
  \<open>outboxevent_ByLastError = [FieldLastError]\<close>

definition outboxevent_ByPublishedAt :: "column list" where
  \<open>outboxevent_ByPublishedAt = [FieldPublishedAt]\<close>

definition outboxevent_ByCreatedAt :: "column list" where
  \<open>outboxevent_ByCreatedAt = [FieldCreatedAt]\<close>

definition outboxevent_ByUpdatedAt :: "column list" where
  \<open>outboxevent_ByUpdatedAt = [FieldUpdatedAt]\<close>

lemmas outboxevent_entity_defs =
  OutboxEvent_zero_def OutboxEvent_scanValues_def OutboxEvent_assign_def OutboxEvent_assignValues_def
  outboxevent_Label_def outboxevent_Columns_def outboxevent_ValidColumn_def outboxevent_DefaultStatus_def

end
