(* ===== verification/Mutation_Notification.thy ===== *)
theory Mutation_Notification
  imports Ent_Types
begin

text \<open>
  The type \<^verbatim>\<open>NotificationMutation\<close> of \<^verbatim>\<open>ent/mutation.go\<close> and its methods, one definition per method. A
  pointer field is an option, \<^verbatim>\<open>clearedFields\<close> a set of columns, a getter that returns a value and
  a flag an option. The old values, \<^verbatim>\<open>IDs\<close>,
  \<^verbatim>\<open>WhereP\<close> and the edge methods, which the program never calls, are in \<open>Graph_*\<close>.
\<close>

record NotificationMutation =
  nm_op :: Op
  nm_typ :: string
  nm_id :: "uuid option"
  nm_url :: "string option"
  nm_method :: "string option"
  nm_headers :: "headers option"
  nm_body :: "bytes option"
  nm_status :: "string option"
  nm_attempt_count :: "int option"
  nm_addattempt_count :: "int option"
  nm_max_attempts :: "int option"
  nm_addmax_attempts :: "int option"
  nm_last_error :: "string option"
  nm_next_attempt_at :: "time option"
  nm_created_at :: "time option"
  nm_updated_at :: "time option"
  nm_clearedFields :: "column set"
  nm_done :: bool
  nm_predicates :: "sql_pred list"

definition newNotificationMutation :: "Op \<Rightarrow> NotificationMutation" where
  \<open>newNotificationMutation op =
     \<lparr>nm_op = op, nm_typ = ''Notification'', nm_id = None,
      nm_url = None, nm_method = None, nm_headers = None, nm_body = None, nm_status = None, nm_attempt_count = None, nm_addattempt_count = None, nm_max_attempts = None, nm_addmax_attempts = None, nm_last_error = None, nm_next_attempt_at = None, nm_created_at = None, nm_updated_at = None,
      nm_clearedFields = {}, nm_done = False, nm_predicates = []\<rparr>\<close>

definition NotificationMutation_SetID :: "uuid \<Rightarrow> NotificationMutation \<Rightarrow> NotificationMutation" where
  \<open>NotificationMutation_SetID v m = m\<lparr>nm_id := Some v\<rparr>\<close>

definition NotificationMutation_ID :: "NotificationMutation \<Rightarrow> uuid option" where
  \<open>NotificationMutation_ID m = nm_id m\<close>

definition NotificationMutation_SetURL :: "string \<Rightarrow> NotificationMutation \<Rightarrow> NotificationMutation" where
  \<open>NotificationMutation_SetURL v m = m\<lparr>nm_url := Some v\<rparr>\<close>

definition NotificationMutation_URL :: "NotificationMutation \<Rightarrow> string option" where
  \<open>NotificationMutation_URL m = nm_url m\<close>

definition NotificationMutation_ResetURL :: "NotificationMutation \<Rightarrow> NotificationMutation" where
  \<open>NotificationMutation_ResetURL m = m\<lparr>nm_url := None\<rparr>\<close>

definition NotificationMutation_SetMethod :: "string \<Rightarrow> NotificationMutation \<Rightarrow> NotificationMutation" where
  \<open>NotificationMutation_SetMethod v m = m\<lparr>nm_method := Some v\<rparr>\<close>

definition NotificationMutation_Method :: "NotificationMutation \<Rightarrow> string option" where
  \<open>NotificationMutation_Method m = nm_method m\<close>

definition NotificationMutation_ResetMethod :: "NotificationMutation \<Rightarrow> NotificationMutation" where
  \<open>NotificationMutation_ResetMethod m = m\<lparr>nm_method := None\<rparr>\<close>

definition NotificationMutation_SetHeaders :: "headers \<Rightarrow> NotificationMutation \<Rightarrow> NotificationMutation" where
  \<open>NotificationMutation_SetHeaders v m = m\<lparr>nm_headers := Some v\<rparr>\<close>

definition NotificationMutation_Headers :: "NotificationMutation \<Rightarrow> headers option" where
  \<open>NotificationMutation_Headers m = nm_headers m\<close>

definition NotificationMutation_ClearHeaders :: "NotificationMutation \<Rightarrow> NotificationMutation" where
  \<open>NotificationMutation_ClearHeaders m = m\<lparr>nm_headers := None, nm_clearedFields := insert FieldHeaders (nm_clearedFields m)\<rparr>\<close>

definition NotificationMutation_HeadersCleared :: "NotificationMutation \<Rightarrow> bool" where
  \<open>NotificationMutation_HeadersCleared m = (FieldHeaders \<in> nm_clearedFields m)\<close>

definition NotificationMutation_ResetHeaders :: "NotificationMutation \<Rightarrow> NotificationMutation" where
  \<open>NotificationMutation_ResetHeaders m = m\<lparr>nm_headers := None, nm_clearedFields := nm_clearedFields m - {FieldHeaders}\<rparr>\<close>

definition NotificationMutation_SetBody :: "bytes \<Rightarrow> NotificationMutation \<Rightarrow> NotificationMutation" where
  \<open>NotificationMutation_SetBody v m = m\<lparr>nm_body := Some v\<rparr>\<close>

definition NotificationMutation_Body :: "NotificationMutation \<Rightarrow> bytes option" where
  \<open>NotificationMutation_Body m = nm_body m\<close>

definition NotificationMutation_ClearBody :: "NotificationMutation \<Rightarrow> NotificationMutation" where
  \<open>NotificationMutation_ClearBody m = m\<lparr>nm_body := None, nm_clearedFields := insert FieldBody (nm_clearedFields m)\<rparr>\<close>

definition NotificationMutation_BodyCleared :: "NotificationMutation \<Rightarrow> bool" where
  \<open>NotificationMutation_BodyCleared m = (FieldBody \<in> nm_clearedFields m)\<close>

definition NotificationMutation_ResetBody :: "NotificationMutation \<Rightarrow> NotificationMutation" where
  \<open>NotificationMutation_ResetBody m = m\<lparr>nm_body := None, nm_clearedFields := nm_clearedFields m - {FieldBody}\<rparr>\<close>

definition NotificationMutation_SetStatus :: "string \<Rightarrow> NotificationMutation \<Rightarrow> NotificationMutation" where
  \<open>NotificationMutation_SetStatus v m = m\<lparr>nm_status := Some v\<rparr>\<close>

definition NotificationMutation_Status :: "NotificationMutation \<Rightarrow> string option" where
  \<open>NotificationMutation_Status m = nm_status m\<close>

definition NotificationMutation_ResetStatus :: "NotificationMutation \<Rightarrow> NotificationMutation" where
  \<open>NotificationMutation_ResetStatus m = m\<lparr>nm_status := None\<rparr>\<close>

definition NotificationMutation_SetAttemptCount :: "int \<Rightarrow> NotificationMutation \<Rightarrow> NotificationMutation" where
  \<open>NotificationMutation_SetAttemptCount v m = m\<lparr>nm_attempt_count := Some v, nm_addattempt_count := None\<rparr>\<close>

definition NotificationMutation_AttemptCount :: "NotificationMutation \<Rightarrow> int option" where
  \<open>NotificationMutation_AttemptCount m = nm_attempt_count m\<close>

definition NotificationMutation_AddAttemptCount :: "int \<Rightarrow> NotificationMutation \<Rightarrow> NotificationMutation" where
  \<open>NotificationMutation_AddAttemptCount v m =
     (case nm_addattempt_count m of
        Some a \<Rightarrow> m\<lparr>nm_addattempt_count := Some (int64_plus a v)\<rparr>
      | None \<Rightarrow> m\<lparr>nm_addattempt_count := Some v\<rparr>)\<close>

definition NotificationMutation_AddedAttemptCount :: "NotificationMutation \<Rightarrow> int option" where
  \<open>NotificationMutation_AddedAttemptCount m = nm_addattempt_count m\<close>

definition NotificationMutation_ResetAttemptCount :: "NotificationMutation \<Rightarrow> NotificationMutation" where
  \<open>NotificationMutation_ResetAttemptCount m = m\<lparr>nm_attempt_count := None, nm_addattempt_count := None\<rparr>\<close>

definition NotificationMutation_SetMaxAttempts :: "int \<Rightarrow> NotificationMutation \<Rightarrow> NotificationMutation" where
  \<open>NotificationMutation_SetMaxAttempts v m = m\<lparr>nm_max_attempts := Some v, nm_addmax_attempts := None\<rparr>\<close>

definition NotificationMutation_MaxAttempts :: "NotificationMutation \<Rightarrow> int option" where
  \<open>NotificationMutation_MaxAttempts m = nm_max_attempts m\<close>

definition NotificationMutation_AddMaxAttempts :: "int \<Rightarrow> NotificationMutation \<Rightarrow> NotificationMutation" where
  \<open>NotificationMutation_AddMaxAttempts v m =
     (case nm_addmax_attempts m of
        Some a \<Rightarrow> m\<lparr>nm_addmax_attempts := Some (int64_plus a v)\<rparr>
      | None \<Rightarrow> m\<lparr>nm_addmax_attempts := Some v\<rparr>)\<close>

definition NotificationMutation_AddedMaxAttempts :: "NotificationMutation \<Rightarrow> int option" where
  \<open>NotificationMutation_AddedMaxAttempts m = nm_addmax_attempts m\<close>

definition NotificationMutation_ResetMaxAttempts :: "NotificationMutation \<Rightarrow> NotificationMutation" where
  \<open>NotificationMutation_ResetMaxAttempts m = m\<lparr>nm_max_attempts := None, nm_addmax_attempts := None\<rparr>\<close>

definition NotificationMutation_SetLastError :: "string \<Rightarrow> NotificationMutation \<Rightarrow> NotificationMutation" where
  \<open>NotificationMutation_SetLastError v m = m\<lparr>nm_last_error := Some v\<rparr>\<close>

definition NotificationMutation_LastError :: "NotificationMutation \<Rightarrow> string option" where
  \<open>NotificationMutation_LastError m = nm_last_error m\<close>

definition NotificationMutation_ClearLastError :: "NotificationMutation \<Rightarrow> NotificationMutation" where
  \<open>NotificationMutation_ClearLastError m = m\<lparr>nm_last_error := None, nm_clearedFields := insert FieldLastError (nm_clearedFields m)\<rparr>\<close>

definition NotificationMutation_LastErrorCleared :: "NotificationMutation \<Rightarrow> bool" where
  \<open>NotificationMutation_LastErrorCleared m = (FieldLastError \<in> nm_clearedFields m)\<close>

definition NotificationMutation_ResetLastError :: "NotificationMutation \<Rightarrow> NotificationMutation" where
  \<open>NotificationMutation_ResetLastError m = m\<lparr>nm_last_error := None, nm_clearedFields := nm_clearedFields m - {FieldLastError}\<rparr>\<close>

definition NotificationMutation_SetNextAttemptAt :: "time \<Rightarrow> NotificationMutation \<Rightarrow> NotificationMutation" where
  \<open>NotificationMutation_SetNextAttemptAt v m = m\<lparr>nm_next_attempt_at := Some v\<rparr>\<close>

definition NotificationMutation_NextAttemptAt :: "NotificationMutation \<Rightarrow> time option" where
  \<open>NotificationMutation_NextAttemptAt m = nm_next_attempt_at m\<close>

definition NotificationMutation_ClearNextAttemptAt :: "NotificationMutation \<Rightarrow> NotificationMutation" where
  \<open>NotificationMutation_ClearNextAttemptAt m = m\<lparr>nm_next_attempt_at := None, nm_clearedFields := insert FieldNextAttemptAt (nm_clearedFields m)\<rparr>\<close>

definition NotificationMutation_NextAttemptAtCleared :: "NotificationMutation \<Rightarrow> bool" where
  \<open>NotificationMutation_NextAttemptAtCleared m = (FieldNextAttemptAt \<in> nm_clearedFields m)\<close>

definition NotificationMutation_ResetNextAttemptAt :: "NotificationMutation \<Rightarrow> NotificationMutation" where
  \<open>NotificationMutation_ResetNextAttemptAt m = m\<lparr>nm_next_attempt_at := None, nm_clearedFields := nm_clearedFields m - {FieldNextAttemptAt}\<rparr>\<close>

definition NotificationMutation_SetCreatedAt :: "time \<Rightarrow> NotificationMutation \<Rightarrow> NotificationMutation" where
  \<open>NotificationMutation_SetCreatedAt v m = m\<lparr>nm_created_at := Some v\<rparr>\<close>

definition NotificationMutation_CreatedAt :: "NotificationMutation \<Rightarrow> time option" where
  \<open>NotificationMutation_CreatedAt m = nm_created_at m\<close>

definition NotificationMutation_ResetCreatedAt :: "NotificationMutation \<Rightarrow> NotificationMutation" where
  \<open>NotificationMutation_ResetCreatedAt m = m\<lparr>nm_created_at := None\<rparr>\<close>

definition NotificationMutation_SetUpdatedAt :: "time \<Rightarrow> NotificationMutation \<Rightarrow> NotificationMutation" where
  \<open>NotificationMutation_SetUpdatedAt v m = m\<lparr>nm_updated_at := Some v\<rparr>\<close>

definition NotificationMutation_UpdatedAt :: "NotificationMutation \<Rightarrow> time option" where
  \<open>NotificationMutation_UpdatedAt m = nm_updated_at m\<close>

definition NotificationMutation_ResetUpdatedAt :: "NotificationMutation \<Rightarrow> NotificationMutation" where
  \<open>NotificationMutation_ResetUpdatedAt m = m\<lparr>nm_updated_at := None\<rparr>\<close>

definition NotificationMutation_Where :: "sql_pred list \<Rightarrow> NotificationMutation \<Rightarrow> NotificationMutation" where
  \<open>NotificationMutation_Where ps m = m\<lparr>nm_predicates := nm_predicates m @ ps\<rparr>\<close>

definition NotificationMutation_Op :: "NotificationMutation \<Rightarrow> Op" where
  \<open>NotificationMutation_Op m = nm_op m\<close>

definition NotificationMutation_SetOp :: "Op \<Rightarrow> NotificationMutation \<Rightarrow> NotificationMutation" where
  \<open>NotificationMutation_SetOp op m = m\<lparr>nm_op := op\<rparr>\<close>

definition NotificationMutation_Type :: "NotificationMutation \<Rightarrow> string" where
  \<open>NotificationMutation_Type m = nm_typ m\<close>

definition NotificationMutation_Fields :: "NotificationMutation \<Rightarrow> column list" where
  \<open>NotificationMutation_Fields m =
     (if nm_url m \<noteq> None then [FieldURL] else [])
     @ (if nm_method m \<noteq> None then [FieldMethod] else [])
     @ (if nm_headers m \<noteq> None then [FieldHeaders] else [])
     @ (if nm_body m \<noteq> None then [FieldBody] else [])
     @ (if nm_status m \<noteq> None then [FieldStatus] else [])
     @ (if nm_attempt_count m \<noteq> None then [FieldAttemptCount] else [])
     @ (if nm_max_attempts m \<noteq> None then [FieldMaxAttempts] else [])
     @ (if nm_last_error m \<noteq> None then [FieldLastError] else [])
     @ (if nm_next_attempt_at m \<noteq> None then [FieldNextAttemptAt] else [])
     @ (if nm_created_at m \<noteq> None then [FieldCreatedAt] else [])
     @ (if nm_updated_at m \<noteq> None then [FieldUpdatedAt] else [])\<close>

definition NotificationMutation_Field :: "column \<Rightarrow> NotificationMutation \<Rightarrow> ent_value option" where
  \<open>NotificationMutation_Field name m =
     (case name of
         FieldURL \<Rightarrow> map_option GoString (NotificationMutation_URL m)
       | FieldMethod \<Rightarrow> map_option GoString (NotificationMutation_Method m)
       | FieldHeaders \<Rightarrow> map_option GoMap (NotificationMutation_Headers m)
       | FieldBody \<Rightarrow> map_option GoBytes (NotificationMutation_Body m)
       | FieldStatus \<Rightarrow> map_option GoNotificationStatus (NotificationMutation_Status m)
       | FieldAttemptCount \<Rightarrow> map_option GoInt (NotificationMutation_AttemptCount m)
       | FieldMaxAttempts \<Rightarrow> map_option GoInt (NotificationMutation_MaxAttempts m)
       | FieldLastError \<Rightarrow> map_option GoString (NotificationMutation_LastError m)
       | FieldNextAttemptAt \<Rightarrow> map_option GoTime (NotificationMutation_NextAttemptAt m)
       | FieldCreatedAt \<Rightarrow> map_option GoTime (NotificationMutation_CreatedAt m)
       | FieldUpdatedAt \<Rightarrow> map_option GoTime (NotificationMutation_UpdatedAt m)
       | _ \<Rightarrow> None)\<close>

definition NotificationMutation_SetField :: "column \<Rightarrow> ent_value \<Rightarrow> NotificationMutation \<Rightarrow> goerror + NotificationMutation" where
  \<open>NotificationMutation_SetField name value m =
     (case name of
         FieldURL \<Rightarrow> (case value of GoString v \<Rightarrow> Inr (NotificationMutation_SetURL v m) | _ \<Rightarrow> Inl (unexpected_value value name))
       | FieldMethod \<Rightarrow> (case value of GoString v \<Rightarrow> Inr (NotificationMutation_SetMethod v m) | _ \<Rightarrow> Inl (unexpected_value value name))
       | FieldHeaders \<Rightarrow> (case value of GoMap v \<Rightarrow> Inr (NotificationMutation_SetHeaders v m) | _ \<Rightarrow> Inl (unexpected_value value name))
       | FieldBody \<Rightarrow> (case value of GoBytes v \<Rightarrow> Inr (NotificationMutation_SetBody v m) | _ \<Rightarrow> Inl (unexpected_value value name))
       | FieldStatus \<Rightarrow> (case value of GoNotificationStatus v \<Rightarrow> Inr (NotificationMutation_SetStatus v m) | _ \<Rightarrow> Inl (unexpected_value value name))
       | FieldAttemptCount \<Rightarrow> (case value of GoInt v \<Rightarrow> Inr (NotificationMutation_SetAttemptCount v m) | _ \<Rightarrow> Inl (unexpected_value value name))
       | FieldMaxAttempts \<Rightarrow> (case value of GoInt v \<Rightarrow> Inr (NotificationMutation_SetMaxAttempts v m) | _ \<Rightarrow> Inl (unexpected_value value name))
       | FieldLastError \<Rightarrow> (case value of GoString v \<Rightarrow> Inr (NotificationMutation_SetLastError v m) | _ \<Rightarrow> Inl (unexpected_value value name))
       | FieldNextAttemptAt \<Rightarrow> (case value of GoTime v \<Rightarrow> Inr (NotificationMutation_SetNextAttemptAt v m) | _ \<Rightarrow> Inl (unexpected_value value name))
       | FieldCreatedAt \<Rightarrow> (case value of GoTime v \<Rightarrow> Inr (NotificationMutation_SetCreatedAt v m) | _ \<Rightarrow> Inl (unexpected_value value name))
       | FieldUpdatedAt \<Rightarrow> (case value of GoTime v \<Rightarrow> Inr (NotificationMutation_SetUpdatedAt v m) | _ \<Rightarrow> Inl (unexpected_value value name))
       | _ \<Rightarrow> Inl (ErrText (''unknown Notification field '' @ column_name name)))\<close>

definition NotificationMutation_AddedFields :: "NotificationMutation \<Rightarrow> column list" where
  \<open>NotificationMutation_AddedFields m =
     (if nm_addattempt_count m \<noteq> None then [FieldAttemptCount] else [])
     @ (if nm_addmax_attempts m \<noteq> None then [FieldMaxAttempts] else [])\<close>

definition NotificationMutation_AddedField :: "column \<Rightarrow> NotificationMutation \<Rightarrow> ent_value option" where
  \<open>NotificationMutation_AddedField name m =
     (case name of
         FieldAttemptCount \<Rightarrow> map_option GoInt (NotificationMutation_AddedAttemptCount m)
       | FieldMaxAttempts \<Rightarrow> map_option GoInt (NotificationMutation_AddedMaxAttempts m)
       | _ \<Rightarrow> None)\<close>

definition NotificationMutation_AddField :: "column \<Rightarrow> ent_value \<Rightarrow> NotificationMutation \<Rightarrow> goerror + NotificationMutation" where
  \<open>NotificationMutation_AddField name value m =
     (case name of
         FieldAttemptCount \<Rightarrow> (case value of GoInt v \<Rightarrow> Inr (NotificationMutation_AddAttemptCount v m) | _ \<Rightarrow> Inl (unexpected_value value name))
       | FieldMaxAttempts \<Rightarrow> (case value of GoInt v \<Rightarrow> Inr (NotificationMutation_AddMaxAttempts v m) | _ \<Rightarrow> Inl (unexpected_value value name))
       | _ \<Rightarrow> Inl (ErrText (''unknown Notification numeric field '' @ column_name name)))\<close>

definition NotificationMutation_FieldCleared :: "column \<Rightarrow> NotificationMutation \<Rightarrow> bool" where
  \<open>NotificationMutation_FieldCleared name m = (name \<in> nm_clearedFields m)\<close>

definition NotificationMutation_ClearField :: "column \<Rightarrow> NotificationMutation \<Rightarrow> goerror + NotificationMutation" where
  \<open>NotificationMutation_ClearField name m =
     (case name of
         FieldHeaders \<Rightarrow> Inr (NotificationMutation_ClearHeaders m)
       | FieldBody \<Rightarrow> Inr (NotificationMutation_ClearBody m)
       | FieldLastError \<Rightarrow> Inr (NotificationMutation_ClearLastError m)
       | FieldNextAttemptAt \<Rightarrow> Inr (NotificationMutation_ClearNextAttemptAt m)
       | _ \<Rightarrow> Inl (ErrText (''unknown Notification nullable field '' @ column_name name)))\<close>

definition NotificationMutation_ResetField :: "column \<Rightarrow> NotificationMutation \<Rightarrow> goerror + NotificationMutation" where
  \<open>NotificationMutation_ResetField name m =
     (case name of
         FieldURL \<Rightarrow> Inr (NotificationMutation_ResetURL m)
       | FieldMethod \<Rightarrow> Inr (NotificationMutation_ResetMethod m)
       | FieldHeaders \<Rightarrow> Inr (NotificationMutation_ResetHeaders m)
       | FieldBody \<Rightarrow> Inr (NotificationMutation_ResetBody m)
       | FieldStatus \<Rightarrow> Inr (NotificationMutation_ResetStatus m)
       | FieldAttemptCount \<Rightarrow> Inr (NotificationMutation_ResetAttemptCount m)
       | FieldMaxAttempts \<Rightarrow> Inr (NotificationMutation_ResetMaxAttempts m)
       | FieldLastError \<Rightarrow> Inr (NotificationMutation_ResetLastError m)
       | FieldNextAttemptAt \<Rightarrow> Inr (NotificationMutation_ResetNextAttemptAt m)
       | FieldCreatedAt \<Rightarrow> Inr (NotificationMutation_ResetCreatedAt m)
       | FieldUpdatedAt \<Rightarrow> Inr (NotificationMutation_ResetUpdatedAt m)
       | _ \<Rightarrow> Inl (ErrText (''unknown Notification field '' @ column_name name)))\<close>

definition NotificationMutation_ClearedFields :: "NotificationMutation \<Rightarrow> column list" where
  \<open>NotificationMutation_ClearedFields m =
     (if NotificationMutation_FieldCleared FieldHeaders m then [FieldHeaders] else [])
     @ (if NotificationMutation_FieldCleared FieldBody m then [FieldBody] else [])
     @ (if NotificationMutation_FieldCleared FieldLastError m then [FieldLastError] else [])
     @ (if NotificationMutation_FieldCleared FieldNextAttemptAt m then [FieldNextAttemptAt] else [])\<close>

lemmas NotificationMutation_defs =
  newNotificationMutation_def
  NotificationMutation_SetID_def
  NotificationMutation_ID_def
  NotificationMutation_SetURL_def
  NotificationMutation_URL_def
  NotificationMutation_ResetURL_def
  NotificationMutation_SetMethod_def
  NotificationMutation_Method_def
  NotificationMutation_ResetMethod_def
  NotificationMutation_SetHeaders_def
  NotificationMutation_Headers_def
  NotificationMutation_ClearHeaders_def
  NotificationMutation_HeadersCleared_def
  NotificationMutation_ResetHeaders_def
  NotificationMutation_SetBody_def
  NotificationMutation_Body_def
  NotificationMutation_ClearBody_def
  NotificationMutation_BodyCleared_def
  NotificationMutation_ResetBody_def
  NotificationMutation_SetStatus_def
  NotificationMutation_Status_def
  NotificationMutation_ResetStatus_def
  NotificationMutation_SetAttemptCount_def
  NotificationMutation_AttemptCount_def
  NotificationMutation_AddAttemptCount_def
  NotificationMutation_AddedAttemptCount_def
  NotificationMutation_ResetAttemptCount_def
  NotificationMutation_SetMaxAttempts_def
  NotificationMutation_MaxAttempts_def
  NotificationMutation_AddMaxAttempts_def
  NotificationMutation_AddedMaxAttempts_def
  NotificationMutation_ResetMaxAttempts_def
  NotificationMutation_SetLastError_def
  NotificationMutation_LastError_def
  NotificationMutation_ClearLastError_def
  NotificationMutation_LastErrorCleared_def
  NotificationMutation_ResetLastError_def
  NotificationMutation_SetNextAttemptAt_def
  NotificationMutation_NextAttemptAt_def
  NotificationMutation_ClearNextAttemptAt_def
  NotificationMutation_NextAttemptAtCleared_def
  NotificationMutation_ResetNextAttemptAt_def
  NotificationMutation_SetCreatedAt_def
  NotificationMutation_CreatedAt_def
  NotificationMutation_ResetCreatedAt_def
  NotificationMutation_SetUpdatedAt_def
  NotificationMutation_UpdatedAt_def
  NotificationMutation_ResetUpdatedAt_def
  NotificationMutation_Where_def
  NotificationMutation_Op_def
  NotificationMutation_SetOp_def
  NotificationMutation_Type_def
  NotificationMutation_Fields_def
  NotificationMutation_Field_def
  NotificationMutation_SetField_def
  NotificationMutation_AddedFields_def
  NotificationMutation_AddedField_def
  NotificationMutation_AddField_def
  NotificationMutation_FieldCleared_def
  NotificationMutation_ClearField_def
  NotificationMutation_ResetField_def
  NotificationMutation_ClearedFields_def

end
