(* ===== verification/Builders_Notification.thy ===== *)
theory Builders_Notification
  imports Mutation_Notification
begin

text \<open>
  The builders \<^verbatim>\<open>NotificationCreate\<close> and \<^verbatim>\<open>NotificationUpdate\<close> of \<^verbatim>\<open>ent/notification_create.go\<close> and
  \<^verbatim>\<open>ent/notification_update.go\<close>. A builder is its mutation: the program registers no hooks, and the
  configuration is the driver \<open>db\<close>. Bulk creation, the builders for a single entity and
  the methods that panic, none of which the program calls, are in \<open>Graph_*\<close>.
\<close>

section \<open>NotificationCreate\<close>

type_synonym NotificationCreate = NotificationMutation

definition NotificationCreate_SetURL :: "string \<Rightarrow> NotificationCreate \<Rightarrow> NotificationCreate" where
  \<open>NotificationCreate_SetURL v c = NotificationMutation_SetURL v c\<close>

definition NotificationCreate_SetMethod :: "string \<Rightarrow> NotificationCreate \<Rightarrow> NotificationCreate" where
  \<open>NotificationCreate_SetMethod v c = NotificationMutation_SetMethod v c\<close>

definition NotificationCreate_SetNillableMethod :: "string option \<Rightarrow> NotificationCreate \<Rightarrow> NotificationCreate" where
  \<open>NotificationCreate_SetNillableMethod v c = (case v of Some x \<Rightarrow> NotificationCreate_SetMethod x c | None \<Rightarrow> c)\<close>

definition NotificationCreate_SetHeaders :: "headers \<Rightarrow> NotificationCreate \<Rightarrow> NotificationCreate" where
  \<open>NotificationCreate_SetHeaders v c = NotificationMutation_SetHeaders v c\<close>

definition NotificationCreate_SetBody :: "bytes \<Rightarrow> NotificationCreate \<Rightarrow> NotificationCreate" where
  \<open>NotificationCreate_SetBody v c = NotificationMutation_SetBody v c\<close>

definition NotificationCreate_SetStatus :: "string \<Rightarrow> NotificationCreate \<Rightarrow> NotificationCreate" where
  \<open>NotificationCreate_SetStatus v c = NotificationMutation_SetStatus v c\<close>

definition NotificationCreate_SetNillableStatus :: "string option \<Rightarrow> NotificationCreate \<Rightarrow> NotificationCreate" where
  \<open>NotificationCreate_SetNillableStatus v c = (case v of Some x \<Rightarrow> NotificationCreate_SetStatus x c | None \<Rightarrow> c)\<close>

definition NotificationCreate_SetAttemptCount :: "int \<Rightarrow> NotificationCreate \<Rightarrow> NotificationCreate" where
  \<open>NotificationCreate_SetAttemptCount v c = NotificationMutation_SetAttemptCount v c\<close>

definition NotificationCreate_SetNillableAttemptCount :: "int option \<Rightarrow> NotificationCreate \<Rightarrow> NotificationCreate" where
  \<open>NotificationCreate_SetNillableAttemptCount v c = (case v of Some x \<Rightarrow> NotificationCreate_SetAttemptCount x c | None \<Rightarrow> c)\<close>

definition NotificationCreate_SetMaxAttempts :: "int \<Rightarrow> NotificationCreate \<Rightarrow> NotificationCreate" where
  \<open>NotificationCreate_SetMaxAttempts v c = NotificationMutation_SetMaxAttempts v c\<close>

definition NotificationCreate_SetNillableMaxAttempts :: "int option \<Rightarrow> NotificationCreate \<Rightarrow> NotificationCreate" where
  \<open>NotificationCreate_SetNillableMaxAttempts v c = (case v of Some x \<Rightarrow> NotificationCreate_SetMaxAttempts x c | None \<Rightarrow> c)\<close>

definition NotificationCreate_SetLastError :: "string \<Rightarrow> NotificationCreate \<Rightarrow> NotificationCreate" where
  \<open>NotificationCreate_SetLastError v c = NotificationMutation_SetLastError v c\<close>

definition NotificationCreate_SetNillableLastError :: "string option \<Rightarrow> NotificationCreate \<Rightarrow> NotificationCreate" where
  \<open>NotificationCreate_SetNillableLastError v c = (case v of Some x \<Rightarrow> NotificationCreate_SetLastError x c | None \<Rightarrow> c)\<close>

definition NotificationCreate_SetNextAttemptAt :: "time \<Rightarrow> NotificationCreate \<Rightarrow> NotificationCreate" where
  \<open>NotificationCreate_SetNextAttemptAt v c = NotificationMutation_SetNextAttemptAt v c\<close>

definition NotificationCreate_SetNillableNextAttemptAt :: "time option \<Rightarrow> NotificationCreate \<Rightarrow> NotificationCreate" where
  \<open>NotificationCreate_SetNillableNextAttemptAt v c = (case v of Some x \<Rightarrow> NotificationCreate_SetNextAttemptAt x c | None \<Rightarrow> c)\<close>

definition NotificationCreate_SetCreatedAt :: "time \<Rightarrow> NotificationCreate \<Rightarrow> NotificationCreate" where
  \<open>NotificationCreate_SetCreatedAt v c = NotificationMutation_SetCreatedAt v c\<close>

definition NotificationCreate_SetNillableCreatedAt :: "time option \<Rightarrow> NotificationCreate \<Rightarrow> NotificationCreate" where
  \<open>NotificationCreate_SetNillableCreatedAt v c = (case v of Some x \<Rightarrow> NotificationCreate_SetCreatedAt x c | None \<Rightarrow> c)\<close>

definition NotificationCreate_SetUpdatedAt :: "time \<Rightarrow> NotificationCreate \<Rightarrow> NotificationCreate" where
  \<open>NotificationCreate_SetUpdatedAt v c = NotificationMutation_SetUpdatedAt v c\<close>

definition NotificationCreate_SetNillableUpdatedAt :: "time option \<Rightarrow> NotificationCreate \<Rightarrow> NotificationCreate" where
  \<open>NotificationCreate_SetNillableUpdatedAt v c = (case v of Some x \<Rightarrow> NotificationCreate_SetUpdatedAt x c | None \<Rightarrow> c)\<close>

definition NotificationCreate_SetID :: "uuid \<Rightarrow> NotificationCreate \<Rightarrow> NotificationCreate" where
  \<open>NotificationCreate_SetID v c = NotificationMutation_SetID v c\<close>

definition NotificationCreate_SetNillableID :: "uuid option \<Rightarrow> NotificationCreate \<Rightarrow> NotificationCreate" where
  \<open>NotificationCreate_SetNillableID v c = (case v of Some x \<Rightarrow> NotificationCreate_SetID x c | None \<Rightarrow> c)\<close>

definition NotificationCreate_Mutation :: "NotificationCreate \<Rightarrow> NotificationMutation" where
  \<open>NotificationCreate_Mutation c = c\<close>

definition NotificationCreate_defaults :: "'w db \<Rightarrow> NotificationCreate \<Rightarrow> 'w \<Rightarrow> NotificationCreate \<times> 'w" where
  \<open>NotificationCreate_defaults db c w =
     (let c = (case NotificationMutation_Method c of Some _ \<Rightarrow> c | None \<Rightarrow> NotificationMutation_SetMethod notification_DefaultMethod c);
          c = (case NotificationMutation_Status c of Some _ \<Rightarrow> c | None \<Rightarrow> NotificationMutation_SetStatus notification_DefaultStatus c);
          c = (case NotificationMutation_AttemptCount c of Some _ \<Rightarrow> c | None \<Rightarrow> NotificationMutation_SetAttemptCount notification_DefaultAttemptCount c);
          c = (case NotificationMutation_MaxAttempts c of Some _ \<Rightarrow> c | None \<Rightarrow> NotificationMutation_SetMaxAttempts notification_DefaultMaxAttempts c);
          (c, w) = (case NotificationMutation_CreatedAt c of Some _ \<Rightarrow> (c, w) | None \<Rightarrow> (case notification_DefaultCreatedAt db w of (v, w1) \<Rightarrow> (NotificationMutation_SetCreatedAt v c, w1)));
          (c, w) = (case NotificationMutation_UpdatedAt c of Some _ \<Rightarrow> (c, w) | None \<Rightarrow> (case notification_DefaultUpdatedAt db w of (v, w1) \<Rightarrow> (NotificationMutation_SetUpdatedAt v c, w1)));
          (c, w) = (case NotificationMutation_ID c of Some _ \<Rightarrow> (c, w) | None \<Rightarrow> (case notification_DefaultID db w of (v, w1) \<Rightarrow> (NotificationMutation_SetID v c, w1)))
      in (c, w))\<close>

definition NotificationCreate_check :: "NotificationCreate \<Rightarrow> goerror option" where
  \<open>NotificationCreate_check c =
     first_error
       [missing (NotificationMutation_URL c) ''url'' ''ent: missing required field "Notification.url"'',
        validated (NotificationMutation_URL c) notification_URLValidator ''url'' ''ent: validator failed for field "Notification.url": '',
        missing (NotificationMutation_Method c) ''method'' ''ent: missing required field "Notification.method"'',
        missing (NotificationMutation_Status c) ''status'' ''ent: missing required field "Notification.status"'',
        validated (NotificationMutation_Status c) notification_StatusValidator ''status'' ''ent: validator failed for field "Notification.status": '',
        missing (NotificationMutation_AttemptCount c) ''attempt_count'' ''ent: missing required field "Notification.attempt_count"'',
        missing (NotificationMutation_MaxAttempts c) ''max_attempts'' ''ent: missing required field "Notification.max_attempts"'',
        missing (NotificationMutation_CreatedAt c) ''created_at'' ''ent: missing required field "Notification.created_at"'',
        missing (NotificationMutation_UpdatedAt c) ''updated_at'' ''ent: missing required field "Notification.updated_at"'']\<close>

definition NotificationCreate_createSpec :: "NotificationCreate \<Rightarrow> Notification \<times> CreateSpec" where
  \<open>NotificationCreate_createSpec c =
     (let node = Notification_zero;
          node = (case NotificationMutation_ID c of Some v \<Rightarrow> node\<lparr>n_ID := v\<rparr> | None \<Rightarrow> node);
          node = (case NotificationMutation_URL c of Some v \<Rightarrow> node\<lparr>n_URL := v\<rparr> | None \<Rightarrow> node);
          node = (case NotificationMutation_Method c of Some v \<Rightarrow> node\<lparr>n_Method := v\<rparr> | None \<Rightarrow> node);
          node = (case NotificationMutation_Headers c of Some v \<Rightarrow> node\<lparr>n_Headers := v\<rparr> | None \<Rightarrow> node);
          node = (case NotificationMutation_Body c of Some v \<Rightarrow> node\<lparr>n_Body := v\<rparr> | None \<Rightarrow> node);
          node = (case NotificationMutation_Status c of Some v \<Rightarrow> node\<lparr>n_Status := v\<rparr> | None \<Rightarrow> node);
          node = (case NotificationMutation_AttemptCount c of Some v \<Rightarrow> node\<lparr>n_AttemptCount := v\<rparr> | None \<Rightarrow> node);
          node = (case NotificationMutation_MaxAttempts c of Some v \<Rightarrow> node\<lparr>n_MaxAttempts := v\<rparr> | None \<Rightarrow> node);
          node = (case NotificationMutation_LastError c of Some v \<Rightarrow> node\<lparr>n_LastError := v\<rparr> | None \<Rightarrow> node);
          node = (case NotificationMutation_NextAttemptAt c of Some v \<Rightarrow> node\<lparr>n_NextAttemptAt := Some v\<rparr> | None \<Rightarrow> node);
          node = (case NotificationMutation_CreatedAt c of Some v \<Rightarrow> node\<lparr>n_CreatedAt := v\<rparr> | None \<Rightarrow> node);
          node = (case NotificationMutation_UpdatedAt c of Some v \<Rightarrow> node\<lparr>n_UpdatedAt := v\<rparr> | None \<Rightarrow> node)
      in (node, \<lparr>cs_Table = Table_notifications, cs_ID = NotificationMutation_ID c, cs_Fields =
           spec_field FieldURL VString (NotificationMutation_URL c)
           @ spec_field FieldMethod VString (NotificationMutation_Method c)
           @ spec_field FieldHeaders VJson (NotificationMutation_Headers c)
           @ spec_field FieldBody VBytes (NotificationMutation_Body c)
           @ spec_field FieldStatus VString (NotificationMutation_Status c)
           @ spec_field FieldAttemptCount VInt (NotificationMutation_AttemptCount c)
           @ spec_field FieldMaxAttempts VInt (NotificationMutation_MaxAttempts c)
           @ spec_field FieldLastError VString (NotificationMutation_LastError c)
           @ spec_field FieldNextAttemptAt VTime (NotificationMutation_NextAttemptAt c)
           @ spec_field FieldCreatedAt VTime (NotificationMutation_CreatedAt c)
           @ spec_field FieldUpdatedAt VTime (NotificationMutation_UpdatedAt c)\<rparr>))\<close>

definition NotificationCreate_sqlSave :: "'w db \<Rightarrow> NotificationCreate \<Rightarrow> 'w \<Rightarrow> (goerror + Notification) \<times> 'w" where
  \<open>NotificationCreate_sqlSave db c w =
     (case NotificationCreate_check c of
        Some err \<Rightarrow> (Inl err, w)
      | None \<Rightarrow>
          (case NotificationCreate_createSpec c of (node, spec) \<Rightarrow>
             (case CreateNode db spec w of
                (Inl err, w1) \<Rightarrow>
                  (Inl (if IsSqlConstraintError db err then ConstraintError (error_text err) err else err), w1)
              | (Inr _, w1) \<Rightarrow>
                  (Inr (case cs_ID spec of Some v \<Rightarrow> node\<lparr>n_ID := v\<rparr> | None \<Rightarrow> node), w1))))\<close>

definition NotificationCreate_Save :: "'w db \<Rightarrow> NotificationCreate \<Rightarrow> 'w \<Rightarrow> (goerror + Notification) \<times> 'w" where
  \<open>NotificationCreate_Save db c w = (case NotificationCreate_defaults db c w of (c1, w1) \<Rightarrow> NotificationCreate_sqlSave db c1 w1)\<close>

definition NotificationCreate_Exec :: "'w db \<Rightarrow> NotificationCreate \<Rightarrow> 'w \<Rightarrow> goerror option \<times> 'w" where
  \<open>NotificationCreate_Exec db c w = (case NotificationCreate_Save db c w of (Inl err, w1) \<Rightarrow> (Some err, w1) | (Inr _, w1) \<Rightarrow> (None, w1))\<close>

section \<open>NotificationUpdate\<close>

type_synonym NotificationUpdate = NotificationMutation

definition NotificationUpdate_Where :: "sql_pred list \<Rightarrow> NotificationUpdate \<Rightarrow> NotificationUpdate" where
  \<open>NotificationUpdate_Where ps c = NotificationMutation_Where ps c\<close>

definition NotificationUpdate_SetURL :: "string \<Rightarrow> NotificationUpdate \<Rightarrow> NotificationUpdate" where
  \<open>NotificationUpdate_SetURL v c = NotificationMutation_SetURL v c\<close>

definition NotificationUpdate_SetNillableURL :: "string option \<Rightarrow> NotificationUpdate \<Rightarrow> NotificationUpdate" where
  \<open>NotificationUpdate_SetNillableURL v c = (case v of Some x \<Rightarrow> NotificationUpdate_SetURL x c | None \<Rightarrow> c)\<close>

definition NotificationUpdate_SetMethod :: "string \<Rightarrow> NotificationUpdate \<Rightarrow> NotificationUpdate" where
  \<open>NotificationUpdate_SetMethod v c = NotificationMutation_SetMethod v c\<close>

definition NotificationUpdate_SetNillableMethod :: "string option \<Rightarrow> NotificationUpdate \<Rightarrow> NotificationUpdate" where
  \<open>NotificationUpdate_SetNillableMethod v c = (case v of Some x \<Rightarrow> NotificationUpdate_SetMethod x c | None \<Rightarrow> c)\<close>

definition NotificationUpdate_SetHeaders :: "headers \<Rightarrow> NotificationUpdate \<Rightarrow> NotificationUpdate" where
  \<open>NotificationUpdate_SetHeaders v c = NotificationMutation_SetHeaders v c\<close>

definition NotificationUpdate_ClearHeaders :: "NotificationUpdate \<Rightarrow> NotificationUpdate" where
  \<open>NotificationUpdate_ClearHeaders c = NotificationMutation_ClearHeaders c\<close>

definition NotificationUpdate_SetBody :: "bytes \<Rightarrow> NotificationUpdate \<Rightarrow> NotificationUpdate" where
  \<open>NotificationUpdate_SetBody v c = NotificationMutation_SetBody v c\<close>

definition NotificationUpdate_ClearBody :: "NotificationUpdate \<Rightarrow> NotificationUpdate" where
  \<open>NotificationUpdate_ClearBody c = NotificationMutation_ClearBody c\<close>

definition NotificationUpdate_SetStatus :: "string \<Rightarrow> NotificationUpdate \<Rightarrow> NotificationUpdate" where
  \<open>NotificationUpdate_SetStatus v c = NotificationMutation_SetStatus v c\<close>

definition NotificationUpdate_SetNillableStatus :: "string option \<Rightarrow> NotificationUpdate \<Rightarrow> NotificationUpdate" where
  \<open>NotificationUpdate_SetNillableStatus v c = (case v of Some x \<Rightarrow> NotificationUpdate_SetStatus x c | None \<Rightarrow> c)\<close>

definition NotificationUpdate_SetAttemptCount :: "int \<Rightarrow> NotificationUpdate \<Rightarrow> NotificationUpdate" where
  \<open>NotificationUpdate_SetAttemptCount v c = NotificationMutation_SetAttemptCount v (NotificationMutation_ResetAttemptCount c)\<close>

definition NotificationUpdate_SetNillableAttemptCount :: "int option \<Rightarrow> NotificationUpdate \<Rightarrow> NotificationUpdate" where
  \<open>NotificationUpdate_SetNillableAttemptCount v c = (case v of Some x \<Rightarrow> NotificationUpdate_SetAttemptCount x c | None \<Rightarrow> c)\<close>

definition NotificationUpdate_AddAttemptCount :: "int \<Rightarrow> NotificationUpdate \<Rightarrow> NotificationUpdate" where
  \<open>NotificationUpdate_AddAttemptCount v c = NotificationMutation_AddAttemptCount v c\<close>

definition NotificationUpdate_SetMaxAttempts :: "int \<Rightarrow> NotificationUpdate \<Rightarrow> NotificationUpdate" where
  \<open>NotificationUpdate_SetMaxAttempts v c = NotificationMutation_SetMaxAttempts v (NotificationMutation_ResetMaxAttempts c)\<close>

definition NotificationUpdate_SetNillableMaxAttempts :: "int option \<Rightarrow> NotificationUpdate \<Rightarrow> NotificationUpdate" where
  \<open>NotificationUpdate_SetNillableMaxAttempts v c = (case v of Some x \<Rightarrow> NotificationUpdate_SetMaxAttempts x c | None \<Rightarrow> c)\<close>

definition NotificationUpdate_AddMaxAttempts :: "int \<Rightarrow> NotificationUpdate \<Rightarrow> NotificationUpdate" where
  \<open>NotificationUpdate_AddMaxAttempts v c = NotificationMutation_AddMaxAttempts v c\<close>

definition NotificationUpdate_SetLastError :: "string \<Rightarrow> NotificationUpdate \<Rightarrow> NotificationUpdate" where
  \<open>NotificationUpdate_SetLastError v c = NotificationMutation_SetLastError v c\<close>

definition NotificationUpdate_SetNillableLastError :: "string option \<Rightarrow> NotificationUpdate \<Rightarrow> NotificationUpdate" where
  \<open>NotificationUpdate_SetNillableLastError v c = (case v of Some x \<Rightarrow> NotificationUpdate_SetLastError x c | None \<Rightarrow> c)\<close>

definition NotificationUpdate_ClearLastError :: "NotificationUpdate \<Rightarrow> NotificationUpdate" where
  \<open>NotificationUpdate_ClearLastError c = NotificationMutation_ClearLastError c\<close>

definition NotificationUpdate_SetNextAttemptAt :: "time \<Rightarrow> NotificationUpdate \<Rightarrow> NotificationUpdate" where
  \<open>NotificationUpdate_SetNextAttemptAt v c = NotificationMutation_SetNextAttemptAt v c\<close>

definition NotificationUpdate_SetNillableNextAttemptAt :: "time option \<Rightarrow> NotificationUpdate \<Rightarrow> NotificationUpdate" where
  \<open>NotificationUpdate_SetNillableNextAttemptAt v c = (case v of Some x \<Rightarrow> NotificationUpdate_SetNextAttemptAt x c | None \<Rightarrow> c)\<close>

definition NotificationUpdate_ClearNextAttemptAt :: "NotificationUpdate \<Rightarrow> NotificationUpdate" where
  \<open>NotificationUpdate_ClearNextAttemptAt c = NotificationMutation_ClearNextAttemptAt c\<close>

definition NotificationUpdate_SetUpdatedAt :: "time \<Rightarrow> NotificationUpdate \<Rightarrow> NotificationUpdate" where
  \<open>NotificationUpdate_SetUpdatedAt v c = NotificationMutation_SetUpdatedAt v c\<close>

definition NotificationUpdate_Mutation :: "NotificationUpdate \<Rightarrow> NotificationMutation" where
  \<open>NotificationUpdate_Mutation c = c\<close>

definition NotificationUpdate_defaults :: "'w db \<Rightarrow> NotificationUpdate \<Rightarrow> 'w \<Rightarrow> NotificationUpdate \<times> 'w" where
  \<open>NotificationUpdate_defaults db c w =
     (let (c, w) = (case NotificationMutation_UpdatedAt c of Some _ \<Rightarrow> (c, w) | None \<Rightarrow> (case notification_UpdateDefaultUpdatedAt db w of (v, w1) \<Rightarrow> (NotificationMutation_SetUpdatedAt v c, w1)))
      in (c, w))\<close>

definition NotificationUpdate_check :: "NotificationUpdate \<Rightarrow> goerror option" where
  \<open>NotificationUpdate_check c =
     first_error
       [validated (NotificationMutation_URL c) notification_URLValidator ''url'' ''ent: validator failed for field "Notification.url": '',
        validated (NotificationMutation_Status c) notification_StatusValidator ''status'' ''ent: validator failed for field "Notification.status": '']\<close>

definition NotificationUpdate_spec :: "NotificationUpdate \<Rightarrow> UpdateSpec" where
  \<open>NotificationUpdate_spec c =
     \<lparr>us_Table = Table_notifications, us_Predicate = nm_predicates c,
          us_Set =
            spec_field FieldURL VString (NotificationMutation_URL c)
            @ spec_field FieldMethod VString (NotificationMutation_Method c)
            @ spec_field FieldHeaders VJson (NotificationMutation_Headers c)
            @ spec_field FieldBody VBytes (NotificationMutation_Body c)
            @ spec_field FieldStatus VString (NotificationMutation_Status c)
            @ spec_field FieldAttemptCount VInt (NotificationMutation_AttemptCount c)
            @ spec_field FieldMaxAttempts VInt (NotificationMutation_MaxAttempts c)
            @ spec_field FieldLastError VString (NotificationMutation_LastError c)
            @ spec_field FieldNextAttemptAt VTime (NotificationMutation_NextAttemptAt c)
            @ spec_field FieldUpdatedAt VTime (NotificationMutation_UpdatedAt c),
          us_Add = spec_add FieldAttemptCount (NotificationMutation_AddedAttemptCount c) @ spec_add FieldMaxAttempts (NotificationMutation_AddedMaxAttempts c),
          us_Clear =
            (if NotificationMutation_HeadersCleared c then [FieldHeaders] else [])
            @ (if NotificationMutation_BodyCleared c then [FieldBody] else [])
            @ (if NotificationMutation_LastErrorCleared c then [FieldLastError] else [])
            @ (if NotificationMutation_NextAttemptAtCleared c then [FieldNextAttemptAt] else [])\<rparr>\<close>

definition NotificationUpdate_sqlSave :: "'w db \<Rightarrow> NotificationUpdate \<Rightarrow> 'w \<Rightarrow> (goerror + int) \<times> 'w" where
  \<open>NotificationUpdate_sqlSave db c w =
     (case NotificationUpdate_check c of
        Some err \<Rightarrow> (Inl err, w)
      | None \<Rightarrow>
          (case UpdateNodes db (NotificationUpdate_spec c) w of
             (Inl err, w1) \<Rightarrow>
               (Inl (if IsSqlNotFoundError db err then NotFoundError notification_Label
                     else if IsSqlConstraintError db err then ConstraintError (error_text err) err
                     else err), w1)
           | (Inr n, w1) \<Rightarrow> (Inr n, w1)))\<close>

definition NotificationUpdate_Save :: "'w db \<Rightarrow> NotificationUpdate \<Rightarrow> 'w \<Rightarrow> (goerror + int) \<times> 'w" where
  \<open>NotificationUpdate_Save db c w = (case NotificationUpdate_defaults db c w of (c1, w1) \<Rightarrow> NotificationUpdate_sqlSave db c1 w1)\<close>

definition NotificationUpdate_Exec :: "'w db \<Rightarrow> NotificationUpdate \<Rightarrow> 'w \<Rightarrow> goerror option \<times> 'w" where
  \<open>NotificationUpdate_Exec db c w = (case NotificationUpdate_Save db c w of (Inl err, w1) \<Rightarrow> (Some err, w1) | (Inr _, w1) \<Rightarrow> (None, w1))\<close>

lemmas Notification_builder_defs =
  NotificationCreate_SetURL_def
  NotificationCreate_SetMethod_def
  NotificationCreate_SetNillableMethod_def
  NotificationCreate_SetHeaders_def
  NotificationCreate_SetBody_def
  NotificationCreate_SetStatus_def
  NotificationCreate_SetNillableStatus_def
  NotificationCreate_SetAttemptCount_def
  NotificationCreate_SetNillableAttemptCount_def
  NotificationCreate_SetMaxAttempts_def
  NotificationCreate_SetNillableMaxAttempts_def
  NotificationCreate_SetLastError_def
  NotificationCreate_SetNillableLastError_def
  NotificationCreate_SetNextAttemptAt_def
  NotificationCreate_SetNillableNextAttemptAt_def
  NotificationCreate_SetCreatedAt_def
  NotificationCreate_SetNillableCreatedAt_def
  NotificationCreate_SetUpdatedAt_def
  NotificationCreate_SetNillableUpdatedAt_def
  NotificationCreate_SetID_def
  NotificationCreate_SetNillableID_def
  NotificationCreate_Mutation_def
  NotificationCreate_defaults_def
  NotificationCreate_check_def
  NotificationCreate_createSpec_def
  NotificationCreate_sqlSave_def
  NotificationCreate_Save_def
  NotificationCreate_Exec_def
  NotificationUpdate_Where_def
  NotificationUpdate_SetURL_def
  NotificationUpdate_SetNillableURL_def
  NotificationUpdate_SetMethod_def
  NotificationUpdate_SetNillableMethod_def
  NotificationUpdate_SetHeaders_def
  NotificationUpdate_ClearHeaders_def
  NotificationUpdate_SetBody_def
  NotificationUpdate_ClearBody_def
  NotificationUpdate_SetStatus_def
  NotificationUpdate_SetNillableStatus_def
  NotificationUpdate_SetAttemptCount_def
  NotificationUpdate_SetNillableAttemptCount_def
  NotificationUpdate_AddAttemptCount_def
  NotificationUpdate_SetMaxAttempts_def
  NotificationUpdate_SetNillableMaxAttempts_def
  NotificationUpdate_AddMaxAttempts_def
  NotificationUpdate_SetLastError_def
  NotificationUpdate_SetNillableLastError_def
  NotificationUpdate_ClearLastError_def
  NotificationUpdate_SetNextAttemptAt_def
  NotificationUpdate_SetNillableNextAttemptAt_def
  NotificationUpdate_ClearNextAttemptAt_def
  NotificationUpdate_SetUpdatedAt_def
  NotificationUpdate_Mutation_def
  NotificationUpdate_defaults_def
  NotificationUpdate_check_def
  NotificationUpdate_spec_def
  NotificationUpdate_sqlSave_def
  NotificationUpdate_Save_def
  NotificationUpdate_Exec_def

end
