(* ===== verification/Mutation_DeliveryAttempt.thy ===== *)
theory Mutation_DeliveryAttempt
  imports Ent_Types
begin

text \<open>
  The type \<^verbatim>\<open>DeliveryAttemptMutation\<close> of \<^verbatim>\<open>ent/mutation.go\<close> and its methods, one definition per method. A
  pointer field is an option, \<^verbatim>\<open>clearedFields\<close> a set of columns, a getter that returns a value and
  a flag an option. The old values, \<^verbatim>\<open>IDs\<close>,
  \<^verbatim>\<open>WhereP\<close> and the edge methods, which the program never calls, are in \<open>Graph_*\<close>.
\<close>

record DeliveryAttemptMutation =
  dm_op :: Op
  dm_typ :: string
  dm_id :: "uuid option"
  dm_notification_id :: "uuid option"
  dm_attempt_number :: "int option"
  dm_addattempt_number :: "int option"
  dm_status :: "string option"
  dm_http_status :: "int option"
  dm_addhttp_status :: "int option"
  dm_error_message :: "string option"
  dm_duration_ms :: "int option"
  dm_addduration_ms :: "int option"
  dm_created_at :: "time option"
  dm_clearedFields :: "column set"
  dm_done :: bool
  dm_predicates :: "sql_pred list"

definition newDeliveryAttemptMutation :: "Op \<Rightarrow> DeliveryAttemptMutation" where
  \<open>newDeliveryAttemptMutation op =
     \<lparr>dm_op = op, dm_typ = ''DeliveryAttempt'', dm_id = None,
      dm_notification_id = None, dm_attempt_number = None, dm_addattempt_number = None, dm_status = None, dm_http_status = None, dm_addhttp_status = None, dm_error_message = None, dm_duration_ms = None, dm_addduration_ms = None, dm_created_at = None,
      dm_clearedFields = {}, dm_done = False, dm_predicates = []\<rparr>\<close>

definition DeliveryAttemptMutation_SetID :: "uuid \<Rightarrow> DeliveryAttemptMutation \<Rightarrow> DeliveryAttemptMutation" where
  \<open>DeliveryAttemptMutation_SetID v m = m\<lparr>dm_id := Some v\<rparr>\<close>

definition DeliveryAttemptMutation_ID :: "DeliveryAttemptMutation \<Rightarrow> uuid option" where
  \<open>DeliveryAttemptMutation_ID m = dm_id m\<close>

definition DeliveryAttemptMutation_SetNotificationID :: "uuid \<Rightarrow> DeliveryAttemptMutation \<Rightarrow> DeliveryAttemptMutation" where
  \<open>DeliveryAttemptMutation_SetNotificationID v m = m\<lparr>dm_notification_id := Some v\<rparr>\<close>

definition DeliveryAttemptMutation_NotificationID :: "DeliveryAttemptMutation \<Rightarrow> uuid option" where
  \<open>DeliveryAttemptMutation_NotificationID m = dm_notification_id m\<close>

definition DeliveryAttemptMutation_ResetNotificationID :: "DeliveryAttemptMutation \<Rightarrow> DeliveryAttemptMutation" where
  \<open>DeliveryAttemptMutation_ResetNotificationID m = m\<lparr>dm_notification_id := None\<rparr>\<close>

definition DeliveryAttemptMutation_SetAttemptNumber :: "int \<Rightarrow> DeliveryAttemptMutation \<Rightarrow> DeliveryAttemptMutation" where
  \<open>DeliveryAttemptMutation_SetAttemptNumber v m = m\<lparr>dm_attempt_number := Some v, dm_addattempt_number := None\<rparr>\<close>

definition DeliveryAttemptMutation_AttemptNumber :: "DeliveryAttemptMutation \<Rightarrow> int option" where
  \<open>DeliveryAttemptMutation_AttemptNumber m = dm_attempt_number m\<close>

definition DeliveryAttemptMutation_AddAttemptNumber :: "int \<Rightarrow> DeliveryAttemptMutation \<Rightarrow> DeliveryAttemptMutation" where
  \<open>DeliveryAttemptMutation_AddAttemptNumber v m =
     (case dm_addattempt_number m of
        Some a \<Rightarrow> m\<lparr>dm_addattempt_number := Some (int64_plus a v)\<rparr>
      | None \<Rightarrow> m\<lparr>dm_addattempt_number := Some v\<rparr>)\<close>

definition DeliveryAttemptMutation_AddedAttemptNumber :: "DeliveryAttemptMutation \<Rightarrow> int option" where
  \<open>DeliveryAttemptMutation_AddedAttemptNumber m = dm_addattempt_number m\<close>

definition DeliveryAttemptMutation_ResetAttemptNumber :: "DeliveryAttemptMutation \<Rightarrow> DeliveryAttemptMutation" where
  \<open>DeliveryAttemptMutation_ResetAttemptNumber m = m\<lparr>dm_attempt_number := None, dm_addattempt_number := None\<rparr>\<close>

definition DeliveryAttemptMutation_SetStatus :: "string \<Rightarrow> DeliveryAttemptMutation \<Rightarrow> DeliveryAttemptMutation" where
  \<open>DeliveryAttemptMutation_SetStatus v m = m\<lparr>dm_status := Some v\<rparr>\<close>

definition DeliveryAttemptMutation_Status :: "DeliveryAttemptMutation \<Rightarrow> string option" where
  \<open>DeliveryAttemptMutation_Status m = dm_status m\<close>

definition DeliveryAttemptMutation_ResetStatus :: "DeliveryAttemptMutation \<Rightarrow> DeliveryAttemptMutation" where
  \<open>DeliveryAttemptMutation_ResetStatus m = m\<lparr>dm_status := None\<rparr>\<close>

definition DeliveryAttemptMutation_SetHTTPStatus :: "int \<Rightarrow> DeliveryAttemptMutation \<Rightarrow> DeliveryAttemptMutation" where
  \<open>DeliveryAttemptMutation_SetHTTPStatus v m = m\<lparr>dm_http_status := Some v, dm_addhttp_status := None\<rparr>\<close>

definition DeliveryAttemptMutation_HTTPStatus :: "DeliveryAttemptMutation \<Rightarrow> int option" where
  \<open>DeliveryAttemptMutation_HTTPStatus m = dm_http_status m\<close>

definition DeliveryAttemptMutation_AddHTTPStatus :: "int \<Rightarrow> DeliveryAttemptMutation \<Rightarrow> DeliveryAttemptMutation" where
  \<open>DeliveryAttemptMutation_AddHTTPStatus v m =
     (case dm_addhttp_status m of
        Some a \<Rightarrow> m\<lparr>dm_addhttp_status := Some (int64_plus a v)\<rparr>
      | None \<Rightarrow> m\<lparr>dm_addhttp_status := Some v\<rparr>)\<close>

definition DeliveryAttemptMutation_AddedHTTPStatus :: "DeliveryAttemptMutation \<Rightarrow> int option" where
  \<open>DeliveryAttemptMutation_AddedHTTPStatus m = dm_addhttp_status m\<close>

definition DeliveryAttemptMutation_ClearHTTPStatus :: "DeliveryAttemptMutation \<Rightarrow> DeliveryAttemptMutation" where
  \<open>DeliveryAttemptMutation_ClearHTTPStatus m = m\<lparr>dm_http_status := None, dm_addhttp_status := None, dm_clearedFields := insert FieldHTTPStatus (dm_clearedFields m)\<rparr>\<close>

definition DeliveryAttemptMutation_HTTPStatusCleared :: "DeliveryAttemptMutation \<Rightarrow> bool" where
  \<open>DeliveryAttemptMutation_HTTPStatusCleared m = (FieldHTTPStatus \<in> dm_clearedFields m)\<close>

definition DeliveryAttemptMutation_ResetHTTPStatus :: "DeliveryAttemptMutation \<Rightarrow> DeliveryAttemptMutation" where
  \<open>DeliveryAttemptMutation_ResetHTTPStatus m = m\<lparr>dm_http_status := None, dm_addhttp_status := None, dm_clearedFields := dm_clearedFields m - {FieldHTTPStatus}\<rparr>\<close>

definition DeliveryAttemptMutation_SetErrorMessage :: "string \<Rightarrow> DeliveryAttemptMutation \<Rightarrow> DeliveryAttemptMutation" where
  \<open>DeliveryAttemptMutation_SetErrorMessage v m = m\<lparr>dm_error_message := Some v\<rparr>\<close>

definition DeliveryAttemptMutation_ErrorMessage :: "DeliveryAttemptMutation \<Rightarrow> string option" where
  \<open>DeliveryAttemptMutation_ErrorMessage m = dm_error_message m\<close>

definition DeliveryAttemptMutation_ClearErrorMessage :: "DeliveryAttemptMutation \<Rightarrow> DeliveryAttemptMutation" where
  \<open>DeliveryAttemptMutation_ClearErrorMessage m = m\<lparr>dm_error_message := None, dm_clearedFields := insert FieldErrorMessage (dm_clearedFields m)\<rparr>\<close>

definition DeliveryAttemptMutation_ErrorMessageCleared :: "DeliveryAttemptMutation \<Rightarrow> bool" where
  \<open>DeliveryAttemptMutation_ErrorMessageCleared m = (FieldErrorMessage \<in> dm_clearedFields m)\<close>

definition DeliveryAttemptMutation_ResetErrorMessage :: "DeliveryAttemptMutation \<Rightarrow> DeliveryAttemptMutation" where
  \<open>DeliveryAttemptMutation_ResetErrorMessage m = m\<lparr>dm_error_message := None, dm_clearedFields := dm_clearedFields m - {FieldErrorMessage}\<rparr>\<close>

definition DeliveryAttemptMutation_SetDurationMs :: "int \<Rightarrow> DeliveryAttemptMutation \<Rightarrow> DeliveryAttemptMutation" where
  \<open>DeliveryAttemptMutation_SetDurationMs v m = m\<lparr>dm_duration_ms := Some v, dm_addduration_ms := None\<rparr>\<close>

definition DeliveryAttemptMutation_DurationMs :: "DeliveryAttemptMutation \<Rightarrow> int option" where
  \<open>DeliveryAttemptMutation_DurationMs m = dm_duration_ms m\<close>

definition DeliveryAttemptMutation_AddDurationMs :: "int \<Rightarrow> DeliveryAttemptMutation \<Rightarrow> DeliveryAttemptMutation" where
  \<open>DeliveryAttemptMutation_AddDurationMs v m =
     (case dm_addduration_ms m of
        Some a \<Rightarrow> m\<lparr>dm_addduration_ms := Some (int64_plus a v)\<rparr>
      | None \<Rightarrow> m\<lparr>dm_addduration_ms := Some v\<rparr>)\<close>

definition DeliveryAttemptMutation_AddedDurationMs :: "DeliveryAttemptMutation \<Rightarrow> int option" where
  \<open>DeliveryAttemptMutation_AddedDurationMs m = dm_addduration_ms m\<close>

definition DeliveryAttemptMutation_ResetDurationMs :: "DeliveryAttemptMutation \<Rightarrow> DeliveryAttemptMutation" where
  \<open>DeliveryAttemptMutation_ResetDurationMs m = m\<lparr>dm_duration_ms := None, dm_addduration_ms := None\<rparr>\<close>

definition DeliveryAttemptMutation_SetCreatedAt :: "time \<Rightarrow> DeliveryAttemptMutation \<Rightarrow> DeliveryAttemptMutation" where
  \<open>DeliveryAttemptMutation_SetCreatedAt v m = m\<lparr>dm_created_at := Some v\<rparr>\<close>

definition DeliveryAttemptMutation_CreatedAt :: "DeliveryAttemptMutation \<Rightarrow> time option" where
  \<open>DeliveryAttemptMutation_CreatedAt m = dm_created_at m\<close>

definition DeliveryAttemptMutation_ResetCreatedAt :: "DeliveryAttemptMutation \<Rightarrow> DeliveryAttemptMutation" where
  \<open>DeliveryAttemptMutation_ResetCreatedAt m = m\<lparr>dm_created_at := None\<rparr>\<close>

definition DeliveryAttemptMutation_Where :: "sql_pred list \<Rightarrow> DeliveryAttemptMutation \<Rightarrow> DeliveryAttemptMutation" where
  \<open>DeliveryAttemptMutation_Where ps m = m\<lparr>dm_predicates := dm_predicates m @ ps\<rparr>\<close>

definition DeliveryAttemptMutation_Op :: "DeliveryAttemptMutation \<Rightarrow> Op" where
  \<open>DeliveryAttemptMutation_Op m = dm_op m\<close>

definition DeliveryAttemptMutation_SetOp :: "Op \<Rightarrow> DeliveryAttemptMutation \<Rightarrow> DeliveryAttemptMutation" where
  \<open>DeliveryAttemptMutation_SetOp op m = m\<lparr>dm_op := op\<rparr>\<close>

definition DeliveryAttemptMutation_Type :: "DeliveryAttemptMutation \<Rightarrow> string" where
  \<open>DeliveryAttemptMutation_Type m = dm_typ m\<close>

definition DeliveryAttemptMutation_Fields :: "DeliveryAttemptMutation \<Rightarrow> column list" where
  \<open>DeliveryAttemptMutation_Fields m =
     (if dm_notification_id m \<noteq> None then [FieldNotificationID] else [])
     @ (if dm_attempt_number m \<noteq> None then [FieldAttemptNumber] else [])
     @ (if dm_status m \<noteq> None then [FieldStatus] else [])
     @ (if dm_http_status m \<noteq> None then [FieldHTTPStatus] else [])
     @ (if dm_error_message m \<noteq> None then [FieldErrorMessage] else [])
     @ (if dm_duration_ms m \<noteq> None then [FieldDurationMs] else [])
     @ (if dm_created_at m \<noteq> None then [FieldCreatedAt] else [])\<close>

definition DeliveryAttemptMutation_Field :: "column \<Rightarrow> DeliveryAttemptMutation \<Rightarrow> ent_value option" where
  \<open>DeliveryAttemptMutation_Field name m =
     (case name of
         FieldNotificationID \<Rightarrow> map_option GoUUID (DeliveryAttemptMutation_NotificationID m)
       | FieldAttemptNumber \<Rightarrow> map_option GoInt (DeliveryAttemptMutation_AttemptNumber m)
       | FieldStatus \<Rightarrow> map_option GoDeliveryAttemptStatus (DeliveryAttemptMutation_Status m)
       | FieldHTTPStatus \<Rightarrow> map_option GoInt (DeliveryAttemptMutation_HTTPStatus m)
       | FieldErrorMessage \<Rightarrow> map_option GoString (DeliveryAttemptMutation_ErrorMessage m)
       | FieldDurationMs \<Rightarrow> map_option GoInt64 (DeliveryAttemptMutation_DurationMs m)
       | FieldCreatedAt \<Rightarrow> map_option GoTime (DeliveryAttemptMutation_CreatedAt m)
       | _ \<Rightarrow> None)\<close>

definition DeliveryAttemptMutation_SetField :: "column \<Rightarrow> ent_value \<Rightarrow> DeliveryAttemptMutation \<Rightarrow> goerror + DeliveryAttemptMutation" where
  \<open>DeliveryAttemptMutation_SetField name value m =
     (case name of
         FieldNotificationID \<Rightarrow> (case value of GoUUID v \<Rightarrow> Inr (DeliveryAttemptMutation_SetNotificationID v m) | _ \<Rightarrow> Inl (unexpected_value value name))
       | FieldAttemptNumber \<Rightarrow> (case value of GoInt v \<Rightarrow> Inr (DeliveryAttemptMutation_SetAttemptNumber v m) | _ \<Rightarrow> Inl (unexpected_value value name))
       | FieldStatus \<Rightarrow> (case value of GoDeliveryAttemptStatus v \<Rightarrow> Inr (DeliveryAttemptMutation_SetStatus v m) | _ \<Rightarrow> Inl (unexpected_value value name))
       | FieldHTTPStatus \<Rightarrow> (case value of GoInt v \<Rightarrow> Inr (DeliveryAttemptMutation_SetHTTPStatus v m) | _ \<Rightarrow> Inl (unexpected_value value name))
       | FieldErrorMessage \<Rightarrow> (case value of GoString v \<Rightarrow> Inr (DeliveryAttemptMutation_SetErrorMessage v m) | _ \<Rightarrow> Inl (unexpected_value value name))
       | FieldDurationMs \<Rightarrow> (case value of GoInt64 v \<Rightarrow> Inr (DeliveryAttemptMutation_SetDurationMs v m) | _ \<Rightarrow> Inl (unexpected_value value name))
       | FieldCreatedAt \<Rightarrow> (case value of GoTime v \<Rightarrow> Inr (DeliveryAttemptMutation_SetCreatedAt v m) | _ \<Rightarrow> Inl (unexpected_value value name))
       | _ \<Rightarrow> Inl (ErrText (''unknown DeliveryAttempt field '' @ column_name name)))\<close>

definition DeliveryAttemptMutation_AddedFields :: "DeliveryAttemptMutation \<Rightarrow> column list" where
  \<open>DeliveryAttemptMutation_AddedFields m =
     (if dm_addattempt_number m \<noteq> None then [FieldAttemptNumber] else [])
     @ (if dm_addhttp_status m \<noteq> None then [FieldHTTPStatus] else [])
     @ (if dm_addduration_ms m \<noteq> None then [FieldDurationMs] else [])\<close>

definition DeliveryAttemptMutation_AddedField :: "column \<Rightarrow> DeliveryAttemptMutation \<Rightarrow> ent_value option" where
  \<open>DeliveryAttemptMutation_AddedField name m =
     (case name of
         FieldAttemptNumber \<Rightarrow> map_option GoInt (DeliveryAttemptMutation_AddedAttemptNumber m)
       | FieldHTTPStatus \<Rightarrow> map_option GoInt (DeliveryAttemptMutation_AddedHTTPStatus m)
       | FieldDurationMs \<Rightarrow> map_option GoInt64 (DeliveryAttemptMutation_AddedDurationMs m)
       | _ \<Rightarrow> None)\<close>

definition DeliveryAttemptMutation_AddField :: "column \<Rightarrow> ent_value \<Rightarrow> DeliveryAttemptMutation \<Rightarrow> goerror + DeliveryAttemptMutation" where
  \<open>DeliveryAttemptMutation_AddField name value m =
     (case name of
         FieldAttemptNumber \<Rightarrow> (case value of GoInt v \<Rightarrow> Inr (DeliveryAttemptMutation_AddAttemptNumber v m) | _ \<Rightarrow> Inl (unexpected_value value name))
       | FieldHTTPStatus \<Rightarrow> (case value of GoInt v \<Rightarrow> Inr (DeliveryAttemptMutation_AddHTTPStatus v m) | _ \<Rightarrow> Inl (unexpected_value value name))
       | FieldDurationMs \<Rightarrow> (case value of GoInt64 v \<Rightarrow> Inr (DeliveryAttemptMutation_AddDurationMs v m) | _ \<Rightarrow> Inl (unexpected_value value name))
       | _ \<Rightarrow> Inl (ErrText (''unknown DeliveryAttempt numeric field '' @ column_name name)))\<close>

definition DeliveryAttemptMutation_FieldCleared :: "column \<Rightarrow> DeliveryAttemptMutation \<Rightarrow> bool" where
  \<open>DeliveryAttemptMutation_FieldCleared name m = (name \<in> dm_clearedFields m)\<close>

definition DeliveryAttemptMutation_ClearField :: "column \<Rightarrow> DeliveryAttemptMutation \<Rightarrow> goerror + DeliveryAttemptMutation" where
  \<open>DeliveryAttemptMutation_ClearField name m =
     (case name of
         FieldHTTPStatus \<Rightarrow> Inr (DeliveryAttemptMutation_ClearHTTPStatus m)
       | FieldErrorMessage \<Rightarrow> Inr (DeliveryAttemptMutation_ClearErrorMessage m)
       | _ \<Rightarrow> Inl (ErrText (''unknown DeliveryAttempt nullable field '' @ column_name name)))\<close>

definition DeliveryAttemptMutation_ResetField :: "column \<Rightarrow> DeliveryAttemptMutation \<Rightarrow> goerror + DeliveryAttemptMutation" where
  \<open>DeliveryAttemptMutation_ResetField name m =
     (case name of
         FieldNotificationID \<Rightarrow> Inr (DeliveryAttemptMutation_ResetNotificationID m)
       | FieldAttemptNumber \<Rightarrow> Inr (DeliveryAttemptMutation_ResetAttemptNumber m)
       | FieldStatus \<Rightarrow> Inr (DeliveryAttemptMutation_ResetStatus m)
       | FieldHTTPStatus \<Rightarrow> Inr (DeliveryAttemptMutation_ResetHTTPStatus m)
       | FieldErrorMessage \<Rightarrow> Inr (DeliveryAttemptMutation_ResetErrorMessage m)
       | FieldDurationMs \<Rightarrow> Inr (DeliveryAttemptMutation_ResetDurationMs m)
       | FieldCreatedAt \<Rightarrow> Inr (DeliveryAttemptMutation_ResetCreatedAt m)
       | _ \<Rightarrow> Inl (ErrText (''unknown DeliveryAttempt field '' @ column_name name)))\<close>

definition DeliveryAttemptMutation_ClearedFields :: "DeliveryAttemptMutation \<Rightarrow> column list" where
  \<open>DeliveryAttemptMutation_ClearedFields m =
     (if DeliveryAttemptMutation_FieldCleared FieldHTTPStatus m then [FieldHTTPStatus] else [])
     @ (if DeliveryAttemptMutation_FieldCleared FieldErrorMessage m then [FieldErrorMessage] else [])\<close>

lemmas DeliveryAttemptMutation_defs =
  newDeliveryAttemptMutation_def
  DeliveryAttemptMutation_SetID_def
  DeliveryAttemptMutation_ID_def
  DeliveryAttemptMutation_SetNotificationID_def
  DeliveryAttemptMutation_NotificationID_def
  DeliveryAttemptMutation_ResetNotificationID_def
  DeliveryAttemptMutation_SetAttemptNumber_def
  DeliveryAttemptMutation_AttemptNumber_def
  DeliveryAttemptMutation_AddAttemptNumber_def
  DeliveryAttemptMutation_AddedAttemptNumber_def
  DeliveryAttemptMutation_ResetAttemptNumber_def
  DeliveryAttemptMutation_SetStatus_def
  DeliveryAttemptMutation_Status_def
  DeliveryAttemptMutation_ResetStatus_def
  DeliveryAttemptMutation_SetHTTPStatus_def
  DeliveryAttemptMutation_HTTPStatus_def
  DeliveryAttemptMutation_AddHTTPStatus_def
  DeliveryAttemptMutation_AddedHTTPStatus_def
  DeliveryAttemptMutation_ClearHTTPStatus_def
  DeliveryAttemptMutation_HTTPStatusCleared_def
  DeliveryAttemptMutation_ResetHTTPStatus_def
  DeliveryAttemptMutation_SetErrorMessage_def
  DeliveryAttemptMutation_ErrorMessage_def
  DeliveryAttemptMutation_ClearErrorMessage_def
  DeliveryAttemptMutation_ErrorMessageCleared_def
  DeliveryAttemptMutation_ResetErrorMessage_def
  DeliveryAttemptMutation_SetDurationMs_def
  DeliveryAttemptMutation_DurationMs_def
  DeliveryAttemptMutation_AddDurationMs_def
  DeliveryAttemptMutation_AddedDurationMs_def
  DeliveryAttemptMutation_ResetDurationMs_def
  DeliveryAttemptMutation_SetCreatedAt_def
  DeliveryAttemptMutation_CreatedAt_def
  DeliveryAttemptMutation_ResetCreatedAt_def
  DeliveryAttemptMutation_Where_def
  DeliveryAttemptMutation_Op_def
  DeliveryAttemptMutation_SetOp_def
  DeliveryAttemptMutation_Type_def
  DeliveryAttemptMutation_Fields_def
  DeliveryAttemptMutation_Field_def
  DeliveryAttemptMutation_SetField_def
  DeliveryAttemptMutation_AddedFields_def
  DeliveryAttemptMutation_AddedField_def
  DeliveryAttemptMutation_AddField_def
  DeliveryAttemptMutation_FieldCleared_def
  DeliveryAttemptMutation_ClearField_def
  DeliveryAttemptMutation_ResetField_def
  DeliveryAttemptMutation_ClearedFields_def

end
