(* ===== verification/Builders_DeliveryAttempt.thy ===== *)
theory Builders_DeliveryAttempt
  imports Mutation_DeliveryAttempt
begin

text \<open>
  The builders \<^verbatim>\<open>DeliveryAttemptCreate\<close> and \<^verbatim>\<open>DeliveryAttemptUpdate\<close> of \<^verbatim>\<open>ent/deliveryattempt_create.go\<close> and
  \<^verbatim>\<open>ent/deliveryattempt_update.go\<close>. A builder is its mutation: the program registers no hooks, and the
  configuration is the driver \<open>db\<close>. Bulk creation, the builders for a single entity and
  the methods that panic, none of which the program calls, are in \<open>Graph_*\<close>.
\<close>

section \<open>DeliveryAttemptCreate\<close>

type_synonym DeliveryAttemptCreate = DeliveryAttemptMutation

definition DeliveryAttemptCreate_SetNotificationID :: "uuid \<Rightarrow> DeliveryAttemptCreate \<Rightarrow> DeliveryAttemptCreate" where
  \<open>DeliveryAttemptCreate_SetNotificationID v c = DeliveryAttemptMutation_SetNotificationID v c\<close>

definition DeliveryAttemptCreate_SetAttemptNumber :: "int \<Rightarrow> DeliveryAttemptCreate \<Rightarrow> DeliveryAttemptCreate" where
  \<open>DeliveryAttemptCreate_SetAttemptNumber v c = DeliveryAttemptMutation_SetAttemptNumber v c\<close>

definition DeliveryAttemptCreate_SetStatus :: "string \<Rightarrow> DeliveryAttemptCreate \<Rightarrow> DeliveryAttemptCreate" where
  \<open>DeliveryAttemptCreate_SetStatus v c = DeliveryAttemptMutation_SetStatus v c\<close>

definition DeliveryAttemptCreate_SetHTTPStatus :: "int \<Rightarrow> DeliveryAttemptCreate \<Rightarrow> DeliveryAttemptCreate" where
  \<open>DeliveryAttemptCreate_SetHTTPStatus v c = DeliveryAttemptMutation_SetHTTPStatus v c\<close>

definition DeliveryAttemptCreate_SetNillableHTTPStatus :: "int option \<Rightarrow> DeliveryAttemptCreate \<Rightarrow> DeliveryAttemptCreate" where
  \<open>DeliveryAttemptCreate_SetNillableHTTPStatus v c = (case v of Some x \<Rightarrow> DeliveryAttemptCreate_SetHTTPStatus x c | None \<Rightarrow> c)\<close>

definition DeliveryAttemptCreate_SetErrorMessage :: "string \<Rightarrow> DeliveryAttemptCreate \<Rightarrow> DeliveryAttemptCreate" where
  \<open>DeliveryAttemptCreate_SetErrorMessage v c = DeliveryAttemptMutation_SetErrorMessage v c\<close>

definition DeliveryAttemptCreate_SetNillableErrorMessage :: "string option \<Rightarrow> DeliveryAttemptCreate \<Rightarrow> DeliveryAttemptCreate" where
  \<open>DeliveryAttemptCreate_SetNillableErrorMessage v c = (case v of Some x \<Rightarrow> DeliveryAttemptCreate_SetErrorMessage x c | None \<Rightarrow> c)\<close>

definition DeliveryAttemptCreate_SetDurationMs :: "int \<Rightarrow> DeliveryAttemptCreate \<Rightarrow> DeliveryAttemptCreate" where
  \<open>DeliveryAttemptCreate_SetDurationMs v c = DeliveryAttemptMutation_SetDurationMs v c\<close>

definition DeliveryAttemptCreate_SetNillableDurationMs :: "int option \<Rightarrow> DeliveryAttemptCreate \<Rightarrow> DeliveryAttemptCreate" where
  \<open>DeliveryAttemptCreate_SetNillableDurationMs v c = (case v of Some x \<Rightarrow> DeliveryAttemptCreate_SetDurationMs x c | None \<Rightarrow> c)\<close>

definition DeliveryAttemptCreate_SetCreatedAt :: "time \<Rightarrow> DeliveryAttemptCreate \<Rightarrow> DeliveryAttemptCreate" where
  \<open>DeliveryAttemptCreate_SetCreatedAt v c = DeliveryAttemptMutation_SetCreatedAt v c\<close>

definition DeliveryAttemptCreate_SetNillableCreatedAt :: "time option \<Rightarrow> DeliveryAttemptCreate \<Rightarrow> DeliveryAttemptCreate" where
  \<open>DeliveryAttemptCreate_SetNillableCreatedAt v c = (case v of Some x \<Rightarrow> DeliveryAttemptCreate_SetCreatedAt x c | None \<Rightarrow> c)\<close>

definition DeliveryAttemptCreate_SetID :: "uuid \<Rightarrow> DeliveryAttemptCreate \<Rightarrow> DeliveryAttemptCreate" where
  \<open>DeliveryAttemptCreate_SetID v c = DeliveryAttemptMutation_SetID v c\<close>

definition DeliveryAttemptCreate_SetNillableID :: "uuid option \<Rightarrow> DeliveryAttemptCreate \<Rightarrow> DeliveryAttemptCreate" where
  \<open>DeliveryAttemptCreate_SetNillableID v c = (case v of Some x \<Rightarrow> DeliveryAttemptCreate_SetID x c | None \<Rightarrow> c)\<close>

definition DeliveryAttemptCreate_Mutation :: "DeliveryAttemptCreate \<Rightarrow> DeliveryAttemptMutation" where
  \<open>DeliveryAttemptCreate_Mutation c = c\<close>

definition DeliveryAttemptCreate_defaults :: "'w db \<Rightarrow> DeliveryAttemptCreate \<Rightarrow> 'w \<Rightarrow> DeliveryAttemptCreate \<times> 'w" where
  \<open>DeliveryAttemptCreate_defaults db c w =
     (let c = (case DeliveryAttemptMutation_DurationMs c of Some _ \<Rightarrow> c | None \<Rightarrow> DeliveryAttemptMutation_SetDurationMs deliveryattempt_DefaultDurationMs c);
          (c, w) = (case DeliveryAttemptMutation_CreatedAt c of Some _ \<Rightarrow> (c, w) | None \<Rightarrow> (case deliveryattempt_DefaultCreatedAt db w of (v, w1) \<Rightarrow> (DeliveryAttemptMutation_SetCreatedAt v c, w1)));
          (c, w) = (case DeliveryAttemptMutation_ID c of Some _ \<Rightarrow> (c, w) | None \<Rightarrow> (case deliveryattempt_DefaultID db w of (v, w1) \<Rightarrow> (DeliveryAttemptMutation_SetID v c, w1)))
      in (c, w))\<close>

definition DeliveryAttemptCreate_check :: "DeliveryAttemptCreate \<Rightarrow> goerror option" where
  \<open>DeliveryAttemptCreate_check c =
     first_error
       [missing (DeliveryAttemptMutation_NotificationID c) ''notification_id'' ''ent: missing required field "DeliveryAttempt.notification_id"'',
        missing (DeliveryAttemptMutation_AttemptNumber c) ''attempt_number'' ''ent: missing required field "DeliveryAttempt.attempt_number"'',
        missing (DeliveryAttemptMutation_Status c) ''status'' ''ent: missing required field "DeliveryAttempt.status"'',
        validated (DeliveryAttemptMutation_Status c) deliveryattempt_StatusValidator ''status'' ''ent: validator failed for field "DeliveryAttempt.status": '',
        missing (DeliveryAttemptMutation_DurationMs c) ''duration_ms'' ''ent: missing required field "DeliveryAttempt.duration_ms"'',
        missing (DeliveryAttemptMutation_CreatedAt c) ''created_at'' ''ent: missing required field "DeliveryAttempt.created_at"'']\<close>

definition DeliveryAttemptCreate_createSpec :: "DeliveryAttemptCreate \<Rightarrow> DeliveryAttempt \<times> CreateSpec" where
  \<open>DeliveryAttemptCreate_createSpec c =
     (let node = DeliveryAttempt_zero;
          node = (case DeliveryAttemptMutation_ID c of Some v \<Rightarrow> node\<lparr>d_ID := v\<rparr> | None \<Rightarrow> node);
          node = (case DeliveryAttemptMutation_NotificationID c of Some v \<Rightarrow> node\<lparr>d_NotificationID := v\<rparr> | None \<Rightarrow> node);
          node = (case DeliveryAttemptMutation_AttemptNumber c of Some v \<Rightarrow> node\<lparr>d_AttemptNumber := v\<rparr> | None \<Rightarrow> node);
          node = (case DeliveryAttemptMutation_Status c of Some v \<Rightarrow> node\<lparr>d_Status := v\<rparr> | None \<Rightarrow> node);
          node = (case DeliveryAttemptMutation_HTTPStatus c of Some v \<Rightarrow> node\<lparr>d_HTTPStatus := v\<rparr> | None \<Rightarrow> node);
          node = (case DeliveryAttemptMutation_ErrorMessage c of Some v \<Rightarrow> node\<lparr>d_ErrorMessage := v\<rparr> | None \<Rightarrow> node);
          node = (case DeliveryAttemptMutation_DurationMs c of Some v \<Rightarrow> node\<lparr>d_DurationMs := v\<rparr> | None \<Rightarrow> node);
          node = (case DeliveryAttemptMutation_CreatedAt c of Some v \<Rightarrow> node\<lparr>d_CreatedAt := v\<rparr> | None \<Rightarrow> node)
      in (node, \<lparr>cs_Table = Table_delivery_attempts, cs_ID = DeliveryAttemptMutation_ID c, cs_Fields =
           spec_field FieldNotificationID VUuid (DeliveryAttemptMutation_NotificationID c)
           @ spec_field FieldAttemptNumber VInt (DeliveryAttemptMutation_AttemptNumber c)
           @ spec_field FieldStatus VString (DeliveryAttemptMutation_Status c)
           @ spec_field FieldHTTPStatus VInt (DeliveryAttemptMutation_HTTPStatus c)
           @ spec_field FieldErrorMessage VString (DeliveryAttemptMutation_ErrorMessage c)
           @ spec_field FieldDurationMs VInt (DeliveryAttemptMutation_DurationMs c)
           @ spec_field FieldCreatedAt VTime (DeliveryAttemptMutation_CreatedAt c)\<rparr>))\<close>

definition DeliveryAttemptCreate_sqlSave :: "'w db \<Rightarrow> DeliveryAttemptCreate \<Rightarrow> 'w \<Rightarrow> (goerror + DeliveryAttempt) \<times> 'w" where
  \<open>DeliveryAttemptCreate_sqlSave db c w =
     (case DeliveryAttemptCreate_check c of
        Some err \<Rightarrow> (Inl err, w)
      | None \<Rightarrow>
          (case DeliveryAttemptCreate_createSpec c of (node, spec) \<Rightarrow>
             (case CreateNode db spec w of
                (Inl err, w1) \<Rightarrow>
                  (Inl (if IsSqlConstraintError db err then ConstraintError (error_text err) err else err), w1)
              | (Inr _, w1) \<Rightarrow>
                  (Inr (case cs_ID spec of Some v \<Rightarrow> node\<lparr>d_ID := v\<rparr> | None \<Rightarrow> node), w1))))\<close>

definition DeliveryAttemptCreate_Save :: "'w db \<Rightarrow> DeliveryAttemptCreate \<Rightarrow> 'w \<Rightarrow> (goerror + DeliveryAttempt) \<times> 'w" where
  \<open>DeliveryAttemptCreate_Save db c w = (case DeliveryAttemptCreate_defaults db c w of (c1, w1) \<Rightarrow> DeliveryAttemptCreate_sqlSave db c1 w1)\<close>

definition DeliveryAttemptCreate_Exec :: "'w db \<Rightarrow> DeliveryAttemptCreate \<Rightarrow> 'w \<Rightarrow> goerror option \<times> 'w" where
  \<open>DeliveryAttemptCreate_Exec db c w = (case DeliveryAttemptCreate_Save db c w of (Inl err, w1) \<Rightarrow> (Some err, w1) | (Inr _, w1) \<Rightarrow> (None, w1))\<close>

section \<open>DeliveryAttemptUpdate\<close>

type_synonym DeliveryAttemptUpdate = DeliveryAttemptMutation

definition DeliveryAttemptUpdate_Where :: "sql_pred list \<Rightarrow> DeliveryAttemptUpdate \<Rightarrow> DeliveryAttemptUpdate" where
  \<open>DeliveryAttemptUpdate_Where ps c = DeliveryAttemptMutation_Where ps c\<close>

definition DeliveryAttemptUpdate_SetNotificationID :: "uuid \<Rightarrow> DeliveryAttemptUpdate \<Rightarrow> DeliveryAttemptUpdate" where
  \<open>DeliveryAttemptUpdate_SetNotificationID v c = DeliveryAttemptMutation_SetNotificationID v c\<close>

definition DeliveryAttemptUpdate_SetNillableNotificationID :: "uuid option \<Rightarrow> DeliveryAttemptUpdate \<Rightarrow> DeliveryAttemptUpdate" where
  \<open>DeliveryAttemptUpdate_SetNillableNotificationID v c = (case v of Some x \<Rightarrow> DeliveryAttemptUpdate_SetNotificationID x c | None \<Rightarrow> c)\<close>

definition DeliveryAttemptUpdate_SetAttemptNumber :: "int \<Rightarrow> DeliveryAttemptUpdate \<Rightarrow> DeliveryAttemptUpdate" where
  \<open>DeliveryAttemptUpdate_SetAttemptNumber v c = DeliveryAttemptMutation_SetAttemptNumber v (DeliveryAttemptMutation_ResetAttemptNumber c)\<close>

definition DeliveryAttemptUpdate_SetNillableAttemptNumber :: "int option \<Rightarrow> DeliveryAttemptUpdate \<Rightarrow> DeliveryAttemptUpdate" where
  \<open>DeliveryAttemptUpdate_SetNillableAttemptNumber v c = (case v of Some x \<Rightarrow> DeliveryAttemptUpdate_SetAttemptNumber x c | None \<Rightarrow> c)\<close>

definition DeliveryAttemptUpdate_AddAttemptNumber :: "int \<Rightarrow> DeliveryAttemptUpdate \<Rightarrow> DeliveryAttemptUpdate" where
  \<open>DeliveryAttemptUpdate_AddAttemptNumber v c = DeliveryAttemptMutation_AddAttemptNumber v c\<close>

definition DeliveryAttemptUpdate_SetStatus :: "string \<Rightarrow> DeliveryAttemptUpdate \<Rightarrow> DeliveryAttemptUpdate" where
  \<open>DeliveryAttemptUpdate_SetStatus v c = DeliveryAttemptMutation_SetStatus v c\<close>

definition DeliveryAttemptUpdate_SetNillableStatus :: "string option \<Rightarrow> DeliveryAttemptUpdate \<Rightarrow> DeliveryAttemptUpdate" where
  \<open>DeliveryAttemptUpdate_SetNillableStatus v c = (case v of Some x \<Rightarrow> DeliveryAttemptUpdate_SetStatus x c | None \<Rightarrow> c)\<close>

definition DeliveryAttemptUpdate_SetHTTPStatus :: "int \<Rightarrow> DeliveryAttemptUpdate \<Rightarrow> DeliveryAttemptUpdate" where
  \<open>DeliveryAttemptUpdate_SetHTTPStatus v c = DeliveryAttemptMutation_SetHTTPStatus v (DeliveryAttemptMutation_ResetHTTPStatus c)\<close>

definition DeliveryAttemptUpdate_SetNillableHTTPStatus :: "int option \<Rightarrow> DeliveryAttemptUpdate \<Rightarrow> DeliveryAttemptUpdate" where
  \<open>DeliveryAttemptUpdate_SetNillableHTTPStatus v c = (case v of Some x \<Rightarrow> DeliveryAttemptUpdate_SetHTTPStatus x c | None \<Rightarrow> c)\<close>

definition DeliveryAttemptUpdate_AddHTTPStatus :: "int \<Rightarrow> DeliveryAttemptUpdate \<Rightarrow> DeliveryAttemptUpdate" where
  \<open>DeliveryAttemptUpdate_AddHTTPStatus v c = DeliveryAttemptMutation_AddHTTPStatus v c\<close>

definition DeliveryAttemptUpdate_ClearHTTPStatus :: "DeliveryAttemptUpdate \<Rightarrow> DeliveryAttemptUpdate" where
  \<open>DeliveryAttemptUpdate_ClearHTTPStatus c = DeliveryAttemptMutation_ClearHTTPStatus c\<close>

definition DeliveryAttemptUpdate_SetErrorMessage :: "string \<Rightarrow> DeliveryAttemptUpdate \<Rightarrow> DeliveryAttemptUpdate" where
  \<open>DeliveryAttemptUpdate_SetErrorMessage v c = DeliveryAttemptMutation_SetErrorMessage v c\<close>

definition DeliveryAttemptUpdate_SetNillableErrorMessage :: "string option \<Rightarrow> DeliveryAttemptUpdate \<Rightarrow> DeliveryAttemptUpdate" where
  \<open>DeliveryAttemptUpdate_SetNillableErrorMessage v c = (case v of Some x \<Rightarrow> DeliveryAttemptUpdate_SetErrorMessage x c | None \<Rightarrow> c)\<close>

definition DeliveryAttemptUpdate_ClearErrorMessage :: "DeliveryAttemptUpdate \<Rightarrow> DeliveryAttemptUpdate" where
  \<open>DeliveryAttemptUpdate_ClearErrorMessage c = DeliveryAttemptMutation_ClearErrorMessage c\<close>

definition DeliveryAttemptUpdate_SetDurationMs :: "int \<Rightarrow> DeliveryAttemptUpdate \<Rightarrow> DeliveryAttemptUpdate" where
  \<open>DeliveryAttemptUpdate_SetDurationMs v c = DeliveryAttemptMutation_SetDurationMs v (DeliveryAttemptMutation_ResetDurationMs c)\<close>

definition DeliveryAttemptUpdate_SetNillableDurationMs :: "int option \<Rightarrow> DeliveryAttemptUpdate \<Rightarrow> DeliveryAttemptUpdate" where
  \<open>DeliveryAttemptUpdate_SetNillableDurationMs v c = (case v of Some x \<Rightarrow> DeliveryAttemptUpdate_SetDurationMs x c | None \<Rightarrow> c)\<close>

definition DeliveryAttemptUpdate_AddDurationMs :: "int \<Rightarrow> DeliveryAttemptUpdate \<Rightarrow> DeliveryAttemptUpdate" where
  \<open>DeliveryAttemptUpdate_AddDurationMs v c = DeliveryAttemptMutation_AddDurationMs v c\<close>

definition DeliveryAttemptUpdate_Mutation :: "DeliveryAttemptUpdate \<Rightarrow> DeliveryAttemptMutation" where
  \<open>DeliveryAttemptUpdate_Mutation c = c\<close>

definition DeliveryAttemptUpdate_check :: "DeliveryAttemptUpdate \<Rightarrow> goerror option" where
  \<open>DeliveryAttemptUpdate_check c =
     first_error
       [validated (DeliveryAttemptMutation_Status c) deliveryattempt_StatusValidator ''status'' ''ent: validator failed for field "DeliveryAttempt.status": '']\<close>

definition DeliveryAttemptUpdate_spec :: "DeliveryAttemptUpdate \<Rightarrow> UpdateSpec" where
  \<open>DeliveryAttemptUpdate_spec c =
     \<lparr>us_Table = Table_delivery_attempts, us_Predicate = dm_predicates c,
          us_Set =
            spec_field FieldNotificationID VUuid (DeliveryAttemptMutation_NotificationID c)
            @ spec_field FieldAttemptNumber VInt (DeliveryAttemptMutation_AttemptNumber c)
            @ spec_field FieldStatus VString (DeliveryAttemptMutation_Status c)
            @ spec_field FieldHTTPStatus VInt (DeliveryAttemptMutation_HTTPStatus c)
            @ spec_field FieldErrorMessage VString (DeliveryAttemptMutation_ErrorMessage c)
            @ spec_field FieldDurationMs VInt (DeliveryAttemptMutation_DurationMs c),
          us_Add = spec_add FieldAttemptNumber (DeliveryAttemptMutation_AddedAttemptNumber c) @ spec_add FieldHTTPStatus (DeliveryAttemptMutation_AddedHTTPStatus c) @ spec_add FieldDurationMs (DeliveryAttemptMutation_AddedDurationMs c),
          us_Clear =
            (if DeliveryAttemptMutation_HTTPStatusCleared c then [FieldHTTPStatus] else [])
            @ (if DeliveryAttemptMutation_ErrorMessageCleared c then [FieldErrorMessage] else [])\<rparr>\<close>

definition DeliveryAttemptUpdate_sqlSave :: "'w db \<Rightarrow> DeliveryAttemptUpdate \<Rightarrow> 'w \<Rightarrow> (goerror + int) \<times> 'w" where
  \<open>DeliveryAttemptUpdate_sqlSave db c w =
     (case DeliveryAttemptUpdate_check c of
        Some err \<Rightarrow> (Inl err, w)
      | None \<Rightarrow>
          (case UpdateNodes db (DeliveryAttemptUpdate_spec c) w of
             (Inl err, w1) \<Rightarrow>
               (Inl (if IsSqlNotFoundError db err then NotFoundError deliveryattempt_Label
                     else if IsSqlConstraintError db err then ConstraintError (error_text err) err
                     else err), w1)
           | (Inr n, w1) \<Rightarrow> (Inr n, w1)))\<close>

definition DeliveryAttemptUpdate_Save :: "'w db \<Rightarrow> DeliveryAttemptUpdate \<Rightarrow> 'w \<Rightarrow> (goerror + int) \<times> 'w" where
  \<open>DeliveryAttemptUpdate_Save db c w = DeliveryAttemptUpdate_sqlSave db c w\<close>

definition DeliveryAttemptUpdate_Exec :: "'w db \<Rightarrow> DeliveryAttemptUpdate \<Rightarrow> 'w \<Rightarrow> goerror option \<times> 'w" where
  \<open>DeliveryAttemptUpdate_Exec db c w = (case DeliveryAttemptUpdate_Save db c w of (Inl err, w1) \<Rightarrow> (Some err, w1) | (Inr _, w1) \<Rightarrow> (None, w1))\<close>

lemmas DeliveryAttempt_builder_defs =
  DeliveryAttemptCreate_SetNotificationID_def
  DeliveryAttemptCreate_SetAttemptNumber_def
  DeliveryAttemptCreate_SetStatus_def
  DeliveryAttemptCreate_SetHTTPStatus_def
  DeliveryAttemptCreate_SetNillableHTTPStatus_def
  DeliveryAttemptCreate_SetErrorMessage_def
  DeliveryAttemptCreate_SetNillableErrorMessage_def
  DeliveryAttemptCreate_SetDurationMs_def
  DeliveryAttemptCreate_SetNillableDurationMs_def
  DeliveryAttemptCreate_SetCreatedAt_def
  DeliveryAttemptCreate_SetNillableCreatedAt_def
  DeliveryAttemptCreate_SetID_def
  DeliveryAttemptCreate_SetNillableID_def
  DeliveryAttemptCreate_Mutation_def
  DeliveryAttemptCreate_defaults_def
  DeliveryAttemptCreate_check_def
  DeliveryAttemptCreate_createSpec_def
  DeliveryAttemptCreate_sqlSave_def
  DeliveryAttemptCreate_Save_def
  DeliveryAttemptCreate_Exec_def
  DeliveryAttemptUpdate_Where_def
  DeliveryAttemptUpdate_SetNotificationID_def
  DeliveryAttemptUpdate_SetNillableNotificationID_def
  DeliveryAttemptUpdate_SetAttemptNumber_def
  DeliveryAttemptUpdate_SetNillableAttemptNumber_def
  DeliveryAttemptUpdate_AddAttemptNumber_def
  DeliveryAttemptUpdate_SetStatus_def
  DeliveryAttemptUpdate_SetNillableStatus_def
  DeliveryAttemptUpdate_SetHTTPStatus_def
  DeliveryAttemptUpdate_SetNillableHTTPStatus_def
  DeliveryAttemptUpdate_AddHTTPStatus_def
  DeliveryAttemptUpdate_ClearHTTPStatus_def
  DeliveryAttemptUpdate_SetErrorMessage_def
  DeliveryAttemptUpdate_SetNillableErrorMessage_def
  DeliveryAttemptUpdate_ClearErrorMessage_def
  DeliveryAttemptUpdate_SetDurationMs_def
  DeliveryAttemptUpdate_SetNillableDurationMs_def
  DeliveryAttemptUpdate_AddDurationMs_def
  DeliveryAttemptUpdate_Mutation_def
  DeliveryAttemptUpdate_check_def
  DeliveryAttemptUpdate_spec_def
  DeliveryAttemptUpdate_sqlSave_def
  DeliveryAttemptUpdate_Save_def
  DeliveryAttemptUpdate_Exec_def

end
