(* ===== verification/Mutation_OutboxEvent.thy ===== *)
theory Mutation_OutboxEvent
  imports Ent_Types
begin

text \<open>
  The type \<^verbatim>\<open>OutboxEventMutation\<close> of \<^verbatim>\<open>ent/mutation.go\<close> and its methods, one definition per method. A
  pointer field is an option, \<^verbatim>\<open>clearedFields\<close> a set of columns, a getter that returns a value and
  a flag an option. The old values, \<^verbatim>\<open>IDs\<close>,
  \<^verbatim>\<open>WhereP\<close> and the edge methods, which the program never calls, are in \<open>Graph_*\<close>.
\<close>

record OutboxEventMutation =
  om_op :: Op
  om_typ :: string
  om_id :: "uuid option"
  om_notification_id :: "uuid option"
  om_event_type :: "string option"
  om_status :: "string option"
  om_scheduled_at :: "time option"
  om_stream_id :: "string option"
  om_locked_by :: "string option"
  om_locked_at :: "time option"
  om_last_error :: "string option"
  om_published_at :: "time option"
  om_created_at :: "time option"
  om_updated_at :: "time option"
  om_clearedFields :: "column set"
  om_done :: bool
  om_predicates :: "sql_pred list"

definition newOutboxEventMutation :: "Op \<Rightarrow> OutboxEventMutation" where
  \<open>newOutboxEventMutation op =
     \<lparr>om_op = op, om_typ = ''OutboxEvent'', om_id = None,
      om_notification_id = None, om_event_type = None, om_status = None, om_scheduled_at = None, om_stream_id = None, om_locked_by = None, om_locked_at = None, om_last_error = None, om_published_at = None, om_created_at = None, om_updated_at = None,
      om_clearedFields = {}, om_done = False, om_predicates = []\<rparr>\<close>

definition OutboxEventMutation_SetID :: "uuid \<Rightarrow> OutboxEventMutation \<Rightarrow> OutboxEventMutation" where
  \<open>OutboxEventMutation_SetID v m = m\<lparr>om_id := Some v\<rparr>\<close>

definition OutboxEventMutation_ID :: "OutboxEventMutation \<Rightarrow> uuid option" where
  \<open>OutboxEventMutation_ID m = om_id m\<close>

definition OutboxEventMutation_SetNotificationID :: "uuid \<Rightarrow> OutboxEventMutation \<Rightarrow> OutboxEventMutation" where
  \<open>OutboxEventMutation_SetNotificationID v m = m\<lparr>om_notification_id := Some v\<rparr>\<close>

definition OutboxEventMutation_NotificationID :: "OutboxEventMutation \<Rightarrow> uuid option" where
  \<open>OutboxEventMutation_NotificationID m = om_notification_id m\<close>

definition OutboxEventMutation_ResetNotificationID :: "OutboxEventMutation \<Rightarrow> OutboxEventMutation" where
  \<open>OutboxEventMutation_ResetNotificationID m = m\<lparr>om_notification_id := None\<rparr>\<close>

definition OutboxEventMutation_SetEventType :: "string \<Rightarrow> OutboxEventMutation \<Rightarrow> OutboxEventMutation" where
  \<open>OutboxEventMutation_SetEventType v m = m\<lparr>om_event_type := Some v\<rparr>\<close>

definition OutboxEventMutation_EventType :: "OutboxEventMutation \<Rightarrow> string option" where
  \<open>OutboxEventMutation_EventType m = om_event_type m\<close>

definition OutboxEventMutation_ResetEventType :: "OutboxEventMutation \<Rightarrow> OutboxEventMutation" where
  \<open>OutboxEventMutation_ResetEventType m = m\<lparr>om_event_type := None\<rparr>\<close>

definition OutboxEventMutation_SetStatus :: "string \<Rightarrow> OutboxEventMutation \<Rightarrow> OutboxEventMutation" where
  \<open>OutboxEventMutation_SetStatus v m = m\<lparr>om_status := Some v\<rparr>\<close>

definition OutboxEventMutation_Status :: "OutboxEventMutation \<Rightarrow> string option" where
  \<open>OutboxEventMutation_Status m = om_status m\<close>

definition OutboxEventMutation_ResetStatus :: "OutboxEventMutation \<Rightarrow> OutboxEventMutation" where
  \<open>OutboxEventMutation_ResetStatus m = m\<lparr>om_status := None\<rparr>\<close>

definition OutboxEventMutation_SetScheduledAt :: "time \<Rightarrow> OutboxEventMutation \<Rightarrow> OutboxEventMutation" where
  \<open>OutboxEventMutation_SetScheduledAt v m = m\<lparr>om_scheduled_at := Some v\<rparr>\<close>

definition OutboxEventMutation_ScheduledAt :: "OutboxEventMutation \<Rightarrow> time option" where
  \<open>OutboxEventMutation_ScheduledAt m = om_scheduled_at m\<close>

definition OutboxEventMutation_ResetScheduledAt :: "OutboxEventMutation \<Rightarrow> OutboxEventMutation" where
  \<open>OutboxEventMutation_ResetScheduledAt m = m\<lparr>om_scheduled_at := None\<rparr>\<close>

definition OutboxEventMutation_SetStreamID :: "string \<Rightarrow> OutboxEventMutation \<Rightarrow> OutboxEventMutation" where
  \<open>OutboxEventMutation_SetStreamID v m = m\<lparr>om_stream_id := Some v\<rparr>\<close>

definition OutboxEventMutation_StreamID :: "OutboxEventMutation \<Rightarrow> string option" where
  \<open>OutboxEventMutation_StreamID m = om_stream_id m\<close>

definition OutboxEventMutation_ClearStreamID :: "OutboxEventMutation \<Rightarrow> OutboxEventMutation" where
  \<open>OutboxEventMutation_ClearStreamID m = m\<lparr>om_stream_id := None, om_clearedFields := insert FieldStreamID (om_clearedFields m)\<rparr>\<close>

definition OutboxEventMutation_StreamIDCleared :: "OutboxEventMutation \<Rightarrow> bool" where
  \<open>OutboxEventMutation_StreamIDCleared m = (FieldStreamID \<in> om_clearedFields m)\<close>

definition OutboxEventMutation_ResetStreamID :: "OutboxEventMutation \<Rightarrow> OutboxEventMutation" where
  \<open>OutboxEventMutation_ResetStreamID m = m\<lparr>om_stream_id := None, om_clearedFields := om_clearedFields m - {FieldStreamID}\<rparr>\<close>

definition OutboxEventMutation_SetLockedBy :: "string \<Rightarrow> OutboxEventMutation \<Rightarrow> OutboxEventMutation" where
  \<open>OutboxEventMutation_SetLockedBy v m = m\<lparr>om_locked_by := Some v\<rparr>\<close>

definition OutboxEventMutation_LockedBy :: "OutboxEventMutation \<Rightarrow> string option" where
  \<open>OutboxEventMutation_LockedBy m = om_locked_by m\<close>

definition OutboxEventMutation_ClearLockedBy :: "OutboxEventMutation \<Rightarrow> OutboxEventMutation" where
  \<open>OutboxEventMutation_ClearLockedBy m = m\<lparr>om_locked_by := None, om_clearedFields := insert FieldLockedBy (om_clearedFields m)\<rparr>\<close>

definition OutboxEventMutation_LockedByCleared :: "OutboxEventMutation \<Rightarrow> bool" where
  \<open>OutboxEventMutation_LockedByCleared m = (FieldLockedBy \<in> om_clearedFields m)\<close>

definition OutboxEventMutation_ResetLockedBy :: "OutboxEventMutation \<Rightarrow> OutboxEventMutation" where
  \<open>OutboxEventMutation_ResetLockedBy m = m\<lparr>om_locked_by := None, om_clearedFields := om_clearedFields m - {FieldLockedBy}\<rparr>\<close>

definition OutboxEventMutation_SetLockedAt :: "time \<Rightarrow> OutboxEventMutation \<Rightarrow> OutboxEventMutation" where
  \<open>OutboxEventMutation_SetLockedAt v m = m\<lparr>om_locked_at := Some v\<rparr>\<close>

definition OutboxEventMutation_LockedAt :: "OutboxEventMutation \<Rightarrow> time option" where
  \<open>OutboxEventMutation_LockedAt m = om_locked_at m\<close>

definition OutboxEventMutation_ClearLockedAt :: "OutboxEventMutation \<Rightarrow> OutboxEventMutation" where
  \<open>OutboxEventMutation_ClearLockedAt m = m\<lparr>om_locked_at := None, om_clearedFields := insert FieldLockedAt (om_clearedFields m)\<rparr>\<close>

definition OutboxEventMutation_LockedAtCleared :: "OutboxEventMutation \<Rightarrow> bool" where
  \<open>OutboxEventMutation_LockedAtCleared m = (FieldLockedAt \<in> om_clearedFields m)\<close>

definition OutboxEventMutation_ResetLockedAt :: "OutboxEventMutation \<Rightarrow> OutboxEventMutation" where
  \<open>OutboxEventMutation_ResetLockedAt m = m\<lparr>om_locked_at := None, om_clearedFields := om_clearedFields m - {FieldLockedAt}\<rparr>\<close>

definition OutboxEventMutation_SetLastError :: "string \<Rightarrow> OutboxEventMutation \<Rightarrow> OutboxEventMutation" where
  \<open>OutboxEventMutation_SetLastError v m = m\<lparr>om_last_error := Some v\<rparr>\<close>

definition OutboxEventMutation_LastError :: "OutboxEventMutation \<Rightarrow> string option" where
  \<open>OutboxEventMutation_LastError m = om_last_error m\<close>

definition OutboxEventMutation_ClearLastError :: "OutboxEventMutation \<Rightarrow> OutboxEventMutation" where
  \<open>OutboxEventMutation_ClearLastError m = m\<lparr>om_last_error := None, om_clearedFields := insert FieldLastError (om_clearedFields m)\<rparr>\<close>

definition OutboxEventMutation_LastErrorCleared :: "OutboxEventMutation \<Rightarrow> bool" where
  \<open>OutboxEventMutation_LastErrorCleared m = (FieldLastError \<in> om_clearedFields m)\<close>

definition OutboxEventMutation_ResetLastError :: "OutboxEventMutation \<Rightarrow> OutboxEventMutation" where
  \<open>OutboxEventMutation_ResetLastError m = m\<lparr>om_last_error := None, om_clearedFields := om_clearedFields m - {FieldLastError}\<rparr>\<close>

definition OutboxEventMutation_SetPublishedAt :: "time \<Rightarrow> OutboxEventMutation \<Rightarrow> OutboxEventMutation" where
  \<open>OutboxEventMutation_SetPublishedAt v m = m\<lparr>om_published_at := Some v\<rparr>\<close>

definition OutboxEventMutation_PublishedAt :: "OutboxEventMutation \<Rightarrow> time option" where
  \<open>OutboxEventMutation_PublishedAt m = om_published_at m\<close>

definition OutboxEventMutation_ClearPublishedAt :: "OutboxEventMutation \<Rightarrow> OutboxEventMutation" where
  \<open>OutboxEventMutation_ClearPublishedAt m = m\<lparr>om_published_at := None, om_clearedFields := insert FieldPublishedAt (om_clearedFields m)\<rparr>\<close>

definition OutboxEventMutation_PublishedAtCleared :: "OutboxEventMutation \<Rightarrow> bool" where
  \<open>OutboxEventMutation_PublishedAtCleared m = (FieldPublishedAt \<in> om_clearedFields m)\<close>

definition OutboxEventMutation_ResetPublishedAt :: "OutboxEventMutation \<Rightarrow> OutboxEventMutation" where
  \<open>OutboxEventMutation_ResetPublishedAt m = m\<lparr>om_published_at := None, om_clearedFields := om_clearedFields m - {FieldPublishedAt}\<rparr>\<close>

definition OutboxEventMutation_SetCreatedAt :: "time \<Rightarrow> OutboxEventMutation \<Rightarrow> OutboxEventMutation" where
  \<open>OutboxEventMutation_SetCreatedAt v m = m\<lparr>om_created_at := Some v\<rparr>\<close>

definition OutboxEventMutation_CreatedAt :: "OutboxEventMutation \<Rightarrow> time option" where
  \<open>OutboxEventMutation_CreatedAt m = om_created_at m\<close>

definition OutboxEventMutation_ResetCreatedAt :: "OutboxEventMutation \<Rightarrow> OutboxEventMutation" where
  \<open>OutboxEventMutation_ResetCreatedAt m = m\<lparr>om_created_at := None\<rparr>\<close>

definition OutboxEventMutation_SetUpdatedAt :: "time \<Rightarrow> OutboxEventMutation \<Rightarrow> OutboxEventMutation" where
  \<open>OutboxEventMutation_SetUpdatedAt v m = m\<lparr>om_updated_at := Some v\<rparr>\<close>

definition OutboxEventMutation_UpdatedAt :: "OutboxEventMutation \<Rightarrow> time option" where
  \<open>OutboxEventMutation_UpdatedAt m = om_updated_at m\<close>

definition OutboxEventMutation_ResetUpdatedAt :: "OutboxEventMutation \<Rightarrow> OutboxEventMutation" where
  \<open>OutboxEventMutation_ResetUpdatedAt m = m\<lparr>om_updated_at := None\<rparr>\<close>

definition OutboxEventMutation_Where :: "sql_pred list \<Rightarrow> OutboxEventMutation \<Rightarrow> OutboxEventMutation" where
  \<open>OutboxEventMutation_Where ps m = m\<lparr>om_predicates := om_predicates m @ ps\<rparr>\<close>

definition OutboxEventMutation_Op :: "OutboxEventMutation \<Rightarrow> Op" where
  \<open>OutboxEventMutation_Op m = om_op m\<close>

definition OutboxEventMutation_SetOp :: "Op \<Rightarrow> OutboxEventMutation \<Rightarrow> OutboxEventMutation" where
  \<open>OutboxEventMutation_SetOp op m = m\<lparr>om_op := op\<rparr>\<close>

definition OutboxEventMutation_Type :: "OutboxEventMutation \<Rightarrow> string" where
  \<open>OutboxEventMutation_Type m = om_typ m\<close>

definition OutboxEventMutation_Fields :: "OutboxEventMutation \<Rightarrow> column list" where
  \<open>OutboxEventMutation_Fields m =
     (if om_notification_id m \<noteq> None then [FieldNotificationID] else [])
     @ (if om_event_type m \<noteq> None then [FieldEventType] else [])
     @ (if om_status m \<noteq> None then [FieldStatus] else [])
     @ (if om_scheduled_at m \<noteq> None then [FieldScheduledAt] else [])
     @ (if om_stream_id m \<noteq> None then [FieldStreamID] else [])
     @ (if om_locked_by m \<noteq> None then [FieldLockedBy] else [])
     @ (if om_locked_at m \<noteq> None then [FieldLockedAt] else [])
     @ (if om_last_error m \<noteq> None then [FieldLastError] else [])
     @ (if om_published_at m \<noteq> None then [FieldPublishedAt] else [])
     @ (if om_created_at m \<noteq> None then [FieldCreatedAt] else [])
     @ (if om_updated_at m \<noteq> None then [FieldUpdatedAt] else [])\<close>

definition OutboxEventMutation_Field :: "column \<Rightarrow> OutboxEventMutation \<Rightarrow> ent_value option" where
  \<open>OutboxEventMutation_Field name m =
     (case name of
         FieldNotificationID \<Rightarrow> map_option GoUUID (OutboxEventMutation_NotificationID m)
       | FieldEventType \<Rightarrow> map_option GoString (OutboxEventMutation_EventType m)
       | FieldStatus \<Rightarrow> map_option GoOutboxEventStatus (OutboxEventMutation_Status m)
       | FieldScheduledAt \<Rightarrow> map_option GoTime (OutboxEventMutation_ScheduledAt m)
       | FieldStreamID \<Rightarrow> map_option GoString (OutboxEventMutation_StreamID m)
       | FieldLockedBy \<Rightarrow> map_option GoString (OutboxEventMutation_LockedBy m)
       | FieldLockedAt \<Rightarrow> map_option GoTime (OutboxEventMutation_LockedAt m)
       | FieldLastError \<Rightarrow> map_option GoString (OutboxEventMutation_LastError m)
       | FieldPublishedAt \<Rightarrow> map_option GoTime (OutboxEventMutation_PublishedAt m)
       | FieldCreatedAt \<Rightarrow> map_option GoTime (OutboxEventMutation_CreatedAt m)
       | FieldUpdatedAt \<Rightarrow> map_option GoTime (OutboxEventMutation_UpdatedAt m)
       | _ \<Rightarrow> None)\<close>

definition OutboxEventMutation_SetField :: "column \<Rightarrow> ent_value \<Rightarrow> OutboxEventMutation \<Rightarrow> goerror + OutboxEventMutation" where
  \<open>OutboxEventMutation_SetField name value m =
     (case name of
         FieldNotificationID \<Rightarrow> (case value of GoUUID v \<Rightarrow> Inr (OutboxEventMutation_SetNotificationID v m) | _ \<Rightarrow> Inl (unexpected_value value name))
       | FieldEventType \<Rightarrow> (case value of GoString v \<Rightarrow> Inr (OutboxEventMutation_SetEventType v m) | _ \<Rightarrow> Inl (unexpected_value value name))
       | FieldStatus \<Rightarrow> (case value of GoOutboxEventStatus v \<Rightarrow> Inr (OutboxEventMutation_SetStatus v m) | _ \<Rightarrow> Inl (unexpected_value value name))
       | FieldScheduledAt \<Rightarrow> (case value of GoTime v \<Rightarrow> Inr (OutboxEventMutation_SetScheduledAt v m) | _ \<Rightarrow> Inl (unexpected_value value name))
       | FieldStreamID \<Rightarrow> (case value of GoString v \<Rightarrow> Inr (OutboxEventMutation_SetStreamID v m) | _ \<Rightarrow> Inl (unexpected_value value name))
       | FieldLockedBy \<Rightarrow> (case value of GoString v \<Rightarrow> Inr (OutboxEventMutation_SetLockedBy v m) | _ \<Rightarrow> Inl (unexpected_value value name))
       | FieldLockedAt \<Rightarrow> (case value of GoTime v \<Rightarrow> Inr (OutboxEventMutation_SetLockedAt v m) | _ \<Rightarrow> Inl (unexpected_value value name))
       | FieldLastError \<Rightarrow> (case value of GoString v \<Rightarrow> Inr (OutboxEventMutation_SetLastError v m) | _ \<Rightarrow> Inl (unexpected_value value name))
       | FieldPublishedAt \<Rightarrow> (case value of GoTime v \<Rightarrow> Inr (OutboxEventMutation_SetPublishedAt v m) | _ \<Rightarrow> Inl (unexpected_value value name))
       | FieldCreatedAt \<Rightarrow> (case value of GoTime v \<Rightarrow> Inr (OutboxEventMutation_SetCreatedAt v m) | _ \<Rightarrow> Inl (unexpected_value value name))
       | FieldUpdatedAt \<Rightarrow> (case value of GoTime v \<Rightarrow> Inr (OutboxEventMutation_SetUpdatedAt v m) | _ \<Rightarrow> Inl (unexpected_value value name))
       | _ \<Rightarrow> Inl (ErrText (''unknown OutboxEvent field '' @ column_name name)))\<close>

definition OutboxEventMutation_AddedFields :: "OutboxEventMutation \<Rightarrow> column list" where
  \<open>OutboxEventMutation_AddedFields m = []\<close>

definition OutboxEventMutation_AddedField :: "column \<Rightarrow> OutboxEventMutation \<Rightarrow> ent_value option" where
  \<open>OutboxEventMutation_AddedField name m = None\<close>

definition OutboxEventMutation_AddField :: "column \<Rightarrow> ent_value \<Rightarrow> OutboxEventMutation \<Rightarrow> goerror + OutboxEventMutation" where
  \<open>OutboxEventMutation_AddField name value m = Inl (ErrText (''unknown OutboxEvent numeric field '' @ column_name name))\<close>

definition OutboxEventMutation_FieldCleared :: "column \<Rightarrow> OutboxEventMutation \<Rightarrow> bool" where
  \<open>OutboxEventMutation_FieldCleared name m = (name \<in> om_clearedFields m)\<close>

definition OutboxEventMutation_ClearField :: "column \<Rightarrow> OutboxEventMutation \<Rightarrow> goerror + OutboxEventMutation" where
  \<open>OutboxEventMutation_ClearField name m =
     (case name of
         FieldStreamID \<Rightarrow> Inr (OutboxEventMutation_ClearStreamID m)
       | FieldLockedBy \<Rightarrow> Inr (OutboxEventMutation_ClearLockedBy m)
       | FieldLockedAt \<Rightarrow> Inr (OutboxEventMutation_ClearLockedAt m)
       | FieldLastError \<Rightarrow> Inr (OutboxEventMutation_ClearLastError m)
       | FieldPublishedAt \<Rightarrow> Inr (OutboxEventMutation_ClearPublishedAt m)
       | _ \<Rightarrow> Inl (ErrText (''unknown OutboxEvent nullable field '' @ column_name name)))\<close>

definition OutboxEventMutation_ResetField :: "column \<Rightarrow> OutboxEventMutation \<Rightarrow> goerror + OutboxEventMutation" where
  \<open>OutboxEventMutation_ResetField name m =
     (case name of
         FieldNotificationID \<Rightarrow> Inr (OutboxEventMutation_ResetNotificationID m)
       | FieldEventType \<Rightarrow> Inr (OutboxEventMutation_ResetEventType m)
       | FieldStatus \<Rightarrow> Inr (OutboxEventMutation_ResetStatus m)
       | FieldScheduledAt \<Rightarrow> Inr (OutboxEventMutation_ResetScheduledAt m)
       | FieldStreamID \<Rightarrow> Inr (OutboxEventMutation_ResetStreamID m)
       | FieldLockedBy \<Rightarrow> Inr (OutboxEventMutation_ResetLockedBy m)
       | FieldLockedAt \<Rightarrow> Inr (OutboxEventMutation_ResetLockedAt m)
       | FieldLastError \<Rightarrow> Inr (OutboxEventMutation_ResetLastError m)
       | FieldPublishedAt \<Rightarrow> Inr (OutboxEventMutation_ResetPublishedAt m)
       | FieldCreatedAt \<Rightarrow> Inr (OutboxEventMutation_ResetCreatedAt m)
       | FieldUpdatedAt \<Rightarrow> Inr (OutboxEventMutation_ResetUpdatedAt m)
       | _ \<Rightarrow> Inl (ErrText (''unknown OutboxEvent field '' @ column_name name)))\<close>

definition OutboxEventMutation_ClearedFields :: "OutboxEventMutation \<Rightarrow> column list" where
  \<open>OutboxEventMutation_ClearedFields m =
     (if OutboxEventMutation_FieldCleared FieldStreamID m then [FieldStreamID] else [])
     @ (if OutboxEventMutation_FieldCleared FieldLockedBy m then [FieldLockedBy] else [])
     @ (if OutboxEventMutation_FieldCleared FieldLockedAt m then [FieldLockedAt] else [])
     @ (if OutboxEventMutation_FieldCleared FieldLastError m then [FieldLastError] else [])
     @ (if OutboxEventMutation_FieldCleared FieldPublishedAt m then [FieldPublishedAt] else [])\<close>

lemmas OutboxEventMutation_defs =
  newOutboxEventMutation_def
  OutboxEventMutation_SetID_def
  OutboxEventMutation_ID_def
  OutboxEventMutation_SetNotificationID_def
  OutboxEventMutation_NotificationID_def
  OutboxEventMutation_ResetNotificationID_def
  OutboxEventMutation_SetEventType_def
  OutboxEventMutation_EventType_def
  OutboxEventMutation_ResetEventType_def
  OutboxEventMutation_SetStatus_def
  OutboxEventMutation_Status_def
  OutboxEventMutation_ResetStatus_def
  OutboxEventMutation_SetScheduledAt_def
  OutboxEventMutation_ScheduledAt_def
  OutboxEventMutation_ResetScheduledAt_def
  OutboxEventMutation_SetStreamID_def
  OutboxEventMutation_StreamID_def
  OutboxEventMutation_ClearStreamID_def
  OutboxEventMutation_StreamIDCleared_def
  OutboxEventMutation_ResetStreamID_def
  OutboxEventMutation_SetLockedBy_def
  OutboxEventMutation_LockedBy_def
  OutboxEventMutation_ClearLockedBy_def
  OutboxEventMutation_LockedByCleared_def
  OutboxEventMutation_ResetLockedBy_def
  OutboxEventMutation_SetLockedAt_def
  OutboxEventMutation_LockedAt_def
  OutboxEventMutation_ClearLockedAt_def
  OutboxEventMutation_LockedAtCleared_def
  OutboxEventMutation_ResetLockedAt_def
  OutboxEventMutation_SetLastError_def
  OutboxEventMutation_LastError_def
  OutboxEventMutation_ClearLastError_def
  OutboxEventMutation_LastErrorCleared_def
  OutboxEventMutation_ResetLastError_def
  OutboxEventMutation_SetPublishedAt_def
  OutboxEventMutation_PublishedAt_def
  OutboxEventMutation_ClearPublishedAt_def
  OutboxEventMutation_PublishedAtCleared_def
  OutboxEventMutation_ResetPublishedAt_def
  OutboxEventMutation_SetCreatedAt_def
  OutboxEventMutation_CreatedAt_def
  OutboxEventMutation_ResetCreatedAt_def
  OutboxEventMutation_SetUpdatedAt_def
  OutboxEventMutation_UpdatedAt_def
  OutboxEventMutation_ResetUpdatedAt_def
  OutboxEventMutation_Where_def
  OutboxEventMutation_Op_def
  OutboxEventMutation_SetOp_def
  OutboxEventMutation_Type_def
  OutboxEventMutation_Fields_def
  OutboxEventMutation_Field_def
  OutboxEventMutation_SetField_def
  OutboxEventMutation_AddedFields_def
  OutboxEventMutation_AddedField_def
  OutboxEventMutation_AddField_def
  OutboxEventMutation_FieldCleared_def
  OutboxEventMutation_ClearField_def
  OutboxEventMutation_ResetField_def
  OutboxEventMutation_ClearedFields_def

end
