(* ===== verification/Builders_OutboxEvent.thy ===== *)
theory Builders_OutboxEvent
  imports Mutation_OutboxEvent
begin

text \<open>
  The builders \<^verbatim>\<open>OutboxEventCreate\<close> and \<^verbatim>\<open>OutboxEventUpdate\<close> of \<^verbatim>\<open>ent/outboxevent_create.go\<close> and
  \<^verbatim>\<open>ent/outboxevent_update.go\<close>. A builder is its mutation: the program registers no hooks, and the
  configuration is the driver \<open>db\<close>. Bulk creation, the builders for a single entity and
  the methods that panic, none of which the program calls, are in \<open>Graph_*\<close>.
\<close>

section \<open>OutboxEventCreate\<close>

type_synonym OutboxEventCreate = OutboxEventMutation

definition OutboxEventCreate_SetNotificationID :: "uuid \<Rightarrow> OutboxEventCreate \<Rightarrow> OutboxEventCreate" where
  \<open>OutboxEventCreate_SetNotificationID v c = OutboxEventMutation_SetNotificationID v c\<close>

definition OutboxEventCreate_SetEventType :: "string \<Rightarrow> OutboxEventCreate \<Rightarrow> OutboxEventCreate" where
  \<open>OutboxEventCreate_SetEventType v c = OutboxEventMutation_SetEventType v c\<close>

definition OutboxEventCreate_SetNillableEventType :: "string option \<Rightarrow> OutboxEventCreate \<Rightarrow> OutboxEventCreate" where
  \<open>OutboxEventCreate_SetNillableEventType v c = (case v of Some x \<Rightarrow> OutboxEventCreate_SetEventType x c | None \<Rightarrow> c)\<close>

definition OutboxEventCreate_SetStatus :: "string \<Rightarrow> OutboxEventCreate \<Rightarrow> OutboxEventCreate" where
  \<open>OutboxEventCreate_SetStatus v c = OutboxEventMutation_SetStatus v c\<close>

definition OutboxEventCreate_SetNillableStatus :: "string option \<Rightarrow> OutboxEventCreate \<Rightarrow> OutboxEventCreate" where
  \<open>OutboxEventCreate_SetNillableStatus v c = (case v of Some x \<Rightarrow> OutboxEventCreate_SetStatus x c | None \<Rightarrow> c)\<close>

definition OutboxEventCreate_SetScheduledAt :: "time \<Rightarrow> OutboxEventCreate \<Rightarrow> OutboxEventCreate" where
  \<open>OutboxEventCreate_SetScheduledAt v c = OutboxEventMutation_SetScheduledAt v c\<close>

definition OutboxEventCreate_SetNillableScheduledAt :: "time option \<Rightarrow> OutboxEventCreate \<Rightarrow> OutboxEventCreate" where
  \<open>OutboxEventCreate_SetNillableScheduledAt v c = (case v of Some x \<Rightarrow> OutboxEventCreate_SetScheduledAt x c | None \<Rightarrow> c)\<close>

definition OutboxEventCreate_SetStreamID :: "string \<Rightarrow> OutboxEventCreate \<Rightarrow> OutboxEventCreate" where
  \<open>OutboxEventCreate_SetStreamID v c = OutboxEventMutation_SetStreamID v c\<close>

definition OutboxEventCreate_SetNillableStreamID :: "string option \<Rightarrow> OutboxEventCreate \<Rightarrow> OutboxEventCreate" where
  \<open>OutboxEventCreate_SetNillableStreamID v c = (case v of Some x \<Rightarrow> OutboxEventCreate_SetStreamID x c | None \<Rightarrow> c)\<close>

definition OutboxEventCreate_SetLockedBy :: "string \<Rightarrow> OutboxEventCreate \<Rightarrow> OutboxEventCreate" where
  \<open>OutboxEventCreate_SetLockedBy v c = OutboxEventMutation_SetLockedBy v c\<close>

definition OutboxEventCreate_SetNillableLockedBy :: "string option \<Rightarrow> OutboxEventCreate \<Rightarrow> OutboxEventCreate" where
  \<open>OutboxEventCreate_SetNillableLockedBy v c = (case v of Some x \<Rightarrow> OutboxEventCreate_SetLockedBy x c | None \<Rightarrow> c)\<close>

definition OutboxEventCreate_SetLockedAt :: "time \<Rightarrow> OutboxEventCreate \<Rightarrow> OutboxEventCreate" where
  \<open>OutboxEventCreate_SetLockedAt v c = OutboxEventMutation_SetLockedAt v c\<close>

definition OutboxEventCreate_SetNillableLockedAt :: "time option \<Rightarrow> OutboxEventCreate \<Rightarrow> OutboxEventCreate" where
  \<open>OutboxEventCreate_SetNillableLockedAt v c = (case v of Some x \<Rightarrow> OutboxEventCreate_SetLockedAt x c | None \<Rightarrow> c)\<close>

definition OutboxEventCreate_SetLastError :: "string \<Rightarrow> OutboxEventCreate \<Rightarrow> OutboxEventCreate" where
  \<open>OutboxEventCreate_SetLastError v c = OutboxEventMutation_SetLastError v c\<close>

definition OutboxEventCreate_SetNillableLastError :: "string option \<Rightarrow> OutboxEventCreate \<Rightarrow> OutboxEventCreate" where
  \<open>OutboxEventCreate_SetNillableLastError v c = (case v of Some x \<Rightarrow> OutboxEventCreate_SetLastError x c | None \<Rightarrow> c)\<close>

definition OutboxEventCreate_SetPublishedAt :: "time \<Rightarrow> OutboxEventCreate \<Rightarrow> OutboxEventCreate" where
  \<open>OutboxEventCreate_SetPublishedAt v c = OutboxEventMutation_SetPublishedAt v c\<close>

definition OutboxEventCreate_SetNillablePublishedAt :: "time option \<Rightarrow> OutboxEventCreate \<Rightarrow> OutboxEventCreate" where
  \<open>OutboxEventCreate_SetNillablePublishedAt v c = (case v of Some x \<Rightarrow> OutboxEventCreate_SetPublishedAt x c | None \<Rightarrow> c)\<close>

definition OutboxEventCreate_SetCreatedAt :: "time \<Rightarrow> OutboxEventCreate \<Rightarrow> OutboxEventCreate" where
  \<open>OutboxEventCreate_SetCreatedAt v c = OutboxEventMutation_SetCreatedAt v c\<close>

definition OutboxEventCreate_SetNillableCreatedAt :: "time option \<Rightarrow> OutboxEventCreate \<Rightarrow> OutboxEventCreate" where
  \<open>OutboxEventCreate_SetNillableCreatedAt v c = (case v of Some x \<Rightarrow> OutboxEventCreate_SetCreatedAt x c | None \<Rightarrow> c)\<close>

definition OutboxEventCreate_SetUpdatedAt :: "time \<Rightarrow> OutboxEventCreate \<Rightarrow> OutboxEventCreate" where
  \<open>OutboxEventCreate_SetUpdatedAt v c = OutboxEventMutation_SetUpdatedAt v c\<close>

definition OutboxEventCreate_SetNillableUpdatedAt :: "time option \<Rightarrow> OutboxEventCreate \<Rightarrow> OutboxEventCreate" where
  \<open>OutboxEventCreate_SetNillableUpdatedAt v c = (case v of Some x \<Rightarrow> OutboxEventCreate_SetUpdatedAt x c | None \<Rightarrow> c)\<close>

definition OutboxEventCreate_SetID :: "uuid \<Rightarrow> OutboxEventCreate \<Rightarrow> OutboxEventCreate" where
  \<open>OutboxEventCreate_SetID v c = OutboxEventMutation_SetID v c\<close>

definition OutboxEventCreate_SetNillableID :: "uuid option \<Rightarrow> OutboxEventCreate \<Rightarrow> OutboxEventCreate" where
  \<open>OutboxEventCreate_SetNillableID v c = (case v of Some x \<Rightarrow> OutboxEventCreate_SetID x c | None \<Rightarrow> c)\<close>

definition OutboxEventCreate_Mutation :: "OutboxEventCreate \<Rightarrow> OutboxEventMutation" where
  \<open>OutboxEventCreate_Mutation c = c\<close>

definition OutboxEventCreate_defaults :: "'w db \<Rightarrow> OutboxEventCreate \<Rightarrow> 'w \<Rightarrow> OutboxEventCreate \<times> 'w" where
  \<open>OutboxEventCreate_defaults db c w =
     (let c = (case OutboxEventMutation_EventType c of Some _ \<Rightarrow> c | None \<Rightarrow> OutboxEventMutation_SetEventType outboxevent_DefaultEventType c);
          c = (case OutboxEventMutation_Status c of Some _ \<Rightarrow> c | None \<Rightarrow> OutboxEventMutation_SetStatus outboxevent_DefaultStatus c);
          (c, w) = (case OutboxEventMutation_ScheduledAt c of Some _ \<Rightarrow> (c, w) | None \<Rightarrow> (case outboxevent_DefaultScheduledAt db w of (v, w1) \<Rightarrow> (OutboxEventMutation_SetScheduledAt v c, w1)));
          (c, w) = (case OutboxEventMutation_CreatedAt c of Some _ \<Rightarrow> (c, w) | None \<Rightarrow> (case outboxevent_DefaultCreatedAt db w of (v, w1) \<Rightarrow> (OutboxEventMutation_SetCreatedAt v c, w1)));
          (c, w) = (case OutboxEventMutation_UpdatedAt c of Some _ \<Rightarrow> (c, w) | None \<Rightarrow> (case outboxevent_DefaultUpdatedAt db w of (v, w1) \<Rightarrow> (OutboxEventMutation_SetUpdatedAt v c, w1)));
          (c, w) = (case OutboxEventMutation_ID c of Some _ \<Rightarrow> (c, w) | None \<Rightarrow> (case outboxevent_DefaultID db w of (v, w1) \<Rightarrow> (OutboxEventMutation_SetID v c, w1)))
      in (c, w))\<close>

definition OutboxEventCreate_check :: "OutboxEventCreate \<Rightarrow> goerror option" where
  \<open>OutboxEventCreate_check c =
     first_error
       [missing (OutboxEventMutation_NotificationID c) ''notification_id'' ''ent: missing required field "OutboxEvent.notification_id"'',
        missing (OutboxEventMutation_EventType c) ''event_type'' ''ent: missing required field "OutboxEvent.event_type"'',
        missing (OutboxEventMutation_Status c) ''status'' ''ent: missing required field "OutboxEvent.status"'',
        validated (OutboxEventMutation_Status c) outboxevent_StatusValidator ''status'' ''ent: validator failed for field "OutboxEvent.status": '',
        missing (OutboxEventMutation_ScheduledAt c) ''scheduled_at'' ''ent: missing required field "OutboxEvent.scheduled_at"'',
        missing (OutboxEventMutation_CreatedAt c) ''created_at'' ''ent: missing required field "OutboxEvent.created_at"'',
        missing (OutboxEventMutation_UpdatedAt c) ''updated_at'' ''ent: missing required field "OutboxEvent.updated_at"'']\<close>

definition OutboxEventCreate_createSpec :: "OutboxEventCreate \<Rightarrow> OutboxEvent \<times> CreateSpec" where
  \<open>OutboxEventCreate_createSpec c =
     (let node = OutboxEvent_zero;
          node = (case OutboxEventMutation_ID c of Some v \<Rightarrow> node\<lparr>o_ID := v\<rparr> | None \<Rightarrow> node);
          node = (case OutboxEventMutation_NotificationID c of Some v \<Rightarrow> node\<lparr>o_NotificationID := v\<rparr> | None \<Rightarrow> node);
          node = (case OutboxEventMutation_EventType c of Some v \<Rightarrow> node\<lparr>o_EventType := v\<rparr> | None \<Rightarrow> node);
          node = (case OutboxEventMutation_Status c of Some v \<Rightarrow> node\<lparr>o_Status := v\<rparr> | None \<Rightarrow> node);
          node = (case OutboxEventMutation_ScheduledAt c of Some v \<Rightarrow> node\<lparr>o_ScheduledAt := v\<rparr> | None \<Rightarrow> node);
          node = (case OutboxEventMutation_StreamID c of Some v \<Rightarrow> node\<lparr>o_StreamID := v\<rparr> | None \<Rightarrow> node);
          node = (case OutboxEventMutation_LockedBy c of Some v \<Rightarrow> node\<lparr>o_LockedBy := v\<rparr> | None \<Rightarrow> node);
          node = (case OutboxEventMutation_LockedAt c of Some v \<Rightarrow> node\<lparr>o_LockedAt := Some v\<rparr> | None \<Rightarrow> node);
          node = (case OutboxEventMutation_LastError c of Some v \<Rightarrow> node\<lparr>o_LastError := v\<rparr> | None \<Rightarrow> node);
          node = (case OutboxEventMutation_PublishedAt c of Some v \<Rightarrow> node\<lparr>o_PublishedAt := Some v\<rparr> | None \<Rightarrow> node);
          node = (case OutboxEventMutation_CreatedAt c of Some v \<Rightarrow> node\<lparr>o_CreatedAt := v\<rparr> | None \<Rightarrow> node);
          node = (case OutboxEventMutation_UpdatedAt c of Some v \<Rightarrow> node\<lparr>o_UpdatedAt := v\<rparr> | None \<Rightarrow> node)
      in (node, \<lparr>cs_Table = Table_outbox_events, cs_ID = OutboxEventMutation_ID c, cs_Fields =
           spec_field FieldNotificationID VUuid (OutboxEventMutation_NotificationID c)
           @ spec_field FieldEventType VString (OutboxEventMutation_EventType c)
           @ spec_field FieldStatus VString (OutboxEventMutation_Status c)
           @ spec_field FieldScheduledAt VTime (OutboxEventMutation_ScheduledAt c)
           @ spec_field FieldStreamID VString (OutboxEventMutation_StreamID c)
           @ spec_field FieldLockedBy VString (OutboxEventMutation_LockedBy c)
           @ spec_field FieldLockedAt VTime (OutboxEventMutation_LockedAt c)
           @ spec_field FieldLastError VString (OutboxEventMutation_LastError c)
           @ spec_field FieldPublishedAt VTime (OutboxEventMutation_PublishedAt c)
           @ spec_field FieldCreatedAt VTime (OutboxEventMutation_CreatedAt c)
           @ spec_field FieldUpdatedAt VTime (OutboxEventMutation_UpdatedAt c)\<rparr>))\<close>

definition OutboxEventCreate_sqlSave :: "'w db \<Rightarrow> OutboxEventCreate \<Rightarrow> 'w \<Rightarrow> (goerror + OutboxEvent) \<times> 'w" where
  \<open>OutboxEventCreate_sqlSave db c w =
     (case OutboxEventCreate_check c of
        Some err \<Rightarrow> (Inl err, w)
      | None \<Rightarrow>
          (case OutboxEventCreate_createSpec c of (node, spec) \<Rightarrow>
             (case CreateNode db spec w of
                (Inl err, w1) \<Rightarrow>
                  (Inl (if IsSqlConstraintError db err then ConstraintError (error_text err) err else err), w1)
              | (Inr _, w1) \<Rightarrow>
                  (Inr (case cs_ID spec of Some v \<Rightarrow> node\<lparr>o_ID := v\<rparr> | None \<Rightarrow> node), w1))))\<close>

definition OutboxEventCreate_Save :: "'w db \<Rightarrow> OutboxEventCreate \<Rightarrow> 'w \<Rightarrow> (goerror + OutboxEvent) \<times> 'w" where
  \<open>OutboxEventCreate_Save db c w = (case OutboxEventCreate_defaults db c w of (c1, w1) \<Rightarrow> OutboxEventCreate_sqlSave db c1 w1)\<close>

definition OutboxEventCreate_Exec :: "'w db \<Rightarrow> OutboxEventCreate \<Rightarrow> 'w \<Rightarrow> goerror option \<times> 'w" where
  \<open>OutboxEventCreate_Exec db c w = (case OutboxEventCreate_Save db c w of (Inl err, w1) \<Rightarrow> (Some err, w1) | (Inr _, w1) \<Rightarrow> (None, w1))\<close>

section \<open>OutboxEventUpdate\<close>

type_synonym OutboxEventUpdate = OutboxEventMutation

definition OutboxEventUpdate_Where :: "sql_pred list \<Rightarrow> OutboxEventUpdate \<Rightarrow> OutboxEventUpdate" where
  \<open>OutboxEventUpdate_Where ps c = OutboxEventMutation_Where ps c\<close>

definition OutboxEventUpdate_SetNotificationID :: "uuid \<Rightarrow> OutboxEventUpdate \<Rightarrow> OutboxEventUpdate" where
  \<open>OutboxEventUpdate_SetNotificationID v c = OutboxEventMutation_SetNotificationID v c\<close>

definition OutboxEventUpdate_SetNillableNotificationID :: "uuid option \<Rightarrow> OutboxEventUpdate \<Rightarrow> OutboxEventUpdate" where
  \<open>OutboxEventUpdate_SetNillableNotificationID v c = (case v of Some x \<Rightarrow> OutboxEventUpdate_SetNotificationID x c | None \<Rightarrow> c)\<close>

definition OutboxEventUpdate_SetEventType :: "string \<Rightarrow> OutboxEventUpdate \<Rightarrow> OutboxEventUpdate" where
  \<open>OutboxEventUpdate_SetEventType v c = OutboxEventMutation_SetEventType v c\<close>

definition OutboxEventUpdate_SetNillableEventType :: "string option \<Rightarrow> OutboxEventUpdate \<Rightarrow> OutboxEventUpdate" where
  \<open>OutboxEventUpdate_SetNillableEventType v c = (case v of Some x \<Rightarrow> OutboxEventUpdate_SetEventType x c | None \<Rightarrow> c)\<close>

definition OutboxEventUpdate_SetStatus :: "string \<Rightarrow> OutboxEventUpdate \<Rightarrow> OutboxEventUpdate" where
  \<open>OutboxEventUpdate_SetStatus v c = OutboxEventMutation_SetStatus v c\<close>

definition OutboxEventUpdate_SetNillableStatus :: "string option \<Rightarrow> OutboxEventUpdate \<Rightarrow> OutboxEventUpdate" where
  \<open>OutboxEventUpdate_SetNillableStatus v c = (case v of Some x \<Rightarrow> OutboxEventUpdate_SetStatus x c | None \<Rightarrow> c)\<close>

definition OutboxEventUpdate_SetScheduledAt :: "time \<Rightarrow> OutboxEventUpdate \<Rightarrow> OutboxEventUpdate" where
  \<open>OutboxEventUpdate_SetScheduledAt v c = OutboxEventMutation_SetScheduledAt v c\<close>

definition OutboxEventUpdate_SetNillableScheduledAt :: "time option \<Rightarrow> OutboxEventUpdate \<Rightarrow> OutboxEventUpdate" where
  \<open>OutboxEventUpdate_SetNillableScheduledAt v c = (case v of Some x \<Rightarrow> OutboxEventUpdate_SetScheduledAt x c | None \<Rightarrow> c)\<close>

definition OutboxEventUpdate_SetStreamID :: "string \<Rightarrow> OutboxEventUpdate \<Rightarrow> OutboxEventUpdate" where
  \<open>OutboxEventUpdate_SetStreamID v c = OutboxEventMutation_SetStreamID v c\<close>

definition OutboxEventUpdate_SetNillableStreamID :: "string option \<Rightarrow> OutboxEventUpdate \<Rightarrow> OutboxEventUpdate" where
  \<open>OutboxEventUpdate_SetNillableStreamID v c = (case v of Some x \<Rightarrow> OutboxEventUpdate_SetStreamID x c | None \<Rightarrow> c)\<close>

definition OutboxEventUpdate_ClearStreamID :: "OutboxEventUpdate \<Rightarrow> OutboxEventUpdate" where
  \<open>OutboxEventUpdate_ClearStreamID c = OutboxEventMutation_ClearStreamID c\<close>

definition OutboxEventUpdate_SetLockedBy :: "string \<Rightarrow> OutboxEventUpdate \<Rightarrow> OutboxEventUpdate" where
  \<open>OutboxEventUpdate_SetLockedBy v c = OutboxEventMutation_SetLockedBy v c\<close>

definition OutboxEventUpdate_SetNillableLockedBy :: "string option \<Rightarrow> OutboxEventUpdate \<Rightarrow> OutboxEventUpdate" where
  \<open>OutboxEventUpdate_SetNillableLockedBy v c = (case v of Some x \<Rightarrow> OutboxEventUpdate_SetLockedBy x c | None \<Rightarrow> c)\<close>

definition OutboxEventUpdate_ClearLockedBy :: "OutboxEventUpdate \<Rightarrow> OutboxEventUpdate" where
  \<open>OutboxEventUpdate_ClearLockedBy c = OutboxEventMutation_ClearLockedBy c\<close>

definition OutboxEventUpdate_SetLockedAt :: "time \<Rightarrow> OutboxEventUpdate \<Rightarrow> OutboxEventUpdate" where
  \<open>OutboxEventUpdate_SetLockedAt v c = OutboxEventMutation_SetLockedAt v c\<close>

definition OutboxEventUpdate_SetNillableLockedAt :: "time option \<Rightarrow> OutboxEventUpdate \<Rightarrow> OutboxEventUpdate" where
  \<open>OutboxEventUpdate_SetNillableLockedAt v c = (case v of Some x \<Rightarrow> OutboxEventUpdate_SetLockedAt x c | None \<Rightarrow> c)\<close>

definition OutboxEventUpdate_ClearLockedAt :: "OutboxEventUpdate \<Rightarrow> OutboxEventUpdate" where
  \<open>OutboxEventUpdate_ClearLockedAt c = OutboxEventMutation_ClearLockedAt c\<close>

definition OutboxEventUpdate_SetLastError :: "string \<Rightarrow> OutboxEventUpdate \<Rightarrow> OutboxEventUpdate" where
  \<open>OutboxEventUpdate_SetLastError v c = OutboxEventMutation_SetLastError v c\<close>

definition OutboxEventUpdate_SetNillableLastError :: "string option \<Rightarrow> OutboxEventUpdate \<Rightarrow> OutboxEventUpdate" where
  \<open>OutboxEventUpdate_SetNillableLastError v c = (case v of Some x \<Rightarrow> OutboxEventUpdate_SetLastError x c | None \<Rightarrow> c)\<close>

definition OutboxEventUpdate_ClearLastError :: "OutboxEventUpdate \<Rightarrow> OutboxEventUpdate" where
  \<open>OutboxEventUpdate_ClearLastError c = OutboxEventMutation_ClearLastError c\<close>

definition OutboxEventUpdate_SetPublishedAt :: "time \<Rightarrow> OutboxEventUpdate \<Rightarrow> OutboxEventUpdate" where
  \<open>OutboxEventUpdate_SetPublishedAt v c = OutboxEventMutation_SetPublishedAt v c\<close>

definition OutboxEventUpdate_SetNillablePublishedAt :: "time option \<Rightarrow> OutboxEventUpdate \<Rightarrow> OutboxEventUpdate" where
  \<open>OutboxEventUpdate_SetNillablePublishedAt v c = (case v of Some x \<Rightarrow> OutboxEventUpdate_SetPublishedAt x c | None \<Rightarrow> c)\<close>

definition OutboxEventUpdate_ClearPublishedAt :: "OutboxEventUpdate \<Rightarrow> OutboxEventUpdate" where
  \<open>OutboxEventUpdate_ClearPublishedAt c = OutboxEventMutation_ClearPublishedAt c\<close>

definition OutboxEventUpdate_SetUpdatedAt :: "time \<Rightarrow> OutboxEventUpdate \<Rightarrow> OutboxEventUpdate" where
  \<open>OutboxEventUpdate_SetUpdatedAt v c = OutboxEventMutation_SetUpdatedAt v c\<close>

definition OutboxEventUpdate_Mutation :: "OutboxEventUpdate \<Rightarrow> OutboxEventMutation" where
  \<open>OutboxEventUpdate_Mutation c = c\<close>

definition OutboxEventUpdate_defaults :: "'w db \<Rightarrow> OutboxEventUpdate \<Rightarrow> 'w \<Rightarrow> OutboxEventUpdate \<times> 'w" where
  \<open>OutboxEventUpdate_defaults db c w =
     (let (c, w) = (case OutboxEventMutation_UpdatedAt c of Some _ \<Rightarrow> (c, w) | None \<Rightarrow> (case outboxevent_UpdateDefaultUpdatedAt db w of (v, w1) \<Rightarrow> (OutboxEventMutation_SetUpdatedAt v c, w1)))
      in (c, w))\<close>

definition OutboxEventUpdate_check :: "OutboxEventUpdate \<Rightarrow> goerror option" where
  \<open>OutboxEventUpdate_check c =
     first_error
       [validated (OutboxEventMutation_Status c) outboxevent_StatusValidator ''status'' ''ent: validator failed for field "OutboxEvent.status": '']\<close>

definition OutboxEventUpdate_spec :: "OutboxEventUpdate \<Rightarrow> UpdateSpec" where
  \<open>OutboxEventUpdate_spec c =
     \<lparr>us_Table = Table_outbox_events, us_Predicate = om_predicates c,
          us_Set =
            spec_field FieldNotificationID VUuid (OutboxEventMutation_NotificationID c)
            @ spec_field FieldEventType VString (OutboxEventMutation_EventType c)
            @ spec_field FieldStatus VString (OutboxEventMutation_Status c)
            @ spec_field FieldScheduledAt VTime (OutboxEventMutation_ScheduledAt c)
            @ spec_field FieldStreamID VString (OutboxEventMutation_StreamID c)
            @ spec_field FieldLockedBy VString (OutboxEventMutation_LockedBy c)
            @ spec_field FieldLockedAt VTime (OutboxEventMutation_LockedAt c)
            @ spec_field FieldLastError VString (OutboxEventMutation_LastError c)
            @ spec_field FieldPublishedAt VTime (OutboxEventMutation_PublishedAt c)
            @ spec_field FieldUpdatedAt VTime (OutboxEventMutation_UpdatedAt c),
          us_Add = [],
          us_Clear =
            (if OutboxEventMutation_StreamIDCleared c then [FieldStreamID] else [])
            @ (if OutboxEventMutation_LockedByCleared c then [FieldLockedBy] else [])
            @ (if OutboxEventMutation_LockedAtCleared c then [FieldLockedAt] else [])
            @ (if OutboxEventMutation_LastErrorCleared c then [FieldLastError] else [])
            @ (if OutboxEventMutation_PublishedAtCleared c then [FieldPublishedAt] else [])\<rparr>\<close>

definition OutboxEventUpdate_sqlSave :: "'w db \<Rightarrow> OutboxEventUpdate \<Rightarrow> 'w \<Rightarrow> (goerror + int) \<times> 'w" where
  \<open>OutboxEventUpdate_sqlSave db c w =
     (case OutboxEventUpdate_check c of
        Some err \<Rightarrow> (Inl err, w)
      | None \<Rightarrow>
          (case UpdateNodes db (OutboxEventUpdate_spec c) w of
             (Inl err, w1) \<Rightarrow>
               (Inl (if IsSqlNotFoundError db err then NotFoundError outboxevent_Label
                     else if IsSqlConstraintError db err then ConstraintError (error_text err) err
                     else err), w1)
           | (Inr n, w1) \<Rightarrow> (Inr n, w1)))\<close>

definition OutboxEventUpdate_Save :: "'w db \<Rightarrow> OutboxEventUpdate \<Rightarrow> 'w \<Rightarrow> (goerror + int) \<times> 'w" where
  \<open>OutboxEventUpdate_Save db c w = (case OutboxEventUpdate_defaults db c w of (c1, w1) \<Rightarrow> OutboxEventUpdate_sqlSave db c1 w1)\<close>

definition OutboxEventUpdate_Exec :: "'w db \<Rightarrow> OutboxEventUpdate \<Rightarrow> 'w \<Rightarrow> goerror option \<times> 'w" where
  \<open>OutboxEventUpdate_Exec db c w = (case OutboxEventUpdate_Save db c w of (Inl err, w1) \<Rightarrow> (Some err, w1) | (Inr _, w1) \<Rightarrow> (None, w1))\<close>

lemmas OutboxEvent_builder_defs =
  OutboxEventCreate_SetNotificationID_def
  OutboxEventCreate_SetEventType_def
  OutboxEventCreate_SetNillableEventType_def
  OutboxEventCreate_SetStatus_def
  OutboxEventCreate_SetNillableStatus_def
  OutboxEventCreate_SetScheduledAt_def
  OutboxEventCreate_SetNillableScheduledAt_def
  OutboxEventCreate_SetStreamID_def
  OutboxEventCreate_SetNillableStreamID_def
  OutboxEventCreate_SetLockedBy_def
  OutboxEventCreate_SetNillableLockedBy_def
  OutboxEventCreate_SetLockedAt_def
  OutboxEventCreate_SetNillableLockedAt_def
  OutboxEventCreate_SetLastError_def
  OutboxEventCreate_SetNillableLastError_def
  OutboxEventCreate_SetPublishedAt_def
  OutboxEventCreate_SetNillablePublishedAt_def
  OutboxEventCreate_SetCreatedAt_def
  OutboxEventCreate_SetNillableCreatedAt_def
  OutboxEventCreate_SetUpdatedAt_def
  OutboxEventCreate_SetNillableUpdatedAt_def
  OutboxEventCreate_SetID_def
  OutboxEventCreate_SetNillableID_def
  OutboxEventCreate_Mutation_def
  OutboxEventCreate_defaults_def
  OutboxEventCreate_check_def
  OutboxEventCreate_createSpec_def
  OutboxEventCreate_sqlSave_def
  OutboxEventCreate_Save_def
  OutboxEventCreate_Exec_def
  OutboxEventUpdate_Where_def
  OutboxEventUpdate_SetNotificationID_def
  OutboxEventUpdate_SetNillableNotificationID_def
  OutboxEventUpdate_SetEventType_def
  OutboxEventUpdate_SetNillableEventType_def
  OutboxEventUpdate_SetStatus_def
  OutboxEventUpdate_SetNillableStatus_def
  OutboxEventUpdate_SetScheduledAt_def
  OutboxEventUpdate_SetNillableScheduledAt_def
  OutboxEventUpdate_SetStreamID_def
  OutboxEventUpdate_SetNillableStreamID_def
  OutboxEventUpdate_ClearStreamID_def
  OutboxEventUpdate_SetLockedBy_def
  OutboxEventUpdate_SetNillableLockedBy_def
  OutboxEventUpdate_ClearLockedBy_def
  OutboxEventUpdate_SetLockedAt_def
  OutboxEventUpdate_SetNillableLockedAt_def
  OutboxEventUpdate_ClearLockedAt_def
  OutboxEventUpdate_SetLastError_def
  OutboxEventUpdate_SetNillableLastError_def
  OutboxEventUpdate_ClearLastError_def
  OutboxEventUpdate_SetPublishedAt_def
  OutboxEventUpdate_SetNillablePublishedAt_def
  OutboxEventUpdate_ClearPublishedAt_def
  OutboxEventUpdate_SetUpdatedAt_def
  OutboxEventUpdate_Mutation_def
  OutboxEventUpdate_defaults_def
  OutboxEventUpdate_check_def
  OutboxEventUpdate_spec_def
  OutboxEventUpdate_sqlSave_def
  OutboxEventUpdate_Save_def
  OutboxEventUpdate_Exec_def

end
