(* ===== verification/Where_Notification.thy ===== *)
theory Where_Notification
  imports Sql_Model
begin

text \<open>
  The predicates of \<^verbatim>\<open>ent/notification/where.go\<close>, one definition per function, named after the package
  and the function. A predicate is a condition of the WHERE clause; \<^verbatim>\<open>sql.FieldEQ\<close> and its kin
  are the constructors of \<^typ>\<open>sql_pred\<close>. The case-insensitive predicates (\<^verbatim>\<open>EqualFold\<close>,
  \<^verbatim>\<open>ContainsFold\<close>) are left out: the program uses none of them.
\<close>

definition notification_ID :: "uuid \<Rightarrow> sql_pred" where
  \<open>notification_ID v = PEQ FieldID (VUuid v)\<close>

definition notification_IDEQ :: "uuid \<Rightarrow> sql_pred" where
  \<open>notification_IDEQ v = PEQ FieldID (VUuid v)\<close>

definition notification_IDNEQ :: "uuid \<Rightarrow> sql_pred" where
  \<open>notification_IDNEQ v = PNEQ FieldID (VUuid v)\<close>

definition notification_IDIn :: "uuid list \<Rightarrow> sql_pred" where
  \<open>notification_IDIn vs = PIn FieldID (map VUuid vs)\<close>

definition notification_IDNotIn :: "uuid list \<Rightarrow> sql_pred" where
  \<open>notification_IDNotIn vs = PNotIn FieldID (map VUuid vs)\<close>

definition notification_IDGT :: "uuid \<Rightarrow> sql_pred" where
  \<open>notification_IDGT v = PGT FieldID (VUuid v)\<close>

definition notification_IDGTE :: "uuid \<Rightarrow> sql_pred" where
  \<open>notification_IDGTE v = PGTE FieldID (VUuid v)\<close>

definition notification_IDLT :: "uuid \<Rightarrow> sql_pred" where
  \<open>notification_IDLT v = PLT FieldID (VUuid v)\<close>

definition notification_IDLTE :: "uuid \<Rightarrow> sql_pred" where
  \<open>notification_IDLTE v = PLTE FieldID (VUuid v)\<close>

definition notification_URL :: "string \<Rightarrow> sql_pred" where
  \<open>notification_URL v = PEQ FieldURL (VString v)\<close>

definition notification_Method :: "string \<Rightarrow> sql_pred" where
  \<open>notification_Method v = PEQ FieldMethod (VString v)\<close>

definition notification_Body :: "bytes \<Rightarrow> sql_pred" where
  \<open>notification_Body v = PEQ FieldBody (VBytes v)\<close>

definition notification_AttemptCount :: "int \<Rightarrow> sql_pred" where
  \<open>notification_AttemptCount v = PEQ FieldAttemptCount (VInt v)\<close>

definition notification_MaxAttempts :: "int \<Rightarrow> sql_pred" where
  \<open>notification_MaxAttempts v = PEQ FieldMaxAttempts (VInt v)\<close>

definition notification_LastError :: "string \<Rightarrow> sql_pred" where
  \<open>notification_LastError v = PEQ FieldLastError (VString v)\<close>

definition notification_NextAttemptAt :: "time \<Rightarrow> sql_pred" where
  \<open>notification_NextAttemptAt v = PEQ FieldNextAttemptAt (VTime v)\<close>

definition notification_CreatedAt :: "time \<Rightarrow> sql_pred" where
  \<open>notification_CreatedAt v = PEQ FieldCreatedAt (VTime v)\<close>

definition notification_UpdatedAt :: "time \<Rightarrow> sql_pred" where
  \<open>notification_UpdatedAt v = PEQ FieldUpdatedAt (VTime v)\<close>

definition notification_URLEQ :: "string \<Rightarrow> sql_pred" where
  \<open>notification_URLEQ v = PEQ FieldURL (VString v)\<close>

definition notification_URLNEQ :: "string \<Rightarrow> sql_pred" where
  \<open>notification_URLNEQ v = PNEQ FieldURL (VString v)\<close>

definition notification_URLIn :: "string list \<Rightarrow> sql_pred" where
  \<open>notification_URLIn vs = PIn FieldURL (map VString vs)\<close>

definition notification_URLNotIn :: "string list \<Rightarrow> sql_pred" where
  \<open>notification_URLNotIn vs = PNotIn FieldURL (map VString vs)\<close>

definition notification_URLGT :: "string \<Rightarrow> sql_pred" where
  \<open>notification_URLGT v = PGT FieldURL (VString v)\<close>

definition notification_URLGTE :: "string \<Rightarrow> sql_pred" where
  \<open>notification_URLGTE v = PGTE FieldURL (VString v)\<close>

definition notification_URLLT :: "string \<Rightarrow> sql_pred" where
  \<open>notification_URLLT v = PLT FieldURL (VString v)\<close>

definition notification_URLLTE :: "string \<Rightarrow> sql_pred" where
  \<open>notification_URLLTE v = PLTE FieldURL (VString v)\<close>

definition notification_URLContains :: "string \<Rightarrow> sql_pred" where
  \<open>notification_URLContains v = PContains FieldURL v\<close>

definition notification_URLHasPrefix :: "string \<Rightarrow> sql_pred" where
  \<open>notification_URLHasPrefix v = PHasPrefix FieldURL v\<close>

definition notification_URLHasSuffix :: "string \<Rightarrow> sql_pred" where
  \<open>notification_URLHasSuffix v = PHasSuffix FieldURL v\<close>

definition notification_MethodEQ :: "string \<Rightarrow> sql_pred" where
  \<open>notification_MethodEQ v = PEQ FieldMethod (VString v)\<close>

definition notification_MethodNEQ :: "string \<Rightarrow> sql_pred" where
  \<open>notification_MethodNEQ v = PNEQ FieldMethod (VString v)\<close>

definition notification_MethodIn :: "string list \<Rightarrow> sql_pred" where
  \<open>notification_MethodIn vs = PIn FieldMethod (map VString vs)\<close>

definition notification_MethodNotIn :: "string list \<Rightarrow> sql_pred" where
  \<open>notification_MethodNotIn vs = PNotIn FieldMethod (map VString vs)\<close>

definition notification_MethodGT :: "string \<Rightarrow> sql_pred" where
  \<open>notification_MethodGT v = PGT FieldMethod (VString v)\<close>

definition notification_MethodGTE :: "string \<Rightarrow> sql_pred" where
  \<open>notification_MethodGTE v = PGTE FieldMethod (VString v)\<close>

definition notification_MethodLT :: "string \<Rightarrow> sql_pred" where
  \<open>notification_MethodLT v = PLT FieldMethod (VString v)\<close>

definition notification_MethodLTE :: "string \<Rightarrow> sql_pred" where
  \<open>notification_MethodLTE v = PLTE FieldMethod (VString v)\<close>

definition notification_MethodContains :: "string \<Rightarrow> sql_pred" where
  \<open>notification_MethodContains v = PContains FieldMethod v\<close>

definition notification_MethodHasPrefix :: "string \<Rightarrow> sql_pred" where
  \<open>notification_MethodHasPrefix v = PHasPrefix FieldMethod v\<close>

definition notification_MethodHasSuffix :: "string \<Rightarrow> sql_pred" where
  \<open>notification_MethodHasSuffix v = PHasSuffix FieldMethod v\<close>

definition notification_HeadersIsNil :: "sql_pred" where
  \<open>notification_HeadersIsNil = PIsNull FieldHeaders\<close>

definition notification_HeadersNotNil :: "sql_pred" where
  \<open>notification_HeadersNotNil = PNotNull FieldHeaders\<close>

definition notification_BodyEQ :: "bytes \<Rightarrow> sql_pred" where
  \<open>notification_BodyEQ v = PEQ FieldBody (VBytes v)\<close>

definition notification_BodyNEQ :: "bytes \<Rightarrow> sql_pred" where
  \<open>notification_BodyNEQ v = PNEQ FieldBody (VBytes v)\<close>

definition notification_BodyIn :: "bytes list \<Rightarrow> sql_pred" where
  \<open>notification_BodyIn vs = PIn FieldBody (map VBytes vs)\<close>

definition notification_BodyNotIn :: "bytes list \<Rightarrow> sql_pred" where
  \<open>notification_BodyNotIn vs = PNotIn FieldBody (map VBytes vs)\<close>

definition notification_BodyGT :: "bytes \<Rightarrow> sql_pred" where
  \<open>notification_BodyGT v = PGT FieldBody (VBytes v)\<close>

definition notification_BodyGTE :: "bytes \<Rightarrow> sql_pred" where
  \<open>notification_BodyGTE v = PGTE FieldBody (VBytes v)\<close>

definition notification_BodyLT :: "bytes \<Rightarrow> sql_pred" where
  \<open>notification_BodyLT v = PLT FieldBody (VBytes v)\<close>

definition notification_BodyLTE :: "bytes \<Rightarrow> sql_pred" where
  \<open>notification_BodyLTE v = PLTE FieldBody (VBytes v)\<close>

definition notification_BodyIsNil :: "sql_pred" where
  \<open>notification_BodyIsNil = PIsNull FieldBody\<close>

definition notification_BodyNotNil :: "sql_pred" where
  \<open>notification_BodyNotNil = PNotNull FieldBody\<close>

definition notification_StatusEQ :: "string \<Rightarrow> sql_pred" where
  \<open>notification_StatusEQ v = PEQ FieldStatus (VString v)\<close>

definition notification_StatusNEQ :: "string \<Rightarrow> sql_pred" where
  \<open>notification_StatusNEQ v = PNEQ FieldStatus (VString v)\<close>

definition notification_StatusIn :: "string list \<Rightarrow> sql_pred" where
  \<open>notification_StatusIn vs = PIn FieldStatus (map VString vs)\<close>

definition notification_StatusNotIn :: "string list \<Rightarrow> sql_pred" where
  \<open>notification_StatusNotIn vs = PNotIn FieldStatus (map VString vs)\<close>

definition notification_AttemptCountEQ :: "int \<Rightarrow> sql_pred" where
  \<open>notification_AttemptCountEQ v = PEQ FieldAttemptCount (VInt v)\<close>

definition notification_AttemptCountNEQ :: "int \<Rightarrow> sql_pred" where
  \<open>notification_AttemptCountNEQ v = PNEQ FieldAttemptCount (VInt v)\<close>

definition notification_AttemptCountIn :: "int list \<Rightarrow> sql_pred" where
  \<open>notification_AttemptCountIn vs = PIn FieldAttemptCount (map VInt vs)\<close>

definition notification_AttemptCountNotIn :: "int list \<Rightarrow> sql_pred" where
  \<open>notification_AttemptCountNotIn vs = PNotIn FieldAttemptCount (map VInt vs)\<close>

definition notification_AttemptCountGT :: "int \<Rightarrow> sql_pred" where
  \<open>notification_AttemptCountGT v = PGT FieldAttemptCount (VInt v)\<close>

definition notification_AttemptCountGTE :: "int \<Rightarrow> sql_pred" where
  \<open>notification_AttemptCountGTE v = PGTE FieldAttemptCount (VInt v)\<close>

definition notification_AttemptCountLT :: "int \<Rightarrow> sql_pred" where
  \<open>notification_AttemptCountLT v = PLT FieldAttemptCount (VInt v)\<close>

definition notification_AttemptCountLTE :: "int \<Rightarrow> sql_pred" where
  \<open>notification_AttemptCountLTE v = PLTE FieldAttemptCount (VInt v)\<close>

definition notification_MaxAttemptsEQ :: "int \<Rightarrow> sql_pred" where
  \<open>notification_MaxAttemptsEQ v = PEQ FieldMaxAttempts (VInt v)\<close>

definition notification_MaxAttemptsNEQ :: "int \<Rightarrow> sql_pred" where
  \<open>notification_MaxAttemptsNEQ v = PNEQ FieldMaxAttempts (VInt v)\<close>

definition notification_MaxAttemptsIn :: "int list \<Rightarrow> sql_pred" where
  \<open>notification_MaxAttemptsIn vs = PIn FieldMaxAttempts (map VInt vs)\<close>

definition notification_MaxAttemptsNotIn :: "int list \<Rightarrow> sql_pred" where
  \<open>notification_MaxAttemptsNotIn vs = PNotIn FieldMaxAttempts (map VInt vs)\<close>

definition notification_MaxAttemptsGT :: "int \<Rightarrow> sql_pred" where
  \<open>notification_MaxAttemptsGT v = PGT FieldMaxAttempts (VInt v)\<close>

definition notification_MaxAttemptsGTE :: "int \<Rightarrow> sql_pred" where
  \<open>notification_MaxAttemptsGTE v = PGTE FieldMaxAttempts (VInt v)\<close>

definition notification_MaxAttemptsLT :: "int \<Rightarrow> sql_pred" where
  \<open>notification_MaxAttemptsLT v = PLT FieldMaxAttempts (VInt v)\<close>

definition notification_MaxAttemptsLTE :: "int \<Rightarrow> sql_pred" where
  \<open>notification_MaxAttemptsLTE v = PLTE FieldMaxAttempts (VInt v)\<close>

definition notification_LastErrorEQ :: "string \<Rightarrow> sql_pred" where
  \<open>notification_LastErrorEQ v = PEQ FieldLastError (VString v)\<close>

definition notification_LastErrorNEQ :: "string \<Rightarrow> sql_pred" where
  \<open>notification_LastErrorNEQ v = PNEQ FieldLastError (VString v)\<close>

definition notification_LastErrorIn :: "string list \<Rightarrow> sql_pred" where
  \<open>notification_LastErrorIn vs = PIn FieldLastError (map VString vs)\<close>

definition notification_LastErrorNotIn :: "string list \<Rightarrow> sql_pred" where
  \<open>notification_LastErrorNotIn vs = PNotIn FieldLastError (map VString vs)\<close>

definition notification_LastErrorGT :: "string \<Rightarrow> sql_pred" where
  \<open>notification_LastErrorGT v = PGT FieldLastError (VString v)\<close>

definition notification_LastErrorGTE :: "string \<Rightarrow> sql_pred" where
  \<open>notification_LastErrorGTE v = PGTE FieldLastError (VString v)\<close>

definition notification_LastErrorLT :: "string \<Rightarrow> sql_pred" where
  \<open>notification_LastErrorLT v = PLT FieldLastError (VString v)\<close>

definition notification_LastErrorLTE :: "string \<Rightarrow> sql_pred" where
  \<open>notification_LastErrorLTE v = PLTE FieldLastError (VString v)\<close>

definition notification_LastErrorContains :: "string \<Rightarrow> sql_pred" where
  \<open>notification_LastErrorContains v = PContains FieldLastError v\<close>

definition notification_LastErrorHasPrefix :: "string \<Rightarrow> sql_pred" where
  \<open>notification_LastErrorHasPrefix v = PHasPrefix FieldLastError v\<close>

definition notification_LastErrorHasSuffix :: "string \<Rightarrow> sql_pred" where
  \<open>notification_LastErrorHasSuffix v = PHasSuffix FieldLastError v\<close>

definition notification_LastErrorIsNil :: "sql_pred" where
  \<open>notification_LastErrorIsNil = PIsNull FieldLastError\<close>

definition notification_LastErrorNotNil :: "sql_pred" where
  \<open>notification_LastErrorNotNil = PNotNull FieldLastError\<close>

definition notification_NextAttemptAtEQ :: "time \<Rightarrow> sql_pred" where
  \<open>notification_NextAttemptAtEQ v = PEQ FieldNextAttemptAt (VTime v)\<close>

definition notification_NextAttemptAtNEQ :: "time \<Rightarrow> sql_pred" where
  \<open>notification_NextAttemptAtNEQ v = PNEQ FieldNextAttemptAt (VTime v)\<close>

definition notification_NextAttemptAtIn :: "time list \<Rightarrow> sql_pred" where
  \<open>notification_NextAttemptAtIn vs = PIn FieldNextAttemptAt (map VTime vs)\<close>

definition notification_NextAttemptAtNotIn :: "time list \<Rightarrow> sql_pred" where
  \<open>notification_NextAttemptAtNotIn vs = PNotIn FieldNextAttemptAt (map VTime vs)\<close>

definition notification_NextAttemptAtGT :: "time \<Rightarrow> sql_pred" where
  \<open>notification_NextAttemptAtGT v = PGT FieldNextAttemptAt (VTime v)\<close>

definition notification_NextAttemptAtGTE :: "time \<Rightarrow> sql_pred" where
  \<open>notification_NextAttemptAtGTE v = PGTE FieldNextAttemptAt (VTime v)\<close>

definition notification_NextAttemptAtLT :: "time \<Rightarrow> sql_pred" where
  \<open>notification_NextAttemptAtLT v = PLT FieldNextAttemptAt (VTime v)\<close>

definition notification_NextAttemptAtLTE :: "time \<Rightarrow> sql_pred" where
  \<open>notification_NextAttemptAtLTE v = PLTE FieldNextAttemptAt (VTime v)\<close>

definition notification_NextAttemptAtIsNil :: "sql_pred" where
  \<open>notification_NextAttemptAtIsNil = PIsNull FieldNextAttemptAt\<close>

definition notification_NextAttemptAtNotNil :: "sql_pred" where
  \<open>notification_NextAttemptAtNotNil = PNotNull FieldNextAttemptAt\<close>

definition notification_CreatedAtEQ :: "time \<Rightarrow> sql_pred" where
  \<open>notification_CreatedAtEQ v = PEQ FieldCreatedAt (VTime v)\<close>

definition notification_CreatedAtNEQ :: "time \<Rightarrow> sql_pred" where
  \<open>notification_CreatedAtNEQ v = PNEQ FieldCreatedAt (VTime v)\<close>

definition notification_CreatedAtIn :: "time list \<Rightarrow> sql_pred" where
  \<open>notification_CreatedAtIn vs = PIn FieldCreatedAt (map VTime vs)\<close>

definition notification_CreatedAtNotIn :: "time list \<Rightarrow> sql_pred" where
  \<open>notification_CreatedAtNotIn vs = PNotIn FieldCreatedAt (map VTime vs)\<close>

definition notification_CreatedAtGT :: "time \<Rightarrow> sql_pred" where
  \<open>notification_CreatedAtGT v = PGT FieldCreatedAt (VTime v)\<close>

definition notification_CreatedAtGTE :: "time \<Rightarrow> sql_pred" where
  \<open>notification_CreatedAtGTE v = PGTE FieldCreatedAt (VTime v)\<close>

definition notification_CreatedAtLT :: "time \<Rightarrow> sql_pred" where
  \<open>notification_CreatedAtLT v = PLT FieldCreatedAt (VTime v)\<close>

definition notification_CreatedAtLTE :: "time \<Rightarrow> sql_pred" where
  \<open>notification_CreatedAtLTE v = PLTE FieldCreatedAt (VTime v)\<close>

definition notification_UpdatedAtEQ :: "time \<Rightarrow> sql_pred" where
  \<open>notification_UpdatedAtEQ v = PEQ FieldUpdatedAt (VTime v)\<close>

definition notification_UpdatedAtNEQ :: "time \<Rightarrow> sql_pred" where
  \<open>notification_UpdatedAtNEQ v = PNEQ FieldUpdatedAt (VTime v)\<close>

definition notification_UpdatedAtIn :: "time list \<Rightarrow> sql_pred" where
  \<open>notification_UpdatedAtIn vs = PIn FieldUpdatedAt (map VTime vs)\<close>

definition notification_UpdatedAtNotIn :: "time list \<Rightarrow> sql_pred" where
  \<open>notification_UpdatedAtNotIn vs = PNotIn FieldUpdatedAt (map VTime vs)\<close>

definition notification_UpdatedAtGT :: "time \<Rightarrow> sql_pred" where
  \<open>notification_UpdatedAtGT v = PGT FieldUpdatedAt (VTime v)\<close>

definition notification_UpdatedAtGTE :: "time \<Rightarrow> sql_pred" where
  \<open>notification_UpdatedAtGTE v = PGTE FieldUpdatedAt (VTime v)\<close>

definition notification_UpdatedAtLT :: "time \<Rightarrow> sql_pred" where
  \<open>notification_UpdatedAtLT v = PLT FieldUpdatedAt (VTime v)\<close>

definition notification_UpdatedAtLTE :: "time \<Rightarrow> sql_pred" where
  \<open>notification_UpdatedAtLTE v = PLTE FieldUpdatedAt (VTime v)\<close>

definition notification_And :: "sql_pred list \<Rightarrow> sql_pred" where
  \<open>notification_And predicates = PAnd predicates\<close>

definition notification_Or :: "sql_pred list \<Rightarrow> sql_pred" where
  \<open>notification_Or predicates = POr predicates\<close>

definition notification_Not :: "sql_pred \<Rightarrow> sql_pred" where
  \<open>notification_Not p = PNot p\<close>

lemmas notification_where_defs =
  notification_ID_def
  notification_IDEQ_def
  notification_IDNEQ_def
  notification_IDIn_def
  notification_IDNotIn_def
  notification_IDGT_def
  notification_IDGTE_def
  notification_IDLT_def
  notification_IDLTE_def
  notification_URL_def
  notification_Method_def
  notification_Body_def
  notification_AttemptCount_def
  notification_MaxAttempts_def
  notification_LastError_def
  notification_NextAttemptAt_def
  notification_CreatedAt_def
  notification_UpdatedAt_def
  notification_URLEQ_def
  notification_URLNEQ_def
  notification_URLIn_def
  notification_URLNotIn_def
  notification_URLGT_def
  notification_URLGTE_def
  notification_URLLT_def
  notification_URLLTE_def
  notification_URLContains_def
  notification_URLHasPrefix_def
  notification_URLHasSuffix_def
  notification_MethodEQ_def
  notification_MethodNEQ_def
  notification_MethodIn_def
  notification_MethodNotIn_def
  notification_MethodGT_def
  notification_MethodGTE_def
  notification_MethodLT_def
  notification_MethodLTE_def
  notification_MethodContains_def
  notification_MethodHasPrefix_def
  notification_MethodHasSuffix_def
  notification_HeadersIsNil_def
  notification_HeadersNotNil_def
  notification_BodyEQ_def
  notification_BodyNEQ_def
  notification_BodyIn_def
  notification_BodyNotIn_def
  notification_BodyGT_def
  notification_BodyGTE_def
  notification_BodyLT_def
  notification_BodyLTE_def
  notification_BodyIsNil_def
  notification_BodyNotNil_def
  notification_StatusEQ_def
  notification_StatusNEQ_def
  notification_StatusIn_def
  notification_StatusNotIn_def
  notification_AttemptCountEQ_def
  notification_AttemptCountNEQ_def
  notification_AttemptCountIn_def
  notification_AttemptCountNotIn_def
  notification_AttemptCountGT_def
  notification_AttemptCountGTE_def
  notification_AttemptCountLT_def
  notification_AttemptCountLTE_def
  notification_MaxAttemptsEQ_def
  notification_MaxAttemptsNEQ_def
  notification_MaxAttemptsIn_def
  notification_MaxAttemptsNotIn_def
  notification_MaxAttemptsGT_def
  notification_MaxAttemptsGTE_def
  notification_MaxAttemptsLT_def
  notification_MaxAttemptsLTE_def
  notification_LastErrorEQ_def
  notification_LastErrorNEQ_def
  notification_LastErrorIn_def
  notification_LastErrorNotIn_def
  notification_LastErrorGT_def
  notification_LastErrorGTE_def
  notification_LastErrorLT_def
  notification_LastErrorLTE_def
  notification_LastErrorContains_def
  notification_LastErrorHasPrefix_def
  notification_LastErrorHasSuffix_def
  notification_LastErrorIsNil_def
  notification_LastErrorNotNil_def
  notification_NextAttemptAtEQ_def
  notification_NextAttemptAtNEQ_def
  notification_NextAttemptAtIn_def
  notification_NextAttemptAtNotIn_def
  notification_NextAttemptAtGT_def
  notification_NextAttemptAtGTE_def
  notification_NextAttemptAtLT_def
  notification_NextAttemptAtLTE_def
  notification_NextAttemptAtIsNil_def
  notification_NextAttemptAtNotNil_def
  notification_CreatedAtEQ_def
  notification_CreatedAtNEQ_def
  notification_CreatedAtIn_def
  notification_CreatedAtNotIn_def
  notification_CreatedAtGT_def
  notification_CreatedAtGTE_def
  notification_CreatedAtLT_def
  notification_CreatedAtLTE_def
  notification_UpdatedAtEQ_def
  notification_UpdatedAtNEQ_def
  notification_UpdatedAtIn_def
  notification_UpdatedAtNotIn_def
  notification_UpdatedAtGT_def
  notification_UpdatedAtGTE_def
  notification_UpdatedAtLT_def
  notification_UpdatedAtLTE_def
  notification_And_def
  notification_Or_def
  notification_Not_def

end
