(* ===== verification/Where_DeliveryAttempt.thy ===== *)
theory Where_DeliveryAttempt
  imports Sql_Model
begin

text \<open>
  The predicates of \<^verbatim>\<open>ent/deliveryattempt/where.go\<close>, one definition per function, named after the package
  and the function. A predicate is a condition of the WHERE clause; \<^verbatim>\<open>sql.FieldEQ\<close> and its kin
  are the constructors of \<^typ>\<open>sql_pred\<close>. The case-insensitive predicates (\<^verbatim>\<open>EqualFold\<close>,
  \<^verbatim>\<open>ContainsFold\<close>) are left out: the program uses none of them.
\<close>

definition deliveryattempt_ID :: "uuid \<Rightarrow> sql_pred" where
  \<open>deliveryattempt_ID v = PEQ FieldID (VUuid v)\<close>

definition deliveryattempt_IDEQ :: "uuid \<Rightarrow> sql_pred" where
  \<open>deliveryattempt_IDEQ v = PEQ FieldID (VUuid v)\<close>

definition deliveryattempt_IDNEQ :: "uuid \<Rightarrow> sql_pred" where
  \<open>deliveryattempt_IDNEQ v = PNEQ FieldID (VUuid v)\<close>

definition deliveryattempt_IDIn :: "uuid list \<Rightarrow> sql_pred" where
  \<open>deliveryattempt_IDIn vs = PIn FieldID (map VUuid vs)\<close>

definition deliveryattempt_IDNotIn :: "uuid list \<Rightarrow> sql_pred" where
  \<open>deliveryattempt_IDNotIn vs = PNotIn FieldID (map VUuid vs)\<close>

definition deliveryattempt_IDGT :: "uuid \<Rightarrow> sql_pred" where
  \<open>deliveryattempt_IDGT v = PGT FieldID (VUuid v)\<close>

definition deliveryattempt_IDGTE :: "uuid \<Rightarrow> sql_pred" where
  \<open>deliveryattempt_IDGTE v = PGTE FieldID (VUuid v)\<close>

definition deliveryattempt_IDLT :: "uuid \<Rightarrow> sql_pred" where
  \<open>deliveryattempt_IDLT v = PLT FieldID (VUuid v)\<close>

definition deliveryattempt_IDLTE :: "uuid \<Rightarrow> sql_pred" where
  \<open>deliveryattempt_IDLTE v = PLTE FieldID (VUuid v)\<close>

definition deliveryattempt_NotificationID :: "uuid \<Rightarrow> sql_pred" where
  \<open>deliveryattempt_NotificationID v = PEQ FieldNotificationID (VUuid v)\<close>

definition deliveryattempt_AttemptNumber :: "int \<Rightarrow> sql_pred" where
  \<open>deliveryattempt_AttemptNumber v = PEQ FieldAttemptNumber (VInt v)\<close>

definition deliveryattempt_HTTPStatus :: "int \<Rightarrow> sql_pred" where
  \<open>deliveryattempt_HTTPStatus v = PEQ FieldHTTPStatus (VInt v)\<close>

definition deliveryattempt_ErrorMessage :: "string \<Rightarrow> sql_pred" where
  \<open>deliveryattempt_ErrorMessage v = PEQ FieldErrorMessage (VString v)\<close>

definition deliveryattempt_DurationMs :: "int \<Rightarrow> sql_pred" where
  \<open>deliveryattempt_DurationMs v = PEQ FieldDurationMs (VInt v)\<close>

definition deliveryattempt_CreatedAt :: "time \<Rightarrow> sql_pred" where
  \<open>deliveryattempt_CreatedAt v = PEQ FieldCreatedAt (VTime v)\<close>

definition deliveryattempt_NotificationIDEQ :: "uuid \<Rightarrow> sql_pred" where
  \<open>deliveryattempt_NotificationIDEQ v = PEQ FieldNotificationID (VUuid v)\<close>

definition deliveryattempt_NotificationIDNEQ :: "uuid \<Rightarrow> sql_pred" where
  \<open>deliveryattempt_NotificationIDNEQ v = PNEQ FieldNotificationID (VUuid v)\<close>

definition deliveryattempt_NotificationIDIn :: "uuid list \<Rightarrow> sql_pred" where
  \<open>deliveryattempt_NotificationIDIn vs = PIn FieldNotificationID (map VUuid vs)\<close>

definition deliveryattempt_NotificationIDNotIn :: "uuid list \<Rightarrow> sql_pred" where
  \<open>deliveryattempt_NotificationIDNotIn vs = PNotIn FieldNotificationID (map VUuid vs)\<close>

definition deliveryattempt_NotificationIDGT :: "uuid \<Rightarrow> sql_pred" where
  \<open>deliveryattempt_NotificationIDGT v = PGT FieldNotificationID (VUuid v)\<close>

definition deliveryattempt_NotificationIDGTE :: "uuid \<Rightarrow> sql_pred" where
  \<open>deliveryattempt_NotificationIDGTE v = PGTE FieldNotificationID (VUuid v)\<close>

definition deliveryattempt_NotificationIDLT :: "uuid \<Rightarrow> sql_pred" where
  \<open>deliveryattempt_NotificationIDLT v = PLT FieldNotificationID (VUuid v)\<close>

definition deliveryattempt_NotificationIDLTE :: "uuid \<Rightarrow> sql_pred" where
  \<open>deliveryattempt_NotificationIDLTE v = PLTE FieldNotificationID (VUuid v)\<close>

definition deliveryattempt_AttemptNumberEQ :: "int \<Rightarrow> sql_pred" where
  \<open>deliveryattempt_AttemptNumberEQ v = PEQ FieldAttemptNumber (VInt v)\<close>

definition deliveryattempt_AttemptNumberNEQ :: "int \<Rightarrow> sql_pred" where
  \<open>deliveryattempt_AttemptNumberNEQ v = PNEQ FieldAttemptNumber (VInt v)\<close>

definition deliveryattempt_AttemptNumberIn :: "int list \<Rightarrow> sql_pred" where
  \<open>deliveryattempt_AttemptNumberIn vs = PIn FieldAttemptNumber (map VInt vs)\<close>

definition deliveryattempt_AttemptNumberNotIn :: "int list \<Rightarrow> sql_pred" where
  \<open>deliveryattempt_AttemptNumberNotIn vs = PNotIn FieldAttemptNumber (map VInt vs)\<close>

definition deliveryattempt_AttemptNumberGT :: "int \<Rightarrow> sql_pred" where
  \<open>deliveryattempt_AttemptNumberGT v = PGT FieldAttemptNumber (VInt v)\<close>

definition deliveryattempt_AttemptNumberGTE :: "int \<Rightarrow> sql_pred" where
  \<open>deliveryattempt_AttemptNumberGTE v = PGTE FieldAttemptNumber (VInt v)\<close>

definition deliveryattempt_AttemptNumberLT :: "int \<Rightarrow> sql_pred" where
  \<open>deliveryattempt_AttemptNumberLT v = PLT FieldAttemptNumber (VInt v)\<close>

definition deliveryattempt_AttemptNumberLTE :: "int \<Rightarrow> sql_pred" where
  \<open>deliveryattempt_AttemptNumberLTE v = PLTE FieldAttemptNumber (VInt v)\<close>

definition deliveryattempt_StatusEQ :: "string \<Rightarrow> sql_pred" where
  \<open>deliveryattempt_StatusEQ v = PEQ FieldStatus (VString v)\<close>

definition deliveryattempt_StatusNEQ :: "string \<Rightarrow> sql_pred" where
  \<open>deliveryattempt_StatusNEQ v = PNEQ FieldStatus (VString v)\<close>

definition deliveryattempt_StatusIn :: "string list \<Rightarrow> sql_pred" where
  \<open>deliveryattempt_StatusIn vs = PIn FieldStatus (map VString vs)\<close>

definition deliveryattempt_StatusNotIn :: "string list \<Rightarrow> sql_pred" where
  \<open>deliveryattempt_StatusNotIn vs = PNotIn FieldStatus (map VString vs)\<close>

definition deliveryattempt_HTTPStatusEQ :: "int \<Rightarrow> sql_pred" where
  \<open>deliveryattempt_HTTPStatusEQ v = PEQ FieldHTTPStatus (VInt v)\<close>

definition deliveryattempt_HTTPStatusNEQ :: "int \<Rightarrow> sql_pred" where
  \<open>deliveryattempt_HTTPStatusNEQ v = PNEQ FieldHTTPStatus (VInt v)\<close>

definition deliveryattempt_HTTPStatusIn :: "int list \<Rightarrow> sql_pred" where
  \<open>deliveryattempt_HTTPStatusIn vs = PIn FieldHTTPStatus (map VInt vs)\<close>

definition deliveryattempt_HTTPStatusNotIn :: "int list \<Rightarrow> sql_pred" where
  \<open>deliveryattempt_HTTPStatusNotIn vs = PNotIn FieldHTTPStatus (map VInt vs)\<close>

definition deliveryattempt_HTTPStatusGT :: "int \<Rightarrow> sql_pred" where
  \<open>deliveryattempt_HTTPStatusGT v = PGT FieldHTTPStatus (VInt v)\<close>

definition deliveryattempt_HTTPStatusGTE :: "int \<Rightarrow> sql_pred" where
  \<open>deliveryattempt_HTTPStatusGTE v = PGTE FieldHTTPStatus (VInt v)\<close>

definition deliveryattempt_HTTPStatusLT :: "int \<Rightarrow> sql_pred" where
  \<open>deliveryattempt_HTTPStatusLT v = PLT FieldHTTPStatus (VInt v)\<close>

definition deliveryattempt_HTTPStatusLTE :: "int \<Rightarrow> sql_pred" where
  \<open>deliveryattempt_HTTPStatusLTE v = PLTE FieldHTTPStatus (VInt v)\<close>

definition deliveryattempt_HTTPStatusIsNil :: "sql_pred" where
  \<open>deliveryattempt_HTTPStatusIsNil = PIsNull FieldHTTPStatus\<close>

definition deliveryattempt_HTTPStatusNotNil :: "sql_pred" where
  \<open>deliveryattempt_HTTPStatusNotNil = PNotNull FieldHTTPStatus\<close>

definition deliveryattempt_ErrorMessageEQ :: "string \<Rightarrow> sql_pred" where
  \<open>deliveryattempt_ErrorMessageEQ v = PEQ FieldErrorMessage (VString v)\<close>

definition deliveryattempt_ErrorMessageNEQ :: "string \<Rightarrow> sql_pred" where
  \<open>deliveryattempt_ErrorMessageNEQ v = PNEQ FieldErrorMessage (VString v)\<close>

definition deliveryattempt_ErrorMessageIn :: "string list \<Rightarrow> sql_pred" where
  \<open>deliveryattempt_ErrorMessageIn vs = PIn FieldErrorMessage (map VString vs)\<close>

definition deliveryattempt_ErrorMessageNotIn :: "string list \<Rightarrow> sql_pred" where
  \<open>deliveryattempt_ErrorMessageNotIn vs = PNotIn FieldErrorMessage (map VString vs)\<close>

definition deliveryattempt_ErrorMessageGT :: "string \<Rightarrow> sql_pred" where
  \<open>deliveryattempt_ErrorMessageGT v = PGT FieldErrorMessage (VString v)\<close>

definition deliveryattempt_ErrorMessageGTE :: "string \<Rightarrow> sql_pred" where
  \<open>deliveryattempt_ErrorMessageGTE v = PGTE FieldErrorMessage (VString v)\<close>

definition deliveryattempt_ErrorMessageLT :: "string \<Rightarrow> sql_pred" where
  \<open>deliveryattempt_ErrorMessageLT v = PLT FieldErrorMessage (VString v)\<close>

definition deliveryattempt_ErrorMessageLTE :: "string \<Rightarrow> sql_pred" where
  \<open>deliveryattempt_ErrorMessageLTE v = PLTE FieldErrorMessage (VString v)\<close>

definition deliveryattempt_ErrorMessageContains :: "string \<Rightarrow> sql_pred" where
  \<open>deliveryattempt_ErrorMessageContains v = PContains FieldErrorMessage v\<close>

definition deliveryattempt_ErrorMessageHasPrefix :: "string \<Rightarrow> sql_pred" where
  \<open>deliveryattempt_ErrorMessageHasPrefix v = PHasPrefix FieldErrorMessage v\<close>

definition deliveryattempt_ErrorMessageHasSuffix :: "string \<Rightarrow> sql_pred" where
  \<open>deliveryattempt_ErrorMessageHasSuffix v = PHasSuffix FieldErrorMessage v\<close>

definition deliveryattempt_ErrorMessageIsNil :: "sql_pred" where
  \<open>deliveryattempt_ErrorMessageIsNil = PIsNull FieldErrorMessage\<close>

definition deliveryattempt_ErrorMessageNotNil :: "sql_pred" where
  \<open>deliveryattempt_ErrorMessageNotNil = PNotNull FieldErrorMessage\<close>

definition deliveryattempt_DurationMsEQ :: "int \<Rightarrow> sql_pred" where
  \<open>deliveryattempt_DurationMsEQ v = PEQ FieldDurationMs (VInt v)\<close>

definition deliveryattempt_DurationMsNEQ :: "int \<Rightarrow> sql_pred" where
  \<open>deliveryattempt_DurationMsNEQ v = PNEQ FieldDurationMs (VInt v)\<close>

definition deliveryattempt_DurationMsIn :: "int list \<Rightarrow> sql_pred" where
  \<open>deliveryattempt_DurationMsIn vs = PIn FieldDurationMs (map VInt vs)\<close>

definition deliveryattempt_DurationMsNotIn :: "int list \<Rightarrow> sql_pred" where
  \<open>deliveryattempt_DurationMsNotIn vs = PNotIn FieldDurationMs (map VInt vs)\<close>

definition deliveryattempt_DurationMsGT :: "int \<Rightarrow> sql_pred" where
  \<open>deliveryattempt_DurationMsGT v = PGT FieldDurationMs (VInt v)\<close>

definition deliveryattempt_DurationMsGTE :: "int \<Rightarrow> sql_pred" where
  \<open>deliveryattempt_DurationMsGTE v = PGTE FieldDurationMs (VInt v)\<close>

definition deliveryattempt_DurationMsLT :: "int \<Rightarrow> sql_pred" where
  \<open>deliveryattempt_DurationMsLT v = PLT FieldDurationMs (VInt v)\<close>

definition deliveryattempt_DurationMsLTE :: "int \<Rightarrow> sql_pred" where
  \<open>deliveryattempt_DurationMsLTE v = PLTE FieldDurationMs (VInt v)\<close>

definition deliveryattempt_CreatedAtEQ :: "time \<Rightarrow> sql_pred" where
  \<open>deliveryattempt_CreatedAtEQ v = PEQ FieldCreatedAt (VTime v)\<close>

definition deliveryattempt_CreatedAtNEQ :: "time \<Rightarrow> sql_pred" where
  \<open>deliveryattempt_CreatedAtNEQ v = PNEQ FieldCreatedAt (VTime v)\<close>

definition deliveryattempt_CreatedAtIn :: "time list \<Rightarrow> sql_pred" where
  \<open>deliveryattempt_CreatedAtIn vs = PIn FieldCreatedAt (map VTime vs)\<close>

definition deliveryattempt_CreatedAtNotIn :: "time list \<Rightarrow> sql_pred" where
  \<open>deliveryattempt_CreatedAtNotIn vs = PNotIn FieldCreatedAt (map VTime vs)\<close>

definition deliveryattempt_CreatedAtGT :: "time \<Rightarrow> sql_pred" where
  \<open>deliveryattempt_CreatedAtGT v = PGT FieldCreatedAt (VTime v)\<close>

definition deliveryattempt_CreatedAtGTE :: "time \<Rightarrow> sql_pred" where
  \<open>deliveryattempt_CreatedAtGTE v = PGTE FieldCreatedAt (VTime v)\<close>

definition deliveryattempt_CreatedAtLT :: "time \<Rightarrow> sql_pred" where
  \<open>deliveryattempt_CreatedAtLT v = PLT FieldCreatedAt (VTime v)\<close>

definition deliveryattempt_CreatedAtLTE :: "time \<Rightarrow> sql_pred" where
  \<open>deliveryattempt_CreatedAtLTE v = PLTE FieldCreatedAt (VTime v)\<close>

definition deliveryattempt_And :: "sql_pred list \<Rightarrow> sql_pred" where
  \<open>deliveryattempt_And predicates = PAnd predicates\<close>

definition deliveryattempt_Or :: "sql_pred list \<Rightarrow> sql_pred" where
  \<open>deliveryattempt_Or predicates = POr predicates\<close>

definition deliveryattempt_Not :: "sql_pred \<Rightarrow> sql_pred" where
  \<open>deliveryattempt_Not p = PNot p\<close>

lemmas deliveryattempt_where_defs =
  deliveryattempt_ID_def
  deliveryattempt_IDEQ_def
  deliveryattempt_IDNEQ_def
  deliveryattempt_IDIn_def
  deliveryattempt_IDNotIn_def
  deliveryattempt_IDGT_def
  deliveryattempt_IDGTE_def
  deliveryattempt_IDLT_def
  deliveryattempt_IDLTE_def
  deliveryattempt_NotificationID_def
  deliveryattempt_AttemptNumber_def
  deliveryattempt_HTTPStatus_def
  deliveryattempt_ErrorMessage_def
  deliveryattempt_DurationMs_def
  deliveryattempt_CreatedAt_def
  deliveryattempt_NotificationIDEQ_def
  deliveryattempt_NotificationIDNEQ_def
  deliveryattempt_NotificationIDIn_def
  deliveryattempt_NotificationIDNotIn_def
  deliveryattempt_NotificationIDGT_def
  deliveryattempt_NotificationIDGTE_def
  deliveryattempt_NotificationIDLT_def
  deliveryattempt_NotificationIDLTE_def
  deliveryattempt_AttemptNumberEQ_def
  deliveryattempt_AttemptNumberNEQ_def
  deliveryattempt_AttemptNumberIn_def
  deliveryattempt_AttemptNumberNotIn_def
  deliveryattempt_AttemptNumberGT_def
  deliveryattempt_AttemptNumberGTE_def
  deliveryattempt_AttemptNumberLT_def
  deliveryattempt_AttemptNumberLTE_def
  deliveryattempt_StatusEQ_def
  deliveryattempt_StatusNEQ_def
  deliveryattempt_StatusIn_def
  deliveryattempt_StatusNotIn_def
  deliveryattempt_HTTPStatusEQ_def
  deliveryattempt_HTTPStatusNEQ_def
  deliveryattempt_HTTPStatusIn_def
  deliveryattempt_HTTPStatusNotIn_def
  deliveryattempt_HTTPStatusGT_def
  deliveryattempt_HTTPStatusGTE_def
  deliveryattempt_HTTPStatusLT_def
  deliveryattempt_HTTPStatusLTE_def
  deliveryattempt_HTTPStatusIsNil_def
  deliveryattempt_HTTPStatusNotNil_def
  deliveryattempt_ErrorMessageEQ_def
  deliveryattempt_ErrorMessageNEQ_def
  deliveryattempt_ErrorMessageIn_def
  deliveryattempt_ErrorMessageNotIn_def
  deliveryattempt_ErrorMessageGT_def
  deliveryattempt_ErrorMessageGTE_def
  deliveryattempt_ErrorMessageLT_def
  deliveryattempt_ErrorMessageLTE_def
  deliveryattempt_ErrorMessageContains_def
  deliveryattempt_ErrorMessageHasPrefix_def
  deliveryattempt_ErrorMessageHasSuffix_def
  deliveryattempt_ErrorMessageIsNil_def
  deliveryattempt_ErrorMessageNotNil_def
  deliveryattempt_DurationMsEQ_def
  deliveryattempt_DurationMsNEQ_def
  deliveryattempt_DurationMsIn_def
  deliveryattempt_DurationMsNotIn_def
  deliveryattempt_DurationMsGT_def
  deliveryattempt_DurationMsGTE_def
  deliveryattempt_DurationMsLT_def
  deliveryattempt_DurationMsLTE_def
  deliveryattempt_CreatedAtEQ_def
  deliveryattempt_CreatedAtNEQ_def
  deliveryattempt_CreatedAtIn_def
  deliveryattempt_CreatedAtNotIn_def
  deliveryattempt_CreatedAtGT_def
  deliveryattempt_CreatedAtGTE_def
  deliveryattempt_CreatedAtLT_def
  deliveryattempt_CreatedAtLTE_def
  deliveryattempt_And_def
  deliveryattempt_Or_def
  deliveryattempt_Not_def

end
