(* ===== verification/Where_OutboxEvent.thy ===== *)
theory Where_OutboxEvent
  imports Sql_Model
begin

text \<open>
  The predicates of \<^verbatim>\<open>ent/outboxevent/where.go\<close>, one definition per function, named after the package
  and the function. A predicate is a condition of the WHERE clause; \<^verbatim>\<open>sql.FieldEQ\<close> and its kin
  are the constructors of \<^typ>\<open>sql_pred\<close>. The case-insensitive predicates (\<^verbatim>\<open>EqualFold\<close>,
  \<^verbatim>\<open>ContainsFold\<close>) are left out: the program uses none of them.
\<close>

definition outboxevent_ID :: "uuid \<Rightarrow> sql_pred" where
  \<open>outboxevent_ID v = PEQ FieldID (VUuid v)\<close>

definition outboxevent_IDEQ :: "uuid \<Rightarrow> sql_pred" where
  \<open>outboxevent_IDEQ v = PEQ FieldID (VUuid v)\<close>

definition outboxevent_IDNEQ :: "uuid \<Rightarrow> sql_pred" where
  \<open>outboxevent_IDNEQ v = PNEQ FieldID (VUuid v)\<close>

definition outboxevent_IDIn :: "uuid list \<Rightarrow> sql_pred" where
  \<open>outboxevent_IDIn vs = PIn FieldID (map VUuid vs)\<close>

definition outboxevent_IDNotIn :: "uuid list \<Rightarrow> sql_pred" where
  \<open>outboxevent_IDNotIn vs = PNotIn FieldID (map VUuid vs)\<close>

definition outboxevent_IDGT :: "uuid \<Rightarrow> sql_pred" where
  \<open>outboxevent_IDGT v = PGT FieldID (VUuid v)\<close>

definition outboxevent_IDGTE :: "uuid \<Rightarrow> sql_pred" where
  \<open>outboxevent_IDGTE v = PGTE FieldID (VUuid v)\<close>

definition outboxevent_IDLT :: "uuid \<Rightarrow> sql_pred" where
  \<open>outboxevent_IDLT v = PLT FieldID (VUuid v)\<close>

definition outboxevent_IDLTE :: "uuid \<Rightarrow> sql_pred" where
  \<open>outboxevent_IDLTE v = PLTE FieldID (VUuid v)\<close>

definition outboxevent_NotificationID :: "uuid \<Rightarrow> sql_pred" where
  \<open>outboxevent_NotificationID v = PEQ FieldNotificationID (VUuid v)\<close>

definition outboxevent_EventType :: "string \<Rightarrow> sql_pred" where
  \<open>outboxevent_EventType v = PEQ FieldEventType (VString v)\<close>

definition outboxevent_ScheduledAt :: "time \<Rightarrow> sql_pred" where
  \<open>outboxevent_ScheduledAt v = PEQ FieldScheduledAt (VTime v)\<close>

definition outboxevent_StreamID :: "string \<Rightarrow> sql_pred" where
  \<open>outboxevent_StreamID v = PEQ FieldStreamID (VString v)\<close>

definition outboxevent_LockedBy :: "string \<Rightarrow> sql_pred" where
  \<open>outboxevent_LockedBy v = PEQ FieldLockedBy (VString v)\<close>

definition outboxevent_LockedAt :: "time \<Rightarrow> sql_pred" where
  \<open>outboxevent_LockedAt v = PEQ FieldLockedAt (VTime v)\<close>

definition outboxevent_LastError :: "string \<Rightarrow> sql_pred" where
  \<open>outboxevent_LastError v = PEQ FieldLastError (VString v)\<close>

definition outboxevent_PublishedAt :: "time \<Rightarrow> sql_pred" where
  \<open>outboxevent_PublishedAt v = PEQ FieldPublishedAt (VTime v)\<close>

definition outboxevent_CreatedAt :: "time \<Rightarrow> sql_pred" where
  \<open>outboxevent_CreatedAt v = PEQ FieldCreatedAt (VTime v)\<close>

definition outboxevent_UpdatedAt :: "time \<Rightarrow> sql_pred" where
  \<open>outboxevent_UpdatedAt v = PEQ FieldUpdatedAt (VTime v)\<close>

definition outboxevent_NotificationIDEQ :: "uuid \<Rightarrow> sql_pred" where
  \<open>outboxevent_NotificationIDEQ v = PEQ FieldNotificationID (VUuid v)\<close>

definition outboxevent_NotificationIDNEQ :: "uuid \<Rightarrow> sql_pred" where
  \<open>outboxevent_NotificationIDNEQ v = PNEQ FieldNotificationID (VUuid v)\<close>

definition outboxevent_NotificationIDIn :: "uuid list \<Rightarrow> sql_pred" where
  \<open>outboxevent_NotificationIDIn vs = PIn FieldNotificationID (map VUuid vs)\<close>

definition outboxevent_NotificationIDNotIn :: "uuid list \<Rightarrow> sql_pred" where
  \<open>outboxevent_NotificationIDNotIn vs = PNotIn FieldNotificationID (map VUuid vs)\<close>

definition outboxevent_NotificationIDGT :: "uuid \<Rightarrow> sql_pred" where
  \<open>outboxevent_NotificationIDGT v = PGT FieldNotificationID (VUuid v)\<close>

definition outboxevent_NotificationIDGTE :: "uuid \<Rightarrow> sql_pred" where
  \<open>outboxevent_NotificationIDGTE v = PGTE FieldNotificationID (VUuid v)\<close>

definition outboxevent_NotificationIDLT :: "uuid \<Rightarrow> sql_pred" where
  \<open>outboxevent_NotificationIDLT v = PLT FieldNotificationID (VUuid v)\<close>

definition outboxevent_NotificationIDLTE :: "uuid \<Rightarrow> sql_pred" where
  \<open>outboxevent_NotificationIDLTE v = PLTE FieldNotificationID (VUuid v)\<close>

definition outboxevent_EventTypeEQ :: "string \<Rightarrow> sql_pred" where
  \<open>outboxevent_EventTypeEQ v = PEQ FieldEventType (VString v)\<close>

definition outboxevent_EventTypeNEQ :: "string \<Rightarrow> sql_pred" where
  \<open>outboxevent_EventTypeNEQ v = PNEQ FieldEventType (VString v)\<close>

definition outboxevent_EventTypeIn :: "string list \<Rightarrow> sql_pred" where
  \<open>outboxevent_EventTypeIn vs = PIn FieldEventType (map VString vs)\<close>

definition outboxevent_EventTypeNotIn :: "string list \<Rightarrow> sql_pred" where
  \<open>outboxevent_EventTypeNotIn vs = PNotIn FieldEventType (map VString vs)\<close>

definition outboxevent_EventTypeGT :: "string \<Rightarrow> sql_pred" where
  \<open>outboxevent_EventTypeGT v = PGT FieldEventType (VString v)\<close>

definition outboxevent_EventTypeGTE :: "string \<Rightarrow> sql_pred" where
  \<open>outboxevent_EventTypeGTE v = PGTE FieldEventType (VString v)\<close>

definition outboxevent_EventTypeLT :: "string \<Rightarrow> sql_pred" where
  \<open>outboxevent_EventTypeLT v = PLT FieldEventType (VString v)\<close>

definition outboxevent_EventTypeLTE :: "string \<Rightarrow> sql_pred" where
  \<open>outboxevent_EventTypeLTE v = PLTE FieldEventType (VString v)\<close>

definition outboxevent_EventTypeContains :: "string \<Rightarrow> sql_pred" where
  \<open>outboxevent_EventTypeContains v = PContains FieldEventType v\<close>

definition outboxevent_EventTypeHasPrefix :: "string \<Rightarrow> sql_pred" where
  \<open>outboxevent_EventTypeHasPrefix v = PHasPrefix FieldEventType v\<close>

definition outboxevent_EventTypeHasSuffix :: "string \<Rightarrow> sql_pred" where
  \<open>outboxevent_EventTypeHasSuffix v = PHasSuffix FieldEventType v\<close>

definition outboxevent_StatusEQ :: "string \<Rightarrow> sql_pred" where
  \<open>outboxevent_StatusEQ v = PEQ FieldStatus (VString v)\<close>

definition outboxevent_StatusNEQ :: "string \<Rightarrow> sql_pred" where
  \<open>outboxevent_StatusNEQ v = PNEQ FieldStatus (VString v)\<close>

definition outboxevent_StatusIn :: "string list \<Rightarrow> sql_pred" where
  \<open>outboxevent_StatusIn vs = PIn FieldStatus (map VString vs)\<close>

definition outboxevent_StatusNotIn :: "string list \<Rightarrow> sql_pred" where
  \<open>outboxevent_StatusNotIn vs = PNotIn FieldStatus (map VString vs)\<close>

definition outboxevent_ScheduledAtEQ :: "time \<Rightarrow> sql_pred" where
  \<open>outboxevent_ScheduledAtEQ v = PEQ FieldScheduledAt (VTime v)\<close>

definition outboxevent_ScheduledAtNEQ :: "time \<Rightarrow> sql_pred" where
  \<open>outboxevent_ScheduledAtNEQ v = PNEQ FieldScheduledAt (VTime v)\<close>

definition outboxevent_ScheduledAtIn :: "time list \<Rightarrow> sql_pred" where
  \<open>outboxevent_ScheduledAtIn vs = PIn FieldScheduledAt (map VTime vs)\<close>

definition outboxevent_ScheduledAtNotIn :: "time list \<Rightarrow> sql_pred" where
  \<open>outboxevent_ScheduledAtNotIn vs = PNotIn FieldScheduledAt (map VTime vs)\<close>

definition outboxevent_ScheduledAtGT :: "time \<Rightarrow> sql_pred" where
  \<open>outboxevent_ScheduledAtGT v = PGT FieldScheduledAt (VTime v)\<close>

definition outboxevent_ScheduledAtGTE :: "time \<Rightarrow> sql_pred" where
  \<open>outboxevent_ScheduledAtGTE v = PGTE FieldScheduledAt (VTime v)\<close>

definition outboxevent_ScheduledAtLT :: "time \<Rightarrow> sql_pred" where
  \<open>outboxevent_ScheduledAtLT v = PLT FieldScheduledAt (VTime v)\<close>

definition outboxevent_ScheduledAtLTE :: "time \<Rightarrow> sql_pred" where
  \<open>outboxevent_ScheduledAtLTE v = PLTE FieldScheduledAt (VTime v)\<close>

definition outboxevent_StreamIDEQ :: "string \<Rightarrow> sql_pred" where
  \<open>outboxevent_StreamIDEQ v = PEQ FieldStreamID (VString v)\<close>

definition outboxevent_StreamIDNEQ :: "string \<Rightarrow> sql_pred" where
  \<open>outboxevent_StreamIDNEQ v = PNEQ FieldStreamID (VString v)\<close>

definition outboxevent_StreamIDIn :: "string list \<Rightarrow> sql_pred" where
  \<open>outboxevent_StreamIDIn vs = PIn FieldStreamID (map VString vs)\<close>

definition outboxevent_StreamIDNotIn :: "string list \<Rightarrow> sql_pred" where
  \<open>outboxevent_StreamIDNotIn vs = PNotIn FieldStreamID (map VString vs)\<close>

definition outboxevent_StreamIDGT :: "string \<Rightarrow> sql_pred" where
  \<open>outboxevent_StreamIDGT v = PGT FieldStreamID (VString v)\<close>

definition outboxevent_StreamIDGTE :: "string \<Rightarrow> sql_pred" where
  \<open>outboxevent_StreamIDGTE v = PGTE FieldStreamID (VString v)\<close>

definition outboxevent_StreamIDLT :: "string \<Rightarrow> sql_pred" where
  \<open>outboxevent_StreamIDLT v = PLT FieldStreamID (VString v)\<close>

definition outboxevent_StreamIDLTE :: "string \<Rightarrow> sql_pred" where
  \<open>outboxevent_StreamIDLTE v = PLTE FieldStreamID (VString v)\<close>

definition outboxevent_StreamIDContains :: "string \<Rightarrow> sql_pred" where
  \<open>outboxevent_StreamIDContains v = PContains FieldStreamID v\<close>

definition outboxevent_StreamIDHasPrefix :: "string \<Rightarrow> sql_pred" where
  \<open>outboxevent_StreamIDHasPrefix v = PHasPrefix FieldStreamID v\<close>

definition outboxevent_StreamIDHasSuffix :: "string \<Rightarrow> sql_pred" where
  \<open>outboxevent_StreamIDHasSuffix v = PHasSuffix FieldStreamID v\<close>

definition outboxevent_StreamIDIsNil :: "sql_pred" where
  \<open>outboxevent_StreamIDIsNil = PIsNull FieldStreamID\<close>

definition outboxevent_StreamIDNotNil :: "sql_pred" where
  \<open>outboxevent_StreamIDNotNil = PNotNull FieldStreamID\<close>

definition outboxevent_LockedByEQ :: "string \<Rightarrow> sql_pred" where
  \<open>outboxevent_LockedByEQ v = PEQ FieldLockedBy (VString v)\<close>

definition outboxevent_LockedByNEQ :: "string \<Rightarrow> sql_pred" where
  \<open>outboxevent_LockedByNEQ v = PNEQ FieldLockedBy (VString v)\<close>

definition outboxevent_LockedByIn :: "string list \<Rightarrow> sql_pred" where
  \<open>outboxevent_LockedByIn vs = PIn FieldLockedBy (map VString vs)\<close>

definition outboxevent_LockedByNotIn :: "string list \<Rightarrow> sql_pred" where
  \<open>outboxevent_LockedByNotIn vs = PNotIn FieldLockedBy (map VString vs)\<close>

definition outboxevent_LockedByGT :: "string \<Rightarrow> sql_pred" where
  \<open>outboxevent_LockedByGT v = PGT FieldLockedBy (VString v)\<close>

definition outboxevent_LockedByGTE :: "string \<Rightarrow> sql_pred" where
  \<open>outboxevent_LockedByGTE v = PGTE FieldLockedBy (VString v)\<close>

definition outboxevent_LockedByLT :: "string \<Rightarrow> sql_pred" where
  \<open>outboxevent_LockedByLT v = PLT FieldLockedBy (VString v)\<close>

definition outboxevent_LockedByLTE :: "string \<Rightarrow> sql_pred" where
  \<open>outboxevent_LockedByLTE v = PLTE FieldLockedBy (VString v)\<close>

definition outboxevent_LockedByContains :: "string \<Rightarrow> sql_pred" where
  \<open>outboxevent_LockedByContains v = PContains FieldLockedBy v\<close>

definition outboxevent_LockedByHasPrefix :: "string \<Rightarrow> sql_pred" where
  \<open>outboxevent_LockedByHasPrefix v = PHasPrefix FieldLockedBy v\<close>

definition outboxevent_LockedByHasSuffix :: "string \<Rightarrow> sql_pred" where
  \<open>outboxevent_LockedByHasSuffix v = PHasSuffix FieldLockedBy v\<close>

definition outboxevent_LockedByIsNil :: "sql_pred" where
  \<open>outboxevent_LockedByIsNil = PIsNull FieldLockedBy\<close>

definition outboxevent_LockedByNotNil :: "sql_pred" where
  \<open>outboxevent_LockedByNotNil = PNotNull FieldLockedBy\<close>

definition outboxevent_LockedAtEQ :: "time \<Rightarrow> sql_pred" where
  \<open>outboxevent_LockedAtEQ v = PEQ FieldLockedAt (VTime v)\<close>

definition outboxevent_LockedAtNEQ :: "time \<Rightarrow> sql_pred" where
  \<open>outboxevent_LockedAtNEQ v = PNEQ FieldLockedAt (VTime v)\<close>

definition outboxevent_LockedAtIn :: "time list \<Rightarrow> sql_pred" where
  \<open>outboxevent_LockedAtIn vs = PIn FieldLockedAt (map VTime vs)\<close>

definition outboxevent_LockedAtNotIn :: "time list \<Rightarrow> sql_pred" where
  \<open>outboxevent_LockedAtNotIn vs = PNotIn FieldLockedAt (map VTime vs)\<close>

definition outboxevent_LockedAtGT :: "time \<Rightarrow> sql_pred" where
  \<open>outboxevent_LockedAtGT v = PGT FieldLockedAt (VTime v)\<close>

definition outboxevent_LockedAtGTE :: "time \<Rightarrow> sql_pred" where
  \<open>outboxevent_LockedAtGTE v = PGTE FieldLockedAt (VTime v)\<close>

definition outboxevent_LockedAtLT :: "time \<Rightarrow> sql_pred" where
  \<open>outboxevent_LockedAtLT v = PLT FieldLockedAt (VTime v)\<close>

definition outboxevent_LockedAtLTE :: "time \<Rightarrow> sql_pred" where
  \<open>outboxevent_LockedAtLTE v = PLTE FieldLockedAt (VTime v)\<close>

definition outboxevent_LockedAtIsNil :: "sql_pred" where
  \<open>outboxevent_LockedAtIsNil = PIsNull FieldLockedAt\<close>

definition outboxevent_LockedAtNotNil :: "sql_pred" where
  \<open>outboxevent_LockedAtNotNil = PNotNull FieldLockedAt\<close>

definition outboxevent_LastErrorEQ :: "string \<Rightarrow> sql_pred" where
  \<open>outboxevent_LastErrorEQ v = PEQ FieldLastError (VString v)\<close>

definition outboxevent_LastErrorNEQ :: "string \<Rightarrow> sql_pred" where
  \<open>outboxevent_LastErrorNEQ v = PNEQ FieldLastError (VString v)\<close>

definition outboxevent_LastErrorIn :: "string list \<Rightarrow> sql_pred" where
  \<open>outboxevent_LastErrorIn vs = PIn FieldLastError (map VString vs)\<close>

definition outboxevent_LastErrorNotIn :: "string list \<Rightarrow> sql_pred" where
  \<open>outboxevent_LastErrorNotIn vs = PNotIn FieldLastError (map VString vs)\<close>

definition outboxevent_LastErrorGT :: "string \<Rightarrow> sql_pred" where
  \<open>outboxevent_LastErrorGT v = PGT FieldLastError (VString v)\<close>

definition outboxevent_LastErrorGTE :: "string \<Rightarrow> sql_pred" where
  \<open>outboxevent_LastErrorGTE v = PGTE FieldLastError (VString v)\<close>

definition outboxevent_LastErrorLT :: "string \<Rightarrow> sql_pred" where
  \<open>outboxevent_LastErrorLT v = PLT FieldLastError (VString v)\<close>

definition outboxevent_LastErrorLTE :: "string \<Rightarrow> sql_pred" where
  \<open>outboxevent_LastErrorLTE v = PLTE FieldLastError (VString v)\<close>

definition outboxevent_LastErrorContains :: "string \<Rightarrow> sql_pred" where
  \<open>outboxevent_LastErrorContains v = PContains FieldLastError v\<close>

definition outboxevent_LastErrorHasPrefix :: "string \<Rightarrow> sql_pred" where
  \<open>outboxevent_LastErrorHasPrefix v = PHasPrefix FieldLastError v\<close>

definition outboxevent_LastErrorHasSuffix :: "string \<Rightarrow> sql_pred" where
  \<open>outboxevent_LastErrorHasSuffix v = PHasSuffix FieldLastError v\<close>

definition outboxevent_LastErrorIsNil :: "sql_pred" where
  \<open>outboxevent_LastErrorIsNil = PIsNull FieldLastError\<close>

definition outboxevent_LastErrorNotNil :: "sql_pred" where
  \<open>outboxevent_LastErrorNotNil = PNotNull FieldLastError\<close>

definition outboxevent_PublishedAtEQ :: "time \<Rightarrow> sql_pred" where
  \<open>outboxevent_PublishedAtEQ v = PEQ FieldPublishedAt (VTime v)\<close>

definition outboxevent_PublishedAtNEQ :: "time \<Rightarrow> sql_pred" where
  \<open>outboxevent_PublishedAtNEQ v = PNEQ FieldPublishedAt (VTime v)\<close>

definition outboxevent_PublishedAtIn :: "time list \<Rightarrow> sql_pred" where
  \<open>outboxevent_PublishedAtIn vs = PIn FieldPublishedAt (map VTime vs)\<close>

definition outboxevent_PublishedAtNotIn :: "time list \<Rightarrow> sql_pred" where
  \<open>outboxevent_PublishedAtNotIn vs = PNotIn FieldPublishedAt (map VTime vs)\<close>

definition outboxevent_PublishedAtGT :: "time \<Rightarrow> sql_pred" where
  \<open>outboxevent_PublishedAtGT v = PGT FieldPublishedAt (VTime v)\<close>

definition outboxevent_PublishedAtGTE :: "time \<Rightarrow> sql_pred" where
  \<open>outboxevent_PublishedAtGTE v = PGTE FieldPublishedAt (VTime v)\<close>

definition outboxevent_PublishedAtLT :: "time \<Rightarrow> sql_pred" where
  \<open>outboxevent_PublishedAtLT v = PLT FieldPublishedAt (VTime v)\<close>

definition outboxevent_PublishedAtLTE :: "time \<Rightarrow> sql_pred" where
  \<open>outboxevent_PublishedAtLTE v = PLTE FieldPublishedAt (VTime v)\<close>

definition outboxevent_PublishedAtIsNil :: "sql_pred" where
  \<open>outboxevent_PublishedAtIsNil = PIsNull FieldPublishedAt\<close>

definition outboxevent_PublishedAtNotNil :: "sql_pred" where
  \<open>outboxevent_PublishedAtNotNil = PNotNull FieldPublishedAt\<close>

definition outboxevent_CreatedAtEQ :: "time \<Rightarrow> sql_pred" where
  \<open>outboxevent_CreatedAtEQ v = PEQ FieldCreatedAt (VTime v)\<close>

definition outboxevent_CreatedAtNEQ :: "time \<Rightarrow> sql_pred" where
  \<open>outboxevent_CreatedAtNEQ v = PNEQ FieldCreatedAt (VTime v)\<close>

definition outboxevent_CreatedAtIn :: "time list \<Rightarrow> sql_pred" where
  \<open>outboxevent_CreatedAtIn vs = PIn FieldCreatedAt (map VTime vs)\<close>

definition outboxevent_CreatedAtNotIn :: "time list \<Rightarrow> sql_pred" where
  \<open>outboxevent_CreatedAtNotIn vs = PNotIn FieldCreatedAt (map VTime vs)\<close>

definition outboxevent_CreatedAtGT :: "time \<Rightarrow> sql_pred" where
  \<open>outboxevent_CreatedAtGT v = PGT FieldCreatedAt (VTime v)\<close>

definition outboxevent_CreatedAtGTE :: "time \<Rightarrow> sql_pred" where
  \<open>outboxevent_CreatedAtGTE v = PGTE FieldCreatedAt (VTime v)\<close>

definition outboxevent_CreatedAtLT :: "time \<Rightarrow> sql_pred" where
  \<open>outboxevent_CreatedAtLT v = PLT FieldCreatedAt (VTime v)\<close>

definition outboxevent_CreatedAtLTE :: "time \<Rightarrow> sql_pred" where
  \<open>outboxevent_CreatedAtLTE v = PLTE FieldCreatedAt (VTime v)\<close>

definition outboxevent_UpdatedAtEQ :: "time \<Rightarrow> sql_pred" where
  \<open>outboxevent_UpdatedAtEQ v = PEQ FieldUpdatedAt (VTime v)\<close>

definition outboxevent_UpdatedAtNEQ :: "time \<Rightarrow> sql_pred" where
  \<open>outboxevent_UpdatedAtNEQ v = PNEQ FieldUpdatedAt (VTime v)\<close>

definition outboxevent_UpdatedAtIn :: "time list \<Rightarrow> sql_pred" where
  \<open>outboxevent_UpdatedAtIn vs = PIn FieldUpdatedAt (map VTime vs)\<close>

definition outboxevent_UpdatedAtNotIn :: "time list \<Rightarrow> sql_pred" where
  \<open>outboxevent_UpdatedAtNotIn vs = PNotIn FieldUpdatedAt (map VTime vs)\<close>

definition outboxevent_UpdatedAtGT :: "time \<Rightarrow> sql_pred" where
  \<open>outboxevent_UpdatedAtGT v = PGT FieldUpdatedAt (VTime v)\<close>

definition outboxevent_UpdatedAtGTE :: "time \<Rightarrow> sql_pred" where
  \<open>outboxevent_UpdatedAtGTE v = PGTE FieldUpdatedAt (VTime v)\<close>

definition outboxevent_UpdatedAtLT :: "time \<Rightarrow> sql_pred" where
  \<open>outboxevent_UpdatedAtLT v = PLT FieldUpdatedAt (VTime v)\<close>

definition outboxevent_UpdatedAtLTE :: "time \<Rightarrow> sql_pred" where
  \<open>outboxevent_UpdatedAtLTE v = PLTE FieldUpdatedAt (VTime v)\<close>

definition outboxevent_And :: "sql_pred list \<Rightarrow> sql_pred" where
  \<open>outboxevent_And predicates = PAnd predicates\<close>

definition outboxevent_Or :: "sql_pred list \<Rightarrow> sql_pred" where
  \<open>outboxevent_Or predicates = POr predicates\<close>

definition outboxevent_Not :: "sql_pred \<Rightarrow> sql_pred" where
  \<open>outboxevent_Not p = PNot p\<close>

lemmas outboxevent_where_defs =
  outboxevent_ID_def
  outboxevent_IDEQ_def
  outboxevent_IDNEQ_def
  outboxevent_IDIn_def
  outboxevent_IDNotIn_def
  outboxevent_IDGT_def
  outboxevent_IDGTE_def
  outboxevent_IDLT_def
  outboxevent_IDLTE_def
  outboxevent_NotificationID_def
  outboxevent_EventType_def
  outboxevent_ScheduledAt_def
  outboxevent_StreamID_def
  outboxevent_LockedBy_def
  outboxevent_LockedAt_def
  outboxevent_LastError_def
  outboxevent_PublishedAt_def
  outboxevent_CreatedAt_def
  outboxevent_UpdatedAt_def
  outboxevent_NotificationIDEQ_def
  outboxevent_NotificationIDNEQ_def
  outboxevent_NotificationIDIn_def
  outboxevent_NotificationIDNotIn_def
  outboxevent_NotificationIDGT_def
  outboxevent_NotificationIDGTE_def
  outboxevent_NotificationIDLT_def
  outboxevent_NotificationIDLTE_def
  outboxevent_EventTypeEQ_def
  outboxevent_EventTypeNEQ_def
  outboxevent_EventTypeIn_def
  outboxevent_EventTypeNotIn_def
  outboxevent_EventTypeGT_def
  outboxevent_EventTypeGTE_def
  outboxevent_EventTypeLT_def
  outboxevent_EventTypeLTE_def
  outboxevent_EventTypeContains_def
  outboxevent_EventTypeHasPrefix_def
  outboxevent_EventTypeHasSuffix_def
  outboxevent_StatusEQ_def
  outboxevent_StatusNEQ_def
  outboxevent_StatusIn_def
  outboxevent_StatusNotIn_def
  outboxevent_ScheduledAtEQ_def
  outboxevent_ScheduledAtNEQ_def
  outboxevent_ScheduledAtIn_def
  outboxevent_ScheduledAtNotIn_def
  outboxevent_ScheduledAtGT_def
  outboxevent_ScheduledAtGTE_def
  outboxevent_ScheduledAtLT_def
  outboxevent_ScheduledAtLTE_def
  outboxevent_StreamIDEQ_def
  outboxevent_StreamIDNEQ_def
  outboxevent_StreamIDIn_def
  outboxevent_StreamIDNotIn_def
  outboxevent_StreamIDGT_def
  outboxevent_StreamIDGTE_def
  outboxevent_StreamIDLT_def
  outboxevent_StreamIDLTE_def
  outboxevent_StreamIDContains_def
  outboxevent_StreamIDHasPrefix_def
  outboxevent_StreamIDHasSuffix_def
  outboxevent_StreamIDIsNil_def
  outboxevent_StreamIDNotNil_def
  outboxevent_LockedByEQ_def
  outboxevent_LockedByNEQ_def
  outboxevent_LockedByIn_def
  outboxevent_LockedByNotIn_def
  outboxevent_LockedByGT_def
  outboxevent_LockedByGTE_def
  outboxevent_LockedByLT_def
  outboxevent_LockedByLTE_def
  outboxevent_LockedByContains_def
  outboxevent_LockedByHasPrefix_def
  outboxevent_LockedByHasSuffix_def
  outboxevent_LockedByIsNil_def
  outboxevent_LockedByNotNil_def
  outboxevent_LockedAtEQ_def
  outboxevent_LockedAtNEQ_def
  outboxevent_LockedAtIn_def
  outboxevent_LockedAtNotIn_def
  outboxevent_LockedAtGT_def
  outboxevent_LockedAtGTE_def
  outboxevent_LockedAtLT_def
  outboxevent_LockedAtLTE_def
  outboxevent_LockedAtIsNil_def
  outboxevent_LockedAtNotNil_def
  outboxevent_LastErrorEQ_def
  outboxevent_LastErrorNEQ_def
  outboxevent_LastErrorIn_def
  outboxevent_LastErrorNotIn_def
  outboxevent_LastErrorGT_def
  outboxevent_LastErrorGTE_def
  outboxevent_LastErrorLT_def
  outboxevent_LastErrorLTE_def
  outboxevent_LastErrorContains_def
  outboxevent_LastErrorHasPrefix_def
  outboxevent_LastErrorHasSuffix_def
  outboxevent_LastErrorIsNil_def
  outboxevent_LastErrorNotNil_def
  outboxevent_PublishedAtEQ_def
  outboxevent_PublishedAtNEQ_def
  outboxevent_PublishedAtIn_def
  outboxevent_PublishedAtNotIn_def
  outboxevent_PublishedAtGT_def
  outboxevent_PublishedAtGTE_def
  outboxevent_PublishedAtLT_def
  outboxevent_PublishedAtLTE_def
  outboxevent_PublishedAtIsNil_def
  outboxevent_PublishedAtNotNil_def
  outboxevent_CreatedAtEQ_def
  outboxevent_CreatedAtNEQ_def
  outboxevent_CreatedAtIn_def
  outboxevent_CreatedAtNotIn_def
  outboxevent_CreatedAtGT_def
  outboxevent_CreatedAtGTE_def
  outboxevent_CreatedAtLT_def
  outboxevent_CreatedAtLTE_def
  outboxevent_UpdatedAtEQ_def
  outboxevent_UpdatedAtNEQ_def
  outboxevent_UpdatedAtIn_def
  outboxevent_UpdatedAtNotIn_def
  outboxevent_UpdatedAtGT_def
  outboxevent_UpdatedAtGTE_def
  outboxevent_UpdatedAtLT_def
  outboxevent_UpdatedAtLTE_def
  outboxevent_And_def
  outboxevent_Or_def
  outboxevent_Not_def

end
