(* ===== verification/Ent_Client.thy ===== *)
theory Ent_Client
  imports Builders_Notification Builders_DeliveryAttempt Builders_OutboxEvent
    Where_Notification Where_DeliveryAttempt Where_OutboxEvent
begin

text \<open>
  Queries (\<^verbatim>\<open>ent/*_query.go\<close>), the entity clients (\<^verbatim>\<open>ent/client.go\<close>) and transactions
  (\<^verbatim>\<open>ent/tx.go\<close>). The program registers no hooks and no interceptors, so \<^verbatim>\<open>withHooks\<close> and
  \<^verbatim>\<open>withInterceptors\<close> call their argument; the traversal path of a query is never set.
\<close>

section \<open>NotificationQuery\<close>

record NotificationQuery =
  nq_Limit :: "int option"
  nq_Offset :: "int option"
  nq_Unique :: "bool option"
  nq_Fields :: "column list"
  nq_order :: "column list"
  nq_predicates :: "sql_pred list"

definition NotificationQuery_Where :: "sql_pred list \<Rightarrow> NotificationQuery \<Rightarrow> NotificationQuery" where
  \<open>NotificationQuery_Where ps q = q\<lparr>nq_predicates := nq_predicates q @ ps\<rparr>\<close>

definition NotificationQuery_Limit :: "int \<Rightarrow> NotificationQuery \<Rightarrow> NotificationQuery" where
  \<open>NotificationQuery_Limit v q = q\<lparr>nq_Limit := Some v\<rparr>\<close>

definition NotificationQuery_Offset :: "int \<Rightarrow> NotificationQuery \<Rightarrow> NotificationQuery" where
  \<open>NotificationQuery_Offset v q = q\<lparr>nq_Offset := Some v\<rparr>\<close>

definition NotificationQuery_Unique :: "bool \<Rightarrow> NotificationQuery \<Rightarrow> NotificationQuery" where
  \<open>NotificationQuery_Unique v q = q\<lparr>nq_Unique := Some v\<rparr>\<close>

definition NotificationQuery_Order :: "column list \<Rightarrow> NotificationQuery \<Rightarrow> NotificationQuery" where
  \<open>NotificationQuery_Order o_opts q = q\<lparr>nq_order := nq_order q @ o_opts\<rparr>\<close>

definition NotificationQuery_prepareQuery :: "NotificationQuery \<Rightarrow> goerror option" where
  \<open>NotificationQuery_prepareQuery q =
     map_option (\<lambda>f. ValidationError (column_name f)
         (ErrText (''ent: invalid field '' @ Quote (column_name f) @ '' for query'')))
       (List.find (\<lambda>f. \<not> notification_ValidColumn f) (nq_Fields q))\<close>

definition NotificationQuery_querySpec :: "NotificationQuery \<Rightarrow> QuerySpec" where
  \<open>NotificationQuery_querySpec q =
     \<lparr>qs_Table = Table_notifications,
      qs_Columns =
        (if nq_Fields q = [] then notification_Columns
         else FieldID # filter (\<lambda>f. f \<noteq> FieldID) (nq_Fields q)),
      qs_Predicate = nq_predicates q,
      qs_Order = nq_order q,
      qs_Limit = field_or 0 (nq_Limit q),
      qs_Offset = field_or 0 (nq_Offset q),
      qs_Unique = field_or False (nq_Unique q)\<rparr>\<close>

definition NotificationQuery_sqlAll :: "'w db \<Rightarrow> NotificationQuery \<Rightarrow> 'w \<Rightarrow> (goerror + Notification list) \<times> 'w" where
  \<open>NotificationQuery_sqlAll db q w =
     (let spec = NotificationQuery_querySpec q in
      case QueryNodes db spec w of
        (Inl err, w1) \<Rightarrow> (Inl err, w1)
      | (Inr rows, w1) \<Rightarrow>
          (scan_rows (qs_Columns spec) Notification_scanValues (\<lambda>cs vs. Notification_assignValues cs vs Notification_zero) rows, w1))\<close>

definition NotificationQuery_All :: "'w db \<Rightarrow> NotificationQuery \<Rightarrow> 'w \<Rightarrow> (goerror + Notification list) \<times> 'w" where
  \<open>NotificationQuery_All db q w =
     (case NotificationQuery_prepareQuery q of Some err \<Rightarrow> (Inl err, w) | None \<Rightarrow> NotificationQuery_sqlAll db q w)\<close>

definition NotificationQuery_First :: "'w db \<Rightarrow> NotificationQuery \<Rightarrow> 'w \<Rightarrow> (goerror + Notification) \<times> 'w" where
  \<open>NotificationQuery_First db q w =
     (case NotificationQuery_All db (NotificationQuery_Limit 1 q) w of
        (Inl err, w1) \<Rightarrow> (Inl err, w1)
      | (Inr nodes, w1) \<Rightarrow> (case nodes of [] \<Rightarrow> (Inl (NotFoundError notification_Label), w1) | x # _ \<Rightarrow> (Inr x, w1)))\<close>

definition NotificationQuery_Only :: "'w db \<Rightarrow> NotificationQuery \<Rightarrow> 'w \<Rightarrow> (goerror + Notification) \<times> 'w" where
  \<open>NotificationQuery_Only db q w =
     (case NotificationQuery_All db (NotificationQuery_Limit 2 q) w of
        (Inl err, w1) \<Rightarrow> (Inl err, w1)
      | (Inr nodes, w1) \<Rightarrow>
          (case nodes of
             [x] \<Rightarrow> (Inr x, w1)
           | [] \<Rightarrow> (Inl (NotFoundError notification_Label), w1)
           | _ \<Rightarrow> (Inl (NotSingularError notification_Label), w1)))\<close>

definition NotificationClient_Query :: "NotificationQuery" where
  \<open>NotificationClient_Query =
     \<lparr>nq_Limit = None, nq_Offset = None, nq_Unique = None, nq_Fields = [], nq_order = [], nq_predicates = []\<rparr>\<close>

definition NotificationClient_Get :: "'w db \<Rightarrow> uuid \<Rightarrow> 'w \<Rightarrow> (goerror + Notification) \<times> 'w" where
  \<open>NotificationClient_Get db nid w = NotificationQuery_Only db (NotificationQuery_Where [notification_ID nid] NotificationClient_Query) w\<close>

definition NotificationClient_Create :: "NotificationCreate" where
  \<open>NotificationClient_Create = newNotificationMutation OpCreate\<close>

definition NotificationClient_Update :: "NotificationUpdate" where
  \<open>NotificationClient_Update = newNotificationMutation OpUpdate\<close>

lemmas Notification_query_defs =
  NotificationQuery_Where_def
  NotificationQuery_Limit_def
  NotificationQuery_Offset_def
  NotificationQuery_Unique_def
  NotificationQuery_Order_def
  NotificationQuery_prepareQuery_def
  NotificationQuery_querySpec_def
  NotificationQuery_sqlAll_def
  NotificationQuery_All_def
  NotificationQuery_First_def
  NotificationQuery_Only_def
  NotificationClient_Query_def
  NotificationClient_Get_def
  NotificationClient_Create_def
  NotificationClient_Update_def

section \<open>DeliveryAttemptQuery\<close>

record DeliveryAttemptQuery =
  dq_Limit :: "int option"
  dq_Offset :: "int option"
  dq_Unique :: "bool option"
  dq_Fields :: "column list"
  dq_order :: "column list"
  dq_predicates :: "sql_pred list"

definition DeliveryAttemptQuery_Where :: "sql_pred list \<Rightarrow> DeliveryAttemptQuery \<Rightarrow> DeliveryAttemptQuery" where
  \<open>DeliveryAttemptQuery_Where ps q = q\<lparr>dq_predicates := dq_predicates q @ ps\<rparr>\<close>

definition DeliveryAttemptQuery_Limit :: "int \<Rightarrow> DeliveryAttemptQuery \<Rightarrow> DeliveryAttemptQuery" where
  \<open>DeliveryAttemptQuery_Limit v q = q\<lparr>dq_Limit := Some v\<rparr>\<close>

definition DeliveryAttemptQuery_Offset :: "int \<Rightarrow> DeliveryAttemptQuery \<Rightarrow> DeliveryAttemptQuery" where
  \<open>DeliveryAttemptQuery_Offset v q = q\<lparr>dq_Offset := Some v\<rparr>\<close>

definition DeliveryAttemptQuery_Unique :: "bool \<Rightarrow> DeliveryAttemptQuery \<Rightarrow> DeliveryAttemptQuery" where
  \<open>DeliveryAttemptQuery_Unique v q = q\<lparr>dq_Unique := Some v\<rparr>\<close>

definition DeliveryAttemptQuery_Order :: "column list \<Rightarrow> DeliveryAttemptQuery \<Rightarrow> DeliveryAttemptQuery" where
  \<open>DeliveryAttemptQuery_Order o_opts q = q\<lparr>dq_order := dq_order q @ o_opts\<rparr>\<close>

definition DeliveryAttemptQuery_prepareQuery :: "DeliveryAttemptQuery \<Rightarrow> goerror option" where
  \<open>DeliveryAttemptQuery_prepareQuery q =
     map_option (\<lambda>f. ValidationError (column_name f)
         (ErrText (''ent: invalid field '' @ Quote (column_name f) @ '' for query'')))
       (List.find (\<lambda>f. \<not> deliveryattempt_ValidColumn f) (dq_Fields q))\<close>

definition DeliveryAttemptQuery_querySpec :: "DeliveryAttemptQuery \<Rightarrow> QuerySpec" where
  \<open>DeliveryAttemptQuery_querySpec q =
     \<lparr>qs_Table = Table_delivery_attempts,
      qs_Columns =
        (if dq_Fields q = [] then deliveryattempt_Columns
         else FieldID # filter (\<lambda>f. f \<noteq> FieldID) (dq_Fields q)),
      qs_Predicate = dq_predicates q,
      qs_Order = dq_order q,
      qs_Limit = field_or 0 (dq_Limit q),
      qs_Offset = field_or 0 (dq_Offset q),
      qs_Unique = field_or False (dq_Unique q)\<rparr>\<close>

definition DeliveryAttemptQuery_sqlAll :: "'w db \<Rightarrow> DeliveryAttemptQuery \<Rightarrow> 'w \<Rightarrow> (goerror + DeliveryAttempt list) \<times> 'w" where
  \<open>DeliveryAttemptQuery_sqlAll db q w =
     (let spec = DeliveryAttemptQuery_querySpec q in
      case QueryNodes db spec w of
        (Inl err, w1) \<Rightarrow> (Inl err, w1)
      | (Inr rows, w1) \<Rightarrow>
          (scan_rows (qs_Columns spec) DeliveryAttempt_scanValues (\<lambda>cs vs. DeliveryAttempt_assignValues cs vs DeliveryAttempt_zero) rows, w1))\<close>

definition DeliveryAttemptQuery_All :: "'w db \<Rightarrow> DeliveryAttemptQuery \<Rightarrow> 'w \<Rightarrow> (goerror + DeliveryAttempt list) \<times> 'w" where
  \<open>DeliveryAttemptQuery_All db q w =
     (case DeliveryAttemptQuery_prepareQuery q of Some err \<Rightarrow> (Inl err, w) | None \<Rightarrow> DeliveryAttemptQuery_sqlAll db q w)\<close>

definition DeliveryAttemptQuery_First :: "'w db \<Rightarrow> DeliveryAttemptQuery \<Rightarrow> 'w \<Rightarrow> (goerror + DeliveryAttempt) \<times> 'w" where
  \<open>DeliveryAttemptQuery_First db q w =
     (case DeliveryAttemptQuery_All db (DeliveryAttemptQuery_Limit 1 q) w of
        (Inl err, w1) \<Rightarrow> (Inl err, w1)
      | (Inr nodes, w1) \<Rightarrow> (case nodes of [] \<Rightarrow> (Inl (NotFoundError deliveryattempt_Label), w1) | x # _ \<Rightarrow> (Inr x, w1)))\<close>

definition DeliveryAttemptQuery_Only :: "'w db \<Rightarrow> DeliveryAttemptQuery \<Rightarrow> 'w \<Rightarrow> (goerror + DeliveryAttempt) \<times> 'w" where
  \<open>DeliveryAttemptQuery_Only db q w =
     (case DeliveryAttemptQuery_All db (DeliveryAttemptQuery_Limit 2 q) w of
        (Inl err, w1) \<Rightarrow> (Inl err, w1)
      | (Inr nodes, w1) \<Rightarrow>
          (case nodes of
             [x] \<Rightarrow> (Inr x, w1)
           | [] \<Rightarrow> (Inl (NotFoundError deliveryattempt_Label), w1)
           | _ \<Rightarrow> (Inl (NotSingularError deliveryattempt_Label), w1)))\<close>

definition DeliveryAttemptClient_Query :: "DeliveryAttemptQuery" where
  \<open>DeliveryAttemptClient_Query =
     \<lparr>dq_Limit = None, dq_Offset = None, dq_Unique = None, dq_Fields = [], dq_order = [], dq_predicates = []\<rparr>\<close>

definition DeliveryAttemptClient_Get :: "'w db \<Rightarrow> uuid \<Rightarrow> 'w \<Rightarrow> (goerror + DeliveryAttempt) \<times> 'w" where
  \<open>DeliveryAttemptClient_Get db nid w = DeliveryAttemptQuery_Only db (DeliveryAttemptQuery_Where [deliveryattempt_ID nid] DeliveryAttemptClient_Query) w\<close>

definition DeliveryAttemptClient_Create :: "DeliveryAttemptCreate" where
  \<open>DeliveryAttemptClient_Create = newDeliveryAttemptMutation OpCreate\<close>

definition DeliveryAttemptClient_Update :: "DeliveryAttemptUpdate" where
  \<open>DeliveryAttemptClient_Update = newDeliveryAttemptMutation OpUpdate\<close>

lemmas DeliveryAttempt_query_defs =
  DeliveryAttemptQuery_Where_def
  DeliveryAttemptQuery_Limit_def
  DeliveryAttemptQuery_Offset_def
  DeliveryAttemptQuery_Unique_def
  DeliveryAttemptQuery_Order_def
  DeliveryAttemptQuery_prepareQuery_def
  DeliveryAttemptQuery_querySpec_def
  DeliveryAttemptQuery_sqlAll_def
  DeliveryAttemptQuery_All_def
  DeliveryAttemptQuery_First_def
  DeliveryAttemptQuery_Only_def
  DeliveryAttemptClient_Query_def
  DeliveryAttemptClient_Get_def
  DeliveryAttemptClient_Create_def
  DeliveryAttemptClient_Update_def

section \<open>OutboxEventQuery\<close>

record OutboxEventQuery =
  oq_Limit :: "int option"
  oq_Offset :: "int option"
  oq_Unique :: "bool option"
  oq_Fields :: "column list"
  oq_order :: "column list"
  oq_predicates :: "sql_pred list"

definition OutboxEventQuery_Where :: "sql_pred list \<Rightarrow> OutboxEventQuery \<Rightarrow> OutboxEventQuery" where
  \<open>OutboxEventQuery_Where ps q = q\<lparr>oq_predicates := oq_predicates q @ ps\<rparr>\<close>

definition OutboxEventQuery_Limit :: "int \<Rightarrow> OutboxEventQuery \<Rightarrow> OutboxEventQuery" where
  \<open>OutboxEventQuery_Limit v q = q\<lparr>oq_Limit := Some v\<rparr>\<close>

definition OutboxEventQuery_Offset :: "int \<Rightarrow> OutboxEventQuery \<Rightarrow> OutboxEventQuery" where
  \<open>OutboxEventQuery_Offset v q = q\<lparr>oq_Offset := Some v\<rparr>\<close>

definition OutboxEventQuery_Unique :: "bool \<Rightarrow> OutboxEventQuery \<Rightarrow> OutboxEventQuery" where
  \<open>OutboxEventQuery_Unique v q = q\<lparr>oq_Unique := Some v\<rparr>\<close>

definition OutboxEventQuery_Order :: "column list \<Rightarrow> OutboxEventQuery \<Rightarrow> OutboxEventQuery" where
  \<open>OutboxEventQuery_Order o_opts q = q\<lparr>oq_order := oq_order q @ o_opts\<rparr>\<close>

definition OutboxEventQuery_prepareQuery :: "OutboxEventQuery \<Rightarrow> goerror option" where
  \<open>OutboxEventQuery_prepareQuery q =
     map_option (\<lambda>f. ValidationError (column_name f)
         (ErrText (''ent: invalid field '' @ Quote (column_name f) @ '' for query'')))
       (List.find (\<lambda>f. \<not> outboxevent_ValidColumn f) (oq_Fields q))\<close>

definition OutboxEventQuery_querySpec :: "OutboxEventQuery \<Rightarrow> QuerySpec" where
  \<open>OutboxEventQuery_querySpec q =
     \<lparr>qs_Table = Table_outbox_events,
      qs_Columns =
        (if oq_Fields q = [] then outboxevent_Columns
         else FieldID # filter (\<lambda>f. f \<noteq> FieldID) (oq_Fields q)),
      qs_Predicate = oq_predicates q,
      qs_Order = oq_order q,
      qs_Limit = field_or 0 (oq_Limit q),
      qs_Offset = field_or 0 (oq_Offset q),
      qs_Unique = field_or False (oq_Unique q)\<rparr>\<close>

definition OutboxEventQuery_sqlAll :: "'w db \<Rightarrow> OutboxEventQuery \<Rightarrow> 'w \<Rightarrow> (goerror + OutboxEvent list) \<times> 'w" where
  \<open>OutboxEventQuery_sqlAll db q w =
     (let spec = OutboxEventQuery_querySpec q in
      case QueryNodes db spec w of
        (Inl err, w1) \<Rightarrow> (Inl err, w1)
      | (Inr rows, w1) \<Rightarrow>
          (scan_rows (qs_Columns spec) OutboxEvent_scanValues (\<lambda>cs vs. OutboxEvent_assignValues cs vs OutboxEvent_zero) rows, w1))\<close>

definition OutboxEventQuery_All :: "'w db \<Rightarrow> OutboxEventQuery \<Rightarrow> 'w \<Rightarrow> (goerror + OutboxEvent list) \<times> 'w" where
  \<open>OutboxEventQuery_All db q w =
     (case OutboxEventQuery_prepareQuery q of Some err \<Rightarrow> (Inl err, w) | None \<Rightarrow> OutboxEventQuery_sqlAll db q w)\<close>

definition OutboxEventQuery_First :: "'w db \<Rightarrow> OutboxEventQuery \<Rightarrow> 'w \<Rightarrow> (goerror + OutboxEvent) \<times> 'w" where
  \<open>OutboxEventQuery_First db q w =
     (case OutboxEventQuery_All db (OutboxEventQuery_Limit 1 q) w of
        (Inl err, w1) \<Rightarrow> (Inl err, w1)
      | (Inr nodes, w1) \<Rightarrow> (case nodes of [] \<Rightarrow> (Inl (NotFoundError outboxevent_Label), w1) | x # _ \<Rightarrow> (Inr x, w1)))\<close>

definition OutboxEventQuery_Only :: "'w db \<Rightarrow> OutboxEventQuery \<Rightarrow> 'w \<Rightarrow> (goerror + OutboxEvent) \<times> 'w" where
  \<open>OutboxEventQuery_Only db q w =
     (case OutboxEventQuery_All db (OutboxEventQuery_Limit 2 q) w of
        (Inl err, w1) \<Rightarrow> (Inl err, w1)
      | (Inr nodes, w1) \<Rightarrow>
          (case nodes of
             [x] \<Rightarrow> (Inr x, w1)
           | [] \<Rightarrow> (Inl (NotFoundError outboxevent_Label), w1)
           | _ \<Rightarrow> (Inl (NotSingularError outboxevent_Label), w1)))\<close>

definition OutboxEventClient_Query :: "OutboxEventQuery" where
  \<open>OutboxEventClient_Query =
     \<lparr>oq_Limit = None, oq_Offset = None, oq_Unique = None, oq_Fields = [], oq_order = [], oq_predicates = []\<rparr>\<close>

definition OutboxEventClient_Get :: "'w db \<Rightarrow> uuid \<Rightarrow> 'w \<Rightarrow> (goerror + OutboxEvent) \<times> 'w" where
  \<open>OutboxEventClient_Get db nid w = OutboxEventQuery_Only db (OutboxEventQuery_Where [outboxevent_ID nid] OutboxEventClient_Query) w\<close>

definition OutboxEventClient_Create :: "OutboxEventCreate" where
  \<open>OutboxEventClient_Create = newOutboxEventMutation OpCreate\<close>

definition OutboxEventClient_Update :: "OutboxEventUpdate" where
  \<open>OutboxEventClient_Update = newOutboxEventMutation OpUpdate\<close>

lemmas OutboxEvent_query_defs =
  OutboxEventQuery_Where_def
  OutboxEventQuery_Limit_def
  OutboxEventQuery_Offset_def
  OutboxEventQuery_Unique_def
  OutboxEventQuery_Order_def
  OutboxEventQuery_prepareQuery_def
  OutboxEventQuery_querySpec_def
  OutboxEventQuery_sqlAll_def
  OutboxEventQuery_All_def
  OutboxEventQuery_First_def
  OutboxEventQuery_Only_def
  OutboxEventClient_Query_def
  OutboxEventClient_Get_def
  OutboxEventClient_Create_def
  OutboxEventClient_Update_def

section \<open>Transactions\<close>

text \<open>
  \<^verbatim>\<open>Client.Tx\<close> (with \<^verbatim>\<open>newTx\<close>), \<^verbatim>\<open>Tx.Commit\<close> and \<^verbatim>\<open>Tx.Rollback\<close>. The client is never a
  transactional one, and no commit or rollback hooks are registered.
\<close>

definition newTx :: "'w db \<Rightarrow> 'w \<Rightarrow> goerror option \<times> 'w" where
  "newTx db w = (case BeginTx db w of (Some err, w1) \<Rightarrow> (Some err, w1) | (None, w1) \<Rightarrow> (None, w1))"

definition Client_Tx :: "'w db \<Rightarrow> 'w \<Rightarrow> goerror option \<times> 'w" where
  "Client_Tx db w =
     (case newTx db w of
        (Some err, w1) \<Rightarrow> (Some (ErrWrap ''ent: starting a transaction: '' err ''''), w1)
      | (None, w1) \<Rightarrow> (None, w1))"

definition Tx_Commit :: "'w db \<Rightarrow> 'w \<Rightarrow> goerror option \<times> 'w" where
  "Tx_Commit db w = CommitTx db w"

definition Tx_Rollback :: "'w db \<Rightarrow> 'w \<Rightarrow> goerror option \<times> 'w" where
  "Tx_Rollback db w = RollbackTx db w"

end
