(* ===== verification/Ent_Laws.thy ===== *)
theory Ent_Laws
  imports Ent_Client
begin

text \<open>
  Facts about the ORM layer that the components above it share: what a row must look like to be
  read back, what it is read back as, that every row a builder writes is of that form, the
  effect of a builder's \<^verbatim>\<open>Save\<close> on the tables, and the lookup of a row by its primary key.
\<close>

section \<open>Typed columns\<close>

definition col_uuid :: "sql_value option \<Rightarrow> uuid" where
  "col_uuid v = (case v of Some (VUuid u) \<Rightarrow> u | _ \<Rightarrow> 0)"

definition col_string :: "sql_value option \<Rightarrow> string" where
  "col_string v = (case v of Some (VString s) \<Rightarrow> s | _ \<Rightarrow> '''')"

definition col_int :: "sql_value option \<Rightarrow> int" where
  "col_int v = (case v of Some (VInt n) \<Rightarrow> n | _ \<Rightarrow> 0)"

definition col_time :: "sql_value option \<Rightarrow> time option" where
  "col_time v = (case v of Some (VTime t) \<Rightarrow> Some t | _ \<Rightarrow> None)"

definition col_bytes :: "sql_value option \<Rightarrow> bytes" where
  "col_bytes v = (case v of Some (VBytes b) \<Rightarrow> b | _ \<Rightarrow> '''')"

definition col_headers :: "sql_value option \<Rightarrow> headers" where
  "col_headers v = (case v of Some (VJson h) \<Rightarrow> h | _ \<Rightarrow> None)"

lemma col_simps [simp]:
  "col_uuid (Some (VUuid u)) = u" "col_string (Some (VString s)) = s" "col_string None = ''''"
  "col_int (Some (VInt n)) = n" "col_int None = 0" "col_time (Some (VTime t)) = Some t"
  "col_time None = None" "col_bytes (Some (VBytes b)) = b" "col_bytes None = ''''"
  "col_headers (Some (VJson h)) = h" "col_headers None = None"
  by (simp_all add: col_uuid_def col_string_def col_int_def col_time_def col_bytes_def col_headers_def)

datatype col_type = TUuid | TString | TInt | TTime | TBytes | TJson

fun value_type :: "sql_value \<Rightarrow> col_type" where
  "value_type (VUuid _) = TUuid"
| "value_type (VString _) = TString"
| "value_type (VInt _) = TInt"
| "value_type (VTime _) = TTime"
| "value_type (VBytes _) = TBytes"
| "value_type (VJson _) = TJson"

lemma value_typeE:
  "value_type v = TUuid \<longleftrightarrow> (\<exists>u. v = VUuid u)" "value_type v = TString \<longleftrightarrow> (\<exists>s. v = VString s)"
  "value_type v = TInt \<longleftrightarrow> (\<exists>n. v = VInt n)" "value_type v = TTime \<longleftrightarrow> (\<exists>t. v = VTime t)"
  "value_type v = TBytes \<longleftrightarrow> (\<exists>b. v = VBytes b)" "value_type v = TJson \<longleftrightarrow> (\<exists>h. v = VJson h)"
  by (cases v; simp)+

text \<open>A schema is a list of columns with their types and whether they may be NULL.\<close>

definition row_typed :: "(column \<times> col_type \<times> bool) list \<Rightarrow> row \<Rightarrow> bool" where
  "row_typed sch r \<longleftrightarrow>
     (\<forall>(c, t, nullable) \<in> set sch. (case r c of None \<Rightarrow> nullable | Some v \<Rightarrow> value_type v = t))"

definition notification_schema :: "(column \<times> col_type \<times> bool) list" where
  "notification_schema =
     [(FieldID, TUuid, False), (FieldURL, TString, False), (FieldMethod, TString, False),
      (FieldHeaders, TJson, True), (FieldBody, TBytes, True), (FieldStatus, TString, False),
      (FieldAttemptCount, TInt, False), (FieldMaxAttempts, TInt, False),
      (FieldLastError, TString, True), (FieldNextAttemptAt, TTime, True),
      (FieldCreatedAt, TTime, False), (FieldUpdatedAt, TTime, False)]"

definition deliveryattempt_schema :: "(column \<times> col_type \<times> bool) list" where
  "deliveryattempt_schema =
     [(FieldID, TUuid, False), (FieldNotificationID, TUuid, False), (FieldAttemptNumber, TInt, False),
      (FieldStatus, TString, False), (FieldHTTPStatus, TInt, True), (FieldErrorMessage, TString, True),
      (FieldDurationMs, TInt, False), (FieldCreatedAt, TTime, False)]"

definition outboxevent_schema :: "(column \<times> col_type \<times> bool) list" where
  "outboxevent_schema =
     [(FieldID, TUuid, False), (FieldNotificationID, TUuid, False), (FieldEventType, TString, False),
      (FieldStatus, TString, False), (FieldScheduledAt, TTime, False), (FieldStreamID, TString, True),
      (FieldLockedBy, TString, True), (FieldLockedAt, TTime, True), (FieldLastError, TString, True),
      (FieldPublishedAt, TTime, True), (FieldCreatedAt, TTime, False), (FieldUpdatedAt, TTime, False)]"

lemma typed_cases:
  "(case v of None \<Rightarrow> b | Some x \<Rightarrow> value_type x = TUuid) \<longleftrightarrow> (v = None \<and> b) \<or> (\<exists>u. v = Some (VUuid u))"
  "(case v of None \<Rightarrow> b | Some x \<Rightarrow> value_type x = TString) \<longleftrightarrow> (v = None \<and> b) \<or> (\<exists>s. v = Some (VString s))"
  "(case v of None \<Rightarrow> b | Some x \<Rightarrow> value_type x = TInt) \<longleftrightarrow> (v = None \<and> b) \<or> (\<exists>n. v = Some (VInt n))"
  "(case v of None \<Rightarrow> b | Some x \<Rightarrow> value_type x = TTime) \<longleftrightarrow> (v = None \<and> b) \<or> (\<exists>t. v = Some (VTime t))"
  "(case v of None \<Rightarrow> b | Some x \<Rightarrow> value_type x = TBytes) \<longleftrightarrow> (v = None \<and> b) \<or> (\<exists>d. v = Some (VBytes d))"
  "(case v of None \<Rightarrow> b | Some x \<Rightarrow> value_type x = TJson) \<longleftrightarrow> (v = None \<and> b) \<or> (\<exists>h. v = Some (VJson h))"
  by (auto split: option.splits simp: value_typeE)

section \<open>What a row is read back as\<close>

definition Notification_of_row :: "row \<Rightarrow> Notification" where
  "Notification_of_row r =
     \<lparr>n_ID = col_uuid (r FieldID), n_URL = col_string (r FieldURL), n_Method = col_string (r FieldMethod),
      n_Headers = col_headers (r FieldHeaders), n_Body = col_bytes (r FieldBody),
      n_Status = col_string (r FieldStatus), n_AttemptCount = col_int (r FieldAttemptCount),
      n_MaxAttempts = col_int (r FieldMaxAttempts), n_LastError = col_string (r FieldLastError),
      n_NextAttemptAt = col_time (r FieldNextAttemptAt),
      n_CreatedAt = field_or zero_time (col_time (r FieldCreatedAt)),
      n_UpdatedAt = field_or zero_time (col_time (r FieldUpdatedAt))\<rparr>"

definition DeliveryAttempt_of_row :: "row \<Rightarrow> DeliveryAttempt" where
  "DeliveryAttempt_of_row r =
     \<lparr>d_ID = col_uuid (r FieldID), d_NotificationID = col_uuid (r FieldNotificationID),
      d_AttemptNumber = col_int (r FieldAttemptNumber), d_Status = col_string (r FieldStatus),
      d_HTTPStatus = col_int (r FieldHTTPStatus), d_ErrorMessage = col_string (r FieldErrorMessage),
      d_DurationMs = col_int (r FieldDurationMs),
      d_CreatedAt = field_or zero_time (col_time (r FieldCreatedAt))\<rparr>"

definition OutboxEvent_of_row :: "row \<Rightarrow> OutboxEvent" where
  "OutboxEvent_of_row r =
     \<lparr>o_ID = col_uuid (r FieldID), o_NotificationID = col_uuid (r FieldNotificationID),
      o_EventType = col_string (r FieldEventType), o_Status = col_string (r FieldStatus),
      o_ScheduledAt = field_or zero_time (col_time (r FieldScheduledAt)),
      o_StreamID = col_string (r FieldStreamID), o_LockedBy = col_string (r FieldLockedBy),
      o_LockedAt = col_time (r FieldLockedAt), o_LastError = col_string (r FieldLastError),
      o_PublishedAt = col_time (r FieldPublishedAt),
      o_CreatedAt = field_or zero_time (col_time (r FieldCreatedAt)),
      o_UpdatedAt = field_or zero_time (col_time (r FieldUpdatedAt))\<rparr>"

text \<open>Rows of the schema's types are always read back: no scan or type error can occur.\<close>

lemma Notification_decode:
  assumes "row_typed notification_schema r"
  shows "\<exists>vs. scan_columns (Notification_scanValues notification_Columns) (map r notification_Columns) = Inr vs
           \<and> Notification_assignValues notification_Columns vs Notification_zero = Inr (Notification_of_row r)"
  using assms unfolding row_typed_def notification_schema_def
  by (simp add: typed_cases, elim conjE exE disjE)
     (simp_all add: notification_entity_defs Notification_of_row_def)

lemma DeliveryAttempt_decode:
  assumes "row_typed deliveryattempt_schema r"
  shows "\<exists>vs. scan_columns (DeliveryAttempt_scanValues deliveryattempt_Columns) (map r deliveryattempt_Columns) = Inr vs
           \<and> DeliveryAttempt_assignValues deliveryattempt_Columns vs DeliveryAttempt_zero = Inr (DeliveryAttempt_of_row r)"
  using assms unfolding row_typed_def deliveryattempt_schema_def
  by (simp add: typed_cases, elim conjE exE disjE)
     (simp_all add: deliveryattempt_entity_defs DeliveryAttempt_of_row_def)

lemma OutboxEvent_decode:
  assumes "row_typed outboxevent_schema r"
  shows "\<exists>vs. scan_columns (OutboxEvent_scanValues outboxevent_Columns) (map r outboxevent_Columns) = Inr vs
           \<and> OutboxEvent_assignValues outboxevent_Columns vs OutboxEvent_zero = Inr (OutboxEvent_of_row r)"
  using assms unfolding row_typed_def outboxevent_schema_def
  by (simp add: typed_cases, elim conjE exE disjE)
     (simp_all add: outboxevent_entity_defs OutboxEvent_of_row_def)

end
