(* ===== verification/Sql_Rows.thy ===== *)
theory Sql_Rows
  imports Ent_Laws
begin

text \<open>
  Rows found by their primary key: tables in which no two rows share an id, the row of an id,
  replacing and adding a row, and the effect of the two statements the repository is built from
  - an INSERT of a new row and a conditional UPDATE of the row of an id (a compare-and-set).
\<close>

section \<open>Tables with a primary key\<close>

definition row_id :: "row \<Rightarrow> sql_value option" where
  "row_id r = r FieldID"

definition has_id :: "uuid \<Rightarrow> row \<Rightarrow> bool" where
  "has_id i r \<longleftrightarrow> r FieldID = Some (VUuid i)"

definition find_row :: "table \<Rightarrow> uuid \<Rightarrow> tables \<Rightarrow> row option" where
  "find_row tb i t = List.find (has_id i) (t tb)"

definition set_row :: "table \<Rightarrow> uuid \<Rightarrow> (row \<Rightarrow> row) \<Rightarrow> tables \<Rightarrow> tables" where
  "set_row tb i f t = t(tb := update_where (has_id i) f (t tb))"

definition add_row :: "table \<Rightarrow> row \<Rightarrow> tables \<Rightarrow> tables" where
  "add_row tb r t = t(tb := t tb @ [r])"

fun table_schema :: "table \<Rightarrow> (column \<times> col_type \<times> bool) list" where
  "table_schema Table_notifications = notification_schema"
| "table_schema Table_delivery_attempts = deliveryattempt_schema"
| "table_schema Table_outbox_events = outboxevent_schema"

definition table_wf :: "table \<Rightarrow> row list \<Rightarrow> bool" where
  "table_wf tb rs \<longleftrightarrow> distinct (map row_id rs) \<and> (\<forall>r\<in>set rs. row_typed (table_schema tb) r)"

definition tables_wf :: "tables \<Rightarrow> bool" where
  "tables_wf t \<longleftrightarrow>
     table_wf Table_notifications (t Table_notifications)
     \<and> table_wf Table_delivery_attempts (t Table_delivery_attempts)
     \<and> table_wf Table_outbox_events (t Table_outbox_events)"

lemma tables_wfD: "tables_wf t \<Longrightarrow> table_wf tb (t tb)"
  by (cases tb) (simp_all add: tables_wf_def)

lemma tables_wf_upd: "tables_wf t \<Longrightarrow> table_wf tb rs \<Longrightarrow> tables_wf (t(tb := rs))"
  by (cases tb) (simp_all add: tables_wf_def)

lemma row_typed_id: "row_typed (table_schema tb) r \<Longrightarrow> \<exists>i. r FieldID = Some (VUuid i)"
  by (cases tb) (auto simp: row_typed_def notification_schema_def deliveryattempt_schema_def
      outboxevent_schema_def typed_cases)

section \<open>Finding rows\<close>

lemma find_row_in: "find_row tb i t = Some r \<Longrightarrow> r \<in> set (t tb) \<and> has_id i r"
  by (auto simp: find_row_def find_Some_iff)

lemma find_row_typed: "tables_wf t \<Longrightarrow> find_row tb i t = Some r \<Longrightarrow> row_typed (table_schema tb) r"
  using tables_wfD [of t tb]
  by (auto dest: find_row_in simp: table_wf_def)

lemma find_row_None: "find_row tb i t = None \<longleftrightarrow> (\<forall>r\<in>set (t tb). \<not> has_id i r)"
  by (auto simp: find_row_def find_None_iff)

lemma distinct_key_filter:
  assumes "distinct (map row_id rs)"
  shows "filter (has_id i) rs = (case List.find (has_id i) rs of None \<Rightarrow> [] | Some r \<Rightarrow> [r])"
  using assms
proof (induction rs)
  case Nil
  then show ?case by simp
next
  case (Cons x rs)
  show ?case
  proof (cases "has_id i x")
    case True
    with Cons.prems have "\<forall>y\<in>set rs. \<not> has_id i y"
      by (auto simp: has_id_def row_id_def image_iff)
    then have "filter (has_id i) rs = []" by (simp add: filter_empty_conv)
    with True show ?thesis by simp
  next
    case False
    with Cons show ?thesis by simp
  qed
qed

lemma filter_id:
  "tables_wf t \<Longrightarrow> filter (has_id i) (t tb) = (case find_row tb i t of None \<Rightarrow> [] | Some r \<Rightarrow> [r])"
  using tables_wfD [of t tb] by (simp add: find_row_def table_wf_def distinct_key_filter)

lemma find_row_unique:
  "tables_wf t \<Longrightarrow> r \<in> set (t tb) \<Longrightarrow> has_id i r \<Longrightarrow> find_row tb i t = Some r"
proof -
  assume "tables_wf t" "r \<in> set (t tb)" "has_id i r"
  then have "r \<in> set (filter (has_id i) (t tb))" by simp
  with filter_id [OF \<open>tables_wf t\<close>, of i tb] show ?thesis by (auto split: option.splits)
qed

section \<open>Replacing and adding rows\<close>

lemma find_update_where:
  assumes "\<And>r. f r FieldID = r FieldID"
  shows "List.find (has_id j) (update_where (has_id i) f rs) =
     (if j = i then map_option f (List.find (has_id i) rs) else List.find (has_id j) rs)"
  using assms by (induction rs) (auto simp: has_id_def)

lemma find_set_row:
  assumes "\<And>r. f r FieldID = r FieldID"
  shows "find_row tb' j (set_row tb i f t) =
     (if tb' = tb \<and> j = i then map_option f (find_row tb i t) else find_row tb' j t)"
  using find_update_where [of f, OF assms] by (simp add: find_row_def set_row_def)

lemma find_add_row:
  "find_row tb' j (add_row tb r t) =
     (if tb' = tb then (case find_row tb j t of None \<Rightarrow> (if has_id j r then Some r else None) | Some x \<Rightarrow> Some x)
      else find_row tb' j t)"
proof -
  have "List.find P (xs @ [r]) = (case List.find P xs of None \<Rightarrow> (if P r then Some r else None) | Some x \<Rightarrow> Some x)"
    for P and xs :: "row list"
    by (induction xs) auto
  then show ?thesis by (simp add: find_row_def add_row_def)
qed

lemma set_row_other [simp]: "tb' \<noteq> tb \<Longrightarrow> set_row tb i f t tb' = t tb'"
  by (simp add: set_row_def)

lemma add_row_other [simp]: "tb' \<noteq> tb \<Longrightarrow> add_row tb r t tb' = t tb'"
  by (simp add: add_row_def)

lemma add_row_same: "add_row tb r t tb = t tb @ [r]"
  by (simp add: add_row_def)

lemma set_row_wf:
  assumes "tables_wf t" and id: "\<And>r. f r FieldID = r FieldID"
    and typed: "\<And>r. find_row tb i t = Some r \<Longrightarrow> row_typed (table_schema tb) (f r)"
  shows "tables_wf (set_row tb i f t)"
proof -
  have wf: "table_wf tb (t tb)" by (rule tables_wfD [OF assms(1)])
  have "map row_id (update_where (has_id i) f (t tb)) = map row_id (t tb)"
    by (rule map_update_where) (simp add: row_id_def id)
  moreover have "row_typed (table_schema tb) y" if "y \<in> set (update_where (has_id i) f (t tb))" for y
    using that wf typed find_row_unique [OF assms(1)] by (auto simp: set_update_where table_wf_def)
  ultimately have "table_wf tb (update_where (has_id i) f (t tb))"
    using wf by (simp add: table_wf_def)
  then show ?thesis by (simp add: set_row_def tables_wf_upd [OF assms(1)])
qed

lemma add_row_wf:
  assumes "tables_wf t" "row_typed (table_schema tb) r" "\<forall>x\<in>set (t tb). x FieldID \<noteq> r FieldID"
  shows "tables_wf (add_row tb r t)"
proof -
  have "r FieldID \<notin> (\<lambda>x. x FieldID) ` set (t tb)"
    using assms(3) by (auto simp: image_iff dest: sym)
  then have "table_wf tb (t tb @ [r])"
    using tables_wfD [OF assms(1), of tb] assms(2) by (auto simp: table_wf_def row_id_def)
  then show ?thesis unfolding add_row_def by (rule tables_wf_upd [OF assms(1)])
qed

section \<open>Statements in terms of rows\<close>

text \<open>A conditional UPDATE of the row of an id: it rewrites that row, or nothing.\<close>

lemma update_where_id:
  assumes "\<And>r. r \<in> set rs \<Longrightarrow> has_id i r \<Longrightarrow> sql_holds ps r"
  shows "update_where (\<lambda>r. has_id i r \<and> sql_holds ps r) f rs = update_where (has_id i) f rs"
  using assms by (induction rs) auto

lemma sql_update_id:
  assumes "tables_wf t"
  shows "sql_update tb (PEQ FieldID (VUuid i) # ps) f t =
     (case find_row tb i t of
        None \<Rightarrow> (Inr 0, t)
      | Some r \<Rightarrow> if sql_holds ps r then (Inr 1, set_row tb i f t) else (Inr 0, t))"
proof -
  have P: "sql_holds (PEQ FieldID (VUuid i) # ps) = (\<lambda>r. has_id i r \<and> sql_holds ps r)"
    by (simp add: fun_eq_iff has_id_def)
  have cnt: "count_where (\<lambda>r. has_id i r \<and> sql_holds ps r) (t tb)
      = length (filter (sql_holds ps) (filter (has_id i) (t tb)))"
    by (simp add: count_where_def conj_commute)
  show ?thesis
  proof (cases "\<exists>r. find_row tb i t = Some r \<and> sql_holds ps r")
    case True
    then obtain r where r: "find_row tb i t = Some r" "sql_holds ps r" by blast
    have "update_where (\<lambda>r. has_id i r \<and> sql_holds ps r) f (t tb) = update_where (has_id i) f (t tb)"
      by (rule update_where_id) (use r find_row_unique [OF assms, of _ tb i] in auto)
    with r show ?thesis
      unfolding sql_update_def P cnt filter_id [OF assms] by (simp add: set_row_def)
  next
    case False
    then have "count_where (\<lambda>r. has_id i r \<and> sql_holds ps r) (t tb) = 0"
      unfolding cnt filter_id [OF assms] by (auto split: option.splits)
    with False show ?thesis
      unfolding sql_update_def P by (auto simp: update_where_none split: option.splits)
  qed
qed

text \<open>An INSERT adds the row or reports a duplicate key.\<close>

lemma sql_insert_new:
  "sql_insert tb r t = (Inr (), t') \<Longrightarrow> t' = add_row tb r t \<and> (\<forall>x\<in>set (t tb). x FieldID \<noteq> r FieldID)"
  by (auto simp: sql_insert_def add_row_def split: if_splits)

lemma sql_insert_cases:
  "snd (sql_insert tb r t) = t \<or>
   snd (sql_insert tb r t) = add_row tb r t \<and> (\<forall>x\<in>set (t tb). x FieldID \<noteq> r FieldID)"
  by (auto simp: sql_insert_def add_row_def)

end
