(* ===== verification/Delivery_Retry.thy ===== *)
theory Delivery_Retry
  imports Go_Errors
begin

text \<open>
  \<^verbatim>\<open>internal/delivery/retry.go\<close>: which results of a delivery attempt are retried, which are
  final, and how long to wait. Durations are 64-bit signed words, so the doubling of the delay
  wraps around as Go's does.
\<close>

section \<open>Results, decisions, policies\<close>

record AttemptResult =
  ar_StatusCode :: int
  ar_Err :: "goerror option"
  ar_Duration :: duration

record RetryDecision =
  rd_Retry :: bool
  rd_Terminal :: bool
  rd_Delay :: duration

record RetryPolicy =
  rp_BaseDelay :: duration
  rp_MaxDelay :: duration

definition DefaultRetryPolicy :: RetryPolicy where
  "DefaultRetryPolicy = \<lparr>rp_BaseDelay = 2 * Second, rp_MaxDelay = 5 * Minute\<rparr>"

definition isRetryableStatus :: "int \<Rightarrow> bool" where
  "isRetryableStatus status =
     (if status = 0 then False
      else if status = 408 \<or> status = 409 \<or> status = 425 \<or> status = 429 then True
      else status \<ge> 500 \<and> status \<le> 599)"

section \<open>Backoff\<close>

text \<open>The loop of \<^verbatim>\<open>delay\<close>: the counter \<open>i\<close> runs from 1 below the attempt number.\<close>

function delay_loop :: "duration \<Rightarrow> int \<Rightarrow> int \<Rightarrow> duration \<Rightarrow> duration" where
  "delay_loop maxd i n d =
     (if i < n
      then (let d' = d * 2 in
            if sint d' \<ge> sint maxd then maxd else delay_loop maxd (i + 1) n d')
      else d)"
  by pat_completeness auto
termination
  by (relation "measure (\<lambda>(maxd, i, n, d). nat (n - i))") auto

declare delay_loop.simps [simp del]

definition delay :: "RetryPolicy \<Rightarrow> int \<Rightarrow> duration" where
  "delay p attemptNumber =
     (let p1 = (if sint (rp_BaseDelay p) \<le> 0 then p\<lparr>rp_BaseDelay := 2 * Second\<rparr> else p);
          p2 = (if sint (rp_MaxDelay p1) \<le> 0 then p1\<lparr>rp_MaxDelay := 5 * Minute\<rparr> else p1)
      in delay_loop (rp_MaxDelay p2) 1 attemptNumber (rp_BaseDelay p2))"

section \<open>Decisions\<close>

definition zero_decision :: RetryDecision where
  "zero_decision = \<lparr>rd_Retry = False, rd_Terminal = False, rd_Delay = 0\<rparr>"

definition Decide :: "RetryPolicy \<Rightarrow> AttemptResult \<Rightarrow> int \<Rightarrow> int \<Rightarrow> RetryDecision" where
  "Decide p result attemptNumber maxAttempts =
     (if attemptNumber \<ge> maxAttempts then zero_decision\<lparr>rd_Terminal := True\<rparr>
      else if ar_Err result \<noteq> None \<or> isRetryableStatus (ar_StatusCode result)
      then zero_decision\<lparr>rd_Retry := True, rd_Delay := delay p attemptNumber\<rparr>
      else if ar_StatusCode result \<ge> 200 \<and> ar_StatusCode result \<le> 299 then zero_decision
      else zero_decision\<lparr>rd_Terminal := True\<rparr>)"

section \<open>Facts\<close>

lemma sint_duration_numerals:
  "sint (Second) = 1000000000" "sint (2 * Second) = 2000000000"
  "sint (Minute) = 60000000000" "sint (5 * Minute) = 300000000000"
  by (simp_all add: Second_def Minute_def)

text \<open>Doubling a duration that stays below \<open>2 ^ 63\<close> does not wrap.\<close>

lemma sint_double:
  fixes d :: duration
  assumes "0 \<le> sint d" "sint d < 2 ^ 62"
  shows "sint (d * 2) = 2 * sint d"
proof -
  have "signed_take_bit (LENGTH(64) - 1) (sint d * 2) = sint d * 2"
    by (rule signed_take_bit_int_eq_self) (use assms in auto)
  moreover have "sint (2 :: duration) = 2" by simp
  ultimately show ?thesis
    by (simp only: sint_word_ariths(3) mult.commute)
qed

text \<open>While the cap is below \<open>2 ^ 62\<close> the loop computes the capped power.\<close>

lemma delay_loop_eq:
  assumes "0 < sint d" "sint d \<le> sint maxd" "sint maxd < 2 ^ 62" "i \<le> n"
  shows "sint (delay_loop maxd i n d) = min (sint d * 2 ^ nat (n - i)) (sint maxd)"
  using assms
proof (induction maxd i n d rule: delay_loop.induct)
  case (1 maxd i n d)
  show ?case
  proof (cases "i < n")
    case False
    with 1 show ?thesis by (subst delay_loop.simps) simp
  next
    case True
    from 1 have dbl: "sint (d * 2) = 2 * sint d"
      by (intro sint_double) auto
    have pow: "(2::int) ^ nat (n - i) = 2 * 2 ^ nat (n - (i + 1))"
    proof -
      have "nat (n - i) = Suc (nat (n - (i + 1)))" using True by simp
      then show ?thesis by simp
    qed
    show ?thesis
    proof (cases "sint (d * 2) \<ge> sint maxd")
      case capped: True
      have "(1::int) \<le> 2 ^ nat (n - (i + 1))" by simp
      then have "sint d * 2 \<le> sint d * 2 * 2 ^ nat (n - (i + 1))"
        using 1 by (simp add: mult_le_cancel_left1)
      with capped dbl have "sint maxd \<le> sint d * 2 ^ nat (n - i)"
        by (simp add: pow algebra_simps)
      with True capped show ?thesis by (subst delay_loop.simps) simp
    next
      case below: False
      have "sint (delay_loop maxd (i + 1) n (d * 2)) = min (sint (d * 2) * 2 ^ nat (n - (i + 1))) (sint maxd)"
        using True below dbl 1 by (intro "1.IH") auto
      with True below dbl show ?thesis
        by (subst delay_loop.simps) (simp add: pow algebra_simps)
    qed
  qed
qed

lemma delay_eq:
  assumes "0 < sint (rp_BaseDelay p)" "sint (rp_BaseDelay p) \<le> sint (rp_MaxDelay p)"
    "sint (rp_MaxDelay p) < 2 ^ 62" "1 \<le> n"
  shows "sint (delay p n) = min (sint (rp_BaseDelay p) * 2 ^ nat (n - 1)) (sint (rp_MaxDelay p))"
  using delay_loop_eq [of "rp_BaseDelay p" "rp_MaxDelay p" 1 n] assms by (simp add: delay_def)

lemma DefaultRetryPolicy_delay:
  "1 \<le> n \<Longrightarrow> sint (delay DefaultRetryPolicy n) = min (2000000000 * 2 ^ nat (n - 1)) 300000000000"
  by (subst delay_eq) (simp_all add: DefaultRetryPolicy_def sint_duration_numerals)

lemma Decide_simps:
  "attemptNumber \<ge> maxAttempts \<Longrightarrow> rd_Retry (Decide p r attemptNumber maxAttempts) = False"
  "attemptNumber \<ge> maxAttempts \<Longrightarrow> rd_Terminal (Decide p r attemptNumber maxAttempts)"
  by (simp_all add: Decide_def zero_decision_def)

text \<open>A result that is not a success is either retried or final, never both.\<close>

lemma Decide_failure_total:
  assumes "ar_Err r \<noteq> None \<or> \<not> (200 \<le> ar_StatusCode r \<and> ar_StatusCode r \<le> 299)"
  shows "rd_Retry (Decide p r n m) \<longleftrightarrow> \<not> rd_Terminal (Decide p r n m)"
  using assms by (auto simp: Decide_def zero_decision_def isRetryableStatus_def)

lemma Decide_Retry_iff:
  "rd_Retry (Decide p r n m) \<longleftrightarrow> n < m \<and> (ar_Err r \<noteq> None \<or> isRetryableStatus (ar_StatusCode r))"
  by (auto simp: Decide_def zero_decision_def)

lemma Decide_Terminal_iff:
  "rd_Terminal (Decide p r n m) \<longleftrightarrow>
     n \<ge> m \<or> (ar_Err r = None \<and> \<not> isRetryableStatus (ar_StatusCode r)
              \<and> \<not> (200 \<le> ar_StatusCode r \<and> ar_StatusCode r \<le> 299))"
  by (auto simp: Decide_def zero_decision_def)

lemma DefaultRetryPolicy_bounds:
  assumes "1 \<le> n" "n \<le> m"
  shows "2000000000 \<le> sint (delay DefaultRetryPolicy n) \<and> sint (delay DefaultRetryPolicy n) \<le> 300000000000
    \<and> sint (delay DefaultRetryPolicy n) \<le> sint (delay DefaultRetryPolicy m)"
proof -
  have "(2::int) ^ nat (n - 1) \<le> 2 ^ nat (m - 1)"
    using assms by (intro power_increasing nat_mono) simp_all
  moreover have "(1::int) \<le> 2 ^ nat (n - 1)" by simp
  ultimately show ?thesis
    using assms DefaultRetryPolicy_delay [of n] DefaultRetryPolicy_delay [of m] by linarith
qed

lemma Decide_classification:
  "(rd_Retry (Decide p r n m) \<longleftrightarrow>
      n < m \<and> (ar_Err r \<noteq> None \<or> ar_StatusCode r \<in> {408, 409, 425, 429} \<union> {500..599}))
   \<and> (rd_Terminal (Decide p r n m) \<longleftrightarrow>
      m \<le> n \<or> ar_Err r = None \<and> ar_StatusCode r \<notin> {408, 409, 425, 429} \<union> {500..599} \<union> {200..299})
   \<and> rd_Delay (Decide p r n m) = (if rd_Retry (Decide p r n m) then delay p n else 0)"
  by (auto simp: Decide_def zero_decision_def isRetryableStatus_def)

end
