(* ===== verification/Outbox_Store.thy ===== *)
theory Outbox_Store
  imports Sql_Rows Delivery_Retry
begin

text \<open>
  \<^verbatim>\<open>internal/outbox/types.go\<close> and \<^verbatim>\<open>internal/outbox/postgres_store.go\<close>: the outbox as the relay
  sees it. The SQL of the source is written as specifications (\<open>claim_query\<close>, \<open>claim_set\<close>,
  \<open>published_update\<close>, \<open>failed_update\<close>); the driver that runs it is a parameter whose contract is the
  locale \<open>sql_database\<close>. \<open>FOR UPDATE SKIP LOCKED\<close> leaves out an arbitrary set of rows (those locked
  by other sessions), and \<open>RETURNING\<close> has no order.
\<close>

section \<open>Types\<close>

record Event =
  ev_ID :: uuid
  ev_NotificationID :: uuid
  ev_Type :: string
  ev_ScheduledAt :: time

record 's OutboxStore =
  ClaimDue :: "int \<Rightarrow> string \<Rightarrow> 's \<Rightarrow> (goerror + Event list) \<times> 's"
  MarkPublished :: "uuid \<Rightarrow> string \<Rightarrow> string \<Rightarrow> 's \<Rightarrow> goerror option \<times> 's"
  MarkFailed :: "uuid \<Rightarrow> string \<Rightarrow> string \<Rightarrow> 's \<Rightarrow> goerror option \<times> 's"

record 's Publisher =
  Publish :: "Event \<Rightarrow> 's \<Rightarrow> (goerror + string) \<times> 's"

record RelayConfig =
  rc_BatchSize :: int
  rc_LockerID :: string

section \<open>The database handle\<close>

text \<open>
  \<^verbatim>\<open>*sql.DB\<close>: \<open>sq_Query\<close> runs the claim (an UPDATE of picked rows with RETURNING, given by the
  query that picks and the columns it sets, both at the server's \<open>NOW()\<close>), and returns the rows it
  could read with the error that ended the reading, if any; \<open>sq_Exec\<close> runs an UPDATE.
\<close>

record 'w sqldb =
  sq_Query :: "(time \<Rightarrow> QuerySpec) \<Rightarrow> (time \<Rightarrow> (column \<times> sql_value) list) \<Rightarrow> 'w \<Rightarrow> (goerror + row list \<times> goerror option) \<times> 'w"
  sq_Exec :: "UpdateSpec \<Rightarrow> 'w \<Rightarrow> (goerror + (goerror + int)) \<times> 'w"
  sq_Now :: "'w \<Rightarrow> time \<times> 'w"

definition set_columns :: "(column \<times> sql_value) list \<Rightarrow> row \<Rightarrow> row" where
  "set_columns cvs r = fold (\<lambda>(c, v) x. x(c := Some v)) cvs r"

text \<open>
  The claim: \<open>xs\<close> are the rows that match and are not locked, in the order asked for, up to the
  limit; they are rewritten, and the rewritten rows are returned in some order.
\<close>

definition claims :: "QuerySpec \<Rightarrow> (column \<times> sql_value) list \<Rightarrow> tables \<Rightarrow> row list \<Rightarrow> tables \<Rightarrow> bool" where
  "claims q cvs t rs t' \<longleftrightarrow>
     (\<exists>ys locked.
        mset ys = mset (filter (\<lambda>r. sql_holds (qs_Predicate q) r \<and> r FieldID \<notin> locked) (t (qs_Table q)))
      \<and> sorted_wrt (order_le (qs_Order q)) ys
      \<and> (let xs = take (nat (qs_Limit q)) ys in
           t' = t(qs_Table q := update_where (\<lambda>r. r \<in> set xs) (set_columns cvs) (t (qs_Table q)))
         \<and> mset rs = mset (map (set_columns cvs) xs)))"

section \<open>The statements of postgres_store.go\<close>

definition claim_query :: "int \<Rightarrow> time \<Rightarrow> QuerySpec" where
  "claim_query limit now =
     \<lparr>qs_Table = Table_outbox_events,
      qs_Columns = [FieldID],
      qs_Predicate =
        [PLTE FieldScheduledAt (VTime now),
         POr [PEQ FieldStatus (VString ''pending''),
              PAnd [PEQ FieldStatus (VString ''publishing''),
                    PLT FieldLockedAt (VTime (now - sint (5 * Minute)))]]],
      qs_Order = [FieldScheduledAt, FieldCreatedAt],
      qs_Limit = limit, qs_Offset = 0, qs_Unique = False\<rparr>"

definition claim_set :: "string \<Rightarrow> time \<Rightarrow> (column \<times> sql_value) list" where
  "claim_set lockerID now =
     [(FieldStatus, VString ''publishing''), (FieldLockedBy, VString lockerID), (FieldLockedAt, VTime now),
      (FieldLastError, VString ''''), (FieldUpdatedAt, VTime now)]"

definition published_update :: "uuid \<Rightarrow> string \<Rightarrow> time \<Rightarrow> string \<Rightarrow> UpdateSpec" where
  "published_update eid streamID now lockerID =
     \<lparr>us_Table = Table_outbox_events,
      us_Predicate = [PEQ FieldID (VUuid eid), PEQ FieldStatus (VString ''publishing''),
                      PEQ FieldLockedBy (VString lockerID)],
      us_Set = [(FieldStatus, VString ''published''), (FieldStreamID, VString streamID),
                (FieldPublishedAt, VTime now), (FieldLockedBy, VString ''''), (FieldUpdatedAt, VTime now)],
      us_Add = [], us_Clear = [FieldLockedAt]\<rparr>"

definition failed_update :: "uuid \<Rightarrow> string \<Rightarrow> time \<Rightarrow> string \<Rightarrow> UpdateSpec" where
  "failed_update eid reason now lockerID =
     \<lparr>us_Table = Table_outbox_events,
      us_Predicate = [PEQ FieldID (VUuid eid), PEQ FieldStatus (VString ''publishing''),
                      PEQ FieldLockedBy (VString lockerID)],
      us_Set = [(FieldStatus, VString ''pending''), (FieldLastError, VString reason),
                (FieldLockedBy, VString ''''), (FieldUpdatedAt, VTime now)],
      us_Add = [], us_Clear = [FieldLockedAt]\<rparr>"

section \<open>The store\<close>

text \<open>\<^verbatim>\<open>rows.Scan\<close> into the four fields of an event; NULL does not fit a string or a time.\<close>

definition scan_event :: "row \<Rightarrow> goerror + Event" where
  "scan_event r =
     (case (sql_scan HoldUUID (r FieldID), sql_scan HoldUUID (r FieldNotificationID),
            r FieldEventType, r FieldScheduledAt) of
        (Inr (ScanUUID i), Inr (ScanUUID n), Some (VString ty), Some (VTime s)) \<Rightarrow>
          Inr \<lparr>ev_ID = i, ev_NotificationID = n, ev_Type = ty, ev_ScheduledAt = s\<rparr>
      | _ \<Rightarrow> Inl (ErrText ''sql: Scan error: unsupported conversion''))"

fun scan_events :: "row list \<Rightarrow> goerror + Event list" where
  "scan_events [] = Inr []"
| "scan_events (r # rs) =
     (case scan_event r of Inl e \<Rightarrow> Inl e
      | Inr ev \<Rightarrow> (case scan_events rs of Inl e \<Rightarrow> Inl e | Inr evs \<Rightarrow> Inr (ev # evs)))"

definition PgClaimDue :: "'w sqldb \<Rightarrow> int \<Rightarrow> string \<Rightarrow> 'w \<Rightarrow> (goerror + Event list) \<times> 'w" where
  "PgClaimDue s limit lockerID w =
     (let limit1 = (if limit \<le> 0 then 50 else limit) in
      case sq_Query s (claim_query limit1) (claim_set lockerID) w of
        (Inl err, w1) \<Rightarrow> (Inl err, w1)
      | (Inr (rows, rows_err), w1) \<Rightarrow>
          (case scan_events rows of
             Inl err \<Rightarrow> (Inl err, w1)
           | Inr events \<Rightarrow> (case rows_err of Some err \<Rightarrow> (Inl err, w1) | None \<Rightarrow> (Inr events, w1))))"

definition requireOneRow :: "goerror + int \<Rightarrow> goerror option" where
  "requireOneRow result =
     (case result of
        Inl err \<Rightarrow> Some err
      | Inr affected \<Rightarrow> if affected \<noteq> 1 then Some (Sentinel ErrLostClaim) else None)"

definition PgMarkPublished :: "'w sqldb \<Rightarrow> uuid \<Rightarrow> string \<Rightarrow> string \<Rightarrow> 'w \<Rightarrow> goerror option \<times> 'w" where
  "PgMarkPublished s eid streamID lockerID w =
     (case sq_Now s w of (now, w1) \<Rightarrow>
        (case sq_Exec s (published_update eid streamID now lockerID) w1 of
           (Inl err, w2) \<Rightarrow> (Some err, w2)
         | (Inr result, w2) \<Rightarrow> (requireOneRow result, w2)))"

definition PgMarkFailed :: "'w sqldb \<Rightarrow> uuid \<Rightarrow> string \<Rightarrow> string \<Rightarrow> 'w \<Rightarrow> goerror option \<times> 'w" where
  "PgMarkFailed s eid reason lockerID w =
     (case sq_Now s w of (now, w1) \<Rightarrow>
        (case sq_Exec s (failed_update eid reason now lockerID) w1 of
           (Inl err, w2) \<Rightarrow> (Some err, w2)
         | (Inr result, w2) \<Rightarrow> (requireOneRow result, w2)))"

definition NewPostgresStore :: "'w sqldb \<Rightarrow> 'w OutboxStore" where
  "NewPostgresStore s =
     \<lparr>ClaimDue = PgClaimDue s, MarkPublished = PgMarkPublished s, MarkFailed = PgMarkFailed s\<rparr>"

section \<open>The contract of the database handle\<close>

text \<open>
  A statement that reports an error may still have taken effect; \<^verbatim>\<open>RowsAffected\<close> of a statement
  that did succeed may itself fail.
\<close>

locale sql_database =
  fixes sq :: "'w sqldb"
    and tabs :: "'w \<Rightarrow> tables"
    and server_now :: "'w \<Rightarrow> time"
    and frame :: "'w \<Rightarrow> 'f"
  assumes query_served: "sq_Query sq qf cf w = (r, w') \<Longrightarrow>
      frame w' = frame w \<and>
      ((\<exists>e. r = Inl e) \<and> tabs w' = tabs w
       \<or> (\<exists>rs. claims (qf (server_now w)) (cf (server_now w)) (tabs w) rs (tabs w')
            \<and> ((\<exists>e. r = Inl e) \<or> r = Inr (rs, None) \<or> (\<exists>k e. r = Inr (take k rs, Some e)))))"
    and exec_served: "us_Set usp \<noteq> [] \<Longrightarrow> sq_Exec sq usp w = (n, w') \<Longrightarrow>
      frame w' = frame w \<and>
      ((\<exists>e. n = Inl e) \<and> tabs w' = tabs w
       \<or> (\<exists>k. stmt_update usp (tabs w) = (Inr k, tabs w') \<and> ((\<exists>e. n = Inl e \<or> n = Inr (Inl e)) \<or> n = Inr (Inr k))))"
    and clock_stays: "sq_Now sq w = (tm, w') \<Longrightarrow> tabs w' = tabs w \<and> frame w' = frame w"

section \<open>What the statements do to an event\<close>

definition claimed_row :: "string \<Rightarrow> time \<Rightarrow> row \<Rightarrow> row" where
  "claimed_row lockerID now = set_columns (claim_set lockerID now)"

definition published_row :: "string \<Rightarrow> time \<Rightarrow> row \<Rightarrow> row" where
  "published_row streamID now r =
     r(FieldLockedAt := None, FieldStatus \<mapsto> VString ''published'', FieldStreamID \<mapsto> VString streamID,
       FieldPublishedAt \<mapsto> VTime now, FieldLockedBy \<mapsto> VString '''', FieldUpdatedAt \<mapsto> VTime now)"

definition released_row :: "string \<Rightarrow> time \<Rightarrow> row \<Rightarrow> row" where
  "released_row reason now r =
     r(FieldLockedAt := None, FieldStatus \<mapsto> VString ''pending'', FieldLastError \<mapsto> VString reason,
       FieldLockedBy \<mapsto> VString '''', FieldUpdatedAt \<mapsto> VTime now)"

lemma outbox_update_rows:
  "spec_update (published_update eid s now l) = published_row s now"
  "spec_update (failed_update eid s now l) = released_row s now"
  by (simp_all add: spec_update_def published_update_def failed_update_def published_row_def released_row_def
      fun_eq_iff)

lemma claimed_row_upd:
  "claimed_row l now r =
     r(FieldStatus \<mapsto> VString ''publishing'', FieldLockedBy \<mapsto> VString l, FieldLockedAt \<mapsto> VTime now,
       FieldLastError \<mapsto> VString '''', FieldUpdatedAt \<mapsto> VTime now)"
  by (simp add: claimed_row_def set_columns_def claim_set_def)

lemma outbox_rows_id [simp]:
  "claimed_row l now r FieldID = r FieldID" "published_row s now r FieldID = r FieldID"
  "released_row s now r FieldID = r FieldID"
  by (simp_all add: claimed_row_upd published_row_def released_row_def)

lemma outbox_rows_typed:
  assumes "row_typed outboxevent_schema r"
  shows "row_typed outboxevent_schema (claimed_row l now r)"
    "row_typed outboxevent_schema (published_row s now r)" "row_typed outboxevent_schema (released_row s now r)"
  using assms
  by (simp_all add: claimed_row_upd published_row_def released_row_def row_typed_def outboxevent_schema_def)

text \<open>When a row may be claimed: it is due, and free or abandoned for more than five minutes.\<close>

definition claimable :: "time \<Rightarrow> row \<Rightarrow> bool" where
  "claimable now r \<longleftrightarrow>
     (\<exists>s. r FieldScheduledAt = Some (VTime s) \<and> s \<le> now)
     \<and> (r FieldStatus = Some (VString ''pending'')
        \<or> r FieldStatus = Some (VString ''publishing'')
          \<and> (\<exists>l. r FieldLockedAt = Some (VTime l) \<and> l < now - 300000000000))"

lemma or3_True [simp]: "or3 a b = Some True \<longleftrightarrow> a = Some True \<or> b = Some True"
  by (cases a; cases b) (auto simp: or3_def)

lemma fold_or3_True:
  "fold (\<lambda>p a. or3 a (f p)) ps a = Some True \<longleftrightarrow> a = Some True \<or> (\<exists>p\<in>set ps. f p = Some True)"
  by (induction ps arbitrary: a) auto

lemma sql_eval_time_True:
  "row_typed outboxevent_schema r \<Longrightarrow>
     sql_eval (PLTE FieldScheduledAt (VTime now)) r = Some True
       \<longleftrightarrow> (\<exists>s. r FieldScheduledAt = Some (VTime s) \<and> s \<le> now)"
  "row_typed outboxevent_schema r \<Longrightarrow>
     sql_eval (PLT FieldLockedAt (VTime t)) r = Some True
       \<longleftrightarrow> (\<exists>l. r FieldLockedAt = Some (VTime l) \<and> l < t)"
  by (auto simp: row_typed_def outboxevent_schema_def typed_cases not3_def)

lemma claim_query_holds:
  assumes "row_typed outboxevent_schema r"
  shows "sql_holds (qs_Predicate (claim_query limit now)) r \<longleftrightarrow> claimable now r"
  using sql_eval_time_True [OF assms]
  by (simp add: claim_query_def claimable_def fold_or3_True fold_and3_True sint_duration_numerals
      del: sql_eval.simps(5-8))

end
