(* ===== verification/Outbox_Laws.thy ===== *)
theory Outbox_Laws
  imports Outbox_Store
begin

text \<open>
  What the three operations of the outbox store do to the events: a claim takes rows that are due
  and free (or abandoned), each at most once, and marks them as the claimer's; finishing or
  releasing an event succeeds only for the relay that holds it.
\<close>

section \<open>Claims\<close>

lemma claims_effect:
  assumes wf: "tables_wf t" and c: "claims (claim_query limit now) (claim_set lk now) t rs t'"
  shows "tables_wf t'"
    and "distinct (map row_id rs)" and "length rs \<le> nat limit"
    and "\<And>r'. r' \<in> set rs \<Longrightarrow> \<exists>i r. has_id i r' \<and> find_row Table_outbox_events i t = Some r
           \<and> claimable now r \<and> r' = claimed_row lk now r \<and> find_row Table_outbox_events i t' = Some r'"
    and "\<And>i. \<forall>r'\<in>set rs. \<not> has_id i r' \<Longrightarrow> find_row Table_outbox_events i t' = find_row Table_outbox_events i t"
    and "\<And>tb. tb \<noteq> Table_outbox_events \<Longrightarrow> t' tb = t tb"
proof -
  let ?E = "t Table_outbox_events"
  from c obtain ys locked where
    ys: "mset ys = mset (filter (\<lambda>r. sql_holds (qs_Predicate (claim_query limit now)) r \<and> r FieldID \<notin> locked) ?E)"
    and t': "t' = t(Table_outbox_events := update_where (\<lambda>r. r \<in> set (take (nat limit) ys)) (claimed_row lk now) ?E)"
    and rs: "mset rs = mset (map (claimed_row lk now) (take (nat limit) ys))"
    by (auto simp: claims_def claim_query_def Let_def claimed_row_def)
  define xs where "xs = take (nat limit) ys"
  have tw: "table_wf Table_outbox_events ?E" by (rule tables_wfD [OF wf])
  have sy: "set ys = set (filter (\<lambda>r. sql_holds (qs_Predicate (claim_query limit now)) r \<and> r FieldID \<notin> locked) ?E)"
    using arg_cong [OF ys, of set_mset] by simp
  then have xE: "set xs \<subseteq> set ?E" by (auto simp: xs_def dest: in_set_takeD)
  have cl: "claimable now r" if "r \<in> set xs" for r
  proof -
    from that have "r \<in> set ys" by (auto simp: xs_def dest: in_set_takeD)
    with sy have "sql_holds (qs_Predicate (claim_query limit now)) r" by simp
    moreover have "row_typed outboxevent_schema r" using tw xE that by (auto simp: table_wf_def)
    ultimately show ?thesis by (simp add: claim_query_holds)
  qed
  have dist: "distinct (map row_id ys)"
  proof -
    have "distinct (map row_id (filter P ?E))" for P
      using tw by (auto simp: table_wf_def distinct_map_filter)
    moreover have "mset (map row_id ys) = mset (map row_id
        (filter (\<lambda>r. sql_holds (qs_Predicate (claim_query limit now)) r \<and> r FieldID \<notin> locked) ?E))"
      using ys by simp
    ultimately show ?thesis using mset_eq_imp_distinct_iff by blast
  qed
  then have dx: "distinct (map row_id xs)"
    by (simp add: xs_def take_map [symmetric])
  have rid: "row_id (claimed_row lk now r) = row_id r" for r by (simp add: row_id_def)
  have "mset (map row_id rs) = mset (map row_id xs)"
    using arg_cong [OF rs, of "image_mset row_id"]
    by (simp add: xs_def [symmetric] rid image_mset.compositionality comp_def)
  with dx show "distinct (map row_id rs)" using mset_eq_imp_distinct_iff by blast
  show "length rs \<le> nat limit"
    using arg_cong [OF rs, of size] by simp
  have srs: "set rs = claimed_row lk now ` set xs"
    using arg_cong [OF rs, of set_mset] by (simp add: xs_def)
  have mids: "map row_id (t' Table_outbox_events) = map row_id ?E"
    unfolding t' by (simp add: map_update_where rid)
  have "row_typed outboxevent_schema y" if "y \<in> set (t' Table_outbox_events)" for y
    using that tw by (auto simp: t' set_update_where table_wf_def intro!: outbox_rows_typed(1))
  with tw mids have "table_wf Table_outbox_events (t' Table_outbox_events)"
    by (simp add: table_wf_def)
  then show wf': "tables_wf t'" using tables_wf_upd [OF wf, of Table_outbox_events "t' Table_outbox_events"]
    by (simp add: t')
  show "\<exists>i r. has_id i r' \<and> find_row Table_outbox_events i t = Some r
           \<and> claimable now r \<and> r' = claimed_row lk now r \<and> find_row Table_outbox_events i t' = Some r'"
    if "r' \<in> set rs" for r'
  proof -
    from that srs obtain r where r: "r \<in> set xs" "r' = claimed_row lk now r" by auto
    with xE have rE: "r \<in> set ?E" by auto
    with tw have "row_typed (table_schema Table_outbox_events) r" by (simp add: table_wf_def)
    from row_typed_id [OF this] obtain i where i: "has_id i r" by (auto simp: has_id_def)
    have i': "has_id i r'" using i by (simp add: r has_id_def)
    have "r' \<in> set (t' Table_outbox_events)"
      using rE r by (auto simp: t' set_update_where xs_def [symmetric])
    from find_row_unique [OF wf' this i'] find_row_unique [OF wf rE i] i' cl [OF r(1)] r(2)
    show ?thesis by blast
  qed
  show "find_row Table_outbox_events i t' = find_row Table_outbox_events i t"
    if no: "\<forall>r'\<in>set rs. \<not> has_id i r'" for i
  proof -
    have "\<not> has_id i r" if "r \<in> set xs" for r
      using no that srs by (auto simp: has_id_def)
    then have "List.find (has_id i) (update_where (\<lambda>r. r \<in> set xs) (claimed_row lk now) zs) = List.find (has_id i) zs" for zs
      by (induction zs) (auto simp: has_id_def)
    then show ?thesis by (simp add: find_row_def t' xs_def)
  qed
  show "t' tb = t tb" if "tb \<noteq> Table_outbox_events" for tb
    using that by (simp add: t')
qed

section \<open>Reading the claimed rows\<close>

definition event_of_row :: "row \<Rightarrow> Event" where
  "event_of_row r =
     \<lparr>ev_ID = col_uuid (r FieldID), ev_NotificationID = col_uuid (r FieldNotificationID),
      ev_Type = col_string (r FieldEventType),
      ev_ScheduledAt = field_or zero_time (col_time (r FieldScheduledAt))\<rparr>"

lemma scan_events_typed:
  "\<forall>r\<in>set rs. row_typed outboxevent_schema r \<Longrightarrow> scan_events rs = Inr (map event_of_row rs)"
proof (induction rs)
  case Nil
  then show ?case by simp
next
  case (Cons r rs)
  then have "row_typed outboxevent_schema r" by simp
  then have "scan_event r = Inr (event_of_row r)"
    by (auto simp: row_typed_def outboxevent_schema_def typed_cases scan_event_def event_of_row_def)
  with Cons show ?case by simp
qed

section \<open>The store\<close>

definition held :: "uuid \<Rightarrow> string \<Rightarrow> tables \<Rightarrow> bool" where
  "held eid lk t \<longleftrightarrow>
     (\<exists>r. find_row Table_outbox_events eid t = Some r
        \<and> r FieldStatus = Some (VString ''publishing'') \<and> r FieldLockedBy = Some (VString lk))"

lemma outbox_update_meaning:
  assumes "tables_wf t" "us_Table usp = Table_outbox_events"
    "us_Predicate usp = [PEQ FieldID (VUuid eid), PEQ FieldStatus (VString ''publishing''), PEQ FieldLockedBy (VString lk)]"
  shows "stmt_update usp t =
     (if held eid lk t then (Inr 1, set_row Table_outbox_events eid (spec_update usp) t) else (Inr 0, t))"
  using sql_update_id [OF assms(1), of Table_outbox_events eid _ "spec_update usp"] assms(2,3)
  by (simp add: stmt_update_def held_def split: option.split)

lemma outbox_update_sel:
  "us_Table (published_update eid sid tm lk) = Table_outbox_events"
  "us_Predicate (published_update eid sid tm lk) =
     [PEQ FieldID (VUuid eid), PEQ FieldStatus (VString ''publishing''), PEQ FieldLockedBy (VString lk)]"
  "us_Table (failed_update eid reason tm lk) = Table_outbox_events"
  "us_Predicate (failed_update eid reason tm lk) =
     [PEQ FieldID (VUuid eid), PEQ FieldStatus (VString ''publishing''), PEQ FieldLockedBy (VString lk)]"
  by (simp_all add: published_update_def failed_update_def)

context sql_database
begin

lemma Claim_effect:
  assumes "tables_wf (tabs w)" "PgClaimDue sq limit lk w = (res, w')"
  shows "frame w' = frame w \<and>
    ((\<exists>e. res = Inl e) \<and> tabs w' = tabs w
     \<or> (\<exists>rs. claims (claim_query (if limit \<le> 0 then 50 else limit) (server_now w)) (claim_set lk (server_now w))
             (tabs w) rs (tabs w')
         \<and> ((\<exists>e. res = Inl e) \<or> res = Inr (map event_of_row rs))))"
proof -
  let ?l = "if limit \<le> 0 then 50 else limit"
  obtain r w1 where q: "sq_Query sq (claim_query ?l) (claim_set lk) w = (r, w1)"
    by (cases "sq_Query sq (claim_query ?l) (claim_set lk) w")
  have w0: "\<exists>e. res = Inl e" if "r = Inr (xs, Some e)" for xs e
  proof (cases "scan_events xs")
    case (Inl a)
    with assms(2) q that have "res = Inl a" by (auto simp: PgClaimDue_def Let_def)
    then show ?thesis by blast
  next
    case (Inr a)
    with assms(2) q that show ?thesis by (auto simp: PgClaimDue_def Let_def)
  qed
  have w1: "w' = w1" "\<And>e. r = Inl e \<Longrightarrow> res = Inl e"
    "\<And>xs ys. r = Inr (xs, None) \<Longrightarrow> scan_events xs = Inr ys \<Longrightarrow> res = Inr ys"
    using assms(2) q by (auto simp: PgClaimDue_def Let_def split: sum.splits option.splits prod.splits)
  from query_served [OF q] consider
      (err) e where "r = Inl e" "tabs w1 = tabs w"
    | (applied) rs where "claims (claim_query ?l (server_now w)) (claim_set lk (server_now w)) (tabs w) rs (tabs w1)"
        "(\<exists>e. r = Inl e) \<or> r = Inr (rs, None) \<or> (\<exists>k e. r = Inr (take k rs, Some e))"
    by auto
  then show ?thesis
  proof cases
    case err
    then show ?thesis using query_served [OF q] w1 by auto
  next
    case (applied rs)
    have "row_typed outboxevent_schema x" if "x \<in> set rs" for x
      using claims_effect(4) [OF assms(1) applied(1) that] claims_effect(1) [OF assms(1) applied(1)]
        find_row_typed [of "tabs w1" Table_outbox_events] by fastforce
    then have "scan_events rs = Inr (map event_of_row rs)" by (intro scan_events_typed) simp
    with applied w0 w1 query_served [OF q] show ?thesis by blast
  qed
qed

lemma Mark_effect:
  assumes "tables_wf (tabs w)" "PgMarkPublished sq eid sid lk w = (res, w')"
  shows "frame w' = frame w \<and>
    (tabs w' = tabs w \<and> res \<noteq> None
     \<or> held eid lk (tabs w) \<and> (\<exists>tm. tabs w' = set_row Table_outbox_events eid (published_row sid tm) (tabs w)))"
proof -
  obtain tm w1 where n: "sq_Now sq w = (tm, w1)" by (cases "sq_Now sq w")
  obtain x w2 where e: "sq_Exec sq (published_update eid sid tm lk) w1 = (x, w2)"
    by (cases "sq_Exec sq (published_update eid sid tm lk) w1")
  from clock_stays [OF n] assms(1) have w1: "tabs w1 = tabs w" "frame w1 = frame w" "tables_wf (tabs w1)" by auto
  have m: "stmt_update (published_update eid sid tm lk) (tabs w) =
     (if held eid lk (tabs w) then (Inr 1, set_row Table_outbox_events eid (published_row sid tm) (tabs w))
      else (Inr 0, tabs w))"
    by (rule outbox_update_meaning [OF assms(1) outbox_update_sel(1,2), unfolded outbox_update_rows])
  have res: "w' = w2" "res = (case x of Inl e \<Rightarrow> Some e | Inr y \<Rightarrow> requireOneRow y)"
    using assms(2) n e by (auto simp: PgMarkPublished_def split: sum.splits)
  have "us_Set (published_update eid sid tm lk) \<noteq> []" by (simp add: published_update_def)
  note ex = exec_served [OF this e, unfolded w1(1,2) m]
  show ?thesis
  proof (cases "held eid lk (tabs w)")
    case True
    with ex have "tabs w2 = tabs w \<and> (\<exists>e. x = Inl e) \<or> tabs w2 = set_row Table_outbox_events eid (published_row sid tm) (tabs w)"
      by auto
    with True ex res show ?thesis by auto
  next
    case False
    with ex res show ?thesis by (auto simp: requireOneRow_def)
  qed
qed

lemma Release_effect:
  assumes "tables_wf (tabs w)" "PgMarkFailed sq eid reason lk w = (res, w')"
  shows "frame w' = frame w \<and>
    (tabs w' = tabs w \<and> res \<noteq> None
     \<or> held eid lk (tabs w) \<and> (\<exists>tm. tabs w' = set_row Table_outbox_events eid (released_row reason tm) (tabs w)))"
proof -
  obtain tm w1 where n: "sq_Now sq w = (tm, w1)" by (cases "sq_Now sq w")
  obtain x w2 where e: "sq_Exec sq (failed_update eid reason tm lk) w1 = (x, w2)"
    by (cases "sq_Exec sq (failed_update eid reason tm lk) w1")
  from clock_stays [OF n] assms(1) have w1: "tabs w1 = tabs w" "frame w1 = frame w" "tables_wf (tabs w1)" by auto
  have m: "stmt_update (failed_update eid reason tm lk) (tabs w) =
     (if held eid lk (tabs w) then (Inr 1, set_row Table_outbox_events eid (released_row reason tm) (tabs w))
      else (Inr 0, tabs w))"
    by (rule outbox_update_meaning [OF assms(1) outbox_update_sel(3,4), unfolded outbox_update_rows])
  have res: "w' = w2" "res = (case x of Inl e \<Rightarrow> Some e | Inr y \<Rightarrow> requireOneRow y)"
    using assms(2) n e by (auto simp: PgMarkFailed_def split: sum.splits)
  have "us_Set (failed_update eid reason tm lk) \<noteq> []" by (simp add: failed_update_def)
  note ex = exec_served [OF this e, unfolded w1(1,2) m]
  show ?thesis
  proof (cases "held eid lk (tabs w)")
    case True
    with ex have "tabs w2 = tabs w \<and> (\<exists>e. x = Inl e) \<or> tabs w2 = set_row Table_outbox_events eid (released_row reason tm) (tabs w)"
      by auto
    with True ex res show ?thesis by auto
  next
    case False
    with ex res show ?thesis by (auto simp: requireOneRow_def)
  qed
qed

text \<open>
  A claim by another relay, within five minutes of the server's clock and while the first claim's
  events are as it left them, takes none of them.
\<close>

lemma Claim_excludes:
  assumes wf: "tables_wf (tabs w)" "tables_wf (tabs w2)"
    and c1: "PgClaimDue sq n1 lk1 w = (Inr evs1, w1)" and c2: "PgClaimDue sq n2 lk2 w2 = (Inr evs2, w3)"
    and kept: "\<forall>ev\<in>set evs1. find_row Table_outbox_events (ev_ID ev) (tabs w2) = find_row Table_outbox_events (ev_ID ev) (tabs w1)"
    and soon: "server_now w2 \<le> server_now w + 300000000000"
  shows "ev_ID ` set evs1 \<inter> ev_ID ` set evs2 = {}"
proof -
  from Claim_effect [OF wf(1) c1] obtain rs1 m1 where
    r1: "claims (claim_query m1 (server_now w)) (claim_set lk1 (server_now w)) (tabs w) rs1 (tabs w1)"
      "evs1 = map event_of_row rs1" by auto
  from Claim_effect [OF wf(2) c2] obtain rs2 m2 where
    r2: "claims (claim_query m2 (server_now w2)) (claim_set lk2 (server_now w2)) (tabs w2) rs2 (tabs w3)"
      "evs2 = map event_of_row rs2" by auto
  have idof: "ev_ID (event_of_row r) = i" if "has_id i r" for r i
    using that by (simp add: has_id_def event_of_row_def)
  have False if x: "x \<in> set rs1" and y: "y \<in> set rs2" and same: "ev_ID (event_of_row x) = ev_ID (event_of_row y)" for x y
  proof -
    from claims_effect(4) [OF wf(1) r1(1) x] obtain i r where i: "has_id i x" "x = claimed_row lk1 (server_now w) r"
      "find_row Table_outbox_events i (tabs w1) = Some x" by blast
    from claims_effect(4) [OF wf(2) r2(1) y] obtain j s where j: "has_id j y"
      "find_row Table_outbox_events j (tabs w2) = Some s" "claimable (server_now w2) s" by blast
    from same idof i(1) j(1) have "i = j" by simp
    moreover have "find_row Table_outbox_events i (tabs w2) = Some x"
      using kept x r1(2) i idof [OF i(1)] by auto
    ultimately have "claimable (server_now w2) x" using j by simp
    then show False using i(2) soon by (auto simp: claimable_def claimed_row_upd)
  qed
  then show ?thesis by (auto simp: r1(2) r2(2))
qed

lemma Claim_wf: "tables_wf (tabs w) \<Longrightarrow> PgClaimDue sq n lk w = (res, w') \<Longrightarrow> tables_wf (tabs w')"
  using Claim_effect [of w n lk res w'] claims_effect(1) by auto

end

end
