(* ===== verification/Delivery_Processor.thy ===== *)
theory Delivery_Processor
  imports Delivery_Retry Task_Machine Go_Strings
begin

text \<open>
  \<^verbatim>\<open>internal/delivery/types.go\<close> and \<^verbatim>\<open>internal/delivery/processor.go\<close>: the worker's handling of
  one delivery message. The Go interfaces \<^verbatim>\<open>Store\<close> and \<^verbatim>\<open>Dispatcher\<close> are records of functions on
  the state of the world, and the contract that \<^verbatim>\<open>Store\<close> states in prose (compare-and-set
  transitions) is the locale \<open>delivery_store\<close>.
\<close>

section \<open>Data\<close>

record Task =
  Task_ID :: uuid
  Task_URL :: string
  Task_Method :: string
  Task_Headers :: headers
  Task_Body :: bytes
  Task_Status :: string
  Task_Attempt :: int
  Task_MaxAttempts :: int

record RecordedAttempt =
  ra_AttemptNumber :: int
  ra_StatusCode :: int
  ra_ErrorMessage :: string
  ra_Duration :: duration

record RecordedFailure = RecordedAttempt +
  rf_Terminal :: bool
  rf_NextAttemptAt :: "time option"

record 's Store =
  LoadForDelivery :: "uuid \<Rightarrow> 's \<Rightarrow> (goerror + Task) \<times> 's"
  MarkDelivering :: "uuid \<Rightarrow> 's \<Rightarrow> goerror option \<times> 's"
  RecordSuccess :: "uuid \<Rightarrow> RecordedAttempt \<Rightarrow> 's \<Rightarrow> goerror option \<times> 's"
  RecordFailure :: "uuid \<Rightarrow> RecordedFailure \<Rightarrow> 's \<Rightarrow> goerror option \<times> 's"

record 's Dispatcher =
  Deliver :: "Task \<Rightarrow> 's \<Rightarrow> AttemptResult \<times> 's"

record 's Processor =
  pr_store :: "'s Store"
  pr_dispatcher :: "'s Dispatcher"
  pr_policy :: RetryPolicy
  pr_now :: "'s \<Rightarrow> time \<times> 's"

section \<open>Process\<close>

definition errorMessage :: "AttemptResult \<Rightarrow> string" where
  "errorMessage result =
     (case ar_Err result of
        Some e \<Rightarrow> error_text e
      | None \<Rightarrow>
          if ar_StatusCode result = 0 then ''no HTTP response''
          else if ar_StatusCode result \<ge> 200 \<and> ar_StatusCode result \<le> 299 then ''''
          else ''unexpected HTTP status '' @ Itoa (ar_StatusCode result))"

definition recorded_attempt :: "int \<Rightarrow> AttemptResult \<Rightarrow> RecordedAttempt" where
  "recorded_attempt attemptNumber result =
     \<lparr>ra_AttemptNumber = attemptNumber, ra_StatusCode = ar_StatusCode result,
      ra_ErrorMessage = errorMessage result, ra_Duration = ar_Duration result\<rparr>"

definition recorded_failure :: "RecordedAttempt \<Rightarrow> bool \<Rightarrow> time option \<Rightarrow> RecordedFailure" where
  "recorded_failure a trm next_at =
     RecordedAttempt.extend a (RecordedFailure.fields trm next_at)"

definition is_success :: "AttemptResult \<Rightarrow> bool" where
  "is_success result \<longleftrightarrow>
     ar_Err result = None \<and> ar_StatusCode result \<ge> 200 \<and> ar_StatusCode result \<le> 299"

definition Process :: "'s Processor \<Rightarrow> uuid \<Rightarrow> 's \<Rightarrow> goerror option \<times> 's" where
  "Process p nid s =
     (case LoadForDelivery (pr_store p) nid s of
        (Inl e, s1) \<Rightarrow> (Some e, s1)
      | (Inr task, s1) \<Rightarrow>
          if Task_Status task = StatusSucceeded \<or> Task_Status task = StatusFailed then (None, s1)
          else
            let task = (if Task_MaxAttempts task = 0 then task\<lparr>Task_MaxAttempts := 5\<rparr> else task) in
            case MarkDelivering (pr_store p) nid s1 of
              (Some e, s2) \<Rightarrow> (Some e, s2)
            | (None, s2) \<Rightarrow>
                let attemptNumber = Task_Attempt task + 1 in
                case Deliver (pr_dispatcher p) task s2 of
                  (result, s3) \<Rightarrow>
                    let recorded = recorded_attempt attemptNumber result in
                    if is_success result
                    then RecordSuccess (pr_store p) nid recorded s3
                    else
                      let decision = Decide (pr_policy p) result attemptNumber (Task_MaxAttempts task) in
                      if rd_Retry decision
                      then (case pr_now p s3 of
                              (t, s4) \<Rightarrow>
                                RecordFailure (pr_store p) nid
                                  (recorded_failure recorded (rd_Terminal decision)
                                     (Some (Time_Add t (rd_Delay decision)))) s4)
                      else RecordFailure (pr_store p) nid
                             (recorded_failure recorded (rd_Terminal decision) None) s3)"

definition NewProcessor ::
    "('s \<Rightarrow> time \<times> 's) \<Rightarrow> 's Store \<Rightarrow> 's Dispatcher \<Rightarrow> RetryPolicy \<Rightarrow> ('s \<Rightarrow> time \<times> 's) option \<Rightarrow> 's Processor" where
  "NewProcessor time_now store dispatcher policy now =
     \<lparr>pr_store = store, pr_dispatcher = dispatcher, pr_policy = policy,
      pr_now = (case now of None \<Rightarrow> time_now | Some f \<Rightarrow> f)\<rparr>"

text \<open>The part of \<open>Process\<close> after the claim: one call of the dispatcher, then one recording.\<close>

definition finish_attempt :: "'s Processor \<Rightarrow> uuid \<Rightarrow> Task \<Rightarrow> 's \<Rightarrow> goerror option \<times> 's" where
  "finish_attempt p nid task s =
     (case Deliver (pr_dispatcher p) task s of
        (result, s3) \<Rightarrow>
          if is_success result
          then RecordSuccess (pr_store p) nid (recorded_attempt (Task_Attempt task + 1) result) s3
          else
            let decision = Decide (pr_policy p) result (Task_Attempt task + 1) (Task_MaxAttempts task) in
            if rd_Retry decision
            then (case pr_now p s3 of
                    (t, s4) \<Rightarrow>
                      RecordFailure (pr_store p) nid
                        (recorded_failure (recorded_attempt (Task_Attempt task + 1) result)
                           (rd_Terminal decision) (Some (Time_Add t (rd_Delay decision)))) s4)
            else RecordFailure (pr_store p) nid
                   (recorded_failure (recorded_attempt (Task_Attempt task + 1) result)
                      (rd_Terminal decision) None) s3)"

lemma Process_unfold:
  "Process p nid s =
     (case LoadForDelivery (pr_store p) nid s of
        (Inl e, s1) \<Rightarrow> (Some e, s1)
      | (Inr task, s1) \<Rightarrow>
          if Task_Status task = StatusSucceeded \<or> Task_Status task = StatusFailed then (None, s1)
          else case MarkDelivering (pr_store p) nid s1 of
                 (Some e, s2) \<Rightarrow> (Some e, s2)
               | (None, s2) \<Rightarrow>
                   finish_attempt p nid
                     (if Task_MaxAttempts task = 0 then task\<lparr>Task_MaxAttempts := 5\<rparr> else task) s2)"
  by (simp add: Process_def finish_attempt_def Let_def split: prod.split sum.split option.split)

text \<open>What every operation of the store, the dispatcher and the clock leaves alone, so does \<open>Process\<close>.\<close>

lemma Process_frame:
  assumes "\<And>s res s'. LoadForDelivery (pr_store p) nid s = (res, s') \<Longrightarrow> frame s' = frame s"
    and "\<And>s r s'. MarkDelivering (pr_store p) nid s = (r, s') \<Longrightarrow> frame s' = frame s"
    and "\<And>s a r s'. RecordSuccess (pr_store p) nid a s = (r, s') \<Longrightarrow> frame s' = frame s"
    and "\<And>s f r s'. RecordFailure (pr_store p) nid f s = (r, s') \<Longrightarrow> frame s' = frame s"
    and "\<And>s t res s'. Deliver (pr_dispatcher p) t s = (res, s') \<Longrightarrow> frame s' = frame s"
    and "\<And>s t s'. pr_now p s = (t, s') \<Longrightarrow> frame s' = frame s"
    and "Process p nid s = (r, s')"
  shows "frame s' = frame s"
  using assms(7)
  by (auto simp: Process_def Let_def split: prod.splits sum.splits option.splits if_splits dest!: assms(1-6))

section \<open>What a finished attempt makes of a task\<close>

definition attempt_outcome :: "RetryPolicy \<Rightarrow> TaskView \<Rightarrow> AttemptResult \<Rightarrow> TaskView" where
  "attempt_outcome pol v result =
     (if is_success result then finished StatusSucceeded v
      else if rd_Retry (Decide pol result (tv_Attempt v + 1) (if tv_Max v = 0 then 5 else tv_Max v))
      then finished StatusRetrying v
      else finished StatusFailed v)"

definition failure_status :: "RecordedFailure \<Rightarrow> string" where
  "failure_status f =
     (if \<not> rf_Terminal f \<and> rf_NextAttemptAt f \<noteq> None then StatusRetrying else StatusFailed)"

definition task_view :: "Task \<Rightarrow> TaskView" where
  "task_view t = \<lparr>tv_Status = Task_Status t, tv_Attempt = Task_Attempt t, tv_Max = Task_MaxAttempts t\<rparr>"

lemma recorded_attempt_sel [simp]:
  "ra_AttemptNumber (recorded_attempt n res) = n"
  "ra_StatusCode (recorded_attempt n res) = ar_StatusCode res"
  "ra_ErrorMessage (recorded_attempt n res) = errorMessage res"
  "ra_Duration (recorded_attempt n res) = ar_Duration res"
  by (simp_all add: recorded_attempt_def)

lemma recorded_failure_sel [simp]:
  "ra_AttemptNumber (recorded_failure a t n) = ra_AttemptNumber a"
  "ra_StatusCode (recorded_failure a t n) = ra_StatusCode a"
  "ra_ErrorMessage (recorded_failure a t n) = ra_ErrorMessage a"
  "ra_Duration (recorded_failure a t n) = ra_Duration a"
  "rf_Terminal (recorded_failure a t n) = t"
  "rf_NextAttemptAt (recorded_failure a t n) = n"
  by (simp_all add: recorded_failure_def RecordedAttempt.defs RecordedFailure.defs)

lemma recorded_failure_truncate [simp]:
  "RecordedAttempt.truncate (recorded_failure a t n) = a"
  by (simp add: recorded_failure_def RecordedAttempt.defs RecordedFailure.defs)

text \<open>A failed attempt of a task within bounds takes a step of the abstract machine.\<close>

lemma attempt_outcome_step:
  assumes "tv_Status v = StatusDelivering" "1 \<le> tv_Max v"
  shows "task_step v (attempt_outcome pol v result)"
  using assms
  by (auto simp: attempt_outcome_def Decide_Retry_iff
      intro: task_step.succeed task_step.reschedule task_step.give_up)

section \<open>The contract of the store and the dispatcher\<close>

locale delivery_store =
  fixes load :: "uuid \<Rightarrow> 's \<Rightarrow> (goerror + Task) \<times> 's"
    and mark :: "uuid \<Rightarrow> 's \<Rightarrow> goerror option \<times> 's"
    and succ :: "uuid \<Rightarrow> RecordedAttempt \<Rightarrow> 's \<Rightarrow> goerror option \<times> 's"
    and fail :: "uuid \<Rightarrow> RecordedFailure \<Rightarrow> 's \<Rightarrow> goerror option \<times> 's"
    and view :: "'s \<Rightarrow> uuid \<Rightarrow> TaskView option"
    and sent :: "'s \<Rightarrow> uuid \<Rightarrow> nat"
    and ok :: "'s \<Rightarrow> bool"
  assumes load_frame: "ok s \<Longrightarrow> load nid s = (res, s') \<Longrightarrow> ok s' \<and> view s' = view s \<and> sent s' = sent s"
    and load_task: "ok s \<Longrightarrow> load nid s = (Inr t, s') \<Longrightarrow> Task_ID t = nid \<and> view s nid = Some (task_view t)"
    and mark_frame: "ok s \<Longrightarrow> mark nid s = (r, s') \<Longrightarrow> ok s' \<and> sent s' = sent s"
    and mark_effect: "ok s \<Longrightarrow> mark nid s = (r, s') \<Longrightarrow>
      view s' = view s \<and> r \<noteq> None \<or>
      (\<exists>v. view s nid = Some v \<and> startable v \<and> view s' = (view s)(nid \<mapsto> started v))"
    and succ_frame: "ok s \<Longrightarrow> succ nid a s = (r, s') \<Longrightarrow> ok s' \<and> sent s' = sent s"
    and succ_effect: "ok s \<Longrightarrow> succ nid a s = (r, s') \<Longrightarrow>
      view s' = view s \<and> r \<noteq> None \<or>
      (\<exists>v. view s nid = Some v \<and> tv_Status v = StatusDelivering \<and> tv_Attempt v = ra_AttemptNumber a - 1
          \<and> view s' = (view s)(nid \<mapsto> finished StatusSucceeded v))"
    and fail_frame: "ok s \<Longrightarrow> fail nid f s = (r, s') \<Longrightarrow> ok s' \<and> sent s' = sent s"
    and fail_effect: "ok s \<Longrightarrow> fail nid f s = (r, s') \<Longrightarrow>
      view s' = view s \<and> r \<noteq> None \<or>
      (\<exists>v. view s nid = Some v \<and> tv_Status v = StatusDelivering \<and> tv_Attempt v = ra_AttemptNumber f - 1
          \<and> view s' = (view s)(nid \<mapsto> finished (failure_status f) v))"

locale delivery_worker = delivery_store load mark succ fail view sent ok
  for load :: "uuid \<Rightarrow> 's \<Rightarrow> (goerror + Task) \<times> 's"
    and mark succ fail
    and view :: "'s \<Rightarrow> uuid \<Rightarrow> TaskView option"
    and sent :: "'s \<Rightarrow> uuid \<Rightarrow> nat"
    and ok :: "'s \<Rightarrow> bool" +
  fixes deliver :: "Task \<Rightarrow> 's \<Rightarrow> AttemptResult \<times> 's"
    and now :: "'s \<Rightarrow> time \<times> 's"
  assumes deliver_frame: "ok s \<Longrightarrow> deliver t s = (res, s') \<Longrightarrow>
      ok s' \<and> view s' = view s \<and> (\<forall>i. i \<noteq> Task_ID t \<longrightarrow> sent s' i = sent s i)"
    and deliver_sent: "ok s \<Longrightarrow> deliver t s = (res, s') \<Longrightarrow>
      sent s' (Task_ID t) = sent s (Task_ID t) \<and> ar_Err res \<noteq> None
      \<or> sent s' (Task_ID t) = Suc (sent s (Task_ID t))"
    and now_frame: "ok s \<Longrightarrow> now s = (tm, s') \<Longrightarrow> ok s' \<and> view s' = view s \<and> sent s' = sent s"
begin

abbreviation worker :: "RetryPolicy \<Rightarrow> 's Processor" where
  "worker pol \<equiv>
     NewProcessor now
       \<lparr>LoadForDelivery = load, MarkDelivering = mark, RecordSuccess = succ, RecordFailure = fail\<rparr>
       \<lparr>Deliver = deliver\<rparr> pol (Some now)"

lemma worker_sel [simp]:
  "pr_store (worker pol) =
     \<lparr>LoadForDelivery = load, MarkDelivering = mark, RecordSuccess = succ, RecordFailure = fail\<rparr>"
  "pr_dispatcher (worker pol) = \<lparr>Deliver = deliver\<rparr>"
  "pr_policy (worker pol) = pol" "pr_now (worker pol) = now"
  by (simp_all add: NewProcessor_def)

lemma finish_effect:
  assumes "ok s" "finish_attempt (worker pol) (Task_ID task) task s = (r, s')"
    and v: "view s (Task_ID task) = Some v" "tv_Status v = StatusDelivering"
    and att: "Task_Attempt task = tv_Attempt v"
    and mx: "Task_MaxAttempts task = (if tv_Max v = 0 then 5 else tv_Max v)"
  shows "ok s'
    \<and> (\<forall>i. i \<noteq> Task_ID task \<longrightarrow> sent s' i = sent s i)
    \<and> sent s' (Task_ID task) \<le> Suc (sent s (Task_ID task))
    \<and> (\<exists>result. view s' = (view s)(Task_ID task \<mapsto> attempt_outcome pol v result)
               \<and> (is_success result \<longrightarrow> sent s' (Task_ID task) = Suc (sent s (Task_ID task)))
       \<or> view s' = view s \<and> r \<noteq> None)"
proof -
  obtain result s3 where d: "deliver task s = (result, s3)"
    by (cases "deliver task s")
  from deliver_frame [OF assms(1) d] deliver_sent [OF assms(1) d]
  have s3: "ok s3" "view s3 = view s" "\<forall>i. i \<noteq> Task_ID task \<longrightarrow> sent s3 i = sent s i"
    "sent s3 (Task_ID task) \<le> Suc (sent s (Task_ID task))"
    and ss: "is_success result \<Longrightarrow> sent s3 (Task_ID task) = Suc (sent s (Task_ID task))"
    by (auto simp: is_success_def)
  show ?thesis
  proof (cases "is_success result")
    case True
    with assms(2) d have su: "succ (Task_ID task) (recorded_attempt (Task_Attempt task + 1) result) s3 = (r, s')"
      by (simp add: finish_attempt_def)
    have "view s' = (view s)(Task_ID task \<mapsto> finished StatusSucceeded v) \<or> view s' = view s \<and> r \<noteq> None"
      using succ_effect [OF s3(1) su] s3(2) v(1) by auto
    moreover have "ok s'" "sent s' = sent s3" using succ_frame [OF s3(1) su] by auto
    ultimately show ?thesis
      using s3 ss [OF True] True by (auto simp: attempt_outcome_def)
  next
    case False
    define dec where "dec = Decide pol result (Task_Attempt task + 1) (Task_MaxAttempts task)"
    have trm: "rd_Terminal dec \<longleftrightarrow> \<not> rd_Retry dec"
      using False Decide_failure_total [of result pol "Task_Attempt task + 1" "Task_MaxAttempts task"]
      by (auto simp: dec_def is_success_def)
    have out: "attempt_outcome pol v result = finished (if rd_Retry dec then StatusRetrying else StatusFailed) v"
      using False by (simp add: attempt_outcome_def dec_def att mx)
    obtain s4 f where s4: "ok s4" "view s4 = view s" "sent s4 = sent s3"
      and f: "fail (Task_ID task) f s4 = (r, s')"
      and fs: "failure_status f = (if rd_Retry dec then StatusRetrying else StatusFailed)"
    proof (cases "rd_Retry dec")
      case True
      obtain t s4 where n: "now s3 = (t, s4)" by (cases "now s3")
      from now_frame [OF s3(1) n] s3(2) have "ok s4" "view s4 = view s" "sent s4 = sent s3" by auto
      with that True False assms(2) d n trm show thesis
        by (simp add: finish_attempt_def Let_def dec_def [symmetric] failure_status_def)
    next
      case False2: False
      with that s3(1,2) False assms(2) d show thesis
        by (simp add: finish_attempt_def Let_def dec_def [symmetric] failure_status_def)
    qed
    have "view s' = (view s)(Task_ID task \<mapsto> attempt_outcome pol v result) \<or> view s' = view s \<and> r \<noteq> None"
      using fail_effect [OF s4(1) f] s4(2) v(1) by (auto simp: fs out)
    moreover have "ok s'" "sent s' = sent s4" using fail_frame [OF s4(1) f] by auto
    ultimately show ?thesis
      using s3 s4 False by auto
  qed
qed

text \<open>
  The effect of one call of \<^verbatim>\<open>Process\<close>, errors included: nothing at all; a claim whose answer was
  lost; a claim and an attempt whose outcome was recorded; or a claim and an attempt whose
  recording failed. At most one request goes out, and none without a claim.
\<close>

lemma Process_effect:
  assumes "ok s" "Process (worker pol) nid s = (r, s')"
  shows "ok s' \<and> (\<forall>i. i \<noteq> nid \<longrightarrow> sent s' i = sent s i) \<and>
     (  view s' = view s \<and> sent s' nid = sent s nid
            \<and> (r = None \<longrightarrow> (\<exists>v. view s nid = Some v \<and> terminal v))
      \<or> (\<exists>v. view s nid = Some v \<and> startable v \<and> view s' = (view s)(nid \<mapsto> started v)
             \<and> sent s' nid \<le> Suc (sent s nid) \<and> r \<noteq> None)
      \<or> (\<exists>v result. view s nid = Some v \<and> startable v
             \<and> view s' = (view s)(nid \<mapsto> attempt_outcome pol v result) \<and> sent s' nid \<le> Suc (sent s nid)
             \<and> (is_success result \<longrightarrow> sent s' nid = Suc (sent s nid))))"
proof -
  obtain lres s1 where l: "load nid s = (lres, s1)" by (cases "load nid s")
  from load_frame [OF assms(1) l] have s1: "ok s1" "view s1 = view s" "sent s1 = sent s" by auto
  show ?thesis
  proof (cases lres)
    case (Inl e)
    with l assms(2) s1 show ?thesis by (auto simp: Process_unfold terminal_def task_view_def)
  next
    case (Inr task)
    from load_task [OF assms(1)] l Inr
    have tid: "Task_ID task = nid" and tv: "view s nid = Some (task_view task)" by auto
    show ?thesis
    proof (cases "terminal (task_view task)")
      case True
      with l Inr assms(2) s1 tv show ?thesis by (auto simp: Process_unfold terminal_def task_view_def)
    next
      case False
      obtain mr s2 where m: "mark nid s1 = (mr, s2)" by (cases "mark nid s1")
      from mark_frame [OF s1(1) m] s1 have s2: "ok s2" "sent s2 = sent s" by auto
      show ?thesis
      proof (cases mr)
        case (Some e)
        with l Inr False m assms(2) have "r = Some e" "s' = s2" by (auto simp: Process_unfold terminal_def task_view_def)
        with mark_effect [OF s1(1) m] Some s1 s2 show ?thesis by auto
      next
        case None
        with mark_effect [OF s1(1) m] s1(2) tv
        have st: "startable (task_view task)" and v2: "view s2 = (view s)(nid \<mapsto> started (task_view task))"
          by auto
        define task' where "task' = (if Task_MaxAttempts task = 0 then task\<lparr>Task_MaxAttempts := 5\<rparr> else task)"
        have tid': "Task_ID task' = nid" by (simp add: task'_def tid)
        from l Inr False m None assms(2) have fin: "finish_attempt (worker pol) (Task_ID task') task' s2 = (r, s')"
          by (simp add: Process_unfold terminal_def task_view_def task'_def [symmetric] tid')
        have ao: "attempt_outcome pol (started (task_view task)) result = attempt_outcome pol (task_view task) result"
          for result by (simp add: attempt_outcome_def started_def finished_def)
        note eff = finish_effect [OF s2(1) fin, of "started (task_view task)"]
        have "ok s' \<and> (\<forall>i. i \<noteq> Task_ID task' \<longrightarrow> sent s' i = sent s2 i)
          \<and> sent s' (Task_ID task') \<le> Suc (sent s2 (Task_ID task'))
          \<and> (\<exists>result. view s' = (view s2)(Task_ID task' \<mapsto> attempt_outcome pol (started (task_view task)) result)
               \<and> (is_success result \<longrightarrow> sent s' (Task_ID task') = Suc (sent s2 (Task_ID task')))
             \<or> view s' = view s2 \<and> r \<noteq> None)"
          by (rule eff) (auto simp: tid tid' v2 started_def task'_def task_view_def)
        with st tv v2 s2(2) show ?thesis by (auto simp: tid' ao)
      qed
    qed
  qed
qed

end

end
