(* ===== verification/Notification_Types.thy ===== *)
theory Notification_Types
  imports Ent_Client Delivery_Processor
begin

text \<open>
  \<^verbatim>\<open>internal/notification/types.go\<close>: the request a producer submits and the API views of a
  notification and of a delivery attempt, with the mapping from the ORM's entities
  (\<^verbatim>\<open>mapEntNotification\<close>, \<^verbatim>\<open>mapEntAttempt\<close>, \<^verbatim>\<open>mapEntError\<close> of \<^verbatim>\<open>ent_repository.go\<close>).
\<close>

record CreateRequest =
  cr_URL :: string
  cr_Method :: string
  cr_Headers :: headers
  cr_Body :: bytes
  cr_MaxAttempts :: int

record ApiNotification =
  an_ID :: uuid
  an_URL :: string
  an_Method :: string
  an_Headers :: headers
  an_Body :: bytes
  an_Status :: string
  an_AttemptCount :: int
  an_MaxAttempts :: int
  an_LastError :: string
  an_NextAttemptAt :: "time option"
  an_CreatedAt :: time
  an_UpdatedAt :: time

record ApiDeliveryAttempt =
  aa_ID :: uuid
  aa_NotificationID :: uuid
  aa_AttemptNumber :: int
  aa_Status :: string
  aa_HTTPStatus :: int
  aa_ErrorMessage :: string
  aa_DurationMS :: int
  aa_CreatedAt :: time

definition mapEntNotification :: "Notification \<Rightarrow> ApiNotification" where
  "mapEntNotification got =
     (let got1 = (if n_Headers got = None then got\<lparr>n_Headers := Some []\<rparr> else got) in
      \<lparr>an_ID = n_ID got1, an_URL = n_URL got1, an_Method = n_Method got1, an_Headers = n_Headers got1,
       an_Body = n_Body got1, an_Status = n_Status got1, an_AttemptCount = n_AttemptCount got1,
       an_MaxAttempts = n_MaxAttempts got1, an_LastError = n_LastError got1,
       an_NextAttemptAt = n_NextAttemptAt got1, an_CreatedAt = n_CreatedAt got1,
       an_UpdatedAt = n_UpdatedAt got1\<rparr>)"

definition mapEntAttempt :: "DeliveryAttempt \<Rightarrow> ApiDeliveryAttempt" where
  "mapEntAttempt got =
     \<lparr>aa_ID = d_ID got, aa_NotificationID = d_NotificationID got, aa_AttemptNumber = d_AttemptNumber got,
      aa_Status = d_Status got, aa_HTTPStatus = d_HTTPStatus got, aa_ErrorMessage = d_ErrorMessage got,
      aa_DurationMS = d_DurationMs got, aa_CreatedAt = d_CreatedAt got\<rparr>"

definition mapEntError :: "goerror \<Rightarrow> goerror" where
  "mapEntError err = (if IsNotFound (Some err) then Sentinel ErrNotFound else err)"

end
