(* ===== verification/Notification_Repository.thy ===== *)
theory Notification_Repository
  imports Notification_Types
begin

text \<open>
  \<^verbatim>\<open>internal/notification/ent_repository.go\<close>: the repository over the ORM, one definition per
  method. A transaction is opened by \<open>Client_Tx\<close>; \<open>deferred\<close> is Go's
  \<^verbatim>\<open>defer rollbackUnlessCommitted(tx)\<close>, which runs on every return after that, errors included.
\<close>

record 'w EntRepository =
  er_client :: "'w db"
  er_now :: "'w \<Rightarrow> time \<times> 'w"

definition NewEntRepository :: "'w db \<Rightarrow> 'w EntRepository" where
  "NewEntRepository client = \<lparr>er_client = client, er_now = time_Now client\<rparr>"

definition EventTypeNotificationDelivery :: string where
  "EventTypeNotificationDelivery = ''notification.delivery_requested''"

definition rollbackUnlessCommitted :: "'w db \<Rightarrow> 'w \<Rightarrow> 'w" where
  "rollbackUnlessCommitted db w = (case Tx_Rollback db w of (_, w1) \<Rightarrow> w1)"

definition deferred :: "'w db \<Rightarrow> 'r \<times> 'w \<Rightarrow> 'r \<times> 'w" where
  "deferred db rw = (case rw of (r, w) \<Rightarrow> (r, rollbackUnlessCommitted db w))"

section \<open>Creating and reading\<close>

definition outbox_create :: "uuid \<Rightarrow> time \<Rightarrow> OutboxEventCreate" where
  "outbox_create nid scheduledAt =
     (let c = OutboxEventClient_Create;
          c = OutboxEventCreate_SetNotificationID nid c;
          c = OutboxEventCreate_SetEventType EventTypeNotificationDelivery c;
          c = OutboxEventCreate_SetStatus outboxevent_StatusPending c
      in OutboxEventCreate_SetScheduledAt scheduledAt c)"

definition notification_create :: "CreateRequest \<Rightarrow> NotificationCreate" where
  "notification_create req =
     (let c = NotificationClient_Create;
          c = NotificationCreate_SetURL (cr_URL req) c;
          c = NotificationCreate_SetMethod (cr_Method req) c;
          c = NotificationCreate_SetHeaders (cr_Headers req) c;
          c = NotificationCreate_SetBody (cr_Body req) c;
          c = NotificationCreate_SetStatus notification_StatusPending c
      in NotificationCreate_SetMaxAttempts (cr_MaxAttempts req) c)"

definition CreateNotification :: "'w EntRepository \<Rightarrow> CreateRequest \<Rightarrow> 'w \<Rightarrow> (goerror + ApiNotification) \<times> 'w" where
  "CreateNotification r req w =
     (case Client_Tx (er_client r) w of
        (Some err, w1) \<Rightarrow> (Inl err, w1)
      | (None, w1) \<Rightarrow> deferred (er_client r)
          (case NotificationCreate_Save (er_client r) (notification_create req) w1 of
             (Inl err, w2) \<Rightarrow> (Inl err, w2)
           | (Inr created, w2) \<Rightarrow>
               (case er_now r w2 of (now, w3) \<Rightarrow>
                (case OutboxEventCreate_Save (er_client r) (outbox_create (n_ID created) now) w3 of
                   (Inl err, w4) \<Rightarrow> (Inl err, w4)
                 | (Inr _, w4) \<Rightarrow>
                     (case Tx_Commit (er_client r) w4 of
                        (Some err, w5) \<Rightarrow> (Inl err, w5)
                      | (None, w5) \<Rightarrow> (Inr (mapEntNotification created), w5))))))"

definition GetNotification :: "'w EntRepository \<Rightarrow> uuid \<Rightarrow> 'w \<Rightarrow> (goerror + ApiNotification) \<times> 'w" where
  "GetNotification r nid w =
     (case NotificationClient_Get (er_client r) nid w of
        (Inl err, w1) \<Rightarrow> (Inl (mapEntError err), w1)
      | (Inr got, w1) \<Rightarrow> (Inr (mapEntNotification got), w1))"

definition ListDeliveryAttempts :: "'w EntRepository \<Rightarrow> uuid \<Rightarrow> 'w \<Rightarrow> (goerror + ApiDeliveryAttempt list) \<times> 'w" where
  "ListDeliveryAttempts r nid w =
     (case DeliveryAttemptQuery_All (er_client r)
             (DeliveryAttemptQuery_Order deliveryattempt_ByCreatedAt
               (DeliveryAttemptQuery_Where [deliveryattempt_NotificationIDEQ nid] DeliveryAttemptClient_Query)) w of
        (Inl err, w1) \<Rightarrow> (Inl err, w1)
      | (Inr attempts, w1) \<Rightarrow> (Inr (map mapEntAttempt attempts), w1))"

section \<open>Manual retry\<close>

definition retry_update :: "uuid \<Rightarrow> NotificationUpdate" where
  "retry_update nid =
     (let u = NotificationClient_Update;
          u = NotificationUpdate_Where [notification_IDEQ nid, notification_StatusEQ notification_StatusFailed] u;
          u = NotificationUpdate_SetStatus notification_StatusPending u;
          u = NotificationUpdate_SetAttemptCount 0 u;
          u = NotificationUpdate_ClearLastError u
      in NotificationUpdate_ClearNextAttemptAt u)"

definition RetryFailedNotification :: "'w EntRepository \<Rightarrow> uuid \<Rightarrow> 'w \<Rightarrow> (goerror + ApiNotification) \<times> 'w" where
  "RetryFailedNotification r nid w =
     (case Client_Tx (er_client r) w of
        (Some err, w1) \<Rightarrow> (Inl err, w1)
      | (None, w1) \<Rightarrow> deferred (er_client r)
          (case NotificationClient_Get (er_client r) nid w1 of
             (Inl err, w2) \<Rightarrow> (Inl (mapEntError err), w2)
           | (Inr current, w2) \<Rightarrow>
               if n_Status current \<noteq> notification_StatusFailed then (Inl (Sentinel ErrConflict), w2)
               else
                 (case NotificationUpdate_Save (er_client r) (retry_update nid) w2 of
                    (Inl err, w3) \<Rightarrow> (Inl err, w3)
                  | (Inr affected, w3) \<Rightarrow>
                      if affected \<noteq> 1 then (Inl (Sentinel ErrConflict), w3)
                      else
                        (case er_now r w3 of (now, w4) \<Rightarrow>
                         (case OutboxEventCreate_Save (er_client r) (outbox_create nid now) w4 of
                            (Inl err, w5) \<Rightarrow> (Inl err, w5)
                          | (Inr _, w5) \<Rightarrow>
                              (case Tx_Commit (er_client r) w5 of
                                 (Some err, w6) \<Rightarrow> (Inl err, w6)
                               | (None, w6) \<Rightarrow> GetNotification r nid w6))))))"

section \<open>The delivery store\<close>

definition EntLoadForDelivery :: "'w EntRepository \<Rightarrow> uuid \<Rightarrow> 'w \<Rightarrow> (goerror + Task) \<times> 'w" where
  "EntLoadForDelivery r nid w =
     (case NotificationClient_Get (er_client r) nid w of
        (Inl err, w1) \<Rightarrow> (Inl (mapEntError err), w1)
      | (Inr got, w1) \<Rightarrow>
          (Inr \<lparr>Task_ID = n_ID got, Task_URL = n_URL got, Task_Method = n_Method got,
                Task_Headers = n_Headers got, Task_Body = n_Body got, Task_Status = n_Status got,
                Task_Attempt = n_AttemptCount got, Task_MaxAttempts = n_MaxAttempts got\<rparr>, w1))"

definition mark_update :: "uuid \<Rightarrow> NotificationUpdate" where
  "mark_update nid =
     (let u = NotificationClient_Update;
          u = NotificationUpdate_Where
                [notification_IDEQ nid,
                 notification_StatusIn [notification_StatusPending, notification_StatusRetrying]] u;
          u = NotificationUpdate_SetStatus notification_StatusDelivering u
      in NotificationUpdate_ClearNextAttemptAt u)"

definition EntMarkDelivering :: "'w EntRepository \<Rightarrow> uuid \<Rightarrow> 'w \<Rightarrow> goerror option \<times> 'w" where
  "EntMarkDelivering r nid w =
     (case NotificationUpdate_Save (er_client r) (mark_update nid) w of
        (Inl err, w1) \<Rightarrow> (Some err, w1)
      | (Inr affected, w1) \<Rightarrow> if affected \<noteq> 1 then (Some (Sentinel ErrConflict), w1) else (None, w1))"

definition attempt_create :: "uuid \<Rightarrow> RecordedAttempt \<Rightarrow> string \<Rightarrow> DeliveryAttemptCreate" where
  "attempt_create nid attempt status =
     (let c = DeliveryAttemptClient_Create;
          c = DeliveryAttemptCreate_SetNotificationID nid c;
          c = DeliveryAttemptCreate_SetAttemptNumber (ra_AttemptNumber attempt) c;
          c = DeliveryAttemptCreate_SetStatus status c;
          c = DeliveryAttemptCreate_SetDurationMs (Duration_Milliseconds (ra_Duration attempt)) c;
          c = (if ra_StatusCode attempt > 0 then DeliveryAttemptCreate_SetHTTPStatus (ra_StatusCode attempt) c else c)
      in if ra_ErrorMessage attempt \<noteq> '''' then DeliveryAttemptCreate_SetErrorMessage (ra_ErrorMessage attempt) c else c)"

definition createAttempt :: "'w db \<Rightarrow> uuid \<Rightarrow> RecordedAttempt \<Rightarrow> string \<Rightarrow> 'w \<Rightarrow> goerror option \<times> 'w" where
  "createAttempt tx nid attempt status w =
     (case DeliveryAttemptCreate_Save tx (attempt_create nid attempt status) w of
        (Inl err, w1) \<Rightarrow> (Some err, w1)
      | (Inr _, w1) \<Rightarrow> (None, w1))"

definition success_update :: "uuid \<Rightarrow> RecordedAttempt \<Rightarrow> NotificationUpdate" where
  "success_update nid attempt =
     (let u = NotificationClient_Update;
          u = NotificationUpdate_Where
                [notification_IDEQ nid, notification_StatusEQ notification_StatusDelivering,
                 notification_AttemptCountEQ (ra_AttemptNumber attempt - 1)] u;
          u = NotificationUpdate_SetStatus notification_StatusSucceeded u;
          u = NotificationUpdate_SetAttemptCount (ra_AttemptNumber attempt) u;
          u = NotificationUpdate_ClearLastError u
      in NotificationUpdate_ClearNextAttemptAt u)"

definition EntRecordSuccess :: "'w EntRepository \<Rightarrow> uuid \<Rightarrow> RecordedAttempt \<Rightarrow> 'w \<Rightarrow> goerror option \<times> 'w" where
  "EntRecordSuccess r nid attempt w =
     (case Client_Tx (er_client r) w of
        (Some err, w1) \<Rightarrow> (Some err, w1)
      | (None, w1) \<Rightarrow> deferred (er_client r)
          (case NotificationUpdate_Save (er_client r) (success_update nid attempt) w1 of
             (Inl err, w2) \<Rightarrow> (Some err, w2)
           | (Inr affected, w2) \<Rightarrow>
               if affected \<noteq> 1 then (Some (Sentinel ErrConflict), w2)
               else
                 (case createAttempt (er_client r) nid attempt deliveryattempt_StatusSucceeded w2 of
                    (Some err, w3) \<Rightarrow> (Some err, w3)
                  | (None, w3) \<Rightarrow> Tx_Commit (er_client r) w3)))"

definition failure_update :: "uuid \<Rightarrow> RecordedFailure \<Rightarrow> NotificationUpdate" where
  "failure_update nid failure =
     (let notificationStatus =
            (if \<not> rf_Terminal failure \<and> rf_NextAttemptAt failure \<noteq> None
             then notification_StatusRetrying else notification_StatusFailed);
          u = NotificationClient_Update;
          u = NotificationUpdate_Where
                [notification_IDEQ nid, notification_StatusEQ notification_StatusDelivering,
                 notification_AttemptCountEQ (ra_AttemptNumber failure - 1)] u;
          u = NotificationUpdate_SetStatus notificationStatus u;
          u = NotificationUpdate_SetAttemptCount (ra_AttemptNumber failure) u;
          u = NotificationUpdate_SetLastError (ra_ErrorMessage failure) u
      in (case rf_NextAttemptAt failure of
            Some t \<Rightarrow> NotificationUpdate_SetNextAttemptAt t u
          | None \<Rightarrow> NotificationUpdate_ClearNextAttemptAt u))"

definition EntRecordFailure :: "'w EntRepository \<Rightarrow> uuid \<Rightarrow> RecordedFailure \<Rightarrow> 'w \<Rightarrow> goerror option \<times> 'w" where
  "EntRecordFailure r nid failure w =
     (case Client_Tx (er_client r) w of
        (Some err, w1) \<Rightarrow> (Some err, w1)
      | (None, w1) \<Rightarrow> deferred (er_client r)
          (let status =
                 (if \<not> rf_Terminal failure \<and> rf_NextAttemptAt failure \<noteq> None
                  then deliveryattempt_StatusRetrying else deliveryattempt_StatusFailed) in
           case NotificationUpdate_Save (er_client r) (failure_update nid failure) w1 of
             (Inl err, w2) \<Rightarrow> (Some err, w2)
           | (Inr affected, w2) \<Rightarrow>
               if affected \<noteq> 1 then (Some (Sentinel ErrConflict), w2)
               else
                 (case createAttempt (er_client r) nid (RecordedAttempt.truncate failure) status w2 of
                    (Some err, w3) \<Rightarrow> (Some err, w3)
                  | (None, w3) \<Rightarrow>
                      (case (if rf_Terminal failure then None else rf_NextAttemptAt failure) of
                         None \<Rightarrow> Tx_Commit (er_client r) w3
                       | Some t \<Rightarrow>
                           (case OutboxEventCreate_Save (er_client r) (outbox_create nid t) w3 of
                              (Inl err, w4) \<Rightarrow> (Some err, w4)
                            | (Inr _, w4) \<Rightarrow> Tx_Commit (er_client r) w4)))))"

definition ent_store :: "'w EntRepository \<Rightarrow> 'w Store" where
  "ent_store r =
     \<lparr>LoadForDelivery = EntLoadForDelivery r, MarkDelivering = EntMarkDelivering r,
      RecordSuccess = EntRecordSuccess r, RecordFailure = EntRecordFailure r\<rparr>"

end
