(* ===== verification/Stream_Message.thy ===== *)
theory Stream_Message
  imports Outbox_Store Notification_Repository
begin

text \<open>
  \<^verbatim>\<open>internal/stream/message.go\<close>: the fields of a delivery message. A Redis message arrives as a
  \<^verbatim>\<open>map[string]any\<close>; what matters of an \<^verbatim>\<open>any\<close> is whether it is a string. Printing and parsing of
  identifiers belong to \<^verbatim>\<open>github.com/google/uuid\<close> and are parameters.
\<close>

section \<open>Messages\<close>

datatype go_any =
    AnyString string
  | AnyOther

type_synonym fields = "string \<Rightarrow> go_any option"

definition DefaultStream :: string where "DefaultStream = ''notification-deliveries''"
definition DefaultGroup :: string where "DefaultGroup = ''notification-workers''"

definition fieldOutboxEventID :: string where "fieldOutboxEventID = ''outbox_event_id''"
definition fieldNotificationID :: string where "fieldNotificationID = ''notification_id''"
definition fieldEventType :: string where "fieldEventType = ''event_type''"

record DeliveryMessage =
  dm_OutboxEventID :: uuid
  dm_NotificationID :: uuid
  dm_EventType :: string

definition BuildDeliveryMessage :: "(uuid \<Rightarrow> string) \<Rightarrow> Event \<Rightarrow> fields" where
  "BuildDeliveryMessage uuid_String event =
     [fieldOutboxEventID \<mapsto> AnyString (uuid_String (ev_ID event)),
      fieldNotificationID \<mapsto> AnyString (uuid_String (ev_NotificationID event)),
      fieldEventType \<mapsto> AnyString (ev_Type event)]"

definition parseUUIDField :: "(string \<Rightarrow> goerror + uuid) \<Rightarrow> fields \<Rightarrow> string \<Rightarrow> goerror + uuid" where
  "parseUUIDField uuid_Parse values key =
     (case values key of
        None \<Rightarrow> Inl (ErrText (''stream message missing '' @ key))
      | Some AnyOther \<Rightarrow> Inl (ErrText (''stream message field '' @ key @ '' is not a string''))
      | Some (AnyString text) \<Rightarrow>
          if text = '''' then Inl (ErrText (''stream message field '' @ key @ '' is not a string''))
          else (case uuid_Parse text of
                  Inl err \<Rightarrow> Inl (ErrWrap (''stream message field '' @ key @ '' is not a uuid: '') err '''')
                | Inr i \<Rightarrow> Inr i))"

definition ParseDeliveryMessage :: "(string \<Rightarrow> goerror + uuid) \<Rightarrow> fields \<Rightarrow> goerror + DeliveryMessage" where
  "ParseDeliveryMessage uuid_Parse values =
     (case parseUUIDField uuid_Parse values fieldOutboxEventID of
        Inl err \<Rightarrow> Inl err
      | Inr outboxID \<Rightarrow>
          (case parseUUIDField uuid_Parse values fieldNotificationID of
             Inl err \<Rightarrow> Inl err
           | Inr notificationID \<Rightarrow>
               let eventType = (case values fieldEventType of Some (AnyString text) \<Rightarrow> text | _ \<Rightarrow> '''');
                   eventType = (if eventType = '''' then EventTypeNotificationDelivery else eventType)
               in Inr \<lparr>dm_OutboxEventID = outboxID, dm_NotificationID = notificationID,
                       dm_EventType = eventType\<rparr>))"

section \<open>What the two directions have to do with each other\<close>

definition delivery_message :: "Event \<Rightarrow> DeliveryMessage" where
  "delivery_message event =
     \<lparr>dm_OutboxEventID = ev_ID event, dm_NotificationID = ev_NotificationID event,
      dm_EventType = (if ev_Type event = '''' then EventTypeNotificationDelivery else ev_Type event)\<rparr>"

lemma delivery_message_sel [simp]:
  "dm_OutboxEventID (delivery_message ev) = ev_ID ev"
  "dm_NotificationID (delivery_message ev) = ev_NotificationID ev"
  by (simp_all add: delivery_message_def)

lemma field_names_distinct [simp]:
  "fieldOutboxEventID \<noteq> fieldNotificationID" "fieldOutboxEventID \<noteq> fieldEventType"
  "fieldNotificationID \<noteq> fieldOutboxEventID" "fieldEventType \<noteq> fieldOutboxEventID"
  "fieldNotificationID \<noteq> fieldEventType" "fieldEventType \<noteq> fieldNotificationID"
  by (simp_all add: fieldOutboxEventID_def fieldNotificationID_def fieldEventType_def)

lemma parseUUIDField_Inr_iff:
  "parseUUIDField p values key = Inr i \<longleftrightarrow>
     (\<exists>t. values key = Some (AnyString t) \<and> t \<noteq> '''' \<and> p t = Inr i)"
  by (auto simp: parseUUIDField_def split: option.splits go_any.splits sum.splits)

text \<open>
  The contract of the uuid package, in its documentation: the printed form is not empty and
  parses back.
\<close>

locale uuid_package =
  fixes uuid_String :: "uuid \<Rightarrow> string"
    and uuid_Parse :: "string \<Rightarrow> goerror + uuid"
  assumes uuid_Parse_String: "uuid_Parse (uuid_String i) = Inr i"
    and uuid_String_nonempty: "uuid_String i \<noteq> ''''"
begin

lemma Parse_Build: "ParseDeliveryMessage uuid_Parse (BuildDeliveryMessage uuid_String event) = Inr (delivery_message event)"
proof -
  let ?v = "BuildDeliveryMessage uuid_String event"
  have "parseUUIDField uuid_Parse ?v fieldOutboxEventID = Inr (ev_ID event)"
    "parseUUIDField uuid_Parse ?v fieldNotificationID = Inr (ev_NotificationID event)"
    "?v fieldEventType = Some (AnyString (ev_Type event))"
    by (simp_all add: parseUUIDField_def BuildDeliveryMessage_def uuid_Parse_String uuid_String_nonempty)
  then show ?thesis by (simp add: ParseDeliveryMessage_def delivery_message_def)
qed

lemma uuid_String_eq [simp]: "uuid_String a = uuid_String b \<longleftrightarrow> a = b"
  using uuid_Parse_String by (metis sum.inject(2))

end

text \<open>Identifiers as decimal digits: a printed form the contract admits.\<close>

definition digits_Parse :: "string \<Rightarrow> goerror + uuid" where
  "digits_Parse s =
     (if s \<noteq> [] \<and> list_all is_digit s then Inr (of_nat (digits_value s)) else Inl (ErrText ''invalid UUID format''))"

interpretation dec: uuid_package uuid_digits digits_Parse
  by unfold_locales (simp_all add: digits_Parse_def uuid_digits_def nat_digits_are_digits)

end
