(* ===== verification/Outbox_Relay.thy ===== *)
theory Outbox_Relay
  imports Outbox_Laws Stream_Message
begin

text \<open>
  \<^verbatim>\<open>internal/outbox/relay.go\<close>: one pass of the relay, which claims due events, publishes each to
  the stream and finishes or releases it. The contracts of \<^verbatim>\<open>outbox.Store\<close> and of
  \<^verbatim>\<open>outbox.Publisher\<close> are the locale \<open>relay_store\<close>; the relay's lemmas are proved there, and the
  locale is derived for the PostgreSQL store from the contract of the database handle.
\<close>

section \<open>The relay\<close>

record 's Relay =
  re_store :: "'s OutboxStore"
  re_publisher :: "'s Publisher"
  re_config :: RelayConfig

definition NewRelay :: "'s OutboxStore \<Rightarrow> 's Publisher \<Rightarrow> RelayConfig \<Rightarrow> 's Relay" where
  "NewRelay store publisher config =
     (let config = (if rc_BatchSize config \<le> 0 then config\<lparr>rc_BatchSize := 50\<rparr> else config);
          config = (if rc_LockerID config = '''' then config\<lparr>rc_LockerID := ''relay''\<rparr> else config)
      in \<lparr>re_store = store, re_publisher = publisher, re_config = config\<rparr>)"

fun publish_events :: "'s Relay \<Rightarrow> Event list \<Rightarrow> 's \<Rightarrow> goerror option \<times> 's" where
  "publish_events r [] s = (None, s)"
| "publish_events r (event # events) s =
     (case Publish (re_publisher r) event s of
        (Inl err, s1) \<Rightarrow>
          (case MarkFailed (re_store r) (ev_ID event) (error_text err) (rc_LockerID (re_config r)) s1 of
             (Some markErr, s2) \<Rightarrow> (Some markErr, s2)
           | (None, s2) \<Rightarrow> publish_events r events s2)
      | (Inr streamID, s1) \<Rightarrow>
          (case MarkPublished (re_store r) (ev_ID event) streamID (rc_LockerID (re_config r)) s1 of
             (Some err, s2) \<Rightarrow> (Some err, s2)
           | (None, s2) \<Rightarrow> publish_events r events s2))"

definition PublishDue :: "'s Relay \<Rightarrow> 's \<Rightarrow> goerror option \<times> 's" where
  "PublishDue r s =
     (case ClaimDue (re_store r) (rc_BatchSize (re_config r)) (rc_LockerID (re_config r)) s of
        (Inl err, s1) \<Rightarrow> (Some err, s1)
      | (Inr events, s1) \<Rightarrow> publish_events r events s1)"

section \<open>Events in the abstract\<close>

record EventView =
  ew_NotificationID :: uuid
  ew_Type :: string
  ew_Status :: string
  ew_LockedBy :: string
  ew_StreamID :: string

definition ew_held :: "string \<Rightarrow> EventView \<Rightarrow> bool" where
  "ew_held lk v \<longleftrightarrow> ew_Status v = ''publishing'' \<and> ew_LockedBy v = lk"

definition ew_open :: "EventView \<Rightarrow> bool" where
  "ew_open v \<longleftrightarrow> ew_Status v = ''pending'' \<or> ew_Status v = ''publishing''"

definition ew_message :: "uuid \<Rightarrow> EventView \<Rightarrow> DeliveryMessage" where
  "ew_message i v =
     \<lparr>dm_OutboxEventID = i, dm_NotificationID = ew_NotificationID v,
      dm_EventType = (if ew_Type v = '''' then EventTypeNotificationDelivery else ew_Type v)\<rparr>"

definition ew_of :: "EventView \<Rightarrow> Event \<Rightarrow> bool" where
  "ew_of v ev \<longleftrightarrow> ew_NotificationID v = ev_NotificationID ev \<and> ew_Type v = ev_Type ev"

lemma ew_message_of: "ew_of v ev \<Longrightarrow> ew_message (ev_ID ev) v = delivery_message ev"
  by (simp add: ew_of_def ew_message_def delivery_message_def)

text \<open>
  What a pass leaves of an event it claimed: still held, released, or published under the
  identifier of the stream entry, among the entries \<open>new\<close> of the pass, that carries it.
\<close>

definition pass_outcome :: "string \<Rightarrow> uuid \<Rightarrow> (DeliveryMessage \<times> string) list \<Rightarrow> EventView \<Rightarrow> bool" where
  "pass_outcome lk i new v \<longleftrightarrow>
     ew_held lk v \<or> ew_Status v = ''pending''
     \<or> ew_Status v = ''published'' \<and> (ew_message i v, ew_StreamID v) \<in> set new"

lemma pass_outcome_mono: "pass_outcome lk i new v \<Longrightarrow> set new \<subseteq> set new' \<Longrightarrow> pass_outcome lk i new' v"
  by (auto simp: pass_outcome_def)

lemma distinct_map_append:
  assumes "distinct (map (f \<circ> g) xs)" "distinct (map (f \<circ> g) ys)" "g ` set xs \<subseteq> {a}" "g ` set ys \<subseteq> B" "f a \<notin> f ` B"
  shows "distinct (map (f \<circ> g) (xs @ ys))"
proof -
  have "f (g x) \<noteq> f (g y)" if "x \<in> set xs" "y \<in> set ys" for x y
  proof -
    from that assms(3,4) have "g x = a" "g y \<in> B" by auto
    with assms(5) show ?thesis by auto
  qed
  then have "set (map (f \<circ> g) xs) \<inter> set (map (f \<circ> g) ys) = {}" by fastforce
  with assms(1,2) show ?thesis by simp
qed

locale relay_store =
  fixes claim :: "int \<Rightarrow> string \<Rightarrow> 's \<Rightarrow> (goerror + Event list) \<times> 's"
    and finish :: "uuid \<Rightarrow> string \<Rightarrow> string \<Rightarrow> 's \<Rightarrow> goerror option \<times> 's"
    and release :: "uuid \<Rightarrow> string \<Rightarrow> string \<Rightarrow> 's \<Rightarrow> goerror option \<times> 's"
    and publish :: "Event \<Rightarrow> 's \<Rightarrow> (goerror + string) \<times> 's"
    and view :: "'s \<Rightarrow> uuid \<Rightarrow> EventView option"
    and log :: "'s \<Rightarrow> (DeliveryMessage \<times> string) list"
    and ok :: "'s \<Rightarrow> bool"
  assumes claim_frame: "ok s \<Longrightarrow> claim n lk s = (res, s') \<Longrightarrow> ok s' \<and> log s' = log s"
    and claim_effect: "ok s \<Longrightarrow> claim n lk s = (res, s') \<Longrightarrow>
      \<exists>I. (\<forall>i\<in>I. \<exists>v v'. view s i = Some v \<and> ew_open v \<and> view s' i = Some v' \<and> ew_held lk v')
        \<and> (\<forall>i. i \<notin> I \<longrightarrow> view s' i = view s i)
        \<and> (\<forall>evs. res = Inr evs \<longrightarrow> distinct (map ev_ID evs) \<and> set (map ev_ID evs) = I
             \<and> (\<forall>ev\<in>set evs. \<forall>v. view s' (ev_ID ev) = Some v \<longrightarrow> ew_of v ev))"
    and publish_frame: "ok s \<Longrightarrow> publish ev s = (sid, s') \<Longrightarrow> ok s' \<and> view s' = view s"
    and publish_log: "ok s \<Longrightarrow> publish ev s = (sid, s') \<Longrightarrow>
      (\<exists>x. log s' = log s @ [(delivery_message ev, x)] \<and> (sid = Inr x \<or> (\<exists>e. sid = Inl e))) \<or> log s' = log s \<and> (\<exists>e. sid = Inl e)"
    and finish_frame: "ok s \<Longrightarrow> finish i x lk s = (r, s') \<Longrightarrow> ok s' \<and> log s' = log s"
    and finish_effect: "ok s \<Longrightarrow> finish i x lk s = (r, s') \<Longrightarrow>
      view s' = view s \<and> r \<noteq> None
      \<or> (\<exists>v. view s i = Some v \<and> ew_held lk v
           \<and> view s' = (view s)(i \<mapsto> v\<lparr>ew_Status := ''published'', ew_LockedBy := '''', ew_StreamID := x\<rparr>))"
    and release_frame: "ok s \<Longrightarrow> release i m lk s = (r, s') \<Longrightarrow> ok s' \<and> log s' = log s"
    and release_effect: "ok s \<Longrightarrow> release i m lk s = (r, s') \<Longrightarrow>
      view s' = view s \<and> r \<noteq> None
      \<or> (\<exists>v. view s i = Some v \<and> ew_held lk v
           \<and> view s' = (view s)(i \<mapsto> v\<lparr>ew_Status := ''pending'', ew_LockedBy := ''''\<rparr>))"
begin

definition relay :: "RelayConfig \<Rightarrow> 's Relay" where
  "relay config =
     NewRelay \<lparr>ClaimDue = claim, MarkPublished = finish, MarkFailed = release\<rparr> \<lparr>Publish = publish\<rparr> config"

abbreviation locker :: "RelayConfig \<Rightarrow> string" where
  "locker config \<equiv> rc_LockerID (re_config (relay config))"

lemma relay_sel [simp]:
  "re_store (relay c) = \<lparr>ClaimDue = claim, MarkPublished = finish, MarkFailed = release\<rparr>"
  "re_publisher (relay c) = \<lparr>Publish = publish\<rparr>"
  by (simp_all add: relay_def NewRelay_def Let_def)

definition loop_post :: "string \<Rightarrow> Event list \<Rightarrow> 's \<Rightarrow> goerror option \<Rightarrow> 's \<Rightarrow> bool" where
  "loop_post lk evs s r s' \<longleftrightarrow>
     ok s' \<and> (\<exists>new. log s' = log s @ new \<and> distinct (map (dm_OutboxEventID \<circ> fst) new) \<and> fst ` set new \<subseteq> delivery_message ` set evs
       \<and> (\<forall>i. i \<notin> ev_ID ` set evs \<longrightarrow> view s' i = view s i)
       \<and> (\<forall>i\<in>ev_ID ` set evs. \<exists>v. view s' i = Some v \<and> pass_outcome lk i new v
             \<and> (r = None \<longrightarrow> ew_Status v \<noteq> ''publishing'')))"

text \<open>One event: the message goes out at most once, and the event's row follows.\<close>

lemma publish_one:
  assumes "ok s" "publish ev s = (sid, s1)" "view s (ev_ID ev) = Some v0" "ew_held lk v0" "ew_of v0 ev"
    and mark: "(case sid of Inl e \<Rightarrow> release (ev_ID ev) (error_text e) lk s1 | Inr x \<Rightarrow> finish (ev_ID ev) x lk s1) = (r, s2)"
  shows "ok s2 \<and> (\<exists>new v. log s2 = log s @ new \<and> length new \<le> 1 \<and> fst ` set new \<subseteq> {delivery_message ev}
      \<and> view s2 = (view s)(ev_ID ev \<mapsto> v) \<and> pass_outcome lk (ev_ID ev) new v
      \<and> (r = None \<longrightarrow> ew_Status v \<noteq> ''publishing''))"
proof -
  from publish_frame [OF assms(1,2)] have s1: "ok s1" "view s1 = view s" by auto
  from publish_log [OF assms(1,2)] obtain new where
    new: "log s1 = log s @ new" "length new \<le> 1" "fst ` set new \<subseteq> {delivery_message ev}" "\<And>x. sid = Inr x \<Longrightarrow> (delivery_message ev, x) \<in> set new"
    by (elim disjE exE conjE) (rule that, auto)
  show ?thesis
  proof (cases sid)
    case (Inl e)
    with mark have m: "release (ev_ID ev) (error_text e) lk s1 = (r, s2)" by simp
    from release_frame [OF s1(1) m] new have fr: "ok s2" "log s2 = log s @ new" by auto
    let ?v = "v0\<lparr>ew_Status := ''pending'', ew_LockedBy := ''''\<rparr>"
    from release_effect [OF s1(1) m] s1(2) assms(3,4) consider
      "view s2 = (view s)(ev_ID ev \<mapsto> v0)" "r \<noteq> None" | "view s2 = (view s)(ev_ID ev \<mapsto> ?v)"
      by (auto simp: fun_upd_idem)
    then have "\<exists>v. view s2 = (view s)(ev_ID ev \<mapsto> v) \<and> pass_outcome lk (ev_ID ev) new v
        \<and> (r = None \<longrightarrow> ew_Status v \<noteq> ''publishing'')"
    proof cases
      case 1
      with assms(4) show ?thesis by (intro exI [of _ v0]) (auto simp: pass_outcome_def)
    next
      case 2
      then show ?thesis by (intro exI [of _ ?v]) (simp add: pass_outcome_def)
    qed
    with fr new show ?thesis by blast
  next
    case (Inr x)
    with mark have m: "finish (ev_ID ev) x lk s1 = (r, s2)" by simp
    from finish_frame [OF s1(1) m] new have fr: "ok s2" "log s2 = log s @ new" by auto
    let ?v = "v0\<lparr>ew_Status := ''published'', ew_LockedBy := '''', ew_StreamID := x\<rparr>"
    from finish_effect [OF s1(1) m] s1(2) assms(3,4) consider
      "view s2 = (view s)(ev_ID ev \<mapsto> v0)" "r \<noteq> None" | "view s2 = (view s)(ev_ID ev \<mapsto> ?v)"
      by (auto simp: fun_upd_idem)
    then have "\<exists>v. view s2 = (view s)(ev_ID ev \<mapsto> v) \<and> pass_outcome lk (ev_ID ev) new v
        \<and> (r = None \<longrightarrow> ew_Status v \<noteq> ''publishing'')"
    proof cases
      case 1
      with assms(4) show ?thesis by (intro exI [of _ v0]) (auto simp: pass_outcome_def)
    next
      case 2
      have "ew_message (ev_ID ev) ?v = delivery_message ev"
        unfolding ew_message_of [OF assms(5), symmetric] by (simp add: ew_message_def)
      with 2 new(4) [OF Inr] show ?thesis by (intro exI [of _ ?v]) (auto simp: pass_outcome_def)
    qed
    with fr new show ?thesis by blast
  qed
qed

lemma publish_events_post:
  assumes "ok s" "distinct (map ev_ID evs)" "\<forall>ev\<in>set evs. \<exists>v. view s (ev_ID ev) = Some v \<and> ew_held (locker c) v \<and> ew_of v ev"
    "publish_events (relay c) evs s = (r, s')"
  shows "loop_post (locker c) evs s r s'"
  using assms
proof (induction evs arbitrary: s)
  case Nil
  then show ?case by (auto simp: loop_post_def)
next
  case (Cons ev evs)
  obtain v0 where v0: "view s (ev_ID ev) = Some v0" "ew_held (locker c) v0" "ew_of v0 ev" using Cons.prems(3) by auto
  obtain sid s1 where p: "publish ev s = (sid, s1)" by (cases "publish ev s")
  let ?mark = "case sid of Inl e \<Rightarrow> release (ev_ID ev) (error_text e) (locker c) s1
      | Inr x \<Rightarrow> finish (ev_ID ev) x (locker c) s1"
  obtain m s2 where mk: "?mark = (m, s2)" by (cases ?mark)
  from publish_one [OF Cons.prems(1) p v0 mk] obtain new v where
    s2: "ok s2" "log s2 = log s @ new" "length new \<le> 1" "fst ` set new \<subseteq> {delivery_message ev}"
      "view s2 = (view s)(ev_ID ev \<mapsto> v)" "pass_outcome (locker c) (ev_ID ev) new v"
      "m = None \<Longrightarrow> ew_Status v \<noteq> ''publishing''" by blast
  have run: "publish_events (relay c) (ev # evs) s =
      (case m of Some e \<Rightarrow> (Some e, s2) | None \<Rightarrow> publish_events (relay c) evs s2)"
    using p mk by (cases sid; cases m) auto
  have dn: "distinct (map (dm_OutboxEventID \<circ> fst) new)"
    using s2(3) by (cases new; cases "tl new") auto
  have fresh: "ev_ID ev \<notin> ev_ID ` set evs" using Cons.prems(2) by auto
  then have freshm: "dm_OutboxEventID (delivery_message ev) \<notin> dm_OutboxEventID ` delivery_message ` set evs"
    by (simp add: image_comp comp_def)
  show ?case
  proof (cases m)
    case (Some e)
    with run Cons.prems(4) have rs: "r = Some e" "s' = s2" by auto
    have "\<exists>v. view s' i = Some v \<and> pass_outcome (locker c) i new v" if "i \<in> ev_ID ` set (ev # evs)" for i
      using that Cons.prems(3) s2(5,6) by (cases "i = ev_ID ev") (auto simp: rs pass_outcome_def)
    with s2 dn rs show ?thesis by (auto simp: loop_post_def)
  next
    case None
    have hold: "\<forall>ev'\<in>set evs. \<exists>v. view s2 (ev_ID ev') = Some v \<and> ew_held (locker c) v \<and> ew_of v ev'"
    proof
      fix ev' assume ev': "ev' \<in> set evs"
      with fresh have "ev_ID ev' \<noteq> ev_ID ev" by (metis image_eqI)
      with ev' Cons.prems(3) show "\<exists>v. view s2 (ev_ID ev') = Some v \<and> ew_held (locker c) v \<and> ew_of v ev'"
        by (simp add: s2(5))
    qed
    have "loop_post (locker c) evs s2 r s'"
      by (rule Cons.IH [OF s2(1) _ hold]) (use Cons.prems(2,4) run None in auto)
    then obtain new2 where n2': "ok s'" "log s' = log s2 @ new2" "distinct (map (dm_OutboxEventID \<circ> fst) new2)"
      "fst ` set new2 \<subseteq> delivery_message ` set evs" "\<forall>i. i \<notin> ev_ID ` set evs \<longrightarrow> view s' i = view s2 i"
      "\<forall>i\<in>ev_ID ` set evs. \<exists>v. view s' i = Some v \<and> pass_outcome (locker c) i new2 v
             \<and> (r = None \<longrightarrow> ew_Status v \<noteq> ''publishing'')"
      unfolding loop_post_def by (elim conjE exE)
    note n2 = n2'(1-4) mp [OF spec [OF n2'(5)]] bspec [OF n2'(6)]
    have dist: "distinct (map (dm_OutboxEventID \<circ> fst) (new @ new2))"
      by (rule distinct_map_append [OF dn n2(3) s2(4) n2(4) freshm])
    have out: "\<exists>v. view s' i = Some v \<and> pass_outcome (locker c) i (new @ new2) v
        \<and> (r = None \<longrightarrow> ew_Status v \<noteq> ''publishing'')" if "i \<in> ev_ID ` set (ev # evs)" for i
    proof (cases "i = ev_ID ev")
      case True
      with n2(5) fresh s2(5) have "view s' i = Some v" by simp
      with True s2(6,7) None pass_outcome_mono [of "locker c" i new v "new @ new2"] show ?thesis by auto
    next
      case False
      with that have "i \<in> ev_ID ` set evs" by auto
      from n2(6) [OF this] pass_outcome_mono [of "locker c" i new2 _ "new @ new2"] show ?thesis
        by (elim exE conjE) auto
    qed
    have "fst ` set (new @ new2) \<subseteq> delivery_message ` set (ev # evs)" using s2(4) n2(4) by auto
    with dist out n2(1,2) s2(2,5) n2(5) show ?thesis
      unfolding loop_post_def by (intro conjI exI [of _ "new @ new2"]) auto
  qed
qed

text \<open>
  One pass, errors included: only events that were open change; a message goes out at most once
  per event; an event is marked published only with the stream entry that carries it; and a pass
  that reports no error leaves none of its events claimed.
\<close>

lemma PublishDue_post:
  assumes "ok s" "PublishDue (relay c) s = (r, s')"
  shows "ok s' \<and> (\<exists>new. log s' = log s @ new \<and> distinct (map (dm_OutboxEventID \<circ> fst) new)
    \<and> (\<forall>i. view s' i = view s i
         \<or> (\<exists>v v'. view s i = Some v \<and> ew_open v \<and> view s' i = Some v' \<and> pass_outcome (locker c) i new v'
              \<and> (r = None \<longrightarrow> ew_Status v' \<noteq> ''publishing''))))"
proof -
  let ?n = "rc_BatchSize (re_config (relay c))"
  obtain res s1 where cl: "claim ?n (locker c) s = (res, s1)" by (cases "claim ?n (locker c) s")
  from claim_frame [OF assms(1) cl] have s1: "ok s1" "log s1 = log s" by auto
  from claim_effect [OF assms(1) cl] obtain I where
    I0: "\<forall>i\<in>I. \<exists>v v'. view s i = Some v \<and> ew_open v \<and> view s1 i = Some v' \<and> ew_held (locker c) v'"
      "\<forall>i. i \<notin> I \<longrightarrow> view s1 i = view s i"
      "\<forall>evs. res = Inr evs \<longrightarrow> distinct (map ev_ID evs) \<and> set (map ev_ID evs) = I
         \<and> (\<forall>ev\<in>set evs. \<forall>v. view s1 (ev_ID ev) = Some v \<longrightarrow> ew_of v ev)"
    by (elim exE conjE)
  note I = bspec [OF I0(1)] mp [OF spec [OF I0(2)]] mp [OF spec [OF I0(3)]]
  show ?thesis
  proof (cases res)
    case (Inl e)
    with cl assms(2) have rs: "r = Some e" "s' = s1" by (auto simp: PublishDue_def)
    have "view s1 i = view s i \<or> (\<exists>v v'. view s i = Some v \<and> ew_open v \<and> view s1 i = Some v'
        \<and> pass_outcome (locker c) i [] v' \<and> (r = None \<longrightarrow> ew_Status v' \<noteq> ''publishing''))" for i
      using I(1,2) [of i] rs(1) by (cases "i \<in> I") (auto simp: pass_outcome_def)
    with s1 rs show ?thesis by auto
  next
    case (Inr evs)
    with cl assms(2) have run: "publish_events (relay c) evs s1 = (r, s')" by (simp add: PublishDue_def)
    from I(3) [OF Inr] have evs: "distinct (map ev_ID evs)" "ev_ID ` set evs = I"
      and eo: "\<forall>ev\<in>set evs. \<forall>v. view s1 (ev_ID ev) = Some v \<longrightarrow> ew_of v ev" by auto
    have "loop_post (locker c) evs s1 r s'"
    proof (rule publish_events_post [OF s1(1) evs(1) _ run], rule ballI)
      fix ev assume ev: "ev \<in> set evs"
      with evs(2) have "ev_ID ev \<in> I" by auto
      from I(1) [OF this] bspec [OF eo ev] show "\<exists>v. view s1 (ev_ID ev) = Some v \<and> ew_held (locker c) v \<and> ew_of v ev" by blast
    qed
    then obtain new where "ok s'" "log s' = log s @ new" "distinct (map (dm_OutboxEventID \<circ> fst) new)"
      and out: "\<And>i. i \<notin> I \<Longrightarrow> view s' i = view s1 i" "\<And>i. i \<in> I \<Longrightarrow> \<exists>v. view s' i = Some v
             \<and> pass_outcome (locker c) i new v \<and> (r = None \<longrightarrow> ew_Status v \<noteq> ''publishing'')"
      by (auto simp: loop_post_def s1(2) evs(2))
    moreover have "view s' i = view s i \<or> (\<exists>v v'. view s i = Some v \<and> ew_open v \<and> view s' i = Some v'
        \<and> pass_outcome (locker c) i new v' \<and> (r = None \<longrightarrow> ew_Status v' \<noteq> ''publishing''))" for i
      using out I(1,2) [of i] by (cases "i \<in> I") auto
    ultimately show ?thesis by blast
  qed
qed

end

end
