(* ===== verification/System_Machine.thy ===== *)
theory System_Machine
  imports Task_Machine Outbox_Relay
begin

text \<open>
  The delivery system in the abstract: tasks, outbox events, the stream with the acknowledged
  entries, and the steps that the API, the relay and the workers take on them, in any order. Each
  step is one transaction of the database or one command of Redis, so every interleaving of the
  processes is a sequence of steps. The invariant says that no work is lost: a task that is due has
  an event that is still to be published, or whose message is still to be acknowledged.

  \<open>sy_spent\<close> is bookkeeping of the proof: the events whose task has moved on since (an attempt was
  recorded, or the task was found finished), so that their messages may be acknowledged.
\<close>

section \<open>States and steps\<close>

record system =
  sy_tasks :: "uuid \<Rightarrow> TaskView option"
  sy_events :: "uuid \<Rightarrow> EventView option"
  sy_log :: "(DeliveryMessage \<times> string) list"
  sy_acked :: "string set"
  sy_spent :: "uuid set"

definition events_of :: "system \<Rightarrow> uuid \<Rightarrow> uuid set" where
  "events_of s nid = {e. \<exists>x. sy_events s e = Some x \<and> ew_NotificationID x = nid}"

definition new_event :: "system \<Rightarrow> uuid \<Rightarrow> uuid \<Rightarrow> EventView \<Rightarrow> bool" where
  "new_event s nid e x \<longleftrightarrow> sy_events s e = None \<and> ew_NotificationID x = nid \<and> ew_Status x = ''pending''"

definition same_work :: "EventView \<Rightarrow> EventView \<Rightarrow> bool" where
  "same_work x x' \<longleftrightarrow> ew_NotificationID x' = ew_NotificationID x \<and> ew_Type x' = ew_Type x"

inductive sys_step :: "system \<Rightarrow> system \<Rightarrow> bool" where
  create: "sy_tasks s nid = None \<Longrightarrow> tv_Status v = StatusPending \<Longrightarrow> new_event s nid e x \<Longrightarrow>
     sys_step s (s\<lparr>sy_tasks := (sy_tasks s)(nid \<mapsto> v), sy_events := (sy_events s)(e \<mapsto> x)\<rparr>)"
| requeue: "sy_tasks s nid = Some v \<Longrightarrow> tv_Status v = StatusFailed \<Longrightarrow> new_event s nid e x \<Longrightarrow>
     sys_step s (s\<lparr>sy_tasks := (sy_tasks s)(nid \<mapsto> requeued v), sy_events := (sy_events s)(e \<mapsto> x)\<rparr>)"
| start: "sy_tasks s nid = Some v \<Longrightarrow> startable v \<Longrightarrow>
     sys_step s (s\<lparr>sy_tasks := (sy_tasks s)(nid \<mapsto> started v)\<rparr>)"
| finish: "sy_tasks s nid = Some v \<Longrightarrow> tv_Status v = StatusDelivering \<Longrightarrow> st = StatusSucceeded \<or> st = StatusFailed \<Longrightarrow>
     D \<subseteq> events_of s nid \<Longrightarrow>
     sys_step s (s\<lparr>sy_tasks := (sy_tasks s)(nid \<mapsto> finished st v), sy_spent := sy_spent s \<union> D\<rparr>)"
| reschedule: "sy_tasks s nid = Some v \<Longrightarrow> tv_Status v = StatusDelivering \<Longrightarrow> new_event s nid e x \<Longrightarrow>
     D \<subseteq> events_of s nid \<Longrightarrow>
     sys_step s (s\<lparr>sy_tasks := (sy_tasks s)(nid \<mapsto> finished StatusRetrying v),
                   sy_events := (sy_events s)(e \<mapsto> x), sy_spent := sy_spent s \<union> D\<rparr>)"
| settle: "sy_tasks s nid = Some v \<Longrightarrow> terminal v \<Longrightarrow> D \<subseteq> events_of s nid \<Longrightarrow>
     sys_step s (s\<lparr>sy_spent := sy_spent s \<union> D\<rparr>)"
| claim: "(\<And>i. E' i = sy_events s i \<or> (\<exists>x x'. sy_events s i = Some x \<and> ew_open x \<and> E' i = Some x' \<and> ew_held lk x' \<and> same_work x x')) \<Longrightarrow>
     sys_step s (s\<lparr>sy_events := E'\<rparr>)"
| publish: "sy_events s e = Some x \<Longrightarrow> i \<notin> sy_acked s \<Longrightarrow>
     sys_step s (s\<lparr>sy_log := sy_log s @ [(ew_message e x, i)]\<rparr>)"
| mark_published: "sy_events s e = Some x \<Longrightarrow> ew_held lk x \<Longrightarrow> (ew_message e x, i) \<in> set (sy_log s) \<Longrightarrow>
     sys_step s (s\<lparr>sy_events := (sy_events s)(e \<mapsto> x\<lparr>ew_Status := ''published'', ew_LockedBy := '''', ew_StreamID := i\<rparr>)\<rparr>)"
| release: "sy_events s e = Some x \<Longrightarrow> ew_held lk x \<Longrightarrow>
     sys_step s (s\<lparr>sy_events := (sy_events s)(e \<mapsto> x\<lparr>ew_Status := ''pending'', ew_LockedBy := ''''\<rparr>)\<rparr>)"
| ack: "(\<And>m. (m, i) \<in> set (sy_log s) \<Longrightarrow> dm_OutboxEventID m \<in> sy_spent s) \<Longrightarrow>
     sys_step s (s\<lparr>sy_acked := insert i (sy_acked s)\<rparr>)"

inductive_cases sys_stepE: "sys_step s s'"

inductive sys_steps :: "system \<Rightarrow> system \<Rightarrow> bool" where
  refl: "sys_steps s s"
| step: "sys_steps s s' \<Longrightarrow> sys_step s' s'' \<Longrightarrow> sys_steps s s''"

lemma sys_steps_trans: "sys_steps s' s'' \<Longrightarrow> sys_steps s s' \<Longrightarrow> sys_steps s s''"
  by (induction rule: sys_steps.induct) (auto intro: sys_steps.step)

lemma sys_steps_one: "sys_step s s' \<Longrightarrow> sys_steps s s'"
  by (rule sys_steps.step [OF sys_steps.refl])

definition sys_init :: system where
  "sys_init = \<lparr>sy_tasks = Map.empty, sy_events = Map.empty, sy_log = [], sy_acked = {}, sy_spent = {}\<rparr>"

definition sys_reachable :: "system \<Rightarrow> bool" where
  "sys_reachable s \<longleftrightarrow> sys_steps sys_init s"

section \<open>The invariant\<close>

text \<open>What keeps a due task alive: an event that is not spent.\<close>

definition due_covered :: "system \<Rightarrow> bool" where
  "due_covered s \<longleftrightarrow>
     (\<forall>nid v. sy_tasks s nid = Some v \<longrightarrow> startable v \<longrightarrow> events_of s nid - sy_spent s \<noteq> {})"

definition acks_spent :: "system \<Rightarrow> bool" where
  "acks_spent s \<longleftrightarrow> (\<forall>m i. (m, i) \<in> set (sy_log s) \<longrightarrow> i \<in> sy_acked s \<longrightarrow> dm_OutboxEventID m \<in> sy_spent s)"

definition log_faithful :: "system \<Rightarrow> bool" where
  "log_faithful s \<longleftrightarrow>
     (\<forall>m i. (m, i) \<in> set (sy_log s) \<longrightarrow>
        (\<exists>x. sy_events s (dm_OutboxEventID m) = Some x \<and> m = ew_message (dm_OutboxEventID m) x))"

definition published_logged :: "system \<Rightarrow> bool" where
  "published_logged s \<longleftrightarrow>
     (\<forall>e x. sy_events s e = Some x \<longrightarrow>
        ew_open x \<or> ew_Status x = ''published'' \<and> (ew_message e x, ew_StreamID x) \<in> set (sy_log s))"

definition spent_known :: "system \<Rightarrow> bool" where
  "spent_known s \<longleftrightarrow> sy_spent s \<subseteq> dom (sy_events s)"

definition sys_ok :: "system \<Rightarrow> bool" where
  "sys_ok s \<longleftrightarrow> due_covered s \<and> acks_spent s \<and> log_faithful s \<and> published_logged s \<and> spent_known s"

lemma sys_ok_init: "sys_ok sys_init"
  by (simp add: sys_ok_def sys_init_def due_covered_def acks_spent_def log_faithful_def published_logged_def spent_known_def)

lemma ew_message_updates [simp]:
  "ew_message e (x\<lparr>ew_Status := a\<rparr>) = ew_message e x"
  "ew_message e (x\<lparr>ew_LockedBy := a\<rparr>) = ew_message e x"
  "ew_message e (x\<lparr>ew_StreamID := a\<rparr>) = ew_message e x"
  by (simp_all add: ew_message_def)

lemma same_work_message: "same_work x x' \<Longrightarrow> ew_message e x' = ew_message e x"
  by (simp add: same_work_def ew_message_def)

lemma ew_message_id [simp]: "dm_OutboxEventID (ew_message e x) = e"
  by (simp add: ew_message_def)

lemma ew_message_nid [simp]: "dm_NotificationID (ew_message e x) = ew_NotificationID x"
  by (simp add: ew_message_def)

lemma new_event_open: "new_event s nid e x \<Longrightarrow> ew_open x"
  by (simp add: new_event_def ew_open_def)

lemma events_of_upd:
  "sy_events s e = None \<Longrightarrow> {e'. \<exists>y. ((sy_events s)(e \<mapsto> x)) e' = Some y \<and> ew_NotificationID y = nid}
     = (if ew_NotificationID x = nid then insert e (events_of s nid) else events_of s nid)"
  by (auto simp: events_of_def)

lemma step_known:
  assumes "sys_step s s'" "spent_known s"
  shows "spent_known s'"
  using assms
proof (cases rule: sys_step.cases)
  case (claim E' lk)
  then have "dom E' = dom (sy_events s)" by (metis (no_types, lifting) domD domI subset_antisym subsetI option.simps(3))
  with claim assms(2) show ?thesis by (simp add: spent_known_def)
qed (auto simp: spent_known_def events_of_def)

text \<open>Every step keeps the work of every event, and only adds events.\<close>

lemma step_events:
  assumes "sys_step s s'" "sy_events s e = Some x"
  shows "\<exists>x'. sy_events s' e = Some x' \<and> same_work x x'"
  using assms
proof (cases rule: sys_step.cases)
  case (claim E' lk)
  from claim(2) [of e] show ?thesis using assms(2) claim(1) by (auto simp: same_work_def)
qed (auto simp: same_work_def new_event_def)

lemma step_events_of: "sys_step s s' \<Longrightarrow> events_of s nid \<subseteq> events_of s' nid"
  using step_events by (fastforce simp: events_of_def same_work_def)

lemma steps_events_of: "sys_steps s s' \<Longrightarrow> events_of s nid \<subseteq> events_of s' nid"
  by (induction rule: sys_steps.induct) (auto dest: step_events_of)

lemma step_log: "sys_step s s' \<Longrightarrow> (\<exists>new. sy_log s' = sy_log s @ new
    \<and> (\<forall>mi\<in>set new. \<exists>x. sy_events s' (dm_OutboxEventID (fst mi)) = Some x \<and> fst mi = ew_message (dm_OutboxEventID (fst mi)) x
         \<and> snd mi \<notin> sy_acked s'))"
  by (cases rule: sys_step.cases) auto

lemma step_faithful:
  assumes "sys_step s s'" "log_faithful s"
  shows "log_faithful s'"
proof -
  from step_log [OF assms(1)] obtain new where new: "sy_log s' = sy_log s @ new"
    "\<forall>mi\<in>set new. \<exists>x. sy_events s' (dm_OutboxEventID (fst mi)) = Some x \<and> fst mi = ew_message (dm_OutboxEventID (fst mi)) x"
    by blast
  show ?thesis
    unfolding log_faithful_def
  proof (intro allI impI)
    fix m i assume "(m, i) \<in> set (sy_log s')"
    then consider "(m, i) \<in> set (sy_log s)" | "(m, i) \<in> set new" using new by auto
    then show "\<exists>x. sy_events s' (dm_OutboxEventID m) = Some x \<and> m = ew_message (dm_OutboxEventID m) x"
    proof cases
      case 1
      with assms(2) obtain x where x: "sy_events s (dm_OutboxEventID m) = Some x" "m = ew_message (dm_OutboxEventID m) x"
        by (auto simp: log_faithful_def)
      from step_events [OF assms(1) x(1)] x(2) show ?thesis by (metis same_work_message)
    next
      case 2
      with new(2) show ?thesis by force
    qed
  qed
qed

lemma step_acks:
  assumes "sys_step s s'" "acks_spent s"
  shows "acks_spent s'"
  using assms by (cases rule: sys_step.cases) (auto simp: acks_spent_def)

lemma step_published:
  assumes "sys_step s s'" "published_logged s"
  shows "published_logged s'"
  using assms
proof (cases rule: sys_step.cases)
  case (claim E' lk)
  show ?thesis
    unfolding published_logged_def
  proof (intro allI impI)
    fix e x' assume "sy_events s' e = Some x'"
    with claim have e': "E' e = Some x'" by simp
    from claim(2) [of e] e' consider "sy_events s e = Some x'" | "ew_held lk x'" by auto
    then show "ew_open x' \<or> ew_Status x' = ''published'' \<and> (ew_message e x', ew_StreamID x') \<in> set (sy_log s')"
      using assms(2) claim(1) by cases (auto simp: published_logged_def ew_held_def ew_open_def)
  qed
next
  case (publish e x i)
  then show ?thesis using assms(2) by (auto simp: published_logged_def)
qed (auto simp: published_logged_def new_event_def ew_open_def)

lemma events_of_disjoint: "e \<in> events_of s a \<Longrightarrow> e \<in> events_of s b \<Longrightarrow> a = b"
  by (auto simp: events_of_def)

lemma step_covered:
  assumes "sys_step s s'" "due_covered s" "spent_known s"
  shows "due_covered s'"
proof -
  have fresh: "e \<notin> sy_spent s" if "sy_events s e = None" for e
    using assms(3) that by (auto simp: spent_known_def)
  note keep = step_events_of [OF assms(1)]
  have old: "\<exists>e. e \<in> events_of s nid - sy_spent s" if "sy_tasks s nid = Some v" "startable v" for nid v
    using assms(2) that by (auto simp: due_covered_def)
  show ?thesis
    unfolding due_covered_def
  proof (intro allI impI)
    fix nid v assume v: "sy_tasks s' nid = Some v" "startable v"
    from assms(1) show "events_of s' nid - sy_spent s' \<noteq> {}"
    proof (cases rule: sys_step.cases)
      case (create nid1 v1 e x)
      show ?thesis
      proof (cases "nid = nid1")
        case True
        with create have "e \<in> events_of s' nid - sy_spent s'" using fresh [of e] by (auto simp: events_of_def new_event_def)
        then show ?thesis by blast
      next
        case False
        with create v old [of nid v] keep [of nid] show ?thesis by auto
      qed
    next
      case (requeue nid1 v1 e x)
      show ?thesis
      proof (cases "nid = nid1")
        case True
        with requeue have "e \<in> events_of s' nid - sy_spent s'" using fresh [of e] by (auto simp: events_of_def new_event_def)
        then show ?thesis by blast
      next
        case False
        with requeue v old [of nid v] keep [of nid] show ?thesis by auto
      qed
    next
      case (start nid1 v1)
      with v have "nid \<noteq> nid1" by (auto simp: started_def startable_def)
      with start v old [of nid v] keep [of nid] show ?thesis by auto
    next
      case (finish nid1 v1 st D)
      with v have n: "nid \<noteq> nid1" by (auto simp: finished_def startable_def)
      with finish v old [of nid v] obtain e where e: "e \<in> events_of s nid" "e \<notin> sy_spent s" by auto
      with finish n have "e \<notin> D" by (auto dest: events_of_disjoint)
      with e finish keep [of nid] show ?thesis by auto
    next
      case (reschedule nid1 v1 e x D)
      show ?thesis
      proof (cases "nid = nid1")
        case True
        from reschedule have "e \<notin> D" by (auto simp: events_of_def new_event_def)
        with True reschedule have "e \<in> events_of s' nid - sy_spent s'" using fresh [of e] by (auto simp: events_of_def new_event_def)
        then show ?thesis by blast
      next
        case n: False
        with reschedule v old [of nid v] obtain e' where e: "e' \<in> events_of s nid" "e' \<notin> sy_spent s" by auto
        with reschedule n have "e' \<notin> D" by (auto dest: events_of_disjoint)
        with e reschedule keep [of nid] show ?thesis by auto
      qed
    next
      case (settle nid1 v1 D)
      with v have n: "nid \<noteq> nid1" by (auto simp: terminal_def startable_def)
      with settle v old [of nid v] obtain e where e: "e \<in> events_of s nid" "e \<notin> sy_spent s" by auto
      with settle n have "e \<notin> D" by (auto dest: events_of_disjoint)
      with e settle keep [of nid] show ?thesis by auto
    qed (use v old [of nid v] keep [of nid] in auto)
  qed
qed

lemma step_ok: "sys_step s s' \<Longrightarrow> sys_ok s \<Longrightarrow> sys_ok s'"
  unfolding sys_ok_def
  using step_covered step_acks step_faithful step_published step_known by blast

lemma steps_ok: "sys_steps s s' \<Longrightarrow> sys_ok s \<Longrightarrow> sys_ok s'"
  by (induction rule: sys_steps.induct) (auto intro: step_ok)

lemma reachable_ok: "sys_reachable s \<Longrightarrow> sys_ok s"
  unfolding sys_reachable_def by (rule steps_ok [OF _ sys_ok_init])

section \<open>No work is lost\<close>

text \<open>
  A task that is due has an outbox event that is still to be published, or a message in the stream
  that is not acknowledged.
\<close>

definition work_covered ::
    "(uuid \<Rightarrow> TaskView option) \<Rightarrow> (uuid \<Rightarrow> EventView option) \<Rightarrow> (DeliveryMessage \<times> string) list \<Rightarrow> string set \<Rightarrow> bool" where
  "work_covered T E L A \<longleftrightarrow>
     (\<forall>nid v. T nid = Some v \<longrightarrow> startable v \<longrightarrow>
        (\<exists>e x. E e = Some x \<and> ew_NotificationID x = nid
           \<and> (ew_open x \<or> (\<exists>i. (ew_message e x, i) \<in> set L \<and> i \<notin> A))))"

lemma ok_covered:
  assumes "sys_ok s"
  shows "work_covered (sy_tasks s) (sy_events s) (sy_log s) (sy_acked s)"
  unfolding work_covered_def
proof (intro allI impI)
  fix nid v assume "sy_tasks s nid = Some v" "startable v"
  with assms obtain e x where e: "e \<notin> sy_spent s" "sy_events s e = Some x" "ew_NotificationID x = nid"
    unfolding sys_ok_def due_covered_def events_of_def by fastforce
  from assms e(2) have "ew_open x \<or> (ew_message e x, ew_StreamID x) \<in> set (sy_log s)"
    unfolding sys_ok_def published_logged_def by blast
  moreover have "i \<notin> sy_acked s" if "(ew_message e x, i) \<in> set (sy_log s)" for i
    using assms e(1) that unfolding sys_ok_def acks_spent_def by force
  ultimately show "\<exists>e x. sy_events s e = Some x \<and> ew_NotificationID x = nid
      \<and> (ew_open x \<or> (\<exists>i. (ew_message e x, i) \<in> set (sy_log s) \<and> i \<notin> sy_acked s))"
    using e by blast
qed

lemma reachable_covered:
  "sys_reachable s \<Longrightarrow> work_covered (sy_tasks s) (sy_events s) (sy_log s) (sy_acked s)"
  by (rule ok_covered [OF reachable_ok])

end
