(* ===== verification/Stream_Redis.thy ===== *)
theory Stream_Redis
  imports Stream_Message Go_Strings
begin

text \<open>
  \<^verbatim>\<open>internal/stream/redis.go\<close>: the publisher and the consumer of the delivery stream. The Redis
  client is a parameter; the behaviour of streams and consumer groups that the code relies on is
  the locale \<open>redis_streams\<close>. The consumer's central property is an invariant of the group: a
  message that has been handed out and is no longer pending was malformed, or the notification
  it names is settled.
\<close>

section \<open>The Redis client\<close>

record XMessage =
  xm_ID :: string
  xm_Values :: fields

record XReadGroupArgs =
  xr_Group :: string
  xr_Consumer :: string
  xr_Streams :: "string list"
  xr_Count :: int
  xr_Block :: duration

record XAutoClaimArgs =
  xc_Stream :: string
  xc_Group :: string
  xc_Consumer :: string
  xc_MinIdle :: duration
  xc_Start :: string
  xc_Count :: int

record 'w redis =
  XAdd :: "string \<Rightarrow> fields \<Rightarrow> 'w \<Rightarrow> (goerror + string) \<times> 'w"
  XGroupCreateMkStream :: "string \<Rightarrow> string \<Rightarrow> string \<Rightarrow> 'w \<Rightarrow> goerror option \<times> 'w"
  XReadGroup :: "XReadGroupArgs \<Rightarrow> 'w \<Rightarrow> (goerror + (string \<times> XMessage list) list) \<times> 'w"
  XAutoClaim :: "XAutoClaimArgs \<Rightarrow> 'w \<Rightarrow> (goerror + XMessage list \<times> string) \<times> 'w"
  XAck :: "string \<Rightarrow> string \<Rightarrow> string \<Rightarrow> 'w \<Rightarrow> (goerror + int) \<times> 'w"
  redis_Nil :: "goerror \<Rightarrow> bool"

section \<open>Publisher\<close>

record 'w StreamPublisher =
  sp_client :: "'w redis"
  sp_stream :: string

definition NewPublisher :: "'w redis \<Rightarrow> string \<Rightarrow> 'w StreamPublisher" where
  "NewPublisher client stream =
     \<lparr>sp_client = client, sp_stream = (if stream = '''' then DefaultStream else stream)\<rparr>"

definition StreamPublish :: "(uuid \<Rightarrow> string) \<Rightarrow> 'w StreamPublisher \<Rightarrow> Event \<Rightarrow> 'w \<Rightarrow> (goerror + string) \<times> 'w" where
  "StreamPublish uuid_String p event w =
     XAdd (sp_client p) (sp_stream p) (BuildDeliveryMessage uuid_String event) w"

section \<open>Consumer\<close>

record 'w Consumer =
  co_client :: "'w redis"
  co_stream :: string
  co_group :: string
  co_consumer :: string
  co_processor :: "uuid \<Rightarrow> 'w \<Rightarrow> goerror option \<times> 'w"

definition NewConsumer ::
    "'w redis \<Rightarrow> string \<Rightarrow> string \<Rightarrow> string \<Rightarrow> (uuid \<Rightarrow> 'w \<Rightarrow> goerror option \<times> 'w) \<Rightarrow> 'w Consumer" where
  "NewConsumer client streamName grp consumer processor =
     \<lparr>co_client = client,
      co_stream = (if streamName = '''' then DefaultStream else streamName),
      co_group = (if grp = '''' then DefaultGroup else grp),
      co_consumer = (if consumer = '''' then ''worker'' else consumer),
      co_processor = processor\<rparr>"

definition EnsureGroup :: "'w Consumer \<Rightarrow> 'w \<Rightarrow> goerror option \<times> 'w" where
  "EnsureGroup c w =
     (case XGroupCreateMkStream (co_client c) (co_stream c) (co_group c) ''0'' w of
        (Some err, w1) \<Rightarrow> if \<not> sublist ''BUSYGROUP'' (error_text err) then (Some err, w1) else (None, w1)
      | (None, w1) \<Rightarrow> (None, w1))"

definition processMessage :: "(string \<Rightarrow> goerror + uuid) \<Rightarrow> 'w Consumer \<Rightarrow> XMessage \<Rightarrow> 'w \<Rightarrow> goerror option \<times> 'w" where
  "processMessage uuid_Parse c msg w =
     (case ParseDeliveryMessage uuid_Parse (xm_Values msg) of
        Inl err \<Rightarrow>
          (case XAck (co_client c) (co_stream c) (co_group c) (xm_ID msg) w of
             (Inl ackErr, w1) \<Rightarrow> (errors_Join (Some err) (Some ackErr), w1)
           | (Inr n, w1) \<Rightarrow> (None, w1))
      | Inr parsed \<Rightarrow>
          (case co_processor c (dm_NotificationID parsed) w of
             (Some err, w1) \<Rightarrow> (Some err, w1)
           | (None, w1) \<Rightarrow>
               (case XAck (co_client c) (co_stream c) (co_group c) (xm_ID msg) w1 of
                  (Inl err, w2) \<Rightarrow> (Some err, w2)
                | (Inr n, w2) \<Rightarrow> (None, w2))))"

fun process_messages ::
    "(string \<Rightarrow> goerror + uuid) \<Rightarrow> 'w Consumer \<Rightarrow> XMessage list \<Rightarrow> goerror option \<Rightarrow> 'w \<Rightarrow> goerror option \<times> 'w" where
  "process_messages uuid_Parse c [] firstErr w = (firstErr, w)"
| "process_messages uuid_Parse c (msg # msgs) firstErr w =
     (case processMessage uuid_Parse c msg w of
        (Some err, w1) \<Rightarrow> process_messages uuid_Parse c msgs (errors_Join firstErr (Some err)) w1
      | (None, w1) \<Rightarrow> process_messages uuid_Parse c msgs firstErr w1)"

definition ReadAndProcess ::
    "(string \<Rightarrow> goerror + uuid) \<Rightarrow> 'w Consumer \<Rightarrow> int \<Rightarrow> duration \<Rightarrow> 'w \<Rightarrow> goerror option \<times> 'w" where
  "ReadAndProcess uuid_Parse c cnt block w =
     (case XReadGroup (co_client c)
             \<lparr>xr_Group = co_group c, xr_Consumer = co_consumer c, xr_Streams = [co_stream c, ''>''],
              xr_Count = cnt, xr_Block = block\<rparr> w of
        (Inl err, w1) \<Rightarrow> if redis_Nil (co_client c) err then (None, w1) else (Some err, w1)
      | (Inr streams, w1) \<Rightarrow> process_messages uuid_Parse c (concat (map snd streams)) None w1)"

text \<open>The scan of pending messages; the loop ends when Redis returns the cursor \<^verbatim>\<open>0-0\<close>.\<close>

partial_function (option) claim_loop ::
    "(string \<Rightarrow> goerror + uuid) \<Rightarrow> 'w Consumer \<Rightarrow> duration \<Rightarrow> int \<Rightarrow> string \<Rightarrow> goerror option \<Rightarrow> 'w
      \<Rightarrow> (goerror option \<times> 'w) option" where
  "claim_loop uuid_Parse c minIdle cnt start firstErr w =
     (case XAutoClaim (co_client c)
             \<lparr>xc_Stream = co_stream c, xc_Group = co_group c, xc_Consumer = co_consumer c,
              xc_MinIdle = minIdle, xc_Start = start, xc_Count = cnt\<rparr> w of
        (Inl err, w1) \<Rightarrow>
          if redis_Nil (co_client c) err then Some (firstErr, w1)
          else Some (errors_Join firstErr (Some err), w1)
      | (Inr (messages, next_start), w1) \<Rightarrow>
          (case process_messages uuid_Parse c messages firstErr w1 of
             (firstErr1, w2) \<Rightarrow>
               if next_start = ''0-0'' then Some (firstErr1, w2)
               else claim_loop uuid_Parse c minIdle cnt next_start firstErr1 w2))"

definition ClaimAndProcess ::
    "(string \<Rightarrow> goerror + uuid) \<Rightarrow> 'w Consumer \<Rightarrow> duration \<Rightarrow> int \<Rightarrow> 'w \<Rightarrow> (goerror option \<times> 'w) option" where
  "ClaimAndProcess uuid_Parse c minIdle cnt w = claim_loop uuid_Parse c minIdle cnt ''0-0'' None w"

section \<open>Streams and consumer groups\<close>

lemma fun_upd2_apply: "(f(a := (f a)(b := x))) s g = (if s = a \<and> g = b then x else f s g)"
  by simp

text \<open>
  Streams and groups in good order: entry identifiers are unique, what is pending was handed out,
  and what was handed out is in the stream.
\<close>

definition groups_wf :: "(string \<Rightarrow> (string \<times> fields) list) \<Rightarrow> (string \<Rightarrow> string \<Rightarrow> string set)
    \<Rightarrow> (string \<Rightarrow> string \<Rightarrow> string set) \<Rightarrow> bool" where
  "groups_wf es hs ps \<longleftrightarrow>
     (\<forall>st. distinct (map fst (es st)) \<and> (\<forall>g. ps st g \<subseteq> hs st g \<and> hs st g \<subseteq> fst ` set (es st)))"

text \<open>
  The documented behaviour of Redis Streams. \<open>entries\<close> are the entries of a stream in order,
  \<open>handed\<close> the identifiers a group has been given, \<open>pending\<close> those it has been given and has not
  acknowledged, \<open>rest\<close> everything that is not Redis. A command that reports an error may have
  taken effect.
\<close>

locale redis_streams =
  fixes rd :: "'w redis"
    and entries :: "'w \<Rightarrow> string \<Rightarrow> (string \<times> fields) list"
    and handed :: "'w \<Rightarrow> string \<Rightarrow> string \<Rightarrow> string set"
    and pending :: "'w \<Rightarrow> string \<Rightarrow> string \<Rightarrow> string set"
    and id_key :: "string \<Rightarrow> nat"
    and rest :: "'w \<Rightarrow> 'f"
  assumes add_served: "XAdd rd st vs w = (sid, w') \<Longrightarrow>
      rest w' = rest w \<and> handed w' = handed w \<and> pending w' = pending w \<and>
      ((\<exists>e. sid = Inl e) \<and> entries w' = entries w
       \<or> (\<exists>i. i \<notin> fst ` set (entries w st) \<and> entries w' = (entries w)(st := entries w st @ [(i, vs)])
            \<and> (sid = Inr i \<or> (\<exists>e. sid = Inl e))))"
    and group_served: "XGroupCreateMkStream rd st g x w = (e, w') \<Longrightarrow>
      rest w' = rest w \<and> entries w' = entries w \<and> handed w' = handed w \<and> pending w' = pending w"
    and read_served: "xr_Streams a = [st, ''>''] \<Longrightarrow> XReadGroup rd a w = (streams, w') \<Longrightarrow>
      rest w' = rest w \<and> entries w' = entries w \<and>
      (\<exists>new. new \<subseteq> fst ` set (entries w st) - handed w st (xr_Group a)
         \<and> handed w' = (handed w)(st := (handed w st)(xr_Group a := handed w st (xr_Group a) \<union> new))
         \<and> pending w' = (pending w)(st := (pending w st)(xr_Group a := pending w st (xr_Group a) \<union> new))
         \<and> (\<forall>ss. streams = Inr ss \<longrightarrow> (\<forall>m\<in>set (concat (map snd ss)). (xm_ID m, xm_Values m) \<in> set (entries w st) \<and> xm_ID m \<in> new)))"
    and autoclaim_served: "XAutoClaim rd b w = (msgs, w') \<Longrightarrow>
      rest w' = rest w \<and> entries w' = entries w \<and> handed w' = handed w \<and>
      (\<exists>lost. lost \<inter> fst ` set (entries w (xc_Stream b)) = {}
         \<and> pending w' = (pending w)(xc_Stream b :=
             (pending w (xc_Stream b))(xc_Group b := pending w (xc_Stream b) (xc_Group b) - lost))
         \<and> (\<forall>ms next. msgs = Inr (ms, next) \<longrightarrow>
              (\<forall>m\<in>set ms. (xm_ID m, xm_Values m) \<in> set (entries w (xc_Stream b))
                 \<and> xm_ID m \<in> pending w (xc_Stream b) (xc_Group b))
            \<and> (next = ''0-0'' \<or> (\<exists>p\<in>pending w (xc_Stream b) (xc_Group b).
                  id_key (xc_Start b) \<le> id_key p \<and> id_key p < id_key next))))"
    and ack_served: "XAck rd st g i w = (cnt, w') \<Longrightarrow>
      rest w' = rest w \<and> entries w' = entries w \<and> handed w' = handed w \<and>
      ((\<exists>e. cnt = Inl e) \<and> pending w' = pending w
       \<or> pending w' = (pending w)(st := (pending w st)(g := pending w st g - {i})))"
begin

text \<open>The contract says less when less is known of the rest of the world.\<close>

lemma coarser_rest: "redis_streams rd entries handed pending id_key (\<lambda>w. f (rest w))"
proof (unfold_locales, goal_cases)
  case (1 st vs w sid w')
  then show ?case using add_served [OF 1] by simp
next
  case (2 st g x w e w')
  then show ?case using group_served [OF 2] by simp
next
  case (3 a st w streams w')
  from read_served [OF 3] show ?case by (elim conjE) (intro conjI, simp, assumption+)
next
  case (4 b w msgs w')
  from autoclaim_served [OF 4] show ?case by (elim conjE) (intro conjI, simp, assumption+)
next
  case (5 st g i w cnt w')
  then show ?case using ack_served [OF 5] by simp
qed

definition streams_wf :: "'w \<Rightarrow> bool" where
  "streams_wf w \<longleftrightarrow>
     (\<forall>st. distinct (map fst (entries w st))
        \<and> (\<forall>g. pending w st g \<subseteq> handed w st g \<and> handed w st g \<subseteq> fst ` set (entries w st)))"

lemma streams_wf_groups: "streams_wf w \<longleftrightarrow> groups_wf (entries w) (handed w) (pending w)"
  by (simp add: streams_wf_def groups_wf_def)

lemma streams_wf_finite: "streams_wf w \<Longrightarrow> finite (pending w st g)"
  unfolding streams_wf_def by (meson finite_imageI finite_set rev_finite_subset)

lemma streams_wf_same:
  assumes "streams_wf w" "entries w' = entries w" "handed w' = handed w" "\<And>st g. pending w' st g \<subseteq> pending w st g"
  shows "streams_wf w'"
  using assms by (auto simp: streams_wf_def) (meson in_mono)

lemma add_wf: "streams_wf w \<Longrightarrow> XAdd rd st vs w = (r, w') \<Longrightarrow> streams_wf w'"
  using add_served [of st vs w r w'] by (fastforce simp: streams_wf_def)

lemma read_wf:
  assumes "streams_wf w" "xr_Streams a = [st, ''>'']" "XReadGroup rd a w = (streams, w')"
  shows "streams_wf w'"
proof -
  from read_served [OF assms(2,3)] obtain new where
    e: "entries w' = entries w" and n: "new \<subseteq> fst ` set (entries w st) - handed w st (xr_Group a)"
    and hp: "handed w' = (handed w)(st := (handed w st)(xr_Group a := handed w st (xr_Group a) \<union> new))"
      "pending w' = (pending w)(st := (pending w st)(xr_Group a := pending w st (xr_Group a) \<union> new))"
    by (elim conjE exE) (rule that)
  have "pending w' s g \<subseteq> handed w' s g \<and> handed w' s g \<subseteq> fst ` set (entries w' s)" for s g
    unfolding hp fun_upd2_apply e using assms(1) n by (auto simp: streams_wf_def)
  then show ?thesis using assms(1) by (simp add: streams_wf_def e)
qed

lemma autoclaim_wf:
  assumes "streams_wf w" "XAutoClaim rd a w = (msgs, w')"
  shows "streams_wf w'"
proof (rule streams_wf_same [OF assms(1)])
  from autoclaim_served [OF assms(2)] show "entries w' = entries w" "handed w' = handed w" by auto
  from autoclaim_served [OF assms(2)] obtain lost where
    "pending w' = (pending w)(xc_Stream a := (pending w (xc_Stream a))(xc_Group a := pending w (xc_Stream a) (xc_Group a) - lost))"
    by (elim conjE exE) (rule that)
  then show "pending w' st g \<subseteq> pending w st g" for st g
    by (auto simp: fun_upd2_apply split: if_splits)
qed

lemma ack_wf:
  assumes "streams_wf w" "XAck rd st g i w = (cnt, w')"
  shows "streams_wf w'"
proof (rule streams_wf_same [OF assms(1)])
  from ack_served [OF assms(2)] show "entries w' = entries w" "handed w' = handed w" by auto
  from ack_served [OF assms(2)] show "pending w' s h \<subseteq> pending w s h" for s h
    by (auto split: if_splits)
qed

end

end
