(* ===== verification/Outbox_Env.thy ===== *)
theory Outbox_Env
  imports Outbox_Relay Stream_Redis
begin

text \<open>
  The relay as \<^verbatim>\<open>cmd/relay/main.go\<close> wires it: the PostgreSQL store and the Redis publisher. From
  the contracts of the database handle and of Redis Streams follows the contract \<open>relay_store\<close>.
\<close>

definition pg_relay :: "'w sqldb \<Rightarrow> (uuid \<Rightarrow> string) \<Rightarrow> 'w redis \<Rightarrow> string \<Rightarrow> string \<Rightarrow> 'w Relay" where
  "pg_relay sq uuid_String rd streamName hostname =
     NewRelay (NewPostgresStore sq) \<lparr>Publish = StreamPublish uuid_String (NewPublisher rd streamName)\<rparr>
       \<lparr>rc_BatchSize = 50, rc_LockerID = hostname\<rparr>"

section \<open>Views of events and of the stream\<close>

definition row_event :: "row \<Rightarrow> EventView" where
  "row_event r =
     \<lparr>ew_NotificationID = col_uuid (r FieldNotificationID), ew_Type = col_string (r FieldEventType),
      ew_Status = col_string (r FieldStatus), ew_LockedBy = col_string (r FieldLockedBy),
      ew_StreamID = col_string (r FieldStreamID)\<rparr>"

definition event_views :: "tables \<Rightarrow> uuid \<Rightarrow> EventView option" where
  "event_views t i = map_option row_event (find_row Table_outbox_events i t)"

definition stream_log :: "(string \<Rightarrow> goerror + uuid) \<Rightarrow> (string \<times> fields) list \<Rightarrow> (DeliveryMessage \<times> string) list" where
  "stream_log uuid_Parse es =
     List.map_filter (\<lambda>(i, vs). case ParseDeliveryMessage uuid_Parse vs of Inl e \<Rightarrow> None | Inr m \<Rightarrow> Some (m, i)) es"

lemma stream_log_snoc:
  "ParseDeliveryMessage p vs = Inr m \<Longrightarrow> stream_log p (es @ [(i, vs)]) = stream_log p es @ [(m, i)]"
  by (simp add: stream_log_def List.map_filter_def)

lemma row_event_updates [simp]:
  "row_event (claimed_row l now r) = (row_event r)\<lparr>ew_Status := ''publishing'', ew_LockedBy := l\<rparr>"
  "row_event (published_row x now r) = (row_event r)\<lparr>ew_Status := ''published'', ew_LockedBy := '''', ew_StreamID := x\<rparr>"
  "row_event (released_row m now r) = (row_event r)\<lparr>ew_Status := ''pending'', ew_LockedBy := ''''\<rparr>"
  by (simp_all add: row_event_def claimed_row_upd published_row_def released_row_def)

lemma event_views_set_row:
  assumes "\<And>r. f r FieldID = r FieldID" "find_row Table_outbox_events i t = Some r"
  shows "event_views (set_row Table_outbox_events i f t) = (event_views t)(i \<mapsto> row_event (f r))"
  using assms by (auto simp: event_views_def find_set_row fun_eq_iff)

lemma held_view: "held i lk t \<Longrightarrow> \<exists>r. find_row Table_outbox_events i t = Some r
    \<and> event_views t i = Some (row_event r) \<and> ew_held lk (row_event r)"
  by (auto simp: held_def event_views_def ew_held_def row_event_def)

lemma claimable_open: "claimable now r \<Longrightarrow> ew_open (row_event r)"
  by (auto simp: claimable_def ew_open_def row_event_def)

lemma set_event_wf:
  assumes "tables_wf t" "\<And>r. f r FieldID = r FieldID"
    "\<And>r. row_typed outboxevent_schema r \<Longrightarrow> row_typed outboxevent_schema (f r)"
  shows "tables_wf (set_row Table_outbox_events i f t)"
proof (rule set_row_wf [OF assms(1)])
  fix r
  show "f r FieldID = r FieldID" by (rule assms(2))
  assume "find_row Table_outbox_events i t = Some r"
  from find_row_typed [OF assms(1) this] show "row_typed (table_schema Table_outbox_events) (f r)"
    by (simp add: assms(3))
qed

text \<open>A claim, seen through the views.\<close>

lemma claims_views:
  assumes wf: "tables_wf t" and c: "claims (claim_query limit now) (claim_set lk now) t rs t'"
  defines "evs \<equiv> map event_of_row rs"
  shows "distinct (map ev_ID evs)"
    and "i \<in> ev_ID ` set evs \<Longrightarrow>
      \<exists>v v'. event_views t i = Some v \<and> ew_open v \<and> event_views t' i = Some v' \<and> ew_held lk v'"
    and "i \<notin> ev_ID ` set evs \<Longrightarrow> event_views t' i = event_views t i"
    and "ev \<in> set evs \<Longrightarrow> event_views t' (ev_ID ev) = Some v \<Longrightarrow> ew_of v ev"
proof -
  note ce = claims_effect [OF wf c]
  have idof: "ev_ID (event_of_row r) = i" if "has_id i r" for r i
    using that by (simp add: has_id_def event_of_row_def)
  have "ev_ID (event_of_row r) = ev_ID (event_of_row r') \<longleftrightarrow> row_id r = row_id r'" if "r \<in> set rs" "r' \<in> set rs" for r r'
    using ce(4) [OF that(1)] ce(4) [OF that(2)] idof by (auto simp: has_id_def row_id_def)
  then have "inj_on row_id (set rs) \<longleftrightarrow> inj_on (ev_ID \<circ> event_of_row) (set rs)"
    by (auto simp: inj_on_def)
  with ce(2) show "distinct (map ev_ID evs)" by (simp add: evs_def distinct_map)
  show "\<exists>v v'. event_views t i = Some v \<and> ew_open v \<and> event_views t' i = Some v' \<and> ew_held lk v'"
    if i: "i \<in> ev_ID ` set evs"
  proof -
    from i obtain r' where r': "r' \<in> set rs" "i = ev_ID (event_of_row r')" by (auto simp: evs_def)
    from ce(4) [OF r'(1)] obtain j r where j: "has_id j r'" "find_row Table_outbox_events j t = Some r"
      "claimable now r" "r' = claimed_row lk now r" "find_row Table_outbox_events j t' = Some r'" by blast
    have "j = i" using idof [OF j(1)] r'(2) by simp
    with j claimable_open [OF j(3)] show ?thesis by (simp add: event_views_def ew_held_def)
  qed
  show "event_views t' i = event_views t i" if "i \<notin> ev_ID ` set evs"
  proof -
    have "\<not> has_id i r'" if r': "r' \<in> set rs" for r'
      using \<open>i \<notin> ev_ID ` set evs\<close> idof [of i r'] r' by (auto simp: evs_def)
    then show ?thesis using ce(5) by (simp add: event_views_def)
  qed
  show "ew_of v ev" if e: "ev \<in> set evs" "event_views t' (ev_ID ev) = Some v"
  proof -
    from e(1) obtain r' where r': "r' \<in> set rs" "ev = event_of_row r'" by (auto simp: evs_def)
    from ce(4) [OF r'(1)] obtain j where j: "has_id j r'" "find_row Table_outbox_events j t' = Some r'" by blast
    with idof [OF j(1)] e(2) r'(2) show ?thesis
      by (auto simp: event_views_def ew_of_def row_event_def event_of_row_def)
  qed
qed

section \<open>The relay's environment\<close>

locale relay_env = sql_database sq tabs server_now "\<lambda>w. (entries w, handed w, pending w)"
    + redis_streams rd entries handed pending id_key tabs
    + uuid_package uuid_String uuid_Parse
  for sq :: "'w sqldb" and tabs :: "'w \<Rightarrow> tables" and server_now :: "'w \<Rightarrow> time"
    and rd :: "'w redis"
    and entries :: "'w \<Rightarrow> string \<Rightarrow> (string \<times> fields) list"
    and handed :: "'w \<Rightarrow> string \<Rightarrow> string \<Rightarrow> string set"
    and pending :: "'w \<Rightarrow> string \<Rightarrow> string \<Rightarrow> string set"
    and id_key :: "string \<Rightarrow> nat"
    and uuid_String :: "uuid \<Rightarrow> string" and uuid_Parse :: "string \<Rightarrow> goerror + uuid" +
  fixes streamName :: string
begin

abbreviation stream :: string where
  "stream \<equiv> sp_stream (NewPublisher rd streamName)"

lemma Publish_effect:
  assumes "StreamPublish uuid_String (NewPublisher rd streamName) ev w = (sid, w')"
  shows "tabs w' = tabs w \<and>
     ((\<exists>x. stream_log uuid_Parse (entries w' stream) = stream_log uuid_Parse (entries w stream) @ [(delivery_message ev, x)]
          \<and> (sid = Inr x \<or> (\<exists>e. sid = Inl e)))
      \<or> entries w' = entries w \<and> (\<exists>e. sid = Inl e))"
proof -
  have "XAdd rd stream (BuildDeliveryMessage uuid_String ev) w = (sid, w')"
    using assms by (simp add: StreamPublish_def NewPublisher_def)
  from add_served [OF this] show ?thesis
    by (auto simp: stream_log_snoc [OF Parse_Build])
qed

sublocale relay_store "PgClaimDue sq" "PgMarkPublished sq" "PgMarkFailed sq"
  "StreamPublish uuid_String (NewPublisher rd streamName)" "\<lambda>w. event_views (tabs w)"
  "\<lambda>w. stream_log uuid_Parse (entries w stream)" "\<lambda>w. tables_wf (tabs w)"
proof
  fix s s' n lk and res :: "goerror + Event list"
  assume a: "tables_wf (tabs s)" "PgClaimDue sq n lk s = (res, s')"
  note ce = Claim_effect [OF a]
  show "tables_wf (tabs s') \<and> stream_log uuid_Parse (entries s' stream) = stream_log uuid_Parse (entries s stream)"
    using ce a(1) claims_effect(1) by auto
  from ce consider "tabs s' = tabs s" "\<exists>e. res = Inl e"
    | rs where "claims (claim_query (if n \<le> 0 then 50 else n) (server_now s)) (claim_set lk (server_now s)) (tabs s) rs (tabs s')"
      "(\<exists>e. res = Inl e) \<or> res = Inr (map event_of_row rs)" by auto
  then show "\<exists>I. (\<forall>i\<in>I. \<exists>v v'. event_views (tabs s) i = Some v \<and> ew_open v
        \<and> event_views (tabs s') i = Some v' \<and> ew_held lk v')
      \<and> (\<forall>i. i \<notin> I \<longrightarrow> event_views (tabs s') i = event_views (tabs s) i)
      \<and> (\<forall>evs. res = Inr evs \<longrightarrow> distinct (map ev_ID evs) \<and> set (map ev_ID evs) = I
           \<and> (\<forall>ev\<in>set evs. \<forall>v. event_views (tabs s') (ev_ID ev) = Some v \<longrightarrow> ew_of v ev))"
  proof cases
    case 1
    then show ?thesis by (intro exI [of _ "{}"]) auto
  next
    case (2 rs)
    note cv = claims_views [OF a(1) 2(1)]
    show ?thesis
      by (rule exI [of _ "ev_ID ` set (map event_of_row rs)"], intro conjI ballI allI impI)
         (use cv 2(2) in auto)
  qed
next
  fix s s' ev and sid :: "goerror + string"
  assume a: "tables_wf (tabs s)" "StreamPublish uuid_String (NewPublisher rd streamName) ev s = (sid, s')"
  from Publish_effect [OF a(2)] a(1)
  show "tables_wf (tabs s') \<and> event_views (tabs s') = event_views (tabs s)" by auto
  from Publish_effect [OF a(2)]
  show "(\<exists>x. stream_log uuid_Parse (entries s' stream) = stream_log uuid_Parse (entries s stream) @ [(delivery_message ev, x)]
          \<and> (sid = Inr x \<or> (\<exists>e. sid = Inl e)))
      \<or> stream_log uuid_Parse (entries s' stream) = stream_log uuid_Parse (entries s stream) \<and> (\<exists>e. sid = Inl e)"
    by auto
next
  fix s s' i x lk and r :: "goerror option"
  assume a: "tables_wf (tabs s)" "PgMarkPublished sq i x lk s = (r, s')"
  note me = Mark_effect [OF a]
  show "tables_wf (tabs s') \<and> stream_log uuid_Parse (entries s' stream) = stream_log uuid_Parse (entries s stream)"
    using me a(1) set_event_wf [OF a(1), of "published_row x _"] outbox_rows_typed(2) by auto
  show "event_views (tabs s') = event_views (tabs s) \<and> r \<noteq> None
      \<or> (\<exists>v. event_views (tabs s) i = Some v \<and> ew_held lk v
           \<and> event_views (tabs s') = (event_views (tabs s))(i \<mapsto> v\<lparr>ew_Status := ''published'', ew_LockedBy := '''', ew_StreamID := x\<rparr>))"
    using me by (auto dest!: held_view simp: event_views_set_row)
next
  fix s s' i m lk and r :: "goerror option"
  assume a: "tables_wf (tabs s)" "PgMarkFailed sq i m lk s = (r, s')"
  note me = Release_effect [OF a]
  show "tables_wf (tabs s') \<and> stream_log uuid_Parse (entries s' stream) = stream_log uuid_Parse (entries s stream)"
    using me a(1) set_event_wf [OF a(1), of "released_row m _"] outbox_rows_typed(3) by auto
  show "event_views (tabs s') = event_views (tabs s) \<and> r \<noteq> None
      \<or> (\<exists>v. event_views (tabs s) i = Some v \<and> ew_held lk v
           \<and> event_views (tabs s') = (event_views (tabs s))(i \<mapsto> v\<lparr>ew_Status := ''pending'', ew_LockedBy := ''''\<rparr>))"
    using me by (auto dest!: held_view simp: event_views_set_row)
qed

lemma pg_relay_eq: "pg_relay sq uuid_String rd streamName host = relay \<lparr>rc_BatchSize = 50, rc_LockerID = host\<rparr>"
  by (simp add: pg_relay_def relay_def NewPostgresStore_def)

lemma relay_pass:
  assumes "tables_wf (tabs w)" "PublishDue (pg_relay sq uuid_String rd streamName host) w = (r, w')"
  shows "tables_wf (tabs w') \<and> (\<exists>new. stream_log uuid_Parse (entries w' stream) = stream_log uuid_Parse (entries w stream) @ new
      \<and> distinct (map (dm_OutboxEventID \<circ> fst) new)
      \<and> (\<forall>i. event_views (tabs w') i = event_views (tabs w) i
           \<or> (\<exists>v v'. event_views (tabs w) i = Some v \<and> ew_open v \<and> event_views (tabs w') i = Some v'
                \<and> pass_outcome (if host = '''' then ''relay'' else host) i new v'
                \<and> (r = None \<longrightarrow> ew_Status v' \<noteq> ''publishing''))))"
proof -
  have lk: "locker \<lparr>rc_BatchSize = 50, rc_LockerID = host\<rparr> = (if host = '''' then ''relay'' else host)"
    by (simp add: relay_def NewRelay_def Let_def)
  from PublishDue_post [OF assms(1), of "\<lparr>rc_BatchSize = 50, rc_LockerID = host\<rparr>"] assms(2) show ?thesis
    unfolding pg_relay_eq lk by simp
qed

end

end
