(* ===== verification/Repository_Rows.thy ===== *)
theory Repository_Rows
  imports Notification_Repository Sql_Rows
begin

text \<open>
  What the repository's builders send to the database, as explicit rows: the rows it inserts, the
  changes its conditional updates make to a row of \<^verbatim>\<open>notifications\<close>, and what a row it reads means
  for the abstract task machine. These lemmas unfold the ORM once; nothing above them does.
\<close>

section \<open>The rows\<close>

definition notification_row :: "uuid \<Rightarrow> CreateRequest \<Rightarrow> time \<Rightarrow> time \<Rightarrow> row" where
  "notification_row nid req created updated =
     (\<lambda>_. None)(FieldID \<mapsto> VUuid nid, FieldURL \<mapsto> VString (cr_URL req), FieldMethod \<mapsto> VString (cr_Method req),
       FieldHeaders \<mapsto> VJson (cr_Headers req), FieldBody \<mapsto> VBytes (cr_Body req),
       FieldStatus \<mapsto> VString StatusPending, FieldAttemptCount \<mapsto> VInt 0,
       FieldMaxAttempts \<mapsto> VInt (cr_MaxAttempts req), FieldCreatedAt \<mapsto> VTime created,
       FieldUpdatedAt \<mapsto> VTime updated)"

definition outbox_row :: "uuid \<Rightarrow> uuid \<Rightarrow> time \<Rightarrow> time \<Rightarrow> time \<Rightarrow> row" where
  "outbox_row oid nid scheduledAt created updated =
     (\<lambda>_. None)(FieldID \<mapsto> VUuid oid, FieldNotificationID \<mapsto> VUuid nid,
       FieldEventType \<mapsto> VString EventTypeNotificationDelivery, FieldStatus \<mapsto> VString ''pending'',
       FieldScheduledAt \<mapsto> VTime scheduledAt, FieldCreatedAt \<mapsto> VTime created,
       FieldUpdatedAt \<mapsto> VTime updated)"

definition attempt_row :: "uuid \<Rightarrow> uuid \<Rightarrow> RecordedAttempt \<Rightarrow> string \<Rightarrow> time \<Rightarrow> row" where
  "attempt_row aid nid a status created =
     (\<lambda>_. None)(FieldID \<mapsto> VUuid aid, FieldNotificationID \<mapsto> VUuid nid,
       FieldAttemptNumber \<mapsto> VInt (ra_AttemptNumber a), FieldStatus \<mapsto> VString status,
       FieldHTTPStatus := (if ra_StatusCode a > 0 then Some (VInt (ra_StatusCode a)) else None),
       FieldErrorMessage := (if ra_ErrorMessage a \<noteq> '''' then Some (VString (ra_ErrorMessage a)) else None),
       FieldDurationMs \<mapsto> VInt (Duration_Milliseconds (ra_Duration a)), FieldCreatedAt \<mapsto> VTime created)"

definition started_row :: "time \<Rightarrow> row \<Rightarrow> row" where
  "started_row t r =
     r(FieldNextAttemptAt := None, FieldStatus \<mapsto> VString StatusDelivering, FieldUpdatedAt \<mapsto> VTime t)"

definition succeeded_row :: "int \<Rightarrow> time \<Rightarrow> row \<Rightarrow> row" where
  "succeeded_row n t r =
     r(FieldLastError := None, FieldNextAttemptAt := None, FieldStatus \<mapsto> VString StatusSucceeded,
       FieldAttemptCount \<mapsto> VInt n, FieldUpdatedAt \<mapsto> VTime t)"

definition failed_row :: "string \<Rightarrow> int \<Rightarrow> string \<Rightarrow> time option \<Rightarrow> time \<Rightarrow> row \<Rightarrow> row" where
  "failed_row status n msg next_at t r =
     r(FieldNextAttemptAt := map_option VTime next_at, FieldStatus \<mapsto> VString status,
       FieldAttemptCount \<mapsto> VInt n, FieldLastError \<mapsto> VString msg, FieldUpdatedAt \<mapsto> VTime t)"

definition requeued_row :: "time \<Rightarrow> row \<Rightarrow> row" where
  "requeued_row t r =
     r(FieldLastError := None, FieldNextAttemptAt := None, FieldStatus \<mapsto> VString StatusPending,
       FieldAttemptCount \<mapsto> VInt 0, FieldUpdatedAt \<mapsto> VTime t)"

lemmas row_updates = started_row_def succeeded_row_def failed_row_def requeued_row_def

lemma row_updates_id [simp]:
  "started_row t r FieldID = r FieldID" "succeeded_row n t r FieldID = r FieldID"
  "failed_row st n m na t r FieldID = r FieldID" "requeued_row t r FieldID = r FieldID"
  by (simp_all add: row_updates)

lemma new_rows_id [simp]:
  "notification_row nid req c u FieldID = Some (VUuid nid)"
  "outbox_row oid nid s c u FieldID = Some (VUuid oid)"
  "attempt_row aid nid a st c FieldID = Some (VUuid aid)"
  by (simp_all add: notification_row_def outbox_row_def attempt_row_def)

lemma new_rows_typed:
  "row_typed notification_schema (notification_row nid req c u)"
  "row_typed outboxevent_schema (outbox_row oid nid s c u)"
  "row_typed deliveryattempt_schema (attempt_row aid nid a st c)"
  by (simp_all add: notification_row_def outbox_row_def attempt_row_def row_typed_def notification_schema_def
      outboxevent_schema_def deliveryattempt_schema_def)

lemma row_updates_typed:
  assumes "row_typed notification_schema r"
  shows "row_typed notification_schema (started_row t r)" "row_typed notification_schema (succeeded_row n t r)"
    "row_typed notification_schema (failed_row st n m na t r)" "row_typed notification_schema (requeued_row t r)"
  using assms by (cases na; simp add: row_updates row_typed_def notification_schema_def)+

section \<open>What the builders send\<close>

lemma spec_row_fun: "spec_row sp = (map_of (cs_Fields sp))(FieldID := map_option VUuid (cs_ID sp))"
  by (auto simp: spec_row_def fun_eq_iff)

lemmas mutation_defs =
  NotificationMutation_defs DeliveryAttemptMutation_defs OutboxEventMutation_defs

lemmas create_chain_defs =
  outbox_create_def OutboxEventClient_Create_def OutboxEventCreate_SetNotificationID_def
  OutboxEventCreate_SetEventType_def OutboxEventCreate_SetStatus_def OutboxEventCreate_SetScheduledAt_def
  notification_create_def NotificationClient_Create_def NotificationCreate_SetURL_def
  NotificationCreate_SetMethod_def NotificationCreate_SetHeaders_def NotificationCreate_SetBody_def
  NotificationCreate_SetStatus_def NotificationCreate_SetMaxAttempts_def
  attempt_create_def DeliveryAttemptClient_Create_def DeliveryAttemptCreate_SetNotificationID_def
  DeliveryAttemptCreate_SetAttemptNumber_def DeliveryAttemptCreate_SetStatus_def
  DeliveryAttemptCreate_SetDurationMs_def DeliveryAttemptCreate_SetHTTPStatus_def
  DeliveryAttemptCreate_SetErrorMessage_def

definition outbox_mutation :: "uuid \<Rightarrow> time \<Rightarrow> time \<Rightarrow> time \<Rightarrow> uuid \<Rightarrow> OutboxEventMutation" where
  "outbox_mutation nid s c u i =
     (outbox_create nid s)\<lparr>om_id := Some i, om_created_at := Some c, om_updated_at := Some u\<rparr>"

definition notification_mutation :: "CreateRequest \<Rightarrow> time \<Rightarrow> time \<Rightarrow> uuid \<Rightarrow> NotificationMutation" where
  "notification_mutation req c u i =
     (notification_create req)\<lparr>nm_id := Some i, nm_attempt_count := Some 0,
        nm_created_at := Some c, nm_updated_at := Some u\<rparr>"

definition attempt_mutation :: "uuid \<Rightarrow> RecordedAttempt \<Rightarrow> string \<Rightarrow> time \<Rightarrow> uuid \<Rightarrow> DeliveryAttemptMutation" where
  "attempt_mutation nid a st c i =
     (attempt_create nid a st)\<lparr>dm_id := Some i, dm_created_at := Some c\<rparr>"

text \<open>The defaults that \<^verbatim>\<open>Save\<close> fills in: the clock and a fresh identifier, in this order.\<close>

lemma outbox_defaults:
  "OutboxEventCreate_defaults db (outbox_create nid s) w =
     (case time_Now db w of (c, w1) \<Rightarrow> case time_Now db w1 of (u, w2) \<Rightarrow> case uuid_New db w2 of (i, w3) \<Rightarrow>
        (outbox_mutation nid s c u i, w3))"
  by (simp add: OutboxEventCreate_defaults_def Let_def create_chain_defs mutation_defs outbox_mutation_def
      split: prod.split)

lemma notification_defaults:
  "NotificationCreate_defaults db (notification_create req) w =
     (case time_Now db w of (c, w1) \<Rightarrow> case time_Now db w1 of (u, w2) \<Rightarrow> case uuid_New db w2 of (i, w3) \<Rightarrow>
        (notification_mutation req c u i, w3))"
  by (simp add: NotificationCreate_defaults_def Let_def create_chain_defs mutation_defs notification_mutation_def
      split: prod.split)

lemma attempt_defaults:
  "DeliveryAttemptCreate_defaults db (attempt_create nid a st) w =
     (case time_Now db w of (c, w1) \<Rightarrow> case uuid_New db w1 of (i, w2) \<Rightarrow> (attempt_mutation nid a st c i, w2))"
  by (simp add: DeliveryAttemptCreate_defaults_def Let_def create_chain_defs mutation_defs attempt_mutation_def
      split: prod.split)

text \<open>The checks pass, with one exception: a notification without a URL.\<close>

lemma outbox_check [simp]: "OutboxEventCreate_check (outbox_mutation nid s c u i) = None"
  by (simp add: OutboxEventCreate_check_def outbox_mutation_def Let_def create_chain_defs mutation_defs
      validated_def outboxevent_StatusValidator_def)

lemma notification_check:
  "NotificationCreate_check (notification_mutation req c u i) = None \<longleftrightarrow> cr_URL req \<noteq> ''''"
  by (simp add: NotificationCreate_check_def notification_mutation_def Let_def create_chain_defs mutation_defs
      validated_def not_empty_def notification_StatusValidator_def)

lemma attempt_check:
  "DeliveryAttemptCreate_check (attempt_mutation nid a st c i) = None
     \<longleftrightarrow> st \<in> {''succeeded'', ''retrying'', ''failed''}"
  by (simp add: DeliveryAttemptCreate_check_def attempt_mutation_def Let_def create_chain_defs mutation_defs
      validated_def deliveryattempt_StatusValidator_def)

text \<open>The rows that are inserted, and the node that is returned for a notification.\<close>

lemma outbox_spec:
  "OutboxEventCreate_createSpec (outbox_mutation nid s c u i) = (node, sp) \<Longrightarrow>
     cs_Table sp = Table_outbox_events \<and> spec_row sp = outbox_row i nid s c u"
  by (auto simp: OutboxEventCreate_createSpec_def outbox_mutation_def create_chain_defs Let_def
      mutation_defs spec_row_def outbox_row_def fun_eq_iff)

lemma attempt_create_eq:
  "attempt_create nid a st =
     \<lparr>dm_op = OpCreate, dm_typ = ''DeliveryAttempt'', dm_id = None, dm_notification_id = Some nid,
      dm_attempt_number = Some (ra_AttemptNumber a), dm_addattempt_number = None, dm_status = Some st,
      dm_http_status = (if ra_StatusCode a > 0 then Some (ra_StatusCode a) else None), dm_addhttp_status = None,
      dm_error_message = (if ra_ErrorMessage a \<noteq> '''' then Some (ra_ErrorMessage a) else None),
      dm_duration_ms = Some (Duration_Milliseconds (ra_Duration a)), dm_addduration_ms = None,
      dm_created_at = None, dm_clearedFields = {}, dm_done = False, dm_predicates = []\<rparr>"
  by (cases "ra_StatusCode a > 0"; cases "ra_ErrorMessage a = ''''")
     (simp_all add: create_chain_defs mutation_defs Let_def)

lemma attempt_spec:
  "DeliveryAttemptCreate_createSpec (attempt_mutation nid a st c i) = (node, sp) \<Longrightarrow>
     cs_Table sp = Table_delivery_attempts \<and> spec_row sp = attempt_row i nid a st c"
  by (cases "ra_StatusCode a > 0"; cases "ra_ErrorMessage a = ''''")
     (auto simp: DeliveryAttemptCreate_createSpec_def attempt_mutation_def attempt_create_eq Let_def
      mutation_defs spec_row_def attempt_row_def fun_eq_iff)

lemma notification_spec:
  "NotificationCreate_createSpec (notification_mutation req c u i) = (node, sp) \<Longrightarrow>
     cs_Table sp = Table_notifications \<and> cs_ID sp = Some i \<and> spec_row sp = notification_row i req c u
     \<and> node = Notification_of_row (notification_row i req c u)"
  by (auto simp: NotificationCreate_createSpec_def notification_mutation_def create_chain_defs Let_def
      mutation_defs spec_row_def notification_row_def fun_eq_iff Notification_of_row_def Notification_zero_def)

section \<open>What the updates send\<close>

lemmas update_chain_defs =
  mark_update_def success_update_def failure_update_def retry_update_def NotificationClient_Update_def
  NotificationUpdate_Where_def NotificationUpdate_SetStatus_def NotificationUpdate_SetAttemptCount_def
  NotificationUpdate_SetLastError_def NotificationUpdate_ClearLastError_def
  NotificationUpdate_SetNextAttemptAt_def NotificationUpdate_ClearNextAttemptAt_def
  notification_IDEQ_def notification_StatusIn_def notification_StatusEQ_def notification_AttemptCountEQ_def

definition touched :: "time \<Rightarrow> NotificationUpdate \<Rightarrow> NotificationUpdate" where
  "touched t u = u\<lparr>nm_updated_at := Some t\<rparr>"

lemma update_defaults:
  "nm_updated_at u = None \<Longrightarrow>
     NotificationUpdate_defaults db u w = (case time_Now db w of (t, w1) \<Rightarrow> (touched t u, w1))"
  by (simp add: NotificationUpdate_defaults_def mutation_defs touched_def split: prod.split)

text \<open>
  What the repository's updates have in common: they select one row by its id, they do not set
  \<open>updated_at\<close> themselves, and their check passes.
\<close>

definition cas_update :: "uuid \<Rightarrow> sql_pred list \<Rightarrow> (time \<Rightarrow> row \<Rightarrow> row) \<Rightarrow> NotificationUpdate \<Rightarrow> bool" where
  "cas_update nid ps f u \<longleftrightarrow>
     nm_updated_at u = None \<and> nm_predicates u = PEQ FieldID (VUuid nid) # ps
     \<and> (\<forall>t. NotificationUpdate_check (touched t u) = None
         \<and> spec_update (NotificationUpdate_spec (touched t u)) = f t)"

lemma mark_update_cas:
  "cas_update nid [PIn FieldStatus [VString StatusPending, VString StatusRetrying]] started_row (mark_update nid)"
  by (simp add: cas_update_def update_chain_defs mutation_defs Let_def touched_def
      NotificationUpdate_check_def validated_def notification_StatusValidator_def
      NotificationUpdate_spec_def spec_update_def started_row_def fun_eq_iff)

lemma success_update_cas:
  "cas_update nid [PEQ FieldStatus (VString StatusDelivering), PEQ FieldAttemptCount (VInt (ra_AttemptNumber a - 1))]
     (succeeded_row (ra_AttemptNumber a)) (success_update nid a)"
  by (simp add: cas_update_def update_chain_defs mutation_defs Let_def touched_def
      NotificationUpdate_check_def validated_def notification_StatusValidator_def
      NotificationUpdate_spec_def spec_update_def succeeded_row_def fun_eq_iff)

lemma failure_update_cas:
  "cas_update nid [PEQ FieldStatus (VString StatusDelivering), PEQ FieldAttemptCount (VInt (ra_AttemptNumber f - 1))]
     (failed_row (failure_status f) (ra_AttemptNumber f) (ra_ErrorMessage f) (rf_NextAttemptAt f)) (failure_update nid f)"
  by (cases "rf_NextAttemptAt f")
     (simp_all add: cas_update_def update_chain_defs mutation_defs Let_def touched_def
      NotificationUpdate_check_def validated_def notification_StatusValidator_def failure_status_def
      NotificationUpdate_spec_def spec_update_def failed_row_def fun_eq_iff)

lemma retry_update_cas:
  "cas_update nid [PEQ FieldStatus (VString StatusFailed)] requeued_row (retry_update nid)"
  by (simp add: cas_update_def update_chain_defs mutation_defs Let_def touched_def
      NotificationUpdate_check_def validated_def notification_StatusValidator_def
      NotificationUpdate_spec_def spec_update_def requeued_row_def fun_eq_iff)

end
