(* ===== verification/Repository_Laws.thy ===== *)
theory Repository_Laws
  imports Repository_Rows
begin

text \<open>
  The effect of each repository method on the tables, for every behaviour of the database that
  the locale \<open>database\<close> allows: answers, refusals, lost answers, failed commits. A method
  either leaves the tables as they were and returns an error, or makes its whole change.
\<close>

section \<open>Compare-and-set and insertion as relations\<close>

definition cas :: "uuid \<Rightarrow> sql_pred list \<Rightarrow> (row \<Rightarrow> row) \<Rightarrow> tables \<Rightarrow> (goerror + int) \<Rightarrow> tables \<Rightarrow> bool" where
  "cas nid ps f t res t' \<longleftrightarrow>
     t' = t \<and> res \<noteq> Inr 1
     \<or> (\<exists>r. find_row Table_notifications nid t = Some r \<and> sql_holds ps r
          \<and> t' = set_row Table_notifications nid f t \<and> (res = Inr 1 \<or> (\<exists>e. res = Inl e)))"

definition inserted :: "table \<Rightarrow> row \<Rightarrow> tables \<Rightarrow> tables \<Rightarrow> bool" where
  "inserted tb r t t' \<longleftrightarrow> (\<forall>x\<in>set (t tb). x FieldID \<noteq> r FieldID) \<and> t' = add_row tb r t"

lemma inserted_wf:
  "inserted tb r t t' \<Longrightarrow> tables_wf t \<Longrightarrow> row_typed (table_schema tb) r \<Longrightarrow> tables_wf t'"
  by (simp add: inserted_def add_row_wf)

lemma NotificationUpdate_spec_sel:
  "us_Table (NotificationUpdate_spec u) = Table_notifications"
  "us_Predicate (NotificationUpdate_spec u) = nm_predicates u"
  "us_Set (NotificationUpdate_spec (touched t u)) \<noteq> []"
  by (simp_all add: NotificationUpdate_spec_def touched_def mutation_defs)

lemma touched_predicates [simp]: "nm_predicates (touched t u) = nm_predicates u"
  by (simp add: touched_def)

context database
begin

lemma update_cas:
  assumes "tables_wf (tabs w)" "us_Table sp = Table_notifications" "us_Set sp \<noteq> []"
    "us_Predicate sp = PEQ FieldID (VUuid nid) # ps" "UpdateNodes db sp w = (res, w')"
  shows "snap w' = snap w \<and> cas nid ps (spec_update sp) (tabs w) res (tabs w')"
proof -
  from update_served [OF assms(3,5)]
  have s: "served (stmt_update sp) (tabs w) res (tabs w')" and sn: "snap w' = snap w" by auto
  have st: "stmt_update sp (tabs w) =
     (case find_row Table_notifications nid (tabs w) of
        None \<Rightarrow> (Inr 0, tabs w)
      | Some r \<Rightarrow> if sql_holds ps r then (Inr 1, set_row Table_notifications nid (spec_update sp) (tabs w))
                  else (Inr 0, tabs w))"
    using sql_update_id [OF assms(1), of Table_notifications nid ps "spec_update sp"] assms(2,4)
    by (simp add: stmt_update_def)
  from s show ?thesis
    by (rule servedE) (auto simp: cas_def sn st split: option.splits if_splits)
qed

lemma Update_Save_cas:
  assumes "tables_wf (tabs w)" "cas_update nid ps f u" "NotificationUpdate_Save db u w = (res, w')"
  shows "snap w' = snap w \<and> (\<exists>t. cas nid ps (f t) (tabs w) res (tabs w'))"
proof -
  from assms(2) have u: "nm_updated_at u = None" "nm_predicates u = PEQ FieldID (VUuid nid) # ps"
    "\<And>t. NotificationUpdate_check (touched t u) = None"
    "\<And>t. spec_update (NotificationUpdate_spec (touched t u)) = f t"
    by (auto simp: cas_update_def)
  obtain t w1 where n: "time_Now db w = (t, w1)" by (cases "time_Now db w")
  from now_frame [OF n] have w1: "tabs w1 = tabs w" "snap w1 = snap w" by auto
  obtain n w2 where un: "UpdateNodes db (NotificationUpdate_spec (touched t u)) w1 = (n, w2)"
    by (cases "UpdateNodes db (NotificationUpdate_spec (touched t u)) w1")
  from assms(1) w1 have "tables_wf (tabs w1)" by simp
  from update_cas [OF this NotificationUpdate_spec_sel(1,3) _ un, of nid ps]
  have c: "snap w2 = snap w" "cas nid ps (f t) (tabs w) n (tabs w2)"
    using u w1 by (simp_all add: NotificationUpdate_spec_sel)
  have "w' = w2 \<and> (res = n \<or> (\<exists>e e'. n = Inl e \<and> res = Inl e'))"
    using assms(3) u n un by (auto simp: NotificationUpdate_Save_def update_defaults NotificationUpdate_sqlSave_def
        split: sum.splits)
  with c have "snap w' = snap w \<and> cas nid ps (f t) (tabs w) res (tabs w')"
    by (auto simp: cas_def)
  then show ?thesis by blast
qed

lemma create_inserted:
  assumes "CreateNode db sp w = (res, w')"
  shows "snap w' = snap w \<and>
     ((\<exists>e. res = Inl e) \<and> tabs w' = tabs w \<or> inserted (cs_Table sp) (spec_row sp) (tabs w) (tabs w'))"
proof -
  from create_served [OF assms]
  have "served (stmt_create sp) (tabs w) res (tabs w')" and sn: "snap w' = snap w" by auto
  then show ?thesis
    by (elim servedE) (auto simp: sn stmt_create_def sql_insert_def inserted_def add_row_def split: if_splits)
qed

lemma Outbox_Save:
  assumes "OutboxEventCreate_Save db (outbox_create nid s) w = (res, w')"
  shows "snap w' = snap w \<and>
     ((\<exists>e. res = Inl e) \<and> tabs w' = tabs w
      \<or> (\<exists>i c u. inserted Table_outbox_events (outbox_row i nid s c u) (tabs w) (tabs w')))"
proof -
  obtain c w1 where n1: "time_Now db w = (c, w1)" by (cases "time_Now db w")
  obtain u w2 where n2: "time_Now db w1 = (u, w2)" by (cases "time_Now db w1")
  obtain i w3 where n3: "uuid_New db w2 = (i, w3)" by (cases "uuid_New db w2")
  obtain node sp where cs: "OutboxEventCreate_createSpec (outbox_mutation nid s c u i) = (node, sp)"
    by (cases "OutboxEventCreate_createSpec (outbox_mutation nid s c u i)")
  obtain r w4 where cn: "CreateNode db sp w3 = (r, w4)" by (cases "CreateNode db sp w3")
  from now_frame [OF n1] now_frame [OF n2] uuid_frame [OF n3]
  have f: "tabs w3 = tabs w" "snap w3 = snap w" by auto
  have "w' = w4" and "(\<exists>e. r = Inl e) \<longleftrightarrow> (\<exists>e. res = Inl e)"
    using assms n1 n2 n3 cs cn
    by (auto simp: OutboxEventCreate_Save_def outbox_defaults OutboxEventCreate_sqlSave_def split: sum.splits)
  with create_inserted [OF cn] outbox_spec [OF cs] f show ?thesis by auto
qed

lemma Attempt_Save:
  assumes "createAttempt db nid a st w = (res, w')" "st \<in> {''succeeded'', ''retrying'', ''failed''}"
  shows "snap w' = snap w \<and>
     (res \<noteq> None \<and> tabs w' = tabs w
      \<or> (\<exists>i c. inserted Table_delivery_attempts (attempt_row i nid a st c) (tabs w) (tabs w')))"
proof -
  obtain c w1 where n1: "time_Now db w = (c, w1)" by (cases "time_Now db w")
  obtain i w3 where n3: "uuid_New db w1 = (i, w3)" by (cases "uuid_New db w1")
  obtain node sp where cs: "DeliveryAttemptCreate_createSpec (attempt_mutation nid a st c i) = (node, sp)"
    by (cases "DeliveryAttemptCreate_createSpec (attempt_mutation nid a st c i)")
  obtain r w4 where cn: "CreateNode db sp w3 = (r, w4)" by (cases "CreateNode db sp w3")
  from now_frame [OF n1] uuid_frame [OF n3]
  have f: "tabs w3 = tabs w" "snap w3 = snap w" by auto
  have ck: "DeliveryAttemptCreate_check (attempt_mutation nid a st c i) = None"
    using assms(2) by (simp add: attempt_check)
  have "w' = w4" and "(\<exists>e. r = Inl e) \<longleftrightarrow> res \<noteq> None"
    using assms(1) n1 n3 cs cn ck
    by (auto simp: createAttempt_def DeliveryAttemptCreate_Save_def attempt_defaults
        DeliveryAttemptCreate_sqlSave_def split: sum.splits)
  with create_inserted [OF cn] attempt_spec [OF cs] f show ?thesis by auto
qed

lemma Notification_Save:
  assumes "NotificationCreate_Save db (notification_create req) w = (res, w')"
  shows "snap w' = snap w \<and>
     ((\<exists>e. res = Inl e) \<and> tabs w' = tabs w
      \<or> (\<exists>i c u. cr_URL req \<noteq> '''' \<and> inserted Table_notifications (notification_row i req c u) (tabs w) (tabs w')
           \<and> (\<forall>n. res = Inr n \<longrightarrow> n = Notification_of_row (notification_row i req c u))))"
proof -
  obtain c w1 where n1: "time_Now db w = (c, w1)" by (cases "time_Now db w")
  obtain u w2 where n2: "time_Now db w1 = (u, w2)" by (cases "time_Now db w1")
  obtain i w3 where n3: "uuid_New db w2 = (i, w3)" by (cases "uuid_New db w2")
  obtain node sp where cs: "NotificationCreate_createSpec (notification_mutation req c u i) = (node, sp)"
    by (cases "NotificationCreate_createSpec (notification_mutation req c u i)")
  from now_frame [OF n1] now_frame [OF n2] uuid_frame [OF n3]
  have f: "tabs w3 = tabs w" "snap w3 = snap w" by auto
  show ?thesis
  proof (cases "cr_URL req = ''''")
    case True
    then obtain e where "NotificationCreate_check (notification_mutation req c u i) = Some e"
      using notification_check [of req c u i] by auto
    with assms n1 n2 n3 f show ?thesis
      by (auto simp: NotificationCreate_Save_def notification_defaults NotificationCreate_sqlSave_def)
  next
    case False
    then have ck: "NotificationCreate_check (notification_mutation req c u i) = None"
      by (simp add: notification_check)
    obtain r w4 where cn: "CreateNode db sp w3 = (r, w4)" by (cases "CreateNode db sp w3")
    have "w' = w4" and "(\<exists>e. r = Inl e) \<longleftrightarrow> (\<exists>e. res = Inl e)"
      and "\<And>n. res = Inr n \<Longrightarrow> n = node\<lparr>n_ID := i\<rparr>"
      using assms n1 n2 n3 cs cn ck notification_spec [OF cs]
      by (auto simp: NotificationCreate_Save_def notification_defaults NotificationCreate_sqlSave_def
          split: sum.splits)
    moreover have "node\<lparr>n_ID := i\<rparr> = Notification_of_row (notification_row i req c u)"
      using notification_spec [OF cs] by (simp add: Notification_of_row_def)
    moreover have "snap w4 = snap w"
      and "(\<exists>e. r = Inl e) \<and> tabs w4 = tabs w
        \<or> inserted Table_notifications (notification_row i req c u) (tabs w) (tabs w4)"
      using create_inserted [OF cn] notification_spec [OF cs] f by auto
    ultimately show ?thesis using False by blast
  qed
qed

section \<open>Reading\<close>

lemma Get_effect:
  assumes "tables_wf (tabs w)" "NotificationClient_Get db nid w = (res, w')"
  shows "tabs w' = tabs w \<and> snap w' = snap w
     \<and> (res = (case find_row Table_notifications nid (tabs w) of
                 None \<Rightarrow> Inl (NotFoundError ''notification'') | Some r \<Rightarrow> Inr (Notification_of_row r))
        \<or> (\<exists>e q. QueryNodes db q w = (Inl e, w') \<and> res = Inl e))"
proof -
  define q where "q = NotificationQuery_querySpec (NotificationQuery_Limit 2
      (NotificationQuery_Where [notification_ID nid] NotificationClient_Query))"
  have q: "qs_Table q = Table_notifications" "qs_Columns q = notification_Columns"
    "qs_Predicate q = [PEQ FieldID (VUuid nid)]" "qs_Limit q = 2" "qs_Offset q = 0" "\<not> qs_Unique q"
    by (simp_all add: q_def Notification_query_defs notification_ID_def)
  obtain rs w1 where qn: "QueryNodes db q w = (rs, w1)" by (cases "QueryNodes db q w")
  from query_frame [OF qn] have fr: "tabs w1 = tabs w" "snap w1 = snap w" by auto
  have get: "NotificationClient_Get db nid w =
    (case rs of Inl e \<Rightarrow> (Inl e, w1)
     | Inr rows \<Rightarrow>
        (case scan_rows notification_Columns Notification_scanValues
                (\<lambda>cs vs. Notification_assignValues cs vs Notification_zero) rows of
           Inl e \<Rightarrow> (Inl e, w1)
         | Inr nodes \<Rightarrow> (case nodes of [x] \<Rightarrow> (Inr x, w1)
             | [] \<Rightarrow> (Inl (NotFoundError ''notification''), w1)
             | _ \<Rightarrow> (Inl (NotSingularError ''notification''), w1))))"
    using qn
    by (simp add: NotificationClient_Get_def NotificationQuery_Only_def NotificationQuery_All_def
        NotificationQuery_sqlAll_def NotificationQuery_prepareQuery_def NotificationQuery_Limit_def
        NotificationQuery_Where_def NotificationClient_Query_def notification_Label_def
        q(2) [symmetric] q_def [unfolded NotificationQuery_Limit_def NotificationQuery_Where_def
          NotificationClient_Query_def, simplified, symmetric] split: sum.splits list.splits)
  show ?thesis
  proof (cases rs)
    case (Inl e)
    with get qn assms(2) fr show ?thesis by auto
  next
    case (Inr xs)
    from query_rows [OF q(5,6)] qn Inr have "selected q (tabs w) xs" by simp
    then obtain ys where ys: "mset ys = mset (filter (has_id nid) (tabs w Table_notifications))"
      and xs: "xs = take 2 ys"
      by (auto simp: selected_def q has_id_def [abs_def])
    have "scan_rows notification_Columns Notification_scanValues
        (\<lambda>cs vs. Notification_assignValues cs vs Notification_zero) zs = Inr (map Notification_of_row zs)"
      if "\<forall>z\<in>set zs. row_typed notification_schema z" for zs
      by (rule scan_rows_map) (use that Notification_decode in auto)
    note scan = this
    show ?thesis
    proof (cases "find_row Table_notifications nid (tabs w)")
      case None
      with ys filter_id [OF assms(1), of nid Table_notifications] have "ys = []" by simp
      with xs get Inr assms(2) fr None show ?thesis by simp
    next
      case (Some r)
      with ys filter_id [OF assms(1), of nid Table_notifications] have "ys = [r]" by simp
      moreover have "row_typed notification_schema r"
        using find_row_typed [OF assms(1) Some] by simp
      ultimately show ?thesis
        using xs get Inr assms(2) fr Some scan [of "[r]"] by simp
    qed
  qed
qed

end

end
