(* ===== verification/Repository_Effects.thy ===== *)
theory Repository_Effects
  imports Repository_Laws
begin

text \<open>
  The contract of each repository method: the change it makes when it makes one (\<open>.._post\<close>), that
  it makes the whole change or none whatever the database answers, that the tables stay well
  formed, and what the change means for the abstract task machine.
\<close>

section \<open>The changes\<close>

definition mark_post :: "uuid \<Rightarrow> tables \<Rightarrow> tables \<Rightarrow> bool" where
  "mark_post nid t t' \<longleftrightarrow>
     (\<exists>r tm. find_row Table_notifications nid t = Some r
        \<and> r FieldStatus \<in> {Some (VString StatusPending), Some (VString StatusRetrying)}
        \<and> t' = set_row Table_notifications nid (started_row tm) t)"

definition in_flight :: "uuid \<Rightarrow> int \<Rightarrow> tables \<Rightarrow> bool" where
  "in_flight nid n t \<longleftrightarrow>
     (\<exists>r. find_row Table_notifications nid t = Some r
        \<and> r FieldStatus = Some (VString StatusDelivering) \<and> r FieldAttemptCount = Some (VInt (n - 1)))"

definition success_post :: "uuid \<Rightarrow> RecordedAttempt \<Rightarrow> tables \<Rightarrow> tables \<Rightarrow> bool" where
  "success_post nid a t t' \<longleftrightarrow>
     in_flight nid (ra_AttemptNumber a) t
     \<and> (\<exists>tm i c. inserted Table_delivery_attempts (attempt_row i nid a StatusSucceeded c)
          (set_row Table_notifications nid (succeeded_row (ra_AttemptNumber a) tm) t) t')"

definition failure_post :: "uuid \<Rightarrow> RecordedFailure \<Rightarrow> tables \<Rightarrow> tables \<Rightarrow> bool" where
  "failure_post nid f t t' \<longleftrightarrow>
     in_flight nid (ra_AttemptNumber f) t
     \<and> (\<exists>tm i c t1.
          inserted Table_delivery_attempts
            (attempt_row i nid (RecordedAttempt.truncate f) (failure_status f) c)
            (set_row Table_notifications nid
              (failed_row (failure_status f) (ra_AttemptNumber f) (ra_ErrorMessage f) (rf_NextAttemptAt f) tm) t) t1
          \<and> (if failure_status f = StatusRetrying
             then \<exists>s oid oc ou. rf_NextAttemptAt f = Some s
                    \<and> inserted Table_outbox_events (outbox_row oid nid s oc ou) t1 t'
             else t' = t1))"

definition retry_post :: "uuid \<Rightarrow> tables \<Rightarrow> tables \<Rightarrow> bool" where
  "retry_post nid t t' \<longleftrightarrow>
     (\<exists>r tm oid s c u. find_row Table_notifications nid t = Some r
        \<and> r FieldStatus = Some (VString StatusFailed)
        \<and> inserted Table_outbox_events (outbox_row oid nid s c u)
            (set_row Table_notifications nid (requeued_row tm) t) t')"

definition create_post :: "CreateRequest \<Rightarrow> uuid \<Rightarrow> row \<Rightarrow> tables \<Rightarrow> tables \<Rightarrow> bool" where
  "create_post req nid r t t' \<longleftrightarrow>
     cr_URL req \<noteq> '''' \<and>
     (\<exists>c u t1 oid s oc ou. r = notification_row nid req c u
        \<and> inserted Table_notifications r t t1
        \<and> inserted Table_outbox_events (outbox_row oid nid s oc ou) t1 t')"

section \<open>Transactions\<close>

text \<open>
  The state in which the body of a transaction hands over to the deferred rollback: it failed and
  the transaction is still open, or the transaction is over and either made the change \<open>P\<close> or
  failed without one.
\<close>

definition tx_ok :: "('w \<Rightarrow> tables) \<Rightarrow> ('w \<Rightarrow> tables option) \<Rightarrow> ('r \<Rightarrow> bool) \<Rightarrow> tables \<Rightarrow> ('r \<Rightarrow> tables \<Rightarrow> bool) \<Rightarrow> 'r \<times> 'w \<Rightarrow> bool" where
  "tx_ok tb sn err t0 P rw \<longleftrightarrow>
     (case rw of (r, w) \<Rightarrow>
        sn w = Some t0 \<and> err r \<or> sn w = None \<and> (P r (tb w) \<or> err r \<and> tb w = t0))"

definition opt_err :: "'a option \<Rightarrow> bool" where
  "opt_err x \<longleftrightarrow> x \<noteq> None"

lemma opt_err_simps [simp]: "opt_err (Some e)" "\<not> opt_err None"
  by (simp_all add: opt_err_def)

context database
begin

abbreviation tx :: "('r \<Rightarrow> bool) \<Rightarrow> tables \<Rightarrow> ('r \<Rightarrow> tables \<Rightarrow> bool) \<Rightarrow> 'r \<times> 'w \<Rightarrow> bool" where
  "tx err t0 P rw \<equiv> tx_ok tabs snap err t0 P rw"

lemma sel [simp]: "er_client (NewEntRepository db) = db" "er_now (NewEntRepository db) = time_Now db"
  by (simp_all add: NewEntRepository_def)

abbreviation repo :: "'w EntRepository" where
  "repo \<equiv> NewEntRepository db"

lemma deferred_tx:
  assumes "deferred db rw = (r, w')" "tx err t0 P rw"
  shows "snap w' = None \<and> (tabs w' = t0 \<and> err r \<or> P r (tabs w'))"
proof -
  obtain r0 w where rw: "rw = (r0, w)" by (cases rw)
  obtain x w1 where rb: "RollbackTx db w = (x, w1)" by (cases "RollbackTx db w")
  have w': "r = r0" "w' = w1"
    using assms(1) rb by (simp_all add: rw deferred_def rollbackUnlessCommitted_def Tx_Rollback_def)
  show ?thesis
  proof (cases "snap w")
    case None
    from rollback_closed [OF None rb] assms(2) None show ?thesis by (auto simp: rw tx_ok_def w')
  next
    case (Some t)
    from rollback_open [OF Some rb] assms(2) Some show ?thesis by (auto simp: rw tx_ok_def w')
  qed
qed

lemma in_tx:
  assumes "snap w = None"
    and "\<And>e w1. tabs w1 = tabs w \<Longrightarrow> snap w1 = None \<Longrightarrow> (E e, w1) = (r, w') \<Longrightarrow> err r"
    and body: "\<And>w1. tabs w1 = tabs w \<Longrightarrow> snap w1 = Some (tabs w) \<Longrightarrow> tx err (tabs w) P (B w1)"
    and run: "(case Client_Tx db w of (Some e, w1) \<Rightarrow> (E e, w1) | (None, w1) \<Rightarrow> deferred db (B w1)) = (r, w')"
  shows "snap w' = None \<and> (tabs w' = tabs w \<and> err r \<or> P r (tabs w'))"
proof -
  obtain b w1 where bt: "BeginTx db w = (b, w1)" by (cases "BeginTx db w")
  show ?thesis
  proof (cases b)
    case None
    with bt have fr: "tabs w1 = tabs w" "snap w1 = Some (tabs w)" using begin_None [of w w1] by auto
    from run bt None have "deferred db (B w1) = (r, w')" by (simp add: Client_Tx_def newTx_def)
    then show ?thesis by (rule deferred_tx) (rule body [OF fr])
  next
    case (Some e)
    with bt have fr: "tabs w1 = tabs w" "snap w1 = None" using begin_Some [of w e w1] assms(1) by auto
    from run bt Some have "(E (ErrWrap ''ent: starting a transaction: '' e ''''), w1) = (r, w')"
      by (simp add: Client_Tx_def newTx_def)
    with fr assms(2) show ?thesis by auto
  qed
qed

lemma tx_fail: "snap w = Some t0 \<Longrightarrow> err r \<Longrightarrow> tx err t0 P (r, w)"
  by (simp add: tx_ok_def)

lemma tx_commit:
  assumes "snap w = Some t0" "\<And>x. P x (tabs w)"
  shows "tx opt_err t0 P (Tx_Commit db w)"
proof -
  obtain x w1 where c: "CommitTx db w = (x, w1)" by (cases "CommitTx db w")
  show ?thesis
  proof (cases x)
    case None
    with c commit_None [OF assms(1), of w1] assms(2) show ?thesis by (simp add: tx_ok_def Tx_Commit_def)
  next
    case (Some e)
    with c commit_Some [OF assms(1), of e w1] assms(2) show ?thesis by (auto simp: tx_ok_def Tx_Commit_def)
  qed
qed

text \<open>Sequencing: a failing statement ends the body, a successful one hands on the changed tables.\<close>

lemma tx_update:
  assumes "snap w = Some t0" "tables_wf (tabs w)" "cas_update nid ps f u"
    and "\<And>e. err (E e)" "err c"
    and "\<And>w1 r tm. snap w1 = Some t0 \<Longrightarrow> find_row Table_notifications nid (tabs w) = Some r \<Longrightarrow>
       sql_holds ps r \<Longrightarrow> tabs w1 = set_row Table_notifications nid (f tm) (tabs w) \<Longrightarrow> tx err t0 P (K w1)"
  shows "tx err t0 P (case NotificationUpdate_Save db u w of
      (Inl e, w1) \<Rightarrow> (E e, w1) | (Inr n, w1) \<Rightarrow> if n \<noteq> 1 then (c, w1) else K w1)"
proof -
  obtain n w1 where s: "NotificationUpdate_Save db u w = (n, w1)" by (cases "NotificationUpdate_Save db u w")
  from Update_Save_cas [OF assms(2,3) s] obtain tm where
    sn: "snap w1 = Some t0" and c: "cas nid ps (f tm) (tabs w) n (tabs w1)" using assms(1) by auto
  show ?thesis
  proof (cases "n = Inr 1")
    case True
    with c s assms(6) [OF sn] show ?thesis by (auto simp: cas_def)
  next
    case False
    with s sn assms(4,5) show ?thesis by (cases n) (auto intro: tx_fail)
  qed
qed

lemma tx_attempt:
  assumes "snap w = Some t0" "st \<in> {''succeeded'', ''retrying'', ''failed''}" "\<And>e. err (E e)"
    and "\<And>w1 i c. snap w1 = Some t0 \<Longrightarrow>
       inserted Table_delivery_attempts (attempt_row i nid a st c) (tabs w) (tabs w1) \<Longrightarrow> tx err t0 P (K w1)"
  shows "tx err t0 P (case createAttempt db nid a st w of (Some e, w1) \<Rightarrow> (E e, w1) | (None, w1) \<Rightarrow> K w1)"
proof -
  obtain x w1 where s: "createAttempt db nid a st w = (x, w1)" by (cases "createAttempt db nid a st w")
  from Attempt_Save [OF s assms(2)] assms(1,3,4) s show ?thesis
    by (cases x) (auto intro: tx_fail)
qed

lemma tx_outbox:
  assumes "snap w = Some t0" "\<And>e. err (E e)"
    and "\<And>w1 i c u. snap w1 = Some t0 \<Longrightarrow>
       inserted Table_outbox_events (outbox_row i nid s c u) (tabs w) (tabs w1) \<Longrightarrow> tx err t0 P (K w1)"
  shows "tx err t0 P (case OutboxEventCreate_Save db (outbox_create nid s) w of
      (Inl e, w1) \<Rightarrow> (E e, w1) | (Inr _, w1) \<Rightarrow> K w1)"
proof -
  obtain x w1 where s: "OutboxEventCreate_Save db (outbox_create nid s) w = (x, w1)"
    by (cases "OutboxEventCreate_Save db (outbox_create nid s) w")
  from Outbox_Save [OF s] assms s show ?thesis by (cases x) (auto intro: tx_fail)
qed

lemma tx_now:
  assumes "snap w = Some t0"
    and "\<And>w1 tm. snap w1 = Some t0 \<Longrightarrow> tabs w1 = tabs w \<Longrightarrow> tx err t0 P (K tm w1)"
  shows "tx err t0 P (case time_Now db w of (tm, w1) \<Rightarrow> K tm w1)"
proof -
  obtain tm w1 where n: "time_Now db w = (tm, w1)" by (cases "time_Now db w")
  with now_frame [OF n] assms show ?thesis by simp
qed

section \<open>All or nothing\<close>

lemma MarkDelivering_effect:
  assumes "tables_wf (tabs w)" "EntMarkDelivering repo nid w = (res, w')"
  shows "snap w' = snap w \<and> (tabs w' = tabs w \<and> res \<noteq> None \<or> mark_post nid (tabs w) (tabs w'))"
proof -
  obtain n w1 where s: "NotificationUpdate_Save db (mark_update nid) w = (n, w1)"
    by (cases "NotificationUpdate_Save db (mark_update nid) w")
  from Update_Save_cas [OF assms(1) mark_update_cas s] obtain tm where
    c: "snap w1 = snap w"
      "cas nid [PIn FieldStatus [VString StatusPending, VString StatusRetrying]] (started_row tm) (tabs w) n (tabs w1)"
    by blast
  have "w' = w1" "res = None \<longleftrightarrow> n = Inr 1"
    using assms(2) s by (auto simp: EntMarkDelivering_def split: sum.splits if_splits)
  with c show ?thesis by (auto simp: cas_def mark_post_def)
qed

lemma tx_commit_then:
  assumes "snap w = Some t0" "\<And>e. err (E e)" "\<And>e. P (E e) (tabs w)"
    and "\<And>w1 r w2. snap w1 = None \<Longrightarrow> tabs w1 = tabs w \<Longrightarrow> K w1 = (r, w2) \<Longrightarrow>
       snap w2 = None \<and> tabs w2 = tabs w \<and> P r (tabs w)"
  shows "tx err t0 P (case Tx_Commit db w of (Some e, w1) \<Rightarrow> (E e, w1) | (None, w1) \<Rightarrow> K w1)"
proof -
  obtain x w1 where c: "CommitTx db w = (x, w1)" by (cases "CommitTx db w")
  show ?thesis
  proof (cases x)
    case None
    obtain r w2 where k: "K w1 = (r, w2)" by (cases "K w1")
    from c None commit_None [OF assms(1), of w1] have fr: "tabs w1 = tabs w" "snap w1 = None" by auto
    from assms(4) [OF fr(2,1) k] k c None show ?thesis by (simp add: tx_ok_def Tx_Commit_def)
  next
    case (Some e)
    with c commit_Some [OF assms(1), of e w1] assms(2,3) show ?thesis by (auto simp: tx_ok_def Tx_Commit_def)
  qed
qed

lemma tx_create:
  assumes "snap w = Some t0" "\<And>e. err (E e)"
    and "\<And>w1 i c u. snap w1 = Some t0 \<Longrightarrow> cr_URL req \<noteq> '''' \<Longrightarrow>
       inserted Table_notifications (notification_row i req c u) (tabs w) (tabs w1) \<Longrightarrow>
       tx err t0 P (K (Notification_of_row (notification_row i req c u)) w1)"
  shows "tx err t0 P (case NotificationCreate_Save db (notification_create req) w of
      (Inl e, w1) \<Rightarrow> (E e, w1) | (Inr n, w1) \<Rightarrow> K n w1)"
proof -
  obtain x w1 where s: "NotificationCreate_Save db (notification_create req) w = (x, w1)"
    by (cases "NotificationCreate_Save db (notification_create req) w")
  from Notification_Save [OF s] assms s show ?thesis by (cases x) (auto intro: tx_fail)
qed

lemma Notification_of_row_ID [simp]: "n_ID (Notification_of_row (notification_row i req c u)) = i"
  by (simp add: Notification_of_row_def)

lemma CreateNotification_effect:
  assumes "snap w = None" "CreateNotification repo req w = (res, w')"
  shows "snap w' = None \<and> (tabs w' = tabs w \<and> isl res
    \<or> (\<exists>nid r. create_post req nid r (tabs w) (tabs w')
         \<and> (\<forall>n. res = Inr n \<longrightarrow> n = mapEntNotification (Notification_of_row r))))"
proof (rule in_tx [OF assms(1) _ _ assms(2) [unfolded CreateNotification_def sel],
      where P = "\<lambda>res t'. \<exists>nid r. create_post req nid r (tabs w) t'
         \<and> (\<forall>n. res = Inr n \<longrightarrow> n = mapEntNotification (Notification_of_row r))"])
  fix w1 assume w1: "tabs w1 = tabs w" "snap w1 = Some (tabs w)"
  let ?P = "\<lambda>res t'. \<exists>nid r. create_post req nid r (tabs w) t'
         \<and> (\<forall>n. res = Inr n \<longrightarrow> n = mapEntNotification (Notification_of_row r))"
  show "tx isl (tabs w) ?P
    (case NotificationCreate_Save db (notification_create req) w1 of
       (Inl err, w2) \<Rightarrow> (Inl err, w2)
     | (Inr created, w2) \<Rightarrow>
         (case time_Now db w2 of (now, w3) \<Rightarrow>
          (case OutboxEventCreate_Save db (outbox_create (n_ID created) now) w3 of
             (Inl err, w4) \<Rightarrow> (Inl err, w4)
           | (Inr _, w4) \<Rightarrow>
               (case Tx_Commit db w4 of
                  (Some err, w5) \<Rightarrow> (Inl err, w5)
                | (None, w5) \<Rightarrow> (Inr (mapEntNotification created), w5)))))"
  proof (rule tx_create [OF w1(2)])
    fix w2 i c u
    assume w2: "snap w2 = Some (tabs w)" "cr_URL req \<noteq> ''''"
      "inserted Table_notifications (notification_row i req c u) (tabs w1) (tabs w2)"
    let ?n = "Notification_of_row (notification_row i req c u)"
    have post: "create_post req i (notification_row i req c u) (tabs w) (tabs w4)"
      if "inserted Table_outbox_events (outbox_row oid i s oc ou) (tabs w2) (tabs w4)" for w4 oid s oc ou
      unfolding create_post_def using w2(2,3) w1(1) that by (simp, blast)
    show "tx isl (tabs w) ?P
      (case time_Now db w2 of (now, w3) \<Rightarrow>
          (case OutboxEventCreate_Save db (outbox_create (n_ID ?n) now) w3 of
             (Inl err, w4) \<Rightarrow> (Inl err, w4)
           | (Inr _, w4) \<Rightarrow>
               (case Tx_Commit db w4 of
                  (Some err, w5) \<Rightarrow> (Inl err, w5)
                | (None, w5) \<Rightarrow> (Inr (mapEntNotification ?n), w5))))"
      unfolding Notification_of_row_ID
      by (intro tx_now tx_outbox tx_commit_then w2(1)) (auto dest: post)
  qed simp
qed auto

lemma RecordSuccess_effect:
  assumes "tables_wf (tabs w)" "snap w = None" "EntRecordSuccess repo nid a w = (res, w')"
  shows "snap w' = None \<and> (tabs w' = tabs w \<and> opt_err res \<or> success_post nid a (tabs w) (tabs w'))"
proof (rule in_tx [OF assms(2) _ _ assms(3) [unfolded EntRecordSuccess_def sel]])
  fix w1 assume w1: "tabs w1 = tabs w" "snap w1 = Some (tabs w)"
  then have "tables_wf (tabs w1)" using assms(1) by simp
  then show "tx opt_err (tabs w) (\<lambda>_. success_post nid a (tabs w))
    (case NotificationUpdate_Save db (success_update nid a) w1 of
       (Inl err, w2) \<Rightarrow> (Some err, w2)
     | (Inr affected, w2) \<Rightarrow>
         if affected \<noteq> 1 then (Some (Sentinel ErrConflict), w2)
         else
           (case createAttempt db nid a deliveryattempt_StatusSucceeded w2 of
              (Some err, w3) \<Rightarrow> (Some err, w3)
            | (None, w3) \<Rightarrow> Tx_Commit db w3))"
    by (rule tx_update [OF w1(2) _ success_update_cas])
       (auto simp: w1 success_post_def in_flight_def intro!: tx_attempt tx_commit, blast)
qed auto

lemma RecordFailure_effect:
  assumes "tables_wf (tabs w)" "snap w = None" "EntRecordFailure repo nid f w = (res, w')"
  shows "snap w' = None \<and> (tabs w' = tabs w \<and> opt_err res \<or> failure_post nid f (tabs w) (tabs w'))"
proof (rule in_tx [OF assms(2) _ _ assms(3) [unfolded EntRecordFailure_def sel Let_def]])
  fix w1 assume w1: "tabs w1 = tabs w" "snap w1 = Some (tabs w)"
  then have wf: "tables_wf (tabs w1)" using assms(1) by simp
  have st: "(if \<not> rf_Terminal f \<and> rf_NextAttemptAt f \<noteq> None then deliveryattempt_StatusRetrying
      else deliveryattempt_StatusFailed) = failure_status f"
    by (simp add: failure_status_def)
  have re: "(if rf_Terminal f then None else rf_NextAttemptAt f)
      = (if failure_status f = StatusRetrying then rf_NextAttemptAt f else None)"
    by (simp add: failure_status_def)
  have fs: "failure_status f \<in> {''succeeded'', ''retrying'', ''failed''}"
    by (simp add: failure_status_def)
  show "tx opt_err (tabs w) (\<lambda>_. failure_post nid f (tabs w))
    (case NotificationUpdate_Save db (failure_update nid f) w1 of
       (Inl err, w2) \<Rightarrow> (Some err, w2)
     | (Inr affected, w2) \<Rightarrow>
         if affected \<noteq> 1 then (Some (Sentinel ErrConflict), w2)
         else
           (case createAttempt db nid (RecordedAttempt.truncate f)
                  (if \<not> rf_Terminal f \<and> rf_NextAttemptAt f \<noteq> None then deliveryattempt_StatusRetrying
                   else deliveryattempt_StatusFailed) w2 of
              (Some err, w3) \<Rightarrow> (Some err, w3)
            | (None, w3) \<Rightarrow>
                (case (if rf_Terminal f then None else rf_NextAttemptAt f) of
                   None \<Rightarrow> Tx_Commit db w3
                 | Some t \<Rightarrow>
                     (case OutboxEventCreate_Save db (outbox_create nid t) w3 of
                        (Inl err, w4) \<Rightarrow> (Some err, w4)
                      | (Inr _, w4) \<Rightarrow> Tx_Commit db w4))))"
    unfolding st re
  proof (rule tx_update [OF w1(2) wf failure_update_cas])
    fix w2 r tm
    assume w2: "snap w2 = Some (tabs w)" "find_row Table_notifications nid (tabs w1) = Some r"
      "sql_holds [PEQ FieldStatus (VString StatusDelivering), PEQ FieldAttemptCount (VInt (ra_AttemptNumber f - 1))] r"
      "tabs w2 = set_row Table_notifications nid
         (failed_row (failure_status f) (ra_AttemptNumber f) (ra_ErrorMessage f) (rf_NextAttemptAt f) tm) (tabs w1)"
    then have fl: "in_flight nid (ra_AttemptNumber f) (tabs w)" by (simp add: in_flight_def w1)
    show "tx opt_err (tabs w) (\<lambda>_. failure_post nid f (tabs w))
      (case createAttempt db nid (RecordedAttempt.truncate f) (failure_status f) w2 of
         (Some err, w3) \<Rightarrow> (Some err, w3)
       | (None, w3) \<Rightarrow>
           (case (if failure_status f = StatusRetrying then rf_NextAttemptAt f else None) of
              None \<Rightarrow> Tx_Commit db w3
            | Some t \<Rightarrow>
                (case OutboxEventCreate_Save db (outbox_create nid t) w3 of
                   (Inl err, w4) \<Rightarrow> (Some err, w4)
                 | (Inr _, w4) \<Rightarrow> Tx_Commit db w4)))"
    proof (rule tx_attempt [OF w2(1) fs])
      fix w3 i c
      assume w3: "snap w3 = Some (tabs w)" "inserted Table_delivery_attempts
          (attempt_row i nid (RecordedAttempt.truncate f) (failure_status f) c) (tabs w2) (tabs w3)"
      show "tx opt_err (tabs w) (\<lambda>_. failure_post nid f (tabs w))
        (case (if failure_status f = StatusRetrying then rf_NextAttemptAt f else None) of
            None \<Rightarrow> Tx_Commit db w3
          | Some t \<Rightarrow>
              (case OutboxEventCreate_Save db (outbox_create nid t) w3 of
                 (Inl err, w4) \<Rightarrow> (Some err, w4)
               | (Inr _, w4) \<Rightarrow> Tx_Commit db w4))"
      proof (cases "failure_status f = StatusRetrying")
        case False
        have "failure_post nid f (tabs w) (tabs w3)"
          unfolding failure_post_def using fl w3(2) w2(4) w1(1) False by auto
        with False w3(1) show ?thesis by (simp add: tx_commit)
      next
        case True
        then obtain s where s: "rf_NextAttemptAt f = Some s" by (auto simp: failure_status_def split: if_splits)
        have "failure_post nid f (tabs w) (tabs w4)"
          if "inserted Table_outbox_events (outbox_row oid nid s oc ou) (tabs w3) (tabs w4)" for oid oc ou w4
          unfolding failure_post_def using fl w3(2) w2(4) w1(1) True s that by (simp, blast)
        then have "tx opt_err (tabs w) (\<lambda>_. failure_post nid f (tabs w))
            (case OutboxEventCreate_Save db (outbox_create nid s) w3 of
               (Inl err, w4) \<Rightarrow> (Some err, w4) | (Inr _, w4) \<Rightarrow> Tx_Commit db w4)"
          by (intro tx_outbox tx_commit w3(1)) simp_all
        with True s show ?thesis by simp
      qed
    qed simp
  qed simp_all
qed auto

lemma GetNotification_effect:
  assumes "tables_wf (tabs w)" "GetNotification repo nid w = (res, w')"
  shows "tabs w' = tabs w \<and> snap w' = snap w
    \<and> (res = (case find_row Table_notifications nid (tabs w) of
               None \<Rightarrow> Inl (Sentinel ErrNotFound)
             | Some r \<Rightarrow> Inr (mapEntNotification (Notification_of_row r)))
       \<or> (\<exists>e q. QueryNodes db q w = (Inl e, w') \<and> res = Inl (mapEntError e)))"
proof -
  obtain g w1 where g: "NotificationClient_Get db nid w = (g, w1)" by (cases "NotificationClient_Get db nid w")
  have "w' = w1" "res = (case g of Inl e \<Rightarrow> Inl (mapEntError e) | Inr n \<Rightarrow> Inr (mapEntNotification n))"
    using assms(2) g by (auto simp: GetNotification_def split: sum.splits)
  with Get_effect [OF assms(1) g] show ?thesis
    by (auto simp: mapEntError_def split: option.splits)
qed

lemma RetryFailed_effect:
  assumes "tables_wf (tabs w)" "snap w = None" "RetryFailedNotification repo nid w = (res, w')"
  shows "snap w' = None \<and> (tabs w' = tabs w \<and> isl res \<or> retry_post nid (tabs w) (tabs w'))"
proof (rule in_tx [OF assms(2) _ _ assms(3) [unfolded RetryFailedNotification_def sel],
      where P = "\<lambda>_. retry_post nid (tabs w)"])
  fix w1 assume w1: "tabs w1 = tabs w" "snap w1 = Some (tabs w)"
  then have wf1: "tables_wf (tabs w1)" using assms(1) by simp
  obtain g w2 where g: "NotificationClient_Get db nid w1 = (g, w2)"
    by (cases "NotificationClient_Get db nid w1")
  from Get_effect [OF wf1 g] w1 have w2: "tabs w2 = tabs w" "snap w2 = Some (tabs w)" by auto
  then have wf2: "tables_wf (tabs w2)" using assms(1) by simp
  have body: "tx isl (tabs w) (\<lambda>_. retry_post nid (tabs w))
    (case NotificationUpdate_Save db (retry_update nid) w2 of
        (Inl err, w3) \<Rightarrow> (Inl err, w3)
      | (Inr affected, w3) \<Rightarrow>
          if affected \<noteq> 1 then (Inl (Sentinel ErrConflict), w3)
          else
            (case time_Now db w3 of (now, w4) \<Rightarrow>
             (case OutboxEventCreate_Save db (outbox_create nid now) w4 of
                (Inl err, w5) \<Rightarrow> (Inl err, w5)
              | (Inr _, w5) \<Rightarrow>
                  (case Tx_Commit db w5 of
                     (Some err, w6) \<Rightarrow> (Inl err, w6)
                   | (None, w6) \<Rightarrow> GetNotification repo nid w6))))"
  proof (rule tx_update [OF w2(2) wf2 retry_update_cas])
    fix w3 r tm
    assume w3: "snap w3 = Some (tabs w)" "find_row Table_notifications nid (tabs w2) = Some r"
      "sql_holds [PEQ FieldStatus (VString StatusFailed)] r"
      "tabs w3 = set_row Table_notifications nid (requeued_row tm) (tabs w2)"
    have wf3: "tables_wf (tabs w3)"
      unfolding w3(4)
      by (rule set_row_wf [OF wf2]) (auto dest!: find_row_typed [OF wf2] intro!: row_updates_typed(4))
    have post: "retry_post nid (tabs w) (tabs w5)"
      if "inserted Table_outbox_events (outbox_row oid nid s c u) (tabs w3) (tabs w5)" for oid s c u w5
      unfolding retry_post_def using w3(2-) w2(1) that by (simp, blast)
    have last: "snap w7 = None \<and> tabs w7 = tabs w5 \<and> retry_post nid (tabs w) (tabs w5)"
      if "inserted Table_outbox_events (outbox_row oid nid s c u) (tabs w3) (tabs w5)"
        "snap w6 = None" "tabs w6 = tabs w5" "GetNotification repo nid w6 = (r', w7)" for oid s c u w5 w6 r' w7
    proof -
      have "tables_wf (tabs w6)"
        using inserted_wf [OF that(1) wf3] that(3) by (simp add: new_rows_typed)
      from GetNotification_effect [OF this that(4)] that(2,3) post [OF that(1)] show ?thesis by simp
    qed
    show "tx isl (tabs w) (\<lambda>_. retry_post nid (tabs w))
      (case time_Now db w3 of (now, w4) \<Rightarrow>
             (case OutboxEventCreate_Save db (outbox_create nid now) w4 of
                (Inl err, w5) \<Rightarrow> (Inl err, w5)
              | (Inr _, w5) \<Rightarrow>
                  (case Tx_Commit db w5 of
                     (Some err, w6) \<Rightarrow> (Inl err, w6)
                   | (None, w6) \<Rightarrow> GetNotification repo nid w6)))"
      by (intro tx_now tx_outbox tx_commit_then w3(1)) (auto intro: post dest: last)
  qed simp_all
  show "tx isl (tabs w) (\<lambda>_. retry_post nid (tabs w))
    (case NotificationClient_Get db nid w1 of
       (Inl err, w2) \<Rightarrow> (Inl (mapEntError err), w2)
     | (Inr current, w2) \<Rightarrow>
         if n_Status current \<noteq> notification_StatusFailed then (Inl (Sentinel ErrConflict), w2)
         else
           (case NotificationUpdate_Save db (retry_update nid) w2 of
              (Inl err, w3) \<Rightarrow> (Inl err, w3)
            | (Inr affected, w3) \<Rightarrow>
                if affected \<noteq> 1 then (Inl (Sentinel ErrConflict), w3)
                else
                  (case time_Now db w3 of (now, w4) \<Rightarrow>
                   (case OutboxEventCreate_Save db (outbox_create nid now) w4 of
                      (Inl err, w5) \<Rightarrow> (Inl err, w5)
                    | (Inr _, w5) \<Rightarrow>
                        (case Tx_Commit db w5 of
                           (Some err, w6) \<Rightarrow> (Inl err, w6)
                         | (None, w6) \<Rightarrow> GetNotification repo nid w6)))))"
    using body w2(2) by (cases g) (auto simp: g intro: tx_fail)
qed auto

end

end
