(* ===== verification/Repository_Views.thy ===== *)
theory Repository_Views
  imports Repository_Effects
begin

text \<open>
  The repository as an implementation of the abstract task machine: the view of a notification's
  row, what each change of \<open>Repository_Effects\<close> does to the views, that the tables stay well
  formed, and that database calls leave everything outside the database alone.
\<close>

section \<open>Views\<close>

definition row_view :: "row \<Rightarrow> TaskView" where
  "row_view r =
     \<lparr>tv_Status = col_string (r FieldStatus), tv_Attempt = col_int (r FieldAttemptCount),
      tv_Max = col_int (r FieldMaxAttempts)\<rparr>"

definition task_views :: "tables \<Rightarrow> uuid \<Rightarrow> TaskView option" where
  "task_views t nid = map_option row_view (find_row Table_notifications nid t)"

lemma row_view_updates:
  "row_view (started_row tm r) = started (row_view r)"
  "row_view (requeued_row tm r) = requeued (row_view r)"
  by (simp_all add: row_view_def row_updates started_def requeued_def)

lemma row_view_finished:
  assumes "r FieldAttemptCount = Some (VInt (n - 1))"
  shows "row_view (succeeded_row n tm r) = finished StatusSucceeded (row_view r)"
    "row_view (failed_row st n m na tm r) = finished st (row_view r)"
  using assms by (simp_all add: row_view_def row_updates finished_def)

lemma task_views_set_row:
  assumes "\<And>r. f r FieldID = r FieldID" "find_row Table_notifications nid t = Some r"
  shows "task_views (set_row Table_notifications nid f t) = (task_views t)(nid \<mapsto> row_view (f r))"
  using assms by (auto simp: task_views_def find_set_row fun_eq_iff)

lemma task_views_add_row [simp]:
  "tb \<noteq> Table_notifications \<Longrightarrow> task_views (add_row tb r t) = task_views t"
  by (simp add: task_views_def find_add_row fun_eq_iff)

lemma inserted_views:
  "inserted tb r t t' \<Longrightarrow> tb \<noteq> Table_notifications \<Longrightarrow> task_views t' = task_views t"
  by (simp add: inserted_def)

lemma typed_view:
  assumes "row_typed notification_schema r"
  shows "r FieldStatus = Some (VString (tv_Status (row_view r)))"
    "r FieldAttemptCount = Some (VInt (tv_Attempt (row_view r)))"
    "r FieldMaxAttempts = Some (VInt (tv_Max (row_view r)))"
  using assms by (auto simp: row_view_def row_typed_def notification_schema_def typed_cases)

lemma find_view:
  assumes "tables_wf t" "task_views t nid = Some v"
  shows "\<exists>r. find_row Table_notifications nid t = Some r \<and> v = row_view r
        \<and> r FieldStatus = Some (VString (tv_Status v)) \<and> r FieldAttemptCount = Some (VInt (tv_Attempt v))"
  using assms find_row_typed [OF assms(1), of Table_notifications nid]
  by (auto simp: task_views_def typed_view)

section \<open>Well-formedness and views of the changes\<close>

lemma set_notification_wf:
  assumes "tables_wf t" "\<And>r. f r FieldID = r FieldID"
    "\<And>r. row_typed notification_schema r \<Longrightarrow> row_typed notification_schema (f r)"
  shows "tables_wf (set_row Table_notifications nid f t)"
proof (rule set_row_wf [OF assms(1)])
  fix r
  show "f r FieldID = r FieldID" by (rule assms(2))
  assume "find_row Table_notifications nid t = Some r"
  from find_row_typed [OF assms(1) this] show "row_typed (table_schema Table_notifications) (f r)"
    by (simp add: assms(3))
qed

lemma mark_post_effect:
  assumes "tables_wf t" "mark_post nid t t'"
  shows "tables_wf t' \<and> (\<exists>v. task_views t nid = Some v \<and> startable v
           \<and> task_views t' = (task_views t)(nid \<mapsto> started v))"
proof -
  from assms(2) obtain r tm where r: "find_row Table_notifications nid t = Some r"
    "r FieldStatus \<in> {Some (VString StatusPending), Some (VString StatusRetrying)}"
    and t': "t' = set_row Table_notifications nid (started_row tm) t"
    by (auto simp: mark_post_def)
  have "startable (row_view r)" using r(2) by (auto simp: startable_def row_view_def)
  moreover have "tables_wf t'"
    unfolding t' by (rule set_notification_wf [OF assms(1)]) (simp_all add: row_updates_typed)
  ultimately show ?thesis
    using r(1) t' by (auto simp: task_views_set_row row_view_updates) (simp add: task_views_def)
qed

lemma in_flight_view:
  assumes "tables_wf t"
  shows "in_flight nid n t \<longleftrightarrow>
     (\<exists>v. task_views t nid = Some v \<and> tv_Status v = StatusDelivering \<and> tv_Attempt v = n - 1)"
proof (cases "find_row Table_notifications nid t")
  case None
  then show ?thesis by (simp add: in_flight_def task_views_def)
next
  case (Some r)
  with find_row_typed [OF assms Some] typed_view [of r] show ?thesis
    by (simp add: in_flight_def task_views_def)
qed

lemma success_post_effect:
  assumes "tables_wf t" "success_post nid a t t'"
  shows "tables_wf t' \<and> (\<exists>v. task_views t nid = Some v \<and> tv_Status v = StatusDelivering
           \<and> tv_Attempt v = ra_AttemptNumber a - 1
           \<and> task_views t' = (task_views t)(nid \<mapsto> finished StatusSucceeded v))"
proof -
  from assms(2) obtain r tm i c where r: "find_row Table_notifications nid t = Some r"
    "r FieldStatus = Some (VString StatusDelivering)" "r FieldAttemptCount = Some (VInt (ra_AttemptNumber a - 1))"
    and ins: "inserted Table_delivery_attempts (attempt_row i nid a StatusSucceeded c)
          (set_row Table_notifications nid (succeeded_row (ra_AttemptNumber a) tm) t) t'"
    by (auto simp: success_post_def in_flight_def)
  have wf1: "tables_wf (set_row Table_notifications nid (succeeded_row (ra_AttemptNumber a) tm) t)"
    by (rule set_notification_wf [OF assms(1)]) (simp_all add: row_updates_typed)
  have "tables_wf t'"
    by (rule inserted_wf [OF ins wf1]) (simp add: new_rows_typed)
  moreover have "task_views t' = (task_views t)(nid \<mapsto> finished StatusSucceeded (row_view r))"
    using inserted_views [OF ins] r(1) by (simp add: task_views_set_row row_view_finished [of r "ra_AttemptNumber a", OF r(3)])
  moreover have "tv_Status (row_view r) = StatusDelivering" "tv_Attempt (row_view r) = ra_AttemptNumber a - 1"
    using r by (simp_all add: row_view_def)
  ultimately show ?thesis using r(1) by (simp add: task_views_def)
qed

lemma failure_post_effect:
  assumes "tables_wf t" "failure_post nid f t t'"
  shows "tables_wf t' \<and> (\<exists>v. task_views t nid = Some v \<and> tv_Status v = StatusDelivering
           \<and> tv_Attempt v = ra_AttemptNumber f - 1
           \<and> task_views t' = (task_views t)(nid \<mapsto> finished (failure_status f) v))"
proof -
  from assms(2) obtain r tm i c t1 where r: "find_row Table_notifications nid t = Some r"
    "r FieldStatus = Some (VString StatusDelivering)" "r FieldAttemptCount = Some (VInt (ra_AttemptNumber f - 1))"
    and ins: "inserted Table_delivery_attempts (attempt_row i nid (RecordedAttempt.truncate f) (failure_status f) c)
          (set_row Table_notifications nid
            (failed_row (failure_status f) (ra_AttemptNumber f) (ra_ErrorMessage f) (rf_NextAttemptAt f) tm) t) t1"
    and out: "if failure_status f = StatusRetrying
             then \<exists>s oid oc ou. rf_NextAttemptAt f = Some s
                    \<and> inserted Table_outbox_events (outbox_row oid nid s oc ou) t1 t'
             else t' = t1"
    unfolding failure_post_def in_flight_def by blast
  have wf1: "tables_wf (set_row Table_notifications nid
      (failed_row (failure_status f) (ra_AttemptNumber f) (ra_ErrorMessage f) (rf_NextAttemptAt f) tm) t)"
    by (rule set_notification_wf [OF assms(1)]) (simp_all add: row_updates_typed)
  have wt1: "tables_wf t1"
    by (rule inserted_wf [OF ins wf1]) (simp add: new_rows_typed)
  have v1: "task_views t1 = (task_views t)(nid \<mapsto> finished (failure_status f) (row_view r))"
    using inserted_views [OF ins] r(1) by (simp add: task_views_set_row row_view_finished [of r "ra_AttemptNumber f", OF r(3)])
  have "tables_wf t' \<and> task_views t' = task_views t1"
  proof (cases "failure_status f = StatusRetrying")
    case True
    with out obtain s oid oc ou where "inserted Table_outbox_events (outbox_row oid nid s oc ou) t1 t'" by auto
    then show ?thesis using inserted_wf [OF _ wt1] inserted_views by (auto simp: new_rows_typed)
  next
    case False
    with out wt1 show ?thesis by simp
  qed
  moreover have "tv_Status (row_view r) = StatusDelivering" "tv_Attempt (row_view r) = ra_AttemptNumber f - 1"
    using r by (simp_all add: row_view_def)
  ultimately show ?thesis using r(1) v1 by (simp add: task_views_def)
qed

lemma retry_post_effect:
  assumes "tables_wf t" "retry_post nid t t'"
  shows "tables_wf t' \<and> (\<exists>v. task_views t nid = Some v \<and> tv_Status v = StatusFailed
           \<and> task_views t' = (task_views t)(nid \<mapsto> requeued v))"
proof -
  from assms(2) obtain r tm oid s c u where r: "find_row Table_notifications nid t = Some r"
    "r FieldStatus = Some (VString StatusFailed)"
    and ins: "inserted Table_outbox_events (outbox_row oid nid s c u)
            (set_row Table_notifications nid (requeued_row tm) t) t'"
    by (auto simp: retry_post_def)
  have wf1: "tables_wf (set_row Table_notifications nid (requeued_row tm) t)"
    by (rule set_notification_wf [OF assms(1)]) (simp_all add: row_updates_typed)
  have "tables_wf t'" by (rule inserted_wf [OF ins wf1]) (simp add: new_rows_typed)
  moreover have "task_views t' = (task_views t)(nid \<mapsto> requeued (row_view r))"
    using inserted_views [OF ins] r(1) by (simp add: task_views_set_row row_view_updates)
  moreover have "tv_Status (row_view r) = StatusFailed" using r by (simp add: row_view_def)
  ultimately show ?thesis using r(1) by (simp add: task_views_def)
qed

lemma create_post_effect:
  assumes "tables_wf t" "create_post req nid r t t'"
  shows "tables_wf t' \<and> task_views t nid = None
    \<and> task_views t' = (task_views t)(nid \<mapsto>
        \<lparr>tv_Status = StatusPending, tv_Attempt = 0, tv_Max = cr_MaxAttempts req\<rparr>)"
proof -
  from assms(2) obtain c u t1 oid s oc ou where r: "r = notification_row nid req c u"
    and i1: "inserted Table_notifications r t t1"
    and i2: "inserted Table_outbox_events (outbox_row oid nid s oc ou) t1 t'"
    by (auto simp: create_post_def)
  have wt1: "tables_wf t1" by (rule inserted_wf [OF i1 assms(1)]) (simp add: r new_rows_typed)
  have "tables_wf t'" by (rule inserted_wf [OF i2 wt1]) (simp add: new_rows_typed)
  moreover have none: "find_row Table_notifications nid t = None"
    using i1 by (auto simp: inserted_def r find_row_None has_id_def)
  moreover have "row_view r = \<lparr>tv_Status = StatusPending, tv_Attempt = 0, tv_Max = cr_MaxAttempts req\<rparr>"
    by (simp add: r row_view_def notification_row_def)
  moreover have "task_views t' = task_views t1" by (rule inserted_views [OF i2]) simp
  moreover have "task_views t1 = (task_views t)(nid \<mapsto> row_view r)"
  proof
    fix j
    show "task_views t1 j = ((task_views t)(nid \<mapsto> row_view r)) j"
      using i1 none by (auto simp: inserted_def task_views_def find_add_row r has_id_def split: option.split)
  qed
  ultimately show ?thesis by (simp add: task_views_def)
qed

section \<open>Reading a task\<close>

definition row_task :: "row \<Rightarrow> Task" where
  "row_task r =
     \<lparr>Task_ID = col_uuid (r FieldID), Task_URL = col_string (r FieldURL),
      Task_Method = col_string (r FieldMethod), Task_Headers = col_headers (r FieldHeaders),
      Task_Body = col_bytes (r FieldBody), Task_Status = col_string (r FieldStatus),
      Task_Attempt = col_int (r FieldAttemptCount), Task_MaxAttempts = col_int (r FieldMaxAttempts)\<rparr>"

context database
begin

lemma Load_effect:
  assumes "tables_wf (tabs w)" "EntLoadForDelivery repo nid w = (res, w')"
  shows "tabs w' = tabs w \<and> snap w' = snap w
    \<and> (res = (case find_row Table_notifications nid (tabs w) of
               None \<Rightarrow> Inl (Sentinel ErrNotFound) | Some r \<Rightarrow> Inr (row_task r))
       \<or> (\<exists>e q. QueryNodes db q w = (Inl e, w') \<and> res = Inl (mapEntError e)))"
proof -
  obtain g w1 where g: "NotificationClient_Get db nid w = (g, w1)" by (cases "NotificationClient_Get db nid w")
  have "w' = w1" "\<And>e. g = Inl e \<Longrightarrow> res = Inl (mapEntError e)"
    "\<And>r. g = Inr (Notification_of_row r) \<Longrightarrow> res = Inr (row_task r)"
    using assms(2) g
    by (auto simp: EntLoadForDelivery_def row_task_def Notification_of_row_def split: sum.splits)
  with Get_effect [OF assms(1) g] show ?thesis
    by (auto simp: mapEntError_def split: option.splits)
qed

end

section \<open>Frame\<close>

text \<open>Whatever the database calls leave alone, the repository leaves alone.\<close>

locale framed_database = database db tabs snap
  for db :: "'w db" and tabs :: "'w \<Rightarrow> tables" and snap :: "'w \<Rightarrow> tables option" +
  fixes frame :: "'w \<Rightarrow> 'f"
  assumes create_frame: "CreateNode db sp w = (r, w') \<Longrightarrow> frame w' = frame w"
    and update_frame: "UpdateNodes db usp w = (n, w') \<Longrightarrow> frame w' = frame w"
    and select_frame: "QueryNodes db q w = (rs, w') \<Longrightarrow> frame w' = frame w"
    and begin_frame: "BeginTx db w = (x, w') \<Longrightarrow> frame w' = frame w"
    and commit_frame: "CommitTx db w = (x, w') \<Longrightarrow> frame w' = frame w"
    and rollback_frame: "RollbackTx db w = (x, w') \<Longrightarrow> frame w' = frame w"
    and clock_frame: "time_Now db w = (tm, w') \<Longrightarrow> frame w' = frame w"
    and rand_frame: "uuid_New db w = (u, w') \<Longrightarrow> frame w' = frame w"
begin

lemmas call_frames = create_frame update_frame select_frame begin_frame commit_frame rollback_frame
  clock_frame rand_frame

lemma Outbox_Save_frame:
  "OutboxEventCreate_Save db (outbox_create nid s) w = (r, w') \<Longrightarrow> frame w' = frame w"
  by (auto simp: OutboxEventCreate_Save_def outbox_defaults OutboxEventCreate_sqlSave_def
      split: prod.splits sum.splits dest!: call_frames)

lemma Attempt_Save_frame:
  "createAttempt db nid a st w = (r, w') \<Longrightarrow> frame w' = frame w"
  by (auto simp: createAttempt_def DeliveryAttemptCreate_Save_def attempt_defaults
      DeliveryAttemptCreate_sqlSave_def split: prod.splits sum.splits option.splits dest!: call_frames)

lemma Update_Save_frame:
  assumes "nm_updated_at u = None" "NotificationUpdate_Save db u w = (r, w')"
  shows "frame w' = frame w"
  using assms(2)
  by (auto simp: NotificationUpdate_Save_def update_defaults [OF assms(1)] NotificationUpdate_sqlSave_def
      split: prod.splits sum.splits option.splits if_splits dest!: call_frames)

lemma Get_frame: "NotificationClient_Get db nid w = (r, w') \<Longrightarrow> frame w' = frame w"
  by (auto simp: NotificationClient_Get_def NotificationQuery_Only_def NotificationQuery_All_def
      NotificationQuery_sqlAll_def Let_def
      split: prod.splits sum.splits option.splits list.splits dest!: call_frames)

lemma updates_fresh:
  "nm_updated_at (mark_update nid) = None" "nm_updated_at (success_update nid a) = None"
  "nm_updated_at (failure_update nid f) = None"
  using mark_update_cas success_update_cas failure_update_cas by (auto simp: cas_update_def)

lemma deferred_frame:
  "deferred db rw = (r', w') \<Longrightarrow> frame w' = frame (snd rw)"
  by (auto simp: deferred_def rollbackUnlessCommitted_def Tx_Rollback_def split: prod.splits dest: rollback_frame)

lemma commit_frame_snd [simp]: "frame (snd (CommitTx db w)) = frame w"
  by (cases "CommitTx db w") (simp add: commit_frame)

lemma Load_frame: "EntLoadForDelivery repo nid w = (r, w') \<Longrightarrow> frame w' = frame w"
  by (auto simp: EntLoadForDelivery_def split: prod.splits sum.splits dest: Get_frame)

lemma Mark_frame: "EntMarkDelivering repo nid w = (r, w') \<Longrightarrow> frame w' = frame w"
  by (auto simp: EntMarkDelivering_def split: prod.splits sum.splits if_splits
      dest: Update_Save_frame [OF updates_fresh(1)])

lemma Success_frame: "EntRecordSuccess repo nid a w = (r, w') \<Longrightarrow> frame w' = frame w"
  by (auto simp: EntRecordSuccess_def Client_Tx_def newTx_def Tx_Commit_def
      split: prod.splits sum.splits option.splits if_splits
      dest!: call_frames Update_Save_frame [OF updates_fresh(2)] Attempt_Save_frame deferred_frame)

lemma Failure_frame: "EntRecordFailure repo nid f w = (r, w') \<Longrightarrow> frame w' = frame w"
  by (auto simp: EntRecordFailure_def Client_Tx_def newTx_def Tx_Commit_def Let_def
      split: prod.splits sum.splits option.splits if_splits
      dest!: call_frames Update_Save_frame [OF updates_fresh(3)] Attempt_Save_frame Outbox_Save_frame
        deferred_frame)

end

section \<open>Reading back what was created\<close>

lemma mapEnt_created:
  "mapEntNotification (Notification_of_row (notification_row nid req c u)) =
     \<lparr>an_ID = nid, an_URL = cr_URL req, an_Method = cr_Method req,
      an_Headers = (case cr_Headers req of None \<Rightarrow> Some [] | Some h \<Rightarrow> Some h), an_Body = cr_Body req,
      an_Status = StatusPending, an_AttemptCount = 0, an_MaxAttempts = cr_MaxAttempts req, an_LastError = '''',
      an_NextAttemptAt = None, an_CreatedAt = c, an_UpdatedAt = u\<rparr>"
  by (simp add: mapEntNotification_def Notification_of_row_def notification_row_def Let_def split: option.split)

context database
begin

lemma Create_then_Get:
  assumes "tables_wf (tabs w)" "snap w = None" "CreateNotification repo req w = (Inr n, w1)"
    and "GetNotification repo (an_ID n) w1 = (got, w2)"
  shows "an_URL n = cr_URL req \<and> an_Method n = cr_Method req \<and> an_Body n = cr_Body req
    \<and> an_Status n = StatusPending \<and> an_AttemptCount n = 0 \<and> an_MaxAttempts n = cr_MaxAttempts req
    \<and> (got = Inr n \<or> (\<exists>e q. QueryNodes db q w1 = (Inl e, w2) \<and> got = Inl (mapEntError e)))"
proof -
  from CreateNotification_effect [OF assms(2,3)] obtain nid r where
    p: "create_post req nid r (tabs w) (tabs w1)" and n: "n = mapEntNotification (Notification_of_row r)" by auto
  from p obtain c u t1 oid s oc ou where r: "r = notification_row nid req c u"
    and i1: "inserted Table_notifications r (tabs w) t1"
    and i2: "inserted Table_outbox_events (outbox_row oid nid s oc ou) t1 (tabs w1)"
    by (auto simp: create_post_def)
  have wf: "tables_wf (tabs w1)" using create_post_effect [OF assms(1) p] by simp
  have "r \<in> set (t1 Table_notifications)" using i1 by (auto simp: inserted_def add_row_def)
  then have "r \<in> set (tabs w1 Table_notifications)" using i2 by (auto simp: inserted_def)
  from find_row_unique [OF wf this, of nid] have f: "find_row Table_notifications nid (tabs w1) = Some r"
    by (simp add: r has_id_def)
  have id: "an_ID n = nid" by (simp add: n r mapEnt_created)
  from GetNotification_effect [OF wf assms(4)] f show ?thesis
    by (auto simp: id n r mapEnt_created)
qed

end

end
