(* ===== verification/System_Tables.thy ===== *)
theory System_Tables
  imports System_Machine Outbox_Env Repository_Views
begin

text \<open>
  Every change that the program makes to the tables is a step of \<open>System_Machine\<close>: the changes of
  the repository (\<open>create_post\<close>, \<open>mark_post\<close>, ...) and the statements of the outbox store.
\<close>

definition tables_sys :: "tables \<Rightarrow> (DeliveryMessage \<times> string) list \<Rightarrow> string set \<Rightarrow> uuid set \<Rightarrow> system" where
  "tables_sys t L A S =
     \<lparr>sy_tasks = task_views t, sy_events = event_views t, sy_log = L, sy_acked = A, sy_spent = S\<rparr>"

lemma tables_sys_sel [simp]:
  "sy_tasks (tables_sys t L A S) = task_views t" "sy_events (tables_sys t L A S) = event_views t"
  "sy_log (tables_sys t L A S) = L" "sy_acked (tables_sys t L A S) = A" "sy_spent (tables_sys t L A S) = S"
  by (simp_all add: tables_sys_def)

lemma tables_sys_cong:
  "task_views t' = task_views t \<Longrightarrow> event_views t' = event_views t \<Longrightarrow> tables_sys t' L A S = tables_sys t L A S"
  by (simp add: tables_sys_def)

section \<open>Changes seen through the events\<close>

lemma event_views_set_other:
  "tb \<noteq> Table_outbox_events \<Longrightarrow> (\<And>r. f r FieldID = r FieldID) \<Longrightarrow> event_views (set_row tb i f t) = event_views t"
  by (simp add: event_views_def find_set_row fun_eq_iff)

lemma event_views_inserted_other:
  "inserted tb r t t' \<Longrightarrow> tb \<noteq> Table_outbox_events \<Longrightarrow> event_views t' = event_views t"
  by (rule ext) (simp add: inserted_def event_views_def find_add_row)

lemma outbox_row_event:
  "ew_NotificationID (row_event (outbox_row oid nid s c u)) = nid"
  "ew_Status (row_event (outbox_row oid nid s c u)) = ''pending''"
  by (simp_all add: row_event_def outbox_row_def)

lemma event_views_inserted:
  assumes "inserted Table_outbox_events (outbox_row oid nid s c u) t t'"
  shows "event_views t oid = None"
    "event_views t' = (event_views t)(oid \<mapsto> row_event (outbox_row oid nid s c u))"
proof -
  have id: "has_id j (outbox_row oid nid s c u) \<longleftrightarrow> j = oid" for j by (auto simp: has_id_def outbox_row_def)
  have none: "find_row Table_outbox_events oid t = None"
    using assms by (auto simp: inserted_def find_row_None has_id_def outbox_row_def)
  then show "event_views t oid = None" by (simp add: event_views_def)
  have t': "t' = add_row Table_outbox_events (outbox_row oid nid s c u) t" using assms by (simp add: inserted_def)
  show "event_views t' = (event_views t)(oid \<mapsto> row_event (outbox_row oid nid s c u))"
  proof
    fix j
    show "event_views t' j = ((event_views t)(oid \<mapsto> row_event (outbox_row oid nid s c u))) j"
      using none by (auto simp: t' event_views_def find_add_row id split: option.split)
  qed
qed

text \<open>The event that a transaction adds for its task.\<close>

lemma inserted_new_event:
  assumes "inserted Table_outbox_events (outbox_row oid nid s c u) t1 t'" "event_views t1 = event_views t"
  shows "\<exists>e x. new_event (tables_sys t L A S) nid e x \<and> event_views t' = (event_views t)(e \<mapsto> x)"
  using event_views_inserted [OF assms(1)] assms(2) by (force simp: new_event_def outbox_row_event)

section \<open>The repository's changes are steps\<close>

lemma mark_post_step:
  assumes "tables_wf t" "mark_post nid t t'"
  shows "sys_step (tables_sys t L A S) (tables_sys t' L A S)"
proof -
  from assms(2) have "event_views t' = event_views t"
    by (auto simp: mark_post_def event_views_set_other row_updates)
  with mark_post_effect [OF assms] sys_step.start [of "tables_sys t L A S" nid] show ?thesis
    by (auto simp: tables_sys_def)
qed

lemma success_post_step:
  assumes "tables_wf t" "success_post nid a t t'" "D \<subseteq> events_of (tables_sys t L A S) nid"
  shows "sys_step (tables_sys t L A S) (tables_sys t' L A (S \<union> D))"
proof -
  from assms(2) have "event_views t' = event_views t"
    by (auto simp: success_post_def event_views_set_other row_updates dest!: event_views_inserted_other)
  with success_post_effect [OF assms(1,2)] sys_step.finish [of "tables_sys t L A S" nid _ StatusSucceeded D] assms(3)
  show ?thesis by (auto simp: tables_sys_def)
qed

lemma failure_post_step:
  assumes "tables_wf t" "failure_post nid f t t'" "D \<subseteq> events_of (tables_sys t L A S) nid"
  shows "sys_step (tables_sys t L A S) (tables_sys t' L A (S \<union> D))"
proof -
  from failure_post_effect [OF assms(1,2)] obtain v where v: "task_views t nid = Some v" "tv_Status v = StatusDelivering"
    "task_views t' = (task_views t)(nid \<mapsto> finished (failure_status f) v)" by blast
  from assms(2) obtain tm i c t1 where
    ins: "inserted Table_delivery_attempts (attempt_row i nid (RecordedAttempt.truncate f) (failure_status f) c)
          (set_row Table_notifications nid
            (failed_row (failure_status f) (ra_AttemptNumber f) (ra_ErrorMessage f) (rf_NextAttemptAt f) tm) t) t1"
    and out: "if failure_status f = StatusRetrying
             then \<exists>s oid oc ou. rf_NextAttemptAt f = Some s \<and> inserted Table_outbox_events (outbox_row oid nid s oc ou) t1 t'
             else t' = t1"
    unfolding failure_post_def by blast
  have t1: "event_views t1 = event_views t"
    using event_views_inserted_other [OF ins] by (simp add: event_views_set_other row_updates)
  show ?thesis
  proof (cases "failure_status f = StatusRetrying")
    case True
    with out obtain s oid oc ou where "inserted Table_outbox_events (outbox_row oid nid s oc ou) t1 t'" by auto
    from inserted_new_event [OF this t1, of L A S] obtain e x where
      "new_event (tables_sys t L A S) nid e x" "event_views t' = (event_views t)(e \<mapsto> x)" by blast
    with v True sys_step.reschedule [of "tables_sys t L A S" nid v e x D] assms(3)
    show ?thesis by (auto simp: tables_sys_def)
  next
    case False
    then have st: "failure_status f = StatusFailed" by (auto simp: failure_status_def split: if_splits)
    from out False t1 have "event_views t' = event_views t" by simp
    with v st sys_step.finish [of "tables_sys t L A S" nid v StatusFailed D] assms(3)
    show ?thesis by (auto simp: tables_sys_def)
  qed
qed

lemma retry_post_step:
  assumes "tables_wf t" "retry_post nid t t'"
  shows "sys_step (tables_sys t L A S) (tables_sys t' L A S)"
proof -
  from retry_post_effect [OF assms] obtain v where v: "task_views t nid = Some v" "tv_Status v = StatusFailed"
    "task_views t' = (task_views t)(nid \<mapsto> requeued v)" by blast
  from assms(2) obtain tm oid s c u where "inserted Table_outbox_events (outbox_row oid nid s c u)
      (set_row Table_notifications nid (requeued_row tm) t) t'" by (auto simp: retry_post_def)
  from inserted_new_event [OF this, of t L A S] obtain e x where
    "new_event (tables_sys t L A S) nid e x" "event_views t' = (event_views t)(e \<mapsto> x)"
    by (auto simp: event_views_set_other row_updates)
  with v sys_step.requeue [of "tables_sys t L A S" nid v e x] show ?thesis by (auto simp: tables_sys_def)
qed

lemma create_post_step:
  assumes "tables_wf t" "create_post req nid r t t'"
  shows "sys_step (tables_sys t L A S) (tables_sys t' L A S)"
proof -
  note v = create_post_effect [OF assms]
  from assms(2) obtain t1 oid s oc ou where i1: "inserted Table_notifications r t t1"
    and i2: "inserted Table_outbox_events (outbox_row oid nid s oc ou) t1 t'"
    by (auto simp: create_post_def)
  have "event_views t1 = event_views t" by (rule event_views_inserted_other [OF i1]) simp
  from inserted_new_event [OF i2 this, of L A S] obtain e x where
    "new_event (tables_sys t L A S) nid e x" "event_views t' = (event_views t)(e \<mapsto> x)" by blast
  with v sys_step.create [of "tables_sys t L A S" nid _ e x] show ?thesis by (auto simp: tables_sys_def)
qed

section \<open>The outbox store's statements are steps\<close>

lemma claims_step:
  assumes "tables_wf t" "claims (claim_query limit now) (claim_set lk now) t rs t'"
  shows "sys_step (tables_sys t L A S) (tables_sys t' L A S)"
proof -
  note ce = claims_effect [OF assms]
  have "event_views t' i = event_views t i \<or> (\<exists>x x'. event_views t i = Some x \<and> ew_open x
      \<and> event_views t' i = Some x' \<and> ew_held lk x' \<and> same_work x x')" for i
  proof (cases "\<exists>r'\<in>set rs. has_id i r'")
    case True
    then obtain r' where r': "r' \<in> set rs" "has_id i r'" by blast
    from ce(4) [OF r'(1)] obtain j r where j: "has_id j r'" "find_row Table_outbox_events j t = Some r"
      "claimable now r" "r' = claimed_row lk now r" "find_row Table_outbox_events j t' = Some r'" by blast
    have "j = i" using j(1) r'(2) by (simp add: has_id_def)
    with j claimable_open [OF j(3)] show ?thesis
      by (simp add: event_views_def ew_held_def same_work_def)
  next
    case False
    with ce(5) [of i] show ?thesis by (simp add: event_views_def)
  qed
  moreover have "task_views t' = task_views t"
    using ce(6) [of Table_notifications] by (simp add: task_views_def find_row_def fun_eq_iff)
  ultimately show ?thesis
    using sys_step.claim [of "event_views t'" "tables_sys t L A S" lk] by (auto simp: tables_sys_def)
qed

lemma task_views_set_other:
  "tb \<noteq> Table_notifications \<Longrightarrow> (\<And>r. f r FieldID = r FieldID) \<Longrightarrow> task_views (set_row tb i f t) = task_views t"
  by (simp add: task_views_def find_set_row fun_eq_iff)

lemma published_step:
  assumes "held e lk t" "\<And>x. event_views t e = Some x \<Longrightarrow> (ew_message e x, i) \<in> set L"
  shows "sys_step (tables_sys t L A S) (tables_sys (set_row Table_outbox_events e (published_row i tm) t) L A S)"
proof -
  from held_view [OF assms(1)] obtain r where r: "find_row Table_outbox_events e t = Some r"
    "event_views t e = Some (row_event r)" "ew_held lk (row_event r)" by blast
  with assms(2) have "(ew_message e (row_event r), i) \<in> set L" by blast
  with r sys_step.mark_published [of "tables_sys t L A S" e "row_event r" lk i] show ?thesis
    by (simp add: tables_sys_def event_views_set_row task_views_set_other)
qed

lemma released_step:
  assumes "held e lk t"
  shows "sys_step (tables_sys t L A S) (tables_sys (set_row Table_outbox_events e (released_row m tm) t) L A S)"
proof -
  from held_view [OF assms(1)] obtain r where r: "find_row Table_outbox_events e t = Some r"
    "event_views t e = Some (row_event r)" "ew_held lk (row_event r)" by blast
  with sys_step.release [of "tables_sys t L A S" e "row_event r" lk] show ?thesis
    by (simp add: tables_sys_def event_views_set_row task_views_set_other)
qed

end
