(* ===== verification/Delivery_Http.thy ===== *)
theory Delivery_Http
  imports Delivery_Processor
begin

text \<open>
  \<^verbatim>\<open>internal/delivery/http.go\<close>: one outbound HTTP attempt. The HTTP client (\<^verbatim>\<open>client.Do\<close>, the
  network behind it), the URL parser and \<^verbatim>\<open>uuid.UUID.String\<close> are parameters; the request that is
  built, its headers included, is modelled.
\<close>

section \<open>Headers and requests (net/http)\<close>

text \<open>The bytes of an RFC 7230 token.\<close>

definition is_token :: "char \<Rightarrow> bool" where
  "is_token c \<longleftrightarrow>
     is_digit c \<or> (65 \<le> byte c \<and> byte c \<le> 90) \<or> (97 \<le> byte c \<and> byte c \<le> 122)
     \<or> c \<in> set ''!#$%&*+-.^_|~'' \<or> c = CHR 39 \<or> c = CHR 96"

text \<open>\<^verbatim>\<open>CanonicalMIMEHeaderKey\<close>: unchanged unless every byte is a token byte.\<close>

fun canonical_loop :: "bool \<Rightarrow> string \<Rightarrow> string" where
  "canonical_loop upper [] = []"
| "canonical_loop upper (c # cs) =
     (let c1 = (if upper then ascii_upper c else ascii_lower c) in c1 # canonical_loop (c1 = CHR ''-'') cs)"

definition CanonicalHeaderKey :: "string \<Rightarrow> string" where
  "CanonicalHeaderKey s = (if list_all is_token s then canonical_loop True s else s)"

type_synonym http_header = "(string \<times> string) list"

text \<open>\<^verbatim>\<open>Header.Set\<close> and \<^verbatim>\<open>Header.Get\<close>, on headers that hold one value per key.\<close>

definition Header_Set :: "string \<Rightarrow> string \<Rightarrow> http_header \<Rightarrow> http_header" where
  "Header_Set k v h = (CanonicalHeaderKey k, v) # filter (\<lambda>kv. fst kv \<noteq> CanonicalHeaderKey k) h"

definition Header_Get :: "string \<Rightarrow> http_header \<Rightarrow> string" where
  "Header_Get k h = (case map_of h (CanonicalHeaderKey k) of Some v \<Rightarrow> v | None \<Rightarrow> '''')"

lemma Header_Get_Set:
  "Header_Get k (Header_Set k' v h) = (if CanonicalHeaderKey k = CanonicalHeaderKey k' then v else Header_Get k h)"
proof -
  have "map_of (filter (\<lambda>kv. fst kv \<noteq> a) h) b = map_of h b" if "b \<noteq> a" for a b
    using that by (induction h) auto
  then show ?thesis by (simp add: Header_Get_def Header_Set_def)
qed

record Request =
  rq_Method :: string
  rq_URL :: string
  rq_Header :: http_header
  rq_Body :: bytes

text \<open>\<^verbatim>\<open>http.NewRequestWithContext\<close>: the method must be a token, the URL must parse.\<close>

definition http_NewRequest :: "(string \<Rightarrow> goerror option) \<Rightarrow> string \<Rightarrow> string \<Rightarrow> bytes \<Rightarrow> goerror + Request" where
  "http_NewRequest url_Parse method url body =
     (let method1 = (if method = '''' then ''GET'' else method) in
      if \<not> list_all is_token method1
      then Inl (ErrText (''net/http: invalid method '' @ Quote method1))
      else (case url_Parse url of
              Some err \<Rightarrow> Inl err
            | None \<Rightarrow> Inr \<lparr>rq_Method = method1, rq_URL = url, rq_Header = [], rq_Body = body\<rparr>))"

text \<open>\<^verbatim>\<open>t.Sub(u)\<close> saturates at the ends of the range of a duration.\<close>

definition Time_Sub :: "time \<Rightarrow> time \<Rightarrow> duration" where
  "Time_Sub t u = word_of_int (max (- (2 ^ 63)) (min (2 ^ 63 - 1) (t - u)))"

section \<open>Deliver\<close>

record 'w HTTPDispatcher =
  hd_Do :: "Request \<Rightarrow> 'w \<Rightarrow> (goerror + int) \<times> 'w"
  hd_now :: "'w \<Rightarrow> time \<times> 'w"
  hd_url_Parse :: "string \<Rightarrow> goerror option"
  hd_uuid_String :: "uuid \<Rightarrow> string"

definition delivery_header :: "'w HTTPDispatcher \<Rightarrow> Task \<Rightarrow> http_header \<Rightarrow> http_header" where
  "delivery_header d task h0 =
     (let h = fold (\<lambda>(key, value) h. Header_Set key value h)
                (case Task_Headers task of None \<Rightarrow> [] | Some kvs \<Rightarrow> kvs) h0;
          h = Header_Set ''X-Notification-ID'' (hd_uuid_String d (Task_ID task)) h
      in Header_Set ''Idempotency-Key'' (hd_uuid_String d (Task_ID task)) h)"

definition HTTPDispatcher_Deliver :: "'w HTTPDispatcher \<Rightarrow> Task \<Rightarrow> 'w \<Rightarrow> AttemptResult \<times> 'w" where
  "HTTPDispatcher_Deliver d task w =
     (case hd_now d w of (start, w1) \<Rightarrow>
        (case http_NewRequest (hd_url_Parse d) (Task_Method task) (Task_URL task) (Task_Body task) of
           Inl err \<Rightarrow>
             (case hd_now d w1 of (t, w2) \<Rightarrow>
                (\<lparr>ar_StatusCode = 0, ar_Err = Some err, ar_Duration = Time_Sub t start\<rparr>, w2))
         | Inr req \<Rightarrow>
             (case hd_Do d (req\<lparr>rq_Header := delivery_header d task (rq_Header req)\<rparr>) w1 of
                (Inl err, w2) \<Rightarrow>
                  (case hd_now d w2 of (t, w3) \<Rightarrow>
                     (\<lparr>ar_StatusCode = 0, ar_Err = Some err, ar_Duration = Time_Sub t start\<rparr>, w3))
              | (Inr status, w2) \<Rightarrow>
                  (case hd_now d w2 of (t, w3) \<Rightarrow>
                     (\<lparr>ar_StatusCode = status, ar_Err = None, ar_Duration = Time_Sub t start\<rparr>, w3)))))"

section \<open>The identity headers\<close>

text \<open>Whatever headers the producer asked for, the request carries the notification's own id.\<close>

lemma delivery_header_identity:
  "Header_Get ''X-Notification-ID'' (delivery_header d task h) = hd_uuid_String d (Task_ID task)"
  "Header_Get ''Idempotency-Key'' (delivery_header d task h) = hd_uuid_String d (Task_ID task)"
proof -
  have "CanonicalHeaderKey ''X-Notification-ID'' \<noteq> CanonicalHeaderKey ''Idempotency-Key''"
    by (simp add: CanonicalHeaderKey_def is_token_def is_digit_def byte_def ascii_upper_def ascii_lower_def Let_def)
  then show "Header_Get ''X-Notification-ID'' (delivery_header d task h) = hd_uuid_String d (Task_ID task)"
    "Header_Get ''Idempotency-Key'' (delivery_header d task h) = hd_uuid_String d (Task_ID task)"
    by (simp_all add: delivery_header_def Header_Get_Set Let_def)
qed

end
