(* ===== verification/Worker_Env.thy ===== *)
theory Worker_Env
  imports Repository_Views Delivery_Http
begin

text \<open>
  The worker as \<^verbatim>\<open>cmd/worker/main.go\<close> wires it: the processor over the repository and the HTTP
  dispatcher. The locale \<open>worker_env\<close> collects what the environment promises - the database
  contract, an HTTP client whose calls are logged and touch nothing else, distinct texts for
  distinct identifiers - and is shown to satisfy the contract \<open>delivery_worker\<close> of the
  processor; it is interpreted on a concrete world at the end.
\<close>

definition ent_worker :: "'w db \<Rightarrow> 'w HTTPDispatcher \<Rightarrow> RetryPolicy \<Rightarrow> 'w Processor" where
  "ent_worker client d pol =
     NewProcessor (time_Now client) (ent_store (NewEntRepository client))
       \<lparr>Deliver = HTTPDispatcher_Deliver d\<rparr> pol None"

text \<open>How many requests for a notification have been handed to the HTTP client.\<close>

definition requests_for :: "(uuid \<Rightarrow> string) \<Rightarrow> Request list \<Rightarrow> uuid \<Rightarrow> nat" where
  "requests_for ustr log nid =
     count_where (\<lambda>rq. Header_Get ''X-Notification-ID'' (rq_Header rq) = ustr nid) log"

section \<open>The environment\<close>

locale worker_env = framed_database db tabs snap calls
  for db :: "'w db" and tabs :: "'w \<Rightarrow> tables" and snap :: "'w \<Rightarrow> tables option"
    and calls :: "'w \<Rightarrow> Request list" +
  fixes disp :: "'w HTTPDispatcher"
  assumes disp_now: "hd_now disp = time_Now db"
    and client_Do: "hd_Do disp req w = (r, w') \<Longrightarrow>
      calls w' = calls w @ [req] \<and> tabs w' = tabs w \<and> snap w' = snap w"
    and uuid_String_inj: "hd_uuid_String disp a = hd_uuid_String disp b \<Longrightarrow> a = b"
begin

definition healthy :: "'w \<Rightarrow> bool" where
  "healthy w \<longleftrightarrow> tables_wf (tabs w) \<and> snap w = None"

abbreviation views :: "'w \<Rightarrow> uuid \<Rightarrow> TaskView option" where
  "views w \<equiv> task_views (tabs w)"

abbreviation sent :: "'w \<Rightarrow> uuid \<Rightarrow> nat" where
  "sent w \<equiv> requests_for (hd_uuid_String disp) (calls w)"

lemma Deliver_effect:
  assumes "HTTPDispatcher_Deliver disp t w = (res, w')"
  shows "tabs w' = tabs w \<and> snap w' = snap w
    \<and> (calls w' = calls w \<and> ar_Err res \<noteq> None
       \<or> (\<exists>req. calls w' = calls w @ [req]
            \<and> Header_Get ''X-Notification-ID'' (rq_Header req) = hd_uuid_String disp (Task_ID t)))"
proof -
  obtain st w1 where n1: "time_Now db w = (st, w1)" by (cases "time_Now db w")
  from now_frame [OF n1] clock_frame [OF n1]
  have w1: "tabs w1 = tabs w" "snap w1 = snap w" "calls w1 = calls w" by auto
  have tick: "tabs v' = tabs v \<and> snap v' = snap v \<and> calls v' = calls v" if "time_Now db v = (tm, v')" for v v' tm
    using now_frame [OF that] clock_frame [OF that] by auto
  show ?thesis
  proof (cases "http_NewRequest (hd_url_Parse disp) (Task_Method t) (Task_URL t) (Task_Body t)")
    case (Inl e)
    obtain tm w2 where "time_Now db w1 = (tm, w2)" by (cases "time_Now db w1")
    with assms n1 Inl tick [of w1 tm w2] w1 show ?thesis
      by (auto simp: HTTPDispatcher_Deliver_def disp_now)
  next
    case (Inr req0)
    define req where "req = req0\<lparr>rq_Header := delivery_header disp t (rq_Header req0)\<rparr>"
    obtain a w2 where d: "hd_Do disp req w1 = (a, w2)" by (cases "hd_Do disp req w1")
    obtain tm w3 where n3: "time_Now db w2 = (tm, w3)" by (cases "time_Now db w2")
    have "w' = w3"
      using assms n1 Inr d n3
      by (cases a) (auto simp: HTTPDispatcher_Deliver_def disp_now req_def)
    with client_Do [OF d] tick [OF n3] w1 have "tabs w' = tabs w" "snap w' = snap w" "calls w' = calls w @ [req]"
      by auto
    moreover have "Header_Get ''X-Notification-ID'' (rq_Header req) = hd_uuid_String disp (Task_ID t)"
      by (simp add: req_def delivery_header_identity)
    ultimately show ?thesis by auto
  qed
qed

text \<open>What goes over the wire is the stored task, under the task's own identity.\<close>

lemma Deliver_request:
  assumes "HTTPDispatcher_Deliver disp t w = (res, w')"
  shows "calls w' = calls w \<and> ar_Err res \<noteq> None
    \<or> (\<exists>req. calls w' = calls w @ [req]
         \<and> rq_Method req = (if Task_Method t = [] then ''GET'' else Task_Method t)
         \<and> rq_URL req = Task_URL t \<and> rq_Body req = Task_Body t
         \<and> Header_Get ''X-Notification-ID'' (rq_Header req) = hd_uuid_String disp (Task_ID t)
         \<and> Header_Get ''Idempotency-Key'' (rq_Header req) = hd_uuid_String disp (Task_ID t))"
proof -
  have tick: "calls v' = calls v" if "time_Now db v = (tm, v')" for v v' tm
    using clock_frame [OF that] by auto
  obtain st w1 where n1: "time_Now db w = (st, w1)" by (cases "time_Now db w")
  show ?thesis
  proof (cases "http_NewRequest (hd_url_Parse disp) (Task_Method t) (Task_URL t) (Task_Body t)")
    case (Inl e)
    obtain tm w2 where "time_Now db w1 = (tm, w2)" by (cases "time_Now db w1")
    with assms n1 Inl tick show ?thesis by (auto simp: HTTPDispatcher_Deliver_def disp_now)
  next
    case (Inr req0)
    define req where "req = req0\<lparr>rq_Header := delivery_header disp t (rq_Header req0)\<rparr>"
    obtain a w2 where d: "hd_Do disp req w1 = (a, w2)" by (cases "hd_Do disp req w1")
    obtain tm w3 where n3: "time_Now db w2 = (tm, w3)" by (cases "time_Now db w2")
    have "w' = w3"
      using assms n1 Inr d n3 by (cases a) (auto simp: HTTPDispatcher_Deliver_def disp_now req_def)
    with client_Do [OF d] tick [OF n3] tick [OF n1] have "calls w' = calls w @ [req]" by auto
    moreover have "rq_Method req = (if Task_Method t = [] then ''GET'' else Task_Method t)"
      "rq_URL req = Task_URL t" "rq_Body req = Task_Body t"
      using Inr by (auto simp: http_NewRequest_def Let_def req_def split: if_splits option.splits)
    ultimately show ?thesis by (auto simp: req_def delivery_header_identity)
  qed
qed

sublocale delivery_worker "EntLoadForDelivery repo" "EntMarkDelivering repo" "EntRecordSuccess repo"
  "EntRecordFailure repo" views sent healthy "HTTPDispatcher_Deliver disp" "time_Now db"
proof
  fix s s' nid and res :: "goerror + Task"
  assume "healthy s" "EntLoadForDelivery repo nid s = (res, s')"
  then show "healthy s' \<and> views s' = views s \<and> sent s' = sent s"
    using Load_effect [of s nid res s'] Load_frame [of nid s res s'] by (auto simp: healthy_def)
next
  fix s s' nid t
  assume h: "healthy s" and l: "EntLoadForDelivery repo nid s = (Inr t, s')"
  then obtain r where r: "find_row Table_notifications nid (tabs s) = Some r" "t = row_task r"
    using Load_effect [of s nid "Inr t" s'] by (auto simp: healthy_def split: option.splits)
  then show "Task_ID t = nid \<and> views s nid = Some (task_view t)"
    using find_row_in [OF r(1)]
    by (auto simp: task_views_def row_task_def task_view_def row_view_def has_id_def)
next
  fix s s' nid and r :: "goerror option"
  assume "healthy s" "EntMarkDelivering repo nid s = (r, s')"
  then show "healthy s' \<and> sent s' = sent s"
    using MarkDelivering_effect [of s nid r s'] Mark_frame [of nid s r s'] mark_post_effect [of "tabs s" nid "tabs s'"]
    by (auto simp: healthy_def)
next
  fix s s' nid and r :: "goerror option"
  assume "healthy s" "EntMarkDelivering repo nid s = (r, s')"
  then show "views s' = views s \<and> r \<noteq> None \<or>
      (\<exists>v. views s nid = Some v \<and> startable v \<and> views s' = (views s)(nid \<mapsto> started v))"
    using MarkDelivering_effect [of s nid r s'] mark_post_effect [of "tabs s" nid "tabs s'"]
    by (auto simp: healthy_def)
next
  fix s s' nid a and r :: "goerror option"
  assume "healthy s" "EntRecordSuccess repo nid a s = (r, s')"
  then show "healthy s' \<and> sent s' = sent s"
    using RecordSuccess_effect [of s nid a r s'] Success_frame [of nid a s r s']
      success_post_effect [of "tabs s" nid a "tabs s'"]
    by (auto simp: healthy_def)
next
  fix s s' nid a and r :: "goerror option"
  assume "healthy s" "EntRecordSuccess repo nid a s = (r, s')"
  then show "views s' = views s \<and> r \<noteq> None \<or>
      (\<exists>v. views s nid = Some v \<and> tv_Status v = StatusDelivering \<and> tv_Attempt v = ra_AttemptNumber a - 1
          \<and> views s' = (views s)(nid \<mapsto> finished StatusSucceeded v))"
    using RecordSuccess_effect [of s nid a r s'] success_post_effect [of "tabs s" nid a "tabs s'"]
    by (auto simp: healthy_def opt_err_def)
next
  fix s s' nid f and r :: "goerror option"
  assume "healthy s" "EntRecordFailure repo nid f s = (r, s')"
  then show "healthy s' \<and> sent s' = sent s"
    using RecordFailure_effect [of s nid f r s'] Failure_frame [of nid f s r s']
      failure_post_effect [of "tabs s" nid f "tabs s'"]
    by (auto simp: healthy_def)
next
  fix s s' nid f and r :: "goerror option"
  assume "healthy s" "EntRecordFailure repo nid f s = (r, s')"
  then show "views s' = views s \<and> r \<noteq> None \<or>
      (\<exists>v. views s nid = Some v \<and> tv_Status v = StatusDelivering \<and> tv_Attempt v = ra_AttemptNumber f - 1
          \<and> views s' = (views s)(nid \<mapsto> finished (failure_status f) v))"
    using RecordFailure_effect [of s nid f r s'] failure_post_effect [of "tabs s" nid f "tabs s'"]
    by (auto simp: healthy_def opt_err_def)
next
  fix s s' t res
  assume h: "healthy s" and d: "HTTPDispatcher_Deliver disp t s = (res, s')"
  have other: "Header_Get ''X-Notification-ID'' (rq_Header req) \<noteq> hd_uuid_String disp i"
    if "Header_Get ''X-Notification-ID'' (rq_Header req) = hd_uuid_String disp (Task_ID t)" "i \<noteq> Task_ID t" for req i
    using that uuid_String_inj by metis
  from Deliver_effect [OF d] h
  show "healthy s' \<and> views s' = views s \<and> (\<forall>i. i \<noteq> Task_ID t \<longrightarrow> sent s' i = sent s i)"
    by (auto simp: healthy_def requests_for_def dest: uuid_String_inj)
next
  fix s s' t res
  assume "healthy s" "HTTPDispatcher_Deliver disp t s = (res, s')"
  then show "sent s' (Task_ID t) = sent s (Task_ID t) \<and> ar_Err res \<noteq> None
      \<or> sent s' (Task_ID t) = Suc (sent s (Task_ID t))"
    using Deliver_effect [of t s res s'] by (auto simp: requests_for_def)
next
  fix s s' tm
  assume "healthy s" "time_Now db s = (tm, s')"
  then show "healthy s' \<and> views s' = views s \<and> sent s' = sent s"
    using now_frame [of s tm s'] clock_frame [of s tm s'] by (auto simp: healthy_def)
qed

lemma worker_eq: "ent_worker db disp pol = worker pol"
  by (simp add: ent_worker_def NewProcessor_def ent_store_def)

lemma worker_Process:
  assumes "healthy w" "Process (ent_worker db disp pol) nid w = (r, w')"
  shows "healthy w' \<and> (\<forall>i. i \<noteq> nid \<longrightarrow> sent w' i = sent w i) \<and>
     (  views w' = views w \<and> sent w' nid = sent w nid
            \<and> (r = None \<longrightarrow> (\<exists>v. views w nid = Some v \<and> terminal v))
      \<or> (\<exists>v. views w nid = Some v \<and> startable v \<and> views w' = (views w)(nid \<mapsto> started v)
             \<and> sent w' nid \<le> Suc (sent w nid) \<and> r \<noteq> None)
      \<or> (\<exists>v result. views w nid = Some v \<and> startable v
             \<and> views w' = (views w)(nid \<mapsto> attempt_outcome pol v result) \<and> sent w' nid \<le> Suc (sent w nid)
             \<and> (is_success result \<longrightarrow> sent w' nid = Suc (sent w nid))))"
  by (rule Process_effect) (use assms worker_eq in auto)

end

section \<open>A concrete environment\<close>

text \<open>
  The reference database, a log of the requests made, and a script of the vendor's answers;
  identifiers are written as their digits.
\<close>

record world = pg +
  wd_calls :: "Request list"
  wd_vendor :: "(goerror + int) choices"

definition world_Do :: "Request \<Rightarrow> 'x world_scheme \<Rightarrow> (goerror + int) \<times> 'x world_scheme" where
  "world_Do req w =
     (wd_vendor w 0, w\<lparr>wd_calls := wd_calls w @ [req], wd_vendor := choices_tl (wd_vendor w)\<rparr>)"

definition world_disp :: "'x world_scheme HTTPDispatcher" where
  "world_disp =
     \<lparr>hd_Do = world_Do, hd_now = pg_now,
      hd_url_Parse = (\<lambda>u. if u = '''' then Some (ErrText ''empty url'') else None),
      hd_uuid_String = uuid_digits\<rparr>"

lemma pg_call_calls: "pg_call stmt w = (r, w') \<Longrightarrow> wd_calls w' = wd_calls w"
  by (auto simp: pg_call_def Let_def split: outcome.splits prod.splits)

interpretation wd: worker_env pg_db pg_tables pg_tx wd_calls world_disp
  by unfold_locales
     (auto simp: pg_db_def pg_now_def pg_call_calls pg_begin_def pg_commit_def pg_rollback_def world_disp_def world_Do_def
        Let_def dest: uuid_digits_inj split: outcome.splits option.splits)

end
