(* ===== verification/Stream_Consumer.thy ===== *)
theory Stream_Consumer
  imports Stream_Redis
begin

text \<open>
  What the consumer of \<^verbatim>\<open>internal/stream/redis.go\<close> keeps, given a processor whose success means
  that the notification is settled: a message leaves the pending list only when it was malformed
  or its notification is settled. The scan of pending messages comes to an end.
\<close>

text \<open>
  Every message that was handed out and is no longer pending is malformed or names a settled
  notification.
\<close>

definition acks_justified :: "(string \<Rightarrow> goerror + uuid) \<Rightarrow> (uuid \<Rightarrow> bool) \<Rightarrow> (string \<Rightarrow> (string \<times> fields) list)
    \<Rightarrow> (string \<Rightarrow> string \<Rightarrow> string set) \<Rightarrow> (string \<Rightarrow> string \<Rightarrow> string set) \<Rightarrow> bool" where
  "acks_justified uuid_Parse settled es hs ps \<longleftrightarrow>
     (\<forall>st g i vs m. (i, vs) \<in> set (es st) \<longrightarrow> i \<in> hs st g - ps st g \<longrightarrow>
        ParseDeliveryMessage uuid_Parse vs = Inr m \<longrightarrow> settled (dm_NotificationID m))"

locale stream_consumer = redis_streams rd entries handed pending id_key rest
  for rd :: "'w redis"
    and entries :: "'w \<Rightarrow> string \<Rightarrow> (string \<times> fields) list"
    and handed :: "'w \<Rightarrow> string \<Rightarrow> string \<Rightarrow> string set"
    and pending :: "'w \<Rightarrow> string \<Rightarrow> string \<Rightarrow> string set"
    and id_key :: "string \<Rightarrow> nat"
    and rest :: "'w \<Rightarrow> 'f" +
  fixes uuid_Parse :: "string \<Rightarrow> goerror + uuid"
    and process :: "uuid \<Rightarrow> 'w \<Rightarrow> goerror option \<times> 'w"
    and ok :: "'f \<Rightarrow> bool"
    and settled :: "'f \<Rightarrow> uuid \<Rightarrow> bool"
  assumes process_frame: "process nid w = (perr, w') \<Longrightarrow>
      entries w' = entries w \<and> handed w' = handed w \<and> pending w' = pending w"
    and process_ok: "ok (rest w) \<Longrightarrow> process nid w = (perr, w') \<Longrightarrow> ok (rest w')"
    and process_keeps: "ok (rest w) \<Longrightarrow> process nid w = (perr, w') \<Longrightarrow> settled (rest w) i \<Longrightarrow> settled (rest w') i"
    and process_settles: "ok (rest w) \<Longrightarrow> process nid w = (None, w') \<Longrightarrow> settled (rest w') nid"
begin

abbreviation consumer :: "string \<Rightarrow> string \<Rightarrow> string \<Rightarrow> 'w Consumer" where
  "consumer st grp name \<equiv> NewConsumer rd st grp name process"

lemma consumer_sel [simp]:
  "co_client (consumer st grp name) = rd" "co_processor (consumer st grp name) = process"
  by (simp_all add: NewConsumer_def)

text \<open>The fields of a message that need no further processing.\<close>

definition discharged :: "'f \<Rightarrow> fields \<Rightarrow> bool" where
  "discharged f vs \<longleftrightarrow> (\<forall>m. ParseDeliveryMessage uuid_Parse vs = Inr m \<longrightarrow> settled f (dm_NotificationID m))"

definition acked_settled :: "'w \<Rightarrow> bool" where
  "acked_settled w \<longleftrightarrow>
     streams_wf w \<and> ok (rest w)
     \<and> (\<forall>st g i vs. (i, vs) \<in> set (entries w st) \<longrightarrow> i \<in> handed w st g - pending w st g \<longrightarrow> discharged (rest w) vs)"

lemma acked_settled_iff:
  "acked_settled w \<longleftrightarrow> groups_wf (entries w) (handed w) (pending w) \<and> ok (rest w)
     \<and> acks_justified uuid_Parse (settled (rest w)) (entries w) (handed w) (pending w)"
  by (auto simp: acked_settled_def streams_wf_groups acks_justified_def discharged_def)

lemma acked_settledD:
  "acked_settled w \<Longrightarrow> streams_wf w" "acked_settled w \<Longrightarrow> ok (rest w)"
  "acked_settled w \<Longrightarrow> (i, vs) \<in> set (entries w st) \<Longrightarrow> i \<in> handed w st g - pending w st g \<Longrightarrow> discharged (rest w) vs"
  by (auto simp: acked_settled_def)

section \<open>Commands keep the invariant\<close>

lemma add_acked:
  assumes "acked_settled w" "XAdd rd st vs w = (sid, w')"
  shows "acked_settled w'"
proof -
  have r: "rest w' = rest w" "handed w' = handed w" "pending w' = pending w"
    using add_served [OF assms(2)] by auto
  have "discharged (rest w) us" if "(i, us) \<in> set (entries w' s)" "i \<in> handed w s g - pending w s g" for s g i us
  proof -
    have "handed w s g \<subseteq> fst ` set (entries w s)" using acked_settledD(1) [OF assms(1)] by (simp add: streams_wf_def)
    with that(2) have "i \<in> fst ` set (entries w s)" by blast
    then have "i \<noteq> j \<or> s \<noteq> st" if "j \<notin> fst ` set (entries w st)" for j using that by blast
    with add_served [OF assms(2)] that(1) have "(i, us) \<in> set (entries w s)"
      by (elim conjE disjE exE) (auto split: if_splits)
    with assms(1) that(2) show ?thesis by (auto dest: acked_settledD(3))
  qed
  with assms add_wf [OF acked_settledD(1) [OF assms(1)] assms(2)] show ?thesis
    by (simp add: acked_settled_def r)
qed

lemma read_acked:
  assumes "acked_settled w" "xr_Streams a = [st, ''>'']" "XReadGroup rd a w = (streams, w')"
  shows "acked_settled w'"
proof -
  from read_served [OF assms(2,3)] obtain new where
    e: "rest w' = rest w" "entries w' = entries w" and n: "new \<subseteq> fst ` set (entries w st) - handed w st (xr_Group a)"
    and hp: "handed w' = (handed w)(st := (handed w st)(xr_Group a := handed w st (xr_Group a) \<union> new))"
      "pending w' = (pending w)(st := (pending w st)(xr_Group a := pending w st (xr_Group a) \<union> new))"
    by (elim conjE exE) (rule that)
  have "handed w' s g - pending w' s g \<subseteq> handed w s g - pending w s g" for s g
    unfolding hp fun_upd2_apply by auto
  with assms(1) read_wf [OF acked_settledD(1) [OF assms(1)] assms(2,3)] show ?thesis
    unfolding acked_settled_def e by blast
qed

lemma autoclaim_acked:
  assumes "acked_settled w" "XAutoClaim rd a w = (msgs, w')"
  shows "acked_settled w'"
proof -
  from autoclaim_served [OF assms(2)] obtain lost where
    e: "rest w' = rest w" "entries w' = entries w" "handed w' = handed w"
    and l: "lost \<inter> fst ` set (entries w (xc_Stream a)) = {}"
    and p: "pending w' = (pending w)(xc_Stream a := (pending w (xc_Stream a))(xc_Group a := pending w (xc_Stream a) (xc_Group a) - lost))"
    by (elim conjE exE) (rule that)
  have "i \<in> handed w s g - pending w s g" if "(i, vs) \<in> set (entries w s)" "i \<in> handed w s g - pending w' s g" for i vs s g
  proof -
    from that(1) have "i \<in> fst ` set (entries w s)" by force
    with l have "s = xc_Stream a \<Longrightarrow> i \<notin> lost" by blast
    with that(2) show ?thesis unfolding p fun_upd2_apply by (simp split: if_splits)
  qed
  with assms(1) autoclaim_wf [OF acked_settledD(1) [OF assms(1)] assms(2)] show ?thesis
    unfolding acked_settled_def e by blast
qed

lemma group_acked:
  assumes "acked_settled w" "XGroupCreateMkStream rd st g x w = (e, w')"
  shows "acked_settled w'"
  using assms group_served [OF assms(2)] by (simp add: acked_settled_def streams_wf_def)

lemma ack_acked:
  assumes "acked_settled w" "XAck rd st g i w = (cnt, w')" "(i, vs) \<in> set (entries w st)" "discharged (rest w) vs"
  shows "acked_settled w'"
proof -
  have e: "rest w' = rest w" "entries w' = entries w" "handed w' = handed w"
    using ack_served [OF assms(2)] by auto
  have same: "us = vs" if "(i, us) \<in> set (entries w st)" for us
    using acked_settledD(1) [OF assms(1)] that assms(3) by (auto simp: streams_wf_def dest: eq_key_imp_eq_value)
  have "discharged (rest w) us" if "(j, us) \<in> set (entries w s)" "j \<in> handed w s h - pending w' s h" for j us s h
  proof (cases "j \<in> pending w s h")
    case True
    with that(2) ack_served [OF assms(2)] have "s = st \<and> j = i" by (auto split: if_splits)
    with same that(1) assms(4) show ?thesis by blast
  next
    case False
    with that assms(1) show ?thesis by (auto dest: acked_settledD(3))
  qed
  with assms(1) ack_wf [OF acked_settledD(1) [OF assms(1)] assms(2)] show ?thesis
    unfolding acked_settled_def e by blast
qed

lemma process_acked:
  assumes "acked_settled w" "process nid w = (perr, w')"
  shows "acked_settled w'"
proof -
  note f = process_frame [OF assms(2)]
  have "discharged (rest w') vs" if "discharged (rest w) vs" for vs
    using that process_keeps [OF acked_settledD(2) [OF assms(1)] assms(2)] by (auto simp: discharged_def)
  with assms(1) process_ok [OF acked_settledD(2) [OF assms(1)] assms(2)] show ?thesis
    unfolding acked_settled_def streams_wf_def by (simp only: f) blast
qed

section \<open>The consumer keeps the invariant\<close>

definition shrinks :: "'w \<Rightarrow> 'w \<Rightarrow> bool" where
  "shrinks w w' \<longleftrightarrow> entries w' = entries w \<and> (\<forall>s g. pending w' s g \<subseteq> pending w s g)"

lemma shrinks_trans: "shrinks w w' \<Longrightarrow> shrinks w' w'' \<Longrightarrow> shrinks w w''"
  by (auto simp: shrinks_def) blast

lemma ack_shrinks: "XAck rd st g i w = (cnt, w') \<Longrightarrow> shrinks w w'"
  using ack_served [of st g i w cnt w'] by (auto simp: shrinks_def split: if_splits)

lemma process_shrinks: "process nid w = (perr, w') \<Longrightarrow> shrinks w w'"
  using process_frame [of nid w perr w'] by (simp add: shrinks_def)

lemma processMessage_keeps:
  assumes "acked_settled w" "(xm_ID m, xm_Values m) \<in> set (entries w (co_stream (consumer st grp name)))"
    "processMessage uuid_Parse (consumer st grp name) m w = (r, w')"
  shows "acked_settled w' \<and> shrinks w w'"
proof -
  let ?c = "consumer st grp name"
  show ?thesis
  proof (cases "ParseDeliveryMessage uuid_Parse (xm_Values m)")
    case (Inl e)
    obtain n w1 where a: "XAck rd (co_stream ?c) (co_group ?c) (xm_ID m) w = (n, w1)"
      by (cases "XAck rd (co_stream ?c) (co_group ?c) (xm_ID m) w")
    with assms(3) Inl have "w' = w1" by (auto simp: processMessage_def split: sum.splits)
    with ack_acked [OF assms(1) a assms(2)] ack_shrinks [OF a] Inl show ?thesis by (simp add: discharged_def)
  next
    case (Inr pm)
    obtain pr w1 where p: "process (dm_NotificationID pm) w = (pr, w1)" by (cases "process (dm_NotificationID pm) w")
    note w1 = process_acked [OF assms(1) p] process_shrinks [OF p]
    show ?thesis
    proof (cases pr)
      case (Some e)
      with assms(3) Inr p w1 show ?thesis by (simp add: processMessage_def)
    next
      case None
      obtain n w2 where a: "XAck rd (co_stream ?c) (co_group ?c) (xm_ID m) w1 = (n, w2)"
        by (cases "XAck rd (co_stream ?c) (co_group ?c) (xm_ID m) w1")
      with assms(3) Inr p None have "w' = w2" by (auto simp: processMessage_def split: sum.splits)
      moreover have "discharged (rest w1) (xm_Values m)"
        using process_settles [OF acked_settledD(2) [OF assms(1)]] p None Inr by (simp add: discharged_def)
      moreover have "(xm_ID m, xm_Values m) \<in> set (entries w1 (co_stream ?c))"
        using assms(2) w1(2) by (simp add: shrinks_def)
      ultimately show ?thesis
        using ack_acked [OF w1(1) a] shrinks_trans [OF w1(2) ack_shrinks [OF a]] by simp
    qed
  qed
qed

lemma process_messages_keeps:
  assumes "acked_settled w" "\<forall>m\<in>set ms. (xm_ID m, xm_Values m) \<in> set (entries w (co_stream (consumer st grp name)))"
    "process_messages uuid_Parse (consumer st grp name) ms fe w = (r, w')"
  shows "acked_settled w' \<and> shrinks w w'"
  using assms
proof (induction ms arbitrary: w fe)
  case Nil
  then show ?case by (simp add: shrinks_def)
next
  case (Cons m ms)
  obtain e w1 where p: "processMessage uuid_Parse (consumer st grp name) m w = (e, w1)"
    by (cases "processMessage uuid_Parse (consumer st grp name) m w")
  have m: "(xm_ID m, xm_Values m) \<in> set (entries w (co_stream (consumer st grp name)))"
    using Cons.prems(2) by simp
  note s1 = processMessage_keeps [OF Cons.prems(1) m p]
  have "\<forall>m\<in>set ms. (xm_ID m, xm_Values m) \<in> set (entries w1 (co_stream (consumer st grp name)))"
    using s1 Cons.prems(2) by (simp add: shrinks_def)
  moreover obtain fe' where "process_messages uuid_Parse (consumer st grp name) ms fe' w1 = (r, w')"
    using Cons.prems(3) p by (cases e) auto
  ultimately have "acked_settled w' \<and> shrinks w1 w'" using s1 Cons.IH by blast
  with s1 show ?case using shrinks_trans by blast
qed

lemma ReadAndProcess_keeps:
  assumes "acked_settled w" "ReadAndProcess uuid_Parse (consumer st grp name) n block w = (r, w')"
  shows "acked_settled w'"
proof -
  let ?c = "consumer st grp name"
  let ?a = "\<lparr>xr_Group = co_group ?c, xr_Consumer = co_consumer ?c, xr_Streams = [co_stream ?c, ''>''],
              xr_Count = n, xr_Block = block\<rparr>"
  have st: "xr_Streams ?a = [co_stream ?c, ''>'']" by simp
  obtain streams w1 where q: "XReadGroup rd ?a w = (streams, w1)" by (cases "XReadGroup rd ?a w")
  note w1 = read_acked [OF assms(1) st q]
  show ?thesis
  proof (cases streams)
    case (Inl e)
    with assms(2) q w1 show ?thesis by (auto simp: ReadAndProcess_def split: if_splits)
  next
    case (Inr ss)
    with assms(2) q have p: "process_messages uuid_Parse ?c (concat (map snd ss)) None w1 = (r, w')"
      by (simp add: ReadAndProcess_def)
    have "\<forall>m\<in>set (concat (map snd ss)). (xm_ID m, xm_Values m) \<in> set (entries w1 (co_stream ?c))"
      using read_served [OF st q] Inr by auto
    from process_messages_keeps [OF w1 this p] show ?thesis by simp
  qed
qed

text \<open>
  Every round of the scan that does not end it leaves behind at least one entry of the pending
  list, and nothing is added to that list meanwhile.
\<close>

definition ahead :: "'w \<Rightarrow> string \<Rightarrow> string \<Rightarrow> string \<Rightarrow> string set" where
  "ahead w st g start = {p \<in> pending w st g. id_key start \<le> id_key p}"

lemma claim_loop_keeps:
  assumes "acked_settled w"
  shows "\<exists>r w'. claim_loop uuid_Parse (consumer st grp name) minIdle cnt start fe w = Some (r, w') \<and> acked_settled w'"
  using assms
proof (induction "card (ahead w (co_stream (consumer st grp name)) (co_group (consumer st grp name)) start)"
    arbitrary: w start fe rule: less_induct)
  case less
  let ?c = "consumer st grp name"
  let ?s = "co_stream ?c" and ?g = "co_group ?c"
  let ?a = "\<lparr>xc_Stream = ?s, xc_Group = ?g, xc_Consumer = co_consumer ?c, xc_MinIdle = minIdle,
              xc_Start = start, xc_Count = cnt\<rparr>"
  obtain res w1 where q: "XAutoClaim rd ?a w = (res, w1)" by (cases "XAutoClaim rd ?a w")
  note w1 = autoclaim_acked [OF less.prems q]
  from autoclaim_served [OF q] obtain lost where e: "entries w1 = entries w"
    and p1: "pending w1 = (pending w)(?s := (pending w ?s)(?g := pending w ?s ?g - lost))"
    and ms: "\<forall>ms next. res = Inr (ms, next) \<longrightarrow>
              (\<forall>m\<in>set ms. (xm_ID m, xm_Values m) \<in> set (entries w ?s) \<and> xm_ID m \<in> pending w ?s ?g)
            \<and> (next = ''0-0'' \<or> (\<exists>p\<in>pending w ?s ?g. id_key start \<le> id_key p \<and> id_key p < id_key next))"
    by (elim conjE exE) (rule that, simp_all)
  show ?case
  proof (cases res)
    case (Inl err)
    with q w1 show ?thesis by (subst claim_loop.simps) simp
  next
    case (Inr mn)
    obtain msgs next_start where mn: "mn = (msgs, next_start)" by (cases mn)
    obtain fe1 w2 where pm: "process_messages uuid_Parse ?c msgs fe w1 = (fe1, w2)"
      by (cases "process_messages uuid_Parse ?c msgs fe w1")
    have "\<forall>m\<in>set msgs. (xm_ID m, xm_Values m) \<in> set (entries w1 ?s)"
      using ms Inr mn e by simp
    note w2 = process_messages_keeps [OF w1 this pm]
    show ?thesis
    proof (cases "next_start = ''0-0''")
      case True
      with q Inr mn pm w2 show ?thesis by (subst claim_loop.simps) simp
    next
      case False
      with ms Inr mn obtain p where p: "p \<in> pending w ?s ?g" "id_key start \<le> id_key p" "id_key p < id_key next_start"
        by auto
      have sub: "pending w2 ?s ?g \<subseteq> pending w ?s ?g"
      proof -
        have "pending w2 ?s ?g \<subseteq> pending w1 ?s ?g" using w2 by (simp only: shrinks_def)
        also have "\<dots> \<subseteq> pending w ?s ?g" unfolding p1 fun_upd2_apply by simp
        finally show ?thesis .
      qed
      have "ahead w2 ?s ?g next_start \<subset> ahead w ?s ?g start"
      proof
        show "ahead w2 ?s ?g next_start \<subseteq> ahead w ?s ?g start"
          using sub p(2,3) by (auto simp: ahead_def)
        have "p \<in> ahead w ?s ?g start" "p \<notin> ahead w2 ?s ?g next_start" using p by (auto simp: ahead_def)
        then show "ahead w2 ?s ?g next_start \<noteq> ahead w ?s ?g start" by blast
      qed
      moreover have "finite (ahead w ?s ?g start)"
        using streams_wf_finite [OF acked_settledD(1) [OF less.prems]] by (simp add: ahead_def)
      ultimately have "card (ahead w2 ?s ?g next_start) < card (ahead w ?s ?g start)"
        by (rule psubset_card_mono [rotated])
      from less.hyps [OF this] w2
      have "\<exists>r w'. claim_loop uuid_Parse ?c minIdle cnt next_start fe1 w2 = Some (r, w') \<and> acked_settled w'"
        by blast
      with False q Inr mn pm show ?thesis by (subst claim_loop.simps) simp
    qed
  qed
qed

lemma ClaimAndProcess_keeps:
  assumes "acked_settled w"
  shows "\<exists>r w'. ClaimAndProcess uuid_Parse (consumer st grp name) minIdle cnt w = Some (r, w') \<and> acked_settled w'"
  unfolding ClaimAndProcess_def by (rule claim_loop_keeps [OF assms])

lemma EnsureGroup_keeps:
  assumes "acked_settled w" "EnsureGroup (consumer st grp name) w = (r, w')"
  shows "acked_settled w'"
  using assms group_acked [OF assms(1)]
  by (auto simp: EnsureGroup_def split: prod.splits option.splits if_splits)

end

end
