(* ===== verification/Worker_System.thy ===== *)
theory Worker_System
  imports Worker_Env Stream_Consumer
begin

text \<open>
  The worker as a whole: the consumer of the stream over the processor of the environment
  \<open>worker_env\<close>. Its success means that the outcome of an attempt is in the database (or that the
  task needs none), so the contract \<open>stream_consumer\<close> holds, and with it: no message is
  acknowledged before the notification it names is settled.
\<close>

section \<open>Well-formed and settled tasks\<close>

definition all_tasks_wf :: "tables \<Rightarrow> bool" where
  "all_tasks_wf t \<longleftrightarrow> (\<forall>nid v. task_views t nid = Some v \<longrightarrow> task_wf v)"

definition task_settled :: "tables \<Rightarrow> uuid \<Rightarrow> bool" where
  "task_settled t nid \<longleftrightarrow> (\<exists>v. task_views t nid = Some v \<and> (terminal v \<or> 1 \<le> tv_Attempt v))"

lemma attempt_outcome_steps:
  assumes "startable v" "task_wf v"
  shows "task_steps v (attempt_outcome pol v result)"
proof -
  have "task_step v (started v)" by (rule task_step.start [OF assms(1)])
  moreover have "task_step (started v) (attempt_outcome pol (started v) result)"
    by (rule attempt_outcome_step) (use assms(2) in \<open>simp_all add: started_def task_wf_def\<close>)
  moreover have "attempt_outcome pol (started v) result = attempt_outcome pol v result"
    by (simp add: attempt_outcome_def started_def finished_def)
  ultimately show ?thesis using task_steps.intros by metis
qed

lemma attempt_outcome_attempt: "tv_Attempt (attempt_outcome pol v result) = tv_Attempt v + 1"
  by (simp add: attempt_outcome_def finished_def)

lemma startable_not_terminal: "startable v \<Longrightarrow> \<not> terminal v"
  by (auto simp: startable_def terminal_def)

section \<open>Process refines the task machine\<close>

context worker_env
begin

lemma Process_refines:
  assumes "healthy w" "all_tasks_wf (tabs w)" "Process (ent_worker db disp pol) nid w = (r, w')"
  shows "healthy w' \<and> all_tasks_wf (tabs w') \<and> dom (views w') = dom (views w)
    \<and> (\<forall>i v v'. views w i = Some v \<longrightarrow> views w' i = Some v' \<longrightarrow> task_steps v v' \<and> (i \<noteq> nid \<longrightarrow> v' = v))"
proof -
  note wp = worker_Process [OF assms(1,3)]
  have same: "v' = v \<or> i = nid \<and> (v' = started v \<or> (\<exists>res. v' = attempt_outcome pol v res)) \<and> startable v"
    if "views w i = Some v" "views w' i = Some v'" for i v v'
    using wp that by (auto split: if_splits)
  have dom: "dom (views w') = dom (views w)" using wp by (auto split: if_splits)
  have steps: "task_steps v v'" if "views w i = Some v" "views w' i = Some v'" for i v v'
  proof -
    have wf: "task_wf v" using assms(2) that(1) by (simp add: all_tasks_wf_def)
    from same [OF that] consider "v' = v" | "v' = started v" "startable v"
      | res where "v' = attempt_outcome pol v res" "startable v" by auto
    then show ?thesis
    proof cases
      case 1
      then show ?thesis by (simp add: task_steps.refl)
    next
      case 2
      then show ?thesis using task_steps.intros task_step.start by metis
    next
      case 3
      then show ?thesis by (simp add: attempt_outcome_steps wf)
    qed
  qed
  have "all_tasks_wf (tabs w')"
    unfolding all_tasks_wf_def
  proof (intro allI impI)
    fix i v' assume v': "views w' i = Some v'"
    with dom obtain v where v: "views w i = Some v" by (metis domD domI)
    with assms(2) have "task_wf v" by (simp add: all_tasks_wf_def)
    with task_steps_wf [OF steps [OF v v']] show "task_wf v'" by simp
  qed
  with dom steps same wp show ?thesis by blast
qed

lemma Process_settles:
  assumes "healthy w" "all_tasks_wf (tabs w)" "Process (ent_worker db disp pol) nid w = (r, w')"
  shows "r = None \<Longrightarrow> task_settled (tabs w') nid"
    and "task_settled (tabs w) i \<Longrightarrow> task_settled (tabs w') i"
proof -
  note wp = worker_Process [OF assms(1,3)]
  show "task_settled (tabs w') nid" if "r = None"
  proof -
    have pos: "1 \<le> tv_Attempt (attempt_outcome pol v res)" if "views w nid = Some v" for v res
      using assms(2) that by (simp add: all_tasks_wf_def attempt_outcome_attempt task_wf_def)
    from wp that pos show ?thesis by (auto simp: task_settled_def)
  qed
  show "task_settled (tabs w') i" if "task_settled (tabs w) i"
    using wp that startable_not_terminal
    by (fastforce simp: task_settled_def started_def attempt_outcome_attempt)
qed

section \<open>The facts in terms of the tables\<close>

lemma attempt_contract:
  assumes "tables_wf (tabs w)" "snap w = None" "Process (ent_worker db disp pol) nid w = (r, w')"
  shows "tables_wf (tabs w') \<and> snap w' = None
    \<and> (\<forall>i. i \<noteq> nid \<longrightarrow> views w' i = views w i \<and> sent w' i = sent w i)
    \<and> (views w' = views w \<and> sent w' nid = sent w nid
          \<and> (r = None \<longrightarrow> (\<exists>v. views w nid = Some v \<and> terminal v))
       \<or> (\<exists>v. views w nid = Some v \<and> startable v \<and> views w' nid = Some (started v)
            \<and> sent w' nid \<le> Suc (sent w nid) \<and> r \<noteq> None)
       \<or> (\<exists>v result. views w nid = Some v \<and> startable v \<and> views w' nid = Some (attempt_outcome pol v result)
            \<and> sent w' nid \<le> Suc (sent w nid) \<and> (is_success result \<longrightarrow> sent w' nid = Suc (sent w nid))))"
proof -
  have "healthy w" using assms(1,2) by (simp add: healthy_def)
  note wp = worker_Process [OF this assms(3)]
  have "tables_wf (tabs w') \<and> snap w' = None" using wp by (simp add: healthy_def)
  moreover have "\<forall>i. i \<noteq> nid \<longrightarrow> views w' i = views w i \<and> sent w' i = sent w i"
    using wp by (elim conjE disjE exE) simp_all
  moreover have "views w' = views w \<and> sent w' nid = sent w nid
          \<and> (r = None \<longrightarrow> (\<exists>v. views w nid = Some v \<and> terminal v))
       \<or> (\<exists>v. views w nid = Some v \<and> startable v \<and> views w' nid = Some (started v)
            \<and> sent w' nid \<le> Suc (sent w nid) \<and> r \<noteq> None)
       \<or> (\<exists>v result. views w nid = Some v \<and> startable v \<and> views w' nid = Some (attempt_outcome pol v result)
            \<and> sent w' nid \<le> Suc (sent w nid) \<and> (is_success result \<longrightarrow> sent w' nid = Suc (sent w nid)))"
    using wp by (metis fun_upd_same)
  ultimately show ?thesis by blast
qed

lemma attempt_refines:
  assumes "tables_wf (tabs w)" "snap w = None" "all_tasks_wf (tabs w)" "Process (ent_worker db disp pol) nid w = (r, w')"
  shows "all_tasks_wf (tabs w') \<and> dom (views w') = dom (views w)
    \<and> (\<forall>i v v'. views w i = Some v \<longrightarrow> views w' i = Some v' \<longrightarrow> task_steps v v' \<and> (i \<noteq> nid \<longrightarrow> v' = v))"
  using Process_refines [of w pol nid r w'] assms by (simp add: healthy_def)

lemma delivering_stuck:
  assumes "tables_wf (tabs w)" "snap w = None" "Process (ent_worker db disp pol) nid w = (r, w')"
    and "views w nid = Some v" "tv_Status v = StatusDelivering"
  shows "r \<noteq> None \<and> views w' = views w \<and> sent w' nid = sent w nid"
  using worker_Process [of w pol nid r w'] assms by (auto simp: healthy_def startable_def terminal_def)

end

section \<open>The worker and the stream\<close>

locale worker_system = worker_env db tabs snap calls disp
    + rf: framed_database db tabs snap "\<lambda>w. (entries w, handed w, pending w)"
    + redis_streams rd entries handed pending id_key "\<lambda>w. (tabs w, snap w)"
  for db :: "'w db" and tabs :: "'w \<Rightarrow> tables" and snap :: "'w \<Rightarrow> tables option"
    and calls :: "'w \<Rightarrow> Request list" and disp :: "'w HTTPDispatcher"
    and rd :: "'w redis"
    and entries :: "'w \<Rightarrow> string \<Rightarrow> (string \<times> fields) list"
    and handed :: "'w \<Rightarrow> string \<Rightarrow> string \<Rightarrow> string set"
    and pending :: "'w \<Rightarrow> string \<Rightarrow> string \<Rightarrow> string set"
    and id_key :: "string \<Rightarrow> nat" +
  fixes uuid_Parse :: "string \<Rightarrow> goerror + uuid" and pol :: RetryPolicy
  assumes client_Do_redis: "hd_Do disp req w = (res, w') \<Longrightarrow>
      entries w' = entries w \<and> handed w' = handed w \<and> pending w' = pending w"
begin

lemma Deliver_redis:
  assumes "HTTPDispatcher_Deliver disp t w = (res, w')"
  shows "(entries w', handed w', pending w') = (entries w, handed w, pending w)"
  using assms
  by (auto simp: HTTPDispatcher_Deliver_def disp_now split: prod.splits sum.splits
      dest!: rf.clock_frame client_Do_redis)

lemma Process_redis:
  assumes "Process (ent_worker db disp pol) nid w = (r, w')"
  shows "(entries w', handed w', pending w') = (entries w, handed w, pending w)"
  using assms
  by (rule Process_frame [where frame = "\<lambda>w. (entries w, handed w, pending w)", rotated 6])
     (simp_all add: ent_worker_def NewProcessor_def ent_store_def rf.Load_frame rf.Mark_frame
        rf.Success_frame rf.Failure_frame Deliver_redis rf.clock_frame del: prod.inject)

definition worker_ok :: "tables \<times> tables option \<Rightarrow> bool" where
  "worker_ok f \<longleftrightarrow> tables_wf (fst f) \<and> snd f = None \<and> all_tasks_wf (fst f)"

sublocale stream_consumer rd entries handed pending id_key "\<lambda>w. (tabs w, snap w)" uuid_Parse
  "Process (ent_worker db disp pol)" worker_ok "\<lambda>f. task_settled (fst f)"
proof
  fix nid w w' and perr :: "goerror option"
  assume "Process (ent_worker db disp pol) nid w = (perr, w')"
  from Process_redis [OF this] show "entries w' = entries w \<and> handed w' = handed w \<and> pending w' = pending w"
    by simp
next
  fix nid w w' and perr :: "goerror option"
  assume "worker_ok (tabs w, snap w)" "Process (ent_worker db disp pol) nid w = (perr, w')"
  then show "worker_ok (tabs w', snap w')"
    using Process_refines [of w pol nid perr w'] by (simp add: worker_ok_def healthy_def)
next
  fix nid w w' i and perr :: "goerror option"
  assume "worker_ok (tabs w, snap w)" "Process (ent_worker db disp pol) nid w = (perr, w')"
    "task_settled (fst (tabs w, snap w)) i"
  then show "task_settled (fst (tabs w', snap w')) i"
    using Process_settles(2) [of w pol nid perr w'] by (simp add: worker_ok_def healthy_def)
next
  fix nid w w'
  assume "worker_ok (tabs w, snap w)" "Process (ent_worker db disp pol) nid w = (None, w')"
  then show "task_settled (fst (tabs w', snap w')) nid"
    using Process_settles(1) [of w pol nid None w'] by (simp add: worker_ok_def healthy_def)
qed

lemma keeps_justified:
  assumes "tables_wf (tabs w)" "snap w = None" "all_tasks_wf (tabs w)" "groups_wf (entries w) (handed w) (pending w)"
    and "acks_justified uuid_Parse (task_settled (tabs w)) (entries w) (handed w) (pending w)"
  shows "acked_settled w"
  using assms by (simp add: acked_settled_iff worker_ok_def)

lemma kept_justified:
  "acked_settled w \<Longrightarrow>
     all_tasks_wf (tabs w) \<and> groups_wf (entries w) (handed w) (pending w)
     \<and> acks_justified uuid_Parse (task_settled (tabs w)) (entries w) (handed w) (pending w)"
  by (simp add: acked_settled_iff worker_ok_def)

text \<open>The two entry points of the consumer, in terms of the tables and the stream.\<close>

lemma read_justified:
  assumes "tables_wf (tabs w)" "snap w = None" "all_tasks_wf (tabs w)" "groups_wf (entries w) (handed w) (pending w)"
    and "acks_justified uuid_Parse (task_settled (tabs w)) (entries w) (handed w) (pending w)"
    and "ReadAndProcess uuid_Parse (NewConsumer rd st grp name (Process (ent_worker db disp pol))) n block w = (r, w')"
  shows "all_tasks_wf (tabs w') \<and> groups_wf (entries w') (handed w') (pending w')
     \<and> acks_justified uuid_Parse (task_settled (tabs w')) (entries w') (handed w') (pending w')"
  by (rule kept_justified [OF ReadAndProcess_keeps [OF keeps_justified [OF assms(1-5)] assms(6)]])

lemma scan_justified:
  assumes "tables_wf (tabs w)" "snap w = None" "all_tasks_wf (tabs w)" "groups_wf (entries w) (handed w) (pending w)"
    and "acks_justified uuid_Parse (task_settled (tabs w)) (entries w) (handed w) (pending w)"
  shows "\<exists>r w'. ClaimAndProcess uuid_Parse (NewConsumer rd st grp name (Process (ent_worker db disp pol))) minIdle n w = Some (r, w')
     \<and> all_tasks_wf (tabs w') \<and> groups_wf (entries w') (handed w') (pending w')
     \<and> acks_justified uuid_Parse (task_settled (tabs w')) (entries w') (handed w') (pending w')"
  using ClaimAndProcess_keeps [OF keeps_justified [OF assms], of st grp name minIdle n] kept_justified by blast

end

end
