(* ===== verification/System_Worker.thy ===== *)
theory System_Worker
  imports System_Tables Worker_System
begin

text \<open>
  The whole system in one environment: the workers, the relay and the API over one database and
  one Redis. What the worker does with a message is a sequence of steps of \<open>System_Machine\<close>, and it
  acknowledges only messages whose event is spent.
\<close>

section \<open>A relational reading of Process\<close>

text \<open>
  \<open>R\<close> is what every operation respects, \<open>D\<close> what in addition holds when the task has been dealt
  with.
\<close>

lemma Process_rel:
  assumes RR: "\<And>a b c. R a b \<Longrightarrow> R b c \<Longrightarrow> R a c" and RD: "\<And>a b c. R a b \<Longrightarrow> D b c \<Longrightarrow> D a c"
    and load: "\<And>s res s'. LoadForDelivery (pr_store p) nid s = (res, s') \<Longrightarrow>
        R s s' \<and> (\<forall>t. res = Inr t \<longrightarrow> terminal (task_view t) \<longrightarrow> D s s')"
    and mark: "\<And>s r s'. MarkDelivering (pr_store p) nid s = (r, s') \<Longrightarrow> R s s'"
    and succ: "\<And>s a r s'. RecordSuccess (pr_store p) nid a s = (r, s') \<Longrightarrow> R s s' \<and> (r = None \<longrightarrow> D s s')"
    and fail: "\<And>s f r s'. RecordFailure (pr_store p) nid f s = (r, s') \<Longrightarrow> R s s' \<and> (r = None \<longrightarrow> D s s')"
    and deliver: "\<And>s t res s'. Deliver (pr_dispatcher p) t s = (res, s') \<Longrightarrow> R s s'"
    and now: "\<And>s t s'. pr_now p s = (t, s') \<Longrightarrow> R s s'"
    and run: "Process p nid s = (r, s')"
  shows "R s s' \<and> (r = None \<longrightarrow> D s s')"
proof -
  let ?good = "\<lambda>s r s'. R s s' \<and> (r = None \<longrightarrow> D s s')"
  have finish: "?good s r s'" if fa: "finish_attempt p nid task s = (r, s')" for task s r s'
  proof -
    obtain result s3 where d: "Deliver (pr_dispatcher p) task s = (result, s3)" by (cases "Deliver (pr_dispatcher p) task s")
    note R3 = deliver [OF d]
    show ?thesis
    proof (cases "is_success result")
      case True
      with fa d succ [of _ s3 r s'] R3 show ?thesis by (auto simp: finish_attempt_def intro: RR RD)
    next
      case no: False
      obtain f s4 where R4: "R s s4" and f: "RecordFailure (pr_store p) nid f s4 = (r, s')"
      proof (cases "rd_Retry (Decide (pr_policy p) result (Task_Attempt task + 1) (Task_MaxAttempts task))")
        case True
        obtain t s4 where n: "pr_now p s3 = (t, s4)" by (cases "pr_now p s3")
        from RR [OF R3 now [OF n]] fa d no True n that show thesis by (simp add: finish_attempt_def Let_def)
      next
        case False
        with R3 fa d no that show thesis by (simp add: finish_attempt_def Let_def)
      qed
      from fail [OF f] R4 show ?thesis by (auto intro: RR RD)
    qed
  qed
  obtain lres s1 where l: "LoadForDelivery (pr_store p) nid s = (lres, s1)" by (cases "LoadForDelivery (pr_store p) nid s")
  show ?thesis
  proof (cases lres)
    case (Inl e)
    with run l load [OF l] show ?thesis by (auto simp: Process_unfold)
  next
    case (Inr task)
    show ?thesis
    proof (cases "terminal (task_view task)")
      case True
      with run l Inr load [OF l] show ?thesis by (auto simp: Process_unfold terminal_def task_view_def)
    next
      case False
      obtain mr s2 where m: "MarkDelivering (pr_store p) nid s1 = (mr, s2)" by (cases "MarkDelivering (pr_store p) nid s1")
      have R2: "R s s2" using load [OF l] mark [OF m] by (auto intro: RR)
      show ?thesis
      proof (cases mr)
        case (Some e)
        with run l Inr False m R2 show ?thesis by (auto simp: Process_unfold terminal_def task_view_def)
      next
        case None
        with run l Inr False m have "finish_attempt p nid
            (if Task_MaxAttempts task = 0 then task\<lparr>Task_MaxAttempts := 5\<rparr> else task) s2 = (r, s')"
          by (simp add: Process_unfold terminal_def task_view_def)
        from finish [OF this] R2 show ?thesis by (auto intro: RR RD)
      qed
    qed
  qed
qed

section \<open>The system\<close>

locale delivery_system = worker_system db tabs snap calls disp rd entries handed pending id_key uuid_Parse pol
    + sq: sql_database sq tabs server_now "\<lambda>w. (entries w, handed w, pending w, snap w)"
    + uuid_package uuid_String uuid_Parse
  for db :: "'w db" and tabs :: "'w \<Rightarrow> tables" and snap :: "'w \<Rightarrow> tables option"
    and calls :: "'w \<Rightarrow> Request list" and disp :: "'w HTTPDispatcher"
    and rd :: "'w redis"
    and entries :: "'w \<Rightarrow> string \<Rightarrow> (string \<times> fields) list"
    and handed :: "'w \<Rightarrow> string \<Rightarrow> string \<Rightarrow> string set"
    and pending :: "'w \<Rightarrow> string \<Rightarrow> string \<Rightarrow> string set"
    and id_key :: "string \<Rightarrow> nat"
    and uuid_Parse :: "string \<Rightarrow> goerror + uuid" and pol :: RetryPolicy
    and sq :: "'w sqldb" and server_now :: "'w \<Rightarrow> time"
    and uuid_String :: "uuid \<Rightarrow> string" +
  fixes st :: string and grp :: string
begin

definition stream_acked :: "'w \<Rightarrow> string set" where
  "stream_acked w = {i \<in> handed w st grp - pending w st grp. i \<in> fst ` set (entries w st)}"

definition sys :: "uuid set \<Rightarrow> 'w \<Rightarrow> system" where
  "sys S w = tables_sys (tabs w) (stream_log uuid_Parse (entries w st)) (stream_acked w) S"

definition sound :: "'w \<Rightarrow> bool" where
  "sound w \<longleftrightarrow> tables_wf (tabs w) \<and> snap w = None \<and> streams_wf w"

text \<open>Moves of the program: steps of the machine, that may spend events.\<close>

definition moves :: "'w \<Rightarrow> 'w \<Rightarrow> bool" where
  "moves w w' \<longleftrightarrow> (sound w \<longrightarrow> sound w' \<and> (\<forall>S. sys_ok (sys S w) \<longrightarrow> (\<exists>S'. sys_steps (sys S w) (sys S' w'))))"

definition settles :: "uuid \<Rightarrow> uuid \<Rightarrow> 'w \<Rightarrow> 'w \<Rightarrow> bool" where
  "settles e nid w w' \<longleftrightarrow> (sound w \<longrightarrow> sound w' \<and> (\<forall>S. sys_ok (sys S w) \<longrightarrow> e \<in> events_of (sys S w) nid \<longrightarrow>
      (\<exists>S'. e \<in> S' \<and> sys_steps (sys S w) (sys S' w'))))"

lemma movesD:
  assumes "moves w w'" "sound w"
  shows "sound w'" and "sys_ok (sys S w) \<Longrightarrow> \<exists>S'. sys_steps (sys S w) (sys S' w')"
  using assms by (simp_all add: moves_def)

lemma settlesD:
  assumes "settles e nid w w'" "sound w"
  shows "sound w'" and "sys_ok (sys S w) \<Longrightarrow> e \<in> events_of (sys S w) nid \<Longrightarrow> \<exists>S'. e \<in> S' \<and> sys_steps (sys S w) (sys S' w')"
  using assms by (simp_all add: settles_def)

lemma moves_trans:
  assumes "moves a b" "moves b c"
  shows "moves a c"
  unfolding moves_def
proof (intro impI conjI allI)
  assume a: "sound a"
  note b = movesD [OF assms(1) a]
  note c = movesD [OF assms(2) b(1)]
  show "sound c" by (rule c(1))
  fix S assume "sys_ok (sys S a)"
  from b(2) [OF this] obtain S' where S': "sys_steps (sys S a) (sys S' b)" by blast
  from steps_ok [OF this \<open>sys_ok (sys S a)\<close>] c(2) obtain S'' where "sys_steps (sys S' b) (sys S'' c)" by blast
  from sys_steps_trans [OF this S'] show "\<exists>S'. sys_steps (sys S a) (sys S' c)" by blast
qed

lemma moves_settles:
  assumes "moves a b" "settles e nid b c"
  shows "settles e nid a c"
  unfolding settles_def
proof (intro impI conjI allI)
  assume a: "sound a"
  note b = movesD [OF assms(1) a]
  note c = settlesD [OF assms(2) b(1)]
  show "sound c" by (rule c(1))
  fix S assume ok: "sys_ok (sys S a)" and e: "e \<in> events_of (sys S a) nid"
  from b(2) [OF ok] obtain S' where S': "sys_steps (sys S a) (sys S' b)" by blast
  from steps_ok [OF this ok] c(2) steps_events_of [OF S'] e obtain S'' where
    "e \<in> S''" "sys_steps (sys S' b) (sys S'' c)" by blast
  with sys_steps_trans [OF this(2) S'] show "\<exists>S'. e \<in> S' \<and> sys_steps (sys S a) (sys S' c)" by blast
qed

lemma sys_same_redis:
  assumes "(entries w', handed w', pending w') = (entries w, handed w, pending w)"
  shows "sys S w' = tables_sys (tabs w') (stream_log uuid_Parse (entries w st)) (stream_acked w) S"
  using assms by (simp add: sys_def stream_acked_def)

text \<open>A move that changes the tables by one step and leaves Redis alone.\<close>

lemma moves_tables:
  assumes "sound w \<Longrightarrow> tables_wf (tabs w') \<and> snap w' = None"
    and "(entries w', handed w', pending w') = (entries w, handed w, pending w)"
    and "\<And>L A S. sound w \<Longrightarrow> tabs w' = tabs w \<or> sys_step (tables_sys (tabs w) L A S) (tables_sys (tabs w') L A S)"
  shows "moves w w'"
  unfolding moves_def
proof (intro impI conjI allI)
  assume w: "sound w"
  have e: "entries w' = entries w" "handed w' = handed w" "pending w' = pending w" using assms(2) by auto
  show "sound w'" using w assms(1) by (simp add: sound_def streams_wf_def e)
  fix S
  from assms(3) [OF w, of "stream_log uuid_Parse (entries w st)" "stream_acked w" S]
  have "sys S w' = sys S w \<or> sys_step (sys S w) (sys S w')"
    unfolding sys_same_redis [OF assms(2)] by (auto simp: sys_def)
  then show "\<exists>S'. sys_steps (sys S w) (sys S' w')" by (metis sys_steps.refl sys_steps_one)
qed

lemma settles_tables:
  assumes "sound w \<Longrightarrow> tables_wf (tabs w') \<and> snap w' = None"
    and "(entries w', handed w', pending w') = (entries w, handed w, pending w)"
    and "\<And>L A S. sound w \<Longrightarrow> e \<in> events_of (tables_sys (tabs w) L A S) nid \<Longrightarrow>
       sys_step (tables_sys (tabs w) L A S) (tables_sys (tabs w') L A (S \<union> {e}))"
  shows "settles e nid w w'"
  unfolding settles_def
proof (intro impI conjI allI)
  assume w: "sound w"
  have e: "entries w' = entries w" "handed w' = handed w" "pending w' = pending w" using assms(2) by auto
  show "sound w'" using w assms(1) by (simp add: sound_def streams_wf_def e)
  fix S assume "e \<in> events_of (sys S w) nid"
  then have "sys_step (sys S w) (sys (S \<union> {e}) w')"
    using assms(3) [OF w] unfolding sys_def stream_acked_def e by blast
  then show "\<exists>S'. e \<in> S' \<and> sys_steps (sys S w) (sys S' w')" by (blast intro: sys_steps_one)
qed

lemma soundD: "sound w \<Longrightarrow> tables_wf (tabs w)" "sound w \<Longrightarrow> snap w = None" "sound w \<Longrightarrow> streams_wf w"
  by (simp_all add: sound_def)

section \<open>Process\<close>

lemma Load_rel:
  assumes "EntLoadForDelivery repo nid w = (res, w')"
  shows "moves w w' \<and> (\<forall>t. res = Inr t \<longrightarrow> terminal (task_view t) \<longrightarrow> settles e nid w w')"
proof -
  note fr = rf.Load_frame [OF assms]
  have tabs: "tabs w' = tabs w \<and> snap w' = snap w" if "sound w"
    using Load_effect [OF soundD(1) [OF that] assms] by blast
  have "moves w w'" by (rule moves_tables) (use tabs fr in \<open>auto simp: sound_def\<close>)
  moreover have "settles e nid w w'" if t: "res = Inr t" "terminal (task_view t)" for t
  proof (rule settles_tables [OF _ fr])
    show "sound w \<Longrightarrow> tables_wf (tabs w') \<and> snap w' = None" using tabs by (auto simp: sound_def)
    fix L A S assume w: "sound w" and e: "e \<in> events_of (tables_sys (tabs w) L A S) nid"
    have "views w nid = Some (task_view t)"
      using load_task [of w nid t w'] w assms t(1) by (simp add: healthy_def sound_def)
    with t(2) e sys_step.settle [of "tables_sys (tabs w) L A S" nid "task_view t" "{e}"] tabs [OF w]
    show "sys_step (tables_sys (tabs w) L A S) (tables_sys (tabs w') L A (S \<union> {e}))"
      by (simp add: tables_sys_def)
  qed
  ultimately show ?thesis by blast
qed

lemma Mark_rel:
  assumes "EntMarkDelivering repo nid w = (r, w')"
  shows "moves w w'"
proof (rule moves_tables [OF _ rf.Mark_frame [OF assms]])
  assume w: "sound w"
  from MarkDelivering_effect [OF soundD(1) [OF w] assms] mark_post_effect [OF soundD(1) [OF w], of nid "tabs w'"] w
  show "tables_wf (tabs w') \<and> snap w' = None" by (auto simp: sound_def)
  fix L A S
  from MarkDelivering_effect [OF soundD(1) [OF w] assms] mark_post_step [OF soundD(1) [OF w], of nid "tabs w'"]
  show "tabs w' = tabs w \<or> sys_step (tables_sys (tabs w) L A S) (tables_sys (tabs w') L A S)" by blast
qed

lemma Success_rel:
  assumes "EntRecordSuccess repo nid a w = (r, w')"
  shows "moves w w' \<and> (r = None \<longrightarrow> settles e nid w w')"
proof -
  note fr = rf.Success_frame [OF assms]
  have eff: "snap w' = None \<and> (tabs w' = tabs w \<and> r \<noteq> None \<or> success_post nid a (tabs w) (tabs w'))" if "sound w"
    using RecordSuccess_effect [OF soundD(1) [OF that] soundD(2) [OF that] assms] by (auto simp: opt_err_def)
  have wf: "tables_wf (tabs w') \<and> snap w' = None" if "sound w"
    using eff [OF that] success_post_effect [OF soundD(1) [OF that], of nid a "tabs w'"] soundD [OF that] by auto
  have "moves w w'"
    by (rule moves_tables [OF wf fr]) (use eff success_post_step [where D = "{}" and nid = nid and a = a] soundD(1) in auto)
  moreover have "settles e nid w w'" if "r = None"
  proof (rule settles_tables [OF wf fr])
    fix L A S assume w: "sound w" and e: "e \<in> events_of (tables_sys (tabs w) L A S) nid"
    from eff [OF w] that have "success_post nid a (tabs w) (tabs w')" by blast
    from success_post_step [OF soundD(1) [OF w] this] e
    show "sys_step (tables_sys (tabs w) L A S) (tables_sys (tabs w') L A (S \<union> {e}))" by blast
  qed
  ultimately show ?thesis by blast
qed

lemma Failure_rel:
  assumes "EntRecordFailure repo nid f w = (r, w')"
  shows "moves w w' \<and> (r = None \<longrightarrow> settles e nid w w')"
proof -
  note fr = rf.Failure_frame [OF assms]
  have eff: "snap w' = None \<and> (tabs w' = tabs w \<and> r \<noteq> None \<or> failure_post nid f (tabs w) (tabs w'))" if "sound w"
    using RecordFailure_effect [OF soundD(1) [OF that] soundD(2) [OF that] assms] by (auto simp: opt_err_def)
  have wf: "tables_wf (tabs w') \<and> snap w' = None" if "sound w"
    using eff [OF that] failure_post_effect [OF soundD(1) [OF that], of nid f "tabs w'"] soundD [OF that] by auto
  have "moves w w'"
    by (rule moves_tables [OF wf fr]) (use eff failure_post_step [where D = "{}" and nid = nid and f = f] soundD(1) in auto)
  moreover have "settles e nid w w'" if "r = None"
  proof (rule settles_tables [OF wf fr])
    fix L A S assume w: "sound w" and e: "e \<in> events_of (tables_sys (tabs w) L A S) nid"
    from eff [OF w] that have "failure_post nid f (tabs w) (tabs w')" by blast
    from failure_post_step [OF soundD(1) [OF w] this] e
    show "sys_step (tables_sys (tabs w) L A S) (tables_sys (tabs w') L A (S \<union> {e}))" by blast
  qed
  ultimately show ?thesis by blast
qed

lemma quiet_moves:
  assumes "tabs w' = tabs w \<and> snap w' = snap w" "(entries w', handed w', pending w') = (entries w, handed w, pending w)"
  shows "moves w w'"
  by (rule moves_tables [OF _ assms(2)]) (use assms(1) in \<open>auto simp: sound_def\<close>)

lemma Process_moves:
  assumes "Process (ent_worker db disp pol) nid w = (r, w')"
  shows "moves w w' \<and> (r = None \<longrightarrow> settles e nid w w')"
  by (rule Process_rel [OF moves_trans moves_settles _ _ _ _ _ _ assms])
     (simp_all add: ent_worker_def NewProcessor_def ent_store_def Load_rel Mark_rel Success_rel Failure_rel
        quiet_moves [OF _ rf.clock_frame] quiet_moves [OF _ Deliver_redis] Deliver_effect database.now_frame [OF database_axioms])

section \<open>Messages\<close>

lemma log_entry:
  assumes "streams_wf w" "(i, vs) \<in> set (entries w st)" "(m, i) \<in> set (stream_log uuid_Parse (entries w st))"
  shows "ParseDeliveryMessage uuid_Parse vs = Inr m"
proof -
  from assms(3) obtain us where us: "(i, us) \<in> set (entries w st)" "ParseDeliveryMessage uuid_Parse us = Inr m"
    by (auto simp: stream_log_def List.map_filter_def split: sum.splits)
  have "us = vs" using assms(1,2) us(1) by (auto simp: streams_wf_def dest: eq_key_imp_eq_value)
  with us(2) show ?thesis by simp
qed

lemma entry_log:
  "(i, vs) \<in> set (entries w st) \<Longrightarrow> ParseDeliveryMessage uuid_Parse vs = Inr m \<Longrightarrow>
     (m, i) \<in> set (stream_log uuid_Parse (entries w st))"
  by (force simp: stream_log_def List.map_filter_def)

text \<open>Commands that hand messages out leave the abstract state as it is.\<close>

lemma sound_rest: "sound w \<Longrightarrow> tabs w' = tabs w \<Longrightarrow> snap w' = snap w \<Longrightarrow> streams_wf w' \<Longrightarrow> sound w'"
  by (simp add: sound_def)

lemma moves_same:
  assumes "sound w \<Longrightarrow> sound w'" "\<And>S. sound w \<Longrightarrow> sys S w' = sys S w"
  shows "moves w w'"
  using assms by (auto simp: moves_def intro!: sys_steps.refl exI)

lemma read_moves:
  assumes "xr_Streams a = [st, ''>'']" "xr_Group a = grp" "XReadGroup rd a w = (streams, w')"
  shows "moves w w'" "entries w' = entries w"
    "streams = Inr ss \<Longrightarrow> \<forall>m\<in>set (concat (map snd ss)). (xm_ID m, xm_Values m) \<in> set (entries w' st)"
proof -
  from read_served [OF assms(1,3)] obtain new where
    e: "tabs w' = tabs w" "snap w' = snap w" "entries w' = entries w" and n: "new \<subseteq> fst ` set (entries w st) - handed w st grp"
    and hp: "handed w' = (handed w)(st := (handed w st)(grp := handed w st grp \<union> new))"
      "pending w' = (pending w)(st := (pending w st)(grp := pending w st grp \<union> new))"
    and ms: "\<forall>ss. streams = Inr ss \<longrightarrow> (\<forall>m\<in>set (concat (map snd ss)). (xm_ID m, xm_Values m) \<in> set (entries w st) \<and> xm_ID m \<in> new)"
    unfolding assms(2) prod.inject by (elim conjE exE) (rule that)
  have "stream_acked w' = stream_acked w" if "sound w"
    using n soundD(3) [OF that] by (auto simp: stream_acked_def hp e streams_wf_def)
  then show "moves w w'"
    using sound_rest [OF _ e(1,2) read_wf [OF soundD(3) assms(1,3)]] by (intro moves_same) (simp_all add: sys_def e)
  show "entries w' = entries w" by (rule e)
  show "streams = Inr ss \<Longrightarrow> \<forall>m\<in>set (concat (map snd ss)). (xm_ID m, xm_Values m) \<in> set (entries w' st)"
    using ms by (simp add: e)
qed

lemma autoclaim_moves:
  assumes "xc_Stream b = st" "xc_Group b = grp" "XAutoClaim rd b w = (msgs, w')"
  shows "moves w w'" "entries w' = entries w"
    "msgs = Inr (ms, next) \<Longrightarrow> \<forall>m\<in>set ms. (xm_ID m, xm_Values m) \<in> set (entries w' st)"
proof -
  from autoclaim_served [OF assms(3)] obtain lost where
    e: "tabs w' = tabs w" "snap w' = snap w" "entries w' = entries w" "handed w' = handed w"
    and l: "lost \<inter> fst ` set (entries w st) = {}"
    and p: "pending w' = (pending w)(st := (pending w st)(grp := pending w st grp - lost))"
    and ms: "\<forall>ms next. msgs = Inr (ms, next) \<longrightarrow> (\<forall>m\<in>set ms. (xm_ID m, xm_Values m) \<in> set (entries w st))"
    unfolding assms(1,2) prod.inject by (elim conjE exE) (rule that, auto)
  have "stream_acked w' = stream_acked w"
    using l by (auto simp: stream_acked_def p e)
  then show "moves w w'"
    using sound_rest [OF _ e(1,2) autoclaim_wf [OF soundD(3) assms(3)]] by (intro moves_same) (simp_all add: sys_def e)
  show "entries w' = entries w" by (rule e)
  show "msgs = Inr (ms, next) \<Longrightarrow> \<forall>m\<in>set ms. (xm_ID m, xm_Values m) \<in> set (entries w' st)"
    using ms by (simp add: e)
qed

lemma group_moves:
  assumes "XGroupCreateMkStream rd s g x w = (e, w')"
  shows "moves w w'"
proof -
  from group_served [OF assms] have e: "tabs w' = tabs w" "snap w' = snap w" "entries w' = entries w"
    "handed w' = handed w" "pending w' = pending w" by auto
  show ?thesis
    by (rule quiet_moves) (simp_all add: e)
qed

text \<open>An acknowledgement of a message whose event is spent, or that does not parse.\<close>

lemma ack_steps:
  assumes "sound w" "XAck rd st grp i w = (cnt, w')"
    and spent: "\<And>m. (m, i) \<in> set (stream_log uuid_Parse (entries w st)) \<Longrightarrow> dm_OutboxEventID m \<in> S"
  shows "sound w' \<and> entries w' = entries w \<and> sys_steps (sys S w) (sys S w')"
proof -
  from ack_served [OF assms(2)] have e: "tabs w' = tabs w" "snap w' = snap w" "entries w' = entries w" "handed w' = handed w"
    and p: "pending w' = pending w \<or> pending w' = (pending w)(st := (pending w st)(grp := pending w st grp - {i}))"
    by auto
  have s: "sound w'" by (rule sound_rest [OF assms(1) e(1,2) ack_wf [OF soundD(3) [OF assms(1)] assms(2)]])
  have "stream_acked w' = stream_acked w \<or> stream_acked w' = insert i (stream_acked w)"
  proof -
    obtain F where F: "fst ` set (entries w st) = F" by blast
    from p show ?thesis unfolding stream_acked_def e F by (cases "i \<in> handed w st grp \<and> i \<in> F") auto
  qed
  then have "sys S w' = sys S w \<or> sys S w' = (sys S w)\<lparr>sy_acked := insert i (sy_acked (sys S w))\<rparr>"
    by (auto simp: sys_def tables_sys_def e)
  moreover have "sys_step (sys S w) ((sys S w)\<lparr>sy_acked := insert i (sy_acked (sys S w))\<rparr>)"
    by (rule sys_step.ack) (use spent in \<open>simp add: sys_def\<close>)
  ultimately have "sys_steps (sys S w) (sys S w')" by (metis sys_steps.refl sys_steps_one)
  with s e show ?thesis by blast
qed

abbreviation stream_worker :: "'w Consumer \<Rightarrow> bool" where
  "stream_worker c \<equiv> co_client c = rd \<and> co_stream c = st \<and> co_group c = grp \<and> co_processor c = Process (ent_worker db disp pol)"

lemma processMessage_moves:
  assumes c: "stream_worker c" and m: "(xm_ID m, xm_Values m) \<in> set (entries w st)"
    and run: "processMessage uuid_Parse c m w = (r, w')"
  shows "moves w w' \<and> entries w' = entries w"
proof (cases "ParseDeliveryMessage uuid_Parse (xm_Values m)")
  case (Inl err)
  obtain n w1 where a: "XAck rd st grp (xm_ID m) w = (n, w1)" by (cases "XAck rd st grp (xm_ID m) w")
  with run Inl c have w1: "w' = w1" by (auto simp: processMessage_def split: sum.splits)
  have "sound w1 \<and> sys_steps (sys S w) (sys S w1)" if "sound w" for S
    using ack_steps [OF that a] log_entry [OF soundD(3) [OF that] m] Inl by fastforce
  moreover have "entries w1 = entries w" using ack_served [OF a] by auto
  ultimately show ?thesis unfolding w1 moves_def by blast
next
  case (Inr pm)
  let ?e = "dm_OutboxEventID pm" and ?nid = "dm_NotificationID pm"
  obtain pr w1 where p: "Process (ent_worker db disp pol) ?nid w = (pr, w1)" by (cases "Process (ent_worker db disp pol) ?nid w")
  note pm = Process_moves [OF p, of ?e]
  have e1: "entries w1 = entries w" using Process_redis [OF p] by simp
  show ?thesis
  proof (cases pr)
    case (Some err)
    with run Inr p c pm e1 show ?thesis by (simp add: processMessage_def)
  next
    case None
    obtain n w2 where a: "XAck rd st grp (xm_ID m) w1 = (n, w2)" by (cases "XAck rd st grp (xm_ID m) w1")
    with run Inr p c None have w2: "w' = w2" by (auto simp: processMessage_def split: sum.splits)
    from pm None have se: "settles ?e ?nid w w1" by simp
    have "sound w2 \<and> (\<forall>S. sys_ok (sys S w) \<longrightarrow> (\<exists>S'. sys_steps (sys S w) (sys S' w2)))" if w: "sound w"
    proof (intro conjI allI impI)
      note s1 = settlesD [OF se w]
      show "sound w2"
        by (rule sound_rest [OF s1(1)]) (use ack_served [OF a] ack_wf [OF soundD(3) [OF s1(1)] a] in auto)
      fix S assume ok: "sys_ok (sys S w)"
      have lg: "(pm, xm_ID m) \<in> set (sy_log (sys S w))" using entry_log [OF m Inr] by (simp add: sys_def)
      with ok obtain x where "sy_events (sys S w) ?e = Some x" "pm = ew_message ?e x"
        unfolding sys_ok_def log_faithful_def by blast
      then have "?e \<in> events_of (sys S w) ?nid" by (auto simp: events_of_def) (metis ew_message_nid)
      from s1(2) [OF ok this] obtain S' where S': "?e \<in> S'" "sys_steps (sys S w) (sys S' w1)" by blast
      have "dm_OutboxEventID m' \<in> S'" if "(m', xm_ID m) \<in> set (stream_log uuid_Parse (entries w1 st))" for m'
        using log_entry [OF soundD(3) [OF w] m] that S'(1) Inr by (simp add: e1)
      with ack_steps [OF s1(1) a] have "sys_steps (sys S' w1) (sys S' w2)" by blast
      from sys_steps_trans [OF this S'(2)] show "\<exists>S'. sys_steps (sys S w) (sys S' w2)" by blast
    qed
    moreover have "entries w2 = entries w" using ack_served [OF a] e1 by auto
    ultimately show ?thesis unfolding w2 moves_def by blast
  qed
qed

lemma process_messages_moves:
  assumes "stream_worker c" "\<forall>m\<in>set ms. (xm_ID m, xm_Values m) \<in> set (entries w st)"
    "process_messages uuid_Parse c ms fe w = (r, w')"
  shows "moves w w' \<and> entries w' = entries w"
  using assms(2,3)
proof (induction ms arbitrary: w fe)
  case Nil
  then show ?case using moves_same [of w w] by simp
next
  case (Cons m ms)
  obtain x w1 where p: "processMessage uuid_Parse c m w = (x, w1)" by (cases "processMessage uuid_Parse c m w")
  have m: "(xm_ID m, xm_Values m) \<in> set (entries w st)" using Cons.prems(1) by simp
  note s1 = processMessage_moves [OF assms(1) m p]
  obtain fe' where "process_messages uuid_Parse c ms fe' w1 = (r, w')"
    using Cons.prems(2) p by (cases x) auto
  with Cons.IH [of w1 fe'] Cons.prems(1) s1 have "moves w1 w' \<and> entries w' = entries w1" by simp
  with s1 show ?case using moves_trans by metis
qed

lemma ReadAndProcess_moves:
  assumes "stream_worker c" "ReadAndProcess uuid_Parse c n block w = (r, w')"
  shows "moves w w'"
proof -
  let ?a = "\<lparr>xr_Group = grp, xr_Consumer = co_consumer c, xr_Streams = [st, ''>''], xr_Count = n, xr_Block = block\<rparr>"
  obtain streams w1 where q: "XReadGroup rd ?a w = (streams, w1)" by (cases "XReadGroup rd ?a w")
  note rm = read_moves [OF _ _ q, simplified]
  show ?thesis
  proof (cases streams)
    case (Inl e)
    with assms q rm(1) show ?thesis by (auto simp: ReadAndProcess_def split: if_splits)
  next
    case (Inr ss)
    with assms q have "process_messages uuid_Parse c (concat (map snd ss)) None w1 = (r, w')" by (simp add: ReadAndProcess_def)
    from process_messages_moves [OF assms(1) _ this] rm(3) [OF Inr] show ?thesis
      using moves_trans [OF rm(1)] by auto
  qed
qed

lemma claim_loop_moves:
  assumes "stream_worker c" "claim_loop uuid_Parse c minIdle cnt start fe w = Some (r, w')"
  shows "moves w w'"
proof -
  have "stream_worker c \<longrightarrow> moves w (snd (r, w'))"
  proof (rule claim_loop.raw_induct [OF _ assms(2), where P = "\<lambda>p c i n s fe w rw. p = uuid_Parse \<longrightarrow> stream_worker c \<longrightarrow> moves w (snd rw)",
        THEN mp, OF _ HOL.refl], intro impI, goal_cases)
    case (1 rec p c minIdle cnt start fe w rw)
    let ?b = "\<lparr>xc_Stream = st, xc_Group = grp, xc_Consumer = co_consumer c, xc_MinIdle = minIdle, xc_Start = start, xc_Count = cnt\<rparr>"
    obtain res w1 where q: "XAutoClaim rd ?b w = (res, w1)" by (cases "XAutoClaim rd ?b w")
    note am = autoclaim_moves [OF _ _ q, simplified]
    show ?case
    proof (cases res)
      case (Inl e)
      with 1(2,4) q am(1) show ?thesis by (auto split: if_splits)
    next
      case (Inr mn)
      obtain ms next_start where mn: "mn = (ms, next_start)" by (cases mn)
      obtain fe1 w2 where pm: "process_messages uuid_Parse c ms fe w1 = (fe1, w2)" by (cases "process_messages uuid_Parse c ms fe w1")
      from process_messages_moves [OF 1(4) _ pm] am(3) Inr mn moves_trans [OF am(1)] have w2: "moves w w2" by auto
      show ?thesis
      proof (cases "next_start = ''0-0''")
        case True
        with 1(2,3,4) q Inr mn pm w2 show ?thesis by auto
      next
        case False
        with 1(2,3,4) q Inr mn pm have "rec uuid_Parse c minIdle cnt next_start fe1 w2 = Some rw" by simp
        from 1(1) [OF this] 1(4) w2 show ?thesis using moves_trans by blast
      qed
    qed
  qed
  with assms(1) show ?thesis by simp
qed

lemma ClaimAndProcess_moves:
  "stream_worker c \<Longrightarrow> ClaimAndProcess uuid_Parse c minIdle cnt w = Some (r, w') \<Longrightarrow> moves w w'"
  unfolding ClaimAndProcess_def by (rule claim_loop_moves)

lemma EnsureGroup_moves:
  "co_client c = rd \<Longrightarrow> EnsureGroup c w = (r, w') \<Longrightarrow> moves w w'"
  using group_moves by (auto simp: EnsureGroup_def split: prod.splits option.splits if_splits)

end

end
