(* ===== verification/Go_Netip.thy ===== *)
theory Go_Netip
  imports Go_Strings
begin

text \<open>
  What the program uses of \<^verbatim>\<open>net/netip\<close> and \<^verbatim>\<open>net\<close>: addresses (an IPv4 address is 32 bits, an IPv6
  address 128 bits and a zone, empty for none), their parsing and printing, the address classes,
  prefixes, and the splitting and joining of host and port.
\<close>

section \<open>Addresses\<close>

datatype Addr =
    Addr4 "32 word"
  | Addr6 "128 word" string

definition word_of_bytes :: "nat list \<Rightarrow> 'a::len word" where
  "word_of_bytes bs = foldl (\<lambda>w b. w * 256 + of_nat b) 0 bs"

definition Is4In6 :: "Addr \<Rightarrow> bool" where
  "Is4In6 a = (case a of Addr4 _ \<Rightarrow> False | Addr6 w _ \<Rightarrow> drop_bit 32 w = 0xffff)"

text \<open>\<^verbatim>\<open>netip.AddrFrom4(addr.As4())\<close> for an IPv4 address or one inside IPv6.\<close>

definition Unmap :: "Addr \<Rightarrow> Addr" where
  "Unmap a = (case a of Addr4 w \<Rightarrow> Addr4 w | Addr6 w _ \<Rightarrow> Addr4 (ucast w))"

definition IsLoopback :: "Addr \<Rightarrow> bool" where
  "IsLoopback a = (case a of Addr4 w \<Rightarrow> drop_bit 24 w = 127 | Addr6 w _ \<Rightarrow> w = 1)"

definition IsPrivate :: "Addr \<Rightarrow> bool" where
  "IsPrivate a =
     (case a of
        Addr4 w \<Rightarrow> drop_bit 24 w = 10 \<or> drop_bit 20 w = 0xac1 \<or> drop_bit 16 w = 0xc0a8
      | Addr6 w _ \<Rightarrow> drop_bit 121 w = 0x7e)"

definition IsLinkLocalUnicast :: "Addr \<Rightarrow> bool" where
  "IsLinkLocalUnicast a =
     (case a of Addr4 w \<Rightarrow> drop_bit 16 w = 0xa9fe | Addr6 w _ \<Rightarrow> drop_bit 118 w = 0x3fa)"

definition IsLinkLocalMulticast :: "Addr \<Rightarrow> bool" where
  "IsLinkLocalMulticast a =
     (case a of
        Addr4 w \<Rightarrow> drop_bit 8 w = 0xe00000
      | Addr6 w _ \<Rightarrow> drop_bit 120 w = 0xff \<and> take_bit 4 (drop_bit 112 w) = 2)"

definition IsMulticast :: "Addr \<Rightarrow> bool" where
  "IsMulticast a = (case a of Addr4 w \<Rightarrow> drop_bit 28 w = 0xe | Addr6 w _ \<Rightarrow> drop_bit 120 w = 0xff)"

text \<open>\<^verbatim>\<open>IsUnspecified\<close> compares with the unspecified address, whose zone is empty.\<close>

definition IsUnspecified :: "Addr \<Rightarrow> bool" where
  "IsUnspecified a \<longleftrightarrow> a = Addr4 0 \<or> a = Addr6 0 ''''"

text \<open>\<^verbatim>\<open>Prefix.Contains\<close> for a prefix of an IPv4 address.\<close>

definition Prefix4_Contains :: "32 word \<Rightarrow> nat \<Rightarrow> Addr \<Rightarrow> bool" where
  "Prefix4_Contains p n a =
     (case a of Addr4 w \<Rightarrow> drop_bit (32 - n) w = drop_bit (32 - n) p | Addr6 _ _ \<Rightarrow> False)"

section \<open>Parsing\<close>

text \<open>The four fields of an IPv4 address: \<open>v\<close> is the value and \<open>d\<close> the number of digits of the current field.\<close>

fun ipv4_fields :: "string \<Rightarrow> nat \<Rightarrow> nat \<Rightarrow> nat list \<Rightarrow> nat list option" where
  "ipv4_fields [] v d acc = (if length acc < 3 then None else Some (acc @ [v]))"
| "ipv4_fields (c # cs) v d acc =
     (if is_digit c
      then if d = 1 \<and> v = 0 then None
           else let v' = 10 * v + digit_value c in
                if v' > 255 then None else ipv4_fields cs v' (Suc d) acc
      else if c = CHR ''.''
      then if d = 0 \<or> cs = [] then None
           else if length acc = 3 then None
           else ipv4_fields cs 0 0 (acc @ [v])
      else None)"

definition parseIPv4 :: "string \<Rightarrow> Addr option" where
  "parseIPv4 s = map_option (\<lambda>bs. Addr4 (word_of_bytes bs)) (ipv4_fields s 0 0 [])"

definition is_hex :: "char \<Rightarrow> bool" where
  "is_hex c \<longleftrightarrow> is_digit c \<or> (97 \<le> byte c \<and> byte c \<le> 102) \<or> (65 \<le> byte c \<and> byte c \<le> 70)"

definition hex_value :: "char \<Rightarrow> nat" where
  "hex_value c =
     (if is_digit c then byte c - 48 else if 97 \<le> byte c then byte c - 87 else byte c - 55)"

definition hex_number :: "string \<Rightarrow> nat" where
  "hex_number s = foldl (\<lambda>n c. 16 * n + hex_value c) 0 s"

text \<open>
  The loop over the groups of an IPv6 address: \<open>k\<close> groups still fit, \<open>ip\<close> are the bytes so far,
  \<open>ell\<close> the position of the ellipsis. The result is the bytes, the ellipsis and what was not read.
\<close>

fun ipv6_loop :: "nat \<Rightarrow> nat list \<Rightarrow> nat option \<Rightarrow> string \<Rightarrow> (nat list \<times> nat option \<times> string) option" where
  "ipv6_loop 0 ip ell s = Some (ip, ell, s)"
| "ipv6_loop (Suc k) ip ell s =
     (let ds = takeWhile is_hex s; r = dropWhile is_hex s; acc = hex_number ds in
      if length ds > 4 then None
      else if ds = [] then None
      else if r \<noteq> [] \<and> hd r = CHR ''.''
      then if ell = None \<and> length ip \<noteq> 12 then None
           else if length ip + 4 > 16 then None
           else (case ipv4_fields s 0 0 [] of None \<Rightarrow> None | Some bs \<Rightarrow> Some (ip @ bs, ell, []))
      else
        let ip' = ip @ [acc div 256, acc mod 256] in
        (case r of
           [] \<Rightarrow> Some (ip', ell, [])
         | c # s1 \<Rightarrow>
             if c \<noteq> CHR '':'' then None
             else (case s1 of
                     [] \<Rightarrow> None
                   | c1 # s2 \<Rightarrow>
                       if c1 = CHR '':''
                       then if ell \<noteq> None then None
                            else if s2 = [] then Some (ip', Some (length ip'), [])
                            else ipv6_loop k ip' (Some (length ip')) s2
                       else ipv6_loop k ip' ell s1)))"

definition ipv6_expand :: "nat list \<times> nat option \<times> string \<Rightarrow> nat list option" where
  "ipv6_expand x =
     (case x of (ip, ell, s) \<Rightarrow>
        if s \<noteq> [] then None
        else if length ip < 16
        then (case ell of
                None \<Rightarrow> None
              | Some e \<Rightarrow> Some (take e ip @ replicate (16 - length ip) 0 @ drop e ip))
        else if ell \<noteq> None then None else Some ip)"

definition parseIPv6 :: "string \<Rightarrow> Addr option" where
  "parseIPv6 in_str =
     (let s = takeWhile (\<lambda>c. c \<noteq> CHR ''%'') in_str;
          r = dropWhile (\<lambda>c. c \<noteq> CHR ''%'') in_str;
          zone = tl r
      in if r \<noteq> [] \<and> zone = [] then None
         else if take 2 s = ''::'' \<and> drop 2 s = [] then Some (Addr6 0 zone)
         else
           let start = (if take 2 s = ''::'' then ipv6_loop 8 [] (Some 0) (drop 2 s) else ipv6_loop 8 [] None s)
           in map_option (\<lambda>bs. Addr6 (word_of_bytes bs) zone) (Option.bind start ipv6_expand))"

fun ParseAddr_scan :: "string \<Rightarrow> string \<Rightarrow> Addr option" where
  "ParseAddr_scan s [] = None"
| "ParseAddr_scan s (c # cs) =
     (if c = CHR ''.'' then parseIPv4 s
      else if c = CHR '':'' then parseIPv6 s
      else if c = CHR ''%'' then None
      else ParseAddr_scan s cs)"

definition ParseAddr :: "string \<Rightarrow> Addr option" where
  "ParseAddr s = ParseAddr_scan s s"

section \<open>Printing\<close>

function hex_digits :: "int \<Rightarrow> string" where
  "hex_digits n = (if n < 16 then [hex_digit (nat n)] else hex_digits (n div 16) @ [hex_digit (nat (n mod 16))])"
  by pat_completeness auto
termination
  by (relation "measure nat") auto

declare hex_digits.simps [simp del]

definition v4_bytes :: "32 word \<Rightarrow> int list" where
  "v4_bytes w = map (\<lambda>i. uint (take_bit 8 (drop_bit (8 * (3 - i)) w))) [0..<4]"

definition v6_groups :: "128 word \<Rightarrow> int list" where
  "v6_groups w = map (\<lambda>i. uint (take_bit 16 (drop_bit (16 * (7 - i)) w))) [0..<8]"

definition string4 :: "32 word \<Rightarrow> string" where
  "string4 w =
     (case v4_bytes w of
        [a, b, c, d] \<Rightarrow> Itoa a @ ''.'' @ Itoa b @ ''.'' @ Itoa c @ ''.'' @ Itoa d
      | _ \<Rightarrow> [])"

text \<open>The first longest run of at least two zero groups, as start and end.\<close>

definition zero_run :: "int list \<Rightarrow> nat \<times> nat" where
  "zero_run gs =
     foldl (\<lambda>(b, e) i.
        let j = i + length (takeWhile (\<lambda>g. g = 0) (drop i gs)) in
        if j - i \<ge> 2 \<and> j - i > e - b then (i, j) else (b, e)) (255, 255) [0..<length gs]"

fun join_groups :: "int list \<Rightarrow> string" where
  "join_groups [] = []"
| "join_groups [g] = hex_digits g"
| "join_groups (g # gs) = hex_digits g @ CHR '':'' # join_groups gs"

definition string6 :: "128 word \<Rightarrow> string" where
  "string6 w =
     (let gs = v6_groups w in
      case zero_run gs of (b, e) \<Rightarrow>
        if b \<ge> 8 then join_groups gs
        else join_groups (take b gs) @ ''::'' @ join_groups (drop e gs))"

definition Addr_String :: "Addr \<Rightarrow> string" where
  "Addr_String a =
     (case a of
        Addr4 w \<Rightarrow> string4 w
      | Addr6 w zone \<Rightarrow>
          (if Is4In6 a then ''::ffff:'' @ string4 (ucast w) else string6 w)
          @ (if zone = [] then [] else CHR ''%'' # zone))"

section \<open>Host and port\<close>

definition last_colon :: "string \<Rightarrow> (string \<times> string) option" where
  "last_colon s =
     (if CHR '':'' \<in> set s
      then Some (rev (tl (dropWhile (\<lambda>c. c \<noteq> CHR '':'') (rev s))),
                 rev (takeWhile (\<lambda>c. c \<noteq> CHR '':'') (rev s)))
      else None)"

definition SplitHostPort :: "string \<Rightarrow> (string \<times> string) option" where
  "SplitHostPort hostport =
     (case last_colon hostport of
        None \<Rightarrow> None
      | Some (pre, port) \<Rightarrow>
          if hd hostport = CHR ''[''
          then let host = takeWhile (\<lambda>c. c \<noteq> CHR '']'') (tl hostport);
                   after = dropWhile (\<lambda>c. c \<noteq> CHR '']'') (tl hostport)
               in if after = [] then None
                  else if pre = CHR ''['' # host @ '']''
                  then if CHR ''['' \<in> set (tl hostport) \<or> CHR '']'' \<in> set (tl after) then None
                       else Some (host, port)
                  else None
          else if CHR '':'' \<in> set pre then None
          else if CHR ''['' \<in> set hostport \<or> CHR '']'' \<in> set hostport then None
          else Some (pre, port))"

definition JoinHostPort :: "string \<Rightarrow> string \<Rightarrow> string" where
  "JoinHostPort host port =
     (if CHR '':'' \<in> set host then ''['' @ host @ '']:'' @ port else host @ '':'' @ port)"

end
