(* ===== verification/Go_Url.thy ===== *)
theory Go_Url
  imports Go_Netip
begin

text \<open>
  What the program uses of \<^verbatim>\<open>net/url\<close>: \<^verbatim>\<open>ParseRequestURI\<close>, \<^verbatim>\<open>URL.Hostname\<close> and \<^verbatim>\<open>URL.String\<close>,
  as of the Go 1.25 releases that accept only an IP literal between brackets. Only whether parsing
  fails is kept, not the text of the error, which the program never uses.
\<close>

section \<open>Escaping\<close>

datatype url_mode = encodePath | encodeUserPassword | encodeHost | encodeZone

definition is_alnum :: "char \<Rightarrow> bool" where
  "is_alnum c \<longleftrightarrow> is_digit c \<or> (65 \<le> byte c \<and> byte c \<le> 90) \<or> (97 \<le> byte c \<and> byte c \<le> 122)"

definition shouldEscape :: "char \<Rightarrow> url_mode \<Rightarrow> bool" where
  "shouldEscape c mode \<longleftrightarrow>
     \<not> is_alnum c
     \<and> \<not> ((mode = encodeHost \<or> mode = encodeZone) \<and> (c \<in> set ''!$&()*+,;=:[]<>'' \<or> c = CHR 39 \<or> c = CHR 34))
     \<and> c \<notin> set ''-_.~''
     \<and> (c \<in> set ''$&+,/:;=?@'' \<longrightarrow>
          (case mode of
             encodePath \<Rightarrow> c = CHR ''?''
           | encodeUserPassword \<Rightarrow> c \<in> set ''@/?:''
           | _ \<Rightarrow> True))"

definition upper_hex :: "nat \<Rightarrow> char" where
  "upper_hex n = char_of (if n < 10 then 48 + n else 55 + n)"

definition escape_byte :: "url_mode \<Rightarrow> char \<Rightarrow> string" where
  "escape_byte mode c =
     (if shouldEscape c mode then [CHR ''%'', upper_hex (byte c div 16), upper_hex (byte c mod 16)] else [c])"

definition url_escape :: "url_mode \<Rightarrow> string \<Rightarrow> string" where
  "url_escape mode s = concat (map (escape_byte mode) s)"

definition bad_escape :: "url_mode \<Rightarrow> char \<Rightarrow> char \<Rightarrow> bool" where
  "bad_escape mode a b \<longleftrightarrow>
     \<not> is_hex a \<or> \<not> is_hex b
     \<or> (mode = encodeHost \<and> hex_value a < 8 \<and> \<not> (a = CHR ''2'' \<and> b = CHR ''5''))
     \<or> (mode = encodeZone \<and> \<not> (a = CHR ''2'' \<and> b = CHR ''5'')
        \<and> 16 * hex_value a + hex_value b \<noteq> 32
        \<and> shouldEscape (char_of (16 * hex_value a + hex_value b)) encodeHost)"

fun url_unescape :: "url_mode \<Rightarrow> string \<Rightarrow> string option" where
  "url_unescape mode [] = Some []"
| "url_unescape mode (c # cs) =
     (if c = CHR ''%''
      then (case cs of
              a # b # r \<Rightarrow>
                if bad_escape mode a b then None
                else map_option (Cons (char_of (16 * hex_value a + hex_value b))) (url_unescape mode r)
            | _ \<Rightarrow> None)
      else if (mode = encodeHost \<or> mode = encodeZone) \<and> byte c < 128 \<and> shouldEscape c mode then None
      else map_option (Cons c) (url_unescape mode cs))"

section \<open>Parsing\<close>

text \<open>\<^verbatim>\<open>User\<close> is \<open>None\<close> for a nil \<^verbatim>\<open>Userinfo\<close>, else the name and the password when there is one.\<close>

record URL =
  url_Scheme :: string
  url_Opaque :: string
  url_User :: "(string \<times> string option) option"
  url_Host :: string
  url_Path :: string
  url_RawPath :: string
  url_OmitHost :: bool
  url_ForceQuery :: bool
  url_RawQuery :: string

definition empty_URL :: URL where
  "empty_URL = \<lparr>url_Scheme = '''', url_Opaque = '''', url_User = None, url_Host = '''', url_Path = '''',
     url_RawPath = '''', url_OmitHost = False, url_ForceQuery = False, url_RawQuery = ''''\<rparr>"

definition cut :: "char \<Rightarrow> string \<Rightarrow> string \<times> string" where
  "cut c s = (takeWhile (\<lambda>x. x \<noteq> c) s, tl (dropWhile (\<lambda>x. x \<noteq> c) s))"

text \<open>The scan of \<^verbatim>\<open>getScheme\<close>: \<open>acc\<close> is the text before the position.\<close>

fun scan_scheme :: "string \<Rightarrow> string \<Rightarrow> string \<Rightarrow> (string \<times> string) option" where
  "scan_scheme raw acc [] = Some ('''', raw)"
| "scan_scheme raw acc (c # cs) =
     (if is_alnum c \<and> \<not> is_digit c then scan_scheme raw (acc @ [c]) cs
      else if is_digit c \<or> c \<in> set ''+-.''
      then if acc = [] then Some ('''', raw) else scan_scheme raw (acc @ [c]) cs
      else if c = CHR '':''
      then if acc = [] then None else Some (acc, cs)
      else Some ('''', raw))"

definition getScheme :: "string \<Rightarrow> (string \<times> string) option" where
  "getScheme raw = scan_scheme raw [] raw"

definition validOptionalPort :: "string \<Rightarrow> bool" where
  "validOptionalPort port = (case port of [] \<Rightarrow> True | c # cs \<Rightarrow> c = CHR '':'' \<and> list_all is_digit cs)"

definition validUserinfo :: "string \<Rightarrow> bool" where
  "validUserinfo s = list_all (\<lambda>c. is_alnum c \<or> c \<in> set ''-._:~!$&()*+,;=%@'' \<or> c = CHR 39) s"

text \<open>The split at the last occurrence: what comes before it and what comes after it.\<close>

definition split_last :: "char \<Rightarrow> string \<Rightarrow> (string \<times> string) option" where
  "split_last c s =
     (if c \<in> set s
      then Some (rev (tl (dropWhile (\<lambda>x. x \<noteq> c) (rev s))), rev (takeWhile (\<lambda>x. x \<noteq> c) (rev s)))
      else None)"

text \<open>The position of the first \<^verbatim>\<open>%25\<close>, as what comes before it and the rest from it on.\<close>

fun split_zone :: "string \<Rightarrow> (string \<times> string) option" where
  "split_zone [] = None"
| "split_zone (c # cs) =
     (if take 3 (c # cs) = ''%25'' then Some ([], c # cs)
      else map_option (\<lambda>(a, b). (c # a, b)) (split_zone cs))"

definition unescape_hostname :: "string \<Rightarrow> string option" where
  "unescape_hostname hostname =
     (case split_zone hostname of
        Some (host_part, zone_part) \<Rightarrow>
          (case (url_unescape encodeHost host_part, url_unescape encodeZone zone_part) of
             (Some a, Some b) \<Rightarrow> Some (a @ b) | _ \<Rightarrow> None)
      | None \<Rightarrow> url_unescape encodeHost hostname)"

definition parse_bracketed :: "string \<Rightarrow> string \<Rightarrow> string option" where
  "parse_bracketed hostname colonPort =
     (if \<not> validOptionalPort colonPort then None
      else (case (url_unescape encodeHost colonPort, unescape_hostname hostname) of
              (Some port, Some name) \<Rightarrow>
                (case ParseAddr name of
                   Some (Addr6 w zone) \<Rightarrow> Some (''['' @ name @ '']'' @ port)
                 | _ \<Rightarrow> None)
            | _ \<Rightarrow> None))"

definition parseHost :: "string \<Rightarrow> string option" where
  "parseHost host =
     (case split_last (CHR ''['') host of
        Some (before_open, after_open) \<Rightarrow>
          (case split_last (CHR '']'') host of
             None \<Rightarrow> None
           | Some (before_close, colonPort) \<Rightarrow> parse_bracketed (drop (Suc (length before_open)) before_close) colonPort)
      | None \<Rightarrow>
          (case split_last (CHR '':'') host of
             Some (h, port) \<Rightarrow>
               if validOptionalPort (CHR '':'' # port) then url_unescape encodeHost host else None
           | None \<Rightarrow> url_unescape encodeHost host))"

definition parseAuthority :: "string \<Rightarrow> ((string \<times> string option) option \<times> string) option" where
  "parseAuthority authority =
     (case split_last (CHR ''@'') authority of
        None \<Rightarrow> map_option (\<lambda>h. (None, h)) (parseHost authority)
      | Some (userinfo, h) \<Rightarrow>
          (case parseHost h of
             None \<Rightarrow> None
           | Some host \<Rightarrow>
               if \<not> validUserinfo userinfo then None
               else if CHR '':'' \<notin> set userinfo
               then map_option (\<lambda>name. (Some (name, None), host)) (url_unescape encodeUserPassword userinfo)
               else (case cut (CHR '':'') userinfo of (username, password) \<Rightarrow>
                       (case (url_unescape encodeUserPassword username, url_unescape encodeUserPassword password) of
                          (Some name, Some pw) \<Rightarrow> Some (Some (name, Some pw), host)
                        | _ \<Rightarrow> None))))"

definition setPath :: "string \<Rightarrow> URL \<Rightarrow> URL option" where
  "setPath p url =
     (case url_unescape encodePath p of
        None \<Rightarrow> None
      | Some path \<Rightarrow>
          Some (url\<lparr>url_Path := path, url_RawPath := (if p = url_escape encodePath path then '''' else p)\<rparr>))"

definition split_query :: "string \<Rightarrow> string \<times> bool \<times> string" where
  "split_query rest =
     (if suffix ''?'' rest \<and> count_where (\<lambda>c. c = CHR ''?'') rest = 1
      then (take (length rest - 1) rest, True, '''')
      else (case cut (CHR ''?'') rest of (a, q) \<Rightarrow> (a, False, q)))"

definition ParseRequestURI :: "string \<Rightarrow> URL option" where
  "ParseRequestURI rawURL =
     (if \<not> list_all (\<lambda>c. 32 \<le> byte c \<and> byte c \<noteq> 127) rawURL then None
      else if rawURL = '''' then None
      else if rawURL = ''*'' then Some (empty_URL\<lparr>url_Path := ''*''\<rparr>)
      else (case getScheme rawURL of
              None \<Rightarrow> None
            | Some (sch, rest0) \<Rightarrow>
                (case split_query rest0 of (rest, force, query) \<Rightarrow>
                   let scheme = map ascii_lower sch;
                       url = empty_URL\<lparr>url_Scheme := scheme, url_ForceQuery := force, url_RawQuery := query\<rparr> in
                   if take 1 rest \<noteq> ''/''
                   then if scheme \<noteq> '''' then Some (url\<lparr>url_Opaque := rest\<rparr>) else None
                   else if scheme \<noteq> '''' \<and> take 2 rest = ''//''
                   then let authority = takeWhile (\<lambda>c. c \<noteq> CHR ''/'') (drop 2 rest);
                            path = dropWhile (\<lambda>c. c \<noteq> CHR ''/'') (drop 2 rest) in
                        (case parseAuthority authority of
                           None \<Rightarrow> None
                         | Some (user, host) \<Rightarrow> setPath path (url\<lparr>url_User := user, url_Host := host\<rparr>))
                   else setPath rest (url\<lparr>url_OmitHost := scheme \<noteq> ''''\<rparr>))))"

section \<open>Hostname and String\<close>

definition url_Hostname :: "URL \<Rightarrow> string" where
  "url_Hostname url =
     (let hostPort = url_Host url;
          host = (case split_last (CHR '':'') hostPort of
                    Some (h, port) \<Rightarrow> if validOptionalPort (CHR '':'' # port) then h else hostPort
                  | None \<Rightarrow> hostPort)
      in if prefix ''['' host \<and> suffix '']'' host then drop 1 (take (length host - 1) host) else host)"

definition validEncodedPath :: "string \<Rightarrow> bool" where
  "validEncodedPath s =
     list_all (\<lambda>c. c \<in> set ''!$&()*+,;=:@[]%'' \<or> c = CHR 39 \<or> \<not> shouldEscape c encodePath) s"

definition EscapedPath :: "URL \<Rightarrow> string" where
  "EscapedPath url =
     (if url_RawPath url \<noteq> '''' \<and> validEncodedPath (url_RawPath url)
         \<and> url_unescape encodePath (url_RawPath url) = Some (url_Path url)
      then url_RawPath url
      else if url_Path url = ''*'' then ''*''
      else url_escape encodePath (url_Path url))"

definition Userinfo_String :: "string \<times> string option \<Rightarrow> string" where
  "Userinfo_String u =
     url_escape encodeUserPassword (fst u)
     @ (case snd u of None \<Rightarrow> '''' | Some pw \<Rightarrow> CHR '':'' # url_escape encodeUserPassword pw)"

text \<open>
  \<^verbatim>\<open>URL.String\<close>, for a URL with a scheme or a host (the program prints no other; without them Go
  may put \<^verbatim>\<open>./\<close> before a first segment that has a colon).
\<close>

definition url_String :: "URL \<Rightarrow> string" where
  "url_String url =
     (if url_Scheme url = '''' then '''' else url_Scheme url @ '':'')
     @ (if url_Opaque url \<noteq> '''' then url_Opaque url
        else
          (if (url_Scheme url \<noteq> '''' \<or> url_Host url \<noteq> '''' \<or> url_User url \<noteq> None)
              \<and> \<not> (url_OmitHost url \<and> url_Host url = '''' \<and> url_User url = None)
           then (if url_Host url \<noteq> '''' \<or> url_Path url \<noteq> '''' \<or> url_User url \<noteq> None then ''//'' else '''')
                @ (case url_User url of None \<Rightarrow> '''' | Some ui \<Rightarrow> Userinfo_String ui @ ''@'')
                @ url_escape encodeHost (url_Host url)
           else '''')
          @ (let path = EscapedPath url in
             (if path \<noteq> '''' \<and> take 1 path \<noteq> ''/'' \<and> url_Host url \<noteq> '''' then ''/'' else '''') @ path))
     @ (if url_ForceQuery url \<or> url_RawQuery url \<noteq> '''' then CHR ''?'' # url_RawQuery url else '''')"

end
