(* ===== verification/Go_Json.thy ===== *)
theory Go_Json
  imports Go_Strings
begin

text \<open>
  \<^verbatim>\<open>json.Valid\<close> of \<^verbatim>\<open>encoding/json\<close>: the scanner, one byte at a time, with its stack of open
  arrays and objects.
\<close>

datatype json_open = ParseObjectKey | ParseObjectValue | ParseArrayValue

datatype json_state =
    BeginValue | BeginValueOrEmpty | BeginStringOrEmpty | BeginString
  | InString | InStringEsc | InStringEscU nat
  | NumNeg | Num1 | Num0 | NumDot | NumDot0 | NumE | NumESign | NumE0
  | Literal string
  | EndValue | EndTop | ScanError

type_synonym json_scanner = "json_state \<times> json_open list"

definition json_space :: "char \<Rightarrow> bool" where
  "json_space c \<longleftrightarrow> byte c = 32 \<or> byte c = 9 \<or> byte c = 10 \<or> byte c = 13"

definition json_hex :: "char \<Rightarrow> bool" where
  "json_hex c \<longleftrightarrow> is_digit c \<or> (97 \<le> byte c \<and> byte c \<le> 102) \<or> (65 \<le> byte c \<and> byte c \<le> 70)"

definition maxNestingDepth :: nat where
  "maxNestingDepth = 10000"

definition json_push :: "json_open \<Rightarrow> json_state \<Rightarrow> json_open list \<Rightarrow> json_scanner" where
  "json_push o1 next st =
     (if length st + 1 > maxNestingDepth then (ScanError, st) else (next, o1 # st))"

text \<open>\<^verbatim>\<open>popParseState\<close>.\<close>

definition json_pop :: "json_open list \<Rightarrow> json_scanner" where
  "json_pop st = (case st of [] \<Rightarrow> (ScanError, []) | _ # r \<Rightarrow> (if r = [] then EndTop else EndValue, r))"

definition step_EndTop :: "char \<Rightarrow> json_open list \<Rightarrow> json_scanner" where
  "step_EndTop c st = (if json_space c then (EndTop, st) else (ScanError, st))"

text \<open>\<^verbatim>\<open>stateEndValue\<close>.\<close>

definition step_EndValue :: "char \<Rightarrow> json_open list \<Rightarrow> json_scanner" where
  "step_EndValue c st =
     (case st of
        [] \<Rightarrow> step_EndTop c st
      | ps # r \<Rightarrow>
          if json_space c then (EndValue, st)
          else (case ps of
                  ParseObjectKey \<Rightarrow>
                    if c = CHR '':'' then (BeginValue, ParseObjectValue # r) else (ScanError, st)
                | ParseObjectValue \<Rightarrow>
                    if c = CHR '','' then (BeginString, ParseObjectKey # r)
                    else if c = CHR 125 then json_pop st
                    else (ScanError, st)
                | ParseArrayValue \<Rightarrow>
                    if c = CHR '','' then (BeginValue, st)
                    else if c = CHR '']'' then json_pop st
                    else (ScanError, st)))"

text \<open>\<^verbatim>\<open>stateBeginValue\<close>.\<close>

definition step_BeginValue :: "char \<Rightarrow> json_open list \<Rightarrow> json_scanner" where
  "step_BeginValue c st =
     (if json_space c then (BeginValue, st)
      else if c = CHR 123 then json_push ParseObjectKey BeginStringOrEmpty st
      else if c = CHR ''['' then json_push ParseArrayValue BeginValueOrEmpty st
      else if c = CHR 34 then (InString, st)
      else if c = CHR ''-'' then (NumNeg, st)
      else if c = CHR ''0'' then (Num0, st)
      else if c = CHR ''t'' then (Literal ''rue'', st)
      else if c = CHR ''f'' then (Literal ''alse'', st)
      else if c = CHR ''n'' then (Literal ''ull'', st)
      else if is_digit c then (Num1, st)
      else (ScanError, st))"

definition step_BeginString :: "char \<Rightarrow> json_open list \<Rightarrow> json_scanner" where
  "step_BeginString c st =
     (if json_space c then (BeginString, st) else if c = CHR 34 then (InString, st) else (ScanError, st))"

definition step_Num0 :: "char \<Rightarrow> json_open list \<Rightarrow> json_scanner" where
  "step_Num0 c st =
     (if c = CHR ''.'' then (NumDot, st)
      else if c = CHR ''e'' \<or> c = CHR ''E'' then (NumE, st)
      else step_EndValue c st)"

text \<open>One call of \<^verbatim>\<open>scan.step\<close>.\<close>

fun json_step :: "json_scanner \<Rightarrow> char \<Rightarrow> json_scanner" where
  "json_step (BeginValue, st) c = step_BeginValue c st"
| "json_step (BeginValueOrEmpty, st) c =
     (if json_space c then (BeginValueOrEmpty, st)
      else if c = CHR '']'' then step_EndValue c st
      else step_BeginValue c st)"
| "json_step (BeginStringOrEmpty, st) c =
     (if json_space c then (BeginStringOrEmpty, st)
      else if c = CHR 125 then step_EndValue c (ParseObjectValue # tl st)
      else step_BeginString c st)"
| "json_step (BeginString, st) c = step_BeginString c st"
| "json_step (InString, st) c =
     (if c = CHR 34 then (EndValue, st)
      else if c = CHR 92 then (InStringEsc, st)
      else if byte c < 32 then (ScanError, st)
      else (InString, st))"
| "json_step (InStringEsc, st) c =
     (if c \<in> set ''bfnrt/'' \<or> c = CHR 92 \<or> c = CHR 34 then (InString, st)
      else if c = CHR ''u'' then (InStringEscU 3, st)
      else (ScanError, st))"
| "json_step (InStringEscU n, st) c =
     (if json_hex c then (case n of 0 \<Rightarrow> (InString, st) | Suc m \<Rightarrow> (InStringEscU m, st)) else (ScanError, st))"
| "json_step (NumNeg, st) c =
     (if c = CHR ''0'' then (Num0, st) else if is_digit c then (Num1, st) else (ScanError, st))"
| "json_step (Num1, st) c = (if is_digit c then (Num1, st) else step_Num0 c st)"
| "json_step (Num0, st) c = step_Num0 c st"
| "json_step (NumDot, st) c = (if is_digit c then (NumDot0, st) else (ScanError, st))"
| "json_step (NumDot0, st) c =
     (if is_digit c then (NumDot0, st)
      else if c = CHR ''e'' \<or> c = CHR ''E'' then (NumE, st)
      else step_EndValue c st)"
| "json_step (NumE, st) c =
     (if c = CHR ''+'' \<or> c = CHR ''-'' then (NumESign, st)
      else if is_digit c then (NumE0, st) else (ScanError, st))"
| "json_step (NumESign, st) c = (if is_digit c then (NumE0, st) else (ScanError, st))"
| "json_step (NumE0, st) c = (if is_digit c then (NumE0, st) else step_EndValue c st)"
| "json_step (Literal [], st) c = step_EndValue c st"
| "json_step (Literal (l # ls), st) c =
     (if c = l then (if ls = [] then EndValue else Literal ls, st) else (ScanError, st))"
| "json_step (EndValue, st) c = step_EndValue c st"
| "json_step (EndTop, st) c = step_EndTop c st"
| "json_step (ScanError, st) c = (ScanError, st)"

text \<open>\<^verbatim>\<open>scan.eof\<close>: a space closes a number at the top level.\<close>

definition json_Valid :: "bytes \<Rightarrow> bool" where
  "json_Valid data \<longleftrightarrow> fst (json_step (foldl json_step (BeginValue, []) data) (CHR '' '')) = EndTop"

end
