(* ===== verification/Netguard.thy ===== *)
theory Netguard
  imports Go_Netip Go_Errors
begin

text \<open>
  \<^verbatim>\<open>internal/netguard/netguard.go\<close>: the checks that keep outbound requests away from internal
  addresses. The resolver (\<^verbatim>\<open>net.DefaultResolver\<close>) is a parameter.
\<close>

section \<open>Checks\<close>

definition blocked :: "string \<Rightarrow> goerror" where
  "blocked what = ErrWrap [] (Sentinel ErrBlockedTarget) ('': '' @ what)"

definition inPrefix :: "Addr \<Rightarrow> 32 word \<Rightarrow> nat \<Rightarrow> bool" where
  "inPrefix addr p n \<longleftrightarrow> Prefix4_Contains p n addr"

definition RejectBlockedAddr :: "Addr \<Rightarrow> goerror option" where
  "RejectBlockedAddr addr =
     (let addr = (if Is4In6 addr then Unmap addr else addr) in
      if IsLoopback addr \<or> IsPrivate addr \<or> IsLinkLocalUnicast addr \<or> IsLinkLocalMulticast addr
         \<or> IsMulticast addr \<or> IsUnspecified addr
         \<or> inPrefix addr 0x64400000 10 \<or> inPrefix addr 0 8
      then Some (blocked (Addr_String addr))
      else None)"

definition normalized_host :: "unicode \<Rightarrow> string \<Rightarrow> string" where
  "normalized_host u host = TrimSuffix (ToLower u (TrimSpace host)) ''.''"

definition RejectBlockedHost :: "unicode \<Rightarrow> string \<Rightarrow> goerror option" where
  "RejectBlockedHost u host =
     (let normalized = normalized_host u host in
      if normalized = '''' then Some (blocked ''empty host'')
      else if normalized = ''localhost'' \<or> suffix ''.localhost'' normalized
      then Some (blocked ''localhost is not allowed'')
      else (case ParseAddr normalized of
              Some addr \<Rightarrow> RejectBlockedAddr addr
            | None \<Rightarrow> None))"

fun reject_any :: "Addr list \<Rightarrow> goerror option" where
  "reject_any [] = None"
| "reject_any (addr # addrs) =
     (case RejectBlockedAddr addr of Some err \<Rightarrow> Some err | None \<Rightarrow> reject_any addrs)"

definition ResolvePublicAddress ::
    "unicode \<Rightarrow> (string \<Rightarrow> 'w \<Rightarrow> (goerror + Addr list) \<times> 'w) \<Rightarrow> string \<Rightarrow> 'w \<Rightarrow> (goerror + string) \<times> 'w" where
  "ResolvePublicAddress u lookup address w =
     (case SplitHostPort address of
        None \<Rightarrow> (Inl (ErrText (''address '' @ address @ '': cannot be split'')), w)
      | Some (host, port) \<Rightarrow>
          (case RejectBlockedHost u host of
             Some err \<Rightarrow> (Inl err, w)
           | None \<Rightarrow>
               (case ParseAddr host of
                  Some addr \<Rightarrow> (Inr (JoinHostPort (Addr_String addr) port), w)
                | None \<Rightarrow>
                    (case lookup host w of
                       (Inl err, w1) \<Rightarrow> (Inl err, w1)
                     | (Inr addrs, w1) \<Rightarrow>
                         if addrs = [] then (Inl (ErrText (''no addresses resolved for '' @ host)), w1)
                         else (case reject_any addrs of
                                 Some err \<Rightarrow> (Inl err, w1)
                               | None \<Rightarrow> (Inr (JoinHostPort (Addr_String (hd addrs)) port), w1))))))"

section \<open>The blocked ranges as intervals\<close>

text \<open>The networks the guard is meant to keep out, as intervals of addresses.\<close>

definition blocked4 :: "int \<Rightarrow> bool" where
  "blocked4 n \<longleftrightarrow>
       n < 0x01000000                               \<comment> \<open>0.0.0.0/8\<close>
     \<or> 0x0a000000 \<le> n \<and> n < 0x0b000000            \<comment> \<open>10.0.0.0/8\<close>
     \<or> 0x64400000 \<le> n \<and> n < 0x64800000            \<comment> \<open>100.64.0.0/10\<close>
     \<or> 0x7f000000 \<le> n \<and> n < 0x80000000            \<comment> \<open>127.0.0.0/8\<close>
     \<or> 0xa9fe0000 \<le> n \<and> n < 0xa9ff0000            \<comment> \<open>169.254.0.0/16\<close>
     \<or> 0xac100000 \<le> n \<and> n < 0xac200000            \<comment> \<open>172.16.0.0/12\<close>
     \<or> 0xc0a80000 \<le> n \<and> n < 0xc0a90000            \<comment> \<open>192.168.0.0/16\<close>
     \<or> 0xe0000000 \<le> n \<and> n < 0xf0000000            \<comment> \<open>224.0.0.0/4\<close>"

definition blocked6 :: "int \<Rightarrow> bool" where
  "blocked6 n \<longleftrightarrow>
       n = 1                                                  \<comment> \<open>::1\<close>
     \<or> 0xfc * 2 ^ 120 \<le> n \<and> n < 0xfe * 2 ^ 120          \<comment> \<open>fc00::/7\<close>
     \<or> 0xfe80 * 2 ^ 112 \<le> n \<and> n < 0xfec0 * 2 ^ 112      \<comment> \<open>fe80::/10\<close>
     \<or> 0xff * 2 ^ 120 \<le> n                                  \<comment> \<open>ff00::/8\<close>
     \<or> 0xffff * 2 ^ 32 \<le> n \<and> n < 0x10000 * 2 ^ 32 \<and> blocked4 (n - 0xffff * 2 ^ 32)"

definition blocked_address :: "Addr \<Rightarrow> bool" where
  "blocked_address a = (case a of Addr4 w \<Rightarrow> blocked4 (uint w) | Addr6 w z \<Rightarrow> blocked6 (uint w) \<or> w = 0 \<and> z = '''')"

lemma drop_bit_eq_interval:
  fixes w :: "'a::len word"
  assumes "0 \<le> c" "c < 2 ^ (LENGTH('a))" "k < LENGTH('a)"
  shows "drop_bit k w = word_of_int c \<longleftrightarrow> c * 2 ^ k \<le> uint w \<and> uint w < (c + 1) * 2 ^ k"
proof -
  have "uint (drop_bit k w) = drop_bit k (uint w)" by (simp add: unsigned_drop_bit_eq take_bit_int_eq_self)
  then have d: "uint (drop_bit k w) = uint w div 2 ^ k" by (simp only: drop_bit_eq_div)
  have "uint (word_of_int c :: 'a word) = c"
    using assms by (simp add: unsigned_of_int take_bit_int_eq_self)
  with d have "drop_bit k w = word_of_int c \<longleftrightarrow> uint w div 2 ^ k = c"
    by (simp only: word_uint_eq_iff)
  also have "\<dots> \<longleftrightarrow> c * 2 ^ k \<le> uint w \<and> uint w < (c + 1) * 2 ^ k"
  proof
    assume h: "uint w div 2 ^ k = c"
    have "uint w = c * 2 ^ k + uint w mod 2 ^ k" using h by (metis div_mult_mod_eq)
    moreover have "0 \<le> uint w mod 2 ^ k" "uint w mod 2 ^ k < 2 ^ k" by simp_all
    ultimately show "c * 2 ^ k \<le> uint w \<and> uint w < (c + 1) * 2 ^ k"
      unfolding distrib_right by linarith
  next
    assume h: "c * 2 ^ k \<le> uint w \<and> uint w < (c + 1) * 2 ^ k"
    show "uint w div 2 ^ k = c"
      by (rule int_div_pos_eq [where r = "uint w - c * 2 ^ k"]) (use h in \<open>simp_all add: algebra_simps\<close>)
  qed
  finally show ?thesis .
qed

lemma drop_bit_numeral_interval:
  fixes w :: "'a::len word"
  assumes "(numeral c :: int) < 2 ^ (LENGTH('a))" "k < LENGTH('a)"
  shows "drop_bit k w = numeral c \<longleftrightarrow> numeral c * 2 ^ k \<le> uint w \<and> uint w < (numeral c + 1) * 2 ^ k"
  using drop_bit_eq_interval [of "numeral c" k w] assms by simp

lemma drop_bit_0_interval:
  fixes w :: "'a::len word"
  assumes "k < LENGTH('a)"
  shows "drop_bit k w = 0 \<longleftrightarrow> uint w < 2 ^ k"
  using drop_bit_eq_interval [of 0 k w] assms by simp

lemma RejectBlockedAddr_4: "RejectBlockedAddr (Addr4 w) \<noteq> None \<longleftrightarrow> blocked4 (uint w)"
proof -
  have iv: "drop_bit 24 w = 127 \<longleftrightarrow> 0x7f000000 \<le> uint w \<and> uint w < 0x80000000"
    "drop_bit 24 w = 10 \<longleftrightarrow> 0x0a000000 \<le> uint w \<and> uint w < 0x0b000000"
    "drop_bit 20 w = 0xac1 \<longleftrightarrow> 0xac100000 \<le> uint w \<and> uint w < 0xac200000"
    "drop_bit 16 w = 0xc0a8 \<longleftrightarrow> 0xc0a80000 \<le> uint w \<and> uint w < 0xc0a90000"
    "drop_bit 16 w = 0xa9fe \<longleftrightarrow> 0xa9fe0000 \<le> uint w \<and> uint w < 0xa9ff0000"
    "drop_bit 8 w = 0xe00000 \<longleftrightarrow> 0xe0000000 \<le> uint w \<and> uint w < 0xe0000100"
    "drop_bit 28 w = 0xe \<longleftrightarrow> 0xe0000000 \<le> uint w \<and> uint w < 0xf0000000"
    "drop_bit 22 w = 0x191 \<longleftrightarrow> 0x64400000 \<le> uint w \<and> uint w < 0x64800000"
    "drop_bit 24 w = 0 \<longleftrightarrow> uint w < 0x01000000"
    using drop_bit_numeral_interval [where w = w] drop_bit_0_interval [of 24 w] by simp_all
  have p: "drop_bit 22 (0x64400000 :: 32 word) = 0x191" "drop_bit 24 (0 :: 32 word) = 0" by simp_all
  have z: "w = 0 \<longleftrightarrow> uint w = 0" by (simp add: unsigned_eq_0_iff)
  show ?thesis
    by (auto simp: RejectBlockedAddr_def Let_def Is4In6_def IsLoopback_def IsPrivate_def IsLinkLocalUnicast_def
        IsLinkLocalMulticast_def IsMulticast_def IsUnspecified_def inPrefix_def Prefix4_Contains_def iv p z blocked4_def)
qed

lemma RejectBlockedAddr_6: "RejectBlockedAddr (Addr6 w z) \<noteq> None \<longleftrightarrow> blocked_address (Addr6 w z)"
proof (cases "Is4In6 (Addr6 w z)")
  case True
  then have t: "drop_bit 32 w = 0xffff" by (simp add: Is4In6_def)
  then have iv: "0xffff * 2 ^ 32 \<le> uint w" "uint w < 0x10000 * 2 ^ 32"
    using drop_bit_numeral_interval [of "Num.num.Bit1 (Num.num.Bit1 (Num.num.Bit1 (Num.num.Bit1 (Num.num.Bit1 (Num.num.Bit1 (Num.num.Bit1 (Num.num.Bit1 (Num.num.Bit1 (Num.num.Bit1 (Num.num.Bit1 (Num.num.Bit1 (Num.num.Bit1 (Num.num.Bit1 (Num.num.Bit1 Num.num.One))))))))))))))" 32 w]
    by simp_all
  have low: "uint (ucast w :: 32 word) = uint w - 0xffff * 2 ^ 32"
  proof -
    have "uint (ucast w :: 32 word) = uint w mod 2 ^ 32" by (simp add: unsigned_ucast_eq take_bit_eq_mod)
    also have "\<dots> = uint w - 0xffff * 2 ^ 32"
      by (rule int_mod_pos_eq [where q = "0xffff"]) (use iv in simp_all)
    finally show ?thesis .
  qed
  have "RejectBlockedAddr (Addr6 w z) = RejectBlockedAddr (Addr4 (ucast w))"
    using True by (simp add: RejectBlockedAddr_def Unmap_def Is4In6_def)
  then have "RejectBlockedAddr (Addr6 w z) \<noteq> None \<longleftrightarrow> blocked4 (uint w - 0xffff * 2 ^ 32)"
    using RejectBlockedAddr_4 [of "ucast w"] low by simp
  moreover have "w \<noteq> 0" using iv by auto
  ultimately show ?thesis using iv by (auto simp: blocked_address_def blocked6_def)
next
  case False
  then have f: "drop_bit 32 w \<noteq> 0xffff" by (simp add: Is4In6_def)
  have iv: "drop_bit 32 w = 0xffff \<longleftrightarrow> 0xffff * 2 ^ 32 \<le> uint w \<and> uint w < 0x10000 * 2 ^ 32"
    "drop_bit 121 w = 0x7e \<longleftrightarrow> 0xfc * 2 ^ 120 \<le> uint w \<and> uint w < 0xfe * 2 ^ 120"
    "drop_bit 118 w = 0x3fa \<longleftrightarrow> 0xfe80 * 2 ^ 112 \<le> uint w \<and> uint w < 0xfec0 * 2 ^ 112"
    "drop_bit 120 w = 0xff \<longleftrightarrow> 0xff * 2 ^ 120 \<le> uint w \<and> uint w < 0x100 * 2 ^ 120"
    using drop_bit_numeral_interval [where w = w] by simp_all
  have top: "uint w < 0x100 * 2 ^ 120" using uint_bounded [of w] by simp
  have one: "w = 1 \<longleftrightarrow> uint w = 1" by (metis uint_1 word_uint_eq_iff)
  show ?thesis
    using f top
    by (auto simp: RejectBlockedAddr_def Let_def Is4In6_def IsLoopback_def IsPrivate_def IsLinkLocalUnicast_def
        IsLinkLocalMulticast_def IsMulticast_def IsUnspecified_def inPrefix_def Prefix4_Contains_def iv one
        blocked_address_def blocked6_def)
qed

text \<open>The guard refuses exactly the addresses in the intervals.\<close>

lemma RejectBlockedAddr_iff: "RejectBlockedAddr a \<noteq> None \<longleftrightarrow> blocked_address a"
  by (cases a) (simp_all only: RejectBlockedAddr_6, simp only: RejectBlockedAddr_4, simp add: blocked_address_def)

section \<open>Literal addresses\<close>

text \<open>Without a zone, an address that parses is made of hexadecimal digits, colons and dots.\<close>

definition addr_char :: "char \<Rightarrow> bool" where
  "addr_char c \<longleftrightarrow> is_hex c \<or> c = CHR '':'' \<or> c = CHR ''.''"

definition addr_shape :: "string \<Rightarrow> bool" where
  "addr_shape s \<longleftrightarrow> list_all addr_char s \<and> (s \<noteq> [] \<longrightarrow> last s \<noteq> CHR ''.'')"

lemma digit_hex: "is_digit c \<Longrightarrow> is_hex c"
  by (simp add: is_hex_def)

lemma punct_not_hex [simp]:
  "\<not> is_digit CHR ''.''" "\<not> is_hex CHR ''.''" "\<not> is_digit CHR '':''" "\<not> is_hex CHR '':''"
  by (simp_all add: is_hex_def is_digit_def byte_def)

lemma addr_char_simps [simp]:
  "addr_char CHR ''.''" "addr_char CHR '':''" "is_hex c \<Longrightarrow> addr_char c"
  by (simp_all add: addr_char_def)

lemma addr_shape_Nil [simp]: "addr_shape []"
  by (simp add: addr_shape_def)

lemma addr_shape_Cons: "addr_char c \<Longrightarrow> addr_shape s \<Longrightarrow> (s = [] \<Longrightarrow> c \<noteq> CHR ''.'') \<Longrightarrow> addr_shape (c # s)"
  by (auto simp: addr_shape_def)

lemma addr_shape_append: "addr_shape a \<Longrightarrow> addr_shape b \<Longrightarrow> addr_shape (a @ b)"
  by (cases "b = []") (auto simp: addr_shape_def)

lemma addr_shape_hex: "addr_shape (takeWhile is_hex s)"
proof -
  have h: "\<forall>c\<in>set (takeWhile is_hex s). is_hex c" by (auto dest: set_takeWhileD)
  then have "takeWhile is_hex s \<noteq> [] \<longrightarrow> is_hex (last (takeWhile is_hex s))" by (blast intro: last_in_set)
  then have "takeWhile is_hex s \<noteq> [] \<longrightarrow> last (takeWhile is_hex s) \<noteq> CHR ''.''" by (metis punct_not_hex(2))
  moreover have "list_all addr_char (takeWhile is_hex s)" using h by (simp add: list_all_iff)
  ultimately show ?thesis unfolding addr_shape_def by blast
qed

lemma ipv4_fields_shape: "ipv4_fields s v d acc = Some bs \<Longrightarrow> addr_shape s"
proof (induction s v d acc arbitrary: bs rule: ipv4_fields.induct)
  case (1 v d acc)
  then show ?case by simp
next
  case (2 c cs v d acc)
  show ?case
  proof (cases "is_digit c")
    case True
    with "2.prems" "2.IH"(1) [OF True _ refl] have "addr_shape cs" by (auto simp: Let_def split: if_splits)
    then show ?thesis using True digit_hex by (intro addr_shape_Cons) auto
  next
    case False
    with "2.prems" "2.IH"(2) show ?thesis by (intro addr_shape_Cons) (auto split: if_splits)
  qed
qed

lemma ipv6_loop_shape: "ipv6_loop k ip ell s = Some (ip', ell', []) \<Longrightarrow> addr_shape s"
proof (induction k ip ell s arbitrary: ip' ell' rule: ipv6_loop.induct)
  case (1 ip ell s)
  then show ?case by simp
next
  case (2 k ip ell s)
  let ?ds = "takeWhile is_hex s" and ?r = "dropWhile is_hex s"
  have step: "addr_shape s" if "addr_shape ?r"
    using addr_shape_append [OF addr_shape_hex [of s] that] by simp
  show ?case
  proof (cases "?r \<noteq> [] \<and> hd ?r = CHR ''.''")
    case True
    with "2.prems" obtain bs where "ipv4_fields s 0 0 [] = Some bs"
      by (auto simp: Let_def split: if_splits option.splits)
    from ipv4_fields_shape [OF this] show ?thesis .
  next
    case no_dot: False
    show ?thesis
    proof (cases ?r)
      case Nil
      then show ?thesis using step by (simp only: addr_shape_Nil)
    next
      case (Cons c s1)
      with "2.prems" no_dot have len: "?ds \<noteq> []" "\<not> length ?ds > 4" and c: "c = CHR '':''" and "s1 \<noteq> []"
        by (auto simp: Let_def split: if_splits list.splits)
      then obtain c1 s2 where s1: "s1 = c1 # s2" by (cases s1) auto
      note IH = "2.IH" [OF refl refl refl len(2,1) no_dot refl Cons]
      have "addr_shape s1"
      proof (cases "c1 = CHR '':''")
        case True
        have "addr_shape s2"
          using "2.prems" no_dot len Cons c s1 True IH(1) [OF _ s1 True] by (cases "s2 = []") (auto simp: Let_def split: if_splits)
        then show ?thesis unfolding s1 using True by (intro addr_shape_Cons) auto
      next
        case False
        then show ?thesis using "2.prems" no_dot len Cons c s1 IH(2) [OF _ s1 False] by (auto simp: Let_def split: if_splits)
      qed
      then show ?thesis using step Cons c addr_shape_Cons [of c s1] by simp
    qed
  qed
qed

lemma ipv6_expand_rest: "ipv6_expand (ip, ell, s) = Some bs \<Longrightarrow> s = []"
  by (auto simp: ipv6_expand_def split: if_splits)

lemma parseIPv6_shape:
  assumes "parseIPv6 s = Some a" "CHR ''%'' \<notin> set s"
  shows "addr_shape s"
proof -
  have p: "\<forall>c\<in>set s. c \<noteq> CHR ''%''" using assms(2) by auto
  then have tw: "takeWhile (\<lambda>c. c \<noteq> CHR ''%'') s = s" "dropWhile (\<lambda>c. c \<noteq> CHR ''%'') s = []"
    by (simp_all add: takeWhile_eq_all_conv dropWhile_eq_Nil_conv)
  show ?thesis
  proof (cases "take 2 s = ''::''")
    case True
    then have two: "s = CHR '':'' # CHR '':'' # drop 2 s" by (metis append_take_drop_id append_Cons append_Nil)
    have "addr_shape (drop 2 s)"
    proof (cases "drop 2 s = []")
      case False
      with assms(1) True obtain ip ell where "ipv6_loop 8 [] (Some 0) (drop 2 s) = Some (ip, ell, [])"
        by (auto simp: parseIPv6_def tw Let_def bind_eq_Some_conv dest: ipv6_expand_rest)
      from ipv6_loop_shape [OF this] show ?thesis .
    qed (simp only: addr_shape_Nil)
    then have "addr_shape (CHR '':'' # CHR '':'' # drop 2 s)" by (intro addr_shape_Cons) auto
    with two show ?thesis by metis
  next
    case False
    with assms(1) obtain ip ell where "ipv6_loop 8 [] None s = Some (ip, ell, [])"
      by (auto simp: parseIPv6_def tw Let_def bind_eq_Some_conv dest: ipv6_expand_rest)
    from ipv6_loop_shape [OF this] show ?thesis .
  qed
qed

lemma ParseAddr_scan_cases:
  "ParseAddr_scan s t = Some a \<Longrightarrow> parseIPv4 s = Some a \<or> parseIPv6 s = Some a"
  by (induction t) (auto split: if_splits)

lemma ParseAddr_shape:
  assumes "ParseAddr s = Some a" "CHR ''%'' \<notin> set s"
  shows "addr_shape s \<and> s \<noteq> []"
proof -
  have "s \<noteq> []" using assms(1) by (auto simp: ParseAddr_def)
  moreover from assms(1) have "parseIPv4 s = Some a \<or> parseIPv6 s = Some a"
    unfolding ParseAddr_def by (rule ParseAddr_scan_cases)
  ultimately show ?thesis
    using ipv4_fields_shape parseIPv6_shape [OF _ assms(2)] by (auto simp: parseIPv4_def)
qed

text \<open>Parsing does not look at the case of the digits.\<close>

lemma byte_lower: "byte (ascii_lower c) = (if 65 \<le> byte c \<and> byte c \<le> 90 then byte c + 32 else byte c)"
  by (simp add: ascii_lower_def)

lemma char_eq_byte: "c = d \<longleftrightarrow> byte c = byte d"
  by simp

lemma lower_simps [simp]:
  "is_digit (ascii_lower c) \<longleftrightarrow> is_digit c" "is_hex (ascii_lower c) \<longleftrightarrow> is_hex c"
  "is_digit c \<Longrightarrow> digit_value (ascii_lower c) = digit_value c"
  "is_hex c \<Longrightarrow> hex_value (ascii_lower c) = hex_value c"
  by (auto simp: is_digit_def is_hex_def digit_value_def hex_value_def byte_lower)

lemma lower_punct [simp]:
  "ascii_lower c = CHR ''.'' \<longleftrightarrow> c = CHR ''.''" "ascii_lower c = CHR '':'' \<longleftrightarrow> c = CHR '':''"
  "ascii_lower c = CHR ''%'' \<longleftrightarrow> c = CHR ''%''"
  unfolding char_eq_byte byte_lower by (auto simp: byte_def)

lemma ipv4_fields_lower: "ipv4_fields (map ascii_lower s) v d acc = ipv4_fields s v d acc"
  by (induction s v d acc rule: ipv4_fields.induct) (auto simp: Let_def)

lemma is_hex_lower: "is_hex \<circ> ascii_lower = is_hex"
  by (simp add: comp_def)

lemma takeWhile_lower:
  "takeWhile is_hex (map ascii_lower s) = map ascii_lower (takeWhile is_hex s)"
  "dropWhile is_hex (map ascii_lower s) = map ascii_lower (dropWhile is_hex s)"
  by (simp_all add: takeWhile_map dropWhile_map is_hex_lower)

lemma hex_number_lower: "list_all is_hex s \<Longrightarrow> hex_number (map ascii_lower s) = hex_number s"
proof -
  have "list_all is_hex s \<Longrightarrow> foldl (\<lambda>n c. 16 * n + hex_value c) m (map ascii_lower s)
      = foldl (\<lambda>n c. 16 * n + hex_value c) m s" for m
    by (induction s arbitrary: m) simp_all
  then show "list_all is_hex s \<Longrightarrow> hex_number (map ascii_lower s) = hex_number s"
    by (simp add: hex_number_def)
qed

abbreviation lower_rest :: "(nat list \<times> nat option \<times> string) option \<Rightarrow> (nat list \<times> nat option \<times> string) option" where
  "lower_rest \<equiv> map_option (\<lambda>(a, b, r). (a, b, map ascii_lower r))"

lemma ipv6_loop_bad_group:
  assumes "length (takeWhile is_hex s) > 4 \<or> takeWhile is_hex s = []"
  shows "ipv6_loop (Suc k) ip ell s = None"
proof (cases "takeWhile is_hex s = []")
  case True
  then show ?thesis by (simp only: ipv6_loop.simps Let_def if_True simp_thms if_cancel)
next
  case False
  with assms have "length (takeWhile is_hex s) > 4" by blast
  then show ?thesis by (simp only: ipv6_loop.simps Let_def if_True)
qed

lemma ipv6_loop_lower: "ipv6_loop k ip ell (map ascii_lower s) = lower_rest (ipv6_loop k ip ell s)"
proof (induction k ip ell s rule: ipv6_loop.induct)
  case (1 ip ell s)
  then show ?case by simp
next
  case (2 k ip ell s)
  let ?ds = "takeWhile is_hex s" and ?r = "dropWhile is_hex s"
  have h: "hex_number (map ascii_lower ?ds) = hex_number ?ds"
    by (rule hex_number_lower) (auto simp: list_all_iff dest: set_takeWhileD)
  have hd: "hd (map ascii_lower ?r) = CHR ''.'' \<longleftrightarrow> hd ?r = CHR ''.''" if "?r \<noteq> []"
    using that by (simp add: hd_map)
  show ?case
  proof (cases "length ?ds > 4 \<or> ?ds = [] \<or> ?r = [] \<or> hd ?r = CHR ''.''")
    case True
    then consider (long) "length ?ds > 4 \<or> ?ds = []" | (stop) "\<not> length ?ds > 4" "?ds \<noteq> []" "?r = []"
      | (dot) "\<not> length ?ds > 4" "?ds \<noteq> []" "?r \<noteq> []" "hd ?r = CHR ''.''" by blast
    then show ?thesis
    proof cases
      case long
      then have "ipv6_loop (Suc k) ip ell s = None" "ipv6_loop (Suc k) ip ell (map ascii_lower s) = None"
        by (simp_all only: ipv6_loop_bad_group takeWhile_lower length_map map_is_Nil_conv)
      then show ?thesis by simp
    next
      case stop
      then show ?thesis by (simp add: takeWhile_lower h Let_def del: dropWhile_eq_Nil_conv takeWhile_eq_Nil_iff)
    next
      case dot
      then obtain r1 where r: "?r = CHR ''.'' # r1" by (cases ?r) auto
      show ?thesis using dot(1,2) by (simp add: takeWhile_lower h r ipv4_fields_lower Let_def split: option.split)
    qed
  next
    case False
    then obtain c s1 where r: "?r = c # s1" by (cases ?r) auto
    have nd: "\<not> (?r \<noteq> [] \<and> hd ?r = CHR ''.'')" and len: "\<not> length ?ds > 4" "?ds \<noteq> []" and cd: "c \<noteq> CHR ''.''"
      using False r by auto
    note IH = "2.IH" [OF refl refl refl len nd refl r]
    show ?thesis
    proof (cases s1)
      case Nil
      then show ?thesis using len cd r by (simp add: takeWhile_lower Let_def)
    next
      case (Cons c1 s2)
      show ?thesis
      proof (cases "c = CHR '':''")
        case False
        then show ?thesis using len cd r Cons by (simp add: takeWhile_lower Let_def)
      next
        case True
        note IH1 = IH(1) [OF _ Cons] and IH2 = IH(2) [OF _ Cons]
        show ?thesis
        proof (cases "c1 = CHR '':''")
          case True2: True
          show ?thesis
            using len cd r Cons True True2 IH1 by (simp add: takeWhile_lower h Let_def)
        next
          case False
          then show ?thesis
            using len cd r Cons True IH2 by (simp add: takeWhile_lower h Let_def)
        qed
      qed
    qed
  qed
qed

lemma parseIPv4_lower: "parseIPv4 (map ascii_lower s) = parseIPv4 s"
  by (simp add: parseIPv4_def ipv4_fields_lower)

lemma ipv6_expand_lower: "Option.bind (lower_rest x) ipv6_expand = Option.bind x ipv6_expand"
  by (cases x) (auto simp: ipv6_expand_def)

lemma parseIPv6_lower:
  assumes "CHR ''%'' \<notin> set s"
  shows "parseIPv6 (map ascii_lower s) = parseIPv6 s"
proof -
  have p: "\<forall>c\<in>set s. c \<noteq> CHR ''%''" using assms by auto
  then have tw: "takeWhile (\<lambda>c. c \<noteq> CHR ''%'') s = s" "dropWhile (\<lambda>c. c \<noteq> CHR ''%'') s = []"
    by (simp_all add: takeWhile_eq_all_conv dropWhile_eq_Nil_conv)
  have tw2: "takeWhile (\<lambda>c. c \<noteq> CHR ''%'') (map ascii_lower s) = map ascii_lower s"
    "dropWhile (\<lambda>c. c \<noteq> CHR ''%'') (map ascii_lower s) = []"
    using p by (simp_all add: takeWhile_eq_all_conv dropWhile_eq_Nil_conv)
  have colons: "map ascii_lower t = ''::'' \<longleftrightarrow> t = ''::''" for t
    by (auto simp: map_eq_Cons_conv)
  have two: "take 2 (map ascii_lower s) = ''::'' \<longleftrightarrow> take 2 s = ''::''"
    unfolding take_map by (rule colons)
  have start: "(if take 2 s = ''::'' then ipv6_loop 8 [] (Some 0) (map ascii_lower (drop 2 s))
      else ipv6_loop 8 [] None (map ascii_lower s))
    = lower_rest (if take 2 s = ''::'' then ipv6_loop 8 [] (Some 0) (drop 2 s) else ipv6_loop 8 [] None s)"
    by (simp add: ipv6_loop_lower)
  show ?thesis
    unfolding parseIPv6_def Let_def tw tw2 two drop_map start ipv6_expand_lower map_is_Nil_conv by (rule refl)
qed

lemma ParseAddr_lower:
  assumes "CHR ''%'' \<notin> set s"
  shows "ParseAddr (map ascii_lower s) = ParseAddr s"
proof -
  have "ParseAddr_scan (map ascii_lower s) (map ascii_lower t) = ParseAddr_scan s t" for t
    by (induction t) (simp_all add: parseIPv4_lower parseIPv6_lower [OF assms])
  then show ?thesis by (simp add: ParseAddr_def)
qed

lemma addr_char_visible: "addr_char c \<Longrightarrow> visible c"
  by (auto simp: addr_char_def visible_def is_hex_def is_digit_def byte_def)

lemma normalized_addr_shape:
  assumes "addr_shape s"
  shows "normalized_host u s = map ascii_lower s"
proof -
  have v: "list_all visible s"
    using assms addr_char_visible by (auto simp: addr_shape_def list_all_iff)
  then have a: "is_ascii s" by (auto simp: list_all_iff is_ascii_def visible_def)
  have "\<not> suffix ''.'' (map ascii_lower s)"
  proof
    assume "suffix ''.'' (map ascii_lower s)"
    then have "map ascii_lower s \<noteq> []" "last (map ascii_lower s) = CHR ''.''" by (auto simp: suffix_def)
    then show False using assms by (simp add: addr_shape_def last_map)
  qed
  then show ?thesis by (simp add: normalized_host_def TrimSpace_visible [OF v] ToLower_ascii [OF a] TrimSuffix_def)
qed

lemma RejectBlockedHost_literal:
  assumes "ParseAddr host = Some a" "CHR ''%'' \<notin> set host" "RejectBlockedHost u host = None"
  shows "\<not> blocked_address a"
proof -
  have sh: "addr_shape host" "host \<noteq> []" using ParseAddr_shape [OF assms(1,2)] by auto
  have "RejectBlockedAddr a = None"
    using assms sh by (auto simp: RejectBlockedHost_def Let_def normalized_addr_shape ParseAddr_lower split: if_splits)
  then show ?thesis using RejectBlockedAddr_iff by blast
qed

lemma reject_any_None_iff: "reject_any addrs = None \<longleftrightarrow> (\<forall>a\<in>set addrs. \<not> blocked_address a)"
  by (induction addrs) (simp_all add: RejectBlockedAddr_iff [symmetric] split: option.split)

lemma RejectBlockedAddr_error: "RejectBlockedAddr a = Some err \<Longrightarrow> errors_Is err ErrBlockedTarget"
  by (auto simp: RejectBlockedAddr_def blocked_def Let_def split: if_splits)

lemma RejectBlockedHost_error: "RejectBlockedHost u host = Some err \<Longrightarrow> errors_Is err ErrBlockedTarget"
  by (auto simp: RejectBlockedHost_def blocked_def Let_def split: if_splits option.splits dest: RejectBlockedAddr_error)

text \<open>What is dialled: the literal itself, or the first answer of the resolver when none is blocked.\<close>

lemma ResolvePublicAddress_cases:
  assumes "ResolvePublicAddress u lookup address w = (Inr target, w')"
  obtains (literal) host port a where "SplitHostPort address = Some (host, port)" "ParseAddr host = Some a"
      "RejectBlockedHost u host = None" "target = JoinHostPort (Addr_String a) port" "w' = w"
    | (looked_up) host port addrs where "SplitHostPort address = Some (host, port)" "ParseAddr host = None"
      "RejectBlockedHost u host = None" "lookup host w = (Inr addrs, w')" "addrs \<noteq> []"
      "\<forall>a\<in>set addrs. \<not> blocked_address a" "target = JoinHostPort (Addr_String (hd addrs)) port"
  using assms
  by (auto simp: ResolvePublicAddress_def reject_any_None_iff split: option.splits prod.splits sum.splits if_splits)

text \<open>An address with a percent sign is an IPv6 address with a zone.\<close>

lemma parseIPv6_zone:
  assumes "parseIPv6 s = Some a" "CHR ''%'' \<in> set s"
  shows "\<exists>v z. a = Addr6 v z \<and> z \<noteq> [] \<and> suffix z s"
proof -
  let ?r = "dropWhile (\<lambda>c. c \<noteq> CHR ''%'') s"
  have r: "?r \<noteq> []" using assms(2) by (auto simp: dropWhile_eq_Nil_conv)
  have sf: "suffix (tl ?r) s"
    by (metis suffix_dropWhile suffix_order.trans suffix_tl)
  have t: "tl ?r \<noteq> []" and "\<exists>v. a = Addr6 v (tl ?r)"
    using assms(1) r by (auto simp: parseIPv6_def Let_def split: if_splits)
  with sf show ?thesis by blast
qed

lemma ParseAddr_zone:
  assumes "ParseAddr s = Some a" "CHR ''%'' \<in> set s"
  shows "\<exists>v z. a = Addr6 v z \<and> z \<noteq> [] \<and> suffix z s"
proof -
  have "parseIPv4 s \<noteq> Some a"
  proof
    assume "parseIPv4 s = Some a"
    then have "addr_shape s" using ipv4_fields_shape by (auto simp: parseIPv4_def)
    then have "addr_char (CHR ''%'')" using assms(2) by (auto simp: addr_shape_def list_all_iff)
    then show False by (simp add: addr_char_def is_hex_def is_digit_def byte_def)
  qed
  with assms(1) have "parseIPv6 s = Some a"
    unfolding ParseAddr_def by (blast dest: ParseAddr_scan_cases)
  from parseIPv6_zone [OF this assms(2)] show ?thesis .
qed

text \<open>Only an IPv6 address with a zone can be blocked and yet come out of \<open>ResolvePublicAddress\<close>.\<close>

definition zoned :: "Addr \<Rightarrow> bool" where
  "zoned a = (case a of Addr4 w \<Rightarrow> False | Addr6 w z \<Rightarrow> z \<noteq> [])"

lemma ResolvePublicAddress_public:
  assumes "ResolvePublicAddress u lookup address w = (Inr target, w')"
  shows "\<exists>host port a. SplitHostPort address = Some (host, port)
      \<and> target = JoinHostPort (Addr_String a) port
      \<and> (\<not> blocked_address a \<or> zoned a \<and> ParseAddr host = Some a)"
  using assms
proof (cases rule: ResolvePublicAddress_cases)
  case (literal host port a)
  then have "\<not> blocked_address a \<or> zoned a"
    using RejectBlockedHost_literal [of host a u] ParseAddr_zone [of host a]
    by (cases "CHR ''%'' \<in> set host") (auto simp: zoned_def)
  with literal show ?thesis by blast
next
  case (looked_up host port addrs)
  then have "\<not> blocked_address (hd addrs)" by simp
  then show ?thesis using looked_up by blast
qed

end
