(* ===== verification/Validation.thy ===== *)
theory Validation
  imports Notification_Types Go_Url Go_Json Netguard Delivery_Http
begin

text \<open>
  \<^verbatim>\<open>internal/notification/validation.go\<close>: the normalisation and the checks of a producer's
  request. The case tables of Unicode are a parameter; the URL parser and the JSON scanner are the
  models of the standard library.
\<close>

section \<open>ValidateCreateRequest\<close>

definition defaultMethod :: string where
  "defaultMethod = ''POST''"

definition defaultMaxAttempts :: int where
  "defaultMaxAttempts = 5"

definition maxBodyBytes :: int where
  "maxBodyBytes = 256 * 1024"

definition allowedMethods :: "string list" where
  "allowedMethods = [''POST'', ''PUT'', ''PATCH'']"

definition invalid :: "string \<Rightarrow> goerror" where
  "invalid what = ErrWrap [] (Sentinel ErrInvalid) ('': '' @ what)"

text \<open>
  The loop of \<^verbatim>\<open>validHeaderName\<close> is over runes; a byte below 128 is a rune of its own, and no rune
  above 127 is refused.
\<close>

definition bad_name_byte :: "char \<Rightarrow> bool" where
  "bad_name_byte c \<longleftrightarrow>
     byte c \<le> 31 \<or> byte c = 127 \<or> c \<in> set ''()<>@,;:/[]?={}'' \<or> c = CHR 92 \<or> c = CHR 34
     \<or> c = CHR '' '' \<or> byte c = 9"

definition validHeaderName :: "string \<Rightarrow> bool" where
  "validHeaderName name \<longleftrightarrow> TrimSpace name \<noteq> '''' \<and> \<not> list_ex bad_name_byte name"

fun check_headers :: "(string \<times> string) list \<Rightarrow> goerror option" where
  "check_headers [] = None"
| "check_headers ((key, val) # kvs) =
     (if \<not> validHeaderName key then Some (invalid (''invalid header name '' @ Quote key))
      else if ContainsAny val [CHR 13, CHR 10] then Some (invalid (''invalid header value for '' @ Quote key))
      else check_headers kvs)"

definition validate_method :: "unicode \<Rightarrow> string \<Rightarrow> goerror + string" where
  "validate_method u m =
     (let m1 = ToUpper u (TrimSpace m);
          m2 = (if m1 = '''' then defaultMethod else m1)
      in if m2 \<notin> set allowedMethods then Inl (invalid (''unsupported method '' @ Quote m2)) else Inr m2)"

definition validate_url :: "unicode \<Rightarrow> string \<Rightarrow> goerror + string" where
  "validate_url u s =
     (case ParseRequestURI (TrimSpace s) of
        None \<Rightarrow> Inl (invalid ''url must be absolute'')
      | Some parsed \<Rightarrow>
          if url_Host parsed = '''' then Inl (invalid ''url must be absolute'')
          else if url_Scheme parsed \<noteq> ''http'' \<and> url_Scheme parsed \<noteq> ''https''
          then Inl (invalid ''url scheme must be http or https'')
          else (case RejectBlockedHost u (url_Hostname parsed) of
                  Some err \<Rightarrow> Inl (invalid (error_text err))
                | None \<Rightarrow> Inr (url_String parsed)))"

definition validate_rest :: "CreateRequest \<Rightarrow> goerror + CreateRequest" where
  "validate_rest req =
     (let n = (if cr_MaxAttempts req = 0 then defaultMaxAttempts else cr_MaxAttempts req) in
      if n < 1 \<or> n > 20 then Inl (invalid ''max_attempts must be between 1 and 20'')
      else if int (length (cr_Body req)) > maxBodyBytes
      then Inl (invalid (''body exceeds '' @ Itoa maxBodyBytes @ '' bytes''))
      else if length (cr_Body req) > 0 \<and> \<not> json_Valid (cr_Body req)
      then Inl (invalid ''body must be valid JSON'')
      else
        let hs = (case cr_Headers req of None \<Rightarrow> [] | Some kvs \<Rightarrow> kvs) in
        (case check_headers hs of
           Some err \<Rightarrow> Inl err
         | None \<Rightarrow> Inr (req\<lparr>cr_MaxAttempts := n, cr_Headers := Some hs\<rparr>)))"

definition ValidateCreateRequest :: "unicode \<Rightarrow> CreateRequest \<Rightarrow> goerror + CreateRequest" where
  "ValidateCreateRequest u req =
     (case validate_method u (cr_Method req) of
        Inl err \<Rightarrow> Inl err
      | Inr m \<Rightarrow>
          (case validate_url u (cr_URL req) of
             Inl err \<Rightarrow> Inl err
           | Inr url \<Rightarrow> validate_rest (req\<lparr>cr_Method := m, cr_URL := url\<rparr>)))"

section \<open>What an accepted request satisfies\<close>

definition header_ok :: "string \<times> string \<Rightarrow> bool" where
  "header_ok kv \<longleftrightarrow> validHeaderName (fst kv) \<and> CHR 13 \<notin> set (snd kv) \<and> CHR 10 \<notin> set (snd kv)"

definition request_ok :: "CreateRequest \<Rightarrow> bool" where
  "request_ok req \<longleftrightarrow>
     cr_Method req \<in> {''POST'', ''PUT'', ''PATCH''}
     \<and> 1 \<le> cr_MaxAttempts req \<and> cr_MaxAttempts req \<le> 20
     \<and> length (cr_Body req) \<le> 262144
     \<and> (cr_Body req = [] \<or> json_Valid (cr_Body req))
     \<and> (\<exists>kvs. cr_Headers req = Some kvs \<and> list_all header_ok kvs)"

lemma invalid_Is [simp]: "errors_Is (invalid what) ErrInvalid"
  by (simp add: invalid_def)

lemma check_headers_None_iff: "check_headers kvs = None \<longleftrightarrow> list_all header_ok kvs"
  by (induction kvs rule: check_headers.induct) (auto simp: header_ok_def ContainsAny_def)

lemma check_headers_error: "check_headers kvs = Some err \<Longrightarrow> errors_Is err ErrInvalid"
  by (induction kvs rule: check_headers.induct) (auto split: if_splits)

lemma validate_method_cases:
  "case validate_method u m of Inl err \<Rightarrow> errors_Is err ErrInvalid | Inr m' \<Rightarrow> m' \<in> {''POST'', ''PUT'', ''PATCH''}"
  by (auto simp: validate_method_def Let_def allowedMethods_def)

lemma validate_url_Inl: "validate_url u s = Inl err \<Longrightarrow> errors_Is err ErrInvalid"
  by (auto simp: validate_url_def split: option.splits if_splits)

lemma validate_url_Inr:
  assumes "validate_url u s = Inr url"
  obtains parsed where "ParseRequestURI (TrimSpace s) = Some parsed" "url_Host parsed \<noteq> ''''"
    "url_Scheme parsed \<in> {''http'', ''https''}" "RejectBlockedHost u (url_Hostname parsed) = None"
    "url = url_String parsed"
  using assms by (auto simp: validate_url_def split: option.splits if_splits)

lemma validate_rest_Inl: "validate_rest req = Inl err \<Longrightarrow> errors_Is err ErrInvalid"
  by (auto simp: validate_rest_def Let_def check_headers_error split: if_splits option.splits)

lemma validate_rest_Inr:
  assumes "validate_rest req = Inr req'" "cr_Method req \<in> {''POST'', ''PUT'', ''PATCH''}"
  shows "request_ok req' \<and> cr_Method req' = cr_Method req \<and> cr_URL req' = cr_URL req \<and> cr_Body req' = cr_Body req"
  using assms
  by (auto simp: validate_rest_def Let_def request_ok_def check_headers_None_iff maxBodyBytes_def
      defaultMaxAttempts_def split: if_splits option.splits)

lemma ValidateCreateRequest_outcome:
  "case ValidateCreateRequest u req of
     Inl err \<Rightarrow> errors_Is err ErrInvalid
   | Inr req' \<Rightarrow> request_ok req' \<and> cr_Body req' = cr_Body req
       \<and> (\<exists>parsed. ParseRequestURI (TrimSpace (cr_URL req)) = Some parsed \<and> url_Host parsed \<noteq> ''''
            \<and> url_Scheme parsed \<in> {''http'', ''https''}
            \<and> RejectBlockedHost u (url_Hostname parsed) = None
            \<and> cr_URL req' = url_String parsed)"
proof (cases "validate_method u (cr_Method req)")
  case (Inl err)
  then show ?thesis using validate_method_cases [of u "cr_Method req"] by (simp add: ValidateCreateRequest_def)
next
  case m: (Inr m)
  show ?thesis
  proof (cases "validate_url u (cr_URL req)")
    case (Inl err)
    then show ?thesis using m validate_url_Inl [OF Inl] by (simp add: ValidateCreateRequest_def)
  next
    case url: (Inr url)
    let ?req = "req\<lparr>cr_Method := m, cr_URL := url\<rparr>"
    have V: "ValidateCreateRequest u req = validate_rest ?req" by (simp add: ValidateCreateRequest_def m url)
    show ?thesis
    proof (cases "validate_rest ?req")
      case (Inl err)
      then show ?thesis using V validate_rest_Inl [OF Inl] by simp
    next
      case (Inr req')
      have "request_ok req' \<and> cr_Method req' = m \<and> cr_URL req' = url \<and> cr_Body req' = cr_Body req"
        using validate_rest_Inr [OF Inr] validate_method_cases [of u "cr_Method req"] m by auto
      with V Inr url show ?thesis by (auto elim!: validate_url_Inr)
    qed
  qed
qed

section \<open>Header names and tokens\<close>

text \<open>On ASCII text the check of a name is the token rule that \<^verbatim>\<open>net/http\<close> applies when it sends.\<close>

definition name_codes :: "int list" where
  "name_codes = [40, 41, 60, 62, 64, 44, 59, 58, 47, 91, 93, 63, 61, 123, 125, 92, 34, 32]"

definition token_codes :: "int list" where
  "token_codes = [33, 35, 36, 37, 38, 42, 43, 45, 46, 94, 95, 124, 126, 39, 96]"

lemma code_tables:
  "list_all (\<lambda>n. (n \<le> 31 \<or> n = 127 \<or> n \<in> set name_codes)
     \<longleftrightarrow> \<not> (48 \<le> n \<and> n \<le> 57 \<or> 65 \<le> n \<and> n \<le> 90 \<or> 97 \<le> n \<and> n \<le> 122 \<or> n \<in> set token_codes)) [0..127]"
  by code_simp

lemma bad_name_byte_codes: "bad_name_byte c \<longleftrightarrow> (int (byte c) \<le> 31 \<or> int (byte c) = 127 \<or> int (byte c) \<in> set name_codes)"
  unfolding bad_name_byte_def char_eq_byte name_codes_def by (auto simp: char_eq_byte byte_def)

lemma is_token_codes:
  "is_token c \<longleftrightarrow> (48 \<le> int (byte c) \<and> int (byte c) \<le> 57 \<or> 65 \<le> int (byte c) \<and> int (byte c) \<le> 90
     \<or> 97 \<le> int (byte c) \<and> int (byte c) \<le> 122 \<or> int (byte c) \<in> set token_codes)"
  unfolding is_token_def is_digit_def token_codes_def by (auto simp: char_eq_byte byte_def)

lemma bad_name_byte_token: "byte c < 128 \<Longrightarrow> bad_name_byte c \<longleftrightarrow> \<not> is_token c"
  unfolding bad_name_byte_codes is_token_codes
  using code_tables [unfolded list_all_iff, rule_format, of "int (byte c)"] by simp

lemma is_token_visible: "is_token c \<Longrightarrow> visible c"
  by (auto simp: is_token_def visible_def is_digit_def byte_def)

lemma validHeaderName_ascii:
  assumes "is_ascii name"
  shows "validHeaderName name \<longleftrightarrow> name \<noteq> '''' \<and> list_all is_token name"
proof -
  have eq: "\<not> list_ex bad_name_byte name \<longleftrightarrow> list_all is_token name"
    using assms bad_name_byte_token by (auto simp: list_ex_iff list_all_iff is_ascii_def)
  have "TrimSpace name = name" if "list_all is_token name"
    using that is_token_visible by (intro TrimSpace_visible) (auto simp: list_all_iff)
  then show ?thesis unfolding validHeaderName_def eq by auto
qed

end
