(* ===== verification/Notification_Service.thy ===== *)
theory Notification_Service
  imports Validation Repository_Views
begin

text \<open>
  \<^verbatim>\<open>internal/notification/service.go\<close>: the application service over the \<^verbatim>\<open>Repository\<close> interface,
  and the interface's implementation by the ORM repository.
\<close>

record 'w Repository =
  rp_CreateNotification :: "CreateRequest \<Rightarrow> 'w \<Rightarrow> (goerror + ApiNotification) \<times> 'w"
  rp_GetNotification :: "uuid \<Rightarrow> 'w \<Rightarrow> (goerror + ApiNotification) \<times> 'w"
  rp_ListDeliveryAttempts :: "uuid \<Rightarrow> 'w \<Rightarrow> (goerror + ApiDeliveryAttempt list) \<times> 'w"
  rp_RetryFailedNotification :: "uuid \<Rightarrow> 'w \<Rightarrow> (goerror + ApiNotification) \<times> 'w"

record 'w Service =
  sv_repo :: "'w Repository"

definition NewService :: "'w Repository \<Rightarrow> 'w Service" where
  "NewService repo = \<lparr>sv_repo = repo\<rparr>"

definition Service_Create :: "unicode \<Rightarrow> 'w Service \<Rightarrow> CreateRequest \<Rightarrow> 'w \<Rightarrow> (goerror + ApiNotification) \<times> 'w" where
  "Service_Create u s req w =
     (case ValidateCreateRequest u req of
        Inl err \<Rightarrow> (Inl err, w)
      | Inr normalized \<Rightarrow> rp_CreateNotification (sv_repo s) normalized w)"

definition Service_Get :: "'w Service \<Rightarrow> uuid \<Rightarrow> 'w \<Rightarrow> (goerror + ApiNotification) \<times> 'w" where
  "Service_Get s nid w = rp_GetNotification (sv_repo s) nid w"

definition Service_ListAttempts :: "'w Service \<Rightarrow> uuid \<Rightarrow> 'w \<Rightarrow> (goerror + ApiDeliveryAttempt list) \<times> 'w" where
  "Service_ListAttempts s nid w = rp_ListDeliveryAttempts (sv_repo s) nid w"

definition Service_RetryFailed :: "'w Service \<Rightarrow> uuid \<Rightarrow> 'w \<Rightarrow> (goerror + ApiNotification) \<times> 'w" where
  "Service_RetryFailed s nid w = rp_RetryFailedNotification (sv_repo s) nid w"

text \<open>\<^verbatim>\<open>*EntRepository\<close> as a \<^verbatim>\<open>Repository\<close>.\<close>

definition ent_repository :: "'w EntRepository \<Rightarrow> 'w Repository" where
  "ent_repository r =
     \<lparr>rp_CreateNotification = CreateNotification r, rp_GetNotification = GetNotification r,
      rp_ListDeliveryAttempts = ListDeliveryAttempts r, rp_RetryFailedNotification = RetryFailedNotification r\<rparr>"

text \<open>The service as \<^verbatim>\<open>cmd/api\<close> builds it over a database.\<close>

definition ent_service :: "'w db \<Rightarrow> 'w Service" where
  "ent_service db = NewService (ent_repository (NewEntRepository db))"

lemma ent_service_calls [simp]:
  "Service_Get (ent_service db) = GetNotification (NewEntRepository db)"
  "Service_ListAttempts (ent_service db) = ListDeliveryAttempts (NewEntRepository db)"
  "Service_RetryFailed (ent_service db) = RetryFailedNotification (NewEntRepository db)"
  by (auto simp: fun_eq_iff Service_Get_def Service_ListAttempts_def Service_RetryFailed_def ent_service_def
      NewService_def ent_repository_def)

context database
begin

text \<open>What the service stores has passed the checks.\<close>

lemma Service_Create_effect:
  assumes "tables_wf (tabs w)" "snap w = None" "Service_Create u (ent_service db) req w = (res, w')"
  shows "snap w' = None \<and>
    (tabs w' = tabs w \<and> isl res
     \<or> (\<exists>req' nid r. ValidateCreateRequest u req = Inr req' \<and> create_post req' nid r (tabs w) (tabs w')
          \<and> (\<forall>n. res = Inr n \<longrightarrow> n = mapEntNotification (Notification_of_row r))))"
proof (cases "ValidateCreateRequest u req")
  case (Inl err)
  then show ?thesis using assms(2,3) by (auto simp: Service_Create_def)
next
  case (Inr req')
  have c: "CreateNotification (NewEntRepository db) req' w = (res, w')"
    using assms(3) Inr by (simp add: Service_Create_def ent_service_def NewService_def ent_repository_def)
  show ?thesis using CreateNotification_effect [OF assms(2) c] Inr by auto
qed

lemma Service_Create_error:
  assumes "Service_Create u (ent_service db) req w = (Inl err, w')" "ValidateCreateRequest u req = Inl e"
  shows "err = e \<and> w' = w"
  using assms by (simp add: Service_Create_def)

end

end
