(* ===== verification/Api_Router.thy ===== *)
theory Api_Router
  imports Notification_Service
begin

text \<open>
  \<^verbatim>\<open>internal/api/router.go\<close>: the routes and their handlers. Matching a request against the routes,
  binding a JSON payload and writing JSON are gin's work: a handler gets the bound payload (\<open>None\<close>
  when binding fails) and the \<open>id\<close> of the path, and returns the status code with the value that is
  rendered. \<^verbatim>\<open>uuid.Parse\<close> is a parameter.
\<close>

section \<open>Handlers\<close>

datatype Body =
    BodyStatus string
  | BodyError string
  | BodyNotification ApiNotification
  | BodyAttempts "ApiDeliveryAttempt list"

record Response =
  hr_Code :: int
  hr_Body :: Body

record GinRequest =
  gq_JSON :: "CreateRequest option"
  gq_ID :: string

definition JSON :: "int \<Rightarrow> Body \<Rightarrow> Response" where
  "JSON code body = \<lparr>hr_Code = code, hr_Body = body\<rparr>"

record 'w notificationService =
  ns_Create :: "CreateRequest \<Rightarrow> 'w \<Rightarrow> (goerror + ApiNotification) \<times> 'w"
  ns_Get :: "uuid \<Rightarrow> 'w \<Rightarrow> (goerror + ApiNotification) \<times> 'w"
  ns_ListAttempts :: "uuid \<Rightarrow> 'w \<Rightarrow> (goerror + ApiDeliveryAttempt list) \<times> 'w"
  ns_RetryFailed :: "uuid \<Rightarrow> 'w \<Rightarrow> (goerror + ApiNotification) \<times> 'w"

definition service_interface :: "unicode \<Rightarrow> 'w Service \<Rightarrow> 'w notificationService" where
  "service_interface u s =
     \<lparr>ns_Create = Service_Create u s, ns_Get = Service_Get s, ns_ListAttempts = Service_ListAttempts s,
      ns_RetryFailed = Service_RetryFailed s\<rparr>"

definition writeError :: "goerror \<Rightarrow> Response" where
  "writeError err =
     (if errors_Is err ErrInvalid then JSON 400 (BodyError (error_text err))
      else if errors_Is err ErrNotFound then JSON 404 (BodyError (error_text err))
      else if errors_Is err ErrConflict then JSON 409 (BodyError (error_text err))
      else JSON 500 (BodyError ''internal server error''))"

definition parseID :: "(string \<Rightarrow> uuid option) \<Rightarrow> GinRequest \<Rightarrow> Response + uuid" where
  "parseID uuid_Parse c =
     (case uuid_Parse (gq_ID c) of
        None \<Rightarrow> Inl (JSON 400 (BodyError ''invalid notification id''))
      | Some nid \<Rightarrow> Inr nid)"

definition createNotification :: "unicode \<Rightarrow> 'w notificationService \<Rightarrow> GinRequest \<Rightarrow> 'w \<Rightarrow> Response \<times> 'w" where
  "createNotification u service c w =
     (case gq_JSON c of
        None \<Rightarrow> (JSON 400 (BodyError ''invalid JSON payload''), w)
      | Some req \<Rightarrow>
          (case ValidateCreateRequest u req of
             Inl err \<Rightarrow> (writeError err, w)
           | Inr normalized \<Rightarrow>
               (case ns_Create service normalized w of
                  (Inl err, w1) \<Rightarrow> (writeError err, w1)
                | (Inr created, w1) \<Rightarrow> (JSON 202 (BodyNotification created), w1))))"

definition getNotification ::
    "(string \<Rightarrow> uuid option) \<Rightarrow> 'w notificationService \<Rightarrow> GinRequest \<Rightarrow> 'w \<Rightarrow> Response \<times> 'w" where
  "getNotification uuid_Parse service c w =
     (case parseID uuid_Parse c of
        Inl resp \<Rightarrow> (resp, w)
      | Inr nid \<Rightarrow>
          (case ns_Get service nid w of
             (Inl err, w1) \<Rightarrow> (writeError err, w1)
           | (Inr got, w1) \<Rightarrow> (JSON 200 (BodyNotification got), w1)))"

definition listAttempts ::
    "(string \<Rightarrow> uuid option) \<Rightarrow> 'w notificationService \<Rightarrow> GinRequest \<Rightarrow> 'w \<Rightarrow> Response \<times> 'w" where
  "listAttempts uuid_Parse service c w =
     (case parseID uuid_Parse c of
        Inl resp \<Rightarrow> (resp, w)
      | Inr nid \<Rightarrow>
          (case ns_ListAttempts service nid w of
             (Inl err, w1) \<Rightarrow> (writeError err, w1)
           | (Inr attempts, w1) \<Rightarrow> (JSON 200 (BodyAttempts attempts), w1)))"

definition retryNotification ::
    "(string \<Rightarrow> uuid option) \<Rightarrow> 'w notificationService \<Rightarrow> GinRequest \<Rightarrow> 'w \<Rightarrow> Response \<times> 'w" where
  "retryNotification uuid_Parse service c w =
     (case parseID uuid_Parse c of
        Inl resp \<Rightarrow> (resp, w)
      | Inr nid \<Rightarrow>
          (case ns_RetryFailed service nid w of
             (Inl err, w1) \<Rightarrow> (writeError err, w1)
           | (Inr got, w1) \<Rightarrow> (JSON 202 (BodyNotification got), w1)))"

definition healthz :: "GinRequest \<Rightarrow> 'w \<Rightarrow> Response \<times> 'w" where
  "healthz c w = (JSON 200 (BodyStatus ''ok''), w)"

definition readyz :: "('w \<Rightarrow> goerror option \<times> 'w) option \<Rightarrow> GinRequest \<Rightarrow> 'w \<Rightarrow> Response \<times> 'w" where
  "readyz ready c w =
     (case ready of
        None \<Rightarrow> (JSON 200 (BodyStatus ''ready''), w)
      | Some f \<Rightarrow>
          (case f w of
             (Some err, w1) \<Rightarrow> (JSON 503 (BodyStatus ''not ready''), w1)
           | (None, w1) \<Rightarrow> (JSON 200 (BodyStatus ''ready''), w1)))"

section \<open>Routes\<close>

record 'w Route =
  rt_Method :: string
  rt_Path :: string
  rt_Handler :: "GinRequest \<Rightarrow> 'w \<Rightarrow> Response \<times> 'w"

definition NewRouterWithReadiness ::
    "unicode \<Rightarrow> (string \<Rightarrow> uuid option) \<Rightarrow> 'w notificationService \<Rightarrow> ('w \<Rightarrow> goerror option \<times> 'w) option \<Rightarrow> 'w Route list" where
  "NewRouterWithReadiness u uuid_Parse service ready =
     [\<lparr>rt_Method = ''GET'', rt_Path = ''/healthz'', rt_Handler = healthz\<rparr>,
      \<lparr>rt_Method = ''GET'', rt_Path = ''/readyz'', rt_Handler = readyz ready\<rparr>,
      \<lparr>rt_Method = ''POST'', rt_Path = ''/notifications'', rt_Handler = createNotification u service\<rparr>,
      \<lparr>rt_Method = ''GET'', rt_Path = ''/notifications/:id'', rt_Handler = getNotification uuid_Parse service\<rparr>,
      \<lparr>rt_Method = ''GET'', rt_Path = ''/notifications/:id/attempts'', rt_Handler = listAttempts uuid_Parse service\<rparr>,
      \<lparr>rt_Method = ''POST'', rt_Path = ''/notifications/:id/retry'', rt_Handler = retryNotification uuid_Parse service\<rparr>]"

definition NewRouter :: "unicode \<Rightarrow> (string \<Rightarrow> uuid option) \<Rightarrow> 'w notificationService \<Rightarrow> 'w Route list" where
  "NewRouter u uuid_Parse service = NewRouterWithReadiness u uuid_Parse service None"

text \<open>The readiness check of \<^verbatim>\<open>cmd/api\<close>: the database, then Redis.\<close>

definition api_ready :: "('w \<Rightarrow> goerror option \<times> 'w) \<Rightarrow> ('w \<Rightarrow> goerror option \<times> 'w) \<Rightarrow> 'w \<Rightarrow> goerror option \<times> 'w" where
  "api_ready db_Ping redis_Ping w =
     (case db_Ping w of
        (Some err, w1) \<Rightarrow> (Some err, w1)
      | (None, w1) \<Rightarrow> redis_Ping w1)"

section \<open>Status codes\<close>

lemma JSON_sel [simp]: "hr_Code (JSON code body) = code" "hr_Body (JSON code body) = body"
  by (simp_all add: JSON_def)

text \<open>The code tells the class of the error, and an unclassified error is not shown.\<close>

lemma writeError_code:
  "hr_Code (writeError err) =
     (if errors_Is err ErrInvalid then 400 else if errors_Is err ErrNotFound then 404
      else if errors_Is err ErrConflict then 409 else 500)"
  by (simp add: writeError_def)

lemma writeError_range: "hr_Code (writeError err) \<in> {400, 404, 409, 500}"
  by (simp add: writeError_code)

lemma writeError_hides:
  "hr_Code (writeError err) = 500 \<Longrightarrow> hr_Body (writeError err) = BodyError ''internal server error''"
  by (simp add: writeError_def split: if_splits)

context database
begin

abbreviation api where
  "api u \<equiv> service_interface u (ent_service db)"

lemma createNotification_effect:
  assumes "tables_wf (tabs w)" "snap w = None" "createNotification u (api u) c w = (resp, w')"
  shows "snap w' = None \<and>
    (tabs w' = tabs w \<and> hr_Code resp \<in> {400, 404, 409, 500}
     \<or> (\<exists>req req1 req2 nid r. gq_JSON c = Some req \<and> ValidateCreateRequest u req = Inr req1
          \<and> ValidateCreateRequest u req1 = Inr req2 \<and> create_post req2 nid r (tabs w) (tabs w')
          \<and> (hr_Code resp = 202 \<and> hr_Body resp = BodyNotification (mapEntNotification (Notification_of_row r))
             \<or> hr_Code resp \<in> {400, 404, 409, 500})))"
proof (cases "gq_JSON c")
  case None
  then show ?thesis using assms by (auto simp: createNotification_def)
next
  case (Some req)
  show ?thesis
  proof (cases "ValidateCreateRequest u req")
    case (Inl err)
    then show ?thesis using assms Some writeError_range [of err] by (auto simp: createNotification_def)
  next
    case (Inr req1)
    obtain res w1 where s: "Service_Create u (ent_service db) req1 w = (res, w1)" by (metis prod.exhaust)
    have resp: "(resp, w') = (case res of Inl err \<Rightarrow> (writeError err, w1)
        | Inr n \<Rightarrow> (JSON 202 (BodyNotification n), w1))"
      using assms(3) Some Inr s by (simp add: createNotification_def service_interface_def split: sum.splits)
    then have w1: "w' = w1" by (auto split: sum.splits)
    have codes: "isl res \<Longrightarrow> hr_Code resp \<in> {400, 404, 409, 500}"
      using resp writeError_range by (auto split: sum.splits)
    from Service_Create_effect [OF assms(1,2) s] show ?thesis
    proof (elim conjE disjE)
      assume "snap w1 = None" "tabs w1 = tabs w" "isl res"
      then show ?thesis using codes w1 by blast
    next
      assume snap: "snap w1 = None" and ex: "\<exists>req' nid r. ValidateCreateRequest u req1 = Inr req' \<and> create_post req' nid r (tabs w) (tabs w1)
          \<and> (\<forall>n. res = Inr n \<longrightarrow> n = mapEntNotification (Notification_of_row r))"
      then obtain req2 nid r where e: "ValidateCreateRequest u req1 = Inr req2" "create_post req2 nid r (tabs w) (tabs w')"
        "\<forall>n. res = Inr n \<longrightarrow> n = mapEntNotification (Notification_of_row r)" using w1 by blast
      have "hr_Code resp = 202 \<and> hr_Body resp = BodyNotification (mapEntNotification (Notification_of_row r))
          \<or> hr_Code resp \<in> {400, 404, 409, 500}"
        using resp e(3) codes by (cases res) auto
      with Some Inr e snap w1 show ?thesis by blast
    qed
  qed
qed

lemma getNotification_effect:
  assumes "tables_wf (tabs w)" "getNotification uuid_Parse (api u) c w = (resp, w')"
  shows "tabs w' = tabs w \<and> snap w' = snap w \<and>
    (case uuid_Parse (gq_ID c) of
       None \<Rightarrow> hr_Code resp = 400 \<and> w' = w
     | Some nid \<Rightarrow>
         (case find_row Table_notifications nid (tabs w) of
            None \<Rightarrow> hr_Code resp = 404
          | Some r \<Rightarrow> hr_Code resp = 200 \<and> hr_Body resp = BodyNotification (mapEntNotification (Notification_of_row r)))
         \<or> (\<exists>e q. QueryNodes db q w = (Inl e, w') \<and> resp = writeError (mapEntError e)))"
proof (cases "uuid_Parse (gq_ID c)")
  case None
  then show ?thesis using assms by (auto simp: getNotification_def parseID_def)
next
  case (Some nid)
  obtain got w1 where g: "GetNotification (NewEntRepository db) nid w = (got, w1)" by (metis prod.exhaust)
  have "(resp, w') = (case got of Inl err \<Rightarrow> (writeError err, w1) | Inr n \<Rightarrow> (JSON 200 (BodyNotification n), w1))"
    using assms(2) Some g by (simp add: getNotification_def parseID_def service_interface_def split: sum.splits)
  then have w1: "w' = w1" and r: "resp = (case got of Inl err \<Rightarrow> writeError err | Inr n \<Rightarrow> JSON 200 (BodyNotification n))"
    by (auto split: sum.splits)
  from GetNotification_effect [OF assms(1) g] show ?thesis
    unfolding w1 r Some by (auto simp: writeError_code split: option.splits)
qed

lemma retryNotification_effect:
  assumes "tables_wf (tabs w)" "snap w = None" "retryNotification uuid_Parse (api u) c w = (resp, w')"
  shows "snap w' = None \<and>
    (tabs w' = tabs w \<and> hr_Code resp \<in> {400, 404, 409, 500}
     \<or> (\<exists>nid. uuid_Parse (gq_ID c) = Some nid \<and> retry_post nid (tabs w) (tabs w')
          \<and> hr_Code resp \<in> {202, 400, 404, 409, 500}))"
proof (cases "uuid_Parse (gq_ID c)")
  case None
  then show ?thesis using assms by (auto simp: retryNotification_def parseID_def)
next
  case (Some nid)
  obtain got w1 where g: "RetryFailedNotification (NewEntRepository db) nid w = (got, w1)" by (metis prod.exhaust)
  have "(resp, w') = (case got of Inl err \<Rightarrow> (writeError err, w1) | Inr n \<Rightarrow> (JSON 202 (BodyNotification n), w1))"
    using assms(3) Some g by (simp add: retryNotification_def parseID_def service_interface_def split: sum.splits)
  then have w1: "w' = w1" and r: "resp = (case got of Inl err \<Rightarrow> writeError err | Inr n \<Rightarrow> JSON 202 (BodyNotification n))"
    by (auto split: sum.splits)
  have codes: "isl got \<Longrightarrow> hr_Code resp \<in> {400, 404, 409, 500}" "hr_Code resp \<in> {202, 400, 404, 409, 500}"
    using writeError_range by (auto simp: r split: sum.splits)
  from RetryFailed_effect [OF assms(1,2) g] show ?thesis
    using codes w1 Some by blast
qed

end

end
