(* ===== verification/System_Program.thy ===== *)
theory System_Program
  imports System_Worker Api_Router
begin

text \<open>
  The relay and the API in the environment of \<open>System_Worker\<close>, and runs of the whole program: any
  sequence of API requests, relay passes and worker passes is a sequence of steps of
  \<open>System_Machine\<close>, so no work is lost.
\<close>

section \<open>Frames of the API's operations\<close>

context framed_database
begin

lemma Notification_Save_frame:
  "NotificationCreate_Save db (notification_create req) w = (r, w') \<Longrightarrow> frame w' = frame w"
  by (auto simp: NotificationCreate_Save_def notification_defaults NotificationCreate_sqlSave_def
      split: prod.splits sum.splits option.splits dest!: call_frames)

lemma Create_frame: "CreateNotification repo req w = (r, w') \<Longrightarrow> frame w' = frame w"
  by (auto simp: CreateNotification_def Client_Tx_def newTx_def Tx_Commit_def
      split: prod.splits sum.splits option.splits
      dest!: call_frames Notification_Save_frame Outbox_Save_frame deferred_frame)

lemma GetNotification_frame: "GetNotification repo nid w = (r, w') \<Longrightarrow> frame w' = frame w"
  by (auto simp: GetNotification_def split: prod.splits sum.splits dest: Get_frame)

lemma GetNotification_frame_snd [simp]: "frame (snd (GetNotification repo nid w)) = frame w"
  by (rule GetNotification_frame [of nid w "fst (GetNotification repo nid w)"]) simp

lemma retry_update_fresh: "nm_updated_at (retry_update nid) = None"
  using retry_update_cas by (auto simp: cas_update_def)

lemma RetryFailed_frame: "RetryFailedNotification repo nid w = (r, w') \<Longrightarrow> frame w' = frame w"
  by (auto simp: RetryFailedNotification_def Client_Tx_def newTx_def Tx_Commit_def
      split: prod.splits sum.splits option.splits if_splits
      dest!: call_frames Get_frame GetNotification_frame Update_Save_frame [OF retry_update_fresh] Outbox_Save_frame
        deferred_frame)

lemma Attempts_frame: "DeliveryAttemptQuery_All db q w = (r, w') \<Longrightarrow> frame w' = frame w"
  by (auto simp: DeliveryAttemptQuery_All_def DeliveryAttemptQuery_sqlAll_def Let_def
      split: prod.splits sum.splits option.splits list.splits dest!: call_frames)

lemma ListAttempts_frame: "ListDeliveryAttempts repo nid w = (r, w') \<Longrightarrow> frame w' = frame w"
  by (auto simp: ListDeliveryAttempts_def split: prod.splits sum.splits dest: Attempts_frame)

end

section \<open>Runs of the program\<close>

text \<open>\<^verbatim>\<open>uuid.Parse\<close>, once as the API and once as the message parser look at it.\<close>

definition parsed_id :: "(string \<Rightarrow> goerror + uuid) \<Rightarrow> string \<Rightarrow> uuid option" where
  "parsed_id uuid_Parse s = (case uuid_Parse s of Inl e \<Rightarrow> None | Inr i \<Rightarrow> Some i)"

text \<open>
  One operation of one of the three programs: an API request, a relay pass, or what a worker does
  with its stream and group.
\<close>

inductive program_step ::
    "'w db \<Rightarrow> 'w HTTPDispatcher \<Rightarrow> 'w redis \<Rightarrow> 'w sqldb \<Rightarrow> (uuid \<Rightarrow> string) \<Rightarrow> (string \<Rightarrow> goerror + uuid)
      \<Rightarrow> unicode \<Rightarrow> RetryPolicy \<Rightarrow> string \<Rightarrow> string \<Rightarrow> 'w \<Rightarrow> 'w \<Rightarrow> bool"
  for db :: "'w db" and disp :: "'w HTTPDispatcher" and rd :: "'w redis" and sq :: "'w sqldb"
    and uuid_String :: "uuid \<Rightarrow> string" and uuid_Parse :: "string \<Rightarrow> goerror + uuid"
    and u :: unicode and pol :: RetryPolicy and sname :: string and gname :: string
where
  api_create: "createNotification u (service_interface u (ent_service db)) c w = (resp, w') \<Longrightarrow>
     program_step db disp rd sq uuid_String uuid_Parse u pol sname gname w w'"
| api_get: "getNotification (parsed_id uuid_Parse) (service_interface u (ent_service db)) c w = (resp, w') \<Longrightarrow>
     program_step db disp rd sq uuid_String uuid_Parse u pol sname gname w w'"
| api_retry: "retryNotification (parsed_id uuid_Parse) (service_interface u (ent_service db)) c w = (resp, w') \<Longrightarrow>
     program_step db disp rd sq uuid_String uuid_Parse u pol sname gname w w'"
| relay_pass: "PublishDue (pg_relay sq uuid_String rd sname host) w = (r, w') \<Longrightarrow>
     program_step db disp rd sq uuid_String uuid_Parse u pol sname gname w w'"
| worker_start: "EnsureGroup (NewConsumer rd sname gname name (Process (ent_worker db disp pol))) w = (r, w') \<Longrightarrow>
     program_step db disp rd sq uuid_String uuid_Parse u pol sname gname w w'"
| worker_claim: "ClaimAndProcess uuid_Parse (NewConsumer rd sname gname name (Process (ent_worker db disp pol))) idle n w = Some (r, w') \<Longrightarrow>
     program_step db disp rd sq uuid_String uuid_Parse u pol sname gname w w'"
| worker_read: "ReadAndProcess uuid_Parse (NewConsumer rd sname gname name (Process (ent_worker db disp pol))) n block w = (r, w') \<Longrightarrow>
     program_step db disp rd sq uuid_String uuid_Parse u pol sname gname w w'"

inductive_cases program_stepE: "program_step db disp rd sq uuid_String uuid_Parse u pol sname gname w w'"

inductive program_run ::
    "'w db \<Rightarrow> 'w HTTPDispatcher \<Rightarrow> 'w redis \<Rightarrow> 'w sqldb \<Rightarrow> (uuid \<Rightarrow> string) \<Rightarrow> (string \<Rightarrow> goerror + uuid)
      \<Rightarrow> unicode \<Rightarrow> RetryPolicy \<Rightarrow> string \<Rightarrow> string \<Rightarrow> 'w \<Rightarrow> 'w \<Rightarrow> bool"
  for db :: "'w db" and disp :: "'w HTTPDispatcher" and rd :: "'w redis" and sq :: "'w sqldb"
    and uuid_String :: "uuid \<Rightarrow> string" and uuid_Parse :: "string \<Rightarrow> goerror + uuid"
    and u :: unicode and pol :: RetryPolicy and sname :: string and gname :: string
where
  no_step: "program_run db disp rd sq uuid_String uuid_Parse u pol sname gname w w"
| next_step: "program_run db disp rd sq uuid_String uuid_Parse u pol sname gname w w' \<Longrightarrow>
     program_step db disp rd sq uuid_String uuid_Parse u pol sname gname w' w'' \<Longrightarrow>
     program_run db disp rd sq uuid_String uuid_Parse u pol sname gname w w''"

text \<open>The stream and the group that the names select (\<^verbatim>\<open>NewPublisher\<close>, \<^verbatim>\<open>NewConsumer\<close>).\<close>

definition stream_of :: "string \<Rightarrow> string" where
  "stream_of sname = (if sname = '''' then DefaultStream else sname)"

definition group_of :: "string \<Rightarrow> string" where
  "group_of gname = (if gname = '''' then DefaultGroup else gname)"

section \<open>The API and the relay move by steps\<close>

context delivery_system
begin

lemma api_moves:
  assumes fr: "(entries w', handed w', pending w') = (entries w, handed w, pending w)"
    and eff: "sound w \<Longrightarrow> snap w' = None \<and> (tabs w' = tabs w
       \<or> (\<exists>req nid r. create_post req nid r (tabs w) (tabs w')) \<or> (\<exists>nid. retry_post nid (tabs w) (tabs w')))"
  shows "moves w w'"
proof (rule moves_tables [OF _ fr])
  assume w: "sound w"
  note wf = soundD(1) [OF w]
  from eff [OF w] wf create_post_effect [OF wf] retry_post_effect [OF wf]
  show "tables_wf (tabs w') \<and> snap w' = None" by metis
  fix L A S
  from eff [OF w] create_post_step [OF wf] retry_post_step [OF wf]
  show "tabs w' = tabs w \<or> sys_step (tables_sys (tabs w) L A S) (tables_sys (tabs w') L A S)" by blast
qed

lemma createNotification_moves:
  assumes "createNotification u (api u) c w = (resp, w')"
  shows "moves w w'"
proof (rule api_moves)
  show "(entries w', handed w', pending w') = (entries w, handed w, pending w)"
    using assms
    by (auto simp: createNotification_def service_interface_def Service_Create_def ent_service_def NewService_def
        ent_repository_def split: option.splits sum.splits prod.splits dest!: rf.Create_frame)
  assume w: "sound w"
  from createNotification_effect [OF soundD(1) [OF w] soundD(2) [OF w] assms]
  show "snap w' = None \<and> (tabs w' = tabs w \<or> (\<exists>req nid r. create_post req nid r (tabs w) (tabs w'))
      \<or> (\<exists>nid. retry_post nid (tabs w) (tabs w')))" by blast
qed

lemma retryNotification_moves:
  assumes "retryNotification p (api u) c w = (resp, w')"
  shows "moves w w'"
proof (rule api_moves)
  show "(entries w', handed w', pending w') = (entries w, handed w, pending w)"
    using assms
    by (auto simp: retryNotification_def parseID_def service_interface_def split: option.splits sum.splits prod.splits
        dest!: rf.RetryFailed_frame)
  assume w: "sound w"
  from retryNotification_effect [OF soundD(1) [OF w] soundD(2) [OF w] assms]
  show "snap w' = None \<and> (tabs w' = tabs w \<or> (\<exists>req nid r. create_post req nid r (tabs w) (tabs w'))
      \<or> (\<exists>nid. retry_post nid (tabs w) (tabs w')))" by blast
qed

lemma getNotification_moves:
  assumes "getNotification p (api u) c w = (resp, w')"
  shows "moves w w'"
proof (rule api_moves)
  show "(entries w', handed w', pending w') = (entries w, handed w, pending w)"
    using assms
    by (auto simp: getNotification_def parseID_def service_interface_def split: option.splits sum.splits prod.splits
        dest!: rf.GetNotification_frame)
  assume w: "sound w"
  from getNotification_effect [OF soundD(1) [OF w] assms] w
  show "snap w' = None \<and> (tabs w' = tabs w \<or> (\<exists>req nid r. create_post req nid r (tabs w) (tabs w'))
      \<or> (\<exists>nid. retry_post nid (tabs w) (tabs w')))" by (simp add: sound_def)
qed

text \<open>An event that the relay holds in its hands is in the table, with the same notification and type.\<close>

definition known :: "'w \<Rightarrow> Event \<Rightarrow> bool" where
  "known w ev \<longleftrightarrow> (\<exists>v. event_views (tabs w) (ev_ID ev) = Some v \<and> ew_of v ev)"

lemma sql_moves:
  assumes fr: "sound w \<Longrightarrow> (entries w', handed w', pending w', snap w') = (entries w, handed w, pending w, snap w)"
    and wf: "sound w \<Longrightarrow> tables_wf (tabs w')"
    and step: "\<And>S. sound w \<Longrightarrow> tabs w' = tabs w \<or> sys_step (sys S w)
           (tables_sys (tabs w') (stream_log uuid_Parse (entries w st)) (stream_acked w) S)"
  shows "moves w w'"
  unfolding moves_def
proof (intro impI conjI allI)
  assume w: "sound w"
  have e: "entries w' = entries w" "handed w' = handed w" "pending w' = pending w" "snap w' = snap w" using fr [OF w] by auto
  show "sound w'" using w wf by (simp add: sound_def streams_wf_def e)
  fix S
  have "sys S w' = tables_sys (tabs w') (stream_log uuid_Parse (entries w st)) (stream_acked w) S"
    by (rule sys_same_redis) (simp add: e)
  with step [OF w, of S] have "sys S w' = sys S w \<or> sys_step (sys S w) (sys S w')"
    by (auto simp: sys_def)
  then show "\<exists>S'. sys_steps (sys S w) (sys S' w')" by (metis sys_steps.refl sys_steps_one)
qed

lemma ClaimDue_moves:
  assumes "PgClaimDue sq n lk w = (res, w')"
  shows "moves w w'" and "sound w \<Longrightarrow> res = Inr evs \<Longrightarrow> ev \<in> set evs \<Longrightarrow> known w' ev"
proof -
  let ?n = "if n \<le> 0 then 50 else n" and ?now = "server_now w"
  have eff: "(entries w', handed w', pending w', snap w') = (entries w, handed w, pending w, snap w) \<and>
    ((\<exists>e. res = Inl e) \<and> tabs w' = tabs w
     \<or> (\<exists>rs. claims (claim_query ?n ?now) (claim_set lk ?now) (tabs w) rs (tabs w')
         \<and> ((\<exists>e. res = Inl e) \<or> res = Inr (map event_of_row rs))))" if "sound w"
    by (rule sq.Claim_effect [OF soundD(1) [OF that] assms])
  show "moves w w'"
  proof (rule sql_moves)
    assume w: "sound w"
    note wf = soundD(1) [OF w]
    from eff [OF w] show "(entries w', handed w', pending w', snap w') = (entries w, handed w, pending w, snap w)" by blast
    from eff [OF w] claims_effect(1) [OF wf] wf show "tables_wf (tabs w')" by metis
    fix S
    from eff [OF w] claims_step [OF wf]
    show "tabs w' = tabs w \<or> sys_step (sys S w)
           (tables_sys (tabs w') (stream_log uuid_Parse (entries w st)) (stream_acked w) S)"
      unfolding sys_def by blast
  qed
  assume w: "sound w" and r: "res = Inr evs" "ev \<in> set evs"
  from eff [OF w] r(1) obtain rs where rs: "claims (claim_query ?n ?now) (claim_set lk ?now) (tabs w) rs (tabs w')"
    "evs = map event_of_row rs" by auto
  note cv = claims_views [OF soundD(1) [OF w] rs(1)]
  have "ev_ID ev \<in> ev_ID ` set (map event_of_row rs)" using r(2) rs(2) by auto
  from cv(2) [OF this] obtain v' where "event_views (tabs w') (ev_ID ev) = Some v'" by blast
  with cv(4) [of ev v'] r(2) rs(2) show "known w' ev" by (auto simp: known_def)
qed

text \<open>Finishing or releasing an event, for the message that is in the stream.\<close>

lemma Mark_moves:
  assumes "PgMarkPublished sq i x lk w = (r, w')"
    and "\<And>v. event_views (tabs w) i = Some v \<Longrightarrow> (ew_message i v, x) \<in> set (stream_log uuid_Parse (entries w st))"
  shows "moves w w'" "sound w \<Longrightarrow> known w ev \<Longrightarrow> known w' ev" "entries w' = entries w \<or> \<not> sound w"
proof -
  have eff: "(entries w', handed w', pending w', snap w') = (entries w, handed w, pending w, snap w) \<and>
    (tabs w' = tabs w \<and> r \<noteq> None
     \<or> held i lk (tabs w) \<and> (\<exists>tm. tabs w' = set_row Table_outbox_events i (published_row x tm) (tabs w)))" if "sound w"
    by (rule sq.Mark_effect [OF soundD(1) [OF that] assms(1)])
  show "moves w w'"
  proof (rule sql_moves)
    assume w: "sound w"
    note wf = soundD(1) [OF w]
    from eff [OF w] show "(entries w', handed w', pending w', snap w') = (entries w, handed w, pending w, snap w)" by blast
    from eff [OF w] wf set_event_wf [OF wf, of "published_row x _"] outbox_rows_typed(2) show "tables_wf (tabs w')" by auto
    fix S
    show "tabs w' = tabs w \<or> sys_step (sys S w)
           (tables_sys (tabs w') (stream_log uuid_Parse (entries w st)) (stream_acked w) S)"
      using eff [OF w] published_step [of i lk "tabs w" x "stream_log uuid_Parse (entries w st)" "stream_acked w" S] assms(2)
      by (elim conjE disjE exE) (simp_all add: sys_def)
  qed
  show "known w' ev" if w: "sound w" "known w ev"
    using eff [OF w(1)] w(2) by (auto simp: known_def event_views_set_row ew_of_def dest!: held_view)
  show "entries w' = entries w \<or> \<not> sound w" using eff by auto
qed

lemma Release_moves:
  assumes "PgMarkFailed sq i m lk w = (r, w')"
  shows "moves w w'" "sound w \<Longrightarrow> known w ev \<Longrightarrow> known w' ev"
proof -
  have eff: "(entries w', handed w', pending w', snap w') = (entries w, handed w, pending w, snap w) \<and>
    (tabs w' = tabs w \<and> r \<noteq> None
     \<or> held i lk (tabs w) \<and> (\<exists>tm. tabs w' = set_row Table_outbox_events i (released_row m tm) (tabs w)))" if "sound w"
    by (rule sq.Release_effect [OF soundD(1) [OF that] assms])
  show "moves w w'"
  proof (rule sql_moves)
    assume w: "sound w"
    note wf = soundD(1) [OF w]
    from eff [OF w] show "(entries w', handed w', pending w', snap w') = (entries w, handed w, pending w, snap w)" by blast
    from eff [OF w] wf set_event_wf [OF wf, of "released_row m _"] outbox_rows_typed(3) show "tables_wf (tabs w')" by auto
    fix S
    show "tabs w' = tabs w \<or> sys_step (sys S w)
           (tables_sys (tabs w') (stream_log uuid_Parse (entries w st)) (stream_acked w) S)"
      using eff [OF w] released_step [of i lk "tabs w" "stream_log uuid_Parse (entries w st)" "stream_acked w" S m]
      by (elim conjE disjE exE) (simp_all add: sys_def)
  qed
  show "known w' ev" if w: "sound w" "known w ev"
    using eff [OF w(1)] w(2) by (auto simp: known_def event_views_set_row ew_of_def dest!: held_view)
qed

text \<open>Publishing a known event appends its message, under a new identifier.\<close>

lemma publish_moves:
  assumes "XAdd rd st (BuildDeliveryMessage uuid_String ev) w = (sid, w')" "known w ev"
  shows "moves w w'" "tabs w' = tabs w"
    "sid = Inr x \<Longrightarrow> (delivery_message ev, x) \<in> set (stream_log uuid_Parse (entries w' st))"
proof -
  from add_served [OF assms(1)] have e: "tabs w' = tabs w" "snap w' = snap w" "handed w' = handed w" "pending w' = pending w"
    by auto
  let ?vs = "BuildDeliveryMessage uuid_String ev"
  from add_served [OF assms(1)] consider (refused) y where "sid = Inl y" "entries w' = entries w"
    | (added) i where "i \<notin> fst ` set (entries w st)" "entries w' = (entries w)(st := entries w st @ [(i, ?vs)])"
        "sid = Inr i \<or> (\<exists>e. sid = Inl e)" by auto
  note cases = this
  from assms(2) obtain v where v: "event_views (tabs w) (ev_ID ev) = Some v" "ew_of v ev" by (auto simp: known_def)
  show "moves w w'"
    using cases
  proof cases
    case refused
    then show ?thesis by (intro quiet_moves) (simp_all add: e)
  next
    case added
    have "sound w' \<and> sys_steps (sys S w) (sys S w')" if w: "sound w" for S
    proof -
      have "handed w st grp \<subseteq> fst ` set (entries w st)" using soundD(3) [OF w] by (simp add: streams_wf_def)
      then have h: "i \<notin> handed w st grp" using added(1) by blast
      have a: "stream_acked w' = stream_acked w" using h by (auto simp: stream_acked_def e added(2))
      have l: "stream_log uuid_Parse (entries w' st) = stream_log uuid_Parse (entries w st) @ [(ew_message (ev_ID ev) v, i)]"
        unfolding added(2) fun_upd_same ew_message_of [OF v(2)] by (rule stream_log_snoc [OF Parse_Build])
      have "sys_step (sys S w) ((sys S w)\<lparr>sy_log := sy_log (sys S w) @ [(ew_message (ev_ID ev) v, i)]\<rparr>)"
        by (rule sys_step.publish) (use v h in \<open>simp_all add: sys_def stream_acked_def\<close>)
      moreover have "(sys S w)\<lparr>sy_log := sy_log (sys S w) @ [(ew_message (ev_ID ev) v, i)]\<rparr> = sys S w'"
        by (simp add: sys_def tables_sys_def e a l)
      ultimately have "sys_steps (sys S w) (sys S w')" by (simp add: sys_steps_one)
      moreover have "sound w'" by (rule sound_rest [OF w e(1,2) add_wf [OF soundD(3) [OF w] assms(1)]])
      ultimately show ?thesis by blast
    qed
    then show ?thesis by (auto simp: moves_def)
  qed
  show "tabs w' = tabs w" by (rule e)
  show "(delivery_message ev, x) \<in> set (stream_log uuid_Parse (entries w' st))" if "sid = Inr x"
    using cases
  proof cases
    case refused
    with that show ?thesis by simp
  next
    case added
    then have "stream_log uuid_Parse (entries w' st) = stream_log uuid_Parse (entries w st) @ [(delivery_message ev, i)]"
      by (simp add: stream_log_snoc [OF Parse_Build])
    with added(3) that show ?thesis by simp
  qed
qed

abbreviation relay_of :: "string \<Rightarrow> string \<Rightarrow> 'w Relay" where
  "relay_of sname host \<equiv> pg_relay sq uuid_String rd sname host"

lemma relay_of_sel [simp]:
  "ClaimDue (re_store (relay_of sname host)) = PgClaimDue sq"
  "MarkPublished (re_store (relay_of sname host)) = PgMarkPublished sq"
  "MarkFailed (re_store (relay_of sname host)) = PgMarkFailed sq"
  "Publish (re_publisher (relay_of sname host)) ev = XAdd rd (stream_of sname) (BuildDeliveryMessage uuid_String ev)"
  by (simp_all add: pg_relay_def NewRelay_def NewPostgresStore_def Let_def StreamPublish_def NewPublisher_def stream_of_def
      fun_eq_iff)

lemma moves_sound: "moves w w' \<Longrightarrow> sound w \<Longrightarrow> sound w'"
  by (rule movesD(1))

lemma publish_events_moves:
  assumes "st = stream_of sname" "sound w" "\<forall>ev\<in>set evs. known w ev"
    and "publish_events (relay_of sname host) evs w = (r, w')"
  shows "moves w w'"
  using assms(2-4)
proof (induction evs arbitrary: w)
  case Nil
  then show ?case using moves_same [of w w] by simp
next
  case (Cons ev evs)
  let ?lk = "rc_LockerID (re_config (relay_of sname host))"
  obtain sid w1 where p: "XAdd rd st (BuildDeliveryMessage uuid_String ev) w = (sid, w1)"
    by (cases "XAdd rd st (BuildDeliveryMessage uuid_String ev) w")
  have kev: "known w ev" using Cons.prems(2) by simp
  note pm = publish_moves [OF p kev]
  have k1: "known w1 e" if "known w e" for e using that pm(2) by (simp add: known_def)
  have s1: "sound w1" by (rule moves_sound [OF pm(1) Cons.prems(1)])
  let ?mark = "case sid of Inl e \<Rightarrow> PgMarkFailed sq (ev_ID ev) (error_text e) ?lk w1
      | Inr x \<Rightarrow> PgMarkPublished sq (ev_ID ev) x ?lk w1"
  obtain m w2 where mk: "?mark = (m, w2)" by (cases ?mark)
  have m2: "moves w1 w2 \<and> (\<forall>e. known w1 e \<longrightarrow> known w2 e)"
  proof (cases sid)
    case (Inl e)
    with mk have "PgMarkFailed sq (ev_ID ev) (error_text e) ?lk w1 = (m, w2)" by simp
    from Release_moves [OF this] s1 show ?thesis by blast
  next
    case (Inr x)
    with mk have f: "PgMarkPublished sq (ev_ID ev) x ?lk w1 = (m, w2)" by simp
    have "(ew_message (ev_ID ev) v, x) \<in> set (stream_log uuid_Parse (entries w1 st))"
      if "event_views (tabs w1) (ev_ID ev) = Some v" for v
      using that kev pm(2) pm(3) [OF Inr] by (auto simp: known_def ew_message_of)
    from Mark_moves [OF f this] s1 show ?thesis by blast
  qed
  have run: "publish_events (relay_of sname host) (ev # evs) w =
      (case m of Some e \<Rightarrow> (Some e, w2) | None \<Rightarrow> publish_events (relay_of sname host) evs w2)"
    using p mk assms(1) by (cases sid; cases m) auto
  have w2: "moves w w2" using moves_trans [OF pm(1)] m2 by blast
  show ?case
  proof (cases m)
    case (Some e)
    with run Cons.prems(3) w2 show ?thesis by simp
  next
    case None
    have "moves w2 w'"
      by (rule Cons.IH) (use moves_sound m2 s1 k1 Cons.prems(2,3) run None in auto)
    then show ?thesis using w2 moves_trans by blast
  qed
qed

lemma PublishDue_moves:
  assumes "st = stream_of sname" "PublishDue (relay_of sname host) w = (r, w')"
  shows "moves w w'"
proof (cases "sound w")
  case False
  then show ?thesis by (simp add: moves_def)
next
  case True
  let ?n = "rc_BatchSize (re_config (relay_of sname host))" and ?lk = "rc_LockerID (re_config (relay_of sname host))"
  obtain res w1 where c: "PgClaimDue sq ?n ?lk w = (res, w1)" by (cases "PgClaimDue sq ?n ?lk w")
  note cm = ClaimDue_moves [OF c]
  show ?thesis
  proof (cases res)
    case (Inl e)
    with assms(2) c cm(1) show ?thesis by (simp add: PublishDue_def)
  next
    case (Inr evs)
    with assms(2) c have "publish_events (relay_of sname host) evs w1 = (r, w')" by (simp add: PublishDue_def)
    from publish_events_moves [OF assms(1) moves_sound [OF cm(1) True] _ this] cm(2) [OF True Inr] moves_trans [OF cm(1)]
    show ?thesis by blast
  qed
qed

section \<open>No work is lost\<close>

abbreviation program_steps where
  "program_steps u sname gname \<equiv> program_run db disp rd sq uuid_String uuid_Parse u pol sname gname"

lemma program_step_moves:
  assumes "st = stream_of sname" "grp = group_of gname"
    and "program_step db disp rd sq uuid_String uuid_Parse u pol sname gname w w'"
  shows "moves w w'"
proof -
  have c: "stream_worker (NewConsumer rd sname gname name (Process (ent_worker db disp pol)))" for name
    using assms(1,2) by (simp add: NewConsumer_def stream_of_def group_of_def)
  from assms(3) show ?thesis
    by (cases rule: program_step.cases)
       (auto dest: createNotification_moves getNotification_moves retryNotification_moves PublishDue_moves [OF assms(1)]
          EnsureGroup_moves [OF conjunct1 [OF c]] ClaimAndProcess_moves [OF c] ReadAndProcess_moves [OF c])
qed

lemma program_run_moves:
  assumes "program_steps u sname gname w w'" "st = stream_of sname" "grp = group_of gname"
  shows "moves w w'"
  using assms
proof (induction rule: program_run.induct)
  case (no_step w)
  show ?case using moves_same [of w w] by simp
next
  case (next_step w w' w'')
  then show ?case using program_step_moves moves_trans by blast
qed

text \<open>From an empty system, a due task always has an open event or an unacknowledged message.\<close>

lemma run_covered:
  assumes "program_steps u sname gname w w'" "st = stream_of sname" "grp = group_of gname"
    and "tabs w = (\<lambda>_. [])" "snap w = None" "groups_wf (entries w) (handed w) (pending w)" "entries w st = []"
  shows "tables_wf (tabs w') \<and> groups_wf (entries w') (handed w') (pending w')
    \<and> (\<exists>S. sys_reachable (sys S w'))
    \<and> work_covered (task_views (tabs w')) (event_views (tabs w')) (stream_log uuid_Parse (entries w' st)) (stream_acked w')"
proof -
  have s: "sound w"
    using assms(4-6) by (simp add: sound_def streams_wf_groups tables_wf_def table_wf_def)
  have i: "sys {} w = sys_init"
    using assms(4,7) by (simp add: sys_def tables_sys_def sys_init_def task_views_def event_views_def find_row_def
        stream_log_def stream_acked_def List.map_filter_def fun_eq_iff)
  note m = movesD [OF program_run_moves [OF assms(1-3)] s]
  from m(2) [of "{}"] obtain S where S: "sys_steps sys_init (sys S w')" unfolding i using sys_ok_init by blast
  then have "sys_reachable (sys S w')" by (simp add: sys_reachable_def)
  moreover from reachable_covered [OF this]
  have "work_covered (task_views (tabs w')) (event_views (tabs w')) (stream_log uuid_Parse (entries w' st)) (stream_acked w')"
    by (simp add: sys_def)
  ultimately show ?thesis using m(1) by (auto simp: sound_def streams_wf_groups)
qed

end

lemma stream_log_ids: "(m, i) \<in> set (stream_log p es) \<Longrightarrow> i \<in> fst ` set es"
  by (force simp: stream_log_def List.map_filter_def split: sum.splits)

lemma covered_handed:
  assumes "work_covered T E (stream_log p es) {i \<in> A. i \<in> fst ` set es}"
  shows "work_covered T E (stream_log p es) A"
  unfolding work_covered_def
proof (intro allI impI)
  fix nid v assume v: "T nid = Some v" "startable v"
  from assms [unfolded work_covered_def, rule_format, OF v] obtain e x where
    ex: "E e = Some x \<and> ew_NotificationID x = nid
      \<and> (ew_open x \<or> (\<exists>i. (ew_message e x, i) \<in> set (stream_log p es) \<and> i \<notin> {i \<in> A. i \<in> fst ` set es}))"
    by (elim exE)
  note e = conjunct1 [OF ex] conjunct1 [OF conjunct2 [OF ex]] and o = conjunct2 [OF conjunct2 [OF ex]]
  have m: "(\<exists>i. (ew_message e x, i) \<in> set (stream_log p es) \<and> i \<notin> A)"
    if "(ew_message e x, i) \<in> set (stream_log p es)" "i \<notin> {i \<in> A. i \<in> fst ` set es}" for i
    using that stream_log_ids [OF that(1)] by blast
  have "ew_open x \<or> (\<exists>i. (ew_message e x, i) \<in> set (stream_log p es) \<and> i \<notin> A)"
    using o m by (elim disjE exE conjE) simp_all
  with e show "\<exists>e x. E e = Some x \<and> ew_NotificationID x = nid
      \<and> (ew_open x \<or> (\<exists>i. (ew_message e x, i) \<in> set (stream_log p es) \<and> i \<notin> A))" by blast
qed

text \<open>The statement for any system, with the acknowledged entries written out.\<close>

lemma no_lost_work:
  assumes sy: "delivery_system db tabs snap calls disp rd entries handed pending id_key uuid_Parse sq server_now uuid_String"
    and run: "program_run db disp rd sq uuid_String uuid_Parse u pol sname gname w w'"
    and init: "tabs w = (\<lambda>_. [])" "snap w = None" "groups_wf (entries w) (handed w) (pending w)" "entries w (stream_of sname) = []"
  shows "tables_wf (tabs w') \<and> groups_wf (entries w') (handed w') (pending w')
    \<and> work_covered (task_views (tabs w')) (event_views (tabs w'))
         (stream_log uuid_Parse (entries w' (stream_of sname)))
         (handed w' (stream_of sname) (group_of gname) - pending w' (stream_of sname) (group_of gname))"
proof -
  note c = delivery_system.run_covered [OF sy run HOL.refl HOL.refl init]
  from c have "work_covered (task_views (tabs w')) (event_views (tabs w'))
         (stream_log uuid_Parse (entries w' (stream_of sname)))
         {i \<in> handed w' (stream_of sname) (group_of gname) - pending w' (stream_of sname) (group_of gname).
            i \<in> fst ` set (entries w' (stream_of sname))}"
    by (simp add: delivery_system.stream_acked_def [OF sy])
  with c show ?thesis by (simp add: covered_handed)
qed

end
