(* ===== verification/Cluster.thy ===== *)
theory Cluster
  imports Worker_System Outbox_Env
begin

text \<open>
  A concrete world for all parameters: the in-memory database with its script of outcomes, a
  stream server whose commands may be refused or lose their answer, and the HTTP client of
  \<open>Worker_Env\<close>. Every interface of the development is interpreted on the operations of the
  program over this world.
\<close>

record cluster = world +
  rs_entries :: "string \<Rightarrow> (string \<times> fields) list"
  rs_handed :: "string \<Rightarrow> string \<Rightarrow> string list"
  rs_pending :: "string \<Rightarrow> string \<Rightarrow> string list"
  rs_net :: "outcome choices"

section \<open>Rows can be compared\<close>

definition all_columns :: "column list" where
  "all_columns =
     [FieldID, FieldURL, FieldMethod, FieldHeaders, FieldBody, FieldStatus, FieldAttemptCount, FieldMaxAttempts,
      FieldLastError, FieldNextAttemptAt, FieldCreatedAt, FieldUpdatedAt, FieldNotificationID, FieldAttemptNumber, FieldHTTPStatus, FieldErrorMessage,
      FieldDurationMs, FieldEventType, FieldScheduledAt, FieldStreamID, FieldLockedBy, FieldLockedAt, FieldPublishedAt]"

lemma all_columns_complete: "c \<in> set all_columns"
  by (cases c) (simp_all add: all_columns_def)

instantiation column :: enum
begin

definition enum_column :: "column list" where "enum_column = all_columns"
definition enum_all_column :: "(column \<Rightarrow> bool) \<Rightarrow> bool" where "enum_all_column P = list_all P all_columns"
definition enum_ex_column :: "(column \<Rightarrow> bool) \<Rightarrow> bool" where "enum_ex_column P = list_ex P all_columns"

instance
proof
  show "(UNIV :: column set) = set enum_class.enum"
    using all_columns_complete by (auto simp: enum_column_def)
  show "distinct (enum_class.enum :: column list)"
    by (simp add: enum_column_def all_columns_def)
  show "enum_class.enum_all P \<longleftrightarrow> Ball UNIV P" for P :: "column \<Rightarrow> bool"
    using all_columns_complete by (auto simp: enum_all_column_def list_all_iff)
  show "enum_class.enum_ex P \<longleftrightarrow> Bex UNIV P" for P :: "column \<Rightarrow> bool"
    using all_columns_complete by (auto simp: enum_ex_column_def list_ex_iff)
qed

end

section \<open>The SQL handle\<close>

definition pg_claim :: "QuerySpec \<Rightarrow> (column \<times> sql_value) list \<Rightarrow> tables \<Rightarrow> (goerror + row list) \<times> tables" where
  "pg_claim q cvs t =
     (let xs = take (nat (qs_Limit q)) (order_rows (qs_Order q) (filter (sql_holds (qs_Predicate q)) (t (qs_Table q))))
      in (Inr (map (set_columns cvs) xs),
          t(qs_Table q := update_where (\<lambda>r. r \<in> set xs) (set_columns cvs) (t (qs_Table q)))))"

definition pg_sql :: "'x pg_scheme sqldb" where
  "pg_sql =
     \<lparr>sq_Query = (\<lambda>qf cf w. case pg_call (pg_claim (qf (pg_clock w 0)) (cf (pg_clock w 0))) w of
                    (Inl e, w1) \<Rightarrow> (Inl e, w1) | (Inr rs, w1) \<Rightarrow> (Inr (rs, None), w1)),
      sq_Exec = (\<lambda>usp w. case pg_call (stmt_update usp) w of
                    (Inl e, w1) \<Rightarrow> (Inl e, w1) | (Inr n, w1) \<Rightarrow> (Inr (Inr n), w1)),
      sq_Now = pg_now\<rparr>"

lemma pg_claim_claims:
  "pg_claim q cvs t = (r, t') \<Longrightarrow> \<exists>rs. r = Inr rs \<and> claims q cvs t rs t'"
  by (rule exI [of _ "map (set_columns cvs)
        (take (nat (qs_Limit q)) (order_rows (qs_Order q) (filter (sql_holds (qs_Predicate q)) (t (qs_Table q)))))"])
     (auto simp: pg_claim_def claims_def Let_def sorted_order_rows
        intro!: exI [of _ "order_rows (qs_Order q) (filter (sql_holds (qs_Predicate q)) (t (qs_Table q)))"] exI [of _ "{}"])

lemma pg_call_cases:
  assumes "pg_call stmt w = (r, w')"
  shows "(\<exists>e. r = Inl e) \<and> pg_tables w' = pg_tables w
     \<or> (\<exists>x. stmt (pg_tables w) = (x, pg_tables w') \<and> ((\<exists>e. r = Inl e) \<or> r = x))"
  using assms by (auto simp: pg_call_def Let_def split: outcome.splits prod.splits)

section \<open>The stream server\<close>

definition entry_id :: "nat \<Rightarrow> string" where
  "entry_id n = nat_digits n @ ''-0''"

definition entry_key :: "string \<Rightarrow> nat" where
  "entry_key i = digits_value (takeWhile (\<lambda>c. c \<noteq> CHR ''-'') i)"

definition fresh_id :: "(string \<times> fields) list \<Rightarrow> string" where
  "fresh_id es = entry_id (Suc (foldr max (map (entry_key \<circ> fst) es) 0))"

definition rs_call :: "('x cluster_scheme \<Rightarrow> (goerror + 'a) \<times> 'x cluster_scheme) \<Rightarrow> 'x cluster_scheme
    \<Rightarrow> (goerror + 'a) \<times> 'x cluster_scheme" where
  "rs_call f w =
     (let w1 = w\<lparr>rs_net := choices_tl (rs_net w)\<rparr> in
      case rs_net w 0 of
        Done \<Rightarrow> f w1
      | Refused m \<Rightarrow> (Inl (ErrText m), w1)
      | Unacked m \<Rightarrow> (Inl (ErrText m), snd (f w1)))"

definition upd2 :: "('a \<Rightarrow> 'b \<Rightarrow> 'c) \<Rightarrow> 'a \<Rightarrow> 'b \<Rightarrow> 'c \<Rightarrow> 'a \<Rightarrow> 'b \<Rightarrow> 'c" where
  "upd2 f a b x = f(a := (f a)(b := x))"

definition rs_XAdd :: "string \<Rightarrow> fields \<Rightarrow> 'x cluster_scheme \<Rightarrow> (goerror + string) \<times> 'x cluster_scheme" where
  "rs_XAdd st vs w =
     (let i = fresh_id (rs_entries w st)
      in (Inr i, w\<lparr>rs_entries := (rs_entries w)(st := rs_entries w st @ [(i, vs)])\<rparr>))"

definition rs_XReadGroup :: "XReadGroupArgs \<Rightarrow> 'x cluster_scheme \<Rightarrow>
    (goerror + (string \<times> XMessage list) list) \<times> 'x cluster_scheme" where
  "rs_XReadGroup a w =
     (let st = hd (xr_Streams a); g = xr_Group a;
          es = take (nat (xr_Count a)) (filter (\<lambda>e. fst e \<notin> set (rs_handed w st g)) (rs_entries w st));
          new = map fst es
      in if es = [] then (Inl (ErrText ''redis: nil''), w)
         else (Inr [(st, map (\<lambda>(i, vs). \<lparr>xm_ID = i, xm_Values = vs\<rparr>) es)],
               w\<lparr>rs_handed := upd2 (rs_handed w) st g (rs_handed w st g @ new),
                 rs_pending := upd2 (rs_pending w) st g (rs_pending w st g @ new)\<rparr>))"

definition rs_XAutoClaim :: "XAutoClaimArgs \<Rightarrow> 'x cluster_scheme \<Rightarrow>
    (goerror + XMessage list \<times> string) \<times> 'x cluster_scheme" where
  "rs_XAutoClaim a w =
     (let st = xc_Stream a; g = xc_Group a;
          ps = sort_key entry_key (filter (\<lambda>p. entry_key (xc_Start a) \<le> entry_key p) (rs_pending w st g));
          xs = take (max 1 (nat (xc_Count a))) ps;
          after = filter (\<lambda>p. entry_key (last xs) < entry_key p) ps;
          msgs = map (\<lambda>(i, vs). \<lparr>xm_ID = i, xm_Values = vs\<rparr>) (filter (\<lambda>e. fst e \<in> set xs) (rs_entries w st))
      in (Inr (msgs, if xs = [] \<or> after = [] then ''0-0'' else hd after),
          w\<lparr>rs_pending := upd2 (rs_pending w) st g
               (filter (\<lambda>p. p \<in> set xs \<longrightarrow> p \<in> fst ` set (rs_entries w st)) (rs_pending w st g))\<rparr>))"

definition rs_XAck :: "string \<Rightarrow> string \<Rightarrow> string \<Rightarrow> 'x cluster_scheme \<Rightarrow> (goerror + int) \<times> 'x cluster_scheme" where
  "rs_XAck st g i w =
     (Inr (int (count_where (\<lambda>p. p = i) (rs_pending w st g))),
      w\<lparr>rs_pending := upd2 (rs_pending w) st g (filter (\<lambda>p. p \<noteq> i) (rs_pending w st g))\<rparr>)"

definition rs_redis :: "'x cluster_scheme redis" where
  "rs_redis =
     \<lparr>XAdd = (\<lambda>st vs. rs_call (rs_XAdd st vs)),
      XGroupCreateMkStream = (\<lambda>st g x w. (Some (ErrText ''BUSYGROUP Consumer Group name already exists''), w)),
      XReadGroup = (\<lambda>a. rs_call (rs_XReadGroup a)),
      XAutoClaim = (\<lambda>a. rs_call (rs_XAutoClaim a)),
      XAck = (\<lambda>st g i. rs_call (rs_XAck st g i)),
      redis_Nil = (\<lambda>e. e = ErrText ''redis: nil'')\<rparr>"

definition rs_handed_set :: "'x cluster_scheme \<Rightarrow> string \<Rightarrow> string \<Rightarrow> string set" where
  "rs_handed_set w st g = set (rs_handed w st g)"

definition rs_pending_set :: "'x cluster_scheme \<Rightarrow> string \<Rightarrow> string \<Rightarrow> string set" where
  "rs_pending_set w st g = set (rs_pending w st g)"

lemma entry_key_id [simp]: "entry_key (entry_id n) = n"
proof -
  have "\<forall>c\<in>set (nat_digits n). c \<noteq> CHR ''-''"
    using nat_digits_are_digits [of n] digit_not_sign by (auto simp: list_all_iff)
  then show ?thesis by (simp add: entry_key_def entry_id_def takeWhile_append2)
qed

lemma fresh_id_new: "fresh_id es \<notin> fst ` set es"
proof
  assume "fresh_id es \<in> fst ` set es"
  then obtain e where e: "e \<in> set es" "fst e = fresh_id es" by auto
  have "entry_key (fst e) \<le> foldr max (map (entry_key \<circ> fst) es) 0"
    using e(1) by (induction es) (auto simp: max.coboundedI1 max.coboundedI2)
  with e(2) show False by (simp add: fresh_id_def)
qed

section \<open>The stream server keeps its contract\<close>

lemma rs_call_cases:
  assumes "rs_call f w = (r, w')"
  shows "(\<exists>e. r = Inl e) \<and> w' = w\<lparr>rs_net := choices_tl (rs_net w)\<rparr>
     \<or> (\<exists>x. f (w\<lparr>rs_net := choices_tl (rs_net w)\<rparr>) = (x, w') \<and> (r = x \<or> (\<exists>e. r = Inl e)))"
  using assms
  by (cases "f (w\<lparr>rs_net := choices_tl (rs_net w)\<rparr>)")
     (auto simp: rs_call_def Let_def split: outcome.splits)

definition rs_rest :: "'x cluster_scheme \<Rightarrow> tables \<times> tables option" where
  "rs_rest w = (pg_tables w, pg_tx w)"

lemma rs_sets_upd [simp]:
  "rs_handed_set (w\<lparr>rs_net := n\<rparr>) = rs_handed_set w" "rs_pending_set (w\<lparr>rs_net := n\<rparr>) = rs_pending_set w"
  "rs_handed_set (w\<lparr>rs_entries := es\<rparr>) = rs_handed_set w" "rs_pending_set (w\<lparr>rs_entries := es\<rparr>) = rs_pending_set w"
  "rs_handed_set (w\<lparr>rs_pending := p\<rparr>) = rs_handed_set w"
  "rs_pending_set (w\<lparr>rs_pending := p\<rparr>) = (\<lambda>st g. set (p st g))"
  "rs_handed_set (w\<lparr>rs_handed := p\<rparr>) = (\<lambda>st g. set (p st g))"
  "rs_rest (w\<lparr>rs_net := n\<rparr>) = rs_rest w" "rs_rest (w\<lparr>rs_entries := es\<rparr>) = rs_rest w"
  "rs_rest (w\<lparr>rs_handed := p\<rparr>) = rs_rest w" "rs_rest (w\<lparr>rs_pending := p\<rparr>) = rs_rest w"
  by (auto simp: rs_handed_set_def rs_pending_set_def rs_rest_def fun_eq_iff)

lemma rs_add_served:
  assumes "XAdd rs_redis st vs w = (sid, w')"
  shows "rs_rest w' = rs_rest w \<and> rs_handed_set w' = rs_handed_set w \<and> rs_pending_set w' = rs_pending_set w \<and>
      ((\<exists>e. sid = Inl e) \<and> rs_entries w' = rs_entries w
       \<or> (\<exists>i. i \<notin> fst ` set (rs_entries w st) \<and> rs_entries w' = (rs_entries w)(st := rs_entries w st @ [(i, vs)])
            \<and> (sid = Inr i \<or> (\<exists>e. sid = Inl e))))"
proof -
  from assms have "rs_call (rs_XAdd st vs) w = (sid, w')" by (simp add: rs_redis_def)
  from rs_call_cases [OF this] fresh_id_new [of "rs_entries w st"] show ?thesis
    by (elim disjE exE conjE) (simp_all add: rs_XAdd_def Let_def, auto)
qed

definition read_new :: "XReadGroupArgs \<Rightarrow> string \<Rightarrow> 'x cluster_scheme \<Rightarrow> (string \<times> fields) list" where
  "read_new a st w =
     take (nat (xr_Count a)) (filter (\<lambda>e. fst e \<notin> set (rs_handed w st (xr_Group a))) (rs_entries w st))"

lemma read_new_sub: "e \<in> set (read_new a st w) \<Longrightarrow> e \<in> set (rs_entries w st) \<and> fst e \<notin> rs_handed_set w st (xr_Group a)"
  by (auto simp: read_new_def rs_handed_set_def dest: in_set_takeD)

lemma upd2_set:
  "(\<lambda>s h. set (upd2 f a b x s h)) = (\<lambda>s h. set (f s h))(a := (\<lambda>h. set (f a h))(b := set x))"
  by (auto simp: upd2_def fun_eq_iff)

lemma rs_XReadGroup_effect:
  assumes "xr_Streams a = [st, ''>'']" "rs_XReadGroup a w = (x, w')"
  shows "w' = w \<and> (\<exists>e. x = Inl e)
    \<or> rs_rest w' = rs_rest w \<and> rs_entries w' = rs_entries w
      \<and> rs_handed_set w' = (rs_handed_set w)(st := (rs_handed_set w st)(xr_Group a :=
            rs_handed_set w st (xr_Group a) \<union> fst ` set (read_new a st w)))
      \<and> rs_pending_set w' = (rs_pending_set w)(st := (rs_pending_set w st)(xr_Group a :=
            rs_pending_set w st (xr_Group a) \<union> fst ` set (read_new a st w)))
      \<and> x = Inr [(st, map (\<lambda>(i, vs). \<lparr>xm_ID = i, xm_Values = vs\<rparr>) (read_new a st w))]"
proof (cases "read_new a st w = []")
  case True
  with assms show ?thesis by (auto simp: rs_XReadGroup_def Let_def read_new_def)
next
  case False
  have "rs_XReadGroup a w = (Inr [(st, map (\<lambda>(i, vs). \<lparr>xm_ID = i, xm_Values = vs\<rparr>) (read_new a st w))],
      w\<lparr>rs_handed := upd2 (rs_handed w) st (xr_Group a) (rs_handed w st (xr_Group a) @ map fst (read_new a st w)),
        rs_pending := upd2 (rs_pending w) st (xr_Group a) (rs_pending w st (xr_Group a) @ map fst (read_new a st w))\<rparr>)"
    using False by (simp add: rs_XReadGroup_def Let_def assms(1) read_new_def)
  with assms(2) have x: "x = Inr [(st, map (\<lambda>(i, vs). \<lparr>xm_ID = i, xm_Values = vs\<rparr>) (read_new a st w))]"
    and w': "w' = w\<lparr>rs_handed := upd2 (rs_handed w) st (xr_Group a) (rs_handed w st (xr_Group a) @ map fst (read_new a st w)),
        rs_pending := upd2 (rs_pending w) st (xr_Group a) (rs_pending w st (xr_Group a) @ map fst (read_new a st w))\<rparr>"
    by simp_all
  show ?thesis
    unfolding x w' by (rule disjI2) (simp add: upd2_set, simp add: rs_handed_set_def [abs_def] rs_pending_set_def [abs_def])
qed

lemma rs_read_served:
  assumes st: "xr_Streams a = [st, ''>'']" and r: "XReadGroup rs_redis a w = (streams, w')"
  shows "rs_rest w' = rs_rest w \<and> rs_entries w' = rs_entries w \<and>
      (\<exists>new. new \<subseteq> fst ` set (rs_entries w st) - rs_handed_set w st (xr_Group a)
         \<and> rs_handed_set w' = (rs_handed_set w)(st := (rs_handed_set w st)(xr_Group a := rs_handed_set w st (xr_Group a) \<union> new))
         \<and> rs_pending_set w' = (rs_pending_set w)(st := (rs_pending_set w st)(xr_Group a := rs_pending_set w st (xr_Group a) \<union> new))
         \<and> (\<forall>ss. streams = Inr ss \<longrightarrow> (\<forall>m\<in>set (concat (map snd ss)). (xm_ID m, xm_Values m) \<in> set (rs_entries w st) \<and> xm_ID m \<in> new)))"
proof -
  let ?v = "w\<lparr>rs_net := choices_tl (rs_net w)\<rparr>"
  have vn: "read_new a st ?v = read_new a st w" by (simp add: read_new_def)
  from r have c: "rs_call (rs_XReadGroup a) w = (streams, w')" by (simp add: rs_redis_def)
  have "(rs_rest w' = rs_rest w \<and> rs_entries w' = rs_entries w \<and> rs_handed_set w' = rs_handed_set w
         \<and> rs_pending_set w' = rs_pending_set w \<and> (\<exists>e. streams = Inl e))
      \<or> (rs_rest w' = rs_rest w \<and> rs_entries w' = rs_entries w
         \<and> rs_handed_set w' = (rs_handed_set w)(st := (rs_handed_set w st)(xr_Group a :=
              rs_handed_set w st (xr_Group a) \<union> fst ` set (read_new a st w)))
         \<and> rs_pending_set w' = (rs_pending_set w)(st := (rs_pending_set w st)(xr_Group a :=
              rs_pending_set w st (xr_Group a) \<union> fst ` set (read_new a st w)))
         \<and> (\<forall>ss. streams = Inr ss \<longrightarrow> ss = [(st, map (\<lambda>(i, vs). \<lparr>xm_ID = i, xm_Values = vs\<rparr>) (read_new a st w))]))"
    using rs_call_cases [OF c]
  proof (elim disjE exE conjE)
    fix x assume "rs_XReadGroup a ?v = (x, w')" "streams = x"
    with rs_XReadGroup_effect [OF st this(1)] show ?thesis by (elim disjE) (simp_all add: vn)
  next
    fix x e assume "rs_XReadGroup a ?v = (x, w')" "streams = Inl e"
    with rs_XReadGroup_effect [OF st this(1)] show ?thesis by (elim disjE) (simp_all add: vn)
  qed simp
  then show ?thesis
  proof
    assume "rs_rest w' = rs_rest w \<and> rs_entries w' = rs_entries w \<and> rs_handed_set w' = rs_handed_set w
         \<and> rs_pending_set w' = rs_pending_set w \<and> (\<exists>e. streams = Inl e)"
    then show ?thesis by (intro conjI exI [of _ "{}"]) auto
  next
    assume some: "rs_rest w' = rs_rest w \<and> rs_entries w' = rs_entries w
         \<and> rs_handed_set w' = (rs_handed_set w)(st := (rs_handed_set w st)(xr_Group a :=
              rs_handed_set w st (xr_Group a) \<union> fst ` set (read_new a st w)))
         \<and> rs_pending_set w' = (rs_pending_set w)(st := (rs_pending_set w st)(xr_Group a :=
              rs_pending_set w st (xr_Group a) \<union> fst ` set (read_new a st w)))
         \<and> (\<forall>ss. streams = Inr ss \<longrightarrow> ss = [(st, map (\<lambda>(i, vs). \<lparr>xm_ID = i, xm_Values = vs\<rparr>) (read_new a st w))])"
    have "fst ` set (read_new a st w) \<subseteq> fst ` set (rs_entries w st) - rs_handed_set w st (xr_Group a)"
      using read_new_sub by blast
    moreover have "\<forall>m\<in>set (concat (map snd [(st, map (\<lambda>(i, vs). \<lparr>xm_ID = i, xm_Values = vs\<rparr>) (read_new a st w))])).
        (xm_ID m, xm_Values m) \<in> set (rs_entries w st) \<and> xm_ID m \<in> fst ` set (read_new a st w)"
      by (auto simp: case_prod_beta dest!: read_new_sub)
    ultimately show ?thesis using some by (intro conjI exI [of _ "fst ` set (read_new a st w)"]) auto
  qed
qed

lemma rs_ack_served:
  assumes "XAck rs_redis st g i w = (cnt, w')"
  shows "rs_rest w' = rs_rest w \<and> rs_entries w' = rs_entries w \<and> rs_handed_set w' = rs_handed_set w \<and>
      ((\<exists>e. cnt = Inl e) \<and> rs_pending_set w' = rs_pending_set w
       \<or> rs_pending_set w' = (rs_pending_set w)(st := (rs_pending_set w st)(g := rs_pending_set w st g - {i})))"
proof -
  let ?v = "w\<lparr>rs_net := choices_tl (rs_net w)\<rparr>"
  have eff: "rs_rest w' = rs_rest w \<and> rs_entries w' = rs_entries w \<and> rs_handed_set w' = rs_handed_set w
      \<and> rs_pending_set w' = (rs_pending_set w)(st := (rs_pending_set w st)(g := rs_pending_set w st g - {i}))"
    if "rs_XAck st g i ?v = (x, w')" for x
  proof -
    from that have w': "w' = ?v\<lparr>rs_pending := upd2 (rs_pending w) st g (filter (\<lambda>p. p \<noteq> i) (rs_pending w st g))\<rparr>"
      by (simp add: rs_XAck_def)
    have "set (filter (\<lambda>p. p \<noteq> i) (rs_pending w st g)) = set (rs_pending w st g) - {i}" by auto
    then show ?thesis unfolding w' by (simp add: upd2_set, simp add: rs_pending_set_def [abs_def])
  qed
  from assms have "rs_call (rs_XAck st g i) w = (cnt, w')" by (simp add: rs_redis_def)
  from rs_call_cases [OF this] show ?thesis
    by (elim disjE exE conjE) (use eff in simp_all)
qed

lemma rs_XAutoClaim_effect:
  assumes "rs_XAutoClaim a w = (x, w')"
  defines "st \<equiv> xc_Stream a" and "g \<equiv> xc_Group a"
  shows "rs_rest w' = rs_rest w \<and> rs_entries w' = rs_entries w \<and> rs_handed_set w' = rs_handed_set w
    \<and> (\<exists>lost. lost \<inter> fst ` set (rs_entries w st) = {}
         \<and> rs_pending_set w' = (rs_pending_set w)(st := (rs_pending_set w st)(g := rs_pending_set w st g - lost)))
    \<and> (\<forall>ms next. x = Inr (ms, next) \<longrightarrow>
          (\<forall>m\<in>set ms. (xm_ID m, xm_Values m) \<in> set (rs_entries w st) \<and> xm_ID m \<in> rs_pending_set w st g)
        \<and> (next = ''0-0'' \<or> (\<exists>p\<in>rs_pending_set w st g. entry_key (xc_Start a) \<le> entry_key p \<and> entry_key p < entry_key next)))"
proof -
  define ps where "ps = sort_key entry_key (filter (\<lambda>p. entry_key (xc_Start a) \<le> entry_key p) (rs_pending w st g))"
  define xs where "xs = take (max 1 (nat (xc_Count a))) ps"
  define after where "after = filter (\<lambda>p. entry_key (last xs) < entry_key p) ps"
  define ms where "ms = map (\<lambda>(i, vs). \<lparr>xm_ID = i, xm_Values = vs\<rparr>) (filter (\<lambda>e. fst e \<in> set xs) (rs_entries w st))"
  define keep where "keep = filter (\<lambda>p. p \<in> set xs \<longrightarrow> p \<in> fst ` set (rs_entries w st)) (rs_pending w st g)"
  have "rs_XAutoClaim a w = (Inr (ms, if xs = [] \<or> after = [] then ''0-0'' else hd after),
      w\<lparr>rs_pending := upd2 (rs_pending w) st g keep\<rparr>)"
    unfolding rs_XAutoClaim_def Let_def keep_def ms_def after_def xs_def ps_def st_def g_def by simp
  with assms(1) have x: "x = Inr (ms, if xs = [] \<or> after = [] then ''0-0'' else hd after)"
    and w': "w' = w\<lparr>rs_pending := upd2 (rs_pending w) st g keep\<rparr>" by simp_all
  have ps: "set ps = {p \<in> rs_pending_set w st g. entry_key (xc_Start a) \<le> entry_key p}"
    by (auto simp: ps_def rs_pending_set_def)
  have xs: "set xs \<subseteq> set ps" by (auto simp: xs_def dest: in_set_takeD)
  have "set keep = rs_pending_set w st g - (set xs - fst ` set (rs_entries w st))"
    by (auto simp: keep_def rs_pending_set_def)
  then have p: "rs_pending_set w' = (rs_pending_set w)(st := (rs_pending_set w st)(g :=
      rs_pending_set w st g - (set xs - fst ` set (rs_entries w st))))"
    unfolding w' by (simp add: upd2_set, simp add: rs_pending_set_def [abs_def])
  have m: "(xm_ID m, xm_Values m) \<in> set (rs_entries w st) \<and> xm_ID m \<in> rs_pending_set w st g" if "m \<in> set ms" for m
    using that xs ps by (auto simp: ms_def case_prod_beta)
  have n: "\<exists>p\<in>rs_pending_set w st g. entry_key (xc_Start a) \<le> entry_key p \<and> entry_key p < entry_key (hd after)"
    if "xs \<noteq> []" "after \<noteq> []"
  proof -
    have "last xs \<in> set ps" using that(1) xs by auto
    moreover have "hd after \<in> set after" using that(2) by simp
    ultimately show ?thesis using ps by (auto simp: after_def)
  qed
  have r: "rs_rest w' = rs_rest w" "rs_entries w' = rs_entries w" "rs_handed_set w' = rs_handed_set w"
    unfolding w' by simp_all
  show ?thesis
    using r p m n by (intro conjI exI [of _ "set xs - fst ` set (rs_entries w st)"] allI impI) (auto simp: x)
qed

lemma rs_autoclaim_served:
  assumes "XAutoClaim rs_redis b w = (msgs, w')"
  shows "rs_rest w' = rs_rest w \<and> rs_entries w' = rs_entries w \<and> rs_handed_set w' = rs_handed_set w \<and>
      (\<exists>lost. lost \<inter> fst ` set (rs_entries w (xc_Stream b)) = {}
         \<and> rs_pending_set w' = (rs_pending_set w)(xc_Stream b :=
             (rs_pending_set w (xc_Stream b))(xc_Group b := rs_pending_set w (xc_Stream b) (xc_Group b) - lost))
         \<and> (\<forall>ms next. msgs = Inr (ms, next) \<longrightarrow>
              (\<forall>m\<in>set ms. (xm_ID m, xm_Values m) \<in> set (rs_entries w (xc_Stream b))
                 \<and> xm_ID m \<in> rs_pending_set w (xc_Stream b) (xc_Group b))
            \<and> (next = ''0-0'' \<or> (\<exists>p\<in>rs_pending_set w (xc_Stream b) (xc_Group b).
                  entry_key (xc_Start b) \<le> entry_key p \<and> entry_key p < entry_key next))))"
proof -
  let ?v = "w\<lparr>rs_net := choices_tl (rs_net w)\<rparr>"
  from assms have c: "rs_call (rs_XAutoClaim b) w = (msgs, w')" by (simp add: rs_redis_def)
  from rs_call_cases [OF c] show ?thesis
  proof (elim disjE exE conjE)
    fix e assume "msgs = Inl e" "w' = ?v"
    then show ?thesis by (intro conjI exI [of _ "{}"]) auto
  next
    fix x assume "rs_XAutoClaim b ?v = (x, w')" "msgs = x"
    note e = rs_XAutoClaim_effect [OF this(1), simplified] this(2)
    then obtain lost where "lost \<inter> fst ` set (rs_entries w (xc_Stream b)) = {}"
      "rs_pending_set w' = (rs_pending_set w)(xc_Stream b :=
             (rs_pending_set w (xc_Stream b))(xc_Group b := rs_pending_set w (xc_Stream b) (xc_Group b) - lost))"
      by blast
    with e show ?thesis by (intro conjI exI [of _ lost]) simp_all
  next
    fix x e assume "rs_XAutoClaim b ?v = (x, w')" "msgs = Inl e"
    note e = rs_XAutoClaim_effect [OF this(1), simplified] this(2)
    then obtain lost where "lost \<inter> fst ` set (rs_entries w (xc_Stream b)) = {}"
      "rs_pending_set w' = (rs_pending_set w)(xc_Stream b :=
             (rs_pending_set w (xc_Stream b))(xc_Group b := rs_pending_set w (xc_Stream b) (xc_Group b) - lost))"
      by blast
    with e show ?thesis by (intro conjI exI [of _ lost]) simp_all
  qed
qed

section \<open>The interfaces on this world\<close>

lemma rs_group_served:
  "XGroupCreateMkStream rs_redis st g x w = (e, w') \<Longrightarrow>
     rs_rest w' = rs_rest w \<and> rs_entries w' = rs_entries w \<and> rs_handed_set w' = rs_handed_set w
     \<and> rs_pending_set w' = rs_pending_set w"
  by (simp add: rs_redis_def)

interpretation rs: redis_streams rs_redis rs_entries rs_handed_set rs_pending_set entry_key rs_rest
  by unfold_locales
     (erule rs_add_served, erule rs_group_served, erule (1) rs_read_served, erule rs_autoclaim_served, erule rs_ack_served)

lemma cluster_pg_frames:
  assumes "pg_call stmt w = (r, w')"
  shows "rs_entries w' = rs_entries w" "rs_handed_set w' = rs_handed_set w" "rs_pending_set w' = rs_pending_set w"
  using assms
  by (auto simp: pg_call_def Let_def rs_handed_set_def rs_pending_set_def fun_eq_iff split: outcome.splits prod.splits)

lemma pg_sql_query_served:
  fixes w w' :: "'x cluster_scheme"
  assumes "sq_Query pg_sql qf cf w = (r, w')"
  shows "(rs_entries w', rs_handed_set w', rs_pending_set w') = (rs_entries w, rs_handed_set w, rs_pending_set w) \<and>
      ((\<exists>e. r = Inl e) \<and> pg_tables w' = pg_tables w
       \<or> (\<exists>rs. claims (qf (pg_clock w 0)) (cf (pg_clock w 0)) (pg_tables w) rs (pg_tables w')
            \<and> ((\<exists>e. r = Inl e) \<or> r = Inr (rs, None) \<or> (\<exists>k e. r = Inr (take k rs, Some e)))))"
proof -
  obtain x w1 where c: "pg_call (pg_claim (qf (pg_clock w 0)) (cf (pg_clock w 0))) w = (x, w1)"
    by (cases "pg_call (pg_claim (qf (pg_clock w 0)) (cf (pg_clock w 0))) w")
  have r: "w' = w1" "r = (case x of Inl e \<Rightarrow> Inl e | Inr rs \<Rightarrow> Inr (rs, None))"
    using assms c by (auto simp: pg_sql_def split: sum.splits)
  from pg_call_cases [OF c] show ?thesis
  proof (elim disjE exE conjE)
    fix e assume "x = Inl e" "pg_tables w1 = pg_tables w"
    with r cluster_pg_frames [OF c] show ?thesis by simp
  next
    fix y assume y: "pg_claim (qf (pg_clock w 0)) (cf (pg_clock w 0)) (pg_tables w) = (y, pg_tables w1)" "x = y"
    from pg_claim_claims [OF y(1)] y(2) r cluster_pg_frames [OF c] show ?thesis by auto
  next
    fix y e assume y: "pg_claim (qf (pg_clock w 0)) (cf (pg_clock w 0)) (pg_tables w) = (y, pg_tables w1)" "x = Inl e"
    from pg_claim_claims [OF y(1)] y(2) r cluster_pg_frames [OF c] show ?thesis by auto
  qed
qed

lemma pg_sql_exec_served:
  fixes w w' :: "'x cluster_scheme"
  assumes "sq_Exec pg_sql usp w = (n, w')"
  shows "(rs_entries w', rs_handed_set w', rs_pending_set w') = (rs_entries w, rs_handed_set w, rs_pending_set w) \<and>
      ((\<exists>e. n = Inl e) \<and> pg_tables w' = pg_tables w
       \<or> (\<exists>k. stmt_update usp (pg_tables w) = (Inr k, pg_tables w')
            \<and> ((\<exists>e. n = Inl e \<or> n = Inr (Inl e)) \<or> n = Inr (Inr k))))"
proof -
  obtain x w1 where c: "pg_call (stmt_update usp) w = (x, w1)" by (cases "pg_call (stmt_update usp) w")
  have r: "w' = w1" "n = (case x of Inl e \<Rightarrow> Inl e | Inr k \<Rightarrow> Inr (Inr k))"
    using assms c by (auto simp: pg_sql_def split: sum.splits)
  have st: "\<exists>k. stmt_update usp (pg_tables w) = (Inr k, snd (stmt_update usp (pg_tables w)))"
    by (simp add: stmt_update_def sql_update_def)
  have fr: "(rs_entries w', rs_handed_set w', rs_pending_set w') = (rs_entries w, rs_handed_set w, rs_pending_set w)"
    using cluster_pg_frames [OF c] r by simp
  from pg_call_cases [OF c] st show ?thesis unfolding fr unfolding r
    by (elim disjE exE conjE) (simp_all del: stmt_update_def)
qed

interpretation cl: sql_database pg_sql pg_tables "\<lambda>w. pg_clock w 0"
  "\<lambda>w. (rs_entries w, rs_handed_set w, rs_pending_set w)"
proof
  fix qf cf r and w w' :: "'x cluster_scheme"
  assume "sq_Query pg_sql qf cf w = (r, w')"
  then show "(rs_entries w', rs_handed_set w', rs_pending_set w') = (rs_entries w, rs_handed_set w, rs_pending_set w) \<and>
      ((\<exists>e. r = Inl e) \<and> pg_tables w' = pg_tables w
       \<or> (\<exists>rs. claims (qf (pg_clock w 0)) (cf (pg_clock w 0)) (pg_tables w) rs (pg_tables w')
            \<and> ((\<exists>e. r = Inl e) \<or> r = Inr (rs, None) \<or> (\<exists>k e. r = Inr (take k rs, Some e)))))"
    by (rule pg_sql_query_served)
next
  fix usp n and w w' :: "'x cluster_scheme"
  assume "us_Set usp \<noteq> []" "sq_Exec pg_sql usp w = (n, w')"
  from this(2) show "(rs_entries w', rs_handed_set w', rs_pending_set w') = (rs_entries w, rs_handed_set w, rs_pending_set w) \<and>
      ((\<exists>e. n = Inl e) \<and> pg_tables w' = pg_tables w
       \<or> (\<exists>k. stmt_update usp (pg_tables w) = (Inr k, pg_tables w')
            \<and> ((\<exists>e. n = Inl e \<or> n = Inr (Inl e)) \<or> n = Inr (Inr k))))"
    by (rule pg_sql_exec_served)
next
  fix tm and w w' :: "'x cluster_scheme"
  assume "sq_Now pg_sql w = (tm, w')"
  then show "pg_tables w' = pg_tables w \<and> (rs_entries w', rs_handed_set w', rs_pending_set w') =
      (rs_entries w, rs_handed_set w, rs_pending_set w)"
    by (auto simp: pg_sql_def pg_now_def rs_handed_set_def rs_pending_set_def fun_eq_iff)
qed

lemma rs_streams_tables: "redis_streams rs_redis rs_entries rs_handed_set rs_pending_set entry_key pg_tables"
  using rs.coarser_rest [of fst] by (simp add: rs_rest_def)

lemma rs_streams_session:
  "redis_streams rs_redis rs_entries rs_handed_set rs_pending_set entry_key (\<lambda>w. (pg_tables w, pg_tx w))"
  using rs.coarser_rest [of "\<lambda>x. x"] by (simp add: rs_rest_def)

interpretation cl: relay_env pg_sql pg_tables "\<lambda>w. pg_clock w 0" rs_redis rs_entries rs_handed_set rs_pending_set
  entry_key uuid_digits digits_Parse streamName
  for streamName
  by (intro relay_env.intro cl.sql_database_axioms dec.uuid_package_axioms rs_streams_tables)

interpretation ws: worker_system pg_db pg_tables pg_tx wd_calls world_disp rs_redis rs_entries rs_handed_set
  rs_pending_set entry_key digits_Parse pol
  for pol
proof (intro worker_system.intro wd.worker_env_axioms rs_streams_session framed_database.intro pg.database_axioms
    worker_system_axioms.intro framed_database_axioms.intro)
qed (auto simp: pg_db_def pg_now_def cluster_pg_frames pg_begin_def pg_commit_def pg_rollback_def world_disp_def world_Do_def
    Let_def rs_handed_set_def rs_pending_set_def fun_eq_iff split: outcome.splits option.splits)

end
