(* ===== verification/Worker_Progress.thy ===== *)
theory Worker_Progress
  imports Worker_Env
begin

text \<open>
  What the worker achieves while the services answer. The contract \<open>worker_env\<close> allows every call to
  fail, so it can only promise that nothing goes wrong; here no call of the database fails and the
  identifiers that \<^verbatim>\<open>uuid.New\<close> hands out are new. Then \<^verbatim>\<open>Process\<close> of a due task always records the
  outcome of an attempt, and the attempts come to an end, whatever the vendor answers.
\<close>

section \<open>An environment that answers\<close>

text \<open>
  \<open>alive\<close> says that the services are up, and stays true; \<open>ids\<close> are the identifiers that \<^verbatim>\<open>uuid.New\<close> is
  going to return, in order.
\<close>

locale responsive_worker = worker_env db tabs snap calls disp
  for db :: "'w db" and tabs :: "'w \<Rightarrow> tables" and snap :: "'w \<Rightarrow> tables option"
    and calls :: "'w \<Rightarrow> Request list" and disp :: "'w HTTPDispatcher" +
  fixes alive :: "'w \<Rightarrow> bool" and ids :: "'w \<Rightarrow> nat \<Rightarrow> uuid"
  assumes create_answers: "alive w \<Longrightarrow> CreateNode db sp w = (r, w') \<Longrightarrow>
      alive w' \<and> ids w' = ids w \<and> stmt_create sp (tabs w) = (r, tabs w')"
    and update_answers: "alive w \<Longrightarrow> UpdateNodes db usp w = (n, w') \<Longrightarrow>
      alive w' \<and> ids w' = ids w \<and> stmt_update usp (tabs w) = (n, tabs w')"
    and query_answers: "alive w \<Longrightarrow> QueryNodes db q w = (rs, w') \<Longrightarrow> alive w' \<and> ids w' = ids w \<and> \<not> isl rs"
    and begin_answers: "alive w \<Longrightarrow> BeginTx db w = (x, w') \<Longrightarrow> alive w' \<and> ids w' = ids w \<and> x = None"
    and commit_answers: "alive w \<Longrightarrow> CommitTx db w = (x, w') \<Longrightarrow> alive w' \<and> ids w' = ids w \<and> x = None"
    and rollback_answers: "alive w \<Longrightarrow> RollbackTx db w = (x, w') \<Longrightarrow> alive w' \<and> ids w' = ids w"
    and now_answers: "alive w \<Longrightarrow> time_Now db w = (tm, w') \<Longrightarrow> alive w' \<and> ids w' = ids w"
    and uuid_answers: "alive w \<Longrightarrow> uuid_New db w = (i, w') \<Longrightarrow>
      alive w' \<and> i = ids w 0 \<and> ids w' = (\<lambda>k. ids w (Suc k))"
    and client_answers: "alive w \<Longrightarrow> hd_Do disp req w = (a, w') \<Longrightarrow> alive w' \<and> ids w' = ids w"

text \<open>The next \<open>n\<close> identifiers are different from each other and not in use.\<close>

definition unused_ids :: "nat \<Rightarrow> (nat \<Rightarrow> uuid) \<Rightarrow> tables \<Rightarrow> bool" where
  "unused_ids n is t \<longleftrightarrow>
     distinct (map is [0..<n]) \<and> (\<forall>k<n. \<forall>tb. \<forall>x\<in>set (t tb). x FieldID \<noteq> Some (VUuid (is k)))"

lemma unused_ids_less: "unused_ids n is t \<Longrightarrow> m \<le> n \<Longrightarrow> unused_ids m is t"
  by (auto simp: unused_ids_def distinct_map inj_on_def)

lemma unused_ids_set_row:
  assumes "\<And>r. f r FieldID = r FieldID"
  shows "unused_ids n is (set_row tb i f t) \<longleftrightarrow> unused_ids n is t"
proof -
  have "(\<forall>x\<in>set (set_row tb i f t tb'). x FieldID \<noteq> v) \<longleftrightarrow> (\<forall>x\<in>set (t tb'). x FieldID \<noteq> v)" for tb' v
  proof (cases "tb' = tb")
    case True
    have "map row_id (update_where (has_id i) f (t tb)) = map row_id (t tb)"
      by (rule map_update_where) (simp add: row_id_def assms)
    then have "row_id ` set (update_where (has_id i) f (t tb)) = row_id ` set (t tb)"
      by (metis list.set_map)
    then have "(\<forall>k\<in>row_id ` set (update_where (has_id i) f (t tb)). k \<noteq> v) \<longleftrightarrow> (\<forall>k\<in>row_id ` set (t tb). k \<noteq> v)"
      by simp
    with True show ?thesis by (simp add: set_row_def row_id_def)
  qed simp
  then show ?thesis by (simp add: unused_ids_def)
qed

text \<open>Handing out an identifier and inserting a row under it.\<close>

lemma unused_ids_insert:
  assumes "unused_ids (Suc n) is t" "r FieldID = Some (VUuid (is 0))"
  shows "unused_ids n (\<lambda>k. is (Suc k)) (add_row tb r t)"
proof -
  have "map is [0..<Suc n] = is 0 # map (\<lambda>k. is (Suc k)) [0..<n]"
    by (simp add: map_upt_Suc del: upt_Suc)
  with assms(1) have d: "distinct (map (\<lambda>k. is (Suc k)) [0..<n])" "is 0 \<notin> (\<lambda>k. is (Suc k)) ` {0..<n}"
    by (simp_all add: unused_ids_def del: upt_Suc)
  have "x FieldID \<noteq> Some (VUuid (is (Suc k)))" if k: "k < n" and x: "x \<in> set (add_row tb r t tb')" for k tb' x
  proof (cases "x \<in> set (t tb')")
    case True
    with assms(1) k show ?thesis by (auto simp: unused_ids_def)
  next
    case False
    with x have "x = r" by (auto simp: add_row_def split: if_splits)
    moreover have "is 0 \<noteq> is (Suc k)" using d(2) k by (auto simp: image_iff)
    ultimately show ?thesis using assms(2) by simp
  qed
  with d(1) show ?thesis by (auto simp: unused_ids_def)
qed

context responsive_worker
begin

text \<open>The tables are well formed, the services are up, and \<open>n\<close> identifiers are left.\<close>

definition live :: "nat \<Rightarrow> 'w \<Rightarrow> bool" where
  "live n w \<longleftrightarrow> tables_wf (tabs w) \<and> alive w \<and> unused_ids n (ids w) (tabs w)"

lemma live_less: "live n w \<Longrightarrow> m \<le> n \<Longrightarrow> live m w"
  by (auto simp: live_def intro: unused_ids_less)

lemma live_same: "live n w \<Longrightarrow> alive w' \<Longrightarrow> ids w' = ids w \<Longrightarrow> tabs w' = tabs w \<Longrightarrow> live n w'"
  by (simp add: live_def)

lemma now_live:
  "live n w \<Longrightarrow> time_Now db w = (tm, w') \<Longrightarrow> live n w' \<and> tabs w' = tabs w \<and> snap w' = snap w"
  using now_answers [of w tm w'] database.now_frame [OF database_axioms, of w tm w'] by (auto simp: live_def)

lemma cas_live:
  assumes w: "live n w" and u: "cas_update nid ps f u"
    and r: "find_row Table_notifications nid (tabs w) = Some r" "sql_holds ps r"
    and f: "\<And>tm x. f tm x FieldID = x FieldID"
      "\<And>tm x. row_typed notification_schema x \<Longrightarrow> row_typed notification_schema (f tm x)"
    and s: "NotificationUpdate_Save db u w = (res, w')"
  shows "res = Inr 1 \<and> live n w' \<and> snap w' = snap w
    \<and> (\<exists>tm. tabs w' = set_row Table_notifications nid (f tm) (tabs w))"
proof -
  from u have ck: "nm_updated_at u = None" "nm_predicates u = PEQ FieldID (VUuid nid) # ps"
    "\<And>t. NotificationUpdate_check (touched t u) = None"
    "\<And>t. spec_update (NotificationUpdate_spec (touched t u)) = f t"
    by (auto simp: cas_update_def)
  obtain t w1 where t: "time_Now db w = (t, w1)" by (cases "time_Now db w")
  from now_live [OF w t] have w1: "live n w1" "tabs w1 = tabs w" "snap w1 = snap w" by auto
  let ?sp = "NotificationUpdate_spec (touched t u)"
  obtain m w2 where un: "UpdateNodes db ?sp w1 = (m, w2)" by (cases "UpdateNodes db ?sp w1")
  from w have wf: "tables_wf (tabs w)" by (simp add: live_def)
  have "stmt_update ?sp (tabs w) = (Inr 1, set_row Table_notifications nid (f t) (tabs w))"
    using sql_update_id [OF wf, of Table_notifications nid ps "f t"] r
    by (simp add: stmt_update_def NotificationUpdate_spec_sel ck)
  with update_answers [OF _ un] w1 have
    a: "alive w2" "ids w2 = ids w1" "m = Inr 1" "tabs w2 = set_row Table_notifications nid (f t) (tabs w)"
    by (auto simp: live_def)
  have "tables_wf (tabs w2)"
    unfolding a(4) by (rule set_row_wf [OF wf]) (auto simp: f(1) dest!: find_row_typed [OF wf] intro: f(2))
  moreover have "unused_ids n (ids w2) (tabs w2)"
    using w1 unfolding a(2,4) unused_ids_set_row [of "f t", OF f(1) [of t]] by (simp add: live_def)
  ultimately have "live n w2" using a(1) by (simp add: live_def)
  moreover have "snap w2 = snap w"
    using update_served [OF NotificationUpdate_spec_sel(3) un] w1(3) by simp
  moreover have "w' = w2" "res = Inr 1"
    using s t un a(3) ck by (auto simp: NotificationUpdate_Save_def update_defaults NotificationUpdate_sqlSave_def)
  ultimately show ?thesis using a(4) by blast
qed

lemma create_live:
  assumes w: "live (Suc n) w" and i: "uuid_New db w = (i, w1)"
    and sp: "spec_row sp FieldID = Some (VUuid i)" "row_typed (table_schema (cs_Table sp)) (spec_row sp)"
    and c: "CreateNode db sp w1 = (r, w')"
  shows "r = Inr () \<and> live n w' \<and> snap w' = snap w"
proof -
  from uuid_answers [OF _ i] w have w1: "alive w1" "i = ids w 0" "ids w1 = (\<lambda>k. ids w (Suc k))"
    by (auto simp: live_def)
  from uuid_frame [OF i] have fr: "tabs w1 = tabs w" "snap w1 = snap w" by auto
  have new: "\<forall>x\<in>set (tabs w (cs_Table sp)). x FieldID \<noteq> spec_row sp FieldID"
    using w sp(1) w1(2) by (auto simp: live_def unused_ids_def)
  have "stmt_create sp (tabs w1) = (Inr (), add_row (cs_Table sp) (spec_row sp) (tabs w))"
    using new by (auto simp: stmt_create_def sql_insert_def add_row_def fr)
  with create_answers [OF w1(1) c] have
    a: "alive w'" "ids w' = ids w1" "r = Inr ()" "tabs w' = add_row (cs_Table sp) (spec_row sp) (tabs w)"
    by auto
  have "tables_wf (tabs w')"
    unfolding a(4) by (rule add_row_wf) (use w sp new in \<open>auto simp: live_def\<close>)
  moreover have "unused_ids n (ids w') (tabs w')"
    unfolding a(2,4) w1(3) by (rule unused_ids_insert) (use w sp w1(2) in \<open>auto simp: live_def\<close>)
  ultimately show ?thesis
    using a(1,3) create_served [OF c] fr(2) by (auto simp: live_def)
qed

lemma attempt_live:
  assumes w: "live (Suc n) w" and st: "st \<in> {''succeeded'', ''retrying'', ''failed''}"
    and s: "createAttempt db nid a st w = (res, w')"
  shows "res = None \<and> live n w' \<and> snap w' = snap w"
proof -
  obtain c w1 where n1: "time_Now db w = (c, w1)" by (cases "time_Now db w")
  obtain i w2 where n2: "uuid_New db w1 = (i, w2)" by (cases "uuid_New db w1")
  obtain node sp where cs: "DeliveryAttemptCreate_createSpec (attempt_mutation nid a st c i) = (node, sp)"
    by (cases "DeliveryAttemptCreate_createSpec (attempt_mutation nid a st c i)")
  obtain r w3 where cn: "CreateNode db sp w2 = (r, w3)" by (cases "CreateNode db sp w2")
  from now_live [OF w n1] have w1: "live (Suc n) w1" "snap w1 = snap w" by auto
  have "r = Inr () \<and> live n w3 \<and> snap w3 = snap w1"
    by (rule create_live [OF w1(1) n2 _ _ cn]) (simp_all add: attempt_spec [OF cs] new_rows_typed)
  moreover have "DeliveryAttemptCreate_check (attempt_mutation nid a st c i) = None" using st by (simp add: attempt_check)
  then have "w' = w3" "res = None \<longleftrightarrow> \<not> isl r"
    using s n1 n2 cs cn
    by (auto simp: createAttempt_def DeliveryAttemptCreate_Save_def attempt_defaults
        DeliveryAttemptCreate_sqlSave_def split: sum.splits)
  ultimately show ?thesis using w1(2) by auto
qed

lemma outbox_live:
  assumes w: "live (Suc n) w" and s: "OutboxEventCreate_Save db (outbox_create nid at) w = (res, w')"
  shows "\<not> isl res \<and> live n w' \<and> snap w' = snap w"
proof -
  obtain c w1 where n1: "time_Now db w = (c, w1)" by (cases "time_Now db w")
  obtain u w2 where n2: "time_Now db w1 = (u, w2)" by (cases "time_Now db w1")
  obtain i w3 where n3: "uuid_New db w2 = (i, w3)" by (cases "uuid_New db w2")
  obtain node sp where cs: "OutboxEventCreate_createSpec (outbox_mutation nid at c u i) = (node, sp)"
    by (cases "OutboxEventCreate_createSpec (outbox_mutation nid at c u i)")
  obtain r w4 where cn: "CreateNode db sp w3 = (r, w4)" by (cases "CreateNode db sp w3")
  from now_live [OF w n1] have w1: "live (Suc n) w1" "snap w1 = snap w" by auto
  from now_live [OF w1(1) n2] have w2: "live (Suc n) w2" "snap w2 = snap w" using w1 by auto
  have "r = Inr () \<and> live n w4 \<and> snap w4 = snap w2"
    by (rule create_live [OF w2(1) n3 _ _ cn]) (simp_all add: outbox_spec [OF cs] new_rows_typed)
  moreover have "w' = w4" "isl res \<longleftrightarrow> isl r"
    using s n1 n2 n3 cs cn
    by (auto simp: OutboxEventCreate_Save_def outbox_defaults OutboxEventCreate_sqlSave_def split: sum.splits)
  ultimately show ?thesis using w2(2) by simp
qed

section \<open>The store answers\<close>

lemma commit_live:
  assumes "live n w" "snap w = Some t" "deferred db (Tx_Commit db w) = (res, w')"
  shows "res = None \<and> live n w'"
proof -
  obtain x w1 where c: "CommitTx db w = (x, w1)" by (cases "CommitTx db w")
  from commit_answers [OF _ c] assms(1) have a: "alive w1" "ids w1 = ids w" "x = None" by (auto simp: live_def)
  from commit_None [OF assms(2)] c a(3) have b: "tabs w1 = tabs w" "snap w1 = None" by auto
  obtain y w2 where rb: "RollbackTx db w1 = (y, w2)" by (cases "RollbackTx db w1")
  from rollback_answers [OF a(1) rb] rollback_closed [OF b(2) rb] a b have "live n w2"
    by (intro live_same [OF assms(1)]) auto
  then show ?thesis
    using assms(3) c a(3) rb by (auto simp: Tx_Commit_def deferred_def rollbackUnlessCommitted_def Tx_Rollback_def)
qed

lemma begin_live:
  assumes "live n w" "Client_Tx db w = (x, w')"
  shows "x = None \<and> live n w' \<and> tabs w' = tabs w \<and> snap w' = Some (tabs w)"
proof -
  obtain b w1 where c: "BeginTx db w = (b, w1)" by (cases "BeginTx db w")
  from begin_answers [OF _ c] assms(1) have a: "alive w1" "ids w1 = ids w" "b = None" by (auto simp: live_def)
  from begin_None c a(3) have "tabs w1 = tabs w" "snap w1 = Some (tabs w)" by auto
  with a assms c live_same [OF assms(1) a(1,2)] show ?thesis by (auto simp: Client_Tx_def newTx_def)
qed

text \<open>The three writes of the worker succeed on a task in the right state.\<close>

lemma Mark_live:
  assumes "live n w" "find_row Table_notifications nid (tabs w) = Some r"
    "r FieldStatus \<in> {Some (VString StatusPending), Some (VString StatusRetrying)}"
    "EntMarkDelivering repo nid w = (res, w')"
  shows "res = None \<and> live n w' \<and> snap w' = snap w"
proof -
  obtain m w1 where s: "NotificationUpdate_Save db (mark_update nid) w = (m, w1)"
    by (cases "NotificationUpdate_Save db (mark_update nid) w")
  have "m = Inr 1 \<and> live n w1 \<and> snap w1 = snap w
      \<and> (\<exists>tm. tabs w1 = set_row Table_notifications nid (started_row tm) (tabs w))"
    by (rule cas_live [OF assms(1) mark_update_cas assms(2) _ _ _ s]) (use assms(3) in \<open>auto intro: row_updates_typed(1)\<close>)
  with s assms(4) show ?thesis by (auto simp: EntMarkDelivering_def)
qed

lemma Success_live:
  assumes "live (Suc n) w" "in_flight nid (ra_AttemptNumber a) (tabs w)"
    "EntRecordSuccess repo nid a w = (res, w')"
  shows "res = None \<and> live n w'"
proof -
  obtain x w1 where b: "Client_Tx db w = (x, w1)" by (cases "Client_Tx db w")
  from begin_live [OF assms(1) b] have w1: "x = None" "live (Suc n) w1" "tabs w1 = tabs w" "snap w1 = Some (tabs w)"
    by auto
  from assms(2) obtain r where r: "find_row Table_notifications nid (tabs w1) = Some r"
    "r FieldStatus = Some (VString StatusDelivering)" "r FieldAttemptCount = Some (VInt (ra_AttemptNumber a - 1))"
    by (auto simp: in_flight_def w1(3))
  obtain m w2 where s: "NotificationUpdate_Save db (success_update nid a) w1 = (m, w2)"
    by (cases "NotificationUpdate_Save db (success_update nid a) w1")
  have w2: "m = Inr 1 \<and> live (Suc n) w2 \<and> snap w2 = snap w1
      \<and> (\<exists>tm. tabs w2 = set_row Table_notifications nid (succeeded_row (ra_AttemptNumber a) tm) (tabs w1))"
    by (rule cas_live [OF w1(2) success_update_cas r(1) _ _ _ s]) (use r in \<open>auto intro: row_updates_typed(2)\<close>)
  obtain y w3 where c: "createAttempt db nid a StatusSucceeded w2 = (y, w3)"
    by (cases "createAttempt db nid a StatusSucceeded w2")
  have w3: "y = None \<and> live n w3 \<and> snap w3 = snap w2" by (rule attempt_live [OF _ _ c]) (use w2 in auto)
  have "deferred db (Tx_Commit db w3) = (res, w')"
    using assms(3) b w1(1) s w2 c w3 by (simp add: EntRecordSuccess_def)
  then show ?thesis by (rule commit_live [rotated 2]) (use w3 w2 w1 in auto)
qed

lemma Failure_live:
  assumes "live (Suc (Suc n)) w" "in_flight nid (ra_AttemptNumber f) (tabs w)"
    "EntRecordFailure repo nid f w = (res, w')"
  shows "res = None \<and> live n w'"
proof -
  obtain x w1 where b: "Client_Tx db w = (x, w1)" by (cases "Client_Tx db w")
  from begin_live [OF assms(1) b] have w1: "x = None" "live (Suc (Suc n)) w1" "tabs w1 = tabs w" "snap w1 = Some (tabs w)"
    by auto
  from assms(2) obtain r where r: "find_row Table_notifications nid (tabs w1) = Some r"
    "r FieldStatus = Some (VString StatusDelivering)" "r FieldAttemptCount = Some (VInt (ra_AttemptNumber f - 1))"
    by (auto simp: in_flight_def w1(3))
  obtain m w2 where s: "NotificationUpdate_Save db (failure_update nid f) w1 = (m, w2)"
    by (cases "NotificationUpdate_Save db (failure_update nid f) w1")
  have w2: "m = Inr 1 \<and> live (Suc (Suc n)) w2 \<and> snap w2 = snap w1
      \<and> (\<exists>tm. tabs w2 = set_row Table_notifications nid
            (failed_row (failure_status f) (ra_AttemptNumber f) (ra_ErrorMessage f) (rf_NextAttemptAt f) tm) (tabs w1))"
    by (rule cas_live [OF w1(2) failure_update_cas r(1) _ _ _ s]) (use r in \<open>auto intro: row_updates_typed(3)\<close>)
  obtain y w3 where c: "createAttempt db nid (RecordedAttempt.truncate f) (failure_status f) w2 = (y, w3)"
    by (cases "createAttempt db nid (RecordedAttempt.truncate f) (failure_status f) w2")
  have w3: "y = None \<and> live (Suc n) w3 \<and> snap w3 = snap w2"
    by (rule attempt_live [OF _ _ c]) (use w2 in \<open>auto simp: failure_status_def\<close>)
  then have sn: "snap w3 = Some (tabs w)" using w2 w1 by auto
  let ?K = "\<lambda>w3. case (if rf_Terminal f then None else rf_NextAttemptAt f) of
      None \<Rightarrow> Tx_Commit db w3
    | Some t \<Rightarrow> (case OutboxEventCreate_Save db (outbox_create nid t) w3 of
         (Inl err, w4) \<Rightarrow> (Some err, w4) | (Inr _, w4) \<Rightarrow> Tx_Commit db w4)"
  have d: "deferred db (?K w3) = (res, w')"
    using assms(3) b w1(1) s w2 c w3 unfolding EntRecordFailure_def sel failure_status_def [symmetric] Let_def by simp
  show ?thesis
  proof (cases "if rf_Terminal f then None else rf_NextAttemptAt f")
    case None
    with d have "deferred db (Tx_Commit db w3) = (res, w')" by simp
    from commit_live [OF _ sn this, of n] w3 live_less [of "Suc n" w3 n] show ?thesis by simp
  next
    case (Some t)
    obtain o_res w4 where o: "OutboxEventCreate_Save db (outbox_create nid t) w3 = (o_res, w4)"
      by (cases "OutboxEventCreate_Save db (outbox_create nid t) w3")
    have w4: "\<not> isl o_res \<and> live n w4 \<and> snap w4 = snap w3" by (rule outbox_live [OF _ o]) (use w3 in auto)
    with d Some o have "deferred db (Tx_Commit db w4) = (res, w')" by (auto split: sum.splits)
    then show ?thesis by (rule commit_live [rotated 2]) (use w4 sn in auto)
  qed
qed

section \<open>Progress\<close>

lemma Load_live:
  assumes "live n w" "find_row Table_notifications nid (tabs w) = Some r" "EntLoadForDelivery repo nid w = (res, w')"
  shows "res = Inr (row_task r) \<and> live n w' \<and> tabs w' = tabs w \<and> snap w' = snap w"
proof -
  obtain g w1 where g: "NotificationClient_Get db nid w = (g, w1)" by (cases "NotificationClient_Get db nid w")
  have "alive w" "tables_wf (tabs w)" using assms(1) by (simp_all add: live_def)
  from Get_effect [OF this(2) g] query_answers [OF this(1)] assms(2)
  have a: "tabs w1 = tabs w" "snap w1 = snap w" "g = Inr (Notification_of_row r)"
    by (auto simp: isl_def)
  have "alive w1 \<and> ids w1 = ids w"
  proof -
    let ?q = "NotificationQuery_querySpec (NotificationQuery_Limit 2
        (NotificationQuery_Where [notification_ID nid] NotificationClient_Query))"
    obtain rs w2 where q: "QueryNodes db ?q w = (rs, w2)" by (cases "QueryNodes db ?q w")
    have "w1 = w2"
      using g q by (auto simp: NotificationClient_Get_def NotificationQuery_Only_def NotificationQuery_All_def
          NotificationQuery_sqlAll_def NotificationQuery_prepareQuery_def NotificationQuery_Limit_def
          NotificationQuery_Where_def NotificationClient_Query_def Let_def split: sum.splits list.splits)
    with query_answers [OF \<open>alive w\<close> q] show ?thesis by simp
  qed
  with a assms g live_same [OF assms(1), of w1] show ?thesis
    by (auto simp: EntLoadForDelivery_def row_task_def Notification_of_row_def)
qed

lemma Deliver_live:
  assumes "live n w" "HTTPDispatcher_Deliver disp t w = (res, w')"
  shows "live n w' \<and> tabs w' = tabs w \<and> snap w' = snap w"
proof -
  have tick: "alive v' \<and> ids v' = ids v" if "time_Now db v = (tm, v')" "alive v" for v v' tm
    using now_answers [OF that(2,1)] by simp
  have call: "alive v' \<and> ids v' = ids v" if "hd_Do disp req v = (a, v')" "alive v" for v v' req a
    using client_answers [OF that(2,1)] by simp
  have "alive w" using assms(1) by (simp add: live_def)
  with assms(2) have "alive w' \<and> ids w' = ids w"
    by (auto simp: HTTPDispatcher_Deliver_def disp_now split: prod.splits sum.splits dest!: tick call)
  with Deliver_effect [OF assms(2)] live_same [OF assms(1), of w'] show ?thesis by blast
qed

lemma view_row: "views w nid = Some v \<Longrightarrow> \<exists>r. find_row Table_notifications nid (tabs w) = Some r \<and> v = row_view r"
  by (auto simp: task_views_def)

text \<open>The status and the counter of a row, read from its view.\<close>

lemma view_status:
  assumes "tables_wf (tabs w)" "find_row Table_notifications nid (tabs w) = Some r"
  shows "r FieldStatus = Some (VString (tv_Status (row_view r)))"
    "r FieldAttemptCount = Some (VInt (tv_Attempt (row_view r)))"
  using find_row_typed [OF assms]
  by (auto simp: row_typed_def notification_schema_def typed_cases row_view_def)

lemma view_in_flight:
  assumes "tables_wf (tabs w)" "views w nid = Some v" "tv_Status v = StatusDelivering" "n = tv_Attempt v + 1"
  shows "in_flight nid n (tabs w)"
proof -
  obtain r where "find_row Table_notifications nid (tabs w) = Some r" "v = row_view r"
    using view_row [OF assms(2)] by blast
  with view_status [OF assms(1), of nid r] assms(3,4) show ?thesis by (auto simp: in_flight_def)
qed

lemma Process_progress:
  assumes w: "live (Suc (Suc n)) w" "snap w = None" and v: "views w nid = Some v" "startable v"
    and p: "Process (ent_worker db disp pol) nid w = (r, w')"
  shows "r = None \<and> live n w' \<and> snap w' = None
    \<and> (\<exists>result. views w' = (views w)(nid \<mapsto> attempt_outcome pol v result))"
proof -
  have wf: "tables_wf (tabs w)" using w(1) by (simp add: live_def)
  obtain row where row: "find_row Table_notifications nid (tabs w) = Some row" "v = row_view row"
    using view_row [OF v(1)] by blast
  obtain lres w1 where l: "EntLoadForDelivery repo nid w = (lres, w1)" by (cases "EntLoadForDelivery repo nid w")
  from Load_live [OF w(1) row(1) l] have w1: "lres = Inr (row_task row)" "live (Suc (Suc n)) w1" "tabs w1 = tabs w" "snap w1 = None"
    using w(2) by auto
  obtain mres w2 where m: "EntMarkDelivering repo nid w1 = (mres, w2)" by (cases "EntMarkDelivering repo nid w1")
  have "mres = None \<and> live (Suc (Suc n)) w2 \<and> snap w2 = snap w1"
    by (rule Mark_live [OF w1(2) _ _ m]) (use row v(2) view_status [OF wf row(1)] w1(3) in \<open>auto simp: startable_def\<close>)
  then have w2: "mres = None" "live (Suc (Suc n)) w2" "snap w2 = None" using w1 by auto
  have h1: "healthy w1" using w1 by (simp add: healthy_def live_def)
  from mark_effect [OF h1 m] w2(1) w1(3) v(1) have v2: "views w2 = (views w)(nid \<mapsto> started v)" by auto
  define task where "task = (if Task_MaxAttempts (row_task row) = 0 then (row_task row)\<lparr>Task_MaxAttempts := 5\<rparr> else row_task row)"
  have att: "Task_Attempt task = tv_Attempt v" and st: "\<not> terminal v"
    using row(2) v(2) by (auto simp: task_def row_task_def row_view_def startable_def terminal_def)
  have ts: "Task_Status (row_task row) \<noteq> StatusSucceeded" "Task_Status (row_task row) \<noteq> StatusFailed"
    using row(2) st by (auto simp: row_task_def row_view_def terminal_def)
  have fin: "finish_attempt (worker pol) nid task w2 = (r, w')"
    using p l m unfolding worker_eq Process_unfold task_def w1(1) w2(1) by (simp add: ts)
  obtain result w3 where d: "HTTPDispatcher_Deliver disp task w2 = (result, w3)" by (cases "HTTPDispatcher_Deliver disp task w2")
  from Deliver_live [OF w2(2) d] have w3: "live (Suc (Suc n)) w3" "tabs w3 = tabs w2" by auto
  have fl: "in_flight nid (tv_Attempt v + 1) (tabs w4)" if "tabs w4 = tabs w2" for w4
    unfolding that by (rule view_in_flight [of w2 nid "started v"])
      (use w2(2) v2 in \<open>simp_all add: live_def started_def\<close>)
  have r: "r = None \<and> live n w'"
  proof (cases "is_success result")
    case True
    with fin d have "EntRecordSuccess repo nid (recorded_attempt (tv_Attempt v + 1) result) w3 = (r, w')"
      by (simp add: finish_attempt_def att)
    from Success_live [OF w3(1) _ this] fl [OF w3(2)] live_less [of "Suc n" w' n] show ?thesis by simp
  next
    case False
    obtain f w4 where f: "EntRecordFailure repo nid f w4 = (r, w')" and w4: "live (Suc (Suc n)) w4" "tabs w4 = tabs w2"
      and n: "ra_AttemptNumber f = tv_Attempt v + 1"
    proof (cases "rd_Retry (Decide pol result (tv_Attempt v + 1) (Task_MaxAttempts task))")
      case True
      obtain t w4 where t: "time_Now db w3 = (t, w4)" by (cases "time_Now db w3")
      show thesis
        by (rule that [of _ w4]) (use fin d False True t w3 now_live [OF w3(1) t] in \<open>auto simp: finish_attempt_def att Let_def\<close>)
    next
      case False2: False
      show thesis
        by (rule that [of _ w3]) (use fin d False False2 w3 in \<open>auto simp: finish_attempt_def att Let_def\<close>)
    qed
    from Failure_live [OF w4(1) _ f] fl [OF w4(2)] n show ?thesis by simp
  qed
  have h: "healthy w" using w by (simp add: healthy_def live_def)
  from worker_Process [OF h p] r v st have "healthy w'"
    "\<exists>result. views w' = (views w)(nid \<mapsto> attempt_outcome pol v result)" by auto
  with r show ?thesis by (simp add: healthy_def)
qed

end

section \<open>The attempts come to an end\<close>

fun process_times :: "nat \<Rightarrow> 's Processor \<Rightarrow> uuid \<Rightarrow> 's \<Rightarrow> 's" where
  "process_times 0 p nid s = s"
| "process_times (Suc k) p nid s = process_times k p nid (snd (Process p nid s))"

lemma attempt_outcome_started: "attempt_outcome pol (started v) result = attempt_outcome pol v result"
  by (simp add: attempt_outcome_def started_def finished_def)

lemma attempt_outcome_progress:
  assumes "task_wf v" "startable v"
  shows "task_wf (attempt_outcome pol v result) \<and> tv_Max (attempt_outcome pol v result) = tv_Max v
    \<and> tv_Attempt (attempt_outcome pol v result) = tv_Attempt v + 1
    \<and> (terminal (attempt_outcome pol v result) \<or> startable (attempt_outcome pol v result))"
proof -
  have wf: "task_wf (started v)" using assms task_step_wf [OF task_step.start] by blast
  have "task_step (started v) (attempt_outcome pol (started v) result)"
    by (rule attempt_outcome_step) (use wf in \<open>auto simp: started_def task_wf_def\<close>)
  from task_step_wf [OF this wf] show ?thesis
    unfolding attempt_outcome_started
    by (auto simp: attempt_outcome_def finished_def terminal_def startable_def)
qed

context responsive_worker
begin

lemma terminal_stays:
  "healthy w \<Longrightarrow> views w nid = Some v \<Longrightarrow> terminal v \<Longrightarrow>
   views (process_times k (ent_worker db disp pol) nid w) nid = Some v"
proof (induction k arbitrary: w)
  case 0
  then show ?case by simp
next
  case (Suc k)
  obtain r w1 where p: "Process (ent_worker db disp pol) nid w = (r, w1)" by (cases "Process (ent_worker db disp pol) nid w")
  have "\<not> startable v" using Suc.prems(3) by (auto simp: startable_def terminal_def)
  with worker_Process [OF Suc.prems(1) p] Suc.prems(2) have "healthy w1" "views w1 nid = Some v" by auto
  from Suc.IH [OF this Suc.prems(3)] p show ?case by simp
qed

lemma process_times_settles:
  "live (2 * k) w \<Longrightarrow> snap w = None \<Longrightarrow> views w nid = Some v \<Longrightarrow> task_wf v \<Longrightarrow> startable v \<Longrightarrow>
   tv_Max v - tv_Attempt v \<le> int k \<Longrightarrow>
   \<exists>v'. views (process_times k (ent_worker db disp pol) nid w) nid = Some v' \<and> terminal v'"
proof (induction k arbitrary: w v)
  case 0
  then show ?case by (auto simp: task_wf_def startable_def)
next
  case (Suc k)
  obtain r w1 where p: "Process (ent_worker db disp pol) nid w = (r, w1)" by (cases "Process (ent_worker db disp pol) nid w")
  from Suc.prems(1) have "live (Suc (Suc (2 * k))) w" by simp
  from Process_progress [OF this Suc.prems(2,3,5) p] obtain result where
    w1: "live (2 * k) w1" "snap w1 = None" "views w1 nid = Some (attempt_outcome pol v result)" by auto
  note o = attempt_outcome_progress [OF Suc.prems(4,5), of pol result]
  show ?case
  proof (cases "terminal (attempt_outcome pol v result)")
    case True
    have "healthy w1" using w1 by (simp add: healthy_def live_def)
    from terminal_stays [OF this w1(3) True] True p show ?thesis by simp
  next
    case False
    from Suc.IH [OF w1] o False Suc.prems(6) p show ?thesis by simp
  qed
qed

end

section \<open>A concrete environment that answers\<close>

lemma choices_tl_const [simp]: "choices_tl (\<lambda>_. c) = (\<lambda>_. c)"
  by (simp add: choices_tl_def)

lemma pg_call_answers:
  "pg_net w = (\<lambda>_. Done) \<Longrightarrow> pg_call stmt w = (r, w') \<Longrightarrow>
   pg_net w' = (\<lambda>_. Done) \<and> pg_rand w' = pg_rand w \<and> stmt (pg_tables w) = (r, pg_tables w')"
  by (auto simp: pg_call_def Let_def split: prod.splits)

interpretation wr: responsive_worker pg_db pg_tables pg_tx wd_calls world_disp
  "\<lambda>w. pg_net w = (\<lambda>_. Done)" pg_rand
proof
  fix q rs and w w' :: "'x world_scheme"
  assume "pg_net w = (\<lambda>_. Done)" "QueryNodes pg_db q w = (rs, w')"
  then show "pg_net w' = (\<lambda>_. Done) \<and> pg_rand w' = pg_rand w \<and> \<not> isl rs"
    using pg_call_answers [of w "stmt_query q" rs w'] by (auto simp: pg_db_def stmt_query_def Let_def)
qed (auto simp: pg_db_def pg_call_answers pg_begin_def pg_commit_def pg_rollback_def pg_now_def world_disp_def
    world_Do_def choices_tl_def Let_def split: option.splits)

end
