(* ===== verification/Sample_World.thy ===== *)
theory Sample_World
  imports Cluster Worker_Progress
begin

text \<open>
  A small concrete state on which the properties are instantiated: one pending notification
  with its outbox event, in a cluster whose services answer by script.
\<close>

definition sample_request :: CreateRequest where
  "sample_request =
     \<lparr>cr_URL = ''https://vendor.example.com/hook'', cr_Method = ''POST'', cr_Headers = Some [],
      cr_Body = ''{}'', cr_MaxAttempts = 5\<rparr>"

definition sample_tables :: tables where
  "sample_tables tb =
     (case tb of
        Table_notifications \<Rightarrow> [notification_row 1 sample_request 0 0]
      | Table_delivery_attempts \<Rightarrow> []
      | Table_outbox_events \<Rightarrow> [outbox_row 7 1 0 0 0])"

definition sample_event :: Event where
  "sample_event =
     \<lparr>ev_ID = 7, ev_NotificationID = 1, ev_Type = EventTypeNotificationDelivery, ev_ScheduledAt = 0\<rparr>"

definition sample_world :: "outcome list \<Rightarrow> (goerror + int) list \<Rightarrow> cluster" where
  "sample_world net vendor =
     \<lparr>pg_tables = sample_tables, pg_tx = None, pg_clock = (\<lambda>n. int n), pg_rand = (\<lambda>n. 100 + of_nat n),
      pg_net = script net Done, wd_calls = [], wd_vendor = script vendor (Inr 200),
      
      rs_entries = (\<lambda>st. if st = DefaultStream then [(''1-0'', BuildDeliveryMessage uuid_digits sample_event)] else []),
      rs_handed = (\<lambda>_ _. []), rs_pending = (\<lambda>_ _. []), rs_net = (\<lambda>_. Done)\<rparr>"

lemma sample_wf: "tables_wf sample_tables"
  by (auto simp: tables_wf_def table_wf_def sample_tables_def new_rows_typed split: table.split)

lemma sample_sel [simp]:
  "pg_tables (sample_world net vendor) = sample_tables" "pg_tx (sample_world net vendor) = None"
  "wd_calls (sample_world net vendor) = []"
  "rs_handed_set (sample_world net vendor) st g = {}" "rs_pending_set (sample_world net vendor) st g = {}"
  by (simp_all add: sample_world_def rs_handed_set_def rs_pending_set_def)

lemma sample_views: "task_views sample_tables = [1 \<mapsto> \<lparr>tv_Status = StatusPending, tv_Attempt = 0, tv_Max = 5\<rparr>]"
  by (auto simp: task_views_def find_row_def sample_tables_def fun_eq_iff has_id_def row_view_def
      notification_row_def sample_request_def)

lemma sample_tasks_wf: "all_tasks_wf sample_tables"
  by (auto simp: all_tasks_wf_def sample_views task_wf_def split: if_splits)

lemma sample_groups:
  "groups_wf (rs_entries (sample_world net vendor)) (rs_handed_set (sample_world net vendor))
     (rs_pending_set (sample_world net vendor))"
  "acks_justified p s (rs_entries (sample_world net vendor)) (rs_handed_set (sample_world net vendor))
     (rs_pending_set (sample_world net vendor))"
  by (simp_all add: groups_wf_def acks_justified_def sample_world_def rs_handed_set_def rs_pending_set_def)

lemma sample_answers:
  "pg_net (sample_world [] vendor) = (\<lambda>_. Done)"
  "unused_ids 10 (pg_rand (sample_world net vendor)) sample_tables"
proof -
  show "pg_net (sample_world [] vendor) = (\<lambda>_. Done)"
    by (simp add: sample_world_def script_def fun_eq_iff)
  have "distinct (map (\<lambda>n. 100 + of_nat n :: uuid) [0..<10])
    \<and> list_all (\<lambda>n. 100 + of_nat n \<noteq> (1 :: uuid) \<and> 100 + of_nat n \<noteq> (7 :: uuid)) [0..<10]"
    by code_simp
  then show "unused_ids 10 (pg_rand (sample_world net vendor)) sample_tables"
    by (auto simp: unused_ids_def sample_world_def sample_tables_def list_all_iff split: table.split)
qed

section \<open>The programs of the sample\<close>

definition sample_worker :: "cluster Processor" where
  "sample_worker = ent_worker pg_db world_disp DefaultRetryPolicy"

definition sample_consumer :: "cluster Consumer" where
  "sample_consumer = NewConsumer rs_redis '''' '''' ''host-0'' (Process (ent_worker pg_db world_disp DefaultRetryPolicy))"

definition sample_relay :: "cluster Relay" where
  "sample_relay = pg_relay pg_sql uuid_digits rs_redis '''' ''host''"

definition sample_repo :: "cluster EntRepository" where
  "sample_repo = NewEntRepository pg_db"

text \<open>The view of a task and of an event after a run.\<close>

definition task_after :: "'r \<times> cluster \<Rightarrow> uuid \<Rightarrow> TaskView option" where
  "task_after rw nid = task_views (pg_tables (snd rw)) nid"

definition event_after :: "'r \<times> cluster \<Rightarrow> uuid \<Rightarrow> EventView option" where
  "event_after rw i = event_views (pg_tables (snd rw)) i"

text \<open>The same state while the notification is being delivered, and after it failed for good.\<close>

definition sample_delivering :: cluster where
  "sample_delivering = (sample_world [] [])\<lparr>pg_tables := set_row Table_notifications 1 (started_row 3) sample_tables\<rparr>"

definition sample_failed :: cluster where
  "sample_failed = (sample_world [] [])\<lparr>pg_tables :=
     set_row Table_notifications 1 (failed_row ''failed'' 5 ''unexpected HTTP status 500'' None 4) sample_tables\<rparr>"

lemma sample_later_wf:
  "tables_wf (pg_tables sample_delivering)" "tables_wf (pg_tables sample_failed)"
  "pg_tx sample_delivering = None" "pg_tx sample_failed = None"
  using set_notification_wf [OF sample_wf]
  by (simp_all add: sample_delivering_def sample_failed_def row_updates_typed)

definition sample_failure :: RecordedFailure where
  "sample_failure =
     recorded_failure \<lparr>ra_AttemptNumber = 1, ra_StatusCode = 503, ra_ErrorMessage = ''unexpected HTTP status 503'',
       ra_Duration = 5000000\<rparr> False (Some 2000000000)"

definition sample_success :: RecordedAttempt where
  "sample_success = \<lparr>ra_AttemptNumber = 1, ra_StatusCode = 204, ra_ErrorMessage = '''', ra_Duration = 5000000\<rparr>"

end
