(* ===== verification/Sample_System.thy ===== *)
theory Sample_System
  imports System_Program Sample_World
begin

text \<open>
  The whole system over the concrete world of \<open>Cluster\<close>: the interface of \<open>System_Worker\<close> is
  interpreted on the program, and an empty world is the start of the sample run.
\<close>

lemma pg_call_session: "pg_call stmt w = (r, w') \<Longrightarrow> pg_tx w' = pg_tx w"
  by (auto simp: pg_call_def Let_def split: outcome.splits prod.splits)

lemma pg_sql_session:
  "sq_Query pg_sql qf cf w = (r, w') \<Longrightarrow> pg_tx w' = pg_tx w"
  "sq_Exec pg_sql usp w = (n, w') \<Longrightarrow> pg_tx w' = pg_tx w"
  "sq_Now pg_sql w = (tm, w') \<Longrightarrow> pg_tx w' = pg_tx w"
  by (auto simp: pg_sql_def pg_now_def split: prod.splits sum.splits dest: pg_call_session)

lemma pg_sql_with_session:
  "sql_database pg_sql pg_tables (\<lambda>w. pg_clock w 0) (\<lambda>w. (rs_entries w, rs_handed_set w, rs_pending_set w, pg_tx w))"
proof
  fix qf cf r and w w' :: "'x cluster_scheme"
  assume q: "sq_Query pg_sql qf cf w = (r, w')"
  from cl.query_served [OF q] pg_sql_session(1) [OF q]
  show "(rs_entries w', rs_handed_set w', rs_pending_set w', pg_tx w') = (rs_entries w, rs_handed_set w, rs_pending_set w, pg_tx w) \<and>
      ((\<exists>e. r = Inl e) \<and> pg_tables w' = pg_tables w
       \<or> (\<exists>rs. claims (qf (pg_clock w 0)) (cf (pg_clock w 0)) (pg_tables w) rs (pg_tables w')
            \<and> ((\<exists>e. r = Inl e) \<or> r = Inr (rs, None) \<or> (\<exists>k e. r = Inr (take k rs, Some e)))))"
    by simp
next
  fix usp n and w w' :: "'x cluster_scheme"
  assume u: "us_Set usp \<noteq> []" and e: "sq_Exec pg_sql usp w = (n, w')"
  from cl.exec_served [OF u e] pg_sql_session(2) [OF e]
  show "(rs_entries w', rs_handed_set w', rs_pending_set w', pg_tx w') = (rs_entries w, rs_handed_set w, rs_pending_set w, pg_tx w) \<and>
      ((\<exists>e. n = Inl e) \<and> pg_tables w' = pg_tables w
       \<or> (\<exists>k. stmt_update usp (pg_tables w) = (Inr k, pg_tables w')
            \<and> ((\<exists>e. n = Inl e \<or> n = Inr (Inl e)) \<or> n = Inr (Inr k))))"
    by simp
next
  fix tm and w w' :: "'x cluster_scheme"
  assume c: "sq_Now pg_sql w = (tm, w')"
  from cl.clock_stays [OF c] pg_sql_session(3) [OF c]
  show "pg_tables w' = pg_tables w \<and> (rs_entries w', rs_handed_set w', rs_pending_set w', pg_tx w') =
      (rs_entries w, rs_handed_set w, rs_pending_set w, pg_tx w)"
    by simp
qed

interpretation ds: delivery_system pg_db pg_tables pg_tx wd_calls world_disp rs_redis rs_entries rs_handed_set
  rs_pending_set entry_key digits_Parse pol pg_sql "\<lambda>w. pg_clock w 0" uuid_digits st grp
  for pol st grp
  by (intro delivery_system.intro ws.worker_system_axioms pg_sql_with_session dec.uuid_package_axioms)

section \<open>A run from the empty world\<close>

definition empty_world :: "outcome list \<Rightarrow> (goerror + int) list \<Rightarrow> cluster" where
  "empty_world net vendor =
     (sample_world net vendor)\<lparr>pg_tables := (\<lambda>_. []), rs_entries := (\<lambda>_. [])\<rparr>"

definition ascii_unicode :: unicode where
  "ascii_unicode = \<lparr>uc_ToUpper = (\<lambda>s. s), uc_ToLower = (\<lambda>s. s)\<rparr>"

definition sample_call :: GinRequest where
  "sample_call = \<lparr>gq_JSON = Some sample_request, gq_ID = ''''\<rparr>"

definition sample_api :: "cluster notificationService" where
  "sample_api = service_interface ascii_unicode (ent_service pg_db)"

text \<open>A notification is created and published.\<close>

definition after_create :: "cluster" where
  "after_create = snd (createNotification ascii_unicode sample_api sample_call (empty_world [] [Inr 503]))"

text \<open>The request is accepted as it is, so the handler comes down to the repository.\<close>

lemma sample_valid: "ValidateCreateRequest ascii_unicode sample_request = Inr sample_request"
  by code_simp

lemma sample_created:
  "createNotification ascii_unicode sample_api sample_call w =
     (case CreateNotification (NewEntRepository pg_db) sample_request w of
        (Inl err, w1) \<Rightarrow> (writeError err, w1)
      | (Inr n, w1) \<Rightarrow> (JSON 202 (BodyNotification n), w1))"
  by (simp add: createNotification_def sample_call_def sample_valid sample_api_def service_interface_def
      Service_Create_def ent_service_def NewService_def ent_repository_def)

lemmas after_create_code [code] = after_create_def [unfolded sample_created]

definition after_publish :: "cluster" where
  "after_publish = snd (PublishDue sample_relay after_create)"

text \<open>The two operations are a run of the program.\<close>

lemma sample_run:
  "program_run pg_db world_disp rs_redis pg_sql uuid_digits digits_Parse ascii_unicode DefaultRetryPolicy '''' ''''
     (empty_world [] [Inr 503]) after_publish"
proof -
  have 1: "program_step pg_db world_disp rs_redis pg_sql uuid_digits digits_Parse ascii_unicode DefaultRetryPolicy '''' ''''
     (empty_world [] [Inr 503]) after_create"
    by (rule program_step.api_create [of _ _ sample_call _ "fst (createNotification ascii_unicode sample_api sample_call (empty_world [] [Inr 503]))"])
      (simp add: after_create_def sample_api_def)
  have 2: "program_step pg_db world_disp rs_redis pg_sql uuid_digits digits_Parse ascii_unicode DefaultRetryPolicy '''' ''''
     after_create after_publish"
    by (rule program_step.relay_pass [where host = "''host''" and r = "fst (PublishDue sample_relay after_create)"])
      (simp add: after_publish_def sample_relay_def)
  show ?thesis by (intro program_run.next_step [OF program_run.next_step [OF program_run.no_step 1] 2])
qed

lemma empty_sel [simp]:
  "pg_tables (empty_world net vendor) = (\<lambda>_. [])" "pg_tx (empty_world net vendor) = None"
  "rs_entries (empty_world net vendor) st = []"
  "groups_wf (rs_entries (empty_world net vendor)) (rs_handed_set (empty_world net vendor))
     (rs_pending_set (empty_world net vendor))"
  by (simp_all add: empty_world_def groups_wf_def sample_world_def rs_handed_set_def rs_pending_set_def)

end
