(* ===== verification/Delivery_Transport.thy ===== *)
theory Delivery_Transport
  imports Delivery_Http Netguard Go_Url
begin

text \<open>
  \<^verbatim>\<open>NewHTTPDispatcher\<close> of \<^verbatim>\<open>internal/delivery/http.go\<close>: the timeout, the dial function that goes
  through \<^verbatim>\<open>netguard\<close>, and the redirect policy of the HTTP client. What \<^verbatim>\<open>net/http\<close> does with such a
  client (\<^verbatim>\<open>client.Do\<close>), the dialer and the resolver are parameters.
\<close>

section \<open>The client\<close>

text \<open>
  \<open>hc_CheckRedirect\<close> is the answer of \<^verbatim>\<open>CheckRedirect\<close>, which is the same for every redirect:
  \<open>UseLastResponse\<close> hands the redirect itself to the caller.
\<close>

datatype redirect_policy = FollowRedirects | UseLastResponse

record ('w, 'conn) HttpClient =
  hc_Timeout :: duration
  hc_DialContext :: "string \<Rightarrow> string \<Rightarrow> 'w \<Rightarrow> (goerror + 'conn) \<times> 'w"
  hc_CheckRedirect :: redirect_policy

record ('w, 'conn) net_env =
  ne_Lookup :: "string \<Rightarrow> 'w \<Rightarrow> (goerror + Addr list) \<times> 'w"
  ne_Dial :: "duration \<Rightarrow> string \<Rightarrow> string \<Rightarrow> 'w \<Rightarrow> (goerror + 'conn) \<times> 'w"
  ne_Do :: "('w, 'conn) HttpClient \<Rightarrow> Request \<Rightarrow> 'w \<Rightarrow> (goerror + int) \<times> 'w"
  ne_Now :: "'w \<Rightarrow> time \<times> 'w"
  ne_url_Parse :: "string \<Rightarrow> goerror option"
  ne_uuid_String :: "uuid \<Rightarrow> string"

definition dispatcher_timeout :: "duration \<Rightarrow> duration" where
  "dispatcher_timeout timeout = (if sint timeout \<le> 0 then 5 * Second else timeout)"

definition guarded_dial :: "unicode \<Rightarrow> ('w, 'conn) net_env \<Rightarrow> duration \<Rightarrow> string \<Rightarrow> string \<Rightarrow> 'w \<Rightarrow> (goerror + 'conn) \<times> 'w" where
  "guarded_dial u net timeout network address w =
     (case ResolvePublicAddress u (ne_Lookup net) address w of
        (Inl err, w1) \<Rightarrow> (Inl err, w1)
      | (Inr resolved, w1) \<Rightarrow> ne_Dial net timeout network resolved w1)"

definition dispatcher_client :: "unicode \<Rightarrow> ('w, 'conn) net_env \<Rightarrow> duration \<Rightarrow> ('w, 'conn) HttpClient" where
  "dispatcher_client u net timeout =
     \<lparr>hc_Timeout = dispatcher_timeout timeout,
      hc_DialContext = guarded_dial u net (dispatcher_timeout timeout),
      hc_CheckRedirect = UseLastResponse\<rparr>"

definition NewHTTPDispatcher :: "unicode \<Rightarrow> ('w, 'conn) net_env \<Rightarrow> duration \<Rightarrow> 'w HTTPDispatcher" where
  "NewHTTPDispatcher u net timeout =
     \<lparr>hd_Do = ne_Do net (dispatcher_client u net timeout), hd_now = ne_Now net,
      hd_url_Parse = ne_url_Parse net, hd_uuid_String = ne_uuid_String net\<rparr>"

lemma dispatcher_timeout_positive: "0 < sint (dispatcher_timeout timeout)"
  by (simp add: dispatcher_timeout_def Second_def)

section \<open>What a dispatcher connects to\<close>

text \<open>
  An address that the guard let through: a host and a port where the host is an address outside the
  blocked ranges, or an IPv6 address with a zone.
\<close>

definition vetted_target :: "string \<Rightarrow> bool" where
  "vetted_target target \<longleftrightarrow> (\<exists>a port. target = JoinHostPort (Addr_String a) port \<and> (\<not> blocked_address a \<or> zoned a))"

text \<open>
  The environment: every connection that the dialer opens is logged, the resolver and the clock
  open none, and \<^verbatim>\<open>client.Do\<close> opens connections only through the client's \<^verbatim>\<open>DialContext\<close> (the
  documented meaning of that field), so what the dial function keeps of the log, \<^verbatim>\<open>Do\<close> keeps.
\<close>

locale dial_log =
  fixes net :: "('w, 'conn) net_env" and dialled :: "'w \<Rightarrow> string list"
  assumes lookup_silent: "ne_Lookup net host w = (addrs, w') \<Longrightarrow> dialled w' = dialled w"
    and now_silent: "ne_Now net w = (tm, w') \<Longrightarrow> dialled w' = dialled w"
    and dial_logged: "ne_Dial net timeout network address w = (conn, w') \<Longrightarrow> dialled w' = dialled w @ [address]"
    and do_dials: "ne_Do net c req w = (res, w') \<Longrightarrow> P (dialled w) \<Longrightarrow>
      (\<And>network address v conn v'. hc_DialContext c network address v = (conn, v') \<Longrightarrow> P (dialled v) \<Longrightarrow> P (dialled v')) \<Longrightarrow>
      P (dialled w')"
begin

lemma resolve_vetted:
  assumes "ResolvePublicAddress u (ne_Lookup net) address w = (res, w')"
  shows "dialled w' = dialled w" "res = Inr target \<Longrightarrow> vetted_target target"
proof -
  show "dialled w' = dialled w"
    using assms lookup_silent
    by (auto simp: ResolvePublicAddress_def split: option.splits prod.splits sum.splits if_splits)
  show "res = Inr target \<Longrightarrow> vetted_target target"
    using ResolvePublicAddress_public [of u "ne_Lookup net" address w target w'] assms unfolding vetted_target_def by blast
qed

lemma guarded_dial_vetted:
  assumes "guarded_dial u net timeout network address w = (conn, w')" "\<forall>t\<in>set (dialled w). t \<in> old \<or> vetted_target t"
  shows "\<forall>t\<in>set (dialled w'). t \<in> old \<or> vetted_target t"
proof -
  obtain res w1 where r: "ResolvePublicAddress u (ne_Lookup net) address w = (res, w1)"
    by (cases "ResolvePublicAddress u (ne_Lookup net) address w")
  note rv = resolve_vetted [OF r]
  show ?thesis
  proof (cases res)
    case (Inl e)
    with assms r rv(1) show ?thesis by (simp add: guarded_dial_def)
  next
    case (Inr target)
    with assms(1) r have "ne_Dial net timeout network target w1 = (conn, w')" by (simp add: guarded_dial_def)
    from dial_logged [OF this] rv(1) rv(2) [OF Inr] assms(2) show ?thesis by auto
  qed
qed

lemma Deliver_vetted:
  assumes "HTTPDispatcher_Deliver (NewHTTPDispatcher u net timeout) task w = (res, w')"
  shows "\<forall>t\<in>set (dialled w'). t \<in> set (dialled w) \<or> vetted_target t"
proof -
  let ?P = "\<lambda>l. \<forall>t\<in>set l. t \<in> set (dialled w) \<or> vetted_target t"
  have now: "?P (dialled v')" if "ne_Now net v = (tm, v')" "?P (dialled v)" for v v' tm
    using that now_silent by simp
  have run: "?P (dialled v')" if d: "ne_Do net (dispatcher_client u net timeout) req v = (r, v')" and p: "?P (dialled v)" for req v r v'
  proof (rule do_dials [where P = ?P, OF d p])
    fix network address conn v v'
    assume "hc_DialContext (dispatcher_client u net timeout) network address v = (conn, v')" "?P (dialled v)"
    then show "?P (dialled v')" using guarded_dial_vetted by (simp add: dispatcher_client_def)
  qed
  have "?P (dialled w)" by simp
  with assms show ?thesis
    by (auto simp: HTTPDispatcher_Deliver_def NewHTTPDispatcher_def split: prod.splits sum.splits dest!: now run)
qed

end

section \<open>A concrete network\<close>

text \<open>
  A resolver with one public answer, a dialer that always connects, and a client that dials the
  host of the request's URL and gets status 200.
\<close>

record net_world =
  nw_dialled :: "string list"
  nw_clock :: time

definition net_Do :: "('x net_world_scheme, 'conn) HttpClient \<Rightarrow> Request \<Rightarrow> 'x net_world_scheme \<Rightarrow> (goerror + int) \<times> 'x net_world_scheme" where
  "net_Do c req w =
     (case ParseRequestURI (rq_URL req) of
        None \<Rightarrow> (Inl (ErrText ''unsupported protocol scheme''), w)
      | Some url \<Rightarrow>
          (case hc_DialContext c ''tcp'' (JoinHostPort (url_Hostname url) ''80'') w of
             (Inl err, w1) \<Rightarrow> (Inl err, w1)
           | (Inr conn, w1) \<Rightarrow> (Inr 200, w1)))"

definition sample_net :: "('x net_world_scheme, unit) net_env" where
  "sample_net =
     \<lparr>ne_Lookup = (\<lambda>host w. (Inr [Addr4 0x08080808], w)),
      ne_Dial = (\<lambda>timeout network address w. (Inr (), w\<lparr>nw_dialled := nw_dialled w @ [address]\<rparr>)),
      ne_Do = net_Do,
      ne_Now = (\<lambda>w. (nw_clock w, w\<lparr>nw_clock := nw_clock w + 1\<rparr>)),
      ne_url_Parse = (\<lambda>u. if u = '''' then Some (ErrText ''empty url'') else None),
      ne_uuid_String = uuid_digits\<rparr>"

interpretation dl: dial_log "sample_net :: ('x net_world_scheme, unit) net_env" nw_dialled
proof
  fix c :: "('x net_world_scheme, unit) HttpClient" and req w res w' P
  assume d: "ne_Do sample_net c req w = (res, w')" and p: "P (nw_dialled w)"
    and keep: "\<And>network address v conn v'. hc_DialContext c network address v = (conn, v') \<Longrightarrow> P (nw_dialled v) \<Longrightarrow> P (nw_dialled v')"
  show "P (nw_dialled w')"
  proof (cases "ParseRequestURI (rq_URL req)")
    case None
    with d p show ?thesis by (simp add: sample_net_def net_Do_def)
  next
    case (Some url)
    obtain conn w1 where h: "hc_DialContext c ''tcp'' (JoinHostPort (url_Hostname url) ''80'') w = (conn, w1)"
      by (cases "hc_DialContext c ''tcp'' (JoinHostPort (url_Hostname url) ''80'') w")
    with d Some have "w' = w1" by (cases conn) (auto simp: sample_net_def net_Do_def)
    with keep [OF h p] show ?thesis by simp
  qed
qed (auto simp: sample_net_def)

definition sample_task :: "string \<Rightarrow> Task" where
  "sample_task url =
     \<lparr>Task_ID = 5, Task_URL = url, Task_Method = ''POST'', Task_Headers = None, Task_Body = ''{}'',
      Task_Status = ''delivering'', Task_Attempt = 0, Task_MaxAttempts = 5\<rparr>"

end
