(* ===== verification/Platform_Database.thy ===== *)
theory Platform_Database
  imports Platform_Config
begin

text \<open>
  \<^verbatim>\<open>internal/platform/database.go\<close> and \<^verbatim>\<open>redis.go\<close>: opening the database, the schema migration under
  an advisory lock, and the options of the Redis client. The driver's calls are parameters.
\<close>

section \<open>Opening\<close>

text \<open>\<open>'d\<close> is the handle \<^verbatim>\<open>*sql.DB\<close>; the second component is the ORM client over it.\<close>

record ('w, 'd) sql_driver =
  sd_Open :: "string \<Rightarrow> string \<Rightarrow> 'w \<Rightarrow> (goerror + 'd) \<times> 'w"
  sd_Ping :: "'d \<Rightarrow> 'w \<Rightarrow> goerror option \<times> 'w"
  sd_Close :: "'d \<Rightarrow> 'w \<Rightarrow> 'w"

definition OpenDatabase ::
    "('w, 'd) sql_driver \<Rightarrow> ('d \<Rightarrow> 'c) \<Rightarrow> Config \<Rightarrow> 'w \<Rightarrow> (goerror + 'd \<times> 'c) \<times> 'w" where
  "OpenDatabase drv new_client cfg w =
     (case sd_Open drv ''postgres'' (cfg_DatabaseURL cfg) w of
        (Inl err, w1) \<Rightarrow> (Inl err, w1)
      | (Inr h, w1) \<Rightarrow>
          (case sd_Ping drv h w1 of
             (Some err, w2) \<Rightarrow> (Inl err, sd_Close drv h w2)
           | (None, w2) \<Rightarrow> (Inr (h, new_client h), w2)))"

record RedisOptions =
  ro_Addr :: string
  ro_Password :: string
  ro_DB :: int

definition NewRedisClient :: "Config \<Rightarrow> RedisOptions" where
  "NewRedisClient cfg = \<lparr>ro_Addr = cfg_RedisAddr cfg, ro_Password = cfg_RedisPassword cfg, ro_DB = cfg_RedisDB cfg\<rparr>"

section \<open>Migration\<close>

definition advisoryLockKey :: int where
  "advisoryLockKey = 42024201"

record ('w, 'k) migration =
  mg_Conn :: "'w \<Rightarrow> (goerror + 'k) \<times> 'w"
  mg_Exec :: "'k \<Rightarrow> string \<Rightarrow> int \<Rightarrow> 'w \<Rightarrow> goerror option \<times> 'w"
  mg_Close :: "'k \<Rightarrow> 'w \<Rightarrow> 'w"
  mg_SchemaCreate :: "'w \<Rightarrow> goerror option \<times> 'w"

text \<open>The deferred calls run last in, first out: the unlock, then the close.\<close>

definition Migrate :: "('w, 'k) migration \<Rightarrow> 'w \<Rightarrow> goerror option \<times> 'w" where
  "Migrate m w =
     (case mg_Conn m w of
        (Inl err, w1) \<Rightarrow> (Some err, w1)
      | (Inr conn, w1) \<Rightarrow>
          (case mg_Exec m conn ''SELECT pg_advisory_lock($1)'' advisoryLockKey w1 of
             (Some err, w2) \<Rightarrow> (Some (ErrWrap ''acquire migration lock: '' err ''''), mg_Close m conn w2)
           | (None, w2) \<Rightarrow>
               (case mg_SchemaCreate m w2 of
                  (r, w3) \<Rightarrow>
                    (case mg_Exec m conn ''SELECT pg_advisory_unlock($1)'' advisoryLockKey w3 of
                       (_, w4) \<Rightarrow> (r, mg_Close m conn w4)))))"

text \<open>
  The contract of the connection: a session lock that another process holds is waited for, so
  after a lock that succeeded this session is the holder, until an unlock succeeds; closing hands
  the connection back to the pool, with its session. The schema is created by the ORM over other
  connections, which leave the session lock alone. \<open>created\<close> logs, per schema creation, whether the
  lock was held and whether the creation was completed.
\<close>

locale advisory_lock =
  fixes m :: "('w, 'k) migration" and holds :: "'w \<Rightarrow> bool" and created :: "'w \<Rightarrow> (bool \<times> bool) list"
  assumes conn_lock: "mg_Conn m w = (c, w') \<Longrightarrow> holds w' = holds w \<and> created w' = created w"
    and exec_lock: "mg_Exec m conn stmt key w = (r, w') \<Longrightarrow> created w' = created w
      \<and> (key = advisoryLockKey \<longrightarrow> r = None \<longrightarrow>
           (stmt = ''SELECT pg_advisory_lock($1)'' \<longrightarrow> holds w')
           \<and> (stmt = ''SELECT pg_advisory_unlock($1)'' \<longrightarrow> \<not> holds w'))"
    and close_lock: "holds (mg_Close m conn w) = holds w \<and> created (mg_Close m conn w) = created w"
    and create_lock: "mg_SchemaCreate m w = (r, w') \<Longrightarrow> holds w' = holds w
      \<and> created w' = created w @ [(holds w, r = None)]"
begin

text \<open>
  A schema creation runs while the lock is held, there is at most one, and a migration that reports
  no error has completed it.
\<close>

lemma Migrate_locked:
  assumes "Migrate m w = (r, w')"
  shows "created w' = created w \<and> r \<noteq> None \<or> created w' = created w @ [(True, r = None)]"
proof -
  obtain c w1 where c: "mg_Conn m w = (c, w1)" by (cases "mg_Conn m w")
  note w1 = conn_lock [OF c]
  show ?thesis
  proof (cases c)
    case (Inl e)
    with assms c w1 show ?thesis by (auto simp: Migrate_def)
  next
    case (Inr conn)
    obtain l w2 where l: "mg_Exec m conn ''SELECT pg_advisory_lock($1)'' advisoryLockKey w1 = (l, w2)"
      by (cases "mg_Exec m conn ''SELECT pg_advisory_lock($1)'' advisoryLockKey w1")
    note w2 = exec_lock [OF l]
    show ?thesis
    proof (cases l)
      case (Some e)
      with assms c Inr l w1 w2 close_lock show ?thesis by (auto simp: Migrate_def)
    next
      case None
      obtain s w3 where s: "mg_SchemaCreate m w2 = (s, w3)" by (cases "mg_SchemaCreate m w2")
      obtain x w4 where u: "mg_Exec m conn ''SELECT pg_advisory_unlock($1)'' advisoryLockKey w3 = (x, w4)"
        by (cases "mg_Exec m conn ''SELECT pg_advisory_unlock($1)'' advisoryLockKey w3")
      have w': "w' = mg_Close m conn w4" "r = s" using assms c Inr l None s u by (simp_all add: Migrate_def)
      have "created w4 = created w @ [(True, s = None)]"
        using create_lock [OF s] exec_lock [OF u] w1 w2 None by simp
      then show ?thesis using close_lock [of conn w4] w' by simp
    qed
  qed
qed

end

section \<open>A concrete session\<close>

record lock_world =
  lw_holds :: bool
  lw_created :: "(bool \<times> bool) list"

definition session_migration :: "(lock_world, unit) migration" where
  "session_migration =
     \<lparr>mg_Conn = (\<lambda>w. (Inr (), w)),
      mg_Exec = (\<lambda>conn stmt key w. (None, w\<lparr>lw_holds := (stmt = ''SELECT pg_advisory_lock($1)'')\<rparr>)),
      mg_Close = (\<lambda>conn w. w),
      mg_SchemaCreate = (\<lambda>w. (None, w\<lparr>lw_created := lw_created w @ [(lw_holds w, True)]\<rparr>))\<rparr>"

interpretation session: advisory_lock session_migration lw_holds lw_created
  by unfold_locales (auto simp: session_migration_def)

end
