(* ===== verification/Commands.thy ===== *)
theory Commands
  imports System_Program Delivery_Transport Platform_Database
begin

text \<open>
  The wiring and the loops of \<^verbatim>\<open>cmd/worker\<close>, \<^verbatim>\<open>cmd/relay\<close> and \<^verbatim>\<open>cmd/api\<close>. The signal context is a
  predicate on the world (\<^verbatim>\<open>ctx.Err() == nil\<close>); a loop that runs until the context is cancelled is
  given the number of passes to run, so a statement about it holds for every number. Logging,
  waiting (the ticker, the pause after an error) and the exit codes are not modelled.
\<close>

section \<open>Shared\<close>

definition hostname :: "(goerror + string) \<Rightarrow> string \<Rightarrow> string" where
  "hostname os_Hostname fallback =
     (case os_Hostname of Inl err \<Rightarrow> fallback | Inr name \<Rightarrow> if name = '''' then fallback else name)"

section \<open>The worker\<close>

definition worker_count :: "Config \<Rightarrow> int" where
  "worker_count cfg = (if cfg_Workers cfg < 1 then 1 else cfg_Workers cfg)"

definition consumer_name :: "(goerror + string) \<Rightarrow> int \<Rightarrow> string" where
  "consumer_name os_Hostname i = hostname os_Hostname ''worker'' @ ''-'' @ Itoa i"

definition worker_names :: "(goerror + string) \<Rightarrow> Config \<Rightarrow> string list" where
  "worker_names os_Hostname cfg = map (consumer_name os_Hostname) [0 .. worker_count cfg - 1]"

definition worker_consumer ::
    "'w redis \<Rightarrow> 'w db \<Rightarrow> 'w HTTPDispatcher \<Rightarrow> Config \<Rightarrow> string \<Rightarrow> 'w Consumer" where
  "worker_consumer rd client disp cfg name =
     NewConsumer rd (cfg_StreamName cfg) (cfg_ConsumerGroup cfg) name (Process (ent_worker client disp DefaultRetryPolicy))"

text \<open>One round of the worker's loop; the result tells whether it had an error to log and to pause for.\<close>

definition worker_pass ::
    "(string \<Rightarrow> goerror + uuid) \<Rightarrow> ('w \<Rightarrow> bool) \<Rightarrow> 'w Consumer \<Rightarrow> Config \<Rightarrow> 'w \<Rightarrow> (bool \<times> 'w) option" where
  "worker_pass uuid_Parse alive consumer cfg w =
     (case ClaimAndProcess uuid_Parse consumer (30 * Second) 10 w of
        None \<Rightarrow> None
      | Some (err1, w1) \<Rightarrow>
          (case ReadAndProcess uuid_Parse consumer 10 (cfg_WorkerBlockTimeout cfg) w1 of
             (err2, w2) \<Rightarrow> Some ((err1 \<noteq> None \<and> alive w1) \<or> (err2 \<noteq> None \<and> alive w2), w2)))"

fun worker_loop ::
    "nat \<Rightarrow> (string \<Rightarrow> goerror + uuid) \<Rightarrow> ('w \<Rightarrow> bool) \<Rightarrow> 'w Consumer \<Rightarrow> Config \<Rightarrow> 'w \<Rightarrow> 'w option" where
  "worker_loop 0 uuid_Parse alive consumer cfg w = Some w"
| "worker_loop (Suc n) uuid_Parse alive consumer cfg w =
     (if \<not> alive w then Some w
      else (case worker_pass uuid_Parse alive consumer cfg w of
              None \<Rightarrow> None
            | Some (hadError, w1) \<Rightarrow> worker_loop n uuid_Parse alive consumer cfg w1))"

definition worker_goroutine ::
    "nat \<Rightarrow> (string \<Rightarrow> goerror + uuid) \<Rightarrow> ('w \<Rightarrow> bool) \<Rightarrow> 'w Consumer \<Rightarrow> Config \<Rightarrow> 'w \<Rightarrow> 'w option" where
  "worker_goroutine n uuid_Parse alive consumer cfg w =
     (case EnsureGroup consumer w of
        (Some err, w1) \<Rightarrow> Some w1
      | (None, w1) \<Rightarrow> worker_loop n uuid_Parse alive consumer cfg w1)"

section \<open>The relay\<close>

definition cmd_relay ::
    "'w sqldb \<Rightarrow> (uuid \<Rightarrow> string) \<Rightarrow> 'w redis \<Rightarrow> Config \<Rightarrow> (goerror + string) \<Rightarrow> 'w Relay" where
  "cmd_relay sq uuid_String rd cfg os_Hostname =
     pg_relay sq uuid_String rd (cfg_StreamName cfg) (hostname os_Hostname ''relay'')"

text \<open>The first pass runs before the context is looked at; errors are logged and the loop goes on.\<close>

fun relay_loop :: "nat \<Rightarrow> ('w \<Rightarrow> bool) \<Rightarrow> 'w Relay \<Rightarrow> 'w \<Rightarrow> 'w" where
  "relay_loop 0 alive relay w = w"
| "relay_loop (Suc n) alive relay w =
     (case PublishDue relay w of (err, w1) \<Rightarrow> if alive w1 then relay_loop n alive relay w1 else w1)"

section \<open>The API\<close>

record ApiServer =
  as_Addr :: string
  as_ReadHeaderTimeout :: duration
  as_ReadTimeout :: duration
  as_WriteTimeout :: duration
  as_IdleTimeout :: duration

definition api_server :: "Config \<Rightarrow> ApiServer" where
  "api_server cfg =
     \<lparr>as_Addr = cfg_HTTPAddr cfg, as_ReadHeaderTimeout = 5 * Second, as_ReadTimeout = 15 * Second,
      as_WriteTimeout = 30 * Second, as_IdleTimeout = 60 * Second\<rparr>"

definition api_router ::
    "unicode \<Rightarrow> (string \<Rightarrow> goerror + uuid) \<Rightarrow> 'w db \<Rightarrow> ('w \<Rightarrow> goerror option \<times> 'w) \<Rightarrow> ('w \<Rightarrow> goerror option \<times> 'w) \<Rightarrow> 'w Route list" where
  "api_router u uuid_Parse client db_Ping redis_Ping =
     NewRouterWithReadiness u (parsed_id uuid_Parse) (service_interface u (ent_service client))
       (Some (api_ready db_Ping redis_Ping))"

section \<open>The names of the consumers\<close>

lemma Itoa_inj:
  assumes "Itoa a = Itoa b" "0 \<le> a" "0 \<le> b"
  shows "a = b"
proof -
  have "digits_value (nat_digits (nat a)) = digits_value (nat_digits (nat b))" using assms by (simp add: Itoa_def)
  then show ?thesis using assms(2,3) by simp
qed

text \<open>The consumers of one process have different names, and there is at least one.\<close>

lemma worker_names_distinct:
  "distinct (worker_names os_Hostname cfg) \<and> length (worker_names os_Hostname cfg) = nat (max 1 (cfg_Workers cfg))
   \<and> '''' \<notin> set (worker_names os_Hostname cfg)"
proof (intro conjI)
  show "distinct (worker_names os_Hostname cfg)"
    by (auto simp: worker_names_def distinct_map inj_on_def consumer_name_def intro: Itoa_inj)
  show "length (worker_names os_Hostname cfg) = nat (max 1 (cfg_Workers cfg))"
    by (auto simp: worker_names_def worker_count_def)
  show "'''' \<notin> set (worker_names os_Hostname cfg)"
    by (auto simp: worker_names_def consumer_name_def)
qed

section \<open>The loops are runs of the program\<close>

context worker_system
begin

text \<open>However many passes a worker runs, it comes back, and has acknowledged only what is settled.\<close>

lemma worker_pass_keeps:
  assumes "acked_settled w"
  shows "\<exists>e w'. worker_pass uuid_Parse alive (consumer s g name) cfg w = Some (e, w') \<and> acked_settled w'"
proof -
  obtain r w1 where c: "ClaimAndProcess uuid_Parse (consumer s g name) (30 * Second) 10 w = Some (r, w1)" "acked_settled w1"
    using ClaimAndProcess_keeps [OF assms] by blast
  obtain r2 w2 where r: "ReadAndProcess uuid_Parse (consumer s g name) 10 (cfg_WorkerBlockTimeout cfg) w1 = (r2, w2)"
    by (cases "ReadAndProcess uuid_Parse (consumer s g name) 10 (cfg_WorkerBlockTimeout cfg) w1")
  with c ReadAndProcess_keeps [OF c(2) r] show ?thesis by (simp add: worker_pass_def)
qed

lemma worker_loop_keeps:
  "acked_settled w \<Longrightarrow> \<exists>w'. worker_loop k uuid_Parse alive (consumer s g name) cfg w = Some w' \<and> acked_settled w'"
proof (induction k arbitrary: w)
  case 0
  then show ?case by simp
next
  case (Suc k)
  obtain e w1 where p: "worker_pass uuid_Parse alive (consumer s g name) cfg w = Some (e, w1)" "acked_settled w1"
    using worker_pass_keeps [OF Suc.prems] by blast
  with Suc.IH [OF p(2)] Suc.prems show ?case by simp
qed

lemma EnsureGroup_keeps:
  assumes "acked_settled w" "EnsureGroup (consumer s g name) w = (r, w')"
  shows "acked_settled w'"
  using assms group_acked [OF assms(1)] by (auto simp: EnsureGroup_def split: prod.splits option.splits if_splits)

lemma worker_goroutine_keeps:
  assumes "acked_settled w"
  shows "\<exists>w'. worker_goroutine k uuid_Parse alive (consumer s g name) cfg w = Some w' \<and> acked_settled w'"
proof -
  obtain r w1 where e: "EnsureGroup (consumer s g name) w = (r, w1)" by (cases "EnsureGroup (consumer s g name) w")
  with EnsureGroup_keeps [OF assms e] worker_loop_keeps [of w1 k alive s g name cfg] show ?thesis
    by (cases r) (auto simp: worker_goroutine_def)
qed

lemma worker_goroutine_justified:
  assumes "tables_wf (tabs w)" "snap w = None" "all_tasks_wf (tabs w)" "groups_wf (entries w) (handed w) (pending w)"
    and "acks_justified uuid_Parse (task_settled (tabs w)) (entries w) (handed w) (pending w)"
  shows "\<exists>w'. worker_goroutine k uuid_Parse alive (NewConsumer rd s g name (Process (ent_worker db disp pol))) cfg w = Some w'
     \<and> all_tasks_wf (tabs w') \<and> groups_wf (entries w') (handed w') (pending w')
     \<and> acks_justified uuid_Parse (task_settled (tabs w')) (entries w') (handed w') (pending w')"
  using worker_goroutine_keeps [OF keeps_justified [OF assms], of k alive s g name cfg] kept_justified by blast

end

text \<open>The loops consist of operations of \<open>program_step\<close>.\<close>

lemma run_snoc2:
  "program_run db disp rd sq us up u pol sname gname w w1 \<Longrightarrow> program_step db disp rd sq us up u pol sname gname w1 w2 \<Longrightarrow>
   program_step db disp rd sq us up u pol sname gname w2 w3 \<Longrightarrow> program_run db disp rd sq us up u pol sname gname w w3"
  by (blast intro: program_run.next_step)

lemma program_run_trans:
  "program_run db disp rd sq us up u pol sname gname w' w'' \<Longrightarrow> program_run db disp rd sq us up u pol sname gname w w' \<Longrightarrow>
   program_run db disp rd sq us up u pol sname gname w w''"
  by (induction rule: program_run.induct) (auto intro: program_run.next_step)

lemma worker_loop_run:
  assumes "worker_loop k up alive (worker_consumer rd db disp cfg name) cfg w = Some w'"
  shows "program_run db disp rd sq us up u DefaultRetryPolicy (cfg_StreamName cfg) (cfg_ConsumerGroup cfg) w w'"
  using assms
proof (induction k arbitrary: w)
  case 0
  then show ?case by (simp add: program_run.no_step)
next
  case (Suc k)
  let ?c = "worker_consumer rd db disp cfg name"
  let ?run = "program_run db disp rd sq us up u DefaultRetryPolicy (cfg_StreamName cfg) (cfg_ConsumerGroup cfg)"
  show ?case
  proof (cases "alive w")
    case False
    with Suc.prems show ?thesis by (simp add: program_run.no_step)
  next
    case True
    with Suc.prems obtain e w2 where p: "worker_pass up alive ?c cfg w = Some (e, w2)" "worker_loop k up alive ?c cfg w2 = Some w'"
      by (auto split: option.splits)
    from p(1) obtain r1 w1 r2 where c: "ClaimAndProcess up ?c (30 * Second) 10 w = Some (r1, w1)"
      and r: "ReadAndProcess up ?c 10 (cfg_WorkerBlockTimeout cfg) w1 = (r2, w2)"
      by (auto simp: worker_pass_def split: option.splits prod.splits)
    have "?run w w2"
      by (rule run_snoc2 [OF program_run.no_step program_step.worker_claim program_step.worker_read])
         (use c r in \<open>simp_all add: worker_consumer_def\<close>)
    from program_run_trans [OF Suc.IH [OF p(2)] this] show ?thesis .
  qed
qed

lemma worker_goroutine_run:
  assumes "worker_goroutine k up alive (worker_consumer rd db disp cfg name) cfg w = Some w'"
  shows "program_run db disp rd sq us up u DefaultRetryPolicy (cfg_StreamName cfg) (cfg_ConsumerGroup cfg) w w'"
proof -
  let ?c = "worker_consumer rd db disp cfg name"
  let ?run = "program_run db disp rd sq us up u DefaultRetryPolicy (cfg_StreamName cfg) (cfg_ConsumerGroup cfg)"
  obtain e w1 where g: "EnsureGroup ?c w = (e, w1)" by (cases "EnsureGroup ?c w")
  have 1: "?run w w1"
    by (rule program_run.next_step [OF program_run.no_step program_step.worker_start])
       (use g in \<open>simp add: worker_consumer_def\<close>)
  show ?thesis
  proof (cases e)
    case (Some err)
    with assms g 1 show ?thesis by (simp add: worker_goroutine_def)
  next
    case None
    with assms g have "worker_loop k up alive ?c cfg w1 = Some w'" by (simp add: worker_goroutine_def)
    from program_run_trans [OF worker_loop_run [OF this] 1] show ?thesis .
  qed
qed

lemma relay_loop_run:
  "program_run db disp rd sq us up u pol (cfg_StreamName cfg) gname w (relay_loop k alive (cmd_relay sq us rd cfg os_Hostname) w)"
proof (induction k arbitrary: w)
  case 0
  show ?case by (simp add: program_run.no_step)
next
  case (Suc k)
  obtain e w1 where p: "PublishDue (cmd_relay sq us rd cfg os_Hostname) w = (e, w1)"
    by (cases "PublishDue (cmd_relay sq us rd cfg os_Hostname) w")
  have 1: "program_run db disp rd sq us up u pol (cfg_StreamName cfg) gname w w1"
    by (rule program_run.next_step [OF program_run.no_step program_step.relay_pass])
       (use p in \<open>simp add: cmd_relay_def\<close>)
  from program_run_trans [OF Suc.IH 1] 1 p show ?case by simp
qed

end
