(* ===== verification/Mutation_Laws.thy ===== *)
theory Mutation_Laws
  imports Mutation_Notification Mutation_DeliveryAttempt Mutation_OutboxEvent
begin

text \<open>
  What the generic access of a mutation promises: \<^verbatim>\<open>SetField\<close>, \<^verbatim>\<open>AddField\<close>, \<^verbatim>\<open>ClearField\<close> and
  \<^verbatim>\<open>ResetField\<close> accept exactly the changes that the schema allows and behave as updates of a map
  from columns to values, a map of pending additions and a set of cleared columns. The contract
  is the locale \<open>field_mutation\<close>; the three mutation types of \<^verbatim>\<open>ent/mutation.go\<close> are its instances.
\<close>

section \<open>The changes a schema allows\<close>

fun go_value_type :: "ent_value \<Rightarrow> field_type" where
  "go_value_type (GoUUID _) = TypeUUID"
| "go_value_type (GoString _) = TypeString"
| "go_value_type (GoInt _) = TypeInt"
| "go_value_type (GoInt64 _) = TypeInt64"
| "go_value_type (GoTime _) = TypeTime"
| "go_value_type (GoBytes _) = TypeBytes"
| "go_value_type (GoMap _) = TypeJSON"
| "go_value_type (GoNotificationStatus _) = TypeEnum"
| "go_value_type (GoDeliveryAttemptStatus _) = TypeEnum"
| "go_value_type (GoOutboxEventStatus _) = TypeEnum"

text \<open>The entity whose package declares the Go type of an enum value.\<close>

fun enum_entity :: "ent_value \<Rightarrow> string option" where
  "enum_entity (GoNotificationStatus _) = Some ''Notification''"
| "enum_entity (GoDeliveryAttemptStatus _) = Some ''DeliveryAttempt''"
| "enum_entity (GoOutboxEventStatus _) = Some ''OutboxEvent''"
| "enum_entity _ = None"

definition schema_field :: "Field list \<Rightarrow> column \<Rightarrow> Field option" where
  "schema_field fs c = List.find (\<lambda>f. fd_Name f = column_name c) (tl fs)"

definition fits :: "string \<Rightarrow> Field list \<Rightarrow> column \<Rightarrow> ent_value \<Rightarrow> bool" where
  "fits entity fs c v =
     (case schema_field fs c of
        None \<Rightarrow> False
      | Some f \<Rightarrow> go_value_type v = fd_Type f \<and> enum_entity v \<in> {None, Some entity})"

definition optional_column :: "Field list \<Rightarrow> column \<Rightarrow> bool" where
  "optional_column fs c = (case schema_field fs c of None \<Rightarrow> False | Some f \<Rightarrow> fd_Optional f)"

definition numeric_column :: "Field list \<Rightarrow> column \<Rightarrow> bool" where
  "numeric_column fs c =
     (case schema_field fs c of None \<Rightarrow> False | Some f \<Rightarrow> fd_Type f \<in> {TypeInt, TypeInt64})"

section \<open>Changes and what they leave pending\<close>

datatype change =
    ChangeSet column ent_value
  | ChangeAdd column ent_value
  | ChangeClear column
  | ChangeReset column

record pending =
  pd_value :: "column \<Rightarrow> ent_value option"
  pd_added :: "column \<Rightarrow> ent_value option"
  pd_cleared :: "column set"

definition no_changes :: pending where
  "no_changes = \<lparr>pd_value = Map.empty, pd_added = Map.empty, pd_cleared = {}\<rparr>"

fun add_values :: "ent_value option \<Rightarrow> ent_value \<Rightarrow> ent_value" where
  "add_values (Some (GoInt a)) (GoInt b) = GoInt (int64_plus a b)"
| "add_values (Some (GoInt64 a)) (GoInt64 b) = GoInt64 (int64_plus a b)"
| "add_values _ v = v"

fun change_pending :: "change \<Rightarrow> pending \<Rightarrow> pending" where
  "change_pending (ChangeSet c v) p =
     p\<lparr>pd_value := (pd_value p)(c \<mapsto> v), pd_added := (pd_added p)(c := None)\<rparr>"
| "change_pending (ChangeAdd c v) p =
     p\<lparr>pd_added := (pd_added p)(c \<mapsto> add_values (pd_added p c) v)\<rparr>"
| "change_pending (ChangeClear c) p =
     p\<lparr>pd_value := (pd_value p)(c := None), pd_added := (pd_added p)(c := None),
       pd_cleared := insert c (pd_cleared p)\<rparr>"
| "change_pending (ChangeReset c) p =
     p\<lparr>pd_value := (pd_value p)(c := None), pd_added := (pd_added p)(c := None),
       pd_cleared := pd_cleared p - {c}\<rparr>"

fun allowed :: "string \<Rightarrow> Field list \<Rightarrow> change \<Rightarrow> bool" where
  "allowed entity fs (ChangeSet c v) = fits entity fs c v"
| "allowed entity fs (ChangeAdd c v) = (numeric_column fs c \<and> fits entity fs c v)"
| "allowed entity fs (ChangeClear c) = optional_column fs c"
| "allowed entity fs (ChangeReset c) = (schema_field fs c \<noteq> None)"

fun apply_change ::
  "(column \<Rightarrow> ent_value \<Rightarrow> 'm \<Rightarrow> goerror + 'm) \<Rightarrow> (column \<Rightarrow> ent_value \<Rightarrow> 'm \<Rightarrow> goerror + 'm) \<Rightarrow>
   (column \<Rightarrow> 'm \<Rightarrow> goerror + 'm) \<Rightarrow> (column \<Rightarrow> 'm \<Rightarrow> goerror + 'm) \<Rightarrow> change \<Rightarrow> 'm \<Rightarrow> goerror + 'm" where
  "apply_change st ad cl rs (ChangeSet c v) m = st c v m"
| "apply_change st ad cl rs (ChangeAdd c v) m = ad c v m"
| "apply_change st ad cl rs (ChangeClear c) m = cl c m"
| "apply_change st ad cl rs (ChangeReset c) m = rs c m"

fun try_all :: "('c \<Rightarrow> 'm \<Rightarrow> goerror + 'm) \<Rightarrow> 'c list \<Rightarrow> 'm \<Rightarrow> goerror + 'm" where
  "try_all f [] m = Inr m"
| "try_all f (x # xs) m = (case f x m of Inl e \<Rightarrow> Inl e | Inr m1 \<Rightarrow> try_all f xs m1)"

section \<open>The contract\<close>

locale field_mutation =
  fixes entity :: string and fs :: "Field list" and columns :: "column list"
    and new :: "Op \<Rightarrow> 'm"
    and Field AddedField :: "column \<Rightarrow> 'm \<Rightarrow> ent_value option"
    and FieldCleared :: "column \<Rightarrow> 'm \<Rightarrow> bool"
    and Fields AddedFields ClearedFields :: "'m \<Rightarrow> column list"
    and SetField AddField :: "column \<Rightarrow> ent_value \<Rightarrow> 'm \<Rightarrow> goerror + 'm"
    and ClearField ResetField :: "column \<Rightarrow> 'm \<Rightarrow> goerror + 'm"
  assumes SetField_accepts: "isl (SetField c v m) \<longleftrightarrow> \<not> fits entity fs c v"
    and AddField_accepts: "isl (AddField c v m) \<longleftrightarrow> \<not> (numeric_column fs c \<and> fits entity fs c v)"
    and ClearField_accepts: "isl (ClearField c m) \<longleftrightarrow> \<not> optional_column fs c"
    and ResetField_accepts: "isl (ResetField c m) \<longleftrightarrow> schema_field fs c = None"
    and after_SetField: "SetField c v m = Inr m' \<Longrightarrow>
      Field d m' = (if d = c then Some v else Field d m) \<and>
      AddedField d m' = (if d = c then None else AddedField d m) \<and>
      FieldCleared d m' = FieldCleared d m"
    and after_AddField: "AddField c v m = Inr m' \<Longrightarrow>
      Field d m' = Field d m \<and>
      AddedField d m' = (if d = c then Some (add_values (AddedField c m) v) else AddedField d m) \<and>
      FieldCleared d m' = FieldCleared d m"
    and after_ClearField: "ClearField c m = Inr m' \<Longrightarrow>
      Field d m' = (if d = c then None else Field d m) \<and>
      AddedField d m' = (if d = c then None else AddedField d m) \<and>
      FieldCleared d m' = (d = c \<or> FieldCleared d m)"
    and after_ResetField: "ResetField c m = Inr m' \<Longrightarrow>
      Field d m' = (if d = c then None else Field d m) \<and>
      AddedField d m' = (if d = c then None else AddedField d m) \<and>
      FieldCleared d m' = (FieldCleared d m \<and> (d = c \<longrightarrow> \<not> optional_column fs c))"
    and Fields_lists: "Fields m = filter (\<lambda>c. Field c m \<noteq> None) columns"
    and AddedFields_lists: "AddedFields m = filter (\<lambda>c. AddedField c m \<noteq> None) (filter (numeric_column fs) columns)"
    and ClearedFields_lists: "ClearedFields m = filter (\<lambda>c. FieldCleared c m) (filter (optional_column fs) columns)"
    and of_new: "Field c (new op) = None \<and> AddedField c (new op) = None \<and> \<not> FieldCleared c (new op)"
begin

definition shows_as :: "'m \<Rightarrow> pending \<Rightarrow> bool" where
  "shows_as m p \<longleftrightarrow>
     (\<forall>c. Field c m = pd_value p c \<and> AddedField c m = pd_added p c \<and>
          FieldCleared c m = (c \<in> pd_cleared p) \<and> (c \<in> pd_cleared p \<longrightarrow> optional_column fs c))"

lemma change_step:
  assumes "shows_as m p"
  shows "case apply_change SetField AddField ClearField ResetField x m of
           Inl e \<Rightarrow> \<not> allowed entity fs x
         | Inr m1 \<Rightarrow> allowed entity fs x \<and> shows_as m1 (change_pending x p)"
proof (cases x)
  case (ChangeSet c v)
  then show ?thesis
    using assms SetField_accepts[of c v m] after_SetField[of c v m]
    by (auto simp: shows_as_def split: sum.splits)
next
  case (ChangeAdd c v)
  then show ?thesis
    using assms AddField_accepts[of c v m] after_AddField[of c v m]
    by (auto simp: shows_as_def split: sum.splits)
next
  case (ChangeClear c)
  then show ?thesis
    using assms ClearField_accepts[of c m] after_ClearField[of c m]
    by (auto simp: shows_as_def split: sum.splits)
next
  case (ChangeReset c)
  then show ?thesis
    using assms ResetField_accepts[of c m] after_ResetField[of c m]
    by (auto simp: shows_as_def split: sum.splits)
qed

lemma changes_refine:
  "shows_as m p \<Longrightarrow>
   (case try_all (apply_change SetField AddField ClearField ResetField) xs m of
      Inl e \<Rightarrow> \<not> list_all (allowed entity fs) xs
    | Inr m1 \<Rightarrow> list_all (allowed entity fs) xs \<and> shows_as m1 (fold change_pending xs p))"
proof (induction xs arbitrary: m p)
  case (Cons x xs)
  show ?case
  proof (cases "apply_change SetField AddField ClearField ResetField x m")
    case (Inl e)
    then show ?thesis using change_step[OF Cons.prems, of x] by simp
  next
    case (Inr m1)
    then show ?thesis
      using change_step[OF Cons.prems, of x] Cons.IH[of m1 "change_pending x p"]
      by (auto split: sum.splits)
  qed
qed simp

lemma shows_as_new: "shows_as (new op) no_changes"
  using of_new by (simp add: shows_as_def no_changes_def)

lemma new_refines:
  "case try_all (apply_change SetField AddField ClearField ResetField) xs (new op) of
     Inl e \<Rightarrow> \<not> list_all (allowed entity fs) xs
   | Inr m \<Rightarrow> list_all (allowed entity fs) xs \<and>
       (let p = fold change_pending xs no_changes in
        (\<forall>c. Field c m = pd_value p c \<and> AddedField c m = pd_added p c \<and>
             FieldCleared c m = (c \<in> pd_cleared p)) \<and>
        Fields m = filter (\<lambda>c. pd_value p c \<noteq> None) columns \<and>
        AddedFields m = filter (\<lambda>c. numeric_column fs c \<and> pd_added p c \<noteq> None) columns \<and>
        ClearedFields m = filter (\<lambda>c. optional_column fs c \<and> c \<in> pd_cleared p) columns)"
  using changes_refine[OF shows_as_new, of xs op]
  by (auto simp: shows_as_def Fields_lists AddedFields_lists ClearedFields_lists
      split: sum.splits)

end

section \<open>The three mutation types\<close>

lemmas schema_lookup =
  fits_def schema_field_def optional_column_def numeric_column_def field_def

lemma filter_as_append: "filter P (x # xs) = (if P x then [x] else []) @ filter P xs"
  by simp

interpretation nml: field_mutation "''Notification''" Notification_Fields "tl notification_Columns" newNotificationMutation
  NotificationMutation_Field NotificationMutation_AddedField NotificationMutation_FieldCleared NotificationMutation_Fields NotificationMutation_AddedFields
  NotificationMutation_ClearedFields NotificationMutation_SetField NotificationMutation_AddField NotificationMutation_ClearField NotificationMutation_ResetField
proof
  fix c d v m m' op
  note unfolds = NotificationMutation_defs schema_lookup Notification_Fields_def
  show "isl (NotificationMutation_SetField c v m) \<longleftrightarrow> \<not> fits ''Notification'' Notification_Fields c v"
    by (cases c) (simp_all add: unfolds split: ent_value.split)
  show "isl (NotificationMutation_AddField c v m) \<longleftrightarrow>
      \<not> (numeric_column Notification_Fields c \<and> fits ''Notification'' Notification_Fields c v)"
    by (cases c) (simp_all add: unfolds split: ent_value.split)
  show "isl (NotificationMutation_ClearField c m) \<longleftrightarrow> \<not> optional_column Notification_Fields c"
    by (cases c) (simp_all add: unfolds)
  show "isl (NotificationMutation_ResetField c m) \<longleftrightarrow> schema_field Notification_Fields c = None"
    by (cases c) (simp_all add: unfolds)
  show "NotificationMutation_Field d m' = (if d = c then Some v else NotificationMutation_Field d m) \<and>
      NotificationMutation_AddedField d m' = (if d = c then None else NotificationMutation_AddedField d m) \<and>
      NotificationMutation_FieldCleared d m' = NotificationMutation_FieldCleared d m"
    if "NotificationMutation_SetField c v m = Inr m'"
    using that by (cases c; simp add: NotificationMutation_SetField_def split: ent_value.split_asm; hypsubst;
      simp add: NotificationMutation_defs split: column.split)
  show "NotificationMutation_Field d m' = NotificationMutation_Field d m \<and>
      NotificationMutation_AddedField d m' = (if d = c then Some (add_values (NotificationMutation_AddedField c m) v) else NotificationMutation_AddedField d m) \<and>
      NotificationMutation_FieldCleared d m' = NotificationMutation_FieldCleared d m"
    if "NotificationMutation_AddField c v m = Inr m'"
    using that by (cases c; simp add: NotificationMutation_AddField_def split: ent_value.split_asm; hypsubst;
      simp add: NotificationMutation_defs split: column.split option.split)
  show "NotificationMutation_Field d m' = (if d = c then None else NotificationMutation_Field d m) \<and>
      NotificationMutation_AddedField d m' = (if d = c then None else NotificationMutation_AddedField d m) \<and>
      NotificationMutation_FieldCleared d m' = (d = c \<or> NotificationMutation_FieldCleared d m)"
    if "NotificationMutation_ClearField c m = Inr m'"
    using that by (cases c; simp add: NotificationMutation_ClearField_def; hypsubst;
      simp add: NotificationMutation_defs split: column.split)
  show "NotificationMutation_Field d m' = (if d = c then None else NotificationMutation_Field d m) \<and>
      NotificationMutation_AddedField d m' = (if d = c then None else NotificationMutation_AddedField d m) \<and>
      NotificationMutation_FieldCleared d m' = (NotificationMutation_FieldCleared d m \<and> (d = c \<longrightarrow> \<not> optional_column Notification_Fields c))"
    if "NotificationMutation_ResetField c m = Inr m'"
    using that by (cases c; simp add: NotificationMutation_ResetField_def; hypsubst;
      simp add: unfolds split: column.split)
  show "NotificationMutation_Fields m = filter (\<lambda>c. NotificationMutation_Field c m \<noteq> None) (tl notification_Columns)"
    by (simp add: NotificationMutation_defs notification_Columns_def filter_as_append del: filter.simps(2))
  show "NotificationMutation_AddedFields m = filter (\<lambda>c. NotificationMutation_AddedField c m \<noteq> None)
      (filter (numeric_column Notification_Fields) (tl notification_Columns))"
    by (simp add: unfolds notification_Columns_def filter_as_append del: filter.simps(2))
  show "NotificationMutation_ClearedFields m = filter (\<lambda>c. NotificationMutation_FieldCleared c m)
      (filter (optional_column Notification_Fields) (tl notification_Columns))"
    by (simp add: unfolds notification_Columns_def filter_as_append del: filter.simps(2))
  show "NotificationMutation_Field c (newNotificationMutation op) = None \<and> NotificationMutation_AddedField c (newNotificationMutation op) = None \<and>
      \<not> NotificationMutation_FieldCleared c (newNotificationMutation op)"
    by (simp add: NotificationMutation_defs split: column.split)
qed

interpretation dml: field_mutation "''DeliveryAttempt''" DeliveryAttempt_Fields "tl deliveryattempt_Columns" newDeliveryAttemptMutation
  DeliveryAttemptMutation_Field DeliveryAttemptMutation_AddedField DeliveryAttemptMutation_FieldCleared DeliveryAttemptMutation_Fields DeliveryAttemptMutation_AddedFields
  DeliveryAttemptMutation_ClearedFields DeliveryAttemptMutation_SetField DeliveryAttemptMutation_AddField DeliveryAttemptMutation_ClearField DeliveryAttemptMutation_ResetField
proof
  fix c d v m m' op
  note unfolds = DeliveryAttemptMutation_defs schema_lookup DeliveryAttempt_Fields_def
  show "isl (DeliveryAttemptMutation_SetField c v m) \<longleftrightarrow> \<not> fits ''DeliveryAttempt'' DeliveryAttempt_Fields c v"
    by (cases c) (simp_all add: unfolds split: ent_value.split)
  show "isl (DeliveryAttemptMutation_AddField c v m) \<longleftrightarrow>
      \<not> (numeric_column DeliveryAttempt_Fields c \<and> fits ''DeliveryAttempt'' DeliveryAttempt_Fields c v)"
    by (cases c) (simp_all add: unfolds split: ent_value.split)
  show "isl (DeliveryAttemptMutation_ClearField c m) \<longleftrightarrow> \<not> optional_column DeliveryAttempt_Fields c"
    by (cases c) (simp_all add: unfolds)
  show "isl (DeliveryAttemptMutation_ResetField c m) \<longleftrightarrow> schema_field DeliveryAttempt_Fields c = None"
    by (cases c) (simp_all add: unfolds)
  show "DeliveryAttemptMutation_Field d m' = (if d = c then Some v else DeliveryAttemptMutation_Field d m) \<and>
      DeliveryAttemptMutation_AddedField d m' = (if d = c then None else DeliveryAttemptMutation_AddedField d m) \<and>
      DeliveryAttemptMutation_FieldCleared d m' = DeliveryAttemptMutation_FieldCleared d m"
    if "DeliveryAttemptMutation_SetField c v m = Inr m'"
    using that by (cases c; simp add: DeliveryAttemptMutation_SetField_def split: ent_value.split_asm; hypsubst;
      simp add: DeliveryAttemptMutation_defs split: column.split)
  show "DeliveryAttemptMutation_Field d m' = DeliveryAttemptMutation_Field d m \<and>
      DeliveryAttemptMutation_AddedField d m' = (if d = c then Some (add_values (DeliveryAttemptMutation_AddedField c m) v) else DeliveryAttemptMutation_AddedField d m) \<and>
      DeliveryAttemptMutation_FieldCleared d m' = DeliveryAttemptMutation_FieldCleared d m"
    if "DeliveryAttemptMutation_AddField c v m = Inr m'"
    using that by (cases c; simp add: DeliveryAttemptMutation_AddField_def split: ent_value.split_asm; hypsubst;
      simp add: DeliveryAttemptMutation_defs split: column.split option.split)
  show "DeliveryAttemptMutation_Field d m' = (if d = c then None else DeliveryAttemptMutation_Field d m) \<and>
      DeliveryAttemptMutation_AddedField d m' = (if d = c then None else DeliveryAttemptMutation_AddedField d m) \<and>
      DeliveryAttemptMutation_FieldCleared d m' = (d = c \<or> DeliveryAttemptMutation_FieldCleared d m)"
    if "DeliveryAttemptMutation_ClearField c m = Inr m'"
    using that by (cases c; simp add: DeliveryAttemptMutation_ClearField_def; hypsubst;
      simp add: DeliveryAttemptMutation_defs split: column.split)
  show "DeliveryAttemptMutation_Field d m' = (if d = c then None else DeliveryAttemptMutation_Field d m) \<and>
      DeliveryAttemptMutation_AddedField d m' = (if d = c then None else DeliveryAttemptMutation_AddedField d m) \<and>
      DeliveryAttemptMutation_FieldCleared d m' = (DeliveryAttemptMutation_FieldCleared d m \<and> (d = c \<longrightarrow> \<not> optional_column DeliveryAttempt_Fields c))"
    if "DeliveryAttemptMutation_ResetField c m = Inr m'"
    using that by (cases c; simp add: DeliveryAttemptMutation_ResetField_def; hypsubst;
      simp add: unfolds split: column.split)
  show "DeliveryAttemptMutation_Fields m = filter (\<lambda>c. DeliveryAttemptMutation_Field c m \<noteq> None) (tl deliveryattempt_Columns)"
    by (simp add: DeliveryAttemptMutation_defs deliveryattempt_Columns_def filter_as_append del: filter.simps(2))
  show "DeliveryAttemptMutation_AddedFields m = filter (\<lambda>c. DeliveryAttemptMutation_AddedField c m \<noteq> None)
      (filter (numeric_column DeliveryAttempt_Fields) (tl deliveryattempt_Columns))"
    by (simp add: unfolds deliveryattempt_Columns_def filter_as_append del: filter.simps(2))
  show "DeliveryAttemptMutation_ClearedFields m = filter (\<lambda>c. DeliveryAttemptMutation_FieldCleared c m)
      (filter (optional_column DeliveryAttempt_Fields) (tl deliveryattempt_Columns))"
    by (simp add: unfolds deliveryattempt_Columns_def filter_as_append del: filter.simps(2))
  show "DeliveryAttemptMutation_Field c (newDeliveryAttemptMutation op) = None \<and> DeliveryAttemptMutation_AddedField c (newDeliveryAttemptMutation op) = None \<and>
      \<not> DeliveryAttemptMutation_FieldCleared c (newDeliveryAttemptMutation op)"
    by (simp add: DeliveryAttemptMutation_defs split: column.split)
qed

interpretation oml: field_mutation "''OutboxEvent''" OutboxEvent_Fields "tl outboxevent_Columns" newOutboxEventMutation
  OutboxEventMutation_Field OutboxEventMutation_AddedField OutboxEventMutation_FieldCleared OutboxEventMutation_Fields OutboxEventMutation_AddedFields
  OutboxEventMutation_ClearedFields OutboxEventMutation_SetField OutboxEventMutation_AddField OutboxEventMutation_ClearField OutboxEventMutation_ResetField
proof
  fix c d v m m' op
  note unfolds = OutboxEventMutation_defs schema_lookup OutboxEvent_Fields_def
  show "isl (OutboxEventMutation_SetField c v m) \<longleftrightarrow> \<not> fits ''OutboxEvent'' OutboxEvent_Fields c v"
    by (cases c) (simp_all add: unfolds split: ent_value.split)
  show "isl (OutboxEventMutation_AddField c v m) \<longleftrightarrow>
      \<not> (numeric_column OutboxEvent_Fields c \<and> fits ''OutboxEvent'' OutboxEvent_Fields c v)"
    by (cases c) (simp_all add: unfolds split: ent_value.split)
  show "isl (OutboxEventMutation_ClearField c m) \<longleftrightarrow> \<not> optional_column OutboxEvent_Fields c"
    by (cases c) (simp_all add: unfolds)
  show "isl (OutboxEventMutation_ResetField c m) \<longleftrightarrow> schema_field OutboxEvent_Fields c = None"
    by (cases c) (simp_all add: unfolds)
  show "OutboxEventMutation_Field d m' = (if d = c then Some v else OutboxEventMutation_Field d m) \<and>
      OutboxEventMutation_AddedField d m' = (if d = c then None else OutboxEventMutation_AddedField d m) \<and>
      OutboxEventMutation_FieldCleared d m' = OutboxEventMutation_FieldCleared d m"
    if "OutboxEventMutation_SetField c v m = Inr m'"
    using that by (cases c; simp add: OutboxEventMutation_SetField_def split: ent_value.split_asm; hypsubst;
      simp add: OutboxEventMutation_defs split: column.split)
  show "OutboxEventMutation_Field d m' = OutboxEventMutation_Field d m \<and>
      OutboxEventMutation_AddedField d m' = (if d = c then Some (add_values (OutboxEventMutation_AddedField c m) v) else OutboxEventMutation_AddedField d m) \<and>
      OutboxEventMutation_FieldCleared d m' = OutboxEventMutation_FieldCleared d m"
    if "OutboxEventMutation_AddField c v m = Inr m'"
    using that by (cases c; simp add: OutboxEventMutation_AddField_def split: ent_value.split_asm; hypsubst;
      simp add: OutboxEventMutation_defs split: column.split option.split)
  show "OutboxEventMutation_Field d m' = (if d = c then None else OutboxEventMutation_Field d m) \<and>
      OutboxEventMutation_AddedField d m' = (if d = c then None else OutboxEventMutation_AddedField d m) \<and>
      OutboxEventMutation_FieldCleared d m' = (d = c \<or> OutboxEventMutation_FieldCleared d m)"
    if "OutboxEventMutation_ClearField c m = Inr m'"
    using that by (cases c; simp add: OutboxEventMutation_ClearField_def; hypsubst;
      simp add: OutboxEventMutation_defs split: column.split)
  show "OutboxEventMutation_Field d m' = (if d = c then None else OutboxEventMutation_Field d m) \<and>
      OutboxEventMutation_AddedField d m' = (if d = c then None else OutboxEventMutation_AddedField d m) \<and>
      OutboxEventMutation_FieldCleared d m' = (OutboxEventMutation_FieldCleared d m \<and> (d = c \<longrightarrow> \<not> optional_column OutboxEvent_Fields c))"
    if "OutboxEventMutation_ResetField c m = Inr m'"
    using that by (cases c; simp add: OutboxEventMutation_ResetField_def; hypsubst;
      simp add: unfolds split: column.split)
  show "OutboxEventMutation_Fields m = filter (\<lambda>c. OutboxEventMutation_Field c m \<noteq> None) (tl outboxevent_Columns)"
    by (simp add: OutboxEventMutation_defs outboxevent_Columns_def filter_as_append del: filter.simps(2))
  show "OutboxEventMutation_AddedFields m = filter (\<lambda>c. OutboxEventMutation_AddedField c m \<noteq> None)
      (filter (numeric_column OutboxEvent_Fields) (tl outboxevent_Columns))"
    by (simp add: unfolds outboxevent_Columns_def filter_as_append del: filter.simps(2))
  show "OutboxEventMutation_ClearedFields m = filter (\<lambda>c. OutboxEventMutation_FieldCleared c m)
      (filter (optional_column OutboxEvent_Fields) (tl outboxevent_Columns))"
    by (simp add: unfolds outboxevent_Columns_def filter_as_append del: filter.simps(2))
  show "OutboxEventMutation_Field c (newOutboxEventMutation op) = None \<and> OutboxEventMutation_AddedField c (newOutboxEventMutation op) = None \<and>
      \<not> OutboxEventMutation_FieldCleared c (newOutboxEventMutation op)"
    by (simp add: OutboxEventMutation_defs split: column.split)
qed

section \<open>Sequences of changes to a new mutation\<close>

definition NotificationMutation_apply :: "change list \<Rightarrow> NotificationMutation \<Rightarrow> goerror + NotificationMutation" where
  "NotificationMutation_apply =
     try_all (apply_change NotificationMutation_SetField NotificationMutation_AddField NotificationMutation_ClearField NotificationMutation_ResetField)"

definition DeliveryAttemptMutation_apply :: "change list \<Rightarrow> DeliveryAttemptMutation \<Rightarrow> goerror + DeliveryAttemptMutation" where
  "DeliveryAttemptMutation_apply =
     try_all (apply_change DeliveryAttemptMutation_SetField DeliveryAttemptMutation_AddField DeliveryAttemptMutation_ClearField DeliveryAttemptMutation_ResetField)"

definition OutboxEventMutation_apply :: "change list \<Rightarrow> OutboxEventMutation \<Rightarrow> goerror + OutboxEventMutation" where
  "OutboxEventMutation_apply =
     try_all (apply_change OutboxEventMutation_SetField OutboxEventMutation_AddField OutboxEventMutation_ClearField OutboxEventMutation_ResetField)"

end
