(* ===== verification/Ent_Migrate.thy ===== *)
theory Ent_Migrate
  imports Ent_Laws
begin

text \<open>
  The schema that the migration creates: \<^verbatim>\<open>ent/migrate/schema.go\<close> (columns, tables, indexes),
  \<^verbatim>\<open>ent/migrate/migrate.go\<close>, and the indexes and table names declared in \<^verbatim>\<open>ent/schema\<close>. \<open>row_fits\<close> is
  what the columns of a table demand of a row. The migration engine of the ORM library, which turns
  the tables into DDL, is a parameter.
\<close>

section \<open>Columns, indexes and tables\<close>

record SqlColumn =
  sc_Name :: string
  sc_Type :: field_type
  sc_Nullable :: bool
  sc_Enums :: "string list"
  sc_Default :: field_default

record SqlIndex =
  si_Name :: string
  si_Unique :: bool
  si_Columns :: "SqlColumn list"
  si_Where :: "string option"

record SqlTable =
  st_Name :: string
  st_Columns :: "SqlColumn list"
  st_PrimaryKey :: "SqlColumn list"
  st_Indexes :: "SqlIndex list"
  st_Annotation :: "string option"

definition sql_column :: "string \<Rightarrow> field_type \<Rightarrow> SqlColumn" where
  "sql_column name t = \<lparr>sc_Name = name, sc_Type = t, sc_Nullable = False, sc_Enums = [], sc_Default = NoDefault\<rparr>"

definition DeliveryAttemptsColumns :: "SqlColumn list" where
  "DeliveryAttemptsColumns =
     [sql_column ''id'' TypeUUID,
      sql_column ''notification_id'' TypeUUID,
      sql_column ''attempt_number'' TypeInt,
      (sql_column ''status'' TypeEnum)\<lparr>sc_Enums := [''succeeded'', ''retrying'', ''failed'']\<rparr>,
      (sql_column ''http_status'' TypeInt)\<lparr>sc_Nullable := True\<rparr>,
      (sql_column ''error_message'' TypeString)\<lparr>sc_Nullable := True\<rparr>,
      (sql_column ''duration_ms'' TypeInt64)\<lparr>sc_Default := DefaultInt 0\<rparr>,
      sql_column ''created_at'' TypeTime]"

definition NotificationsColumns :: "SqlColumn list" where
  "NotificationsColumns =
     [sql_column ''id'' TypeUUID,
      sql_column ''url'' TypeString,
      (sql_column ''method'' TypeString)\<lparr>sc_Default := DefaultStr ''POST''\<rparr>,
      (sql_column ''headers'' TypeJSON)\<lparr>sc_Nullable := True\<rparr>,
      (sql_column ''body'' TypeBytes)\<lparr>sc_Nullable := True\<rparr>,
      (sql_column ''status'' TypeEnum)\<lparr>sc_Enums := [''pending'', ''delivering'', ''succeeded'', ''retrying'', ''failed''], sc_Default := DefaultStr ''pending''\<rparr>,
      (sql_column ''attempt_count'' TypeInt)\<lparr>sc_Default := DefaultInt 0\<rparr>,
      (sql_column ''max_attempts'' TypeInt)\<lparr>sc_Default := DefaultInt 5\<rparr>,
      (sql_column ''last_error'' TypeString)\<lparr>sc_Nullable := True\<rparr>,
      (sql_column ''next_attempt_at'' TypeTime)\<lparr>sc_Nullable := True\<rparr>,
      sql_column ''created_at'' TypeTime,
      sql_column ''updated_at'' TypeTime]"

definition OutboxEventsColumns :: "SqlColumn list" where
  "OutboxEventsColumns =
     [sql_column ''id'' TypeUUID,
      sql_column ''notification_id'' TypeUUID,
      (sql_column ''event_type'' TypeString)\<lparr>sc_Default := DefaultStr ''notification.delivery_requested''\<rparr>,
      (sql_column ''status'' TypeEnum)\<lparr>sc_Enums := [''pending'', ''publishing'', ''published'', ''failed''], sc_Default := DefaultStr ''pending''\<rparr>,
      sql_column ''scheduled_at'' TypeTime,
      (sql_column ''stream_id'' TypeString)\<lparr>sc_Nullable := True\<rparr>,
      (sql_column ''locked_by'' TypeString)\<lparr>sc_Nullable := True\<rparr>,
      (sql_column ''locked_at'' TypeTime)\<lparr>sc_Nullable := True\<rparr>,
      (sql_column ''last_error'' TypeString)\<lparr>sc_Nullable := True\<rparr>,
      (sql_column ''published_at'' TypeTime)\<lparr>sc_Nullable := True\<rparr>,
      sql_column ''created_at'' TypeTime,
      sql_column ''updated_at'' TypeTime]"

text \<open>The \<^verbatim>\<open>init\<close> function of the file adds the table names as annotations.\<close>

definition DeliveryAttemptsTable :: SqlTable where
  "DeliveryAttemptsTable =
     \<lparr>st_Name = ''delivery_attempts'', st_Columns = DeliveryAttemptsColumns,
      st_PrimaryKey = [DeliveryAttemptsColumns ! 0],
      st_Indexes =
        [\<lparr>si_Name = ''deliveryattempt_notification_id_created_at'', si_Unique = False,
          si_Columns = [DeliveryAttemptsColumns ! 1, DeliveryAttemptsColumns ! 7], si_Where = None\<rparr>],
      st_Annotation = Some ''delivery_attempts''\<rparr>"

definition NotificationsTable :: SqlTable where
  "NotificationsTable =
     \<lparr>st_Name = ''notifications'', st_Columns = NotificationsColumns,
      st_PrimaryKey = [NotificationsColumns ! 0], st_Indexes = [], st_Annotation = Some ''notifications''\<rparr>"

definition OutboxEventsTable :: SqlTable where
  "OutboxEventsTable =
     \<lparr>st_Name = ''outbox_events'', st_Columns = OutboxEventsColumns,
      st_PrimaryKey = [OutboxEventsColumns ! 0],
      st_Indexes =
        [\<lparr>si_Name = ''outboxevent_scheduled_at_created_at'', si_Unique = False,
          si_Columns = [OutboxEventsColumns ! 4, OutboxEventsColumns ! 10],
          si_Where = Some ''status IN ('pending', 'publishing')''\<rparr>],
      st_Annotation = Some ''outbox_events''\<rparr>"

definition Tables :: "SqlTable list" where
  "Tables = [DeliveryAttemptsTable, NotificationsTable, OutboxEventsTable]"

section \<open>Running the migration\<close>

text \<open>\<^verbatim>\<open>schema.NewMigrate\<close> may fail; the engine it returns creates tables.\<close>

type_synonym 'w new_migrate = "goerror + (SqlTable list \<Rightarrow> 'w \<Rightarrow> goerror option \<times> 'w)"

definition migrate_Create :: "'w new_migrate \<Rightarrow> SqlTable list \<Rightarrow> 'w \<Rightarrow> goerror option \<times> 'w" where
  "migrate_Create newMigrate tables w =
     (case newMigrate of
        Inl err \<Rightarrow> (Some (ErrWrap ''ent/migrate: '' err ''''), w)
      | Inr create \<Rightarrow> create tables w)"

definition Schema_Create :: "'w new_migrate \<Rightarrow> 'w \<Rightarrow> goerror option \<times> 'w" where
  "Schema_Create newMigrate w = migrate_Create newMigrate Tables w"

text \<open>The same over the engine of a driver that only writes the statements down.\<close>

definition Schema_WriteTo :: "'w new_migrate \<Rightarrow> 'w \<Rightarrow> goerror option \<times> 'w" where
  "Schema_WriteTo newWriter w = migrate_Create newWriter Tables w"

section \<open>What the schema packages declare\<close>

record SchemaIndex =
  xi_Fields :: "string list"
  xi_Where :: "string option"

definition DeliveryAttempt_Indexes :: "SchemaIndex list" where
  "DeliveryAttempt_Indexes = [\<lparr>xi_Fields = [''notification_id'', ''created_at''], xi_Where = None\<rparr>]"

definition OutboxEvent_Indexes :: "SchemaIndex list" where
  "OutboxEvent_Indexes =
     [\<lparr>xi_Fields = [''scheduled_at'', ''created_at''],
       xi_Where = Some ''status IN ('pending', 'publishing')''\<rparr>]"

definition Notification_Annotations :: string where
  "Notification_Annotations = ''notifications''"

definition DeliveryAttempt_Annotations :: string where
  "DeliveryAttempt_Annotations = ''delivery_attempts''"

definition OutboxEvent_Annotations :: string where
  "OutboxEvent_Annotations = ''outbox_events''"

section \<open>The table a schema stands for\<close>

text \<open>A column is nullable if the field is optional; only literal defaults reach the database.\<close>

definition column_of_field :: "Field \<Rightarrow> SqlColumn" where
  "column_of_field f =
     \<lparr>sc_Name = fd_Name f, sc_Type = fd_Type f, sc_Nullable = fd_Optional f, sc_Enums = fd_Values f,
      sc_Default = (case fd_Default f of DefaultStr s \<Rightarrow> DefaultStr s | DefaultInt n \<Rightarrow> DefaultInt n | _ \<Rightarrow> NoDefault)\<rparr>"

fun join_names :: "string list \<Rightarrow> string" where
  "join_names [] = ''''"
| "join_names (x # xs) = ''_'' @ x @ join_names xs"

definition named_columns :: "SqlColumn list \<Rightarrow> string list \<Rightarrow> SqlColumn list" where
  "named_columns ks names = concat (map (\<lambda>x. filter (\<lambda>k. sc_Name k = x) ks) names)"

definition index_of_schema :: "string \<Rightarrow> SqlColumn list \<Rightarrow> SchemaIndex \<Rightarrow> SqlIndex" where
  "index_of_schema label ks x =
     \<lparr>si_Name = label @ join_names (xi_Fields x), si_Unique = False,
      si_Columns = named_columns ks (xi_Fields x), si_Where = xi_Where x\<rparr>"

definition table_of_schema :: "string \<Rightarrow> string \<Rightarrow> Field list \<Rightarrow> SchemaIndex list \<Rightarrow> SqlTable" where
  "table_of_schema label name fs xs =
     (let ks = map column_of_field fs in
      \<lparr>st_Name = name, st_Columns = ks, st_PrimaryKey = named_columns ks [''id''],
       st_Indexes = map (index_of_schema label ks) xs, st_Annotation = Some name\<rparr>)"

text \<open>The text of the condition of a partial index over some values of the status.\<close>

fun quoted_list :: "string list \<Rightarrow> string" where
  "quoted_list [] = ''''"
| "quoted_list [x] = CHR 0x27 # x @ [CHR 0x27]"
| "quoted_list (x # y # xs) = CHR 0x27 # x @ CHR 0x27 # '', '' @ quoted_list (y # xs)"

definition status_in :: "string list \<Rightarrow> string" where
  "status_in xs = ''status IN ('' @ quoted_list xs @ '')''"

lemmas columns_defs =
  DeliveryAttemptsColumns_def NotificationsColumns_def OutboxEventsColumns_def sql_column_def

lemmas tables_defs =
  DeliveryAttemptsTable_def NotificationsTable_def OutboxEventsTable_def columns_defs

lemmas schema_defs =
  Notification_Fields_def DeliveryAttempt_Fields_def OutboxEvent_Fields_def field_def
  DeliveryAttempt_Indexes_def OutboxEvent_Indexes_def
  Notification_Annotations_def DeliveryAttempt_Annotations_def OutboxEvent_Annotations_def

lemmas table_of_schema_defs =
  table_of_schema_def column_of_field_def index_of_schema_def named_columns_def Let_def

section \<open>Rows that fit a table\<close>

fun types_of_value :: "sql_value \<Rightarrow> field_type list" where
  "types_of_value (VUuid _) = [TypeUUID]"
| "types_of_value (VString _) = [TypeString, TypeEnum]"
| "types_of_value (VInt _) = [TypeInt, TypeInt64]"
| "types_of_value (VTime _) = [TypeTime]"
| "types_of_value (VBytes _) = [TypeBytes]"
| "types_of_value (VJson _) = [TypeJSON]"

definition cell_fits :: "SqlColumn \<Rightarrow> sql_value option \<Rightarrow> bool" where
  "cell_fits k v =
     (case v of
        None \<Rightarrow> sc_Nullable k
      | Some x \<Rightarrow> sc_Type k \<in> set (types_of_value x) \<and>
          (sc_Type k = TypeEnum \<longrightarrow> x \<in> VString ` set (sc_Enums k)))"

definition row_fits :: "SqlTable \<Rightarrow> column list \<Rightarrow> row \<Rightarrow> bool" where
  "row_fits tb cs r = list_all2 (\<lambda>k c. sc_Name k = column_name c \<and> cell_fits k (r c)) (st_Columns tb) cs"

lemma map_of_spec_field:
  "map_of (spec_field c f y) d = (if d = c then map_option f y else None)"
  by (cases y) simp_all

lemma check_None:
  "missing y name msg = None \<longleftrightarrow> y \<noteq> None"
  "validated y g name msg = None \<longleftrightarrow> (\<forall>v. y = Some v \<longrightarrow> g v = None)"
  by (cases y; simp add: validated_def split: option.split)+

lemma cell_fits_None [simp]: "cell_fits k None \<longleftrightarrow> sc_Nullable k"
  by (simp add: cell_fits_def)

lemma cell_fits_Some:
  "sc_Type k \<noteq> TypeEnum \<Longrightarrow> cell_fits k (Some x) \<longleftrightarrow> sc_Type k \<in> set (types_of_value x)"
  "sc_Type k = TypeEnum \<Longrightarrow> cell_fits k (Some x) \<longleftrightarrow> (\<exists>s\<in>set (sc_Enums k). x = VString s)"
  by (auto simp: cell_fits_def)

lemma cell_fits_add:
  assumes "cell_fits k v" "sc_Type k = TypeInt \<or> sc_Type k = TypeInt64"
  shows "cell_fits k (add_int v n)"
  using assms by (auto simp: cell_fits_def add_int_def split: option.splits sql_value.splits)

lemma cell_fits_case:
  "cell_fits k (case y of None \<Rightarrow> v | Some z \<Rightarrow> g z) \<longleftrightarrow>
     (case y of None \<Rightarrow> cell_fits k v | Some z \<Rightarrow> cell_fits k (g z))"
  by (cases y) simp_all

lemma status_validated:
  "notification_StatusValidator s = None \<longleftrightarrow> s \<in> set (sc_Enums (NotificationsColumns ! 5))"
  "deliveryattempt_StatusValidator s = None \<longleftrightarrow> s \<in> set (sc_Enums (DeliveryAttemptsColumns ! 3))"
  "outboxevent_StatusValidator s = None \<longleftrightarrow> s \<in> set (sc_Enums (OutboxEventsColumns ! 3))"
  by (simp_all add: notification_StatusValidator_def deliveryattempt_StatusValidator_def
      outboxevent_StatusValidator_def columns_defs)

lemmas fits_defs =
  row_fits_def tables_defs notification_Columns_def deliveryattempt_Columns_def outboxevent_Columns_def

lemmas fits_cells = cell_fits_case cell_fits_Some cell_fits_add status_validated

section \<open>What the builders write\<close>

lemma through_let:
  "(\<And>y. (h \<circ> fst) (f y) \<noteq> None) \<Longrightarrow> (h \<circ> fst) (Let x f) \<noteq> None"
  "(\<And>a b. (h \<circ> fst) (g a b) \<noteq> None) \<Longrightarrow> (h \<circ> fst) (case_prod g z) \<noteq> None"
  by (simp_all add: Let_def split: prod.split)

lemma last_default: "(let (c, w) = z in (c, w)) = z"
  by simp

lemma defaults_set_ID:
  "(nm_id \<circ> fst) (NotificationCreate_defaults db nc w) \<noteq> None"
  "(dm_id \<circ> fst) (DeliveryAttemptCreate_defaults db dc w) \<noteq> None"
  "(om_id \<circ> fst) (OutboxEventCreate_defaults db oc w) \<noteq> None"
  unfolding NotificationCreate_defaults_def DeliveryAttemptCreate_defaults_def OutboxEventCreate_defaults_def
    last_default
  by (intro through_let; simp add: NotificationMutation_ID_def DeliveryAttemptMutation_ID_def
      OutboxEventMutation_ID_def NotificationMutation_SetID_def DeliveryAttemptMutation_SetID_def
      OutboxEventMutation_SetID_def split: prod.split option.split)+

text \<open>Inserted rows.\<close>

lemma NotificationCreate_fits:
  assumes "NotificationCreate_check c = None" "nm_id c \<noteq> None"
  shows "row_fits NotificationsTable notification_Columns (spec_row (snd (NotificationCreate_createSpec c)))"
  using assms
  by (clarsimp simp: fits_defs columns_defs NotificationCreate_check_def first_error_None check_None fits_cells
      NotificationCreate_createSpec_def Let_def spec_row_def map_add_def map_of_spec_field NotificationMutation_defs
      split: option.split)

lemma DeliveryAttemptCreate_fits:
  assumes "DeliveryAttemptCreate_check c = None" "dm_id c \<noteq> None"
  shows "row_fits DeliveryAttemptsTable deliveryattempt_Columns (spec_row (snd (DeliveryAttemptCreate_createSpec c)))"
  using assms
  by (clarsimp simp: fits_defs columns_defs DeliveryAttemptCreate_check_def first_error_None check_None fits_cells
      DeliveryAttemptCreate_createSpec_def Let_def spec_row_def map_add_def map_of_spec_field DeliveryAttemptMutation_defs
      split: option.split)

lemma OutboxEventCreate_fits:
  assumes "OutboxEventCreate_check c = None" "om_id c \<noteq> None"
  shows "row_fits OutboxEventsTable outboxevent_Columns (spec_row (snd (OutboxEventCreate_createSpec c)))"
  using assms
  by (clarsimp simp: fits_defs columns_defs OutboxEventCreate_check_def first_error_None check_None fits_cells
      OutboxEventCreate_createSpec_def Let_def spec_row_def map_add_def map_of_spec_field OutboxEventMutation_defs
      split: option.split)

text \<open>Updated rows: each assignment is to a column that may hold the value.\<close>

definition column_ok :: "SqlTable \<Rightarrow> column list \<Rightarrow> column \<Rightarrow> sql_value option \<Rightarrow> bool" where
  "column_ok tb cs c v \<longleftrightarrow> list_all2 (\<lambda>k d. d = c \<longrightarrow> cell_fits k v) (st_Columns tb) cs"

definition column_counts :: "SqlTable \<Rightarrow> column list \<Rightarrow> column \<Rightarrow> bool" where
  "column_counts tb cs c \<longleftrightarrow>
     list_all2 (\<lambda>k d. d = c \<longrightarrow> sc_Type k = TypeInt \<or> sc_Type k = TypeInt64) (st_Columns tb) cs"

lemma row_fits_upd: "row_fits tb cs r \<Longrightarrow> column_ok tb cs c v \<Longrightarrow> row_fits tb cs (r(c := v))"
  by (auto simp: row_fits_def column_ok_def list_all2_conv_all_nth)

lemma row_fits_add: "row_fits tb cs r \<Longrightarrow> column_counts tb cs c \<Longrightarrow> row_fits tb cs (r(c := add_int (r c) n))"
  by (auto simp: row_fits_def column_counts_def list_all2_conv_all_nth intro!: cell_fits_add)

lemma spec_update_fits:
  assumes "row_fits tb cs r" "\<forall>c\<in>set (us_Clear sp). column_ok tb cs c None"
    and "\<forall>(c, v)\<in>set (us_Set sp). column_ok tb cs c (Some v)"
    and "\<forall>(c, n)\<in>set (us_Add sp). column_counts tb cs c"
  shows "row_fits tb cs (spec_update sp r)"
proof -
  have clear: "row_fits tb cs (fold (\<lambda>c x. x(c := None)) xs r)"
    if "row_fits tb cs r" "\<forall>c\<in>set xs. column_ok tb cs c None" for xs r
    using that by (induction xs arbitrary: r) (simp_all add: row_fits_upd)
  have set: "row_fits tb cs (fold (\<lambda>(c, v) x. x(c := Some v)) xs r)"
    if "row_fits tb cs r" "\<forall>(c, v)\<in>set xs. column_ok tb cs c (Some v)" for xs r
    using that by (induction xs arbitrary: r) (auto simp: row_fits_upd)
  have add: "row_fits tb cs (fold (\<lambda>(c, n) x. x(c := add_int (x c) n)) xs r)"
    if "row_fits tb cs r" "\<forall>(c, n)\<in>set xs. column_counts tb cs c" for xs r
    using that by (induction xs arbitrary: r) (auto simp: row_fits_add)
  show ?thesis
    using assms by (simp add: spec_update_def Let_def clear set add)
qed

lemma set_specs:
  "set (spec_field c f y) = (\<lambda>v. (c, f v)) ` set_option y"
  "set (spec_add c z) = (\<lambda>n. (c, n)) ` set_option z"
  "set (if b then [c] else []) = (if b then {c} else {})"
  by (cases y; cases z; simp)+

lemma NotificationUpdate_fits:
  assumes "NotificationUpdate_check c = None" "row_fits NotificationsTable notification_Columns r"
  shows "row_fits NotificationsTable notification_Columns (spec_update (NotificationUpdate_spec c) r)"
proof (rule spec_update_fits [OF assms(2)])
  note ok_defs = column_ok_def column_counts_def tables_defs notification_Columns_def
  note spec_defs = NotificationUpdate_spec_def set_specs ball_Un NotificationMutation_defs
  show "\<forall>x\<in>set (us_Clear (NotificationUpdate_spec c)). column_ok NotificationsTable notification_Columns x None"
    by (simp add: spec_defs; simp add: ok_defs)
  show "\<forall>(x, v)\<in>set (us_Set (NotificationUpdate_spec c)). column_ok NotificationsTable notification_Columns x (Some v)"
    using assms(1)
    by (simp add: spec_defs NotificationUpdate_check_def first_error_None check_None status_validated)
       (simp add: ok_defs cell_fits_Some elem_set)
  show "\<forall>(x, n)\<in>set (us_Add (NotificationUpdate_spec c)). column_counts NotificationsTable notification_Columns x"
    by (simp add: spec_defs; simp add: ok_defs)
qed

lemma DeliveryAttemptUpdate_fits:
  assumes "DeliveryAttemptUpdate_check c = None" "row_fits DeliveryAttemptsTable deliveryattempt_Columns r"
  shows "row_fits DeliveryAttemptsTable deliveryattempt_Columns (spec_update (DeliveryAttemptUpdate_spec c) r)"
proof (rule spec_update_fits [OF assms(2)])
  note ok_defs = column_ok_def column_counts_def tables_defs deliveryattempt_Columns_def
  note spec_defs = DeliveryAttemptUpdate_spec_def set_specs ball_Un DeliveryAttemptMutation_defs
  show "\<forall>x\<in>set (us_Clear (DeliveryAttemptUpdate_spec c)). column_ok DeliveryAttemptsTable deliveryattempt_Columns x None"
    by (simp add: spec_defs; simp add: ok_defs)
  show "\<forall>(x, v)\<in>set (us_Set (DeliveryAttemptUpdate_spec c)). column_ok DeliveryAttemptsTable deliveryattempt_Columns x (Some v)"
    using assms(1)
    by (simp add: spec_defs DeliveryAttemptUpdate_check_def first_error_None check_None status_validated)
       (simp add: ok_defs cell_fits_Some elem_set)
  show "\<forall>(x, n)\<in>set (us_Add (DeliveryAttemptUpdate_spec c)). column_counts DeliveryAttemptsTable deliveryattempt_Columns x"
    by (simp add: spec_defs; simp add: ok_defs)
qed

lemma OutboxEventUpdate_fits:
  assumes "OutboxEventUpdate_check c = None" "row_fits OutboxEventsTable outboxevent_Columns r"
  shows "row_fits OutboxEventsTable outboxevent_Columns (spec_update (OutboxEventUpdate_spec c) r)"
proof (rule spec_update_fits [OF assms(2)])
  note ok_defs = column_ok_def column_counts_def tables_defs outboxevent_Columns_def
  note spec_defs = OutboxEventUpdate_spec_def set_specs ball_Un OutboxEventMutation_defs
  show "\<forall>x\<in>set (us_Clear (OutboxEventUpdate_spec c)). column_ok OutboxEventsTable outboxevent_Columns x None"
    by (simp add: spec_defs; simp add: ok_defs)
  show "\<forall>(x, v)\<in>set (us_Set (OutboxEventUpdate_spec c)). column_ok OutboxEventsTable outboxevent_Columns x (Some v)"
    using assms(1)
    by (simp add: spec_defs OutboxEventUpdate_check_def first_error_None check_None status_validated)
       (simp add: ok_defs cell_fits_Some elem_set)
  show "\<forall>(x, n)\<in>set (us_Add (OutboxEventUpdate_spec c)). column_counts OutboxEventsTable outboxevent_Columns x"
    by (simp add: spec_defs; simp add: ok_defs)
qed

end
