(* ===== verification/Sql_Graph.thy ===== *)
theory Sql_Graph
  imports Ent_Client
begin

text \<open>
  The calls to \<^verbatim>\<open>sqlgraph\<close> that only the rest of the generated code makes: deleting, counting,
  inserting several rows, updating one node, and selecting columns. As in \<open>Sql_Model\<close> the driver is a
  parameter, the record \<open>graph\<close>; \<open>graph_database\<close> states the documented behaviour and is
  interpreted on the reference database. Methods with the suffix \<^verbatim>\<open>X\<close> panic on an error; a panic is a
  value of \<open>panicking\<close>.
\<close>

section \<open>Panics\<close>

datatype 'a panicking = Returns 'a | Panics goerror

definition or_panic :: "(goerror + 'a) \<times> 'w \<Rightarrow> 'a panicking \<times> 'w" where
  "or_panic x = (case x of (Inl err, w) \<Rightarrow> (Panics err, w) | (Inr v, w) \<Rightarrow> (Returns v, w))"

definition or_panic_err :: "goerror option \<times> 'w \<Rightarrow> unit panicking \<times> 'w" where
  "or_panic_err x = (case x of (Some err, w) \<Rightarrow> (Panics err, w) | (None, w) \<Rightarrow> (Returns (), w))"

text \<open>\<^verbatim>\<open>FirstX\<close> lets \<^verbatim>\<open>NotFoundError\<close> pass and returns the zero value \<open>z\<close>.\<close>

definition or_panic_unless_missing :: "'a \<Rightarrow> (goerror + 'a) \<times> 'w \<Rightarrow> 'a panicking \<times> 'w" where
  "or_panic_unless_missing z x =
     (case x of
        (Inl err, w) \<Rightarrow> (if IsNotFound (Some err) then Returns z else Panics err, w)
      | (Inr v, w) \<Rightarrow> (Returns v, w))"

section \<open>Statements\<close>

record DeleteSpec =
  ds_Table :: table
  ds_Predicate :: "sql_pred list"

text \<open>An update of the node with a given id, and the columns to read back.\<close>

record NodeSpec =
  ns_ID :: uuid
  ns_Columns :: "column list"
  ns_Update :: UpdateSpec

definition stmt_delete :: "DeleteSpec \<Rightarrow> tables \<Rightarrow> (goerror + int) \<times> tables" where
  "stmt_delete sp ts =
     (Inr (int (count_where (sql_holds (ds_Predicate sp)) (ts (ds_Table sp)))),
      ts(ds_Table sp := filter (\<lambda>r. \<not> sql_holds (ds_Predicate sp) r) (ts (ds_Table sp))))"

definition stmt_count :: "QuerySpec \<Rightarrow> tables \<Rightarrow> (goerror + int) \<times> tables" where
  "stmt_count q ts = (Inr (int (count_where (sql_holds (qs_Predicate q)) (ts (qs_Table q)))), ts)"

fun insert_all :: "CreateSpec list \<Rightarrow> tables \<Rightarrow> goerror + tables" where
  "insert_all [] ts = Inr ts"
| "insert_all (sp # sps) ts =
     (case stmt_create sp ts of (Inl err, _) \<Rightarrow> Inl err | (Inr _, ts1) \<Rightarrow> insert_all sps ts1)"

definition stmt_batch :: "CreateSpec list \<Rightarrow> tables \<Rightarrow> (goerror + unit) \<times> tables" where
  "stmt_batch sps ts = (case insert_all sps ts of Inl err \<Rightarrow> (Inl err, ts) | Inr ts1 \<Rightarrow> (Inr (), ts1))"

text \<open>
  \<^verbatim>\<open>sqlgraph.UpdateNode\<close> updates and reads back in one transaction; \<open>assign\<close> scans the row that
  comes back, and its error rolls the update back, as does a missing row.
\<close>

definition record_missing :: goerror where
  "record_missing = ErrText ''sqlgraph: record with id not found in table''"

definition stmt_update_node :: "NodeSpec \<Rightarrow> (row \<Rightarrow> goerror option) \<Rightarrow> tables \<Rightarrow> (goerror + row) \<times> tables" where
  "stmt_update_node sp assign ts =
     (let tb = us_Table (ns_Update sp); here = (\<lambda>r. r FieldID = Some (VUuid (ns_ID sp)));
          ts1 = ts(tb := update_where here (spec_update (ns_Update sp)) (ts tb))
      in case List.find here (ts1 tb) of
           None \<Rightarrow> (Inl record_missing, ts)
         | Some r \<Rightarrow> (case assign r of Some err \<Rightarrow> (Inl err, ts) | None \<Rightarrow> (Inr r, ts1)))"

section \<open>The driver\<close>

record 'w graph =
  DeleteNodes :: "DeleteSpec \<Rightarrow> 'w \<Rightarrow> (goerror + int) \<times> 'w"
  CountNodes :: "QuerySpec \<Rightarrow> 'w \<Rightarrow> (goerror + int) \<times> 'w"
  BatchCreate :: "CreateSpec list \<Rightarrow> 'w \<Rightarrow> (goerror + unit) \<times> 'w"
  UpdateNode :: "NodeSpec \<Rightarrow> (row \<Rightarrow> goerror option) \<Rightarrow> 'w \<Rightarrow> (goerror + row) \<times> 'w"
  SelectRows :: "QuerySpec \<Rightarrow> 'w \<Rightarrow> (goerror + row list) \<times> 'w"
  ScanUUIDs :: "column list \<Rightarrow> row list \<Rightarrow> goerror + uuid list"

lemma holds_PEQ: "sql_holds [PEQ c v] = (\<lambda>r. r c = Some v)"
  by (simp add: fun_eq_iff)

locale graph_database = database db tabs snap
  for db :: "'w db" and tabs :: "'w \<Rightarrow> tables" and snap :: "'w \<Rightarrow> tables option" +
  fixes g :: "'w graph"
  assumes delete_served: "DeleteNodes g dsp w = (n, w') \<Longrightarrow>
      served (stmt_delete dsp) (tabs w) n (tabs w') \<and> snap w' = snap w"
    and count_frame: "CountNodes g q w = (n, w') \<Longrightarrow> tabs w' = tabs w \<and> snap w' = snap w"
    and count_rows: "qs_Columns q = [] \<Longrightarrow> qs_Limit q = 0 \<Longrightarrow> qs_Offset q = 0 \<Longrightarrow> \<not> qs_Unique q \<Longrightarrow>
      CountNodes g q w = (Inr k, w') \<Longrightarrow> k = int (count_where (sql_holds (qs_Predicate q)) (tabs w (qs_Table q)))"
    and batch_served: "BatchCreate g sps w = (u, w') \<Longrightarrow>
      served (stmt_batch sps) (tabs w) u (tabs w') \<and> snap w' = snap w"
    and update_node_served: "us_Predicate (ns_Update nsp) = [] \<Longrightarrow> us_Set (ns_Update nsp) \<noteq> [] \<Longrightarrow>
      UpdateNode g nsp assign w = (r, w') \<Longrightarrow>
      served (stmt_update_node nsp assign) (tabs w) r (tabs w') \<and> snap w' = snap w"
    and missing_recognised: "IsSqlNotFoundError db record_missing"
    and select_frame: "SelectRows g q w = (rs, w') \<Longrightarrow> tabs w' = tabs w \<and> snap w' = snap w"
    and select_rows: "qs_Offset q = 0 \<Longrightarrow> \<not> qs_Unique q \<Longrightarrow> SelectRows g q w = (Inr xs, w') \<Longrightarrow>
      selected q (tabs w) xs"
    and scan_uuids: "list_all (\<lambda>r. r c = Some (VUuid (f r))) xs \<Longrightarrow> ScanUUIDs g [c] xs = Inr (map f xs)"
begin

text \<open>A deletion by id hits the one row with that id, or none.\<close>

lemma delete_by_id:
  assumes "DeleteNodes g \<lparr>ds_Table = tb, ds_Predicate = [PEQ FieldID (VUuid i)]\<rparr> w = (Inr k, w')"
  shows "tabs w' = (tabs w)(tb := filter (\<lambda>r. r FieldID \<noteq> Some (VUuid i)) (tabs w tb)) \<and>
    k = int (count_where (\<lambda>r. r FieldID = Some (VUuid i)) (tabs w tb))"
  using delete_served [OF assms] by (auto simp: served_def stmt_delete_def holds_PEQ)

end

section \<open>The reference database\<close>

definition pg_scan_uuids :: "column list \<Rightarrow> row list \<Rightarrow> goerror + uuid list" where
  "pg_scan_uuids cs rs =
     (case cs of
        [c] \<Rightarrow> if list_all (\<lambda>r. case r c of Some (VUuid _) \<Rightarrow> True | _ \<Rightarrow> False) rs
          then Inr (map (\<lambda>r. case r c of Some (VUuid u) \<Rightarrow> u | _ \<Rightarrow> 0) rs)
          else Inl (ErrText ''sql/scan: failed scanning rows'')
      | _ \<Rightarrow> Inl (ErrText ''sql/scan: unexpected number of columns''))"

definition pg_graph :: "'x pg_scheme graph" where
  "pg_graph =
     \<lparr>DeleteNodes = (\<lambda>sp. pg_call (stmt_delete sp)), CountNodes = (\<lambda>q. pg_call (stmt_count q)),
      BatchCreate = (\<lambda>sps. pg_call (stmt_batch sps)),
      UpdateNode = (\<lambda>sp assign. pg_call (stmt_update_node sp assign)),
      SelectRows = (\<lambda>q. pg_call (stmt_query q)), ScanUUIDs = pg_scan_uuids\<rparr>"

definition pg_db_missing :: "'x pg_scheme db" where
  "pg_db_missing = pg_db\<lparr>IsSqlNotFoundError := (\<lambda>err. err = record_missing)\<rparr>"

lemma pg_scan_uuids_ok:
  "list_all (\<lambda>r. r c = Some (VUuid (f r))) xs \<Longrightarrow> pg_scan_uuids [c] xs = Inr (map f xs)"
  by (induction xs) (auto simp: pg_scan_uuids_def split: if_splits)

lemma pg_call_count:
  "pg_call (stmt_count q) s = (r, s') \<Longrightarrow> pg_tables s' = pg_tables s \<and> pg_tx s' = pg_tx s \<and>
     (\<forall>k. r = Inr k \<longrightarrow> k = int (count_where (sql_holds (qs_Predicate q)) (pg_tables s (qs_Table q))))"
  by (auto simp: pg_call_def stmt_count_def Let_def split: outcome.splits)

interpretation pg_missing: database pg_db_missing pg_tables pg_tx
  by unfold_locales
     (auto simp: pg_db_missing_def pg_db_def pg_now_def pg_call_served pg_call_query pg_call_query_rows
        pg_begin_def pg_commit_def pg_rollback_def Let_def split: outcome.splits option.splits)

interpretation pgg: graph_database pg_db_missing pg_tables pg_tx pg_graph
proof
  fix q :: QuerySpec and w w' :: "'x pg_scheme"
  show "pg_tables w' = pg_tables w \<and> pg_tx w' = pg_tx w" if "CountNodes pg_graph q w = (n, w')" for n
    using that pg_call_count [of q w n w'] by (simp add: pg_graph_def)
  show "k = int (count_where (sql_holds (qs_Predicate q)) (pg_tables w (qs_Table q)))"
    if "CountNodes pg_graph q w = (Inr k, w')" for k
    using that pg_call_count [of q w "Inr k" w'] by (simp add: pg_graph_def)
  show "IsSqlNotFoundError pg_db_missing record_missing"
    by (simp add: pg_db_missing_def)
qed (simp_all add: pg_graph_def pg_call_served pg_call_query pg_call_query_rows pg_scan_uuids_ok)

end
