(* ===== verification/Ent_Values.thy ===== *)
theory Ent_Values
  imports Ent_Types
begin

text \<open>
  Types shared by the theories \<open>Graph_*\<close>: what printing an entity needs of \<^verbatim>\<open>fmt\<close> and \<^verbatim>\<open>time\<close>, the
  function that fetches the old entity of a mutation, and what \<^verbatim>\<open>Client.mutate\<close> returns.
\<close>

record printing =
  pr_UUID :: "uuid \<Rightarrow> string"
  pr_Time :: "time \<Rightarrow> string"
  pr_Map :: "headers \<Rightarrow> string"
  pr_Bytes :: "bytes \<Rightarrow> string"

text \<open>\<^verbatim>\<open>oldValue\<close>, nil for a mutation that names no node.\<close>

type_synonym ('w, 'e) old_value = "('w \<Rightarrow> (goerror + 'e) \<times> 'w) option"

definition old_result :: "('a \<Rightarrow> ent_value option) \<Rightarrow> (goerror + 'a) \<times> 'w \<Rightarrow> (goerror + ent_value option) \<times> 'w" where
  "old_result f x = (case x of (Inl err, w) \<Rightarrow> (Inl err, w) | (Inr v, w) \<Rightarrow> (Inr (f v), w))"

datatype 'e mutated = Node 'e | Affected int

end
