(* ===== verification/Graph_Notification.thy ===== *)
theory Graph_Notification
  imports Sql_Graph Ent_Values
begin

text \<open>
  The rest of the generated code for Notification, which the program does not call: printing, old
  values and edges of the mutation, the remaining queries, the delete builders, \<^verbatim>\<open>UpdateOne\<close>, bulk
  creation, the panicking variants and the client methods that make these builders. In \<open>withNotificationID\<close>,
  \<open>done\<close> tells whether the mutation was executed before its old value is asked for; the state is
  paired with the value that \<^verbatim>\<open>once\<close> keeps.
\<close>

section \<open>Printing\<close>

definition Notification_String :: "printing \<Rightarrow> Notification \<Rightarrow> string" where
  \<open>Notification_String pr e =
     ''Notification(''
     @ ''id='' @ pr_UUID pr (n_ID e) @ '', ''
     @ ''url=''
     @ n_URL e
     @ '', ''
     @ ''method=''
     @ n_Method e
     @ '', ''
     @ ''headers=''
     @ pr_Map pr (n_Headers e)
     @ '', ''
     @ ''body=''
     @ pr_Bytes pr (n_Body e)
     @ '', ''
     @ ''status=''
     @ n_Status e
     @ '', ''
     @ ''attempt_count=''
     @ Itoa (n_AttemptCount e)
     @ '', ''
     @ ''max_attempts=''
     @ Itoa (n_MaxAttempts e)
     @ '', ''
     @ ''last_error=''
     @ n_LastError e
     @ '', ''
     @ (case n_NextAttemptAt e of None \<Rightarrow> [] | Some v \<Rightarrow> ''next_attempt_at='' @ pr_Time pr v)
     @ '', ''
     @ ''created_at=''
     @ pr_Time pr (n_CreatedAt e)
     @ '', ''
     @ ''updated_at=''
     @ pr_Time pr (n_UpdatedAt e)
     @ '')''\<close>

section \<open>Old values and edges of the mutation\<close>

definition NotificationMutation_OldURL :: "('w, Notification) old_value \<Rightarrow> NotificationMutation \<Rightarrow> 'w \<Rightarrow> (goerror + string) \<times> 'w" where
  \<open>NotificationMutation_OldURL oldValue m w =
     (if nm_op m \<noteq> OpUpdateOne then (Inl (ErrText ''OldURL is only allowed on UpdateOne operations''), w)
      else case (nm_id m, oldValue) of
             (Some _, Some get) \<Rightarrow>
               (case get w of
                  (Inl err, w1) \<Rightarrow> (Inl (ErrWrap ''querying old value for OldURL: '' err ''''), w1)
                | (Inr old, w1) \<Rightarrow> (Inr (n_URL old), w1))
           | _ \<Rightarrow> (Inl (ErrText ''OldURL requires an ID field in the mutation''), w))\<close>

definition NotificationMutation_OldMethod :: "('w, Notification) old_value \<Rightarrow> NotificationMutation \<Rightarrow> 'w \<Rightarrow> (goerror + string) \<times> 'w" where
  \<open>NotificationMutation_OldMethod oldValue m w =
     (if nm_op m \<noteq> OpUpdateOne then (Inl (ErrText ''OldMethod is only allowed on UpdateOne operations''), w)
      else case (nm_id m, oldValue) of
             (Some _, Some get) \<Rightarrow>
               (case get w of
                  (Inl err, w1) \<Rightarrow> (Inl (ErrWrap ''querying old value for OldMethod: '' err ''''), w1)
                | (Inr old, w1) \<Rightarrow> (Inr (n_Method old), w1))
           | _ \<Rightarrow> (Inl (ErrText ''OldMethod requires an ID field in the mutation''), w))\<close>

definition NotificationMutation_OldHeaders :: "('w, Notification) old_value \<Rightarrow> NotificationMutation \<Rightarrow> 'w \<Rightarrow> (goerror + headers) \<times> 'w" where
  \<open>NotificationMutation_OldHeaders oldValue m w =
     (if nm_op m \<noteq> OpUpdateOne then (Inl (ErrText ''OldHeaders is only allowed on UpdateOne operations''), w)
      else case (nm_id m, oldValue) of
             (Some _, Some get) \<Rightarrow>
               (case get w of
                  (Inl err, w1) \<Rightarrow> (Inl (ErrWrap ''querying old value for OldHeaders: '' err ''''), w1)
                | (Inr old, w1) \<Rightarrow> (Inr (n_Headers old), w1))
           | _ \<Rightarrow> (Inl (ErrText ''OldHeaders requires an ID field in the mutation''), w))\<close>

definition NotificationMutation_OldBody :: "('w, Notification) old_value \<Rightarrow> NotificationMutation \<Rightarrow> 'w \<Rightarrow> (goerror + bytes) \<times> 'w" where
  \<open>NotificationMutation_OldBody oldValue m w =
     (if nm_op m \<noteq> OpUpdateOne then (Inl (ErrText ''OldBody is only allowed on UpdateOne operations''), w)
      else case (nm_id m, oldValue) of
             (Some _, Some get) \<Rightarrow>
               (case get w of
                  (Inl err, w1) \<Rightarrow> (Inl (ErrWrap ''querying old value for OldBody: '' err ''''), w1)
                | (Inr old, w1) \<Rightarrow> (Inr (n_Body old), w1))
           | _ \<Rightarrow> (Inl (ErrText ''OldBody requires an ID field in the mutation''), w))\<close>

definition NotificationMutation_OldStatus :: "('w, Notification) old_value \<Rightarrow> NotificationMutation \<Rightarrow> 'w \<Rightarrow> (goerror + string) \<times> 'w" where
  \<open>NotificationMutation_OldStatus oldValue m w =
     (if nm_op m \<noteq> OpUpdateOne then (Inl (ErrText ''OldStatus is only allowed on UpdateOne operations''), w)
      else case (nm_id m, oldValue) of
             (Some _, Some get) \<Rightarrow>
               (case get w of
                  (Inl err, w1) \<Rightarrow> (Inl (ErrWrap ''querying old value for OldStatus: '' err ''''), w1)
                | (Inr old, w1) \<Rightarrow> (Inr (n_Status old), w1))
           | _ \<Rightarrow> (Inl (ErrText ''OldStatus requires an ID field in the mutation''), w))\<close>

definition NotificationMutation_OldAttemptCount :: "('w, Notification) old_value \<Rightarrow> NotificationMutation \<Rightarrow> 'w \<Rightarrow> (goerror + int) \<times> 'w" where
  \<open>NotificationMutation_OldAttemptCount oldValue m w =
     (if nm_op m \<noteq> OpUpdateOne then (Inl (ErrText ''OldAttemptCount is only allowed on UpdateOne operations''), w)
      else case (nm_id m, oldValue) of
             (Some _, Some get) \<Rightarrow>
               (case get w of
                  (Inl err, w1) \<Rightarrow> (Inl (ErrWrap ''querying old value for OldAttemptCount: '' err ''''), w1)
                | (Inr old, w1) \<Rightarrow> (Inr (n_AttemptCount old), w1))
           | _ \<Rightarrow> (Inl (ErrText ''OldAttemptCount requires an ID field in the mutation''), w))\<close>

definition NotificationMutation_OldMaxAttempts :: "('w, Notification) old_value \<Rightarrow> NotificationMutation \<Rightarrow> 'w \<Rightarrow> (goerror + int) \<times> 'w" where
  \<open>NotificationMutation_OldMaxAttempts oldValue m w =
     (if nm_op m \<noteq> OpUpdateOne then (Inl (ErrText ''OldMaxAttempts is only allowed on UpdateOne operations''), w)
      else case (nm_id m, oldValue) of
             (Some _, Some get) \<Rightarrow>
               (case get w of
                  (Inl err, w1) \<Rightarrow> (Inl (ErrWrap ''querying old value for OldMaxAttempts: '' err ''''), w1)
                | (Inr old, w1) \<Rightarrow> (Inr (n_MaxAttempts old), w1))
           | _ \<Rightarrow> (Inl (ErrText ''OldMaxAttempts requires an ID field in the mutation''), w))\<close>

definition NotificationMutation_OldLastError :: "('w, Notification) old_value \<Rightarrow> NotificationMutation \<Rightarrow> 'w \<Rightarrow> (goerror + string) \<times> 'w" where
  \<open>NotificationMutation_OldLastError oldValue m w =
     (if nm_op m \<noteq> OpUpdateOne then (Inl (ErrText ''OldLastError is only allowed on UpdateOne operations''), w)
      else case (nm_id m, oldValue) of
             (Some _, Some get) \<Rightarrow>
               (case get w of
                  (Inl err, w1) \<Rightarrow> (Inl (ErrWrap ''querying old value for OldLastError: '' err ''''), w1)
                | (Inr old, w1) \<Rightarrow> (Inr (n_LastError old), w1))
           | _ \<Rightarrow> (Inl (ErrText ''OldLastError requires an ID field in the mutation''), w))\<close>

definition NotificationMutation_OldNextAttemptAt :: "('w, Notification) old_value \<Rightarrow> NotificationMutation \<Rightarrow> 'w \<Rightarrow> (goerror + (time option)) \<times> 'w" where
  \<open>NotificationMutation_OldNextAttemptAt oldValue m w =
     (if nm_op m \<noteq> OpUpdateOne then (Inl (ErrText ''OldNextAttemptAt is only allowed on UpdateOne operations''), w)
      else case (nm_id m, oldValue) of
             (Some _, Some get) \<Rightarrow>
               (case get w of
                  (Inl err, w1) \<Rightarrow> (Inl (ErrWrap ''querying old value for OldNextAttemptAt: '' err ''''), w1)
                | (Inr old, w1) \<Rightarrow> (Inr (n_NextAttemptAt old), w1))
           | _ \<Rightarrow> (Inl (ErrText ''OldNextAttemptAt requires an ID field in the mutation''), w))\<close>

definition NotificationMutation_OldCreatedAt :: "('w, Notification) old_value \<Rightarrow> NotificationMutation \<Rightarrow> 'w \<Rightarrow> (goerror + time) \<times> 'w" where
  \<open>NotificationMutation_OldCreatedAt oldValue m w =
     (if nm_op m \<noteq> OpUpdateOne then (Inl (ErrText ''OldCreatedAt is only allowed on UpdateOne operations''), w)
      else case (nm_id m, oldValue) of
             (Some _, Some get) \<Rightarrow>
               (case get w of
                  (Inl err, w1) \<Rightarrow> (Inl (ErrWrap ''querying old value for OldCreatedAt: '' err ''''), w1)
                | (Inr old, w1) \<Rightarrow> (Inr (n_CreatedAt old), w1))
           | _ \<Rightarrow> (Inl (ErrText ''OldCreatedAt requires an ID field in the mutation''), w))\<close>

definition NotificationMutation_OldUpdatedAt :: "('w, Notification) old_value \<Rightarrow> NotificationMutation \<Rightarrow> 'w \<Rightarrow> (goerror + time) \<times> 'w" where
  \<open>NotificationMutation_OldUpdatedAt oldValue m w =
     (if nm_op m \<noteq> OpUpdateOne then (Inl (ErrText ''OldUpdatedAt is only allowed on UpdateOne operations''), w)
      else case (nm_id m, oldValue) of
             (Some _, Some get) \<Rightarrow>
               (case get w of
                  (Inl err, w1) \<Rightarrow> (Inl (ErrWrap ''querying old value for OldUpdatedAt: '' err ''''), w1)
                | (Inr old, w1) \<Rightarrow> (Inr (n_UpdatedAt old), w1))
           | _ \<Rightarrow> (Inl (ErrText ''OldUpdatedAt requires an ID field in the mutation''), w))\<close>

definition NotificationMutation_OldField :: "('w, Notification) old_value \<Rightarrow> column \<Rightarrow> NotificationMutation \<Rightarrow> 'w \<Rightarrow> (goerror + ent_value option) \<times> 'w" where
  \<open>NotificationMutation_OldField oldValue name m w =
     (case name of
         FieldURL \<Rightarrow> old_result (Some \<circ> GoString) (NotificationMutation_OldURL oldValue m w)
       | FieldMethod \<Rightarrow> old_result (Some \<circ> GoString) (NotificationMutation_OldMethod oldValue m w)
       | FieldHeaders \<Rightarrow> old_result (Some \<circ> GoMap) (NotificationMutation_OldHeaders oldValue m w)
       | FieldBody \<Rightarrow> old_result (Some \<circ> GoBytes) (NotificationMutation_OldBody oldValue m w)
       | FieldStatus \<Rightarrow> old_result (Some \<circ> GoNotificationStatus) (NotificationMutation_OldStatus oldValue m w)
       | FieldAttemptCount \<Rightarrow> old_result (Some \<circ> GoInt) (NotificationMutation_OldAttemptCount oldValue m w)
       | FieldMaxAttempts \<Rightarrow> old_result (Some \<circ> GoInt) (NotificationMutation_OldMaxAttempts oldValue m w)
       | FieldLastError \<Rightarrow> old_result (Some \<circ> GoString) (NotificationMutation_OldLastError oldValue m w)
       | FieldNextAttemptAt \<Rightarrow> old_result (map_option GoTime) (NotificationMutation_OldNextAttemptAt oldValue m w)
       | FieldCreatedAt \<Rightarrow> old_result (Some \<circ> GoTime) (NotificationMutation_OldCreatedAt oldValue m w)
       | FieldUpdatedAt \<Rightarrow> old_result (Some \<circ> GoTime) (NotificationMutation_OldUpdatedAt oldValue m w)
       | _ \<Rightarrow> (Inl (ErrText (''unknown Notification field '' @ column_name name)), w))\<close>

definition NotificationMutation_AddedEdges :: "NotificationMutation \<Rightarrow> string list" where
  \<open>NotificationMutation_AddedEdges m = []\<close>

definition NotificationMutation_AddedIDs :: "string \<Rightarrow> NotificationMutation \<Rightarrow> ent_value list" where
  \<open>NotificationMutation_AddedIDs name m = []\<close>

definition NotificationMutation_RemovedEdges :: "NotificationMutation \<Rightarrow> string list" where
  \<open>NotificationMutation_RemovedEdges m = []\<close>

definition NotificationMutation_RemovedIDs :: "string \<Rightarrow> NotificationMutation \<Rightarrow> ent_value list" where
  \<open>NotificationMutation_RemovedIDs name m = []\<close>

definition NotificationMutation_ClearedEdges :: "NotificationMutation \<Rightarrow> string list" where
  \<open>NotificationMutation_ClearedEdges m = []\<close>

definition NotificationMutation_EdgeCleared :: "string \<Rightarrow> NotificationMutation \<Rightarrow> bool" where
  \<open>NotificationMutation_EdgeCleared name m = False\<close>

definition NotificationMutation_ClearEdge :: "string \<Rightarrow> NotificationMutation \<Rightarrow> goerror option" where
  \<open>NotificationMutation_ClearEdge name m = Some (ErrText (''unknown Notification unique edge '' @ name))\<close>

definition NotificationMutation_ResetEdge :: "string \<Rightarrow> NotificationMutation \<Rightarrow> goerror option" where
  \<open>NotificationMutation_ResetEdge name m = Some (ErrText (''unknown Notification edge '' @ name))\<close>

definition NotificationMutation_WhereP :: "sql_pred list \<Rightarrow> NotificationMutation \<Rightarrow> NotificationMutation" where
  \<open>NotificationMutation_WhereP ps m = NotificationMutation_Where ps m\<close>

definition withNotification :: "Notification \<Rightarrow> NotificationMutation \<Rightarrow> NotificationMutation \<times> ('w, Notification) old_value" where
  \<open>withNotification node m =
     (m\<lparr>nm_id := Some (n_ID node)\<rparr>, Some (\<lambda>w. (Inr node, w)))\<close>

definition withNotificationID :: "'w db \<Rightarrow> bool \<Rightarrow> uuid \<Rightarrow> NotificationMutation \<Rightarrow> NotificationMutation \<times> ((goerror + Notification) option \<times> 'w, Notification) old_value" where
  \<open>withNotificationID db done i m =
     (m\<lparr>nm_id := Some i\<rparr>,
      Some (\<lambda>(value, w).
        case value of
          Some r \<Rightarrow> (r, (value, w))
        | None \<Rightarrow>
            if done then (let r = Inl (ErrText ''querying old values post mutation is not allowed'') in (r, (Some r, w)))
            else (case NotificationClient_Get db i w of (r, w1) \<Rightarrow> (r, (Some r, w1)))))\<close>

section \<open>Queries\<close>

type_synonym NotificationSelect = NotificationQuery

definition NotificationQuery_Select :: "column list \<Rightarrow> NotificationQuery \<Rightarrow> NotificationSelect" where
  \<open>NotificationQuery_Select flds q = q\<lparr>nq_Fields := nq_Fields q @ flds\<rparr>\<close>

definition NotificationQuery_Clone :: "NotificationQuery \<Rightarrow> NotificationQuery" where
  \<open>NotificationQuery_Clone q =
     \<lparr>nq_Limit = nq_Limit q, nq_Offset = nq_Offset q, nq_Unique = nq_Unique q, nq_Fields = nq_Fields q, nq_order = nq_order q, nq_predicates = nq_predicates q\<rparr>\<close>

definition NotificationQuery_sqlQuery :: "NotificationQuery \<Rightarrow> QuerySpec" where
  \<open>NotificationQuery_sqlQuery q =
     \<lparr>qs_Table = Table_notifications,
      qs_Columns = (if nq_Fields q = [] then notification_Columns else nq_Fields q),
      qs_Predicate = nq_predicates q,
      qs_Order = nq_order q,
      qs_Limit = (case nq_Limit q of
          Some k \<Rightarrow> k
        | None \<Rightarrow> (case nq_Offset q of Some _ \<Rightarrow> 2 ^ 31 - 1 | None \<Rightarrow> 0)),
      qs_Offset = field_or 0 (nq_Offset q),
      qs_Unique = field_or False (nq_Unique q)\<rparr>\<close>

definition NotificationSelect_sqlScan :: "'w graph \<Rightarrow> NotificationSelect \<Rightarrow> 'w \<Rightarrow> (goerror + uuid list) \<times> 'w" where
  \<open>NotificationSelect_sqlScan g s w =
     (let spec = NotificationQuery_sqlQuery s in
      case SelectRows g spec w of
        (Inl err, w1) \<Rightarrow> (Inl err, w1)
      | (Inr rows, w1) \<Rightarrow> (ScanUUIDs g (qs_Columns spec) rows, w1))\<close>

definition NotificationSelect_Scan :: "'w graph \<Rightarrow> NotificationSelect \<Rightarrow> 'w \<Rightarrow> (goerror + uuid list) \<times> 'w" where
  \<open>NotificationSelect_Scan g s w =
     (case NotificationQuery_prepareQuery s of Some err \<Rightarrow> (Inl err, w) | None \<Rightarrow> NotificationSelect_sqlScan g s w)\<close>

definition NotificationQuery_IDs :: "'w graph \<Rightarrow> NotificationQuery \<Rightarrow> 'w \<Rightarrow> (goerror + uuid list) \<times> 'w" where
  \<open>NotificationQuery_IDs g q w = NotificationSelect_Scan g (NotificationQuery_Select [FieldID] q) w\<close>

definition NotificationQuery_FirstID :: "'w graph \<Rightarrow> NotificationQuery \<Rightarrow> 'w \<Rightarrow> (goerror + uuid) \<times> 'w" where
  \<open>NotificationQuery_FirstID g q w =
     (case NotificationQuery_IDs g (NotificationQuery_Limit 1 q) w of
        (Inl err, w1) \<Rightarrow> (Inl err, w1)
      | (Inr ids, w1) \<Rightarrow> (case ids of [] \<Rightarrow> (Inl (NotFoundError notification_Label), w1) | x # _ \<Rightarrow> (Inr x, w1)))\<close>

definition NotificationQuery_OnlyID :: "'w graph \<Rightarrow> NotificationQuery \<Rightarrow> 'w \<Rightarrow> (goerror + uuid) \<times> 'w" where
  \<open>NotificationQuery_OnlyID g q w =
     (case NotificationQuery_IDs g (NotificationQuery_Limit 2 q) w of
        (Inl err, w1) \<Rightarrow> (Inl err, w1)
      | (Inr ids, w1) \<Rightarrow>
          (case ids of
             [x] \<Rightarrow> (Inr x, w1)
           | [] \<Rightarrow> (Inl (NotFoundError notification_Label), w1)
           | _ \<Rightarrow> (Inl (NotSingularError notification_Label), w1)))\<close>

definition NotificationQuery_sqlCount :: "'w graph \<Rightarrow> NotificationQuery \<Rightarrow> 'w \<Rightarrow> (goerror + int) \<times> 'w" where
  \<open>NotificationQuery_sqlCount g q w =
     (let spec = (NotificationQuery_querySpec q)\<lparr>qs_Columns := nq_Fields q\<rparr>;
          spec = (if nq_Fields q = [] then spec else spec\<lparr>qs_Unique := field_or False (nq_Unique q)\<rparr>)
      in CountNodes g spec w)\<close>

definition NotificationQuery_Count :: "'w graph \<Rightarrow> NotificationQuery \<Rightarrow> 'w \<Rightarrow> (goerror + int) \<times> 'w" where
  \<open>NotificationQuery_Count g q w =
     (case NotificationQuery_prepareQuery q of Some err \<Rightarrow> (Inl err, w) | None \<Rightarrow> NotificationQuery_sqlCount g q w)\<close>

definition NotificationQuery_Exist :: "'w graph \<Rightarrow> NotificationQuery \<Rightarrow> 'w \<Rightarrow> (goerror + bool) \<times> 'w" where
  \<open>NotificationQuery_Exist g q w =
     (case NotificationQuery_FirstID g q w of
        (Inr _, w1) \<Rightarrow> (Inr True, w1)
      | (Inl err, w1) \<Rightarrow>
          if IsNotFound (Some err) then (Inr False, w1)
          else (Inl (ErrWrap ''ent: check existence: '' err ''''), w1))\<close>

definition NotificationQuery_FirstX :: "'w db \<Rightarrow> NotificationQuery \<Rightarrow> 'w \<Rightarrow> (Notification option) panicking \<times> 'w" where
  \<open>NotificationQuery_FirstX db q w =
     or_panic_unless_missing None (case NotificationQuery_First db q w of (r, w1) \<Rightarrow> (map_sum id Some r, w1))\<close>

definition NotificationQuery_FirstIDX :: "'w graph \<Rightarrow> NotificationQuery \<Rightarrow> 'w \<Rightarrow> uuid panicking \<times> 'w" where
  \<open>NotificationQuery_FirstIDX g q w = or_panic_unless_missing 0 (NotificationQuery_FirstID g q w)\<close>

definition NotificationQuery_OnlyX :: "'w db \<Rightarrow> NotificationQuery \<Rightarrow> 'w \<Rightarrow> Notification panicking \<times> 'w" where
  \<open>NotificationQuery_OnlyX db q w = or_panic (NotificationQuery_Only db q w)\<close>

definition NotificationQuery_OnlyIDX :: "'w graph \<Rightarrow> NotificationQuery \<Rightarrow> 'w \<Rightarrow> uuid panicking \<times> 'w" where
  \<open>NotificationQuery_OnlyIDX g q w = or_panic (NotificationQuery_OnlyID g q w)\<close>

definition NotificationQuery_AllX :: "'w db \<Rightarrow> NotificationQuery \<Rightarrow> 'w \<Rightarrow> Notification list panicking \<times> 'w" where
  \<open>NotificationQuery_AllX db q w = or_panic (NotificationQuery_All db q w)\<close>

definition NotificationQuery_IDsX :: "'w graph \<Rightarrow> NotificationQuery \<Rightarrow> 'w \<Rightarrow> uuid list panicking \<times> 'w" where
  \<open>NotificationQuery_IDsX g q w = or_panic (NotificationQuery_IDs g q w)\<close>

definition NotificationQuery_CountX :: "'w graph \<Rightarrow> NotificationQuery \<Rightarrow> 'w \<Rightarrow> int panicking \<times> 'w" where
  \<open>NotificationQuery_CountX g q w = or_panic (NotificationQuery_Count g q w)\<close>

definition NotificationQuery_ExistX :: "'w graph \<Rightarrow> NotificationQuery \<Rightarrow> 'w \<Rightarrow> bool panicking \<times> 'w" where
  \<open>NotificationQuery_ExistX g q w = or_panic (NotificationQuery_Exist g q w)\<close>

definition NotificationMutation_IDs :: "'w graph \<Rightarrow> NotificationMutation \<Rightarrow> 'w \<Rightarrow> (goerror + uuid list) \<times> 'w" where
  \<open>NotificationMutation_IDs g m w =
     (let query = NotificationQuery_IDs g (NotificationQuery_Where (nm_predicates m) NotificationClient_Query) w in
      case nm_op m of
        OpUpdateOne \<Rightarrow> (case NotificationMutation_ID m of Some i \<Rightarrow> (Inr [i], w) | None \<Rightarrow> query)
      | OpDeleteOne \<Rightarrow> (case NotificationMutation_ID m of Some i \<Rightarrow> (Inr [i], w) | None \<Rightarrow> query)
      | OpUpdate \<Rightarrow> query
      | OpDelete \<Rightarrow> query
      | OpCreate \<Rightarrow> (Inl (ErrText ''IDs is not allowed on OpCreate operations''), w))\<close>

section \<open>Deleting\<close>

type_synonym NotificationDelete = NotificationMutation

definition NotificationDelete_Where :: "sql_pred list \<Rightarrow> NotificationDelete \<Rightarrow> NotificationDelete" where
  \<open>NotificationDelete_Where ps b = NotificationMutation_Where ps b\<close>

definition NotificationDelete_sqlExec :: "'w graph \<Rightarrow> 'w db \<Rightarrow> NotificationDelete \<Rightarrow> 'w \<Rightarrow> (goerror + int) \<times> 'w" where
  \<open>NotificationDelete_sqlExec g db b w =
     (case DeleteNodes g \<lparr>ds_Table = Table_notifications, ds_Predicate = nm_predicates b\<rparr> w of
        (Inl err, w1) \<Rightarrow>
          (Inl (if IsSqlConstraintError db err then ConstraintError (error_text err) err else err), w1)
      | (Inr affected, w1) \<Rightarrow> (Inr affected, w1))\<close>

definition NotificationDelete_Exec :: "'w graph \<Rightarrow> 'w db \<Rightarrow> NotificationDelete \<Rightarrow> 'w \<Rightarrow> (goerror + int) \<times> 'w" where
  \<open>NotificationDelete_Exec g db b w = NotificationDelete_sqlExec g db b w\<close>

definition NotificationDelete_ExecX :: "'w graph \<Rightarrow> 'w db \<Rightarrow> NotificationDelete \<Rightarrow> 'w \<Rightarrow> int panicking \<times> 'w" where
  \<open>NotificationDelete_ExecX g db b w = or_panic (NotificationDelete_Exec g db b w)\<close>

type_synonym NotificationDeleteOne = NotificationDelete

definition NotificationDeleteOne_Where :: "sql_pred list \<Rightarrow> NotificationDeleteOne \<Rightarrow> NotificationDeleteOne" where
  \<open>NotificationDeleteOne_Where ps b = NotificationMutation_Where ps b\<close>

definition NotificationDeleteOne_Exec :: "'w graph \<Rightarrow> 'w db \<Rightarrow> NotificationDeleteOne \<Rightarrow> 'w \<Rightarrow> goerror option \<times> 'w" where
  \<open>NotificationDeleteOne_Exec g db b w =
     (case NotificationDelete_Exec g db b w of
        (Inl err, w1) \<Rightarrow> (Some err, w1)
      | (Inr k, w1) \<Rightarrow> (if k = 0 then Some (NotFoundError notification_Label) else None, w1))\<close>

definition NotificationDeleteOne_ExecX :: "'w graph \<Rightarrow> 'w db \<Rightarrow> NotificationDeleteOne \<Rightarrow> 'w \<Rightarrow> unit panicking \<times> 'w" where
  \<open>NotificationDeleteOne_ExecX g db b w = or_panic_err (NotificationDeleteOne_Exec g db b w)\<close>

section \<open>Updating one node\<close>

record NotificationUpdateOne =
  nu_fields :: "column list"
  nu_mutation :: NotificationMutation

definition NotificationUpdateOne_SetURL :: "string \<Rightarrow> NotificationUpdateOne \<Rightarrow> NotificationUpdateOne" where
  \<open>NotificationUpdateOne_SetURL v c = c\<lparr>nu_mutation := NotificationMutation_SetURL v (nu_mutation c)\<rparr>\<close>

definition NotificationUpdateOne_SetNillableURL :: "string option \<Rightarrow> NotificationUpdateOne \<Rightarrow> NotificationUpdateOne" where
  \<open>NotificationUpdateOne_SetNillableURL v c = (case v of Some x \<Rightarrow> NotificationUpdateOne_SetURL x c | None \<Rightarrow> c)\<close>

definition NotificationUpdateOne_SetMethod :: "string \<Rightarrow> NotificationUpdateOne \<Rightarrow> NotificationUpdateOne" where
  \<open>NotificationUpdateOne_SetMethod v c = c\<lparr>nu_mutation := NotificationMutation_SetMethod v (nu_mutation c)\<rparr>\<close>

definition NotificationUpdateOne_SetNillableMethod :: "string option \<Rightarrow> NotificationUpdateOne \<Rightarrow> NotificationUpdateOne" where
  \<open>NotificationUpdateOne_SetNillableMethod v c = (case v of Some x \<Rightarrow> NotificationUpdateOne_SetMethod x c | None \<Rightarrow> c)\<close>

definition NotificationUpdateOne_SetHeaders :: "headers \<Rightarrow> NotificationUpdateOne \<Rightarrow> NotificationUpdateOne" where
  \<open>NotificationUpdateOne_SetHeaders v c = c\<lparr>nu_mutation := NotificationMutation_SetHeaders v (nu_mutation c)\<rparr>\<close>

definition NotificationUpdateOne_ClearHeaders :: "NotificationUpdateOne \<Rightarrow> NotificationUpdateOne" where
  \<open>NotificationUpdateOne_ClearHeaders c = c\<lparr>nu_mutation := NotificationMutation_ClearHeaders (nu_mutation c)\<rparr>\<close>

definition NotificationUpdateOne_SetBody :: "bytes \<Rightarrow> NotificationUpdateOne \<Rightarrow> NotificationUpdateOne" where
  \<open>NotificationUpdateOne_SetBody v c = c\<lparr>nu_mutation := NotificationMutation_SetBody v (nu_mutation c)\<rparr>\<close>

definition NotificationUpdateOne_ClearBody :: "NotificationUpdateOne \<Rightarrow> NotificationUpdateOne" where
  \<open>NotificationUpdateOne_ClearBody c = c\<lparr>nu_mutation := NotificationMutation_ClearBody (nu_mutation c)\<rparr>\<close>

definition NotificationUpdateOne_SetStatus :: "string \<Rightarrow> NotificationUpdateOne \<Rightarrow> NotificationUpdateOne" where
  \<open>NotificationUpdateOne_SetStatus v c = c\<lparr>nu_mutation := NotificationMutation_SetStatus v (nu_mutation c)\<rparr>\<close>

definition NotificationUpdateOne_SetNillableStatus :: "string option \<Rightarrow> NotificationUpdateOne \<Rightarrow> NotificationUpdateOne" where
  \<open>NotificationUpdateOne_SetNillableStatus v c = (case v of Some x \<Rightarrow> NotificationUpdateOne_SetStatus x c | None \<Rightarrow> c)\<close>

definition NotificationUpdateOne_SetAttemptCount :: "int \<Rightarrow> NotificationUpdateOne \<Rightarrow> NotificationUpdateOne" where
  \<open>NotificationUpdateOne_SetAttemptCount v c = c\<lparr>nu_mutation := NotificationMutation_SetAttemptCount v (NotificationMutation_ResetAttemptCount (nu_mutation c))\<rparr>\<close>

definition NotificationUpdateOne_SetNillableAttemptCount :: "int option \<Rightarrow> NotificationUpdateOne \<Rightarrow> NotificationUpdateOne" where
  \<open>NotificationUpdateOne_SetNillableAttemptCount v c = (case v of Some x \<Rightarrow> NotificationUpdateOne_SetAttemptCount x c | None \<Rightarrow> c)\<close>

definition NotificationUpdateOne_AddAttemptCount :: "int \<Rightarrow> NotificationUpdateOne \<Rightarrow> NotificationUpdateOne" where
  \<open>NotificationUpdateOne_AddAttemptCount v c = c\<lparr>nu_mutation := NotificationMutation_AddAttemptCount v (nu_mutation c)\<rparr>\<close>

definition NotificationUpdateOne_SetMaxAttempts :: "int \<Rightarrow> NotificationUpdateOne \<Rightarrow> NotificationUpdateOne" where
  \<open>NotificationUpdateOne_SetMaxAttempts v c = c\<lparr>nu_mutation := NotificationMutation_SetMaxAttempts v (NotificationMutation_ResetMaxAttempts (nu_mutation c))\<rparr>\<close>

definition NotificationUpdateOne_SetNillableMaxAttempts :: "int option \<Rightarrow> NotificationUpdateOne \<Rightarrow> NotificationUpdateOne" where
  \<open>NotificationUpdateOne_SetNillableMaxAttempts v c = (case v of Some x \<Rightarrow> NotificationUpdateOne_SetMaxAttempts x c | None \<Rightarrow> c)\<close>

definition NotificationUpdateOne_AddMaxAttempts :: "int \<Rightarrow> NotificationUpdateOne \<Rightarrow> NotificationUpdateOne" where
  \<open>NotificationUpdateOne_AddMaxAttempts v c = c\<lparr>nu_mutation := NotificationMutation_AddMaxAttempts v (nu_mutation c)\<rparr>\<close>

definition NotificationUpdateOne_SetLastError :: "string \<Rightarrow> NotificationUpdateOne \<Rightarrow> NotificationUpdateOne" where
  \<open>NotificationUpdateOne_SetLastError v c = c\<lparr>nu_mutation := NotificationMutation_SetLastError v (nu_mutation c)\<rparr>\<close>

definition NotificationUpdateOne_SetNillableLastError :: "string option \<Rightarrow> NotificationUpdateOne \<Rightarrow> NotificationUpdateOne" where
  \<open>NotificationUpdateOne_SetNillableLastError v c = (case v of Some x \<Rightarrow> NotificationUpdateOne_SetLastError x c | None \<Rightarrow> c)\<close>

definition NotificationUpdateOne_ClearLastError :: "NotificationUpdateOne \<Rightarrow> NotificationUpdateOne" where
  \<open>NotificationUpdateOne_ClearLastError c = c\<lparr>nu_mutation := NotificationMutation_ClearLastError (nu_mutation c)\<rparr>\<close>

definition NotificationUpdateOne_SetNextAttemptAt :: "time \<Rightarrow> NotificationUpdateOne \<Rightarrow> NotificationUpdateOne" where
  \<open>NotificationUpdateOne_SetNextAttemptAt v c = c\<lparr>nu_mutation := NotificationMutation_SetNextAttemptAt v (nu_mutation c)\<rparr>\<close>

definition NotificationUpdateOne_SetNillableNextAttemptAt :: "time option \<Rightarrow> NotificationUpdateOne \<Rightarrow> NotificationUpdateOne" where
  \<open>NotificationUpdateOne_SetNillableNextAttemptAt v c = (case v of Some x \<Rightarrow> NotificationUpdateOne_SetNextAttemptAt x c | None \<Rightarrow> c)\<close>

definition NotificationUpdateOne_ClearNextAttemptAt :: "NotificationUpdateOne \<Rightarrow> NotificationUpdateOne" where
  \<open>NotificationUpdateOne_ClearNextAttemptAt c = c\<lparr>nu_mutation := NotificationMutation_ClearNextAttemptAt (nu_mutation c)\<rparr>\<close>

definition NotificationUpdateOne_SetUpdatedAt :: "time \<Rightarrow> NotificationUpdateOne \<Rightarrow> NotificationUpdateOne" where
  \<open>NotificationUpdateOne_SetUpdatedAt v c = c\<lparr>nu_mutation := NotificationMutation_SetUpdatedAt v (nu_mutation c)\<rparr>\<close>

definition NotificationUpdateOne_Mutation :: "NotificationUpdateOne \<Rightarrow> NotificationMutation" where
  \<open>NotificationUpdateOne_Mutation c = nu_mutation c\<close>

definition NotificationUpdateOne_Where :: "sql_pred list \<Rightarrow> NotificationUpdateOne \<Rightarrow> NotificationUpdateOne" where
  \<open>NotificationUpdateOne_Where ps c = c\<lparr>nu_mutation := NotificationMutation_Where ps (nu_mutation c)\<rparr>\<close>

definition NotificationUpdateOne_Select :: "column \<Rightarrow> column list \<Rightarrow> NotificationUpdateOne \<Rightarrow> NotificationUpdateOne" where
  \<open>NotificationUpdateOne_Select f flds c = c\<lparr>nu_fields := f # flds\<rparr>\<close>

definition NotificationUpdateOne_defaults :: "'w db \<Rightarrow> NotificationUpdateOne \<Rightarrow> 'w \<Rightarrow> NotificationUpdateOne \<times> 'w" where
  \<open>NotificationUpdateOne_defaults db c w =
     (case NotificationMutation_UpdatedAt (nu_mutation c) of
        Some _ \<Rightarrow> (c, w)
      | None \<Rightarrow> (case notification_UpdateDefaultUpdatedAt db w of (v, w1) \<Rightarrow> (c\<lparr>nu_mutation := NotificationMutation_SetUpdatedAt v (nu_mutation c)\<rparr>, w1)))\<close>

definition NotificationUpdateOne_check :: "NotificationUpdateOne \<Rightarrow> goerror option" where
  \<open>NotificationUpdateOne_check c =
     first_error
       [validated (NotificationMutation_URL (nu_mutation c)) notification_URLValidator ''url'' ''ent: validator failed for field "Notification.url": '',
        validated (NotificationMutation_Status (nu_mutation c)) notification_StatusValidator ''status'' ''ent: validator failed for field "Notification.status": '']\<close>

definition NotificationUpdateOne_spec :: "NotificationUpdateOne \<Rightarrow> uuid \<Rightarrow> NodeSpec" where
  \<open>NotificationUpdateOne_spec c i =
     \<lparr>ns_ID = i,
      ns_Columns =
        (if nu_fields c = [] then notification_Columns else FieldID # filter (\<lambda>f. f \<noteq> FieldID) (nu_fields c)),
      ns_Update =
        \<lparr>us_Table = Table_notifications, us_Predicate = nm_predicates (nu_mutation c),
          us_Set =
            spec_field FieldURL VString (NotificationMutation_URL (nu_mutation c))
            @ spec_field FieldMethod VString (NotificationMutation_Method (nu_mutation c))
            @ spec_field FieldHeaders VJson (NotificationMutation_Headers (nu_mutation c))
            @ spec_field FieldBody VBytes (NotificationMutation_Body (nu_mutation c))
            @ spec_field FieldStatus VString (NotificationMutation_Status (nu_mutation c))
            @ spec_field FieldAttemptCount VInt (NotificationMutation_AttemptCount (nu_mutation c))
            @ spec_field FieldMaxAttempts VInt (NotificationMutation_MaxAttempts (nu_mutation c))
            @ spec_field FieldLastError VString (NotificationMutation_LastError (nu_mutation c))
            @ spec_field FieldNextAttemptAt VTime (NotificationMutation_NextAttemptAt (nu_mutation c))
            @ spec_field FieldUpdatedAt VTime (NotificationMutation_UpdatedAt (nu_mutation c)),
          us_Add = spec_add FieldAttemptCount (NotificationMutation_AddedAttemptCount (nu_mutation c)) @ spec_add FieldMaxAttempts (NotificationMutation_AddedMaxAttempts (nu_mutation c)),
          us_Clear =
            (if NotificationMutation_HeadersCleared (nu_mutation c) then [FieldHeaders] else [])
            @ (if NotificationMutation_BodyCleared (nu_mutation c) then [FieldBody] else [])
            @ (if NotificationMutation_LastErrorCleared (nu_mutation c) then [FieldLastError] else [])
            @ (if NotificationMutation_NextAttemptAtCleared (nu_mutation c) then [FieldNextAttemptAt] else [])\<rparr>\<rparr>\<close>

definition NotificationUpdateOne_decode :: "column list \<Rightarrow> row \<Rightarrow> goerror + Notification" where
  \<open>NotificationUpdateOne_decode cs r =
     (case scan_columns (Notification_scanValues cs) (map r cs) of
        Inl err \<Rightarrow> Inl err
      | Inr vs \<Rightarrow> Notification_assignValues cs vs Notification_zero)\<close>

definition NotificationUpdateOne_sqlSave :: "'w graph \<Rightarrow> 'w db \<Rightarrow> NotificationUpdateOne \<Rightarrow> 'w \<Rightarrow> (goerror + Notification) \<times> 'w" where
  \<open>NotificationUpdateOne_sqlSave g db c w =
     (case NotificationUpdateOne_check c of
        Some err \<Rightarrow> (Inl err, w)
      | None \<Rightarrow>
          (case NotificationMutation_ID (nu_mutation c) of
             None \<Rightarrow> (Inl (ValidationError ''id'' (ErrText ''ent: missing "Notification.id" for update'')), w)
           | Some i \<Rightarrow>
               (case List.find (\<lambda>f. \<not> notification_ValidColumn f) (nu_fields c) of
                  Some f \<Rightarrow>
                    (Inl (ValidationError (column_name f)
                       (ErrText (''ent: invalid field '' @ Quote (column_name f) @ '' for query''))), w)
                | None \<Rightarrow>
                    (let spec = NotificationUpdateOne_spec c i; decode = NotificationUpdateOne_decode (ns_Columns spec) in
                     case UpdateNode g spec (\<lambda>r. case decode r of Inl err \<Rightarrow> Some err | Inr _ \<Rightarrow> None) w of
                       (Inl err, w1) \<Rightarrow>
                         (Inl (if IsSqlNotFoundError db err then NotFoundError notification_Label
                               else if IsSqlConstraintError db err then ConstraintError (error_text err) err
                               else err), w1)
                     | (Inr r, w1) \<Rightarrow> (decode r, w1)))))\<close>

definition NotificationUpdateOne_Save :: "'w graph \<Rightarrow> 'w db \<Rightarrow> NotificationUpdateOne \<Rightarrow> 'w \<Rightarrow> (goerror + Notification) \<times> 'w" where
  \<open>NotificationUpdateOne_Save g db c w = (case NotificationUpdateOne_defaults db c w of (c1, w1) \<Rightarrow> NotificationUpdateOne_sqlSave g db c1 w1)\<close>

definition NotificationUpdateOne_SaveX :: "'w graph \<Rightarrow> 'w db \<Rightarrow> NotificationUpdateOne \<Rightarrow> 'w \<Rightarrow> Notification panicking \<times> 'w" where
  \<open>NotificationUpdateOne_SaveX g db c w = or_panic (NotificationUpdateOne_Save g db c w)\<close>

definition NotificationUpdateOne_Exec :: "'w graph \<Rightarrow> 'w db \<Rightarrow> NotificationUpdateOne \<Rightarrow> 'w \<Rightarrow> goerror option \<times> 'w" where
  \<open>NotificationUpdateOne_Exec g db c w = (case NotificationUpdateOne_Save g db c w of (Inl err, w1) \<Rightarrow> (Some err, w1) | (Inr _, w1) \<Rightarrow> (None, w1))\<close>

definition NotificationUpdateOne_ExecX :: "'w graph \<Rightarrow> 'w db \<Rightarrow> NotificationUpdateOne \<Rightarrow> 'w \<Rightarrow> unit panicking \<times> 'w" where
  \<open>NotificationUpdateOne_ExecX g db c w = or_panic_err (NotificationUpdateOne_Exec g db c w)\<close>

section \<open>Panicking variants and bulk creation\<close>

definition NotificationCreate_SaveX :: "'w db \<Rightarrow> NotificationCreate \<Rightarrow> 'w \<Rightarrow> Notification panicking \<times> 'w" where
  \<open>NotificationCreate_SaveX db c w = or_panic (NotificationCreate_Save db c w)\<close>

definition NotificationCreate_ExecX :: "'w db \<Rightarrow> NotificationCreate \<Rightarrow> 'w \<Rightarrow> unit panicking \<times> 'w" where
  \<open>NotificationCreate_ExecX db c w = or_panic_err (NotificationCreate_Exec db c w)\<close>

definition NotificationUpdate_SaveX :: "'w db \<Rightarrow> NotificationUpdate \<Rightarrow> 'w \<Rightarrow> int panicking \<times> 'w" where
  \<open>NotificationUpdate_SaveX db c w = or_panic (NotificationUpdate_Save db c w)\<close>

definition NotificationUpdate_ExecX :: "'w db \<Rightarrow> NotificationUpdate \<Rightarrow> 'w \<Rightarrow> unit panicking \<times> 'w" where
  \<open>NotificationUpdate_ExecX db c w = or_panic_err (NotificationUpdate_Exec db c w)\<close>

record NotificationCreateBulk =
  nb_err :: "goerror option"
  nb_builders :: "NotificationCreate list"

fun NotificationCreateBulk_defaults :: "'w db \<Rightarrow> NotificationCreate list \<Rightarrow> 'w \<Rightarrow> NotificationCreate list \<times> 'w" where
  "NotificationCreateBulk_defaults db [] w = ([], w)"
| "NotificationCreateBulk_defaults db (c # cs) w =
     (case NotificationCreate_defaults db c w of (c1, w1) \<Rightarrow>
        (case NotificationCreateBulk_defaults db cs w1 of (cs1, w2) \<Rightarrow> (c1 # cs1, w2)))"

fun NotificationCreateBulk_specs :: "NotificationCreate list \<Rightarrow> goerror + (Notification \<times> CreateSpec) list" where
  "NotificationCreateBulk_specs [] = Inr []"
| "NotificationCreateBulk_specs (c # cs) =
     (case NotificationCreate_check c of
        Some err \<Rightarrow> Inl err
      | None \<Rightarrow> (case NotificationCreateBulk_specs cs of Inl err \<Rightarrow> Inl err | Inr xs \<Rightarrow> Inr (NotificationCreate_createSpec c # xs)))"

definition NotificationCreateBulk_Save :: "'w graph \<Rightarrow> 'w db \<Rightarrow> NotificationCreateBulk \<Rightarrow> 'w \<Rightarrow> (goerror + Notification list) \<times> 'w" where
  \<open>NotificationCreateBulk_Save g db b w =
     (case nb_err b of
        Some err \<Rightarrow> (Inl err, w)
      | None \<Rightarrow>
          (case NotificationCreateBulk_defaults db (nb_builders b) w of (cs, w1) \<Rightarrow>
             if cs = [] then (Inr [], w1)
             else (case NotificationCreateBulk_specs cs of
                     Inl err \<Rightarrow> (Inl err, w1)
                   | Inr xs \<Rightarrow>
                       (case BatchCreate g (map snd xs) w1 of
                          (Inl err, w2) \<Rightarrow>
                            (Inl (if IsSqlConstraintError db err then ConstraintError (error_text err) err else err), w2)
                        | (Inr _, w2) \<Rightarrow> (Inr (map fst xs), w2)))))\<close>

definition NotificationCreateBulk_SaveX :: "'w graph \<Rightarrow> 'w db \<Rightarrow> NotificationCreateBulk \<Rightarrow> 'w \<Rightarrow> Notification list panicking \<times> 'w" where
  \<open>NotificationCreateBulk_SaveX g db b w = or_panic (NotificationCreateBulk_Save g db b w)\<close>

definition NotificationCreateBulk_Exec :: "'w graph \<Rightarrow> 'w db \<Rightarrow> NotificationCreateBulk \<Rightarrow> 'w \<Rightarrow> goerror option \<times> 'w" where
  \<open>NotificationCreateBulk_Exec g db b w = (case NotificationCreateBulk_Save g db b w of (Inl err, w1) \<Rightarrow> (Some err, w1) | (Inr _, w1) \<Rightarrow> (None, w1))\<close>

definition NotificationCreateBulk_ExecX :: "'w graph \<Rightarrow> 'w db \<Rightarrow> NotificationCreateBulk \<Rightarrow> 'w \<Rightarrow> unit panicking \<times> 'w" where
  \<open>NotificationCreateBulk_ExecX g db b w = or_panic_err (NotificationCreateBulk_Exec g db b w)\<close>

section \<open>The client\<close>

definition NotificationClient_CreateBulk :: "NotificationCreate list \<Rightarrow> NotificationCreateBulk" where
  \<open>NotificationClient_CreateBulk builders = \<lparr>nb_err = None, nb_builders = builders\<rparr>\<close>

definition NotificationClient_MapCreateBulk :: "'s list \<Rightarrow> (NotificationCreate \<Rightarrow> int \<Rightarrow> NotificationCreate) \<Rightarrow> NotificationCreateBulk" where
  \<open>NotificationClient_MapCreateBulk xs setFunc =
     \<lparr>nb_err = None,
      nb_builders = map (\<lambda>i. setFunc NotificationClient_Create (int i)) [0..<length xs]\<rparr>\<close>

definition NotificationClient_UpdateOne :: "Notification \<Rightarrow> NotificationUpdateOne \<times> ('w, Notification) old_value" where
  \<open>NotificationClient_UpdateOne node =
     (case withNotification node (newNotificationMutation OpUpdateOne) of
        (m, oldValue) \<Rightarrow> (\<lparr>nu_fields = [], nu_mutation = m\<rparr>, oldValue))\<close>

definition NotificationClient_UpdateOneID :: "'w db \<Rightarrow> bool \<Rightarrow> uuid \<Rightarrow> NotificationUpdateOne \<times> ((goerror + Notification) option \<times> 'w, Notification) old_value" where
  \<open>NotificationClient_UpdateOneID db done i =
     (case withNotificationID db done i (newNotificationMutation OpUpdateOne) of
        (m, oldValue) \<Rightarrow> (\<lparr>nu_fields = [], nu_mutation = m\<rparr>, oldValue))\<close>

definition NotificationClient_Delete :: "NotificationDelete" where
  \<open>NotificationClient_Delete = newNotificationMutation OpDelete\<close>

definition NotificationClient_DeleteOneID :: "uuid \<Rightarrow> NotificationDeleteOne" where
  \<open>NotificationClient_DeleteOneID i =
     (NotificationDelete_Where [notification_ID i] NotificationClient_Delete)\<lparr>nm_id := Some i, nm_op := OpDeleteOne\<rparr>\<close>

definition NotificationClient_DeleteOne :: "Notification \<Rightarrow> NotificationDeleteOne" where
  \<open>NotificationClient_DeleteOne node = NotificationClient_DeleteOneID (n_ID node)\<close>

definition NotificationClient_GetX :: "'w db \<Rightarrow> uuid \<Rightarrow> 'w \<Rightarrow> Notification panicking \<times> 'w" where
  \<open>NotificationClient_GetX db i w = or_panic (NotificationClient_Get db i w)\<close>

definition NotificationClient_mutate :: "'w graph \<Rightarrow> 'w db \<Rightarrow> NotificationMutation \<Rightarrow> 'w \<Rightarrow> (goerror + Notification mutated) \<times> 'w" where
  \<open>NotificationClient_mutate g db m w =
     (case NotificationMutation_Op m of
        OpCreate \<Rightarrow> (case NotificationCreate_Save db m w of (r, w1) \<Rightarrow> (map_sum id Node r, w1))
      | OpUpdate \<Rightarrow> (case NotificationUpdate_Save db m w of (r, w1) \<Rightarrow> (map_sum id Affected r, w1))
      | OpUpdateOne \<Rightarrow>
          (case NotificationUpdateOne_Save g db \<lparr>nu_fields = [], nu_mutation = m\<rparr> w of (r, w1) \<Rightarrow> (map_sum id Node r, w1))
      | OpDelete \<Rightarrow> (case NotificationDelete_Exec g db m w of (r, w1) \<Rightarrow> (map_sum id Affected r, w1))
      | OpDeleteOne \<Rightarrow> (case NotificationDelete_Exec g db m w of (r, w1) \<Rightarrow> (map_sum id Affected r, w1)))\<close>

definition Notification_Update :: "Notification \<Rightarrow> NotificationUpdateOne \<times> ('w, Notification) old_value" where
  \<open>Notification_Update node = NotificationClient_UpdateOne node\<close>

lemmas Notification_graph_defs =
  Notification_String_def
  NotificationMutation_OldURL_def
  NotificationMutation_OldMethod_def
  NotificationMutation_OldHeaders_def
  NotificationMutation_OldBody_def
  NotificationMutation_OldStatus_def
  NotificationMutation_OldAttemptCount_def
  NotificationMutation_OldMaxAttempts_def
  NotificationMutation_OldLastError_def
  NotificationMutation_OldNextAttemptAt_def
  NotificationMutation_OldCreatedAt_def
  NotificationMutation_OldUpdatedAt_def
  NotificationMutation_OldField_def
  NotificationMutation_AddedEdges_def
  NotificationMutation_AddedIDs_def
  NotificationMutation_RemovedEdges_def
  NotificationMutation_RemovedIDs_def
  NotificationMutation_ClearedEdges_def
  NotificationMutation_EdgeCleared_def
  NotificationMutation_ClearEdge_def
  NotificationMutation_ResetEdge_def
  NotificationMutation_WhereP_def
  withNotification_def
  withNotificationID_def
  NotificationQuery_Select_def
  NotificationQuery_Clone_def
  NotificationQuery_sqlQuery_def
  NotificationSelect_sqlScan_def
  NotificationSelect_Scan_def
  NotificationQuery_IDs_def
  NotificationQuery_FirstID_def
  NotificationQuery_OnlyID_def
  NotificationQuery_sqlCount_def
  NotificationQuery_Count_def
  NotificationQuery_Exist_def
  NotificationQuery_FirstX_def
  NotificationQuery_FirstIDX_def
  NotificationQuery_OnlyX_def
  NotificationQuery_OnlyIDX_def
  NotificationQuery_AllX_def
  NotificationQuery_IDsX_def
  NotificationQuery_CountX_def
  NotificationQuery_ExistX_def
  NotificationMutation_IDs_def
  NotificationDelete_Where_def
  NotificationDelete_sqlExec_def
  NotificationDelete_Exec_def
  NotificationDelete_ExecX_def
  NotificationDeleteOne_Where_def
  NotificationDeleteOne_Exec_def
  NotificationDeleteOne_ExecX_def
  NotificationUpdateOne_SetURL_def
  NotificationUpdateOne_SetNillableURL_def
  NotificationUpdateOne_SetMethod_def
  NotificationUpdateOne_SetNillableMethod_def
  NotificationUpdateOne_SetHeaders_def
  NotificationUpdateOne_ClearHeaders_def
  NotificationUpdateOne_SetBody_def
  NotificationUpdateOne_ClearBody_def
  NotificationUpdateOne_SetStatus_def
  NotificationUpdateOne_SetNillableStatus_def
  NotificationUpdateOne_SetAttemptCount_def
  NotificationUpdateOne_SetNillableAttemptCount_def
  NotificationUpdateOne_AddAttemptCount_def
  NotificationUpdateOne_SetMaxAttempts_def
  NotificationUpdateOne_SetNillableMaxAttempts_def
  NotificationUpdateOne_AddMaxAttempts_def
  NotificationUpdateOne_SetLastError_def
  NotificationUpdateOne_SetNillableLastError_def
  NotificationUpdateOne_ClearLastError_def
  NotificationUpdateOne_SetNextAttemptAt_def
  NotificationUpdateOne_SetNillableNextAttemptAt_def
  NotificationUpdateOne_ClearNextAttemptAt_def
  NotificationUpdateOne_SetUpdatedAt_def
  NotificationUpdateOne_Mutation_def
  NotificationUpdateOne_Where_def
  NotificationUpdateOne_Select_def
  NotificationUpdateOne_defaults_def
  NotificationUpdateOne_check_def
  NotificationUpdateOne_spec_def
  NotificationUpdateOne_decode_def
  NotificationUpdateOne_sqlSave_def
  NotificationUpdateOne_Save_def
  NotificationUpdateOne_SaveX_def
  NotificationUpdateOne_Exec_def
  NotificationUpdateOne_ExecX_def
  NotificationCreate_SaveX_def
  NotificationCreate_ExecX_def
  NotificationUpdate_SaveX_def
  NotificationUpdate_ExecX_def
  NotificationCreateBulk_Save_def
  NotificationCreateBulk_SaveX_def
  NotificationCreateBulk_Exec_def
  NotificationCreateBulk_ExecX_def
  NotificationClient_CreateBulk_def
  NotificationClient_MapCreateBulk_def
  NotificationClient_UpdateOne_def
  NotificationClient_UpdateOneID_def
  NotificationClient_Delete_def
  NotificationClient_DeleteOneID_def
  NotificationClient_DeleteOne_def
  NotificationClient_GetX_def
  NotificationClient_mutate_def
  Notification_Update_def

end
