(* ===== verification/Graph_DeliveryAttempt.thy ===== *)
theory Graph_DeliveryAttempt
  imports Sql_Graph Ent_Values
begin

text \<open>
  The rest of the generated code for DeliveryAttempt, which the program does not call: printing, old
  values and edges of the mutation, the remaining queries, the delete builders, \<^verbatim>\<open>UpdateOne\<close>, bulk
  creation, the panicking variants and the client methods that make these builders. In \<open>withDeliveryAttemptID\<close>,
  \<open>done\<close> tells whether the mutation was executed before its old value is asked for; the state is
  paired with the value that \<^verbatim>\<open>once\<close> keeps.
\<close>

section \<open>Printing\<close>

definition DeliveryAttempt_String :: "printing \<Rightarrow> DeliveryAttempt \<Rightarrow> string" where
  \<open>DeliveryAttempt_String pr e =
     ''DeliveryAttempt(''
     @ ''id='' @ pr_UUID pr (d_ID e) @ '', ''
     @ ''notification_id=''
     @ pr_UUID pr (d_NotificationID e)
     @ '', ''
     @ ''attempt_number=''
     @ Itoa (d_AttemptNumber e)
     @ '', ''
     @ ''status=''
     @ d_Status e
     @ '', ''
     @ ''http_status=''
     @ Itoa (d_HTTPStatus e)
     @ '', ''
     @ ''error_message=''
     @ d_ErrorMessage e
     @ '', ''
     @ ''duration_ms=''
     @ Itoa (d_DurationMs e)
     @ '', ''
     @ ''created_at=''
     @ pr_Time pr (d_CreatedAt e)
     @ '')''\<close>

section \<open>Old values and edges of the mutation\<close>

definition DeliveryAttemptMutation_OldNotificationID :: "('w, DeliveryAttempt) old_value \<Rightarrow> DeliveryAttemptMutation \<Rightarrow> 'w \<Rightarrow> (goerror + uuid) \<times> 'w" where
  \<open>DeliveryAttemptMutation_OldNotificationID oldValue m w =
     (if dm_op m \<noteq> OpUpdateOne then (Inl (ErrText ''OldNotificationID is only allowed on UpdateOne operations''), w)
      else case (dm_id m, oldValue) of
             (Some _, Some get) \<Rightarrow>
               (case get w of
                  (Inl err, w1) \<Rightarrow> (Inl (ErrWrap ''querying old value for OldNotificationID: '' err ''''), w1)
                | (Inr old, w1) \<Rightarrow> (Inr (d_NotificationID old), w1))
           | _ \<Rightarrow> (Inl (ErrText ''OldNotificationID requires an ID field in the mutation''), w))\<close>

definition DeliveryAttemptMutation_OldAttemptNumber :: "('w, DeliveryAttempt) old_value \<Rightarrow> DeliveryAttemptMutation \<Rightarrow> 'w \<Rightarrow> (goerror + int) \<times> 'w" where
  \<open>DeliveryAttemptMutation_OldAttemptNumber oldValue m w =
     (if dm_op m \<noteq> OpUpdateOne then (Inl (ErrText ''OldAttemptNumber is only allowed on UpdateOne operations''), w)
      else case (dm_id m, oldValue) of
             (Some _, Some get) \<Rightarrow>
               (case get w of
                  (Inl err, w1) \<Rightarrow> (Inl (ErrWrap ''querying old value for OldAttemptNumber: '' err ''''), w1)
                | (Inr old, w1) \<Rightarrow> (Inr (d_AttemptNumber old), w1))
           | _ \<Rightarrow> (Inl (ErrText ''OldAttemptNumber requires an ID field in the mutation''), w))\<close>

definition DeliveryAttemptMutation_OldStatus :: "('w, DeliveryAttempt) old_value \<Rightarrow> DeliveryAttemptMutation \<Rightarrow> 'w \<Rightarrow> (goerror + string) \<times> 'w" where
  \<open>DeliveryAttemptMutation_OldStatus oldValue m w =
     (if dm_op m \<noteq> OpUpdateOne then (Inl (ErrText ''OldStatus is only allowed on UpdateOne operations''), w)
      else case (dm_id m, oldValue) of
             (Some _, Some get) \<Rightarrow>
               (case get w of
                  (Inl err, w1) \<Rightarrow> (Inl (ErrWrap ''querying old value for OldStatus: '' err ''''), w1)
                | (Inr old, w1) \<Rightarrow> (Inr (d_Status old), w1))
           | _ \<Rightarrow> (Inl (ErrText ''OldStatus requires an ID field in the mutation''), w))\<close>

definition DeliveryAttemptMutation_OldHTTPStatus :: "('w, DeliveryAttempt) old_value \<Rightarrow> DeliveryAttemptMutation \<Rightarrow> 'w \<Rightarrow> (goerror + int) \<times> 'w" where
  \<open>DeliveryAttemptMutation_OldHTTPStatus oldValue m w =
     (if dm_op m \<noteq> OpUpdateOne then (Inl (ErrText ''OldHTTPStatus is only allowed on UpdateOne operations''), w)
      else case (dm_id m, oldValue) of
             (Some _, Some get) \<Rightarrow>
               (case get w of
                  (Inl err, w1) \<Rightarrow> (Inl (ErrWrap ''querying old value for OldHTTPStatus: '' err ''''), w1)
                | (Inr old, w1) \<Rightarrow> (Inr (d_HTTPStatus old), w1))
           | _ \<Rightarrow> (Inl (ErrText ''OldHTTPStatus requires an ID field in the mutation''), w))\<close>

definition DeliveryAttemptMutation_OldErrorMessage :: "('w, DeliveryAttempt) old_value \<Rightarrow> DeliveryAttemptMutation \<Rightarrow> 'w \<Rightarrow> (goerror + string) \<times> 'w" where
  \<open>DeliveryAttemptMutation_OldErrorMessage oldValue m w =
     (if dm_op m \<noteq> OpUpdateOne then (Inl (ErrText ''OldErrorMessage is only allowed on UpdateOne operations''), w)
      else case (dm_id m, oldValue) of
             (Some _, Some get) \<Rightarrow>
               (case get w of
                  (Inl err, w1) \<Rightarrow> (Inl (ErrWrap ''querying old value for OldErrorMessage: '' err ''''), w1)
                | (Inr old, w1) \<Rightarrow> (Inr (d_ErrorMessage old), w1))
           | _ \<Rightarrow> (Inl (ErrText ''OldErrorMessage requires an ID field in the mutation''), w))\<close>

definition DeliveryAttemptMutation_OldDurationMs :: "('w, DeliveryAttempt) old_value \<Rightarrow> DeliveryAttemptMutation \<Rightarrow> 'w \<Rightarrow> (goerror + int) \<times> 'w" where
  \<open>DeliveryAttemptMutation_OldDurationMs oldValue m w =
     (if dm_op m \<noteq> OpUpdateOne then (Inl (ErrText ''OldDurationMs is only allowed on UpdateOne operations''), w)
      else case (dm_id m, oldValue) of
             (Some _, Some get) \<Rightarrow>
               (case get w of
                  (Inl err, w1) \<Rightarrow> (Inl (ErrWrap ''querying old value for OldDurationMs: '' err ''''), w1)
                | (Inr old, w1) \<Rightarrow> (Inr (d_DurationMs old), w1))
           | _ \<Rightarrow> (Inl (ErrText ''OldDurationMs requires an ID field in the mutation''), w))\<close>

definition DeliveryAttemptMutation_OldCreatedAt :: "('w, DeliveryAttempt) old_value \<Rightarrow> DeliveryAttemptMutation \<Rightarrow> 'w \<Rightarrow> (goerror + time) \<times> 'w" where
  \<open>DeliveryAttemptMutation_OldCreatedAt oldValue m w =
     (if dm_op m \<noteq> OpUpdateOne then (Inl (ErrText ''OldCreatedAt is only allowed on UpdateOne operations''), w)
      else case (dm_id m, oldValue) of
             (Some _, Some get) \<Rightarrow>
               (case get w of
                  (Inl err, w1) \<Rightarrow> (Inl (ErrWrap ''querying old value for OldCreatedAt: '' err ''''), w1)
                | (Inr old, w1) \<Rightarrow> (Inr (d_CreatedAt old), w1))
           | _ \<Rightarrow> (Inl (ErrText ''OldCreatedAt requires an ID field in the mutation''), w))\<close>

definition DeliveryAttemptMutation_OldField :: "('w, DeliveryAttempt) old_value \<Rightarrow> column \<Rightarrow> DeliveryAttemptMutation \<Rightarrow> 'w \<Rightarrow> (goerror + ent_value option) \<times> 'w" where
  \<open>DeliveryAttemptMutation_OldField oldValue name m w =
     (case name of
         FieldNotificationID \<Rightarrow> old_result (Some \<circ> GoUUID) (DeliveryAttemptMutation_OldNotificationID oldValue m w)
       | FieldAttemptNumber \<Rightarrow> old_result (Some \<circ> GoInt) (DeliveryAttemptMutation_OldAttemptNumber oldValue m w)
       | FieldStatus \<Rightarrow> old_result (Some \<circ> GoDeliveryAttemptStatus) (DeliveryAttemptMutation_OldStatus oldValue m w)
       | FieldHTTPStatus \<Rightarrow> old_result (Some \<circ> GoInt) (DeliveryAttemptMutation_OldHTTPStatus oldValue m w)
       | FieldErrorMessage \<Rightarrow> old_result (Some \<circ> GoString) (DeliveryAttemptMutation_OldErrorMessage oldValue m w)
       | FieldDurationMs \<Rightarrow> old_result (Some \<circ> GoInt64) (DeliveryAttemptMutation_OldDurationMs oldValue m w)
       | FieldCreatedAt \<Rightarrow> old_result (Some \<circ> GoTime) (DeliveryAttemptMutation_OldCreatedAt oldValue m w)
       | _ \<Rightarrow> (Inl (ErrText (''unknown DeliveryAttempt field '' @ column_name name)), w))\<close>

definition DeliveryAttemptMutation_AddedEdges :: "DeliveryAttemptMutation \<Rightarrow> string list" where
  \<open>DeliveryAttemptMutation_AddedEdges m = []\<close>

definition DeliveryAttemptMutation_AddedIDs :: "string \<Rightarrow> DeliveryAttemptMutation \<Rightarrow> ent_value list" where
  \<open>DeliveryAttemptMutation_AddedIDs name m = []\<close>

definition DeliveryAttemptMutation_RemovedEdges :: "DeliveryAttemptMutation \<Rightarrow> string list" where
  \<open>DeliveryAttemptMutation_RemovedEdges m = []\<close>

definition DeliveryAttemptMutation_RemovedIDs :: "string \<Rightarrow> DeliveryAttemptMutation \<Rightarrow> ent_value list" where
  \<open>DeliveryAttemptMutation_RemovedIDs name m = []\<close>

definition DeliveryAttemptMutation_ClearedEdges :: "DeliveryAttemptMutation \<Rightarrow> string list" where
  \<open>DeliveryAttemptMutation_ClearedEdges m = []\<close>

definition DeliveryAttemptMutation_EdgeCleared :: "string \<Rightarrow> DeliveryAttemptMutation \<Rightarrow> bool" where
  \<open>DeliveryAttemptMutation_EdgeCleared name m = False\<close>

definition DeliveryAttemptMutation_ClearEdge :: "string \<Rightarrow> DeliveryAttemptMutation \<Rightarrow> goerror option" where
  \<open>DeliveryAttemptMutation_ClearEdge name m = Some (ErrText (''unknown DeliveryAttempt unique edge '' @ name))\<close>

definition DeliveryAttemptMutation_ResetEdge :: "string \<Rightarrow> DeliveryAttemptMutation \<Rightarrow> goerror option" where
  \<open>DeliveryAttemptMutation_ResetEdge name m = Some (ErrText (''unknown DeliveryAttempt edge '' @ name))\<close>

definition DeliveryAttemptMutation_WhereP :: "sql_pred list \<Rightarrow> DeliveryAttemptMutation \<Rightarrow> DeliveryAttemptMutation" where
  \<open>DeliveryAttemptMutation_WhereP ps m = DeliveryAttemptMutation_Where ps m\<close>

definition withDeliveryAttempt :: "DeliveryAttempt \<Rightarrow> DeliveryAttemptMutation \<Rightarrow> DeliveryAttemptMutation \<times> ('w, DeliveryAttempt) old_value" where
  \<open>withDeliveryAttempt node m =
     (m\<lparr>dm_id := Some (d_ID node)\<rparr>, Some (\<lambda>w. (Inr node, w)))\<close>

definition withDeliveryAttemptID :: "'w db \<Rightarrow> bool \<Rightarrow> uuid \<Rightarrow> DeliveryAttemptMutation \<Rightarrow> DeliveryAttemptMutation \<times> ((goerror + DeliveryAttempt) option \<times> 'w, DeliveryAttempt) old_value" where
  \<open>withDeliveryAttemptID db done i m =
     (m\<lparr>dm_id := Some i\<rparr>,
      Some (\<lambda>(value, w).
        case value of
          Some r \<Rightarrow> (r, (value, w))
        | None \<Rightarrow>
            if done then (let r = Inl (ErrText ''querying old values post mutation is not allowed'') in (r, (Some r, w)))
            else (case DeliveryAttemptClient_Get db i w of (r, w1) \<Rightarrow> (r, (Some r, w1)))))\<close>

section \<open>Queries\<close>

type_synonym DeliveryAttemptSelect = DeliveryAttemptQuery

definition DeliveryAttemptQuery_Select :: "column list \<Rightarrow> DeliveryAttemptQuery \<Rightarrow> DeliveryAttemptSelect" where
  \<open>DeliveryAttemptQuery_Select flds q = q\<lparr>dq_Fields := dq_Fields q @ flds\<rparr>\<close>

definition DeliveryAttemptQuery_Clone :: "DeliveryAttemptQuery \<Rightarrow> DeliveryAttemptQuery" where
  \<open>DeliveryAttemptQuery_Clone q =
     \<lparr>dq_Limit = dq_Limit q, dq_Offset = dq_Offset q, dq_Unique = dq_Unique q, dq_Fields = dq_Fields q, dq_order = dq_order q, dq_predicates = dq_predicates q\<rparr>\<close>

definition DeliveryAttemptQuery_sqlQuery :: "DeliveryAttemptQuery \<Rightarrow> QuerySpec" where
  \<open>DeliveryAttemptQuery_sqlQuery q =
     \<lparr>qs_Table = Table_delivery_attempts,
      qs_Columns = (if dq_Fields q = [] then deliveryattempt_Columns else dq_Fields q),
      qs_Predicate = dq_predicates q,
      qs_Order = dq_order q,
      qs_Limit = (case dq_Limit q of
          Some k \<Rightarrow> k
        | None \<Rightarrow> (case dq_Offset q of Some _ \<Rightarrow> 2 ^ 31 - 1 | None \<Rightarrow> 0)),
      qs_Offset = field_or 0 (dq_Offset q),
      qs_Unique = field_or False (dq_Unique q)\<rparr>\<close>

definition DeliveryAttemptSelect_sqlScan :: "'w graph \<Rightarrow> DeliveryAttemptSelect \<Rightarrow> 'w \<Rightarrow> (goerror + uuid list) \<times> 'w" where
  \<open>DeliveryAttemptSelect_sqlScan g s w =
     (let spec = DeliveryAttemptQuery_sqlQuery s in
      case SelectRows g spec w of
        (Inl err, w1) \<Rightarrow> (Inl err, w1)
      | (Inr rows, w1) \<Rightarrow> (ScanUUIDs g (qs_Columns spec) rows, w1))\<close>

definition DeliveryAttemptSelect_Scan :: "'w graph \<Rightarrow> DeliveryAttemptSelect \<Rightarrow> 'w \<Rightarrow> (goerror + uuid list) \<times> 'w" where
  \<open>DeliveryAttemptSelect_Scan g s w =
     (case DeliveryAttemptQuery_prepareQuery s of Some err \<Rightarrow> (Inl err, w) | None \<Rightarrow> DeliveryAttemptSelect_sqlScan g s w)\<close>

definition DeliveryAttemptQuery_IDs :: "'w graph \<Rightarrow> DeliveryAttemptQuery \<Rightarrow> 'w \<Rightarrow> (goerror + uuid list) \<times> 'w" where
  \<open>DeliveryAttemptQuery_IDs g q w = DeliveryAttemptSelect_Scan g (DeliveryAttemptQuery_Select [FieldID] q) w\<close>

definition DeliveryAttemptQuery_FirstID :: "'w graph \<Rightarrow> DeliveryAttemptQuery \<Rightarrow> 'w \<Rightarrow> (goerror + uuid) \<times> 'w" where
  \<open>DeliveryAttemptQuery_FirstID g q w =
     (case DeliveryAttemptQuery_IDs g (DeliveryAttemptQuery_Limit 1 q) w of
        (Inl err, w1) \<Rightarrow> (Inl err, w1)
      | (Inr ids, w1) \<Rightarrow> (case ids of [] \<Rightarrow> (Inl (NotFoundError deliveryattempt_Label), w1) | x # _ \<Rightarrow> (Inr x, w1)))\<close>

definition DeliveryAttemptQuery_OnlyID :: "'w graph \<Rightarrow> DeliveryAttemptQuery \<Rightarrow> 'w \<Rightarrow> (goerror + uuid) \<times> 'w" where
  \<open>DeliveryAttemptQuery_OnlyID g q w =
     (case DeliveryAttemptQuery_IDs g (DeliveryAttemptQuery_Limit 2 q) w of
        (Inl err, w1) \<Rightarrow> (Inl err, w1)
      | (Inr ids, w1) \<Rightarrow>
          (case ids of
             [x] \<Rightarrow> (Inr x, w1)
           | [] \<Rightarrow> (Inl (NotFoundError deliveryattempt_Label), w1)
           | _ \<Rightarrow> (Inl (NotSingularError deliveryattempt_Label), w1)))\<close>

definition DeliveryAttemptQuery_sqlCount :: "'w graph \<Rightarrow> DeliveryAttemptQuery \<Rightarrow> 'w \<Rightarrow> (goerror + int) \<times> 'w" where
  \<open>DeliveryAttemptQuery_sqlCount g q w =
     (let spec = (DeliveryAttemptQuery_querySpec q)\<lparr>qs_Columns := dq_Fields q\<rparr>;
          spec = (if dq_Fields q = [] then spec else spec\<lparr>qs_Unique := field_or False (dq_Unique q)\<rparr>)
      in CountNodes g spec w)\<close>

definition DeliveryAttemptQuery_Count :: "'w graph \<Rightarrow> DeliveryAttemptQuery \<Rightarrow> 'w \<Rightarrow> (goerror + int) \<times> 'w" where
  \<open>DeliveryAttemptQuery_Count g q w =
     (case DeliveryAttemptQuery_prepareQuery q of Some err \<Rightarrow> (Inl err, w) | None \<Rightarrow> DeliveryAttemptQuery_sqlCount g q w)\<close>

definition DeliveryAttemptQuery_Exist :: "'w graph \<Rightarrow> DeliveryAttemptQuery \<Rightarrow> 'w \<Rightarrow> (goerror + bool) \<times> 'w" where
  \<open>DeliveryAttemptQuery_Exist g q w =
     (case DeliveryAttemptQuery_FirstID g q w of
        (Inr _, w1) \<Rightarrow> (Inr True, w1)
      | (Inl err, w1) \<Rightarrow>
          if IsNotFound (Some err) then (Inr False, w1)
          else (Inl (ErrWrap ''ent: check existence: '' err ''''), w1))\<close>

definition DeliveryAttemptQuery_FirstX :: "'w db \<Rightarrow> DeliveryAttemptQuery \<Rightarrow> 'w \<Rightarrow> (DeliveryAttempt option) panicking \<times> 'w" where
  \<open>DeliveryAttemptQuery_FirstX db q w =
     or_panic_unless_missing None (case DeliveryAttemptQuery_First db q w of (r, w1) \<Rightarrow> (map_sum id Some r, w1))\<close>

definition DeliveryAttemptQuery_FirstIDX :: "'w graph \<Rightarrow> DeliveryAttemptQuery \<Rightarrow> 'w \<Rightarrow> uuid panicking \<times> 'w" where
  \<open>DeliveryAttemptQuery_FirstIDX g q w = or_panic_unless_missing 0 (DeliveryAttemptQuery_FirstID g q w)\<close>

definition DeliveryAttemptQuery_OnlyX :: "'w db \<Rightarrow> DeliveryAttemptQuery \<Rightarrow> 'w \<Rightarrow> DeliveryAttempt panicking \<times> 'w" where
  \<open>DeliveryAttemptQuery_OnlyX db q w = or_panic (DeliveryAttemptQuery_Only db q w)\<close>

definition DeliveryAttemptQuery_OnlyIDX :: "'w graph \<Rightarrow> DeliveryAttemptQuery \<Rightarrow> 'w \<Rightarrow> uuid panicking \<times> 'w" where
  \<open>DeliveryAttemptQuery_OnlyIDX g q w = or_panic (DeliveryAttemptQuery_OnlyID g q w)\<close>

definition DeliveryAttemptQuery_AllX :: "'w db \<Rightarrow> DeliveryAttemptQuery \<Rightarrow> 'w \<Rightarrow> DeliveryAttempt list panicking \<times> 'w" where
  \<open>DeliveryAttemptQuery_AllX db q w = or_panic (DeliveryAttemptQuery_All db q w)\<close>

definition DeliveryAttemptQuery_IDsX :: "'w graph \<Rightarrow> DeliveryAttemptQuery \<Rightarrow> 'w \<Rightarrow> uuid list panicking \<times> 'w" where
  \<open>DeliveryAttemptQuery_IDsX g q w = or_panic (DeliveryAttemptQuery_IDs g q w)\<close>

definition DeliveryAttemptQuery_CountX :: "'w graph \<Rightarrow> DeliveryAttemptQuery \<Rightarrow> 'w \<Rightarrow> int panicking \<times> 'w" where
  \<open>DeliveryAttemptQuery_CountX g q w = or_panic (DeliveryAttemptQuery_Count g q w)\<close>

definition DeliveryAttemptQuery_ExistX :: "'w graph \<Rightarrow> DeliveryAttemptQuery \<Rightarrow> 'w \<Rightarrow> bool panicking \<times> 'w" where
  \<open>DeliveryAttemptQuery_ExistX g q w = or_panic (DeliveryAttemptQuery_Exist g q w)\<close>

definition DeliveryAttemptMutation_IDs :: "'w graph \<Rightarrow> DeliveryAttemptMutation \<Rightarrow> 'w \<Rightarrow> (goerror + uuid list) \<times> 'w" where
  \<open>DeliveryAttemptMutation_IDs g m w =
     (let query = DeliveryAttemptQuery_IDs g (DeliveryAttemptQuery_Where (dm_predicates m) DeliveryAttemptClient_Query) w in
      case dm_op m of
        OpUpdateOne \<Rightarrow> (case DeliveryAttemptMutation_ID m of Some i \<Rightarrow> (Inr [i], w) | None \<Rightarrow> query)
      | OpDeleteOne \<Rightarrow> (case DeliveryAttemptMutation_ID m of Some i \<Rightarrow> (Inr [i], w) | None \<Rightarrow> query)
      | OpUpdate \<Rightarrow> query
      | OpDelete \<Rightarrow> query
      | OpCreate \<Rightarrow> (Inl (ErrText ''IDs is not allowed on OpCreate operations''), w))\<close>

section \<open>Deleting\<close>

type_synonym DeliveryAttemptDelete = DeliveryAttemptMutation

definition DeliveryAttemptDelete_Where :: "sql_pred list \<Rightarrow> DeliveryAttemptDelete \<Rightarrow> DeliveryAttemptDelete" where
  \<open>DeliveryAttemptDelete_Where ps b = DeliveryAttemptMutation_Where ps b\<close>

definition DeliveryAttemptDelete_sqlExec :: "'w graph \<Rightarrow> 'w db \<Rightarrow> DeliveryAttemptDelete \<Rightarrow> 'w \<Rightarrow> (goerror + int) \<times> 'w" where
  \<open>DeliveryAttemptDelete_sqlExec g db b w =
     (case DeleteNodes g \<lparr>ds_Table = Table_delivery_attempts, ds_Predicate = dm_predicates b\<rparr> w of
        (Inl err, w1) \<Rightarrow>
          (Inl (if IsSqlConstraintError db err then ConstraintError (error_text err) err else err), w1)
      | (Inr affected, w1) \<Rightarrow> (Inr affected, w1))\<close>

definition DeliveryAttemptDelete_Exec :: "'w graph \<Rightarrow> 'w db \<Rightarrow> DeliveryAttemptDelete \<Rightarrow> 'w \<Rightarrow> (goerror + int) \<times> 'w" where
  \<open>DeliveryAttemptDelete_Exec g db b w = DeliveryAttemptDelete_sqlExec g db b w\<close>

definition DeliveryAttemptDelete_ExecX :: "'w graph \<Rightarrow> 'w db \<Rightarrow> DeliveryAttemptDelete \<Rightarrow> 'w \<Rightarrow> int panicking \<times> 'w" where
  \<open>DeliveryAttemptDelete_ExecX g db b w = or_panic (DeliveryAttemptDelete_Exec g db b w)\<close>

type_synonym DeliveryAttemptDeleteOne = DeliveryAttemptDelete

definition DeliveryAttemptDeleteOne_Where :: "sql_pred list \<Rightarrow> DeliveryAttemptDeleteOne \<Rightarrow> DeliveryAttemptDeleteOne" where
  \<open>DeliveryAttemptDeleteOne_Where ps b = DeliveryAttemptMutation_Where ps b\<close>

definition DeliveryAttemptDeleteOne_Exec :: "'w graph \<Rightarrow> 'w db \<Rightarrow> DeliveryAttemptDeleteOne \<Rightarrow> 'w \<Rightarrow> goerror option \<times> 'w" where
  \<open>DeliveryAttemptDeleteOne_Exec g db b w =
     (case DeliveryAttemptDelete_Exec g db b w of
        (Inl err, w1) \<Rightarrow> (Some err, w1)
      | (Inr k, w1) \<Rightarrow> (if k = 0 then Some (NotFoundError deliveryattempt_Label) else None, w1))\<close>

definition DeliveryAttemptDeleteOne_ExecX :: "'w graph \<Rightarrow> 'w db \<Rightarrow> DeliveryAttemptDeleteOne \<Rightarrow> 'w \<Rightarrow> unit panicking \<times> 'w" where
  \<open>DeliveryAttemptDeleteOne_ExecX g db b w = or_panic_err (DeliveryAttemptDeleteOne_Exec g db b w)\<close>

section \<open>Updating one node\<close>

record DeliveryAttemptUpdateOne =
  du_fields :: "column list"
  du_mutation :: DeliveryAttemptMutation

definition DeliveryAttemptUpdateOne_SetNotificationID :: "uuid \<Rightarrow> DeliveryAttemptUpdateOne \<Rightarrow> DeliveryAttemptUpdateOne" where
  \<open>DeliveryAttemptUpdateOne_SetNotificationID v c = c\<lparr>du_mutation := DeliveryAttemptMutation_SetNotificationID v (du_mutation c)\<rparr>\<close>

definition DeliveryAttemptUpdateOne_SetNillableNotificationID :: "uuid option \<Rightarrow> DeliveryAttemptUpdateOne \<Rightarrow> DeliveryAttemptUpdateOne" where
  \<open>DeliveryAttemptUpdateOne_SetNillableNotificationID v c = (case v of Some x \<Rightarrow> DeliveryAttemptUpdateOne_SetNotificationID x c | None \<Rightarrow> c)\<close>

definition DeliveryAttemptUpdateOne_SetAttemptNumber :: "int \<Rightarrow> DeliveryAttemptUpdateOne \<Rightarrow> DeliveryAttemptUpdateOne" where
  \<open>DeliveryAttemptUpdateOne_SetAttemptNumber v c = c\<lparr>du_mutation := DeliveryAttemptMutation_SetAttemptNumber v (DeliveryAttemptMutation_ResetAttemptNumber (du_mutation c))\<rparr>\<close>

definition DeliveryAttemptUpdateOne_SetNillableAttemptNumber :: "int option \<Rightarrow> DeliveryAttemptUpdateOne \<Rightarrow> DeliveryAttemptUpdateOne" where
  \<open>DeliveryAttemptUpdateOne_SetNillableAttemptNumber v c = (case v of Some x \<Rightarrow> DeliveryAttemptUpdateOne_SetAttemptNumber x c | None \<Rightarrow> c)\<close>

definition DeliveryAttemptUpdateOne_AddAttemptNumber :: "int \<Rightarrow> DeliveryAttemptUpdateOne \<Rightarrow> DeliveryAttemptUpdateOne" where
  \<open>DeliveryAttemptUpdateOne_AddAttemptNumber v c = c\<lparr>du_mutation := DeliveryAttemptMutation_AddAttemptNumber v (du_mutation c)\<rparr>\<close>

definition DeliveryAttemptUpdateOne_SetStatus :: "string \<Rightarrow> DeliveryAttemptUpdateOne \<Rightarrow> DeliveryAttemptUpdateOne" where
  \<open>DeliveryAttemptUpdateOne_SetStatus v c = c\<lparr>du_mutation := DeliveryAttemptMutation_SetStatus v (du_mutation c)\<rparr>\<close>

definition DeliveryAttemptUpdateOne_SetNillableStatus :: "string option \<Rightarrow> DeliveryAttemptUpdateOne \<Rightarrow> DeliveryAttemptUpdateOne" where
  \<open>DeliveryAttemptUpdateOne_SetNillableStatus v c = (case v of Some x \<Rightarrow> DeliveryAttemptUpdateOne_SetStatus x c | None \<Rightarrow> c)\<close>

definition DeliveryAttemptUpdateOne_SetHTTPStatus :: "int \<Rightarrow> DeliveryAttemptUpdateOne \<Rightarrow> DeliveryAttemptUpdateOne" where
  \<open>DeliveryAttemptUpdateOne_SetHTTPStatus v c = c\<lparr>du_mutation := DeliveryAttemptMutation_SetHTTPStatus v (DeliveryAttemptMutation_ResetHTTPStatus (du_mutation c))\<rparr>\<close>

definition DeliveryAttemptUpdateOne_SetNillableHTTPStatus :: "int option \<Rightarrow> DeliveryAttemptUpdateOne \<Rightarrow> DeliveryAttemptUpdateOne" where
  \<open>DeliveryAttemptUpdateOne_SetNillableHTTPStatus v c = (case v of Some x \<Rightarrow> DeliveryAttemptUpdateOne_SetHTTPStatus x c | None \<Rightarrow> c)\<close>

definition DeliveryAttemptUpdateOne_AddHTTPStatus :: "int \<Rightarrow> DeliveryAttemptUpdateOne \<Rightarrow> DeliveryAttemptUpdateOne" where
  \<open>DeliveryAttemptUpdateOne_AddHTTPStatus v c = c\<lparr>du_mutation := DeliveryAttemptMutation_AddHTTPStatus v (du_mutation c)\<rparr>\<close>

definition DeliveryAttemptUpdateOne_ClearHTTPStatus :: "DeliveryAttemptUpdateOne \<Rightarrow> DeliveryAttemptUpdateOne" where
  \<open>DeliveryAttemptUpdateOne_ClearHTTPStatus c = c\<lparr>du_mutation := DeliveryAttemptMutation_ClearHTTPStatus (du_mutation c)\<rparr>\<close>

definition DeliveryAttemptUpdateOne_SetErrorMessage :: "string \<Rightarrow> DeliveryAttemptUpdateOne \<Rightarrow> DeliveryAttemptUpdateOne" where
  \<open>DeliveryAttemptUpdateOne_SetErrorMessage v c = c\<lparr>du_mutation := DeliveryAttemptMutation_SetErrorMessage v (du_mutation c)\<rparr>\<close>

definition DeliveryAttemptUpdateOne_SetNillableErrorMessage :: "string option \<Rightarrow> DeliveryAttemptUpdateOne \<Rightarrow> DeliveryAttemptUpdateOne" where
  \<open>DeliveryAttemptUpdateOne_SetNillableErrorMessage v c = (case v of Some x \<Rightarrow> DeliveryAttemptUpdateOne_SetErrorMessage x c | None \<Rightarrow> c)\<close>

definition DeliveryAttemptUpdateOne_ClearErrorMessage :: "DeliveryAttemptUpdateOne \<Rightarrow> DeliveryAttemptUpdateOne" where
  \<open>DeliveryAttemptUpdateOne_ClearErrorMessage c = c\<lparr>du_mutation := DeliveryAttemptMutation_ClearErrorMessage (du_mutation c)\<rparr>\<close>

definition DeliveryAttemptUpdateOne_SetDurationMs :: "int \<Rightarrow> DeliveryAttemptUpdateOne \<Rightarrow> DeliveryAttemptUpdateOne" where
  \<open>DeliveryAttemptUpdateOne_SetDurationMs v c = c\<lparr>du_mutation := DeliveryAttemptMutation_SetDurationMs v (DeliveryAttemptMutation_ResetDurationMs (du_mutation c))\<rparr>\<close>

definition DeliveryAttemptUpdateOne_SetNillableDurationMs :: "int option \<Rightarrow> DeliveryAttemptUpdateOne \<Rightarrow> DeliveryAttemptUpdateOne" where
  \<open>DeliveryAttemptUpdateOne_SetNillableDurationMs v c = (case v of Some x \<Rightarrow> DeliveryAttemptUpdateOne_SetDurationMs x c | None \<Rightarrow> c)\<close>

definition DeliveryAttemptUpdateOne_AddDurationMs :: "int \<Rightarrow> DeliveryAttemptUpdateOne \<Rightarrow> DeliveryAttemptUpdateOne" where
  \<open>DeliveryAttemptUpdateOne_AddDurationMs v c = c\<lparr>du_mutation := DeliveryAttemptMutation_AddDurationMs v (du_mutation c)\<rparr>\<close>

definition DeliveryAttemptUpdateOne_Mutation :: "DeliveryAttemptUpdateOne \<Rightarrow> DeliveryAttemptMutation" where
  \<open>DeliveryAttemptUpdateOne_Mutation c = du_mutation c\<close>

definition DeliveryAttemptUpdateOne_Where :: "sql_pred list \<Rightarrow> DeliveryAttemptUpdateOne \<Rightarrow> DeliveryAttemptUpdateOne" where
  \<open>DeliveryAttemptUpdateOne_Where ps c = c\<lparr>du_mutation := DeliveryAttemptMutation_Where ps (du_mutation c)\<rparr>\<close>

definition DeliveryAttemptUpdateOne_Select :: "column \<Rightarrow> column list \<Rightarrow> DeliveryAttemptUpdateOne \<Rightarrow> DeliveryAttemptUpdateOne" where
  \<open>DeliveryAttemptUpdateOne_Select f flds c = c\<lparr>du_fields := f # flds\<rparr>\<close>

definition DeliveryAttemptUpdateOne_check :: "DeliveryAttemptUpdateOne \<Rightarrow> goerror option" where
  \<open>DeliveryAttemptUpdateOne_check c =
     first_error
       [validated (DeliveryAttemptMutation_Status (du_mutation c)) deliveryattempt_StatusValidator ''status'' ''ent: validator failed for field "DeliveryAttempt.status": '']\<close>

definition DeliveryAttemptUpdateOne_spec :: "DeliveryAttemptUpdateOne \<Rightarrow> uuid \<Rightarrow> NodeSpec" where
  \<open>DeliveryAttemptUpdateOne_spec c i =
     \<lparr>ns_ID = i,
      ns_Columns =
        (if du_fields c = [] then deliveryattempt_Columns else FieldID # filter (\<lambda>f. f \<noteq> FieldID) (du_fields c)),
      ns_Update =
        \<lparr>us_Table = Table_delivery_attempts, us_Predicate = dm_predicates (du_mutation c),
          us_Set =
            spec_field FieldNotificationID VUuid (DeliveryAttemptMutation_NotificationID (du_mutation c))
            @ spec_field FieldAttemptNumber VInt (DeliveryAttemptMutation_AttemptNumber (du_mutation c))
            @ spec_field FieldStatus VString (DeliveryAttemptMutation_Status (du_mutation c))
            @ spec_field FieldHTTPStatus VInt (DeliveryAttemptMutation_HTTPStatus (du_mutation c))
            @ spec_field FieldErrorMessage VString (DeliveryAttemptMutation_ErrorMessage (du_mutation c))
            @ spec_field FieldDurationMs VInt (DeliveryAttemptMutation_DurationMs (du_mutation c)),
          us_Add = spec_add FieldAttemptNumber (DeliveryAttemptMutation_AddedAttemptNumber (du_mutation c)) @ spec_add FieldHTTPStatus (DeliveryAttemptMutation_AddedHTTPStatus (du_mutation c)) @ spec_add FieldDurationMs (DeliveryAttemptMutation_AddedDurationMs (du_mutation c)),
          us_Clear =
            (if DeliveryAttemptMutation_HTTPStatusCleared (du_mutation c) then [FieldHTTPStatus] else [])
            @ (if DeliveryAttemptMutation_ErrorMessageCleared (du_mutation c) then [FieldErrorMessage] else [])\<rparr>\<rparr>\<close>

definition DeliveryAttemptUpdateOne_decode :: "column list \<Rightarrow> row \<Rightarrow> goerror + DeliveryAttempt" where
  \<open>DeliveryAttemptUpdateOne_decode cs r =
     (case scan_columns (DeliveryAttempt_scanValues cs) (map r cs) of
        Inl err \<Rightarrow> Inl err
      | Inr vs \<Rightarrow> DeliveryAttempt_assignValues cs vs DeliveryAttempt_zero)\<close>

definition DeliveryAttemptUpdateOne_sqlSave :: "'w graph \<Rightarrow> 'w db \<Rightarrow> DeliveryAttemptUpdateOne \<Rightarrow> 'w \<Rightarrow> (goerror + DeliveryAttempt) \<times> 'w" where
  \<open>DeliveryAttemptUpdateOne_sqlSave g db c w =
     (case DeliveryAttemptUpdateOne_check c of
        Some err \<Rightarrow> (Inl err, w)
      | None \<Rightarrow>
          (case DeliveryAttemptMutation_ID (du_mutation c) of
             None \<Rightarrow> (Inl (ValidationError ''id'' (ErrText ''ent: missing "DeliveryAttempt.id" for update'')), w)
           | Some i \<Rightarrow>
               (case List.find (\<lambda>f. \<not> deliveryattempt_ValidColumn f) (du_fields c) of
                  Some f \<Rightarrow>
                    (Inl (ValidationError (column_name f)
                       (ErrText (''ent: invalid field '' @ Quote (column_name f) @ '' for query''))), w)
                | None \<Rightarrow>
                    (let spec = DeliveryAttemptUpdateOne_spec c i; decode = DeliveryAttemptUpdateOne_decode (ns_Columns spec) in
                     case UpdateNode g spec (\<lambda>r. case decode r of Inl err \<Rightarrow> Some err | Inr _ \<Rightarrow> None) w of
                       (Inl err, w1) \<Rightarrow>
                         (Inl (if IsSqlNotFoundError db err then NotFoundError deliveryattempt_Label
                               else if IsSqlConstraintError db err then ConstraintError (error_text err) err
                               else err), w1)
                     | (Inr r, w1) \<Rightarrow> (decode r, w1)))))\<close>

definition DeliveryAttemptUpdateOne_Save :: "'w graph \<Rightarrow> 'w db \<Rightarrow> DeliveryAttemptUpdateOne \<Rightarrow> 'w \<Rightarrow> (goerror + DeliveryAttempt) \<times> 'w" where
  \<open>DeliveryAttemptUpdateOne_Save g db c w = DeliveryAttemptUpdateOne_sqlSave g db c w\<close>

definition DeliveryAttemptUpdateOne_SaveX :: "'w graph \<Rightarrow> 'w db \<Rightarrow> DeliveryAttemptUpdateOne \<Rightarrow> 'w \<Rightarrow> DeliveryAttempt panicking \<times> 'w" where
  \<open>DeliveryAttemptUpdateOne_SaveX g db c w = or_panic (DeliveryAttemptUpdateOne_Save g db c w)\<close>

definition DeliveryAttemptUpdateOne_Exec :: "'w graph \<Rightarrow> 'w db \<Rightarrow> DeliveryAttemptUpdateOne \<Rightarrow> 'w \<Rightarrow> goerror option \<times> 'w" where
  \<open>DeliveryAttemptUpdateOne_Exec g db c w = (case DeliveryAttemptUpdateOne_Save g db c w of (Inl err, w1) \<Rightarrow> (Some err, w1) | (Inr _, w1) \<Rightarrow> (None, w1))\<close>

definition DeliveryAttemptUpdateOne_ExecX :: "'w graph \<Rightarrow> 'w db \<Rightarrow> DeliveryAttemptUpdateOne \<Rightarrow> 'w \<Rightarrow> unit panicking \<times> 'w" where
  \<open>DeliveryAttemptUpdateOne_ExecX g db c w = or_panic_err (DeliveryAttemptUpdateOne_Exec g db c w)\<close>

section \<open>Panicking variants and bulk creation\<close>

definition DeliveryAttemptCreate_SaveX :: "'w db \<Rightarrow> DeliveryAttemptCreate \<Rightarrow> 'w \<Rightarrow> DeliveryAttempt panicking \<times> 'w" where
  \<open>DeliveryAttemptCreate_SaveX db c w = or_panic (DeliveryAttemptCreate_Save db c w)\<close>

definition DeliveryAttemptCreate_ExecX :: "'w db \<Rightarrow> DeliveryAttemptCreate \<Rightarrow> 'w \<Rightarrow> unit panicking \<times> 'w" where
  \<open>DeliveryAttemptCreate_ExecX db c w = or_panic_err (DeliveryAttemptCreate_Exec db c w)\<close>

definition DeliveryAttemptUpdate_SaveX :: "'w db \<Rightarrow> DeliveryAttemptUpdate \<Rightarrow> 'w \<Rightarrow> int panicking \<times> 'w" where
  \<open>DeliveryAttemptUpdate_SaveX db c w = or_panic (DeliveryAttemptUpdate_Save db c w)\<close>

definition DeliveryAttemptUpdate_ExecX :: "'w db \<Rightarrow> DeliveryAttemptUpdate \<Rightarrow> 'w \<Rightarrow> unit panicking \<times> 'w" where
  \<open>DeliveryAttemptUpdate_ExecX db c w = or_panic_err (DeliveryAttemptUpdate_Exec db c w)\<close>

record DeliveryAttemptCreateBulk =
  db_err :: "goerror option"
  db_builders :: "DeliveryAttemptCreate list"

fun DeliveryAttemptCreateBulk_defaults :: "'w db \<Rightarrow> DeliveryAttemptCreate list \<Rightarrow> 'w \<Rightarrow> DeliveryAttemptCreate list \<times> 'w" where
  "DeliveryAttemptCreateBulk_defaults db [] w = ([], w)"
| "DeliveryAttemptCreateBulk_defaults db (c # cs) w =
     (case DeliveryAttemptCreate_defaults db c w of (c1, w1) \<Rightarrow>
        (case DeliveryAttemptCreateBulk_defaults db cs w1 of (cs1, w2) \<Rightarrow> (c1 # cs1, w2)))"

fun DeliveryAttemptCreateBulk_specs :: "DeliveryAttemptCreate list \<Rightarrow> goerror + (DeliveryAttempt \<times> CreateSpec) list" where
  "DeliveryAttemptCreateBulk_specs [] = Inr []"
| "DeliveryAttemptCreateBulk_specs (c # cs) =
     (case DeliveryAttemptCreate_check c of
        Some err \<Rightarrow> Inl err
      | None \<Rightarrow> (case DeliveryAttemptCreateBulk_specs cs of Inl err \<Rightarrow> Inl err | Inr xs \<Rightarrow> Inr (DeliveryAttemptCreate_createSpec c # xs)))"

definition DeliveryAttemptCreateBulk_Save :: "'w graph \<Rightarrow> 'w db \<Rightarrow> DeliveryAttemptCreateBulk \<Rightarrow> 'w \<Rightarrow> (goerror + DeliveryAttempt list) \<times> 'w" where
  \<open>DeliveryAttemptCreateBulk_Save g db b w =
     (case db_err b of
        Some err \<Rightarrow> (Inl err, w)
      | None \<Rightarrow>
          (case DeliveryAttemptCreateBulk_defaults db (db_builders b) w of (cs, w1) \<Rightarrow>
             if cs = [] then (Inr [], w1)
             else (case DeliveryAttemptCreateBulk_specs cs of
                     Inl err \<Rightarrow> (Inl err, w1)
                   | Inr xs \<Rightarrow>
                       (case BatchCreate g (map snd xs) w1 of
                          (Inl err, w2) \<Rightarrow>
                            (Inl (if IsSqlConstraintError db err then ConstraintError (error_text err) err else err), w2)
                        | (Inr _, w2) \<Rightarrow> (Inr (map fst xs), w2)))))\<close>

definition DeliveryAttemptCreateBulk_SaveX :: "'w graph \<Rightarrow> 'w db \<Rightarrow> DeliveryAttemptCreateBulk \<Rightarrow> 'w \<Rightarrow> DeliveryAttempt list panicking \<times> 'w" where
  \<open>DeliveryAttemptCreateBulk_SaveX g db b w = or_panic (DeliveryAttemptCreateBulk_Save g db b w)\<close>

definition DeliveryAttemptCreateBulk_Exec :: "'w graph \<Rightarrow> 'w db \<Rightarrow> DeliveryAttemptCreateBulk \<Rightarrow> 'w \<Rightarrow> goerror option \<times> 'w" where
  \<open>DeliveryAttemptCreateBulk_Exec g db b w = (case DeliveryAttemptCreateBulk_Save g db b w of (Inl err, w1) \<Rightarrow> (Some err, w1) | (Inr _, w1) \<Rightarrow> (None, w1))\<close>

definition DeliveryAttemptCreateBulk_ExecX :: "'w graph \<Rightarrow> 'w db \<Rightarrow> DeliveryAttemptCreateBulk \<Rightarrow> 'w \<Rightarrow> unit panicking \<times> 'w" where
  \<open>DeliveryAttemptCreateBulk_ExecX g db b w = or_panic_err (DeliveryAttemptCreateBulk_Exec g db b w)\<close>

section \<open>The client\<close>

definition DeliveryAttemptClient_CreateBulk :: "DeliveryAttemptCreate list \<Rightarrow> DeliveryAttemptCreateBulk" where
  \<open>DeliveryAttemptClient_CreateBulk builders = \<lparr>db_err = None, db_builders = builders\<rparr>\<close>

definition DeliveryAttemptClient_MapCreateBulk :: "'s list \<Rightarrow> (DeliveryAttemptCreate \<Rightarrow> int \<Rightarrow> DeliveryAttemptCreate) \<Rightarrow> DeliveryAttemptCreateBulk" where
  \<open>DeliveryAttemptClient_MapCreateBulk xs setFunc =
     \<lparr>db_err = None,
      db_builders = map (\<lambda>i. setFunc DeliveryAttemptClient_Create (int i)) [0..<length xs]\<rparr>\<close>

definition DeliveryAttemptClient_UpdateOne :: "DeliveryAttempt \<Rightarrow> DeliveryAttemptUpdateOne \<times> ('w, DeliveryAttempt) old_value" where
  \<open>DeliveryAttemptClient_UpdateOne node =
     (case withDeliveryAttempt node (newDeliveryAttemptMutation OpUpdateOne) of
        (m, oldValue) \<Rightarrow> (\<lparr>du_fields = [], du_mutation = m\<rparr>, oldValue))\<close>

definition DeliveryAttemptClient_UpdateOneID :: "'w db \<Rightarrow> bool \<Rightarrow> uuid \<Rightarrow> DeliveryAttemptUpdateOne \<times> ((goerror + DeliveryAttempt) option \<times> 'w, DeliveryAttempt) old_value" where
  \<open>DeliveryAttemptClient_UpdateOneID db done i =
     (case withDeliveryAttemptID db done i (newDeliveryAttemptMutation OpUpdateOne) of
        (m, oldValue) \<Rightarrow> (\<lparr>du_fields = [], du_mutation = m\<rparr>, oldValue))\<close>

definition DeliveryAttemptClient_Delete :: "DeliveryAttemptDelete" where
  \<open>DeliveryAttemptClient_Delete = newDeliveryAttemptMutation OpDelete\<close>

definition DeliveryAttemptClient_DeleteOneID :: "uuid \<Rightarrow> DeliveryAttemptDeleteOne" where
  \<open>DeliveryAttemptClient_DeleteOneID i =
     (DeliveryAttemptDelete_Where [deliveryattempt_ID i] DeliveryAttemptClient_Delete)\<lparr>dm_id := Some i, dm_op := OpDeleteOne\<rparr>\<close>

definition DeliveryAttemptClient_DeleteOne :: "DeliveryAttempt \<Rightarrow> DeliveryAttemptDeleteOne" where
  \<open>DeliveryAttemptClient_DeleteOne node = DeliveryAttemptClient_DeleteOneID (d_ID node)\<close>

definition DeliveryAttemptClient_GetX :: "'w db \<Rightarrow> uuid \<Rightarrow> 'w \<Rightarrow> DeliveryAttempt panicking \<times> 'w" where
  \<open>DeliveryAttemptClient_GetX db i w = or_panic (DeliveryAttemptClient_Get db i w)\<close>

definition DeliveryAttemptClient_mutate :: "'w graph \<Rightarrow> 'w db \<Rightarrow> DeliveryAttemptMutation \<Rightarrow> 'w \<Rightarrow> (goerror + DeliveryAttempt mutated) \<times> 'w" where
  \<open>DeliveryAttemptClient_mutate g db m w =
     (case DeliveryAttemptMutation_Op m of
        OpCreate \<Rightarrow> (case DeliveryAttemptCreate_Save db m w of (r, w1) \<Rightarrow> (map_sum id Node r, w1))
      | OpUpdate \<Rightarrow> (case DeliveryAttemptUpdate_Save db m w of (r, w1) \<Rightarrow> (map_sum id Affected r, w1))
      | OpUpdateOne \<Rightarrow>
          (case DeliveryAttemptUpdateOne_Save g db \<lparr>du_fields = [], du_mutation = m\<rparr> w of (r, w1) \<Rightarrow> (map_sum id Node r, w1))
      | OpDelete \<Rightarrow> (case DeliveryAttemptDelete_Exec g db m w of (r, w1) \<Rightarrow> (map_sum id Affected r, w1))
      | OpDeleteOne \<Rightarrow> (case DeliveryAttemptDelete_Exec g db m w of (r, w1) \<Rightarrow> (map_sum id Affected r, w1)))\<close>

definition DeliveryAttempt_Update :: "DeliveryAttempt \<Rightarrow> DeliveryAttemptUpdateOne \<times> ('w, DeliveryAttempt) old_value" where
  \<open>DeliveryAttempt_Update node = DeliveryAttemptClient_UpdateOne node\<close>

lemmas DeliveryAttempt_graph_defs =
  DeliveryAttempt_String_def
  DeliveryAttemptMutation_OldNotificationID_def
  DeliveryAttemptMutation_OldAttemptNumber_def
  DeliveryAttemptMutation_OldStatus_def
  DeliveryAttemptMutation_OldHTTPStatus_def
  DeliveryAttemptMutation_OldErrorMessage_def
  DeliveryAttemptMutation_OldDurationMs_def
  DeliveryAttemptMutation_OldCreatedAt_def
  DeliveryAttemptMutation_OldField_def
  DeliveryAttemptMutation_AddedEdges_def
  DeliveryAttemptMutation_AddedIDs_def
  DeliveryAttemptMutation_RemovedEdges_def
  DeliveryAttemptMutation_RemovedIDs_def
  DeliveryAttemptMutation_ClearedEdges_def
  DeliveryAttemptMutation_EdgeCleared_def
  DeliveryAttemptMutation_ClearEdge_def
  DeliveryAttemptMutation_ResetEdge_def
  DeliveryAttemptMutation_WhereP_def
  withDeliveryAttempt_def
  withDeliveryAttemptID_def
  DeliveryAttemptQuery_Select_def
  DeliveryAttemptQuery_Clone_def
  DeliveryAttemptQuery_sqlQuery_def
  DeliveryAttemptSelect_sqlScan_def
  DeliveryAttemptSelect_Scan_def
  DeliveryAttemptQuery_IDs_def
  DeliveryAttemptQuery_FirstID_def
  DeliveryAttemptQuery_OnlyID_def
  DeliveryAttemptQuery_sqlCount_def
  DeliveryAttemptQuery_Count_def
  DeliveryAttemptQuery_Exist_def
  DeliveryAttemptQuery_FirstX_def
  DeliveryAttemptQuery_FirstIDX_def
  DeliveryAttemptQuery_OnlyX_def
  DeliveryAttemptQuery_OnlyIDX_def
  DeliveryAttemptQuery_AllX_def
  DeliveryAttemptQuery_IDsX_def
  DeliveryAttemptQuery_CountX_def
  DeliveryAttemptQuery_ExistX_def
  DeliveryAttemptMutation_IDs_def
  DeliveryAttemptDelete_Where_def
  DeliveryAttemptDelete_sqlExec_def
  DeliveryAttemptDelete_Exec_def
  DeliveryAttemptDelete_ExecX_def
  DeliveryAttemptDeleteOne_Where_def
  DeliveryAttemptDeleteOne_Exec_def
  DeliveryAttemptDeleteOne_ExecX_def
  DeliveryAttemptUpdateOne_SetNotificationID_def
  DeliveryAttemptUpdateOne_SetNillableNotificationID_def
  DeliveryAttemptUpdateOne_SetAttemptNumber_def
  DeliveryAttemptUpdateOne_SetNillableAttemptNumber_def
  DeliveryAttemptUpdateOne_AddAttemptNumber_def
  DeliveryAttemptUpdateOne_SetStatus_def
  DeliveryAttemptUpdateOne_SetNillableStatus_def
  DeliveryAttemptUpdateOne_SetHTTPStatus_def
  DeliveryAttemptUpdateOne_SetNillableHTTPStatus_def
  DeliveryAttemptUpdateOne_AddHTTPStatus_def
  DeliveryAttemptUpdateOne_ClearHTTPStatus_def
  DeliveryAttemptUpdateOne_SetErrorMessage_def
  DeliveryAttemptUpdateOne_SetNillableErrorMessage_def
  DeliveryAttemptUpdateOne_ClearErrorMessage_def
  DeliveryAttemptUpdateOne_SetDurationMs_def
  DeliveryAttemptUpdateOne_SetNillableDurationMs_def
  DeliveryAttemptUpdateOne_AddDurationMs_def
  DeliveryAttemptUpdateOne_Mutation_def
  DeliveryAttemptUpdateOne_Where_def
  DeliveryAttemptUpdateOne_Select_def
  DeliveryAttemptUpdateOne_check_def
  DeliveryAttemptUpdateOne_spec_def
  DeliveryAttemptUpdateOne_decode_def
  DeliveryAttemptUpdateOne_sqlSave_def
  DeliveryAttemptUpdateOne_Save_def
  DeliveryAttemptUpdateOne_SaveX_def
  DeliveryAttemptUpdateOne_Exec_def
  DeliveryAttemptUpdateOne_ExecX_def
  DeliveryAttemptCreate_SaveX_def
  DeliveryAttemptCreate_ExecX_def
  DeliveryAttemptUpdate_SaveX_def
  DeliveryAttemptUpdate_ExecX_def
  DeliveryAttemptCreateBulk_Save_def
  DeliveryAttemptCreateBulk_SaveX_def
  DeliveryAttemptCreateBulk_Exec_def
  DeliveryAttemptCreateBulk_ExecX_def
  DeliveryAttemptClient_CreateBulk_def
  DeliveryAttemptClient_MapCreateBulk_def
  DeliveryAttemptClient_UpdateOne_def
  DeliveryAttemptClient_UpdateOneID_def
  DeliveryAttemptClient_Delete_def
  DeliveryAttemptClient_DeleteOneID_def
  DeliveryAttemptClient_DeleteOne_def
  DeliveryAttemptClient_GetX_def
  DeliveryAttemptClient_mutate_def
  DeliveryAttempt_Update_def

end
