(* ===== verification/Graph_OutboxEvent.thy ===== *)
theory Graph_OutboxEvent
  imports Sql_Graph Ent_Values
begin

text \<open>
  The rest of the generated code for OutboxEvent, which the program does not call: printing, old
  values and edges of the mutation, the remaining queries, the delete builders, \<^verbatim>\<open>UpdateOne\<close>, bulk
  creation, the panicking variants and the client methods that make these builders. In \<open>withOutboxEventID\<close>,
  \<open>done\<close> tells whether the mutation was executed before its old value is asked for; the state is
  paired with the value that \<^verbatim>\<open>once\<close> keeps.
\<close>

section \<open>Printing\<close>

definition OutboxEvent_String :: "printing \<Rightarrow> OutboxEvent \<Rightarrow> string" where
  \<open>OutboxEvent_String pr e =
     ''OutboxEvent(''
     @ ''id='' @ pr_UUID pr (o_ID e) @ '', ''
     @ ''notification_id=''
     @ pr_UUID pr (o_NotificationID e)
     @ '', ''
     @ ''event_type=''
     @ o_EventType e
     @ '', ''
     @ ''status=''
     @ o_Status e
     @ '', ''
     @ ''scheduled_at=''
     @ pr_Time pr (o_ScheduledAt e)
     @ '', ''
     @ ''stream_id=''
     @ o_StreamID e
     @ '', ''
     @ ''locked_by=''
     @ o_LockedBy e
     @ '', ''
     @ (case o_LockedAt e of None \<Rightarrow> [] | Some v \<Rightarrow> ''locked_at='' @ pr_Time pr v)
     @ '', ''
     @ ''last_error=''
     @ o_LastError e
     @ '', ''
     @ (case o_PublishedAt e of None \<Rightarrow> [] | Some v \<Rightarrow> ''published_at='' @ pr_Time pr v)
     @ '', ''
     @ ''created_at=''
     @ pr_Time pr (o_CreatedAt e)
     @ '', ''
     @ ''updated_at=''
     @ pr_Time pr (o_UpdatedAt e)
     @ '')''\<close>

section \<open>Old values and edges of the mutation\<close>

definition OutboxEventMutation_OldNotificationID :: "('w, OutboxEvent) old_value \<Rightarrow> OutboxEventMutation \<Rightarrow> 'w \<Rightarrow> (goerror + uuid) \<times> 'w" where
  \<open>OutboxEventMutation_OldNotificationID oldValue m w =
     (if om_op m \<noteq> OpUpdateOne then (Inl (ErrText ''OldNotificationID is only allowed on UpdateOne operations''), w)
      else case (om_id m, oldValue) of
             (Some _, Some get) \<Rightarrow>
               (case get w of
                  (Inl err, w1) \<Rightarrow> (Inl (ErrWrap ''querying old value for OldNotificationID: '' err ''''), w1)
                | (Inr old, w1) \<Rightarrow> (Inr (o_NotificationID old), w1))
           | _ \<Rightarrow> (Inl (ErrText ''OldNotificationID requires an ID field in the mutation''), w))\<close>

definition OutboxEventMutation_OldEventType :: "('w, OutboxEvent) old_value \<Rightarrow> OutboxEventMutation \<Rightarrow> 'w \<Rightarrow> (goerror + string) \<times> 'w" where
  \<open>OutboxEventMutation_OldEventType oldValue m w =
     (if om_op m \<noteq> OpUpdateOne then (Inl (ErrText ''OldEventType is only allowed on UpdateOne operations''), w)
      else case (om_id m, oldValue) of
             (Some _, Some get) \<Rightarrow>
               (case get w of
                  (Inl err, w1) \<Rightarrow> (Inl (ErrWrap ''querying old value for OldEventType: '' err ''''), w1)
                | (Inr old, w1) \<Rightarrow> (Inr (o_EventType old), w1))
           | _ \<Rightarrow> (Inl (ErrText ''OldEventType requires an ID field in the mutation''), w))\<close>

definition OutboxEventMutation_OldStatus :: "('w, OutboxEvent) old_value \<Rightarrow> OutboxEventMutation \<Rightarrow> 'w \<Rightarrow> (goerror + string) \<times> 'w" where
  \<open>OutboxEventMutation_OldStatus oldValue m w =
     (if om_op m \<noteq> OpUpdateOne then (Inl (ErrText ''OldStatus is only allowed on UpdateOne operations''), w)
      else case (om_id m, oldValue) of
             (Some _, Some get) \<Rightarrow>
               (case get w of
                  (Inl err, w1) \<Rightarrow> (Inl (ErrWrap ''querying old value for OldStatus: '' err ''''), w1)
                | (Inr old, w1) \<Rightarrow> (Inr (o_Status old), w1))
           | _ \<Rightarrow> (Inl (ErrText ''OldStatus requires an ID field in the mutation''), w))\<close>

definition OutboxEventMutation_OldScheduledAt :: "('w, OutboxEvent) old_value \<Rightarrow> OutboxEventMutation \<Rightarrow> 'w \<Rightarrow> (goerror + time) \<times> 'w" where
  \<open>OutboxEventMutation_OldScheduledAt oldValue m w =
     (if om_op m \<noteq> OpUpdateOne then (Inl (ErrText ''OldScheduledAt is only allowed on UpdateOne operations''), w)
      else case (om_id m, oldValue) of
             (Some _, Some get) \<Rightarrow>
               (case get w of
                  (Inl err, w1) \<Rightarrow> (Inl (ErrWrap ''querying old value for OldScheduledAt: '' err ''''), w1)
                | (Inr old, w1) \<Rightarrow> (Inr (o_ScheduledAt old), w1))
           | _ \<Rightarrow> (Inl (ErrText ''OldScheduledAt requires an ID field in the mutation''), w))\<close>

definition OutboxEventMutation_OldStreamID :: "('w, OutboxEvent) old_value \<Rightarrow> OutboxEventMutation \<Rightarrow> 'w \<Rightarrow> (goerror + string) \<times> 'w" where
  \<open>OutboxEventMutation_OldStreamID oldValue m w =
     (if om_op m \<noteq> OpUpdateOne then (Inl (ErrText ''OldStreamID is only allowed on UpdateOne operations''), w)
      else case (om_id m, oldValue) of
             (Some _, Some get) \<Rightarrow>
               (case get w of
                  (Inl err, w1) \<Rightarrow> (Inl (ErrWrap ''querying old value for OldStreamID: '' err ''''), w1)
                | (Inr old, w1) \<Rightarrow> (Inr (o_StreamID old), w1))
           | _ \<Rightarrow> (Inl (ErrText ''OldStreamID requires an ID field in the mutation''), w))\<close>

definition OutboxEventMutation_OldLockedBy :: "('w, OutboxEvent) old_value \<Rightarrow> OutboxEventMutation \<Rightarrow> 'w \<Rightarrow> (goerror + string) \<times> 'w" where
  \<open>OutboxEventMutation_OldLockedBy oldValue m w =
     (if om_op m \<noteq> OpUpdateOne then (Inl (ErrText ''OldLockedBy is only allowed on UpdateOne operations''), w)
      else case (om_id m, oldValue) of
             (Some _, Some get) \<Rightarrow>
               (case get w of
                  (Inl err, w1) \<Rightarrow> (Inl (ErrWrap ''querying old value for OldLockedBy: '' err ''''), w1)
                | (Inr old, w1) \<Rightarrow> (Inr (o_LockedBy old), w1))
           | _ \<Rightarrow> (Inl (ErrText ''OldLockedBy requires an ID field in the mutation''), w))\<close>

definition OutboxEventMutation_OldLockedAt :: "('w, OutboxEvent) old_value \<Rightarrow> OutboxEventMutation \<Rightarrow> 'w \<Rightarrow> (goerror + (time option)) \<times> 'w" where
  \<open>OutboxEventMutation_OldLockedAt oldValue m w =
     (if om_op m \<noteq> OpUpdateOne then (Inl (ErrText ''OldLockedAt is only allowed on UpdateOne operations''), w)
      else case (om_id m, oldValue) of
             (Some _, Some get) \<Rightarrow>
               (case get w of
                  (Inl err, w1) \<Rightarrow> (Inl (ErrWrap ''querying old value for OldLockedAt: '' err ''''), w1)
                | (Inr old, w1) \<Rightarrow> (Inr (o_LockedAt old), w1))
           | _ \<Rightarrow> (Inl (ErrText ''OldLockedAt requires an ID field in the mutation''), w))\<close>

definition OutboxEventMutation_OldLastError :: "('w, OutboxEvent) old_value \<Rightarrow> OutboxEventMutation \<Rightarrow> 'w \<Rightarrow> (goerror + string) \<times> 'w" where
  \<open>OutboxEventMutation_OldLastError oldValue m w =
     (if om_op m \<noteq> OpUpdateOne then (Inl (ErrText ''OldLastError is only allowed on UpdateOne operations''), w)
      else case (om_id m, oldValue) of
             (Some _, Some get) \<Rightarrow>
               (case get w of
                  (Inl err, w1) \<Rightarrow> (Inl (ErrWrap ''querying old value for OldLastError: '' err ''''), w1)
                | (Inr old, w1) \<Rightarrow> (Inr (o_LastError old), w1))
           | _ \<Rightarrow> (Inl (ErrText ''OldLastError requires an ID field in the mutation''), w))\<close>

definition OutboxEventMutation_OldPublishedAt :: "('w, OutboxEvent) old_value \<Rightarrow> OutboxEventMutation \<Rightarrow> 'w \<Rightarrow> (goerror + (time option)) \<times> 'w" where
  \<open>OutboxEventMutation_OldPublishedAt oldValue m w =
     (if om_op m \<noteq> OpUpdateOne then (Inl (ErrText ''OldPublishedAt is only allowed on UpdateOne operations''), w)
      else case (om_id m, oldValue) of
             (Some _, Some get) \<Rightarrow>
               (case get w of
                  (Inl err, w1) \<Rightarrow> (Inl (ErrWrap ''querying old value for OldPublishedAt: '' err ''''), w1)
                | (Inr old, w1) \<Rightarrow> (Inr (o_PublishedAt old), w1))
           | _ \<Rightarrow> (Inl (ErrText ''OldPublishedAt requires an ID field in the mutation''), w))\<close>

definition OutboxEventMutation_OldCreatedAt :: "('w, OutboxEvent) old_value \<Rightarrow> OutboxEventMutation \<Rightarrow> 'w \<Rightarrow> (goerror + time) \<times> 'w" where
  \<open>OutboxEventMutation_OldCreatedAt oldValue m w =
     (if om_op m \<noteq> OpUpdateOne then (Inl (ErrText ''OldCreatedAt is only allowed on UpdateOne operations''), w)
      else case (om_id m, oldValue) of
             (Some _, Some get) \<Rightarrow>
               (case get w of
                  (Inl err, w1) \<Rightarrow> (Inl (ErrWrap ''querying old value for OldCreatedAt: '' err ''''), w1)
                | (Inr old, w1) \<Rightarrow> (Inr (o_CreatedAt old), w1))
           | _ \<Rightarrow> (Inl (ErrText ''OldCreatedAt requires an ID field in the mutation''), w))\<close>

definition OutboxEventMutation_OldUpdatedAt :: "('w, OutboxEvent) old_value \<Rightarrow> OutboxEventMutation \<Rightarrow> 'w \<Rightarrow> (goerror + time) \<times> 'w" where
  \<open>OutboxEventMutation_OldUpdatedAt oldValue m w =
     (if om_op m \<noteq> OpUpdateOne then (Inl (ErrText ''OldUpdatedAt is only allowed on UpdateOne operations''), w)
      else case (om_id m, oldValue) of
             (Some _, Some get) \<Rightarrow>
               (case get w of
                  (Inl err, w1) \<Rightarrow> (Inl (ErrWrap ''querying old value for OldUpdatedAt: '' err ''''), w1)
                | (Inr old, w1) \<Rightarrow> (Inr (o_UpdatedAt old), w1))
           | _ \<Rightarrow> (Inl (ErrText ''OldUpdatedAt requires an ID field in the mutation''), w))\<close>

definition OutboxEventMutation_OldField :: "('w, OutboxEvent) old_value \<Rightarrow> column \<Rightarrow> OutboxEventMutation \<Rightarrow> 'w \<Rightarrow> (goerror + ent_value option) \<times> 'w" where
  \<open>OutboxEventMutation_OldField oldValue name m w =
     (case name of
         FieldNotificationID \<Rightarrow> old_result (Some \<circ> GoUUID) (OutboxEventMutation_OldNotificationID oldValue m w)
       | FieldEventType \<Rightarrow> old_result (Some \<circ> GoString) (OutboxEventMutation_OldEventType oldValue m w)
       | FieldStatus \<Rightarrow> old_result (Some \<circ> GoOutboxEventStatus) (OutboxEventMutation_OldStatus oldValue m w)
       | FieldScheduledAt \<Rightarrow> old_result (Some \<circ> GoTime) (OutboxEventMutation_OldScheduledAt oldValue m w)
       | FieldStreamID \<Rightarrow> old_result (Some \<circ> GoString) (OutboxEventMutation_OldStreamID oldValue m w)
       | FieldLockedBy \<Rightarrow> old_result (Some \<circ> GoString) (OutboxEventMutation_OldLockedBy oldValue m w)
       | FieldLockedAt \<Rightarrow> old_result (map_option GoTime) (OutboxEventMutation_OldLockedAt oldValue m w)
       | FieldLastError \<Rightarrow> old_result (Some \<circ> GoString) (OutboxEventMutation_OldLastError oldValue m w)
       | FieldPublishedAt \<Rightarrow> old_result (map_option GoTime) (OutboxEventMutation_OldPublishedAt oldValue m w)
       | FieldCreatedAt \<Rightarrow> old_result (Some \<circ> GoTime) (OutboxEventMutation_OldCreatedAt oldValue m w)
       | FieldUpdatedAt \<Rightarrow> old_result (Some \<circ> GoTime) (OutboxEventMutation_OldUpdatedAt oldValue m w)
       | _ \<Rightarrow> (Inl (ErrText (''unknown OutboxEvent field '' @ column_name name)), w))\<close>

definition OutboxEventMutation_AddedEdges :: "OutboxEventMutation \<Rightarrow> string list" where
  \<open>OutboxEventMutation_AddedEdges m = []\<close>

definition OutboxEventMutation_AddedIDs :: "string \<Rightarrow> OutboxEventMutation \<Rightarrow> ent_value list" where
  \<open>OutboxEventMutation_AddedIDs name m = []\<close>

definition OutboxEventMutation_RemovedEdges :: "OutboxEventMutation \<Rightarrow> string list" where
  \<open>OutboxEventMutation_RemovedEdges m = []\<close>

definition OutboxEventMutation_RemovedIDs :: "string \<Rightarrow> OutboxEventMutation \<Rightarrow> ent_value list" where
  \<open>OutboxEventMutation_RemovedIDs name m = []\<close>

definition OutboxEventMutation_ClearedEdges :: "OutboxEventMutation \<Rightarrow> string list" where
  \<open>OutboxEventMutation_ClearedEdges m = []\<close>

definition OutboxEventMutation_EdgeCleared :: "string \<Rightarrow> OutboxEventMutation \<Rightarrow> bool" where
  \<open>OutboxEventMutation_EdgeCleared name m = False\<close>

definition OutboxEventMutation_ClearEdge :: "string \<Rightarrow> OutboxEventMutation \<Rightarrow> goerror option" where
  \<open>OutboxEventMutation_ClearEdge name m = Some (ErrText (''unknown OutboxEvent unique edge '' @ name))\<close>

definition OutboxEventMutation_ResetEdge :: "string \<Rightarrow> OutboxEventMutation \<Rightarrow> goerror option" where
  \<open>OutboxEventMutation_ResetEdge name m = Some (ErrText (''unknown OutboxEvent edge '' @ name))\<close>

definition OutboxEventMutation_WhereP :: "sql_pred list \<Rightarrow> OutboxEventMutation \<Rightarrow> OutboxEventMutation" where
  \<open>OutboxEventMutation_WhereP ps m = OutboxEventMutation_Where ps m\<close>

definition withOutboxEvent :: "OutboxEvent \<Rightarrow> OutboxEventMutation \<Rightarrow> OutboxEventMutation \<times> ('w, OutboxEvent) old_value" where
  \<open>withOutboxEvent node m =
     (m\<lparr>om_id := Some (o_ID node)\<rparr>, Some (\<lambda>w. (Inr node, w)))\<close>

definition withOutboxEventID :: "'w db \<Rightarrow> bool \<Rightarrow> uuid \<Rightarrow> OutboxEventMutation \<Rightarrow> OutboxEventMutation \<times> ((goerror + OutboxEvent) option \<times> 'w, OutboxEvent) old_value" where
  \<open>withOutboxEventID db done i m =
     (m\<lparr>om_id := Some i\<rparr>,
      Some (\<lambda>(value, w).
        case value of
          Some r \<Rightarrow> (r, (value, w))
        | None \<Rightarrow>
            if done then (let r = Inl (ErrText ''querying old values post mutation is not allowed'') in (r, (Some r, w)))
            else (case OutboxEventClient_Get db i w of (r, w1) \<Rightarrow> (r, (Some r, w1)))))\<close>

section \<open>Queries\<close>

type_synonym OutboxEventSelect = OutboxEventQuery

definition OutboxEventQuery_Select :: "column list \<Rightarrow> OutboxEventQuery \<Rightarrow> OutboxEventSelect" where
  \<open>OutboxEventQuery_Select flds q = q\<lparr>oq_Fields := oq_Fields q @ flds\<rparr>\<close>

definition OutboxEventQuery_Clone :: "OutboxEventQuery \<Rightarrow> OutboxEventQuery" where
  \<open>OutboxEventQuery_Clone q =
     \<lparr>oq_Limit = oq_Limit q, oq_Offset = oq_Offset q, oq_Unique = oq_Unique q, oq_Fields = oq_Fields q, oq_order = oq_order q, oq_predicates = oq_predicates q\<rparr>\<close>

definition OutboxEventQuery_sqlQuery :: "OutboxEventQuery \<Rightarrow> QuerySpec" where
  \<open>OutboxEventQuery_sqlQuery q =
     \<lparr>qs_Table = Table_outbox_events,
      qs_Columns = (if oq_Fields q = [] then outboxevent_Columns else oq_Fields q),
      qs_Predicate = oq_predicates q,
      qs_Order = oq_order q,
      qs_Limit = (case oq_Limit q of
          Some k \<Rightarrow> k
        | None \<Rightarrow> (case oq_Offset q of Some _ \<Rightarrow> 2 ^ 31 - 1 | None \<Rightarrow> 0)),
      qs_Offset = field_or 0 (oq_Offset q),
      qs_Unique = field_or False (oq_Unique q)\<rparr>\<close>

definition OutboxEventSelect_sqlScan :: "'w graph \<Rightarrow> OutboxEventSelect \<Rightarrow> 'w \<Rightarrow> (goerror + uuid list) \<times> 'w" where
  \<open>OutboxEventSelect_sqlScan g s w =
     (let spec = OutboxEventQuery_sqlQuery s in
      case SelectRows g spec w of
        (Inl err, w1) \<Rightarrow> (Inl err, w1)
      | (Inr rows, w1) \<Rightarrow> (ScanUUIDs g (qs_Columns spec) rows, w1))\<close>

definition OutboxEventSelect_Scan :: "'w graph \<Rightarrow> OutboxEventSelect \<Rightarrow> 'w \<Rightarrow> (goerror + uuid list) \<times> 'w" where
  \<open>OutboxEventSelect_Scan g s w =
     (case OutboxEventQuery_prepareQuery s of Some err \<Rightarrow> (Inl err, w) | None \<Rightarrow> OutboxEventSelect_sqlScan g s w)\<close>

definition OutboxEventQuery_IDs :: "'w graph \<Rightarrow> OutboxEventQuery \<Rightarrow> 'w \<Rightarrow> (goerror + uuid list) \<times> 'w" where
  \<open>OutboxEventQuery_IDs g q w = OutboxEventSelect_Scan g (OutboxEventQuery_Select [FieldID] q) w\<close>

definition OutboxEventQuery_FirstID :: "'w graph \<Rightarrow> OutboxEventQuery \<Rightarrow> 'w \<Rightarrow> (goerror + uuid) \<times> 'w" where
  \<open>OutboxEventQuery_FirstID g q w =
     (case OutboxEventQuery_IDs g (OutboxEventQuery_Limit 1 q) w of
        (Inl err, w1) \<Rightarrow> (Inl err, w1)
      | (Inr ids, w1) \<Rightarrow> (case ids of [] \<Rightarrow> (Inl (NotFoundError outboxevent_Label), w1) | x # _ \<Rightarrow> (Inr x, w1)))\<close>

definition OutboxEventQuery_OnlyID :: "'w graph \<Rightarrow> OutboxEventQuery \<Rightarrow> 'w \<Rightarrow> (goerror + uuid) \<times> 'w" where
  \<open>OutboxEventQuery_OnlyID g q w =
     (case OutboxEventQuery_IDs g (OutboxEventQuery_Limit 2 q) w of
        (Inl err, w1) \<Rightarrow> (Inl err, w1)
      | (Inr ids, w1) \<Rightarrow>
          (case ids of
             [x] \<Rightarrow> (Inr x, w1)
           | [] \<Rightarrow> (Inl (NotFoundError outboxevent_Label), w1)
           | _ \<Rightarrow> (Inl (NotSingularError outboxevent_Label), w1)))\<close>

definition OutboxEventQuery_sqlCount :: "'w graph \<Rightarrow> OutboxEventQuery \<Rightarrow> 'w \<Rightarrow> (goerror + int) \<times> 'w" where
  \<open>OutboxEventQuery_sqlCount g q w =
     (let spec = (OutboxEventQuery_querySpec q)\<lparr>qs_Columns := oq_Fields q\<rparr>;
          spec = (if oq_Fields q = [] then spec else spec\<lparr>qs_Unique := field_or False (oq_Unique q)\<rparr>)
      in CountNodes g spec w)\<close>

definition OutboxEventQuery_Count :: "'w graph \<Rightarrow> OutboxEventQuery \<Rightarrow> 'w \<Rightarrow> (goerror + int) \<times> 'w" where
  \<open>OutboxEventQuery_Count g q w =
     (case OutboxEventQuery_prepareQuery q of Some err \<Rightarrow> (Inl err, w) | None \<Rightarrow> OutboxEventQuery_sqlCount g q w)\<close>

definition OutboxEventQuery_Exist :: "'w graph \<Rightarrow> OutboxEventQuery \<Rightarrow> 'w \<Rightarrow> (goerror + bool) \<times> 'w" where
  \<open>OutboxEventQuery_Exist g q w =
     (case OutboxEventQuery_FirstID g q w of
        (Inr _, w1) \<Rightarrow> (Inr True, w1)
      | (Inl err, w1) \<Rightarrow>
          if IsNotFound (Some err) then (Inr False, w1)
          else (Inl (ErrWrap ''ent: check existence: '' err ''''), w1))\<close>

definition OutboxEventQuery_FirstX :: "'w db \<Rightarrow> OutboxEventQuery \<Rightarrow> 'w \<Rightarrow> (OutboxEvent option) panicking \<times> 'w" where
  \<open>OutboxEventQuery_FirstX db q w =
     or_panic_unless_missing None (case OutboxEventQuery_First db q w of (r, w1) \<Rightarrow> (map_sum id Some r, w1))\<close>

definition OutboxEventQuery_FirstIDX :: "'w graph \<Rightarrow> OutboxEventQuery \<Rightarrow> 'w \<Rightarrow> uuid panicking \<times> 'w" where
  \<open>OutboxEventQuery_FirstIDX g q w = or_panic_unless_missing 0 (OutboxEventQuery_FirstID g q w)\<close>

definition OutboxEventQuery_OnlyX :: "'w db \<Rightarrow> OutboxEventQuery \<Rightarrow> 'w \<Rightarrow> OutboxEvent panicking \<times> 'w" where
  \<open>OutboxEventQuery_OnlyX db q w = or_panic (OutboxEventQuery_Only db q w)\<close>

definition OutboxEventQuery_OnlyIDX :: "'w graph \<Rightarrow> OutboxEventQuery \<Rightarrow> 'w \<Rightarrow> uuid panicking \<times> 'w" where
  \<open>OutboxEventQuery_OnlyIDX g q w = or_panic (OutboxEventQuery_OnlyID g q w)\<close>

definition OutboxEventQuery_AllX :: "'w db \<Rightarrow> OutboxEventQuery \<Rightarrow> 'w \<Rightarrow> OutboxEvent list panicking \<times> 'w" where
  \<open>OutboxEventQuery_AllX db q w = or_panic (OutboxEventQuery_All db q w)\<close>

definition OutboxEventQuery_IDsX :: "'w graph \<Rightarrow> OutboxEventQuery \<Rightarrow> 'w \<Rightarrow> uuid list panicking \<times> 'w" where
  \<open>OutboxEventQuery_IDsX g q w = or_panic (OutboxEventQuery_IDs g q w)\<close>

definition OutboxEventQuery_CountX :: "'w graph \<Rightarrow> OutboxEventQuery \<Rightarrow> 'w \<Rightarrow> int panicking \<times> 'w" where
  \<open>OutboxEventQuery_CountX g q w = or_panic (OutboxEventQuery_Count g q w)\<close>

definition OutboxEventQuery_ExistX :: "'w graph \<Rightarrow> OutboxEventQuery \<Rightarrow> 'w \<Rightarrow> bool panicking \<times> 'w" where
  \<open>OutboxEventQuery_ExistX g q w = or_panic (OutboxEventQuery_Exist g q w)\<close>

definition OutboxEventMutation_IDs :: "'w graph \<Rightarrow> OutboxEventMutation \<Rightarrow> 'w \<Rightarrow> (goerror + uuid list) \<times> 'w" where
  \<open>OutboxEventMutation_IDs g m w =
     (let query = OutboxEventQuery_IDs g (OutboxEventQuery_Where (om_predicates m) OutboxEventClient_Query) w in
      case om_op m of
        OpUpdateOne \<Rightarrow> (case OutboxEventMutation_ID m of Some i \<Rightarrow> (Inr [i], w) | None \<Rightarrow> query)
      | OpDeleteOne \<Rightarrow> (case OutboxEventMutation_ID m of Some i \<Rightarrow> (Inr [i], w) | None \<Rightarrow> query)
      | OpUpdate \<Rightarrow> query
      | OpDelete \<Rightarrow> query
      | OpCreate \<Rightarrow> (Inl (ErrText ''IDs is not allowed on OpCreate operations''), w))\<close>

section \<open>Deleting\<close>

type_synonym OutboxEventDelete = OutboxEventMutation

definition OutboxEventDelete_Where :: "sql_pred list \<Rightarrow> OutboxEventDelete \<Rightarrow> OutboxEventDelete" where
  \<open>OutboxEventDelete_Where ps b = OutboxEventMutation_Where ps b\<close>

definition OutboxEventDelete_sqlExec :: "'w graph \<Rightarrow> 'w db \<Rightarrow> OutboxEventDelete \<Rightarrow> 'w \<Rightarrow> (goerror + int) \<times> 'w" where
  \<open>OutboxEventDelete_sqlExec g db b w =
     (case DeleteNodes g \<lparr>ds_Table = Table_outbox_events, ds_Predicate = om_predicates b\<rparr> w of
        (Inl err, w1) \<Rightarrow>
          (Inl (if IsSqlConstraintError db err then ConstraintError (error_text err) err else err), w1)
      | (Inr affected, w1) \<Rightarrow> (Inr affected, w1))\<close>

definition OutboxEventDelete_Exec :: "'w graph \<Rightarrow> 'w db \<Rightarrow> OutboxEventDelete \<Rightarrow> 'w \<Rightarrow> (goerror + int) \<times> 'w" where
  \<open>OutboxEventDelete_Exec g db b w = OutboxEventDelete_sqlExec g db b w\<close>

definition OutboxEventDelete_ExecX :: "'w graph \<Rightarrow> 'w db \<Rightarrow> OutboxEventDelete \<Rightarrow> 'w \<Rightarrow> int panicking \<times> 'w" where
  \<open>OutboxEventDelete_ExecX g db b w = or_panic (OutboxEventDelete_Exec g db b w)\<close>

type_synonym OutboxEventDeleteOne = OutboxEventDelete

definition OutboxEventDeleteOne_Where :: "sql_pred list \<Rightarrow> OutboxEventDeleteOne \<Rightarrow> OutboxEventDeleteOne" where
  \<open>OutboxEventDeleteOne_Where ps b = OutboxEventMutation_Where ps b\<close>

definition OutboxEventDeleteOne_Exec :: "'w graph \<Rightarrow> 'w db \<Rightarrow> OutboxEventDeleteOne \<Rightarrow> 'w \<Rightarrow> goerror option \<times> 'w" where
  \<open>OutboxEventDeleteOne_Exec g db b w =
     (case OutboxEventDelete_Exec g db b w of
        (Inl err, w1) \<Rightarrow> (Some err, w1)
      | (Inr k, w1) \<Rightarrow> (if k = 0 then Some (NotFoundError outboxevent_Label) else None, w1))\<close>

definition OutboxEventDeleteOne_ExecX :: "'w graph \<Rightarrow> 'w db \<Rightarrow> OutboxEventDeleteOne \<Rightarrow> 'w \<Rightarrow> unit panicking \<times> 'w" where
  \<open>OutboxEventDeleteOne_ExecX g db b w = or_panic_err (OutboxEventDeleteOne_Exec g db b w)\<close>

section \<open>Updating one node\<close>

record OutboxEventUpdateOne =
  ou_fields :: "column list"
  ou_mutation :: OutboxEventMutation

definition OutboxEventUpdateOne_SetNotificationID :: "uuid \<Rightarrow> OutboxEventUpdateOne \<Rightarrow> OutboxEventUpdateOne" where
  \<open>OutboxEventUpdateOne_SetNotificationID v c = c\<lparr>ou_mutation := OutboxEventMutation_SetNotificationID v (ou_mutation c)\<rparr>\<close>

definition OutboxEventUpdateOne_SetNillableNotificationID :: "uuid option \<Rightarrow> OutboxEventUpdateOne \<Rightarrow> OutboxEventUpdateOne" where
  \<open>OutboxEventUpdateOne_SetNillableNotificationID v c = (case v of Some x \<Rightarrow> OutboxEventUpdateOne_SetNotificationID x c | None \<Rightarrow> c)\<close>

definition OutboxEventUpdateOne_SetEventType :: "string \<Rightarrow> OutboxEventUpdateOne \<Rightarrow> OutboxEventUpdateOne" where
  \<open>OutboxEventUpdateOne_SetEventType v c = c\<lparr>ou_mutation := OutboxEventMutation_SetEventType v (ou_mutation c)\<rparr>\<close>

definition OutboxEventUpdateOne_SetNillableEventType :: "string option \<Rightarrow> OutboxEventUpdateOne \<Rightarrow> OutboxEventUpdateOne" where
  \<open>OutboxEventUpdateOne_SetNillableEventType v c = (case v of Some x \<Rightarrow> OutboxEventUpdateOne_SetEventType x c | None \<Rightarrow> c)\<close>

definition OutboxEventUpdateOne_SetStatus :: "string \<Rightarrow> OutboxEventUpdateOne \<Rightarrow> OutboxEventUpdateOne" where
  \<open>OutboxEventUpdateOne_SetStatus v c = c\<lparr>ou_mutation := OutboxEventMutation_SetStatus v (ou_mutation c)\<rparr>\<close>

definition OutboxEventUpdateOne_SetNillableStatus :: "string option \<Rightarrow> OutboxEventUpdateOne \<Rightarrow> OutboxEventUpdateOne" where
  \<open>OutboxEventUpdateOne_SetNillableStatus v c = (case v of Some x \<Rightarrow> OutboxEventUpdateOne_SetStatus x c | None \<Rightarrow> c)\<close>

definition OutboxEventUpdateOne_SetScheduledAt :: "time \<Rightarrow> OutboxEventUpdateOne \<Rightarrow> OutboxEventUpdateOne" where
  \<open>OutboxEventUpdateOne_SetScheduledAt v c = c\<lparr>ou_mutation := OutboxEventMutation_SetScheduledAt v (ou_mutation c)\<rparr>\<close>

definition OutboxEventUpdateOne_SetNillableScheduledAt :: "time option \<Rightarrow> OutboxEventUpdateOne \<Rightarrow> OutboxEventUpdateOne" where
  \<open>OutboxEventUpdateOne_SetNillableScheduledAt v c = (case v of Some x \<Rightarrow> OutboxEventUpdateOne_SetScheduledAt x c | None \<Rightarrow> c)\<close>

definition OutboxEventUpdateOne_SetStreamID :: "string \<Rightarrow> OutboxEventUpdateOne \<Rightarrow> OutboxEventUpdateOne" where
  \<open>OutboxEventUpdateOne_SetStreamID v c = c\<lparr>ou_mutation := OutboxEventMutation_SetStreamID v (ou_mutation c)\<rparr>\<close>

definition OutboxEventUpdateOne_SetNillableStreamID :: "string option \<Rightarrow> OutboxEventUpdateOne \<Rightarrow> OutboxEventUpdateOne" where
  \<open>OutboxEventUpdateOne_SetNillableStreamID v c = (case v of Some x \<Rightarrow> OutboxEventUpdateOne_SetStreamID x c | None \<Rightarrow> c)\<close>

definition OutboxEventUpdateOne_ClearStreamID :: "OutboxEventUpdateOne \<Rightarrow> OutboxEventUpdateOne" where
  \<open>OutboxEventUpdateOne_ClearStreamID c = c\<lparr>ou_mutation := OutboxEventMutation_ClearStreamID (ou_mutation c)\<rparr>\<close>

definition OutboxEventUpdateOne_SetLockedBy :: "string \<Rightarrow> OutboxEventUpdateOne \<Rightarrow> OutboxEventUpdateOne" where
  \<open>OutboxEventUpdateOne_SetLockedBy v c = c\<lparr>ou_mutation := OutboxEventMutation_SetLockedBy v (ou_mutation c)\<rparr>\<close>

definition OutboxEventUpdateOne_SetNillableLockedBy :: "string option \<Rightarrow> OutboxEventUpdateOne \<Rightarrow> OutboxEventUpdateOne" where
  \<open>OutboxEventUpdateOne_SetNillableLockedBy v c = (case v of Some x \<Rightarrow> OutboxEventUpdateOne_SetLockedBy x c | None \<Rightarrow> c)\<close>

definition OutboxEventUpdateOne_ClearLockedBy :: "OutboxEventUpdateOne \<Rightarrow> OutboxEventUpdateOne" where
  \<open>OutboxEventUpdateOne_ClearLockedBy c = c\<lparr>ou_mutation := OutboxEventMutation_ClearLockedBy (ou_mutation c)\<rparr>\<close>

definition OutboxEventUpdateOne_SetLockedAt :: "time \<Rightarrow> OutboxEventUpdateOne \<Rightarrow> OutboxEventUpdateOne" where
  \<open>OutboxEventUpdateOne_SetLockedAt v c = c\<lparr>ou_mutation := OutboxEventMutation_SetLockedAt v (ou_mutation c)\<rparr>\<close>

definition OutboxEventUpdateOne_SetNillableLockedAt :: "time option \<Rightarrow> OutboxEventUpdateOne \<Rightarrow> OutboxEventUpdateOne" where
  \<open>OutboxEventUpdateOne_SetNillableLockedAt v c = (case v of Some x \<Rightarrow> OutboxEventUpdateOne_SetLockedAt x c | None \<Rightarrow> c)\<close>

definition OutboxEventUpdateOne_ClearLockedAt :: "OutboxEventUpdateOne \<Rightarrow> OutboxEventUpdateOne" where
  \<open>OutboxEventUpdateOne_ClearLockedAt c = c\<lparr>ou_mutation := OutboxEventMutation_ClearLockedAt (ou_mutation c)\<rparr>\<close>

definition OutboxEventUpdateOne_SetLastError :: "string \<Rightarrow> OutboxEventUpdateOne \<Rightarrow> OutboxEventUpdateOne" where
  \<open>OutboxEventUpdateOne_SetLastError v c = c\<lparr>ou_mutation := OutboxEventMutation_SetLastError v (ou_mutation c)\<rparr>\<close>

definition OutboxEventUpdateOne_SetNillableLastError :: "string option \<Rightarrow> OutboxEventUpdateOne \<Rightarrow> OutboxEventUpdateOne" where
  \<open>OutboxEventUpdateOne_SetNillableLastError v c = (case v of Some x \<Rightarrow> OutboxEventUpdateOne_SetLastError x c | None \<Rightarrow> c)\<close>

definition OutboxEventUpdateOne_ClearLastError :: "OutboxEventUpdateOne \<Rightarrow> OutboxEventUpdateOne" where
  \<open>OutboxEventUpdateOne_ClearLastError c = c\<lparr>ou_mutation := OutboxEventMutation_ClearLastError (ou_mutation c)\<rparr>\<close>

definition OutboxEventUpdateOne_SetPublishedAt :: "time \<Rightarrow> OutboxEventUpdateOne \<Rightarrow> OutboxEventUpdateOne" where
  \<open>OutboxEventUpdateOne_SetPublishedAt v c = c\<lparr>ou_mutation := OutboxEventMutation_SetPublishedAt v (ou_mutation c)\<rparr>\<close>

definition OutboxEventUpdateOne_SetNillablePublishedAt :: "time option \<Rightarrow> OutboxEventUpdateOne \<Rightarrow> OutboxEventUpdateOne" where
  \<open>OutboxEventUpdateOne_SetNillablePublishedAt v c = (case v of Some x \<Rightarrow> OutboxEventUpdateOne_SetPublishedAt x c | None \<Rightarrow> c)\<close>

definition OutboxEventUpdateOne_ClearPublishedAt :: "OutboxEventUpdateOne \<Rightarrow> OutboxEventUpdateOne" where
  \<open>OutboxEventUpdateOne_ClearPublishedAt c = c\<lparr>ou_mutation := OutboxEventMutation_ClearPublishedAt (ou_mutation c)\<rparr>\<close>

definition OutboxEventUpdateOne_SetUpdatedAt :: "time \<Rightarrow> OutboxEventUpdateOne \<Rightarrow> OutboxEventUpdateOne" where
  \<open>OutboxEventUpdateOne_SetUpdatedAt v c = c\<lparr>ou_mutation := OutboxEventMutation_SetUpdatedAt v (ou_mutation c)\<rparr>\<close>

definition OutboxEventUpdateOne_Mutation :: "OutboxEventUpdateOne \<Rightarrow> OutboxEventMutation" where
  \<open>OutboxEventUpdateOne_Mutation c = ou_mutation c\<close>

definition OutboxEventUpdateOne_Where :: "sql_pred list \<Rightarrow> OutboxEventUpdateOne \<Rightarrow> OutboxEventUpdateOne" where
  \<open>OutboxEventUpdateOne_Where ps c = c\<lparr>ou_mutation := OutboxEventMutation_Where ps (ou_mutation c)\<rparr>\<close>

definition OutboxEventUpdateOne_Select :: "column \<Rightarrow> column list \<Rightarrow> OutboxEventUpdateOne \<Rightarrow> OutboxEventUpdateOne" where
  \<open>OutboxEventUpdateOne_Select f flds c = c\<lparr>ou_fields := f # flds\<rparr>\<close>

definition OutboxEventUpdateOne_defaults :: "'w db \<Rightarrow> OutboxEventUpdateOne \<Rightarrow> 'w \<Rightarrow> OutboxEventUpdateOne \<times> 'w" where
  \<open>OutboxEventUpdateOne_defaults db c w =
     (case OutboxEventMutation_UpdatedAt (ou_mutation c) of
        Some _ \<Rightarrow> (c, w)
      | None \<Rightarrow> (case outboxevent_UpdateDefaultUpdatedAt db w of (v, w1) \<Rightarrow> (c\<lparr>ou_mutation := OutboxEventMutation_SetUpdatedAt v (ou_mutation c)\<rparr>, w1)))\<close>

definition OutboxEventUpdateOne_check :: "OutboxEventUpdateOne \<Rightarrow> goerror option" where
  \<open>OutboxEventUpdateOne_check c =
     first_error
       [validated (OutboxEventMutation_Status (ou_mutation c)) outboxevent_StatusValidator ''status'' ''ent: validator failed for field "OutboxEvent.status": '']\<close>

definition OutboxEventUpdateOne_spec :: "OutboxEventUpdateOne \<Rightarrow> uuid \<Rightarrow> NodeSpec" where
  \<open>OutboxEventUpdateOne_spec c i =
     \<lparr>ns_ID = i,
      ns_Columns =
        (if ou_fields c = [] then outboxevent_Columns else FieldID # filter (\<lambda>f. f \<noteq> FieldID) (ou_fields c)),
      ns_Update =
        \<lparr>us_Table = Table_outbox_events, us_Predicate = om_predicates (ou_mutation c),
          us_Set =
            spec_field FieldNotificationID VUuid (OutboxEventMutation_NotificationID (ou_mutation c))
            @ spec_field FieldEventType VString (OutboxEventMutation_EventType (ou_mutation c))
            @ spec_field FieldStatus VString (OutboxEventMutation_Status (ou_mutation c))
            @ spec_field FieldScheduledAt VTime (OutboxEventMutation_ScheduledAt (ou_mutation c))
            @ spec_field FieldStreamID VString (OutboxEventMutation_StreamID (ou_mutation c))
            @ spec_field FieldLockedBy VString (OutboxEventMutation_LockedBy (ou_mutation c))
            @ spec_field FieldLockedAt VTime (OutboxEventMutation_LockedAt (ou_mutation c))
            @ spec_field FieldLastError VString (OutboxEventMutation_LastError (ou_mutation c))
            @ spec_field FieldPublishedAt VTime (OutboxEventMutation_PublishedAt (ou_mutation c))
            @ spec_field FieldUpdatedAt VTime (OutboxEventMutation_UpdatedAt (ou_mutation c)),
          us_Add = [],
          us_Clear =
            (if OutboxEventMutation_StreamIDCleared (ou_mutation c) then [FieldStreamID] else [])
            @ (if OutboxEventMutation_LockedByCleared (ou_mutation c) then [FieldLockedBy] else [])
            @ (if OutboxEventMutation_LockedAtCleared (ou_mutation c) then [FieldLockedAt] else [])
            @ (if OutboxEventMutation_LastErrorCleared (ou_mutation c) then [FieldLastError] else [])
            @ (if OutboxEventMutation_PublishedAtCleared (ou_mutation c) then [FieldPublishedAt] else [])\<rparr>\<rparr>\<close>

definition OutboxEventUpdateOne_decode :: "column list \<Rightarrow> row \<Rightarrow> goerror + OutboxEvent" where
  \<open>OutboxEventUpdateOne_decode cs r =
     (case scan_columns (OutboxEvent_scanValues cs) (map r cs) of
        Inl err \<Rightarrow> Inl err
      | Inr vs \<Rightarrow> OutboxEvent_assignValues cs vs OutboxEvent_zero)\<close>

definition OutboxEventUpdateOne_sqlSave :: "'w graph \<Rightarrow> 'w db \<Rightarrow> OutboxEventUpdateOne \<Rightarrow> 'w \<Rightarrow> (goerror + OutboxEvent) \<times> 'w" where
  \<open>OutboxEventUpdateOne_sqlSave g db c w =
     (case OutboxEventUpdateOne_check c of
        Some err \<Rightarrow> (Inl err, w)
      | None \<Rightarrow>
          (case OutboxEventMutation_ID (ou_mutation c) of
             None \<Rightarrow> (Inl (ValidationError ''id'' (ErrText ''ent: missing "OutboxEvent.id" for update'')), w)
           | Some i \<Rightarrow>
               (case List.find (\<lambda>f. \<not> outboxevent_ValidColumn f) (ou_fields c) of
                  Some f \<Rightarrow>
                    (Inl (ValidationError (column_name f)
                       (ErrText (''ent: invalid field '' @ Quote (column_name f) @ '' for query''))), w)
                | None \<Rightarrow>
                    (let spec = OutboxEventUpdateOne_spec c i; decode = OutboxEventUpdateOne_decode (ns_Columns spec) in
                     case UpdateNode g spec (\<lambda>r. case decode r of Inl err \<Rightarrow> Some err | Inr _ \<Rightarrow> None) w of
                       (Inl err, w1) \<Rightarrow>
                         (Inl (if IsSqlNotFoundError db err then NotFoundError outboxevent_Label
                               else if IsSqlConstraintError db err then ConstraintError (error_text err) err
                               else err), w1)
                     | (Inr r, w1) \<Rightarrow> (decode r, w1)))))\<close>

definition OutboxEventUpdateOne_Save :: "'w graph \<Rightarrow> 'w db \<Rightarrow> OutboxEventUpdateOne \<Rightarrow> 'w \<Rightarrow> (goerror + OutboxEvent) \<times> 'w" where
  \<open>OutboxEventUpdateOne_Save g db c w = (case OutboxEventUpdateOne_defaults db c w of (c1, w1) \<Rightarrow> OutboxEventUpdateOne_sqlSave g db c1 w1)\<close>

definition OutboxEventUpdateOne_SaveX :: "'w graph \<Rightarrow> 'w db \<Rightarrow> OutboxEventUpdateOne \<Rightarrow> 'w \<Rightarrow> OutboxEvent panicking \<times> 'w" where
  \<open>OutboxEventUpdateOne_SaveX g db c w = or_panic (OutboxEventUpdateOne_Save g db c w)\<close>

definition OutboxEventUpdateOne_Exec :: "'w graph \<Rightarrow> 'w db \<Rightarrow> OutboxEventUpdateOne \<Rightarrow> 'w \<Rightarrow> goerror option \<times> 'w" where
  \<open>OutboxEventUpdateOne_Exec g db c w = (case OutboxEventUpdateOne_Save g db c w of (Inl err, w1) \<Rightarrow> (Some err, w1) | (Inr _, w1) \<Rightarrow> (None, w1))\<close>

definition OutboxEventUpdateOne_ExecX :: "'w graph \<Rightarrow> 'w db \<Rightarrow> OutboxEventUpdateOne \<Rightarrow> 'w \<Rightarrow> unit panicking \<times> 'w" where
  \<open>OutboxEventUpdateOne_ExecX g db c w = or_panic_err (OutboxEventUpdateOne_Exec g db c w)\<close>

section \<open>Panicking variants and bulk creation\<close>

definition OutboxEventCreate_SaveX :: "'w db \<Rightarrow> OutboxEventCreate \<Rightarrow> 'w \<Rightarrow> OutboxEvent panicking \<times> 'w" where
  \<open>OutboxEventCreate_SaveX db c w = or_panic (OutboxEventCreate_Save db c w)\<close>

definition OutboxEventCreate_ExecX :: "'w db \<Rightarrow> OutboxEventCreate \<Rightarrow> 'w \<Rightarrow> unit panicking \<times> 'w" where
  \<open>OutboxEventCreate_ExecX db c w = or_panic_err (OutboxEventCreate_Exec db c w)\<close>

definition OutboxEventUpdate_SaveX :: "'w db \<Rightarrow> OutboxEventUpdate \<Rightarrow> 'w \<Rightarrow> int panicking \<times> 'w" where
  \<open>OutboxEventUpdate_SaveX db c w = or_panic (OutboxEventUpdate_Save db c w)\<close>

definition OutboxEventUpdate_ExecX :: "'w db \<Rightarrow> OutboxEventUpdate \<Rightarrow> 'w \<Rightarrow> unit panicking \<times> 'w" where
  \<open>OutboxEventUpdate_ExecX db c w = or_panic_err (OutboxEventUpdate_Exec db c w)\<close>

record OutboxEventCreateBulk =
  ob_err :: "goerror option"
  ob_builders :: "OutboxEventCreate list"

fun OutboxEventCreateBulk_defaults :: "'w db \<Rightarrow> OutboxEventCreate list \<Rightarrow> 'w \<Rightarrow> OutboxEventCreate list \<times> 'w" where
  "OutboxEventCreateBulk_defaults db [] w = ([], w)"
| "OutboxEventCreateBulk_defaults db (c # cs) w =
     (case OutboxEventCreate_defaults db c w of (c1, w1) \<Rightarrow>
        (case OutboxEventCreateBulk_defaults db cs w1 of (cs1, w2) \<Rightarrow> (c1 # cs1, w2)))"

fun OutboxEventCreateBulk_specs :: "OutboxEventCreate list \<Rightarrow> goerror + (OutboxEvent \<times> CreateSpec) list" where
  "OutboxEventCreateBulk_specs [] = Inr []"
| "OutboxEventCreateBulk_specs (c # cs) =
     (case OutboxEventCreate_check c of
        Some err \<Rightarrow> Inl err
      | None \<Rightarrow> (case OutboxEventCreateBulk_specs cs of Inl err \<Rightarrow> Inl err | Inr xs \<Rightarrow> Inr (OutboxEventCreate_createSpec c # xs)))"

definition OutboxEventCreateBulk_Save :: "'w graph \<Rightarrow> 'w db \<Rightarrow> OutboxEventCreateBulk \<Rightarrow> 'w \<Rightarrow> (goerror + OutboxEvent list) \<times> 'w" where
  \<open>OutboxEventCreateBulk_Save g db b w =
     (case ob_err b of
        Some err \<Rightarrow> (Inl err, w)
      | None \<Rightarrow>
          (case OutboxEventCreateBulk_defaults db (ob_builders b) w of (cs, w1) \<Rightarrow>
             if cs = [] then (Inr [], w1)
             else (case OutboxEventCreateBulk_specs cs of
                     Inl err \<Rightarrow> (Inl err, w1)
                   | Inr xs \<Rightarrow>
                       (case BatchCreate g (map snd xs) w1 of
                          (Inl err, w2) \<Rightarrow>
                            (Inl (if IsSqlConstraintError db err then ConstraintError (error_text err) err else err), w2)
                        | (Inr _, w2) \<Rightarrow> (Inr (map fst xs), w2)))))\<close>

definition OutboxEventCreateBulk_SaveX :: "'w graph \<Rightarrow> 'w db \<Rightarrow> OutboxEventCreateBulk \<Rightarrow> 'w \<Rightarrow> OutboxEvent list panicking \<times> 'w" where
  \<open>OutboxEventCreateBulk_SaveX g db b w = or_panic (OutboxEventCreateBulk_Save g db b w)\<close>

definition OutboxEventCreateBulk_Exec :: "'w graph \<Rightarrow> 'w db \<Rightarrow> OutboxEventCreateBulk \<Rightarrow> 'w \<Rightarrow> goerror option \<times> 'w" where
  \<open>OutboxEventCreateBulk_Exec g db b w = (case OutboxEventCreateBulk_Save g db b w of (Inl err, w1) \<Rightarrow> (Some err, w1) | (Inr _, w1) \<Rightarrow> (None, w1))\<close>

definition OutboxEventCreateBulk_ExecX :: "'w graph \<Rightarrow> 'w db \<Rightarrow> OutboxEventCreateBulk \<Rightarrow> 'w \<Rightarrow> unit panicking \<times> 'w" where
  \<open>OutboxEventCreateBulk_ExecX g db b w = or_panic_err (OutboxEventCreateBulk_Exec g db b w)\<close>

section \<open>The client\<close>

definition OutboxEventClient_CreateBulk :: "OutboxEventCreate list \<Rightarrow> OutboxEventCreateBulk" where
  \<open>OutboxEventClient_CreateBulk builders = \<lparr>ob_err = None, ob_builders = builders\<rparr>\<close>

definition OutboxEventClient_MapCreateBulk :: "'s list \<Rightarrow> (OutboxEventCreate \<Rightarrow> int \<Rightarrow> OutboxEventCreate) \<Rightarrow> OutboxEventCreateBulk" where
  \<open>OutboxEventClient_MapCreateBulk xs setFunc =
     \<lparr>ob_err = None,
      ob_builders = map (\<lambda>i. setFunc OutboxEventClient_Create (int i)) [0..<length xs]\<rparr>\<close>

definition OutboxEventClient_UpdateOne :: "OutboxEvent \<Rightarrow> OutboxEventUpdateOne \<times> ('w, OutboxEvent) old_value" where
  \<open>OutboxEventClient_UpdateOne node =
     (case withOutboxEvent node (newOutboxEventMutation OpUpdateOne) of
        (m, oldValue) \<Rightarrow> (\<lparr>ou_fields = [], ou_mutation = m\<rparr>, oldValue))\<close>

definition OutboxEventClient_UpdateOneID :: "'w db \<Rightarrow> bool \<Rightarrow> uuid \<Rightarrow> OutboxEventUpdateOne \<times> ((goerror + OutboxEvent) option \<times> 'w, OutboxEvent) old_value" where
  \<open>OutboxEventClient_UpdateOneID db done i =
     (case withOutboxEventID db done i (newOutboxEventMutation OpUpdateOne) of
        (m, oldValue) \<Rightarrow> (\<lparr>ou_fields = [], ou_mutation = m\<rparr>, oldValue))\<close>

definition OutboxEventClient_Delete :: "OutboxEventDelete" where
  \<open>OutboxEventClient_Delete = newOutboxEventMutation OpDelete\<close>

definition OutboxEventClient_DeleteOneID :: "uuid \<Rightarrow> OutboxEventDeleteOne" where
  \<open>OutboxEventClient_DeleteOneID i =
     (OutboxEventDelete_Where [outboxevent_ID i] OutboxEventClient_Delete)\<lparr>om_id := Some i, om_op := OpDeleteOne\<rparr>\<close>

definition OutboxEventClient_DeleteOne :: "OutboxEvent \<Rightarrow> OutboxEventDeleteOne" where
  \<open>OutboxEventClient_DeleteOne node = OutboxEventClient_DeleteOneID (o_ID node)\<close>

definition OutboxEventClient_GetX :: "'w db \<Rightarrow> uuid \<Rightarrow> 'w \<Rightarrow> OutboxEvent panicking \<times> 'w" where
  \<open>OutboxEventClient_GetX db i w = or_panic (OutboxEventClient_Get db i w)\<close>

definition OutboxEventClient_mutate :: "'w graph \<Rightarrow> 'w db \<Rightarrow> OutboxEventMutation \<Rightarrow> 'w \<Rightarrow> (goerror + OutboxEvent mutated) \<times> 'w" where
  \<open>OutboxEventClient_mutate g db m w =
     (case OutboxEventMutation_Op m of
        OpCreate \<Rightarrow> (case OutboxEventCreate_Save db m w of (r, w1) \<Rightarrow> (map_sum id Node r, w1))
      | OpUpdate \<Rightarrow> (case OutboxEventUpdate_Save db m w of (r, w1) \<Rightarrow> (map_sum id Affected r, w1))
      | OpUpdateOne \<Rightarrow>
          (case OutboxEventUpdateOne_Save g db \<lparr>ou_fields = [], ou_mutation = m\<rparr> w of (r, w1) \<Rightarrow> (map_sum id Node r, w1))
      | OpDelete \<Rightarrow> (case OutboxEventDelete_Exec g db m w of (r, w1) \<Rightarrow> (map_sum id Affected r, w1))
      | OpDeleteOne \<Rightarrow> (case OutboxEventDelete_Exec g db m w of (r, w1) \<Rightarrow> (map_sum id Affected r, w1)))\<close>

definition OutboxEvent_Update :: "OutboxEvent \<Rightarrow> OutboxEventUpdateOne \<times> ('w, OutboxEvent) old_value" where
  \<open>OutboxEvent_Update node = OutboxEventClient_UpdateOne node\<close>

lemmas OutboxEvent_graph_defs =
  OutboxEvent_String_def
  OutboxEventMutation_OldNotificationID_def
  OutboxEventMutation_OldEventType_def
  OutboxEventMutation_OldStatus_def
  OutboxEventMutation_OldScheduledAt_def
  OutboxEventMutation_OldStreamID_def
  OutboxEventMutation_OldLockedBy_def
  OutboxEventMutation_OldLockedAt_def
  OutboxEventMutation_OldLastError_def
  OutboxEventMutation_OldPublishedAt_def
  OutboxEventMutation_OldCreatedAt_def
  OutboxEventMutation_OldUpdatedAt_def
  OutboxEventMutation_OldField_def
  OutboxEventMutation_AddedEdges_def
  OutboxEventMutation_AddedIDs_def
  OutboxEventMutation_RemovedEdges_def
  OutboxEventMutation_RemovedIDs_def
  OutboxEventMutation_ClearedEdges_def
  OutboxEventMutation_EdgeCleared_def
  OutboxEventMutation_ClearEdge_def
  OutboxEventMutation_ResetEdge_def
  OutboxEventMutation_WhereP_def
  withOutboxEvent_def
  withOutboxEventID_def
  OutboxEventQuery_Select_def
  OutboxEventQuery_Clone_def
  OutboxEventQuery_sqlQuery_def
  OutboxEventSelect_sqlScan_def
  OutboxEventSelect_Scan_def
  OutboxEventQuery_IDs_def
  OutboxEventQuery_FirstID_def
  OutboxEventQuery_OnlyID_def
  OutboxEventQuery_sqlCount_def
  OutboxEventQuery_Count_def
  OutboxEventQuery_Exist_def
  OutboxEventQuery_FirstX_def
  OutboxEventQuery_FirstIDX_def
  OutboxEventQuery_OnlyX_def
  OutboxEventQuery_OnlyIDX_def
  OutboxEventQuery_AllX_def
  OutboxEventQuery_IDsX_def
  OutboxEventQuery_CountX_def
  OutboxEventQuery_ExistX_def
  OutboxEventMutation_IDs_def
  OutboxEventDelete_Where_def
  OutboxEventDelete_sqlExec_def
  OutboxEventDelete_Exec_def
  OutboxEventDelete_ExecX_def
  OutboxEventDeleteOne_Where_def
  OutboxEventDeleteOne_Exec_def
  OutboxEventDeleteOne_ExecX_def
  OutboxEventUpdateOne_SetNotificationID_def
  OutboxEventUpdateOne_SetNillableNotificationID_def
  OutboxEventUpdateOne_SetEventType_def
  OutboxEventUpdateOne_SetNillableEventType_def
  OutboxEventUpdateOne_SetStatus_def
  OutboxEventUpdateOne_SetNillableStatus_def
  OutboxEventUpdateOne_SetScheduledAt_def
  OutboxEventUpdateOne_SetNillableScheduledAt_def
  OutboxEventUpdateOne_SetStreamID_def
  OutboxEventUpdateOne_SetNillableStreamID_def
  OutboxEventUpdateOne_ClearStreamID_def
  OutboxEventUpdateOne_SetLockedBy_def
  OutboxEventUpdateOne_SetNillableLockedBy_def
  OutboxEventUpdateOne_ClearLockedBy_def
  OutboxEventUpdateOne_SetLockedAt_def
  OutboxEventUpdateOne_SetNillableLockedAt_def
  OutboxEventUpdateOne_ClearLockedAt_def
  OutboxEventUpdateOne_SetLastError_def
  OutboxEventUpdateOne_SetNillableLastError_def
  OutboxEventUpdateOne_ClearLastError_def
  OutboxEventUpdateOne_SetPublishedAt_def
  OutboxEventUpdateOne_SetNillablePublishedAt_def
  OutboxEventUpdateOne_ClearPublishedAt_def
  OutboxEventUpdateOne_SetUpdatedAt_def
  OutboxEventUpdateOne_Mutation_def
  OutboxEventUpdateOne_Where_def
  OutboxEventUpdateOne_Select_def
  OutboxEventUpdateOne_defaults_def
  OutboxEventUpdateOne_check_def
  OutboxEventUpdateOne_spec_def
  OutboxEventUpdateOne_decode_def
  OutboxEventUpdateOne_sqlSave_def
  OutboxEventUpdateOne_Save_def
  OutboxEventUpdateOne_SaveX_def
  OutboxEventUpdateOne_Exec_def
  OutboxEventUpdateOne_ExecX_def
  OutboxEventCreate_SaveX_def
  OutboxEventCreate_ExecX_def
  OutboxEventUpdate_SaveX_def
  OutboxEventUpdate_ExecX_def
  OutboxEventCreateBulk_Save_def
  OutboxEventCreateBulk_SaveX_def
  OutboxEventCreateBulk_Exec_def
  OutboxEventCreateBulk_ExecX_def
  OutboxEventClient_CreateBulk_def
  OutboxEventClient_MapCreateBulk_def
  OutboxEventClient_UpdateOne_def
  OutboxEventClient_UpdateOneID_def
  OutboxEventClient_Delete_def
  OutboxEventClient_DeleteOneID_def
  OutboxEventClient_DeleteOne_def
  OutboxEventClient_GetX_def
  OutboxEventClient_mutate_def
  OutboxEvent_Update_def

end
