(* ===== verification/Ent_Hooks.thy ===== *)
theory Ent_Hooks
  imports Sql_Graph
begin

text \<open>
  The plumbing of the generated code around its builders: mutation hooks (\<^verbatim>\<open>withHooks\<close> of
  \<^verbatim>\<open>ent/ent.go\<close> and the combinators of \<^verbatim>\<open>ent/hook/hook.go\<close>), commit and rollback hooks
  (\<^verbatim>\<open>ent/tx.go\<close>), the configuration of a client (\<^verbatim>\<open>ent/client.go\<close>), the single-column selectors, and
  ordering and aggregation on a selector (\<^verbatim>\<open>ent/ent.go\<close>). The program registers no hooks; that the
  hooked forms are then the ones used elsewhere is proved below.
\<close>

section \<open>Mutation hooks\<close>

type_synonym ('m, 'v, 'w) mutator = "'m \<Rightarrow> 'w \<Rightarrow> (goerror + 'v) \<times> 'w"

type_synonym ('m, 'v, 'w) hook = "('m, 'v, 'w) mutator \<Rightarrow> ('m, 'v, 'w) mutator"

text \<open>The loop runs from the last hook to the first; a nil hook (\<open>None\<close>) ends it with an error.\<close>

fun wrap_hooks :: "('m, 'v, 'w) hook option list \<Rightarrow> ('m, 'v, 'w) mutator \<Rightarrow> goerror + ('m, 'v, 'w) mutator" where
  "wrap_hooks [] mut = Inr mut"
| "wrap_hooks (h # hs) mut =
     (case wrap_hooks hs mut of
        Inl err \<Rightarrow> Inl err
      | Inr mut1 \<Rightarrow>
          (case h of
             None \<Rightarrow> Inl (ErrText ''ent: uninitialized hook (forgotten import ent/runtime?)'')
           | Some f \<Rightarrow> Inr (f mut1)))"

definition withHooks :: "('m, 'v, 'w) mutator \<Rightarrow> 'm \<Rightarrow> ('m, 'v, 'w) hook option list \<Rightarrow> 'w \<Rightarrow> (goerror + 'v) \<times> 'w" where
  "withHooks exec mutation hooks w =
     (if hooks = [] then exec mutation w
      else (case wrap_hooks hooks exec of Inl err \<Rightarrow> (Inl err, w) | Inr mut \<Rightarrow> mut mutation w))"

section \<open>ent/hook/hook.go\<close>

type_synonym 'm condition = "'m \<Rightarrow> bool"

definition hook_And :: "'m condition \<Rightarrow> 'm condition \<Rightarrow> 'm condition list \<Rightarrow> 'm condition" where
  "hook_And first second rest m =
     (if \<not> first m \<or> \<not> second m then False else list_all (\<lambda>cond. cond m) rest)"

definition hook_Or :: "'m condition \<Rightarrow> 'm condition \<Rightarrow> 'm condition list \<Rightarrow> 'm condition" where
  "hook_Or first second rest m =
     (if first m \<or> second m then True else list_ex (\<lambda>cond. cond m) rest)"

definition hook_Not :: "'m condition \<Rightarrow> 'm condition" where
  "hook_Not cond m = (\<not> cond m)"

text \<open>An operand such as \<^verbatim>\<open>OpDelete|OpCreate\<close> is a set of operations; \<open>op\<close> is the mutation's \<^verbatim>\<open>Op\<close>.\<close>

definition hook_HasOp :: "('m \<Rightarrow> Op) \<Rightarrow> Op set \<Rightarrow> 'm condition" where
  "hook_HasOp op ops m = (op m \<in> ops)"

definition hook_HasAddedFields :: "(column \<Rightarrow> 'm \<Rightarrow> ent_value option) \<Rightarrow> column \<Rightarrow> column list \<Rightarrow> 'm condition" where
  "hook_HasAddedFields AddedField f flds m =
     (if AddedField f m = None then False else list_all (\<lambda>c. AddedField c m \<noteq> None) flds)"

definition hook_HasClearedFields :: "(column \<Rightarrow> 'm \<Rightarrow> bool) \<Rightarrow> column \<Rightarrow> column list \<Rightarrow> 'm condition" where
  "hook_HasClearedFields FieldCleared f flds m =
     (if \<not> FieldCleared f m then False else list_all (\<lambda>c. FieldCleared c m) flds)"

definition hook_HasFields :: "(column \<Rightarrow> 'm \<Rightarrow> ent_value option) \<Rightarrow> column \<Rightarrow> column list \<Rightarrow> 'm condition" where
  "hook_HasFields get f flds m =
     (if get f m = None then False else list_all (\<lambda>c. get c m \<noteq> None) flds)"

definition hook_If :: "('m, 'v, 'w) hook \<Rightarrow> 'm condition \<Rightarrow> ('m, 'v, 'w) hook" where
  "hook_If hk cond next m w = (if cond m then hk next m w else next m w)"

definition hook_On :: "('m \<Rightarrow> Op) \<Rightarrow> ('m, 'v, 'w) hook \<Rightarrow> Op set \<Rightarrow> ('m, 'v, 'w) hook" where
  "hook_On op hk ops = hook_If hk (hook_HasOp op ops)"

definition hook_Unless :: "('m \<Rightarrow> Op) \<Rightarrow> ('m, 'v, 'w) hook \<Rightarrow> Op set \<Rightarrow> ('m, 'v, 'w) hook" where
  "hook_Unless op hk ops = hook_If hk (hook_Not (hook_HasOp op ops))"

definition hook_FixedError :: "goerror \<Rightarrow> ('m, 'v, 'w) hook" where
  "hook_FixedError err next m w = (Inl err, w)"

text \<open>\<open>name\<close> prints the operand of \<^verbatim>\<open>Reject\<close>.\<close>

definition hook_Reject :: "('m \<Rightarrow> Op) \<Rightarrow> (Op set \<Rightarrow> string) \<Rightarrow> Op set \<Rightarrow> ('m, 'v, 'w) hook" where
  "hook_Reject op name ops = hook_On op (hook_FixedError (ErrText (name ops @ '' operation is not allowed''))) ops"

type_synonym ('m, 'v, 'w) chain = "('m, 'v, 'w) hook list"

definition NewChain :: "('m, 'v, 'w) hook list \<Rightarrow> ('m, 'v, 'w) chain" where
  "NewChain hooks = hooks"

fun Chain_Hook :: "('m, 'v, 'w) chain \<Rightarrow> ('m, 'v, 'w) hook" where
  "Chain_Hook [] mutator = mutator"
| "Chain_Hook (h # hs) mutator = h (Chain_Hook hs mutator)"

definition Chain_Append :: "('m, 'v, 'w) chain \<Rightarrow> ('m, 'v, 'w) hook list \<Rightarrow> ('m, 'v, 'w) chain" where
  "Chain_Append c hooks = c @ hooks"

definition Chain_Extend :: "('m, 'v, 'w) chain \<Rightarrow> ('m, 'v, 'w) chain \<Rightarrow> ('m, 'v, 'w) chain" where
  "Chain_Extend c chain = Chain_Append c chain"

lemma Chain_Hook_append: "Chain_Hook (c @ d) mutator = Chain_Hook c (Chain_Hook d mutator)"
  by (induction c) simp_all

lemma wrap_hooks_Some: "wrap_hooks (map Some hs) exec = Inr (Chain_Hook hs exec)"
  by (induction hs) simp_all

lemma wrap_hooks_nil: "None \<in> set hs \<Longrightarrow> isl (wrap_hooks hs exec)"
  by (induction hs) (auto split: sum.splits option.splits)

text \<open>Several registered hooks act as the one hook that chains them.\<close>

lemma withHooks_chain: "withHooks exec m (map Some hs) w = Chain_Hook hs exec m w"
  by (cases hs) (simp_all add: withHooks_def wrap_hooks_Some)

lemma withHooks_none [simp]: "withHooks exec m [] w = exec m w"
  by (simp add: withHooks_def)

text \<open>A rejected operation does not reach the mutators behind the hook.\<close>

lemma hook_Reject_eq:
  "hook_Reject op name ops exec = (\<lambda>m w.
     if op m \<in> ops then (Inl (ErrText (name ops @ '' operation is not allowed'')), w) else exec m w)"
  by (simp add: hook_Reject_def hook_On_def hook_If_def hook_HasOp_def hook_FixedError_def fun_eq_iff)

section \<open>Hooks of a client\<close>

text \<open>\<^verbatim>\<open>Use\<close> of an entity client appends to its stack, \<^verbatim>\<open>Client.Use\<close> to all three.\<close>

record 'h hooks =
  hs_DeliveryAttempt :: "'h list"
  hs_Notification :: "'h list"
  hs_OutboxEvent :: "'h list"

definition DeliveryAttemptClient_Use :: "'h list \<Rightarrow> 'h hooks \<Rightarrow> 'h hooks" where
  "DeliveryAttemptClient_Use hs c = c\<lparr>hs_DeliveryAttempt := hs_DeliveryAttempt c @ hs\<rparr>"

definition NotificationClient_Use :: "'h list \<Rightarrow> 'h hooks \<Rightarrow> 'h hooks" where
  "NotificationClient_Use hs c = c\<lparr>hs_Notification := hs_Notification c @ hs\<rparr>"

definition OutboxEventClient_Use :: "'h list \<Rightarrow> 'h hooks \<Rightarrow> 'h hooks" where
  "OutboxEventClient_Use hs c = c\<lparr>hs_OutboxEvent := hs_OutboxEvent c @ hs\<rparr>"

definition Client_Use :: "'h list \<Rightarrow> 'h hooks \<Rightarrow> 'h hooks" where
  "Client_Use hs c =
     OutboxEventClient_Use hs (NotificationClient_Use hs (DeliveryAttemptClient_Use hs c))"

definition DeliveryAttemptClient_Hooks :: "'h hooks \<Rightarrow> 'h list" where
  "DeliveryAttemptClient_Hooks c = hs_DeliveryAttempt c"

definition NotificationClient_Hooks :: "'h hooks \<Rightarrow> 'h list" where
  "NotificationClient_Hooks c = hs_Notification c"

definition OutboxEventClient_Hooks :: "'h hooks \<Rightarrow> 'h list" where
  "OutboxEventClient_Hooks c = hs_OutboxEvent c"

section \<open>Configuration of a client\<close>

text \<open>A driver \<open>'d\<close> and a log function \<open>'l\<close> are opaque; \<open>debug_driver\<close> is \<^verbatim>\<open>dialect.Debug\<close>.\<close>

record ('d, 'l) ent_config =
  ec_driver :: "'d option"
  ec_debug :: bool
  ec_log :: 'l

type_synonym ('d, 'l) Option = "('d, 'l) ent_config \<Rightarrow> ('d, 'l) ent_config"

definition config_options ::
  "('d option \<Rightarrow> 'l \<Rightarrow> 'd option) \<Rightarrow> ('d, 'l) Option list \<Rightarrow> ('d, 'l) ent_config \<Rightarrow> ('d, 'l) ent_config" where
  "config_options debug_driver opts c =
     (let c1 = fold (\<lambda>opt c. opt c) opts c
      in if ec_debug c1 then c1\<lparr>ec_driver := debug_driver (ec_driver c1) (ec_log c1)\<rparr> else c1)"

definition newConfig :: "('d option \<Rightarrow> 'l \<Rightarrow> 'd option) \<Rightarrow> 'l \<Rightarrow> ('d, 'l) Option list \<Rightarrow> ('d, 'l) ent_config" where
  "newConfig debug_driver println opts =
     config_options debug_driver opts \<lparr>ec_driver = None, ec_debug = False, ec_log = println\<rparr>"

definition option_Debug :: "('d, 'l) Option" where
  "option_Debug c = c\<lparr>ec_debug := True\<rparr>"

definition option_Log :: "'l \<Rightarrow> ('d, 'l) Option" where
  "option_Log fn c = c\<lparr>ec_log := fn\<rparr>"

definition option_Driver :: "'d \<Rightarrow> ('d, 'l) Option" where
  "option_Driver driver c = c\<lparr>ec_driver := Some driver\<rparr>"

definition ent_Open ::
  "('d option \<Rightarrow> 'l \<Rightarrow> 'd option) \<Rightarrow> 'l \<Rightarrow> (string \<Rightarrow> string \<Rightarrow> 'w \<Rightarrow> (goerror + 'd) \<times> 'w) \<Rightarrow> string \<Rightarrow> string \<Rightarrow>
   ('d, 'l) Option list \<Rightarrow> 'w \<Rightarrow> (goerror + ('d, 'l) ent_config) \<times> 'w" where
  "ent_Open debug_driver println sql_Open driverName dataSourceName opts w =
     (if driverName \<in> {''mysql'', ''postgres'', ''sqlite3''}
      then (case sql_Open driverName dataSourceName w of
              (Inl err, w1) \<Rightarrow> (Inl err, w1)
            | (Inr drv, w1) \<Rightarrow> (Inr (newConfig debug_driver println (opts @ [option_Driver drv])), w1))
      else (Inl (ErrText (''unsupported driver: '' @ Quote driverName)), w))"

definition Client_Debug :: "('d option \<Rightarrow> 'l \<Rightarrow> 'd option) \<Rightarrow> ('d, 'l) ent_config \<Rightarrow> ('d, 'l) ent_config" where
  "Client_Debug debug_driver c =
     (if ec_debug c then c else c\<lparr>ec_driver := debug_driver (ec_driver c) (ec_log c)\<rparr>)"

section \<open>Transactions with hooks\<close>

type_synonym 'w committer = "'w \<Rightarrow> goerror option \<times> 'w"

record 'w txDriver =
  td_onCommit :: "('w committer \<Rightarrow> 'w committer) list"
  td_onRollback :: "('w committer \<Rightarrow> 'w committer) list"

fun tx_wrap :: "('w committer \<Rightarrow> 'w committer) list \<Rightarrow> 'w committer \<Rightarrow> 'w committer" where
  "tx_wrap [] fn = fn"
| "tx_wrap (h # hs) fn = h (tx_wrap hs fn)"

definition Tx_Commit_hooked :: "'w txDriver \<Rightarrow> 'w db \<Rightarrow> 'w committer" where
  "Tx_Commit_hooked td db = tx_wrap (td_onCommit td) (CommitTx db)"

definition Tx_OnCommit :: "('w committer \<Rightarrow> 'w committer) \<Rightarrow> 'w txDriver \<Rightarrow> 'w txDriver" where
  "Tx_OnCommit f td = td\<lparr>td_onCommit := td_onCommit td @ [f]\<rparr>"

definition Tx_Rollback_hooked :: "'w txDriver \<Rightarrow> 'w db \<Rightarrow> 'w committer" where
  "Tx_Rollback_hooked td db = tx_wrap (td_onRollback td) (RollbackTx db)"

definition Tx_OnRollback :: "('w committer \<Rightarrow> 'w committer) \<Rightarrow> 'w txDriver \<Rightarrow> 'w txDriver" where
  "Tx_OnRollback f td = td\<lparr>td_onRollback := td_onRollback td @ [f]\<rparr>"

text \<open>A client whose driver is a transaction starts no second one.\<close>

definition Client_Tx_guarded :: "bool \<Rightarrow> 'w db \<Rightarrow> 'w \<Rightarrow> goerror option \<times> 'w" where
  "Client_Tx_guarded transactional db w =
     (if transactional then (Some (ErrText ''ent: cannot start a transaction within a transaction''), w)
      else Client_Tx db w)"

definition Client_BeginTx :: "bool \<Rightarrow> ('w \<Rightarrow> goerror option \<times> 'w) \<Rightarrow> 'w \<Rightarrow> goerror option \<times> 'w" where
  "Client_BeginTx transactional beginTx w =
     (if transactional then (Some (ErrText ''ent: cannot start a transaction within a transaction''), w)
      else (case beginTx w of
              (Some err, w1) \<Rightarrow> (Some (ErrWrap ''ent: starting a transaction: '' err ''''), w1)
            | (None, w1) \<Rightarrow> (None, w1)))"

lemma no_tx_hooks:
  "Tx_Commit_hooked \<lparr>td_onCommit = [], td_onRollback = rs\<rparr> db w = Tx_Commit db w"
  "Tx_Rollback_hooked \<lparr>td_onCommit = cs, td_onRollback = []\<rparr> db w = Tx_Rollback db w"
  by (simp_all add: Tx_Commit_hooked_def Tx_Rollback_hooked_def Tx_Commit_def Tx_Rollback_def)

section \<open>Selecting one column\<close>

record ('a, 'w) ent_selector =
  sl_label :: string
  sl_flds :: "column list"
  sl_scan :: "'w \<Rightarrow> (goerror + 'a list) \<times> 'w"

definition selector_Strings :: "(string, 'w) ent_selector \<Rightarrow> 'w \<Rightarrow> (goerror + string list) \<times> 'w" where
  "selector_Strings s w =
     (if length (sl_flds s) > 1
      then (Inl (ErrText ''ent: Strings is not achievable when selecting more than 1 field''), w)
      else sl_scan s w)"

definition selector_StringsX :: "(string, 'w) ent_selector \<Rightarrow> 'w \<Rightarrow> string list panicking \<times> 'w" where
  "selector_StringsX s w = or_panic (selector_Strings s w)"

definition selector_String :: "(string, 'w) ent_selector \<Rightarrow> 'w \<Rightarrow> (goerror + string) \<times> 'w" where
  "selector_String s w =
     (case selector_Strings s w of
        (Inl err, w1) \<Rightarrow> (Inl err, w1)
      | (Inr v, w1) \<Rightarrow>
          (case v of
             [x] \<Rightarrow> (Inr x, w1)
           | [] \<Rightarrow> (Inl (NotFoundError (sl_label s)), w1)
           | _ \<Rightarrow>
               (Inl (ErrText (''ent: Strings returned '' @ Itoa (int (length v)) @
                  '' results when one was expected'')), w1)))"

definition selector_StringX :: "(string, 'w) ent_selector \<Rightarrow> 'w \<Rightarrow> string panicking \<times> 'w" where
  "selector_StringX s w = or_panic (selector_String s w)"

definition selector_Ints :: "(int, 'w) ent_selector \<Rightarrow> 'w \<Rightarrow> (goerror + int list) \<times> 'w" where
  "selector_Ints s w =
     (if length (sl_flds s) > 1
      then (Inl (ErrText ''ent: Ints is not achievable when selecting more than 1 field''), w)
      else sl_scan s w)"

definition selector_IntsX :: "(int, 'w) ent_selector \<Rightarrow> 'w \<Rightarrow> int list panicking \<times> 'w" where
  "selector_IntsX s w = or_panic (selector_Ints s w)"

definition selector_Int :: "(int, 'w) ent_selector \<Rightarrow> 'w \<Rightarrow> (goerror + int) \<times> 'w" where
  "selector_Int s w =
     (case selector_Ints s w of
        (Inl err, w1) \<Rightarrow> (Inl err, w1)
      | (Inr v, w1) \<Rightarrow>
          (case v of
             [x] \<Rightarrow> (Inr x, w1)
           | [] \<Rightarrow> (Inl (NotFoundError (sl_label s)), w1)
           | _ \<Rightarrow>
               (Inl (ErrText (''ent: Ints returned '' @ Itoa (int (length v)) @
                  '' results when one was expected'')), w1)))"

definition selector_IntX :: "(int, 'w) ent_selector \<Rightarrow> 'w \<Rightarrow> int panicking \<times> 'w" where
  "selector_IntX s w = or_panic (selector_Int s w)"

definition selector_Float64s :: "('f, 'w) ent_selector \<Rightarrow> 'w \<Rightarrow> (goerror + 'f list) \<times> 'w" where
  "selector_Float64s s w =
     (if length (sl_flds s) > 1
      then (Inl (ErrText ''ent: Float64s is not achievable when selecting more than 1 field''), w)
      else sl_scan s w)"

definition selector_Float64sX :: "('f, 'w) ent_selector \<Rightarrow> 'w \<Rightarrow> 'f list panicking \<times> 'w" where
  "selector_Float64sX s w = or_panic (selector_Float64s s w)"

definition selector_Float64 :: "('f, 'w) ent_selector \<Rightarrow> 'w \<Rightarrow> (goerror + 'f) \<times> 'w" where
  "selector_Float64 s w =
     (case selector_Float64s s w of
        (Inl err, w1) \<Rightarrow> (Inl err, w1)
      | (Inr v, w1) \<Rightarrow>
          (case v of
             [x] \<Rightarrow> (Inr x, w1)
           | [] \<Rightarrow> (Inl (NotFoundError (sl_label s)), w1)
           | _ \<Rightarrow>
               (Inl (ErrText (''ent: Float64s returned '' @ Itoa (int (length v)) @
                  '' results when one was expected'')), w1)))"

definition selector_Float64X :: "('f, 'w) ent_selector \<Rightarrow> 'w \<Rightarrow> 'f panicking \<times> 'w" where
  "selector_Float64X s w = or_panic (selector_Float64 s w)"

definition selector_Bools :: "(bool, 'w) ent_selector \<Rightarrow> 'w \<Rightarrow> (goerror + bool list) \<times> 'w" where
  "selector_Bools s w =
     (if length (sl_flds s) > 1
      then (Inl (ErrText ''ent: Bools is not achievable when selecting more than 1 field''), w)
      else sl_scan s w)"

definition selector_BoolsX :: "(bool, 'w) ent_selector \<Rightarrow> 'w \<Rightarrow> bool list panicking \<times> 'w" where
  "selector_BoolsX s w = or_panic (selector_Bools s w)"

definition selector_Bool :: "(bool, 'w) ent_selector \<Rightarrow> 'w \<Rightarrow> (goerror + bool) \<times> 'w" where
  "selector_Bool s w =
     (case selector_Bools s w of
        (Inl err, w1) \<Rightarrow> (Inl err, w1)
      | (Inr v, w1) \<Rightarrow>
          (case v of
             [x] \<Rightarrow> (Inr x, w1)
           | [] \<Rightarrow> (Inl (NotFoundError (sl_label s)), w1)
           | _ \<Rightarrow>
               (Inl (ErrText (''ent: Bools returned '' @ Itoa (int (length v)) @
                  '' results when one was expected'')), w1)))"

definition selector_BoolX :: "(bool, 'w) ent_selector \<Rightarrow> 'w \<Rightarrow> bool panicking \<times> 'w" where
  "selector_BoolX s w = or_panic (selector_Bool s w)"

section \<open>Ordering and aggregation\<close>

text \<open>
  A selector collects errors and terms. \<open>columnCheck\<close> is what \<^verbatim>\<open>sql.NewColumnCheck\<close> makes of the
  validity tests of the three tables; the texts of aggregations are the SQL package's.
\<close>

record sql_selector =
  ss_Table :: table
  ss_Errors :: "goerror list"
  ss_Order :: "(bool \<times> column) list"

type_synonym new_check = "(table \<Rightarrow> column \<Rightarrow> bool) \<Rightarrow> table \<Rightarrow> column \<Rightarrow> goerror option"

definition checkColumn :: "new_check \<Rightarrow> table \<Rightarrow> column \<Rightarrow> goerror option" where
  "checkColumn newCheck t c =
     newCheck (\<lambda>tb. case tb of
         Table_delivery_attempts \<Rightarrow> deliveryattempt_ValidColumn
       | Table_notifications \<Rightarrow> notification_ValidColumn
       | Table_outbox_events \<Rightarrow> outboxevent_ValidColumn) t c"

definition column_error :: "column \<Rightarrow> goerror \<Rightarrow> goerror" where
  "column_error c err = ValidationError (column_name c) (ErrWrap ''ent: '' err '''')"

definition order_by :: "new_check \<Rightarrow> bool \<Rightarrow> column \<Rightarrow> sql_selector \<Rightarrow> sql_selector" where
  "order_by newCheck ascending f s =
     (let s1 = (case checkColumn newCheck (ss_Table s) f of
                  Some err \<Rightarrow> s\<lparr>ss_Errors := ss_Errors s @ [column_error f err]\<rparr>
                | None \<Rightarrow> s)
      in s1\<lparr>ss_Order := ss_Order s1 @ [(ascending, f)]\<rparr>)"

definition ent_Asc :: "new_check \<Rightarrow> column list \<Rightarrow> sql_selector \<Rightarrow> sql_selector" where
  "ent_Asc newCheck flds s = fold (order_by newCheck True) flds s"

definition ent_Desc :: "new_check \<Rightarrow> column list \<Rightarrow> sql_selector \<Rightarrow> sql_selector" where
  "ent_Desc newCheck flds s = fold (order_by newCheck False) flds s"

type_synonym AggregateFunc = "sql_selector \<Rightarrow> string \<times> sql_selector"

definition ent_As :: "(string \<Rightarrow> string \<Rightarrow> string) \<Rightarrow> AggregateFunc \<Rightarrow> string \<Rightarrow> AggregateFunc" where
  "ent_As sql_As fn end_name s = (case fn s of (t, s1) \<Rightarrow> (sql_As t end_name, s1))"

definition ent_Count :: "(string \<Rightarrow> string) \<Rightarrow> AggregateFunc" where
  "ent_Count sql_Count s = (sql_Count ''*'', s)"

definition ent_Max :: "new_check \<Rightarrow> (sql_selector \<Rightarrow> column \<Rightarrow> string) \<Rightarrow> column \<Rightarrow> AggregateFunc" where
  "ent_Max newCheck sql_Max f s =
     (case checkColumn newCheck (ss_Table s) f of
        Some err \<Rightarrow> ([], s\<lparr>ss_Errors := ss_Errors s @ [column_error f err]\<rparr>)
      | None \<Rightarrow> (sql_Max s f, s))"

definition ent_Mean :: "new_check \<Rightarrow> (sql_selector \<Rightarrow> column \<Rightarrow> string) \<Rightarrow> column \<Rightarrow> AggregateFunc" where
  "ent_Mean newCheck sql_Avg f s =
     (case checkColumn newCheck (ss_Table s) f of
        Some err \<Rightarrow> ([], s\<lparr>ss_Errors := ss_Errors s @ [column_error f err]\<rparr>)
      | None \<Rightarrow> (sql_Avg s f, s))"

definition ent_Min :: "new_check \<Rightarrow> (sql_selector \<Rightarrow> column \<Rightarrow> string) \<Rightarrow> column \<Rightarrow> AggregateFunc" where
  "ent_Min newCheck sql_Min f s =
     (case checkColumn newCheck (ss_Table s) f of
        Some err \<Rightarrow> ([], s\<lparr>ss_Errors := ss_Errors s @ [column_error f err]\<rparr>)
      | None \<Rightarrow> (sql_Min s f, s))"

definition ent_Sum :: "new_check \<Rightarrow> (sql_selector \<Rightarrow> column \<Rightarrow> string) \<Rightarrow> column \<Rightarrow> AggregateFunc" where
  "ent_Sum newCheck sql_Sum f s =
     (case checkColumn newCheck (ss_Table s) f of
        Some err \<Rightarrow> ([], s\<lparr>ss_Errors := ss_Errors s @ [column_error f err]\<rparr>)
      | None \<Rightarrow> (sql_Sum s f, s))"

end
