(* ===== verification/Ent_Graph.thy ===== *)
theory Ent_Graph
  imports Graph_Notification Graph_DeliveryAttempt Graph_OutboxEvent Ent_Hooks
begin

text \<open>
  \<^verbatim>\<open>Client.Mutate\<close> (\<^verbatim>\<open>ent/client.go\<close>), and what deleting and updating one node do to the tables when
  the driver keeps the contract of \<open>graph_database\<close>.
\<close>

section \<open>Client.Mutate\<close>

datatype ent_mutation =
    MutateDeliveryAttempt DeliveryAttemptMutation
  | MutateNotification NotificationMutation
  | MutateOutboxEvent OutboxEventMutation

datatype ent_mutated =
    DeliveryAttemptValue "DeliveryAttempt mutated"
  | NotificationValue "Notification mutated"
  | OutboxEventValue "OutboxEvent mutated"

definition Client_Mutate :: "'w graph \<Rightarrow> 'w db \<Rightarrow> ent_mutation \<Rightarrow> 'w \<Rightarrow> (goerror + ent_mutated) \<times> 'w" where
  "Client_Mutate g db m w =
     (case m of
        MutateDeliveryAttempt m \<Rightarrow>
          (case DeliveryAttemptClient_mutate g db m w of (r, w1) \<Rightarrow> (map_sum id DeliveryAttemptValue r, w1))
      | MutateNotification m \<Rightarrow>
          (case NotificationClient_mutate g db m w of (r, w1) \<Rightarrow> (map_sum id NotificationValue r, w1))
      | MutateOutboxEvent m \<Rightarrow>
          (case OutboxEventClient_mutate g db m w of (r, w1) \<Rightarrow> (map_sum id OutboxEventValue r, w1)))"

section \<open>A single node\<close>

abbreviation has_ID :: "uuid \<Rightarrow> row \<Rightarrow> bool" where
  "has_ID i r \<equiv> r FieldID = Some (VUuid i)"

definition without_row :: "table \<Rightarrow> uuid \<Rightarrow> tables \<Rightarrow> tables" where
  "without_row tb i ts = ts(tb := filter (\<lambda>r. \<not> has_ID i r) (ts tb))"

lemma without_missing: "\<forall>r\<in>set (ts tb). \<not> has_ID i r \<Longrightarrow> without_row tb i ts = ts"
  by (auto simp: without_row_def fun_eq_iff filter_id_conv)

lemma update_node_answered:
  assumes "stmt_update_node sp assign ts = (Inr r, ts')"
  shows "ts' = ts(us_Table (ns_Update sp) :=
             update_where (has_ID (ns_ID sp)) (spec_update (ns_Update sp)) (ts (us_Table (ns_Update sp)))) \<and>
         r \<in> set (ts' (us_Table (ns_Update sp))) \<and> has_ID (ns_ID sp) r \<and> assign r = None"
  using assms by (auto simp: stmt_update_node_def Let_def find_Some_iff split: option.splits)

context graph_database
begin

lemma delete_one:
  assumes "DeleteNodes g \<lparr>ds_Table = tb, ds_Predicate = [PEQ FieldID (VUuid i)]\<rparr> w = (r, w')"
  shows "snap w' = snap w \<and>
    (case r of
       Inl e \<Rightarrow> tabs w' = tabs w \<or> tabs w' = without_row tb i (tabs w)
     | Inr k \<Rightarrow> tabs w' = without_row tb i (tabs w) \<and> (k = 0 \<longleftrightarrow> (\<forall>x\<in>set (tabs w tb). \<not> has_ID i x)))"
  using delete_served [OF assms]
  by (auto simp: served_def stmt_delete_def holds_PEQ without_row_def count_where_0_iff split: sum.splits)

lemma update_one:
  assumes "us_Predicate (ns_Update sp) = []" "us_Set (ns_Update sp) \<noteq> []" "UpdateNode g sp assign w = (Inr r, w')"
  shows "tabs w' = (tabs w)(us_Table (ns_Update sp) :=
             update_where (has_ID (ns_ID sp)) (spec_update (ns_Update sp)) (tabs w (us_Table (ns_Update sp)))) \<and>
         r \<in> set (tabs w' (us_Table (ns_Update sp))) \<and> has_ID (ns_ID sp) r \<and> assign r = None \<and> snap w' = snap w"
  using update_node_served [OF assms] update_node_answered [of sp assign "tabs w" r "tabs w'"]
  by (auto simp: served_def)

lemma NotificationDeleteOne_effect:
  assumes "NotificationDeleteOne_Exec g db (NotificationClient_DeleteOneID i) w = (res, w')"
  shows "snap w' = snap w \<and>
    (if \<exists>r\<in>set (tabs w Table_notifications). has_ID i r
     then tabs w' = without_row Table_notifications i (tabs w) \<or> tabs w' = tabs w \<and> res \<noteq> None
     else tabs w' = tabs w \<and> res \<noteq> None)"
proof -
  obtain r w1 where call: "DeleteNodes g \<lparr>ds_Table = Table_notifications, ds_Predicate = [PEQ FieldID (VUuid i)]\<rparr> w = (r, w1)"
    by (cases "DeleteNodes g \<lparr>ds_Table = Table_notifications, ds_Predicate = [PEQ FieldID (VUuid i)]\<rparr> w")
  have res: "res = (case r of Inl err \<Rightarrow> Some (if IsSqlConstraintError db err then ConstraintError (error_text err) err else err)
                      | Inr k \<Rightarrow> if k = 0 then Some (NotFoundError notification_Label) else None) \<and> w' = w1"
    using assms call
    by (auto simp: NotificationDeleteOne_Exec_def NotificationDelete_Exec_def NotificationDelete_sqlExec_def NotificationClient_DeleteOneID_def
        NotificationDelete_Where_def NotificationClient_Delete_def NotificationMutation_Where_def newNotificationMutation_def notification_ID_def
        split: sum.splits)
  show ?thesis
    using delete_one [OF call] res without_missing [of "tabs w" "Table_notifications" i]
    by (auto split: sum.splits)
qed

lemma DeliveryAttemptDeleteOne_effect:
  assumes "DeliveryAttemptDeleteOne_Exec g db (DeliveryAttemptClient_DeleteOneID i) w = (res, w')"
  shows "snap w' = snap w \<and>
    (if \<exists>r\<in>set (tabs w Table_delivery_attempts). has_ID i r
     then tabs w' = without_row Table_delivery_attempts i (tabs w) \<or> tabs w' = tabs w \<and> res \<noteq> None
     else tabs w' = tabs w \<and> res \<noteq> None)"
proof -
  obtain r w1 where call: "DeleteNodes g \<lparr>ds_Table = Table_delivery_attempts, ds_Predicate = [PEQ FieldID (VUuid i)]\<rparr> w = (r, w1)"
    by (cases "DeleteNodes g \<lparr>ds_Table = Table_delivery_attempts, ds_Predicate = [PEQ FieldID (VUuid i)]\<rparr> w")
  have res: "res = (case r of Inl err \<Rightarrow> Some (if IsSqlConstraintError db err then ConstraintError (error_text err) err else err)
                      | Inr k \<Rightarrow> if k = 0 then Some (NotFoundError deliveryattempt_Label) else None) \<and> w' = w1"
    using assms call
    by (auto simp: DeliveryAttemptDeleteOne_Exec_def DeliveryAttemptDelete_Exec_def DeliveryAttemptDelete_sqlExec_def DeliveryAttemptClient_DeleteOneID_def
        DeliveryAttemptDelete_Where_def DeliveryAttemptClient_Delete_def DeliveryAttemptMutation_Where_def newDeliveryAttemptMutation_def deliveryattempt_ID_def
        split: sum.splits)
  show ?thesis
    using delete_one [OF call] res without_missing [of "tabs w" "Table_delivery_attempts" i]
    by (auto split: sum.splits)
qed

lemma OutboxEventDeleteOne_effect:
  assumes "OutboxEventDeleteOne_Exec g db (OutboxEventClient_DeleteOneID i) w = (res, w')"
  shows "snap w' = snap w \<and>
    (if \<exists>r\<in>set (tabs w Table_outbox_events). has_ID i r
     then tabs w' = without_row Table_outbox_events i (tabs w) \<or> tabs w' = tabs w \<and> res \<noteq> None
     else tabs w' = tabs w \<and> res \<noteq> None)"
proof -
  obtain r w1 where call: "DeleteNodes g \<lparr>ds_Table = Table_outbox_events, ds_Predicate = [PEQ FieldID (VUuid i)]\<rparr> w = (r, w1)"
    by (cases "DeleteNodes g \<lparr>ds_Table = Table_outbox_events, ds_Predicate = [PEQ FieldID (VUuid i)]\<rparr> w")
  have res: "res = (case r of Inl err \<Rightarrow> Some (if IsSqlConstraintError db err then ConstraintError (error_text err) err else err)
                      | Inr k \<Rightarrow> if k = 0 then Some (NotFoundError outboxevent_Label) else None) \<and> w' = w1"
    using assms call
    by (auto simp: OutboxEventDeleteOne_Exec_def OutboxEventDelete_Exec_def OutboxEventDelete_sqlExec_def OutboxEventClient_DeleteOneID_def
        OutboxEventDelete_Where_def OutboxEventClient_Delete_def OutboxEventMutation_Where_def newOutboxEventMutation_def outboxevent_ID_def
        split: sum.splits)
  show ?thesis
    using delete_one [OF call] res without_missing [of "tabs w" "Table_outbox_events" i]
    by (auto split: sum.splits)
qed

lemma NotificationUpdateOne_effect:
  assumes "nm_predicates (nu_mutation c) = []" "nm_id (nu_mutation c) = Some i"
    and "NotificationUpdateOne_Save g db c w = (Inr node, w')"
  shows "\<exists>c1 w1 r. NotificationUpdateOne_defaults db c w = (c1, w1) \<and> tabs w1 = tabs w \<and>
    tabs w' = (tabs w)(Table_notifications := update_where (has_ID i)
        (spec_update (ns_Update (NotificationUpdateOne_spec c1 i))) (tabs w Table_notifications)) \<and>
    r \<in> set (tabs w' Table_notifications) \<and> has_ID i r \<and>
    NotificationUpdateOne_decode (ns_Columns (NotificationUpdateOne_spec c1 i)) r = Inr node \<and> snap w' = snap w"
proof -
  obtain c1 w1 where c1: "NotificationUpdateOne_defaults db c w = (c1, w1)"
    by (cases "NotificationUpdateOne_defaults db c w")
  have keep: "nm_predicates (nu_mutation c1) = [] \<and> nm_id (nu_mutation c1) = Some i \<and>
      nm_updated_at (nu_mutation c1) \<noteq> None \<and> tabs w1 = tabs w \<and> snap w1 = snap w"
    using c1 assms(1,2)
    by (auto simp: NotificationUpdateOne_defaults_def NotificationMutation_UpdatedAt_def NotificationMutation_SetUpdatedAt_def
        split: option.splits prod.splits dest: database.now_frame [OF database_axioms])
  let ?sp = "NotificationUpdateOne_spec c1 i"
  have sp: "us_Predicate (ns_Update ?sp) = []" "us_Set (ns_Update ?sp) \<noteq> []"
      "us_Table (ns_Update ?sp) = Table_notifications" "ns_ID ?sp = i"
    using keep by (auto simp: NotificationUpdateOne_spec_def NotificationMutation_UpdatedAt_def)
  have saved: "NotificationUpdateOne_sqlSave g db c1 w1 = (Inr node, w')"
    using assms(3) c1 by (simp add: NotificationUpdateOne_Save_def)
  obtain r where r: "UpdateNode g ?sp (\<lambda>r. case NotificationUpdateOne_decode (ns_Columns ?sp) r of Inl err \<Rightarrow> Some err | Inr _ \<Rightarrow> None) w1
        = (Inr r, w')" "NotificationUpdateOne_decode (ns_Columns ?sp) r = Inr node"
    using saved keep
    by (auto simp: NotificationUpdateOne_sqlSave_def NotificationMutation_ID_def Let_def split: option.splits sum.splits prod.splits)
  show ?thesis
    using update_one [OF sp(1,2) r(1)] keep sp c1 r(2) by auto
qed

lemma OutboxEventUpdateOne_effect:
  assumes "om_predicates (ou_mutation c) = []" "om_id (ou_mutation c) = Some i"
    and "OutboxEventUpdateOne_Save g db c w = (Inr node, w')"
  shows "\<exists>c1 w1 r. OutboxEventUpdateOne_defaults db c w = (c1, w1) \<and> tabs w1 = tabs w \<and>
    tabs w' = (tabs w)(Table_outbox_events := update_where (has_ID i)
        (spec_update (ns_Update (OutboxEventUpdateOne_spec c1 i))) (tabs w Table_outbox_events)) \<and>
    r \<in> set (tabs w' Table_outbox_events) \<and> has_ID i r \<and>
    OutboxEventUpdateOne_decode (ns_Columns (OutboxEventUpdateOne_spec c1 i)) r = Inr node \<and> snap w' = snap w"
proof -
  obtain c1 w1 where c1: "OutboxEventUpdateOne_defaults db c w = (c1, w1)"
    by (cases "OutboxEventUpdateOne_defaults db c w")
  have keep: "om_predicates (ou_mutation c1) = [] \<and> om_id (ou_mutation c1) = Some i \<and>
      om_updated_at (ou_mutation c1) \<noteq> None \<and> tabs w1 = tabs w \<and> snap w1 = snap w"
    using c1 assms(1,2)
    by (auto simp: OutboxEventUpdateOne_defaults_def OutboxEventMutation_UpdatedAt_def OutboxEventMutation_SetUpdatedAt_def
        split: option.splits prod.splits dest: database.now_frame [OF database_axioms])
  let ?sp = "OutboxEventUpdateOne_spec c1 i"
  have sp: "us_Predicate (ns_Update ?sp) = []" "us_Set (ns_Update ?sp) \<noteq> []"
      "us_Table (ns_Update ?sp) = Table_outbox_events" "ns_ID ?sp = i"
    using keep by (auto simp: OutboxEventUpdateOne_spec_def OutboxEventMutation_UpdatedAt_def)
  have saved: "OutboxEventUpdateOne_sqlSave g db c1 w1 = (Inr node, w')"
    using assms(3) c1 by (simp add: OutboxEventUpdateOne_Save_def)
  obtain r where r: "UpdateNode g ?sp (\<lambda>r. case OutboxEventUpdateOne_decode (ns_Columns ?sp) r of Inl err \<Rightarrow> Some err | Inr _ \<Rightarrow> None) w1
        = (Inr r, w')" "OutboxEventUpdateOne_decode (ns_Columns ?sp) r = Inr node"
    using saved keep
    by (auto simp: OutboxEventUpdateOne_sqlSave_def OutboxEventMutation_ID_def Let_def split: option.splits sum.splits prod.splits)
  show ?thesis
    using update_one [OF sp(1,2) r(1)] keep sp c1 r(2) by auto
qed

end

end
