(* ===== verification/Spec2Isabelle.thy ===== *)
theory Spec2Isabelle
  imports Sample_System Commands Mutation_Laws Ent_Migrate Ent_Graph
begin

text \<open>
  A verification development for \<^verbatim>\<open>rc_tobias\<close>, a notification delivery service in Go. A producer posts
  a notification (URL, method, headers, JSON body) to an HTTP API; it is stored in PostgreSQL together
  with an outbox event; a relay publishes due outbox events to a Redis stream; workers read the
  stream, call the vendor's URL, record the attempt, and write a new outbox event when the attempt
  is to be repeated. Paths below are relative to \<^verbatim>\<open>src/\<close>.

  \<^bold>\<open>Theories and code.\<close>

  \<^item> \<open>Notify_Prelude\<close>: types shared by all parts (times and 64-bit durations, identifiers, byte
    strings), lists and finite maps. \<open>Go_Errors\<close>: errors as a datatype with \<^verbatim>\<open>errors.Is\<close> and the error
    helpers of \<^verbatim>\<open>ent/ent.go\<close>.
  \<^item> The standard library as far as the code depends on what it does: \<open>Go_Strings\<close> (\<^verbatim>\<open>strings\<close>,
    \<^verbatim>\<open>strconv\<close>, \<^verbatim>\<open>%q\<close>), \<open>Go_Netip\<close> (\<^verbatim>\<open>net/netip\<close>, splitting and joining of host and port), \<open>Go_Url\<close>
    (\<^verbatim>\<open>url.ParseRequestURI\<close>, \<^verbatim>\<open>URL.String\<close>), \<open>Go_Json\<close> (\<^verbatim>\<open>json.Valid\<close>).
  \<^item> \<open>Sql_Model\<close>, \<open>Sql_Rows\<close>: rows, conditions under SQL's three-valued logic, the meaning of INSERT,
    UPDATE and SELECT, transactions; the record \<open>db\<close> of the calls the program makes and the locale
    \<open>database\<close> of what it relies on.
  \<^item> The generated ORM (\<^verbatim>\<open>ent/\<close>): \<open>Ent_Types\<close> (entities, \<^verbatim>\<open>scanValues\<close>/\<^verbatim>\<open>assignValues\<close>, schema, defaults,
    validators), \<open>Mutation_*\<close> (\<^verbatim>\<open>ent/mutation.go\<close>), \<open>Builders_*\<close> (\<^verbatim>\<open>*_create.go\<close>, \<^verbatim>\<open>*_update.go\<close>,
    \<^verbatim>\<open>*_query.go\<close>), \<open>Where_*\<close> (\<^verbatim>\<open>*/where.go\<close>), \<open>Ent_Client\<close> (\<^verbatim>\<open>client.go\<close>, \<^verbatim>\<open>tx.go\<close>), \<open>Ent_Laws\<close>. \<open>Mutation_Laws\<close>: the contract
    of the mutations. \<open>Ent_Migrate\<close>: \<^verbatim>\<open>ent/migrate\<close> and the rows that fit its tables.
  \<^item> The part of the ORM that the program does not call: \<open>Sql_Graph\<close> (the further calls to the driver,
    with the locale \<open>graph_database\<close>), \<open>Ent_Values\<close>, \<open>Graph_*\<close> (per entity: \<^verbatim>\<open>*_delete.go\<close>, \<^verbatim>\<open>UpdateOne\<close>, bulk
    creation, the other queries, old values, the panicking methods), \<open>Ent_Hooks\<close> (\<^verbatim>\<open>hook/hook.go\<close>, hooks and
    selectors of \<^verbatim>\<open>ent.go\<close>, \<^verbatim>\<open>tx.go\<close>, options of \<^verbatim>\<open>client.go\<close>), \<open>Ent_Graph\<close> (\<^verbatim>\<open>Client.Mutate\<close>, and what
    deleting and updating one node do).
  \<^item> \<open>Notification_Types\<close>, \<open>Notification_Repository\<close>: \<^verbatim>\<open>internal/notification/types.go\<close> and
    \<^verbatim>\<open>ent_repository.go\<close>; \<open>Repository_Rows\<close>, \<open>Repository_Laws\<close>, \<open>Repository_Effects\<close>, \<open>Repository_Views\<close>
    prove what each operation does to the tables on every path. \<open>Validation\<close>, \<open>Notification_Service\<close>:
    \<^verbatim>\<open>validation.go\<close> and \<^verbatim>\<open>service.go\<close>. \<open>Netguard\<close>: \<^verbatim>\<open>internal/netguard\<close>. \<open>Api_Router\<close>: \<^verbatim>\<open>internal/api\<close>.
  \<^item> \<open>Task_Machine\<close>: the abstract state machine of a notification. \<open>Delivery_Retry\<close>,
    \<open>Delivery_Processor\<close>, \<open>Delivery_Http\<close>, \<open>Delivery_Transport\<close>: \<^verbatim>\<open>internal/delivery\<close>. \<open>Worker_Env\<close>,
    \<open>Worker_System\<close>: the worker over the repository, the dispatcher and the stream;
    \<open>Worker_Progress\<close>: what it achieves when the database answers.
  \<^item> \<open>Outbox_Store\<close>, \<open>Outbox_Laws\<close>, \<open>Outbox_Relay\<close>, \<open>Outbox_Env\<close>: \<^verbatim>\<open>internal/outbox\<close>. \<open>Stream_Message\<close>,
    \<open>Stream_Redis\<close>, \<open>Stream_Consumer\<close>: \<^verbatim>\<open>internal/stream\<close>.
  \<^item> \<open>System_Machine\<close>: the whole system in the abstract, with the invariant that no work is lost;
    \<open>System_Tables\<close>, \<open>System_Worker\<close>, \<open>System_Program\<close>: every operation of the three programs is a
    sequence of its steps.
  \<^item> \<open>Platform_Config\<close>, \<open>Platform_Database\<close>: \<^verbatim>\<open>internal/platform\<close>. \<open>Commands\<close>: \<^verbatim>\<open>cmd/*/main.go\<close>.
  \<^item> \<open>Cluster\<close>, \<open>Sample_World\<close>, \<open>Sample_System\<close>: a concrete world on which every interface is
    interpreted and the properties are instantiated.

  \<^bold>\<open>Conventions.\<close> A Go function with effects is a function of the world \<open>'w\<close>, a type parameter; an
  error result is \<open>goerror option\<close> or \<open>goerror + 'a\<close>, and every early return is a branch. Integers of
  the code that can wrap around (durations, nanoseconds) are 64-bit words. Builder methods that
  mutate and return their receiver are functions on the mutation record. The deferred rollback of
  the repository is \<open>deferred\<close>, run on every path after the transaction was opened.

  \<^bold>\<open>What is assumed of the environment\<close> is stated in the locales and nowhere else:
  \<open>database\<close> (a statement is executed completely or not at all; an error may hide a statement or a
  commit that took effect; a rollback restores the snapshot), \<open>sql_database\<close> (the same for the raw
  statements of the outbox store, with FOR UPDATE SKIP LOCKED and RETURNING), \<open>redis_streams\<close>
  (entries, groups and pending lists as documented; a reply may be lost), \<open>uuid_package\<close> (printing
  and parsing are inverse), \<open>worker_env\<close>, \<open>dial_log\<close> (connections are opened through \<^verbatim>\<open>DialContext\<close>),
  \<open>advisory_lock\<close>, \<open>graph_database\<close>, \<open>responsive_worker\<close> (no call fails). Each is interpreted on a concrete world.

  \<^bold>\<open>What the properties show.\<close> No work is lost over the whole system; one worker attempt from every
  state and with every failure, its refinement of the task machine, its progress when the services
  answer, and when a message is acknowledged; what a relay pass leaves behind and that claims
  exclude each other; what the API stores and answers; atomicity of each repository operation; what
  validation and the network guard let through, and the one way around them; the backoff in closed
  form; the configuration and its overflow; naming of consumers and the migration lock.

  \<^bold>\<open>Bounds and fuel.\<close> The scan of pending messages is a \<open>partial_function\<close>, and shown to return. The
  loops of \<^verbatim>\<open>cmd/\<close> run until they are cancelled; they are given the number of rounds, and statements
  hold for every number. Everything else is total.

  \<^bold>\<open>Simplifications.\<close> A transaction or a statement is one step, and one operation of the program runs
  at a time in \<open>System_Program\<close>; \<open>System_Machine\<close> has the invariant for every interleaving of the
  transactions and commands themselves. Times are nanoseconds, while PostgreSQL keeps microseconds.
  JSON columns are kept decoded, and a nil and an empty byte string are identified. The loop over
  the headers of a request follows the order of an association list; Go's order is arbitrary, so
  which of several bad headers is reported is not determined there.

  Hooks are those of \<open>Ent_Hooks\<close>; the builders run without any, as in the program, where none is
  registered (\<open>withHooks\<close> of no hooks is its argument). A Go method that panics on an error returns a
  value of \<open>panicking\<close>.

  \<^bold>\<open>Not modelled.\<close> Third-party packages (gin, the ORM's SQL builder, go-redis, the drivers) and
  \<^verbatim>\<open>net/http\<close> itself are parameters. Of the generated code: interceptors and scanning of GROUP BY
  results (both work by reflection on types the caller supplies), \<^verbatim>\<open>EqualFold\<close> and \<^verbatim>\<open>ContainsFold\<close> (their
  meaning depends on the collation of the database), clients kept in a context, \<^verbatim>\<open>Unwrap\<close> and
  \<^verbatim>\<open>Value\<close>, and the test helper \<^verbatim>\<open>enttest\<close>; nothing under \<^verbatim>\<open>cmd/\<close> or \<^verbatim>\<open>internal/\<close> calls them. Logging,
  signals, exit codes, waiting and the shutdown of the HTTP server have no effect on the state that
  is modelled.
\<close>

section \<open>The system\<close>

text \<open>
  C1. No work is lost. Start from an empty database and an empty stream and let API requests, relay
  passes and worker passes (of any number of relays and workers) follow each other in any order
  and number, whichever calls to the database, to Redis or to a vendor fail on the way. Then every
  notification that is due for an attempt (pending or retrying) has an outbox event of its own that
  a relay will still publish, or a message in the stream that the workers' group has not
  acknowledged. So the database and the stream never disagree about open work.
\<close>

theorem no_work_lost:
  assumes "delivery_system db tabs snap calls disp rd entries handed pending id_key uuid_Parse sq server_now uuid_String"
    and "program_run db disp rd sq uuid_String uuid_Parse u pol sname gname w w'"
    and "tabs w = (\<lambda>_. [])" "snap w = None" "groups_wf (entries w) (handed w) (pending w)" "entries w (stream_of sname) = []"
  shows "tables_wf (tabs w') \<and> groups_wf (entries w') (handed w') (pending w')
    \<and> work_covered (task_views (tabs w')) (event_views (tabs w'))
         (stream_log uuid_Parse (entries w' (stream_of sname)))
         (handed w' (stream_of sname) (group_of gname) - pending w' (stream_of sname) (group_of gname))"
  by (rule no_lost_work [OF assms])

theorem no_work_lost_witness:
  "work_covered (task_views (pg_tables after_publish)) (event_views (pg_tables after_publish))
     (stream_log digits_Parse (rs_entries after_publish DefaultStream))
     (rs_handed_set after_publish DefaultStream DefaultGroup - rs_pending_set after_publish DefaultStream DefaultGroup)
   \<and> task_views (pg_tables after_publish) 100 = Some \<lparr>tv_Status = ''pending'', tv_Attempt = 0, tv_Max = 5\<rparr>
   \<and> map_option ew_Status (event_views (pg_tables after_publish) 101) = Some ''published''"
proof -
  have "task_views (pg_tables after_publish) 100 = Some \<lparr>tv_Status = ''pending'', tv_Attempt = 0, tv_Max = 5\<rparr>
    \<and> map_option ew_Status (event_views (pg_tables after_publish) 101) = Some ''published''"
    by code_simp
  then show ?thesis
    using no_work_lost [OF ds.delivery_system_axioms sample_run] by (simp add: stream_of_def group_of_def)
qed

section \<open>The worker\<close>

text \<open>
  C2. One call of \<^verbatim>\<open>Processor.Process\<close>, whatever the database and the vendor answer: no other task
  and no other task's requests are touched; either nothing happened (and the call succeeded only
  for a task that was finished), or a task that was pending or retrying was claimed and the call
  ended in an error, or it was claimed and the outcome of one attempt was recorded. At most one
  request is handed to the HTTP client, and a recorded success means that one was.
\<close>

theorem process_attempt_contract:
  assumes "worker_env db tabs snap calls disp" "tables_wf (tabs w)" "snap w = None"
    and "Process (ent_worker db disp pol) nid w = (r, w')"
  shows "tables_wf (tabs w') \<and> snap w' = None
    \<and> (\<forall>i. i \<noteq> nid \<longrightarrow> task_views (tabs w') i = task_views (tabs w) i
         \<and> requests_for (hd_uuid_String disp) (calls w') i = requests_for (hd_uuid_String disp) (calls w) i)
    \<and> (task_views (tabs w') = task_views (tabs w)
          \<and> requests_for (hd_uuid_String disp) (calls w') nid = requests_for (hd_uuid_String disp) (calls w) nid
          \<and> (r = None \<longrightarrow> (\<exists>v. task_views (tabs w) nid = Some v \<and> terminal v))
       \<or> (\<exists>v. task_views (tabs w) nid = Some v \<and> startable v \<and> task_views (tabs w') nid = Some (started v)
            \<and> requests_for (hd_uuid_String disp) (calls w') nid \<le> Suc (requests_for (hd_uuid_String disp) (calls w) nid)
            \<and> r \<noteq> None)
       \<or> (\<exists>v result. task_views (tabs w) nid = Some v \<and> startable v
            \<and> task_views (tabs w') nid = Some (attempt_outcome pol v result)
            \<and> requests_for (hd_uuid_String disp) (calls w') nid \<le> Suc (requests_for (hd_uuid_String disp) (calls w) nid)
            \<and> (is_success result \<longrightarrow>
                 requests_for (hd_uuid_String disp) (calls w') nid = Suc (requests_for (hd_uuid_String disp) (calls w) nid))))"
  by (rule worker_env.attempt_contract [OF assms])

theorem process_attempt_contract_witness:
  "tables_wf (pg_tables (snd (Process sample_worker 1 (sample_world [] []))))
   \<and> task_after (Process sample_worker 1 (sample_world [] [])) 1
       = Some \<lparr>tv_Status = ''succeeded'', tv_Attempt = 1, tv_Max = 5\<rparr>"
proof
  show "tables_wf (pg_tables (snd (Process sample_worker 1 (sample_world [] []))))"
    using process_attempt_contract [OF wd.worker_env_axioms, of "sample_world [] []" DefaultRetryPolicy 1
        "fst (Process sample_worker 1 (sample_world [] []))" "snd (Process sample_worker 1 (sample_world [] []))"]
      sample_wf by (simp add: sample_worker_def)
  show "task_after (Process sample_worker 1 (sample_world [] [])) 1
       = Some \<lparr>tv_Status = ''succeeded'', tv_Attempt = 1, tv_Max = 5\<rparr>"
    by code_simp
qed

text \<open>
  C3. \<^verbatim>\<open>Process\<close> implements the abstract task machine: every task moves along transitions of the
  machine (only the task at hand moves at all), so a delivered task stays delivered, the attempt
  counter never passes the bound, and well-formed tasks stay well formed.
\<close>

theorem process_refines_task_machine:
  assumes "worker_env db tabs snap calls disp" "tables_wf (tabs w)" "snap w = None" "all_tasks_wf (tabs w)"
    and "Process (ent_worker db disp pol) nid w = (r, w')"
  shows "all_tasks_wf (tabs w') \<and> dom (task_views (tabs w')) = dom (task_views (tabs w))
    \<and> (\<forall>i v v'. task_views (tabs w) i = Some v \<longrightarrow> task_views (tabs w') i = Some v' \<longrightarrow>
         task_steps v v' \<and> (i \<noteq> nid \<longrightarrow> v' = v))"
  by (rule worker_env.attempt_refines [OF assms])

theorem process_refines_task_machine_witness:
  "all_tasks_wf (pg_tables (snd (Process sample_worker 1 (sample_world [] [Inr 503]))))
   \<and> task_after (Process sample_worker 1 (sample_world [] [Inr 503])) 1
       = Some \<lparr>tv_Status = ''retrying'', tv_Attempt = 1, tv_Max = 5\<rparr>"
proof
  show "all_tasks_wf (pg_tables (snd (Process sample_worker 1 (sample_world [] [Inr 503]))))"
    using process_refines_task_machine [OF wd.worker_env_axioms, of "sample_world [] [Inr 503]" DefaultRetryPolicy 1
        "fst (Process sample_worker 1 (sample_world [] [Inr 503]))"
        "snd (Process sample_worker 1 (sample_world [] [Inr 503]))"]
      sample_wf sample_tasks_wf by (simp add: sample_worker_def)
  show "task_after (Process sample_worker 1 (sample_world [] [Inr 503])) 1
       = Some \<lparr>tv_Status = ''retrying'', tv_Attempt = 1, tv_Max = 5\<rparr>"
    by code_simp
qed

text \<open>
  C4. Progress. While the database answers and hands out new identifiers, a due task is settled by
  as many calls of \<^verbatim>\<open>Process\<close> as it has attempts left, whatever the vendor answers: every call
  records the outcome of one attempt, and the task ends as delivered or as finally failed.
\<close>

theorem due_task_is_settled:
  assumes "responsive_worker db tabs snap calls disp alive ids"
    and "tables_wf (tabs w)" "snap w = None" "alive w" "unused_ids (2 * k) (ids w) (tabs w)"
    and "task_views (tabs w) nid = Some v" "task_wf v" "startable v" "tv_Max v - tv_Attempt v \<le> int k"
  shows "\<exists>v'. task_views (tabs (process_times k (ent_worker db disp pol) nid w)) nid = Some v' \<and> terminal v'"
  by (rule responsive_worker.process_times_settles [OF assms(1) _ assms(3,6,7,8,9)])
    (simp add: responsive_worker.live_def [OF assms(1)] assms(2,4,5))

theorem due_task_is_settled_witness:
  "\<forall>vendor. \<exists>v'. task_views (pg_tables (process_times 5 sample_worker 1 (sample_world [] vendor))) 1 = Some v' \<and> terminal v'"
proof
  fix vendor
  have v: "task_views (pg_tables (sample_world [] vendor)) 1 = Some \<lparr>tv_Status = ''pending'', tv_Attempt = 0, tv_Max = 5\<rparr>"
    by (simp add: sample_views)
  show "\<exists>v'. task_views (pg_tables (process_times 5 sample_worker 1 (sample_world [] vendor))) 1 = Some v' \<and> terminal v'"
    unfolding sample_worker_def
    by (rule due_task_is_settled [OF wr.responsive_worker_axioms _ _ _ _ v])
      (use sample_answers in \<open>simp_all add: sample_wf task_wf_def startable_def\<close>)
qed





text \<open>
  C7. \<^verbatim>\<open>Consumer.ClaimAndProcess\<close>, whose loop follows the cursor that Redis returns, comes to an
  end, and it too acknowledges only what is settled.
\<close>

theorem pending_scan_returns:
  assumes "worker_system db tabs snap calls disp rd entries handed pending id_key"
    and "tables_wf (tabs w)" "snap w = None" "all_tasks_wf (tabs w)" "groups_wf (entries w) (handed w) (pending w)"
    and "acks_justified uuid_Parse (task_settled (tabs w)) (entries w) (handed w) (pending w)"
  shows "\<exists>r w'. ClaimAndProcess uuid_Parse (NewConsumer rd st grp name (Process (ent_worker db disp pol))) minIdle n w = Some (r, w')
     \<and> all_tasks_wf (tabs w') \<and> groups_wf (entries w') (handed w') (pending w')
     \<and> acks_justified uuid_Parse (task_settled (tabs w')) (entries w') (handed w') (pending w')"
  by (rule worker_system.scan_justified [OF assms])

theorem pending_scan_returns_witness:
  "\<exists>r w'. ClaimAndProcess digits_Parse sample_consumer 30000000000 10 (sample_world [] []) = Some (r, w')"
  using pending_scan_returns [OF ws.worker_system_axioms, of "sample_world [] []" digits_Parse "''''" "''''" "''host-0''"
      DefaultRetryPolicy 30000000000 10] sample_wf sample_tasks_wf sample_groups
  by (auto simp: sample_consumer_def)

section \<open>The relay\<close>

text \<open>
  C8. One pass of \<^verbatim>\<open>Relay.PublishDue\<close>, whichever calls fail: the stream grows by at most one
  message per event; only events that were pending or publishing change; an event the pass claimed
  is afterwards still held by this relay, or pending again, or published under the identifier of a
  stream entry of this pass that carries it; and a pass that reports no error leaves none of its
  events in \<^verbatim>\<open>publishing\<close>.
\<close>

theorem relay_pass_outcome:
  assumes "relay_env sq tabs server_now rd entries handed pending id_key uuid_String uuid_Parse"
    and "tables_wf (tabs w)" "PublishDue (pg_relay sq uuid_String rd streamName host) w = (r, w')"
  shows "tables_wf (tabs w')
    \<and> (\<exists>new. stream_log uuid_Parse (entries w' (sp_stream (NewPublisher rd streamName)))
           = stream_log uuid_Parse (entries w (sp_stream (NewPublisher rd streamName))) @ new
         \<and> distinct (map (dm_OutboxEventID \<circ> fst) new)
         \<and> (\<forall>i. event_views (tabs w') i = event_views (tabs w) i
              \<or> (\<exists>v v'. event_views (tabs w) i = Some v \<and> ew_open v \<and> event_views (tabs w') i = Some v'
                   \<and> pass_outcome (if host = '''' then ''relay'' else host) i new v'
                   \<and> (r = None \<longrightarrow> ew_Status v' \<noteq> ''publishing''))))"
  by (rule relay_env.relay_pass [OF assms])

theorem relay_pass_outcome_witness:
  "tables_wf (pg_tables (snd (PublishDue sample_relay (sample_world [] []))))
   \<and> map_option ew_Status (event_after (PublishDue sample_relay (sample_world [] [])) 7) = Some ''published''
   \<and> length (rs_entries (snd (PublishDue sample_relay (sample_world [] []))) DefaultStream) = 2"
proof (intro conjI)
  show "tables_wf (pg_tables (snd (PublishDue sample_relay (sample_world [] []))))"
    using relay_pass_outcome [OF cl.relay_env_axioms, of "sample_world [] []" "''''" "''host''"
        "fst (PublishDue sample_relay (sample_world [] []))" "snd (PublishDue sample_relay (sample_world [] []))"]
      sample_wf by (simp add: sample_relay_def)
  show "map_option ew_Status (event_after (PublishDue sample_relay (sample_world [] [])) 7) = Some ''published''"
    by code_simp
  show "length (rs_entries (snd (PublishDue sample_relay (sample_world [] []))) DefaultStream) = 2"
    by code_simp
qed



text \<open>
  C10. \<^verbatim>\<open>MarkPublished\<close> changes an event only while the caller holds its claim; otherwise the table
  is as before and the call reports an error.
\<close>

theorem mark_published_needs_claim:
  assumes "sql_database sq tabs server_now frame" "tables_wf (tabs w)"
    and "PgMarkPublished sq eid streamID lk w = (res, w')"
  shows "frame w' = frame w
    \<and> (tabs w' = tabs w \<and> res \<noteq> None
       \<or> held eid lk (tabs w)
         \<and> (\<exists>tm. tabs w' = set_row Table_outbox_events eid (published_row streamID tm) (tabs w)))"
  by (rule sql_database.Mark_effect [OF assms])

theorem mark_published_needs_claim_witness:
  "pg_tables (snd (PgMarkPublished pg_sql 7 ''1-0'' ''a'' (sample_world [] []))) = sample_tables
   \<and> fst (PgMarkPublished pg_sql 7 ''1-0'' ''a'' (sample_world [] [])) = Some (Sentinel ErrLostClaim)"
proof
  have "\<not> held 7 ''a'' sample_tables"
    by (auto simp: held_def find_row_def sample_tables_def outbox_row_def)
  then show "pg_tables (snd (PgMarkPublished pg_sql 7 ''1-0'' ''a'' (sample_world [] []))) = sample_tables"
    using mark_published_needs_claim [OF cl.sql_database_axioms, of "sample_world [] []" 7 "''1-0''" "''a''"
        "fst (PgMarkPublished pg_sql 7 ''1-0'' ''a'' (sample_world [] []))"
        "snd (PgMarkPublished pg_sql 7 ''1-0'' ''a'' (sample_world [] []))"] sample_wf by simp
  show "fst (PgMarkPublished pg_sql 7 ''1-0'' ''a'' (sample_world [] [])) = Some (Sentinel ErrLostClaim)"
    by code_simp
qed

section \<open>The API\<close>

text \<open>
  C11. What \<^verbatim>\<open>POST /notifications\<close> does. A response other than 202 has code 400, 404, 409 or 500.
  Either nothing was stored and the response is an error; or the request was accepted twice by
  \<^verbatim>\<open>ValidateCreateRequest\<close> (by the handler and by the service), the stored request satisfies every
  limit of the API, exactly that notification and its outbox event were added, and a 202 carries
  the notification that was stored.
\<close>

theorem api_create_outcome:
  assumes "database db tabs snap" "tables_wf (tabs w)" "snap w = None"
    and "createNotification u (service_interface u (ent_service db)) c w = (resp, w')"
  shows "snap w' = None \<and>
    (tabs w' = tabs w \<and> hr_Code resp \<in> {400, 404, 409, 500}
     \<or> (\<exists>req req1 req2 nid r. gq_JSON c = Some req \<and> ValidateCreateRequest u req = Inr req1
          \<and> ValidateCreateRequest u req1 = Inr req2 \<and> request_ok req2 \<and> cr_Body req2 = cr_Body req
          \<and> create_post req2 nid r (tabs w) (tabs w')
          \<and> (hr_Code resp = 202 \<and> hr_Body resp = BodyNotification (mapEntNotification (Notification_of_row r))
             \<or> hr_Code resp \<in> {400, 404, 409, 500})))"
proof -
  have ok: "request_ok req2 \<and> cr_Body req2 = cr_Body req"
    if "ValidateCreateRequest u req = Inr req1" "ValidateCreateRequest u req1 = Inr req2" for req req1 req2
    using ValidateCreateRequest_outcome [where u = u and req = req] ValidateCreateRequest_outcome [where u = u and req = req1] that by simp
  from database.createNotification_effect [OF assms] ok show ?thesis by blast
qed

theorem api_create_outcome_witness:
  "pg_tx after_create = None
   \<and> hr_Code (fst (createNotification ascii_unicode sample_api sample_call (empty_world [] [Inr 503]))) = 202
   \<and> length (pg_tables after_create Table_notifications) = 1"
proof -
  have "hr_Code (fst (createNotification ascii_unicode sample_api sample_call (empty_world [] [Inr 503]))) = 202
    \<and> length (pg_tables after_create Table_notifications) = 1"
    unfolding sample_created by code_simp
  then show ?thesis
    using api_create_outcome [OF pg.database_axioms, of "empty_world [] [Inr 503]" ascii_unicode sample_call
        "fst (createNotification ascii_unicode sample_api sample_call (empty_world [] [Inr 503]))" after_create]
    by (simp add: after_create_def sample_api_def tables_wf_def table_wf_def)
qed

text \<open>
  C12. \<^verbatim>\<open>POST /notifications/:id/retry\<close> either changes nothing and answers with an error, or has
  requeued the failed task that the path names, together with a new outbox event; when the path
  names none, or one that has not failed, nothing changes and the answer is an error.
\<close>

theorem api_retry_outcome:
  assumes "database db tabs snap" "tables_wf (tabs w)" "snap w = None"
    and "retryNotification parse (service_interface u (ent_service db)) c w = (resp, w')"
  shows "snap w' = None \<and>
    (tabs w' = tabs w \<and> hr_Code resp \<in> {400, 404, 409, 500}
     \<or> (\<exists>nid v. parse (gq_ID c) = Some nid \<and> retry_post nid (tabs w) (tabs w')
          \<and> task_views (tabs w) nid = Some v \<and> tv_Status v = StatusFailed
          \<and> task_views (tabs w') = (task_views (tabs w))(nid \<mapsto> requeued v)
          \<and> hr_Code resp \<in> {202, 400, 404, 409, 500}))"
  using database.retryNotification_effect [OF assms] retry_post_effect [OF assms(2)] by blast

theorem api_retry_outcome_witness:
  "pg_tx (snd (retryNotification (parsed_id digits_Parse) sample_api \<lparr>gq_JSON = None, gq_ID = ''1''\<rparr> sample_failed)) = None
   \<and> hr_Code (fst (retryNotification (parsed_id digits_Parse) sample_api \<lparr>gq_JSON = None, gq_ID = ''1''\<rparr> sample_failed)) = 202
   \<and> hr_Code (fst (retryNotification (parsed_id digits_Parse) sample_api \<lparr>gq_JSON = None, gq_ID = ''1''\<rparr> sample_delivering)) = 409"
proof (intro conjI)
  show "pg_tx (snd (retryNotification (parsed_id digits_Parse) sample_api \<lparr>gq_JSON = None, gq_ID = ''1''\<rparr> sample_failed)) = None"
    using api_retry_outcome [OF pg.database_axioms, of sample_failed "parsed_id digits_Parse" ascii_unicode
        "\<lparr>gq_JSON = None, gq_ID = ''1''\<rparr>"
        "fst (retryNotification (parsed_id digits_Parse) sample_api \<lparr>gq_JSON = None, gq_ID = ''1''\<rparr> sample_failed)"
        "snd (retryNotification (parsed_id digits_Parse) sample_api \<lparr>gq_JSON = None, gq_ID = ''1''\<rparr> sample_failed)"]
      sample_later_wf by (simp add: sample_api_def)
qed code_simp+

text \<open>
  C13. \<^verbatim>\<open>GET /notifications/:id\<close> changes nothing; it answers 400 to an identifier that does not
  parse, and otherwise 404 when there is no such row and 200 with the row's notification when there
  is one, unless the query itself failed.
\<close>

theorem api_get_outcome:
  assumes "database db tabs snap" "tables_wf (tabs w)"
    and "getNotification parse (service_interface u (ent_service db)) c w = (resp, w')"
  shows "tabs w' = tabs w \<and> snap w' = snap w \<and>
    (case parse (gq_ID c) of
       None \<Rightarrow> hr_Code resp = 400 \<and> w' = w
     | Some nid \<Rightarrow>
         (case find_row Table_notifications nid (tabs w) of
            None \<Rightarrow> hr_Code resp = 404
          | Some r \<Rightarrow> hr_Code resp = 200 \<and> hr_Body resp = BodyNotification (mapEntNotification (Notification_of_row r)))
         \<or> (\<exists>e q. QueryNodes db q w = (Inl e, w') \<and> resp = writeError (mapEntError e)))"
  by (rule database.getNotification_effect [OF assms])

theorem api_get_outcome_witness:
  "pg_tables (snd (getNotification (parsed_id digits_Parse) sample_api \<lparr>gq_JSON = None, gq_ID = ''1''\<rparr> (sample_world [] []))) = sample_tables
   \<and> hr_Code (fst (getNotification (parsed_id digits_Parse) sample_api \<lparr>gq_JSON = None, gq_ID = ''2''\<rparr> (sample_world [] []))) = 404"
proof
  show "pg_tables (snd (getNotification (parsed_id digits_Parse) sample_api \<lparr>gq_JSON = None, gq_ID = ''1''\<rparr> (sample_world [] []))) = sample_tables"
    using api_get_outcome [OF pg.database_axioms, of "sample_world [] []" "parsed_id digits_Parse" ascii_unicode
        "\<lparr>gq_JSON = None, gq_ID = ''1''\<rparr>"
        "fst (getNotification (parsed_id digits_Parse) sample_api \<lparr>gq_JSON = None, gq_ID = ''1''\<rparr> (sample_world [] []))"
        "snd (getNotification (parsed_id digits_Parse) sample_api \<lparr>gq_JSON = None, gq_ID = ''1''\<rparr> (sample_world [] []))"]
      sample_wf by (simp add: sample_api_def)
  show "hr_Code (fst (getNotification (parsed_id digits_Parse) sample_api \<lparr>gq_JSON = None, gq_ID = ''2''\<rparr> (sample_world [] []))) = 404"
    by code_simp
qed

section \<open>The repository\<close>

text \<open>
  C14. \<^verbatim>\<open>CreateNotification\<close> is all or nothing: an error leaves the tables as they were, unless the
  commit took effect without being acknowledged; otherwise exactly one notification, pending with
  no attempts, and its outbox event have been added together.
\<close>

theorem create_notification_atomic:
  assumes "database db tabs snap" "tables_wf (tabs w)" "snap w = None"
    and "CreateNotification (NewEntRepository db) req w = (res, w')"
  shows "snap w' = None \<and>
    (tabs w' = tabs w \<and> isl res
     \<or> (\<exists>nid r. create_post req nid r (tabs w) (tabs w') \<and> tables_wf (tabs w')
          \<and> task_views (tabs w) nid = None
          \<and> task_views (tabs w') = (task_views (tabs w))(nid \<mapsto>
               \<lparr>tv_Status = StatusPending, tv_Attempt = 0, tv_Max = cr_MaxAttempts req\<rparr>)
          \<and> (\<forall>n. res = Inr n \<longrightarrow> n = mapEntNotification (Notification_of_row r))))"
  using database.CreateNotification_effect [OF assms(1,3,4)] create_post_effect [OF assms(2)] by blast

theorem create_notification_atomic_witness:
  "pg_tx (snd (CreateNotification sample_repo sample_request (sample_world [] []))) = None
   \<and> task_after (CreateNotification sample_repo sample_request (sample_world [] [])) 100
       = Some \<lparr>tv_Status = ''pending'', tv_Attempt = 0, tv_Max = 5\<rparr>
   \<and> length (pg_tables (snd (CreateNotification sample_repo sample_request (sample_world [] []))) Table_outbox_events) = 2"
proof (intro conjI)
  show "pg_tx (snd (CreateNotification sample_repo sample_request (sample_world [] []))) = None"
    using create_notification_atomic [OF pg.database_axioms, of "sample_world [] []" sample_request
        "fst (CreateNotification sample_repo sample_request (sample_world [] []))"
        "snd (CreateNotification sample_repo sample_request (sample_world [] []))"] sample_wf
    by (simp add: sample_repo_def)
  show "task_after (CreateNotification sample_repo sample_request (sample_world [] [])) 100
       = Some \<lparr>tv_Status = ''pending'', tv_Attempt = 0, tv_Max = 5\<rparr>" by code_simp
  show "length (pg_tables (snd (CreateNotification sample_repo sample_request (sample_world [] []))) Table_outbox_events) = 2"
    by code_simp
qed

text \<open>
  C15. \<^verbatim>\<open>RecordFailure\<close> is all or nothing: it takes effect only for the attempt in flight, and then
  the task's row, the attempt's row and, exactly when the task is to be retried, the outbox event
  of the retry are written together.
\<close>

theorem record_failure_atomic:
  assumes "database db tabs snap" "tables_wf (tabs w)" "snap w = None"
    and "EntRecordFailure (NewEntRepository db) nid f w = (res, w')"
  shows "snap w' = None \<and>
    (tabs w' = tabs w \<and> res \<noteq> None
     \<or> failure_post nid f (tabs w) (tabs w') \<and> tables_wf (tabs w')
       \<and> (\<exists>v. task_views (tabs w) nid = Some v \<and> tv_Status v = StatusDelivering
            \<and> task_views (tabs w') = (task_views (tabs w))(nid \<mapsto> finished (failure_status f) v)))"
  using database.RecordFailure_effect [OF assms] failure_post_effect [OF assms(2), of nid f]
  by (auto simp: opt_err_def)

theorem record_failure_atomic_witness:
  "pg_tx (snd (EntRecordFailure sample_repo 1 sample_failure sample_delivering)) = None
   \<and> task_after (EntRecordFailure sample_repo 1 sample_failure sample_delivering) 1
       = Some \<lparr>tv_Status = ''retrying'', tv_Attempt = 1, tv_Max = 5\<rparr>
   \<and> length (pg_tables (snd (EntRecordFailure sample_repo 1 sample_failure sample_delivering)) Table_outbox_events) = 2"
proof (intro conjI)
  show "pg_tx (snd (EntRecordFailure sample_repo 1 sample_failure sample_delivering)) = None"
    using record_failure_atomic [OF pg.database_axioms, of sample_delivering 1 sample_failure
        "fst (EntRecordFailure sample_repo 1 sample_failure sample_delivering)"
        "snd (EntRecordFailure sample_repo 1 sample_failure sample_delivering)"] sample_later_wf
    by (simp add: sample_repo_def)
  show "task_after (EntRecordFailure sample_repo 1 sample_failure sample_delivering) 1
       = Some \<lparr>tv_Status = ''retrying'', tv_Attempt = 1, tv_Max = 5\<rparr>" by code_simp
  show "length (pg_tables (snd (EntRecordFailure sample_repo 1 sample_failure sample_delivering)) Table_outbox_events) = 2"
    by code_simp
qed

text \<open>
  C16. \<^verbatim>\<open>RecordSuccess\<close> is all or nothing as well: only the attempt in flight can succeed, and the
  task's row and the attempt's row are written together.
\<close>

theorem record_success_atomic:
  assumes "database db tabs snap" "tables_wf (tabs w)" "snap w = None"
    and "EntRecordSuccess (NewEntRepository db) nid a w = (res, w')"
  shows "snap w' = None \<and>
    (tabs w' = tabs w \<and> res \<noteq> None
     \<or> success_post nid a (tabs w) (tabs w') \<and> tables_wf (tabs w')
       \<and> (\<exists>v. task_views (tabs w) nid = Some v \<and> tv_Status v = StatusDelivering
            \<and> task_views (tabs w') = (task_views (tabs w))(nid \<mapsto> finished StatusSucceeded v)))"
  using database.RecordSuccess_effect [OF assms] success_post_effect [OF assms(2), of nid a]
  by (auto simp: opt_err_def)

theorem record_success_atomic_witness:
  "pg_tx (snd (EntRecordSuccess sample_repo 1 sample_success sample_delivering)) = None
   \<and> task_after (EntRecordSuccess sample_repo 1 sample_success sample_delivering) 1
       = Some \<lparr>tv_Status = ''succeeded'', tv_Attempt = 1, tv_Max = 5\<rparr>"
proof
  show "pg_tx (snd (EntRecordSuccess sample_repo 1 sample_success sample_delivering)) = None"
    using record_success_atomic [OF pg.database_axioms, of sample_delivering 1 sample_success
        "fst (EntRecordSuccess sample_repo 1 sample_success sample_delivering)"
        "snd (EntRecordSuccess sample_repo 1 sample_success sample_delivering)"] sample_later_wf
    by (simp add: sample_repo_def)
  show "task_after (EntRecordSuccess sample_repo 1 sample_success sample_delivering) 1
       = Some \<lparr>tv_Status = ''succeeded'', tv_Attempt = 1, tv_Max = 5\<rparr>" by code_simp
qed

text \<open>
  C17. \<^verbatim>\<open>RetryFailedNotification\<close> requeues only a failed task, and only together with a new outbox
  event; the attempt counter starts afresh and no other task changes.
\<close>

theorem retry_failed_requeues:
  assumes "database db tabs snap" "tables_wf (tabs w)" "snap w = None"
    and "RetryFailedNotification (NewEntRepository db) nid w = (res, w')"
  shows "snap w' = None \<and>
    (tabs w' = tabs w \<and> isl res
     \<or> retry_post nid (tabs w) (tabs w') \<and> tables_wf (tabs w')
       \<and> (\<exists>v. task_views (tabs w) nid = Some v \<and> tv_Status v = StatusFailed
            \<and> task_views (tabs w') = (task_views (tabs w))(nid \<mapsto> requeued v)))"
  using database.RetryFailed_effect [OF assms] retry_post_effect [OF assms(2), of nid] by auto

theorem retry_failed_requeues_witness:
  "pg_tx (snd (RetryFailedNotification sample_repo 1 sample_failed)) = None
   \<and> task_after (RetryFailedNotification sample_repo 1 sample_failed) 1
       = Some \<lparr>tv_Status = ''pending'', tv_Attempt = 0, tv_Max = 5\<rparr>"
proof
  show "pg_tx (snd (RetryFailedNotification sample_repo 1 sample_failed)) = None"
    using retry_failed_requeues [OF pg.database_axioms, of sample_failed 1
        "fst (RetryFailedNotification sample_repo 1 sample_failed)"
        "snd (RetryFailedNotification sample_repo 1 sample_failed)"] sample_later_wf
    by (simp add: sample_repo_def)
  show "task_after (RetryFailedNotification sample_repo 1 sample_failed) 1
       = Some \<lparr>tv_Status = ''pending'', tv_Attempt = 0, tv_Max = 5\<rparr>" by code_simp
qed

text \<open>
  C18. \<^verbatim>\<open>MarkDelivering\<close> is a compare-and-set: it succeeds only on a task that is pending or
  retrying, which it makes delivering and nothing else; on any other task it reports an error and
  changes nothing.
\<close>

theorem mark_delivering_cas:
  assumes "database db tabs snap" "tables_wf (tabs w)"
    and "EntMarkDelivering (NewEntRepository db) nid w = (res, w')"
  shows "snap w' = snap w \<and>
    (tabs w' = tabs w \<and> res \<noteq> None
     \<or> mark_post nid (tabs w) (tabs w') \<and> tables_wf (tabs w')
       \<and> (\<exists>v. task_views (tabs w) nid = Some v \<and> startable v
            \<and> task_views (tabs w') = (task_views (tabs w))(nid \<mapsto> started v)))"
  using database.MarkDelivering_effect [OF assms] mark_post_effect [OF assms(2), of nid] by auto

theorem mark_delivering_cas_witness:
  "pg_tables (snd (EntMarkDelivering sample_repo 1 sample_delivering)) = pg_tables sample_delivering
   \<and> fst (EntMarkDelivering sample_repo 1 sample_delivering) = Some (Sentinel ErrConflict)"
proof
  have "\<not> mark_post 1 (pg_tables sample_delivering) t" for t
    by (auto simp: mark_post_def sample_delivering_def find_row_def set_row_def sample_tables_def
        started_row_def has_id_def notification_row_def)
  then show "pg_tables (snd (EntMarkDelivering sample_repo 1 sample_delivering)) = pg_tables sample_delivering"
    using mark_delivering_cas [OF pg.database_axioms, of sample_delivering 1
        "fst (EntMarkDelivering sample_repo 1 sample_delivering)"
        "snd (EntMarkDelivering sample_repo 1 sample_delivering)"] sample_later_wf
    by (simp add: sample_repo_def)
  show "fst (EntMarkDelivering sample_repo 1 sample_delivering) = Some (Sentinel ErrConflict)" by code_simp
qed



text \<open>
  C20. A task left in \<^verbatim>\<open>delivering\<close> (by a crash, a failed recording, or an unacknowledged claim) is
  not taken up again: every further \<^verbatim>\<open>Process\<close> of it reports an error, sends nothing, and leaves it
  as it is, so its message is never acknowledged. The README says that such work is recovered by
  reclaiming the pending message.
\<close>

theorem delivering_task_is_stuck:
  assumes "worker_env db tabs snap calls disp" "tables_wf (tabs w)" "snap w = None"
    and "Process (ent_worker db disp pol) nid w = (r, w')"
    and "task_views (tabs w) nid = Some v" "tv_Status v = StatusDelivering"
  shows "r \<noteq> None \<and> task_views (tabs w') = task_views (tabs w)
    \<and> requests_for (hd_uuid_String disp) (calls w') nid = requests_for (hd_uuid_String disp) (calls w) nid"
  by (rule worker_env.delivering_stuck [OF assms])

theorem delivering_task_is_stuck_witness:
  "fst (Process sample_worker 1 sample_delivering) \<noteq> None"
proof -
  have v: "task_views (pg_tables sample_delivering) 1 = Some \<lparr>tv_Status = ''delivering'', tv_Attempt = 0, tv_Max = 5\<rparr>"
    by code_simp
  show ?thesis
    using delivering_task_is_stuck [OF wd.worker_env_axioms, of sample_delivering DefaultRetryPolicy 1
        "fst (Process sample_worker 1 sample_delivering)" "snd (Process sample_worker 1 sample_delivering)", OF _ _ _ v]
      sample_later_wf by (simp add: sample_worker_def)
qed

section \<open>Requests and the network guard\<close>

text \<open>
  C21. What \<^verbatim>\<open>ValidateCreateRequest\<close> lets through: a refusal is always an \<^verbatim>\<open>ErrInvalid\<close>; an accepted
  request has one of the three methods, one to twenty attempts, a body of at most 256 KiB that is
  empty or valid JSON and is not changed, header names and values without the refused characters,
  and the URL is the re-printed form of an absolute http or https URL whose host the network guard
  let through.
\<close>

theorem validated_request:
  "case ValidateCreateRequest u req of
     Inl err \<Rightarrow> errors_Is err ErrInvalid
   | Inr req' \<Rightarrow> request_ok req' \<and> cr_Body req' = cr_Body req
       \<and> (\<exists>parsed. ParseRequestURI (TrimSpace (cr_URL req)) = Some parsed \<and> url_Host parsed \<noteq> ''''
            \<and> url_Scheme parsed \<in> {''http'', ''https''}
            \<and> RejectBlockedHost u (url_Hostname parsed) = None
            \<and> cr_URL req' = url_String parsed)"
  by (rule ValidateCreateRequest_outcome)

text \<open>
  C22. On ASCII text \<^verbatim>\<open>validHeaderName\<close> is the token rule of HTTP: the loop that refuses control
  characters and separators accepts exactly the non-empty names made of token characters. (Above
  ASCII it accepts everything, which the rule does not.)
\<close>

theorem header_names_are_tokens:
  assumes "is_ascii name"
  shows "validHeaderName name \<longleftrightarrow> name \<noteq> '''' \<and> list_all is_token name"
  by (rule validHeaderName_ascii [OF assms])

theorem header_names_are_tokens_witness:
  "validHeaderName ''X-Request-ID'' \<and> \<not> validHeaderName ''bad name'' \<and> \<not> validHeaderName ''''"
  using header_names_are_tokens [of "''X-Request-ID''"] header_names_are_tokens [of "''bad name''"]
    header_names_are_tokens [of "''''"]
  by (simp add: is_ascii_def is_token_def is_digit_def byte_def)

text \<open>
  C23. A dispatcher that \<^verbatim>\<open>NewHTTPDispatcher\<close> built connects only to what the network guard let
  through, as long as \<^verbatim>\<open>net/http\<close> opens connections through the client's \<^verbatim>\<open>DialContext\<close> and nowhere
  else: whatever the resolver answers, every connection that a \<^verbatim>\<open>Deliver\<close> opens goes to an address
  outside the blocked ranges or to an IPv6 address with a zone. The name is resolved before the
  check, so a name that resolves to an internal address is refused too.
\<close>

theorem deliveries_dial_vetted:
  assumes "dial_log net dialled"
    and "HTTPDispatcher_Deliver (NewHTTPDispatcher u net timeout) task w = (res, w')"
  shows "\<forall>t\<in>set (dialled w'). t \<in> set (dialled w)
    \<or> (\<exists>a port. t = JoinHostPort (Addr_String a) port \<and> (\<not> blocked_address a \<or> zoned a))"
  using dial_log.Deliver_vetted [OF assms] by (simp add: vetted_target_def)

theorem deliveries_dial_vetted_witness:
  "let w' = snd (HTTPDispatcher_Deliver (NewHTTPDispatcher ascii_unicode sample_net 0)
                  (sample_task ''http://vendor.example.com/hook'') \<lparr>nw_dialled = [], nw_clock = 0\<rparr>) in
   nw_dialled w' = [''8.8.8.8:80'']
   \<and> (\<exists>a port. ''8.8.8.8:80'' = JoinHostPort (Addr_String a) port \<and> (\<not> blocked_address a \<or> zoned a))"
proof -
  let ?w = "snd (HTTPDispatcher_Deliver (NewHTTPDispatcher ascii_unicode sample_net 0)
                  (sample_task ''http://vendor.example.com/hook'') \<lparr>nw_dialled = [], nw_clock = 0\<rparr>)"
  have d: "nw_dialled ?w = [''8.8.8.8:80'']" by code_simp
  from deliveries_dial_vetted [OF dl.dial_log_axioms surjective_pairing, of ascii_unicode 0
      "sample_task ''http://vendor.example.com/hook''" "\<lparr>nw_dialled = [], nw_clock = 0\<rparr>"] d
  show ?thesis by (simp add: Let_def)
qed

text \<open>
  C24. \<^verbatim>\<open>RejectBlockedAddr\<close> refuses exactly the addresses of the blocked ranges, written as intervals:
  0/8, 10/8, 100.64/10, 127/8, 169.254/16, 172.16/12, 192.168/16 and 224/4 of IPv4, also when they
  are mapped into IPv6, and \<^verbatim>\<open>::1\<close>, \<^verbatim>\<open>fc00::/7\<close>, \<^verbatim>\<open>fe80::/10\<close>, \<^verbatim>\<open>ff00::/8\<close> and the unspecified address without
  a zone; the error is an \<^verbatim>\<open>ErrBlockedTarget\<close>.
\<close>

theorem blocked_addresses_exact:
  "case RejectBlockedAddr a of
     None \<Rightarrow> \<not> blocked_address a
   | Some err \<Rightarrow> blocked_address a \<and> errors_Is err ErrBlockedTarget"
  using RejectBlockedAddr_iff [of a] RejectBlockedAddr_error [of a] by (auto split: option.split)


text \<open>
  C26. One \<^verbatim>\<open>HTTPDispatcher.Deliver\<close> hands at most one request to the HTTP client; it carries the
  task's method, URL and body, and the headers \<^verbatim>\<open>X-Notification-ID\<close> and \<^verbatim>\<open>Idempotency-Key\<close> hold the
  notification's own identifier, whatever headers the producer asked for. Without a request the
  result is an error.
\<close>

theorem delivery_request:
  assumes "worker_env db tabs snap calls disp" "HTTPDispatcher_Deliver disp t w = (res, w')"
  shows "calls w' = calls w \<and> ar_Err res \<noteq> None
    \<or> (\<exists>req. calls w' = calls w @ [req]
         \<and> rq_Method req = (if Task_Method t = [] then ''GET'' else Task_Method t)
         \<and> rq_URL req = Task_URL t \<and> rq_Body req = Task_Body t
         \<and> Header_Get ''X-Notification-ID'' (rq_Header req) = hd_uuid_String disp (Task_ID t)
         \<and> Header_Get ''Idempotency-Key'' (rq_Header req) = hd_uuid_String disp (Task_ID t))"
  by (rule worker_env.Deliver_request [OF assms])

theorem delivery_request_witness:
  "let t = \<lparr>Task_ID = 5, Task_URL = ''https://v'', Task_Method = ''PUT'',
            Task_Headers = Some [(''idempotency-key'', ''mine'')], Task_Body = ''b'', Task_Status = ''delivering'',
            Task_Attempt = 0, Task_MaxAttempts = 5\<rparr>;
       rw = HTTPDispatcher_Deliver world_disp t (sample_world [] []) in
     map (\<lambda>rq. (rq_Method rq, Header_Get ''Idempotency-Key'' (rq_Header rq))) (wd_calls (snd rw)) = [(''PUT'', ''5'')]"
proof -
  let ?t = "\<lparr>Task_ID = 5, Task_URL = ''https://v'', Task_Method = ''PUT'',
            Task_Headers = Some [(''idempotency-key'', ''mine'')], Task_Body = ''b'', Task_Status = ''delivering'',
            Task_Attempt = 0, Task_MaxAttempts = 5\<rparr>"
  let ?rw = "HTTPDispatcher_Deliver world_disp ?t (sample_world [] [])"
  have e: "ar_Err (fst ?rw) = None \<and> hd_uuid_String world_disp (Task_ID ?t) = ''5''" by code_simp
  from delivery_request [OF wd.worker_env_axioms surjective_pairing, of ?t "sample_world [] []"] e
  show ?thesis by (auto simp: Let_def)
qed

section \<open>Messages and backoff\<close>

text \<open>
  C27. What the relay writes to the stream the worker reads back: parsing a built message gives
  the event's and the notification's identifiers, and the event type or, where that is empty, the
  default one.
\<close>

theorem delivery_message_roundtrip:
  assumes "uuid_package uuid_String uuid_Parse"
  shows "ParseDeliveryMessage uuid_Parse (BuildDeliveryMessage uuid_String event) =
    Inr \<lparr>dm_OutboxEventID = ev_ID event, dm_NotificationID = ev_NotificationID event,
         dm_EventType = (if ev_Type event = '''' then EventTypeNotificationDelivery else ev_Type event)\<rparr>"
  using uuid_package.Parse_Build [OF assms, of event] by (simp add: delivery_message_def)

theorem delivery_message_roundtrip_witness:
  "ParseDeliveryMessage digits_Parse (BuildDeliveryMessage uuid_digits sample_event) =
     Inr \<lparr>dm_OutboxEventID = 7, dm_NotificationID = 1, dm_EventType = ''notification.delivery_requested''\<rparr>"
  using delivery_message_roundtrip [OF dec.uuid_package_axioms, of sample_event]
  by (simp add: sample_event_def EventTypeNotificationDelivery_def)

text \<open>
  C28. The backoff before attempt \<open>n + 1\<close> is the base delay doubled \<open>n - 1\<close> times, capped at the
  maximum: the loop on 64-bit durations computes this closed form without wrapping around whenever
  the base is positive and at most the maximum and the maximum is below \<open>2 ^ 62\<close> nanoseconds.
\<close>

theorem backoff_closed_form:
  assumes "0 < sint (rp_BaseDelay p)" "sint (rp_BaseDelay p) \<le> sint (rp_MaxDelay p)"
    "sint (rp_MaxDelay p) < 2 ^ 62" "1 \<le> n"
  shows "sint (delay p n) = min (sint (rp_BaseDelay p) * 2 ^ nat (n - 1)) (sint (rp_MaxDelay p))"
  by (rule delay_eq [OF assms])

theorem backoff_closed_form_witness:
  "sint (delay \<lparr>rp_BaseDelay = 3, rp_MaxDelay = 20\<rparr> 3) = 12 \<and> sint (delay \<lparr>rp_BaseDelay = 3, rp_MaxDelay = 20\<rparr> 5) = 20"
  using backoff_closed_form [of "\<lparr>rp_BaseDelay = 3, rp_MaxDelay = 20\<rparr>" 3]
    backoff_closed_form [of "\<lparr>rp_BaseDelay = 3, rp_MaxDelay = 20\<rparr>" 5] by simp

text \<open>
  C29. The default policy waits at least two seconds and at most five minutes, and never less
  after a later attempt.
\<close>

theorem default_backoff_bounds:
  assumes "1 \<le> n" "n \<le> m"
  shows "2000000000 \<le> sint (delay DefaultRetryPolicy n) \<and> sint (delay DefaultRetryPolicy n) \<le> 300000000000
    \<and> sint (delay DefaultRetryPolicy n) \<le> sint (delay DefaultRetryPolicy m)"
  by (rule DefaultRetryPolicy_bounds [OF assms])

theorem default_backoff_bounds_witness:
  "sint (delay DefaultRetryPolicy 3) \<le> 300000000000 \<and> sint (delay DefaultRetryPolicy 3) = 8000000000"
  using default_backoff_bounds [of 3 4] DefaultRetryPolicy_delay [of 3] by simp

text \<open>
  C30. A result is retried exactly when attempts remain and it is a transport error or a status
  the vendor may recover from (408, 409, 425, 429 or 5xx); any other failure, and any failure of
  the last attempt, is final; a success with attempts left is neither.
\<close>

theorem decision_classification:
  "(rd_Retry (Decide p r n m) \<longleftrightarrow>
      n < m \<and> (ar_Err r \<noteq> None \<or> ar_StatusCode r \<in> {408, 409, 425, 429} \<union> {500..599}))
   \<and> (rd_Terminal (Decide p r n m) \<longleftrightarrow>
      m \<le> n \<or> ar_Err r = None \<and> ar_StatusCode r \<notin> {408, 409, 425, 429} \<union> {500..599} \<union> {200..299})
   \<and> rd_Delay (Decide p r n m) = (if rd_Retry (Decide p r n m) then delay p n else 0)"
  by (rule Decide_classification)

theorem decision_classification_witness:
  "rd_Retry (Decide DefaultRetryPolicy \<lparr>ar_StatusCode = 503, ar_Err = None, ar_Duration = 0\<rparr> 1 5)
   \<and> rd_Terminal (Decide DefaultRetryPolicy \<lparr>ar_StatusCode = 404, ar_Err = None, ar_Duration = 0\<rparr> 1 5)"
  using decision_classification [of DefaultRetryPolicy "\<lparr>ar_StatusCode = 503, ar_Err = None, ar_Duration = 0\<rparr>" 1 5]
    decision_classification [of DefaultRetryPolicy "\<lparr>ar_StatusCode = 404, ar_Err = None, ar_Duration = 0\<rparr>" 1 5] by simp

section \<open>Configuration and start-up\<close>

text \<open>
  C31. A configuration that loads: at least one worker, no empty address, stream or group name, and
  each number is the one that its variable stands for, or the default when the variable is not
  set. The timeouts are that many seconds or milliseconds when the product fits 63 bits.
\<close>

theorem config_loads:
  assumes "LoadConfig getenv = Inr cfg"
  shows "1 \<le> cfg_Workers cfg
    \<and> '''' \<notin> {cfg_HTTPAddr cfg, cfg_DatabaseURL cfg, cfg_RedisAddr cfg, cfg_StreamName cfg, cfg_ConsumerGroup cfg}
    \<and> configured getenv ''RC_NOTIFY_REDIS_DB'' 0 = Some (cfg_RedisDB cfg)
    \<and> configured getenv ''RC_NOTIFY_WORKERS'' 2 = Some (cfg_Workers cfg)
    \<and> (\<exists>t p b. configured getenv ''RC_NOTIFY_HTTP_TIMEOUT_SECONDS'' 5 = Some t
         \<and> configured getenv ''RC_NOTIFY_RELAY_POLL_MS'' 500 = Some p
         \<and> configured getenv ''RC_NOTIFY_WORKER_BLOCK_MS'' 1000 = Some b \<and> 0 < t \<and> 0 < p \<and> 0 < b
         \<and> (t * 1000000000 < 2 ^ 63 \<longrightarrow> sint (cfg_HTTPTimeout cfg) = t * 1000000000)
         \<and> (p * 1000000 < 2 ^ 63 \<longrightarrow> sint (cfg_RelayPollInterval cfg) = p * 1000000)
         \<and> (b * 1000000 < 2 ^ 63 \<longrightarrow> sint (cfg_WorkerBlockTimeout cfg) = b * 1000000))"
  using assms
proof (rule LoadConfig_Inr)
  fix t p b
  assume c: "configured getenv ''RC_NOTIFY_REDIS_DB'' 0 = Some (cfg_RedisDB cfg)"
    "configured getenv ''RC_NOTIFY_WORKERS'' 2 = Some (cfg_Workers cfg)" "0 < cfg_Workers cfg"
    "configured getenv ''RC_NOTIFY_HTTP_TIMEOUT_SECONDS'' 5 = Some t" "0 < t"
    "configured getenv ''RC_NOTIFY_RELAY_POLL_MS'' 500 = Some p" "0 < p"
    "configured getenv ''RC_NOTIFY_WORKER_BLOCK_MS'' 1000 = Some b" "0 < b"
    and d: "cfg_HTTPTimeout cfg = Duration_of_int t * Second"
    "cfg_RelayPollInterval cfg = Duration_of_int p * Millisecond"
    "cfg_WorkerBlockTimeout cfg = Duration_of_int b * Millisecond"
    and n: "'''' \<notin> {cfg_HTTPAddr cfg, cfg_DatabaseURL cfg, cfg_RedisAddr cfg, cfg_StreamName cfg, cfg_ConsumerGroup cfg}"
  have "sint (cfg_HTTPTimeout cfg) = t * 1000000000" if "t * 1000000000 < 2 ^ 63"
    using duration_product [OF c(5) _ that] by (simp add: d Second_int)
  moreover have "sint (cfg_RelayPollInterval cfg) = p * 1000000" if "p * 1000000 < 2 ^ 63"
    using duration_product [OF c(7) _ that] by (simp add: d Second_int)
  moreover have "sint (cfg_WorkerBlockTimeout cfg) = b * 1000000" if "b * 1000000 < 2 ^ 63"
    using duration_product [OF c(9) _ that] by (simp add: d Second_int)
  ultimately show ?thesis using c n by auto
qed

theorem config_loads_witness:
  "case LoadConfig (\<lambda>key. if key = ''RC_NOTIFY_WORKERS'' then ''12'' else '''') of
     Inl err \<Rightarrow> False
   | Inr cfg \<Rightarrow> cfg_Workers cfg = 12 \<and> sint (cfg_HTTPTimeout cfg) = 5000000000"
proof -
  let ?g = "\<lambda>key. if key = ''RC_NOTIFY_WORKERS'' then ''12'' else ''''"
  have "\<not> isl (LoadConfig ?g) \<and> cfg_Workers (projr (LoadConfig ?g)) = 12" by code_simp
  then obtain cfg where l: "LoadConfig ?g = Inr cfg" "cfg_Workers cfg = 12" by (cases "LoadConfig ?g") auto
  from config_loads [OF l(1)] l show ?thesis by (auto simp: configured_def)
qed

text \<open>
  C32. Loading the configuration fails exactly when one of the five numbers is not a decimal number
  in the range of an int, or one of the four that must be positive is not.
\<close>

theorem config_errors:
  "isl (LoadConfig getenv) \<longleftrightarrow>
     configured getenv ''RC_NOTIFY_REDIS_DB'' 0 = None
     \<or> (\<exists>(key, fallback) \<in> {(''RC_NOTIFY_WORKERS'', 2), (''RC_NOTIFY_HTTP_TIMEOUT_SECONDS'', 5),
           (''RC_NOTIFY_RELAY_POLL_MS'', 500), (''RC_NOTIFY_WORKER_BLOCK_MS'', 1000)}.
          \<not> (\<exists>n>0. configured getenv key fallback = Some n))"
  by (rule LoadConfig_Inl_iff)

theorem config_errors_witness:
  "isl (LoadConfig (\<lambda>key. if key = ''RC_NOTIFY_WORKERS'' then ''0'' else ''''))"
proof -
  have "configured (\<lambda>key. if key = ''RC_NOTIFY_WORKERS'' then ''0'' else '''') ''RC_NOTIFY_WORKERS'' 2 = Some 0"
    by code_simp
  then show ?thesis
    using config_errors [of "\<lambda>key. if key = ''RC_NOTIFY_WORKERS'' then ''0'' else ''''"] by auto
qed


text \<open>
  C34. The consumers of one worker process have different, non-empty names, one per configured
  worker and at least one, so Redis keeps their pending messages apart.
\<close>

theorem consumers_named_apart:
  "distinct (worker_names os_Hostname cfg) \<and> length (worker_names os_Hostname cfg) = nat (max 1 (cfg_Workers cfg))
   \<and> '''' \<notin> set (worker_names os_Hostname cfg)"
  by (rule worker_names_distinct)

text \<open>
  C35. \<^verbatim>\<open>Migrate\<close> creates the schema at most once, only while it holds the advisory lock, and reports
  success only when the creation completed.
\<close>

theorem migration_locked:
  assumes "advisory_lock m holds created" "Migrate m w = (r, w')"
  shows "created w' = created w \<and> r \<noteq> None \<or> created w' = created w @ [(True, r = None)]"
  by (rule advisory_lock.Migrate_locked [OF assms])

theorem migration_locked_witness:
  "lw_created (snd (Migrate session_migration \<lparr>lw_holds = False, lw_created = []\<rparr>)) = [(True, True)]"
proof -
  have "fst (Migrate session_migration \<lparr>lw_holds = False, lw_created = []\<rparr>) = None" by code_simp
  with migration_locked [OF session.advisory_lock_axioms surjective_pairing, of "\<lparr>lw_holds = False, lw_created = []\<rparr>"]
  show ?thesis by auto
qed

section \<open>The generated ORM\<close>

text \<open>
  C36. Every row the builders write fits its table. A new row, from a builder after its defaults
  that passes \<^verbatim>\<open>check\<close>, has a value of the column's type in every column that is not nullable and
  a status among the enum's values; an update that passes \<^verbatim>\<open>check\<close> keeps a row that fits fitting.
\<close>

theorem written_rows_fit_schema:
  "(NotificationCreate_check (fst (NotificationCreate_defaults db nc w)) = None \<longrightarrow>
      row_fits NotificationsTable notification_Columns
        (spec_row (snd (NotificationCreate_createSpec (fst (NotificationCreate_defaults db nc w))))))
   \<and> (DeliveryAttemptCreate_check (fst (DeliveryAttemptCreate_defaults db dc w)) = None \<longrightarrow>
      row_fits DeliveryAttemptsTable deliveryattempt_Columns
        (spec_row (snd (DeliveryAttemptCreate_createSpec (fst (DeliveryAttemptCreate_defaults db dc w))))))
   \<and> (OutboxEventCreate_check (fst (OutboxEventCreate_defaults db oc w)) = None \<longrightarrow>
      row_fits OutboxEventsTable outboxevent_Columns
        (spec_row (snd (OutboxEventCreate_createSpec (fst (OutboxEventCreate_defaults db oc w))))))
   \<and> (NotificationUpdate_check nu = None \<and> row_fits NotificationsTable notification_Columns r \<longrightarrow>
      row_fits NotificationsTable notification_Columns (spec_update (NotificationUpdate_spec nu) r))
   \<and> (DeliveryAttemptUpdate_check du = None \<and> row_fits DeliveryAttemptsTable deliveryattempt_Columns r \<longrightarrow>
      row_fits DeliveryAttemptsTable deliveryattempt_Columns (spec_update (DeliveryAttemptUpdate_spec du) r))
   \<and> (OutboxEventUpdate_check ou = None \<and> row_fits OutboxEventsTable outboxevent_Columns r \<longrightarrow>
      row_fits OutboxEventsTable outboxevent_Columns (spec_update (OutboxEventUpdate_spec ou) r))"
  using NotificationCreate_fits DeliveryAttemptCreate_fits OutboxEventCreate_fits
    defaults_set_ID (1) [of db nc w] defaults_set_ID (2) [of db dc w] defaults_set_ID (3) [of db oc w]
    NotificationUpdate_fits DeliveryAttemptUpdate_fits OutboxEventUpdate_fits
  by (simp only: comp_apply) blast

theorem written_rows_fit_schema_witness:
  "row_fits OutboxEventsTable outboxevent_Columns
     (spec_row (snd (OutboxEventCreate_createSpec
       (fst (OutboxEventCreate_defaults pg_db (outbox_create 7 99) (sample_world [] []))))))
   \<and> row_fits NotificationsTable notification_Columns
     (spec_update (NotificationUpdate_spec (NotificationUpdate_SetStatus ''failed'' NotificationClient_Update))
       (notification_row 7 sample_request 3 4))"
proof -
  have created: "OutboxEventCreate_check
      (fst (OutboxEventCreate_defaults pg_db (outbox_create 7 99) (sample_world [] []))) = None"
    by code_simp
  have updated: "NotificationUpdate_check (NotificationUpdate_SetStatus ''failed'' NotificationClient_Update) = None"
    by code_simp
  have stored: "row_fits NotificationsTable notification_Columns (notification_row 7 sample_request 3 4)"
    by (simp add: fits_defs columns_defs notification_row_def cell_fits_Some)
  show ?thesis
    using written_rows_fit_schema [where db = pg_db and w = "sample_world [] []" and oc = "outbox_create 7 99"
        and nu = "NotificationUpdate_SetStatus ''failed'' NotificationClient_Update"
        and r = "notification_row 7 sample_request 3 4"]
      created updated stored by blast
qed

text \<open>
  C37. The tables the migration creates are those of the schema packages: for each entity, the
  table of \<^verbatim>\<open>ent/migrate/schema.go\<close> is the one that \<^verbatim>\<open>Fields\<close>, \<^verbatim>\<open>Indexes\<close> and \<^verbatim>\<open>Annotations\<close> describe
  (names, types, nullability, enum values, defaults, primary key, indexes with their condition), it
  has the columns that queries of the entity select, and its enum values are those that the
  validator accepts. The partial index of the outbox serves the relay: it is sorted as \<^verbatim>\<open>ClaimDue\<close>
  asks, and every event \<^verbatim>\<open>ClaimDue\<close> may claim is in it.
\<close>

theorem migrated_schema_agrees:
  "Tables =
     [table_of_schema ''deliveryattempt'' DeliveryAttempt_Annotations DeliveryAttempt_Fields DeliveryAttempt_Indexes,
      table_of_schema ''notification'' Notification_Annotations Notification_Fields [],
      table_of_schema ''outboxevent'' OutboxEvent_Annotations OutboxEvent_Fields OutboxEvent_Indexes]
   \<and> map (\<lambda>tb. map sc_Name (st_Columns tb)) Tables =
       [map column_name deliveryattempt_Columns, map column_name notification_Columns,
        map column_name outboxevent_Columns]
   \<and> (\<forall>s. (deliveryattempt_StatusValidator s = None \<longleftrightarrow> s \<in> set (sc_Enums (DeliveryAttemptsColumns ! 3)))
         \<and> (notification_StatusValidator s = None \<longleftrightarrow> s \<in> set (sc_Enums (NotificationsColumns ! 5)))
         \<and> (outboxevent_StatusValidator s = None \<longleftrightarrow> s \<in> set (sc_Enums (OutboxEventsColumns ! 3))))
   \<and> (\<exists>x. st_Indexes OutboxEventsTable = [x]
         \<and> map sc_Name (si_Columns x) = map column_name (qs_Order (claim_query limit now))
         \<and> si_Where x = Some (status_in [''pending'', ''publishing''])
         \<and> (\<forall>r. sql_holds (qs_Predicate (claim_query limit now)) r \<longrightarrow>
              sql_holds [PIn FieldStatus [VString ''pending'', VString ''publishing'']] r))"
proof (intro conjI)
  show "Tables =
     [table_of_schema ''deliveryattempt'' DeliveryAttempt_Annotations DeliveryAttempt_Fields DeliveryAttempt_Indexes,
      table_of_schema ''notification'' Notification_Annotations Notification_Fields [],
      table_of_schema ''outboxevent'' OutboxEvent_Annotations OutboxEvent_Fields OutboxEvent_Indexes]"
    by (simp add: Tables_def tables_defs schema_defs table_of_schema_defs)
  show "map (\<lambda>tb. map sc_Name (st_Columns tb)) Tables =
       [map column_name deliveryattempt_Columns, map column_name notification_Columns,
        map column_name outboxevent_Columns]"
    by (simp add: Tables_def tables_defs deliveryattempt_Columns_def notification_Columns_def
        outboxevent_Columns_def)
  show "\<forall>s. (deliveryattempt_StatusValidator s = None \<longleftrightarrow> s \<in> set (sc_Enums (DeliveryAttemptsColumns ! 3)))
         \<and> (notification_StatusValidator s = None \<longleftrightarrow> s \<in> set (sc_Enums (NotificationsColumns ! 5)))
         \<and> (outboxevent_StatusValidator s = None \<longleftrightarrow> s \<in> set (sc_Enums (OutboxEventsColumns ! 3)))"
    by (simp add: status_validated)
  show "\<exists>x. st_Indexes OutboxEventsTable = [x]
         \<and> map sc_Name (si_Columns x) = map column_name (qs_Order (claim_query limit now))
         \<and> si_Where x = Some (status_in [''pending'', ''publishing''])
         \<and> (\<forall>r. sql_holds (qs_Predicate (claim_query limit now)) r \<longrightarrow>
              sql_holds [PIn FieldStatus [VString ''pending'', VString ''publishing'']] r)"
    by (auto simp: OutboxEventsTable_def columns_defs claim_query_def status_in_def or3_def sql_eval_PAnd_True
        split: if_splits)
qed

theorem migrated_schema_agrees_witness:
  "sql_holds [PIn FieldStatus [VString ''pending'', VString ''publishing'']]
     ((\<lambda>_. None)(FieldStatus \<mapsto> VString ''pending'', FieldScheduledAt \<mapsto> VTime 3))"
  using migrated_schema_agrees [of 10 5]
  by (auto simp: claim_query_def sql_eval.simps not3_def or3_def and3_def)

text \<open>
  C38. A mutation is a map from columns to values: whatever sequence of \<^verbatim>\<open>SetField\<close>, \<^verbatim>\<open>AddField\<close>,
  \<^verbatim>\<open>ClearField\<close> and \<^verbatim>\<open>ResetField\<close> calls is made on a new mutation, it fails exactly when one of
  them is not allowed by the schema (unknown column, value of the wrong Go type, addition to a
  column that is no number, clearing of a required one); otherwise \<^verbatim>\<open>Field\<close>, \<^verbatim>\<open>AddedField\<close> and
  \<^verbatim>\<open>FieldCleared\<close> answer as the maps do after the same changes, and \<^verbatim>\<open>Fields\<close>, \<^verbatim>\<open>AddedFields\<close> and
  \<^verbatim>\<open>ClearedFields\<close> list their domains in the order of the schema. So for all three entities.
\<close>

theorem mutations_refine_field_maps:
  "(case NotificationMutation_apply xs (newNotificationMutation op) of
      Inl e \<Rightarrow> \<not> list_all (allowed ''Notification'' Notification_Fields) xs
    | Inr m \<Rightarrow> list_all (allowed ''Notification'' Notification_Fields) xs \<and>
        (let p = fold change_pending xs no_changes in
         (\<forall>c. NotificationMutation_Field c m = pd_value p c \<and> NotificationMutation_AddedField c m = pd_added p c \<and>
              NotificationMutation_FieldCleared c m = (c \<in> pd_cleared p)) \<and>
         NotificationMutation_Fields m = filter (\<lambda>c. pd_value p c \<noteq> None) (tl notification_Columns) \<and>
         NotificationMutation_AddedFields m =
           filter (\<lambda>c. numeric_column Notification_Fields c \<and> pd_added p c \<noteq> None) (tl notification_Columns) \<and>
         NotificationMutation_ClearedFields m =
           filter (\<lambda>c. optional_column Notification_Fields c \<and> c \<in> pd_cleared p) (tl notification_Columns)))
   \<and> (case DeliveryAttemptMutation_apply xs (newDeliveryAttemptMutation op) of
      Inl e \<Rightarrow> \<not> list_all (allowed ''DeliveryAttempt'' DeliveryAttempt_Fields) xs
    | Inr m \<Rightarrow> list_all (allowed ''DeliveryAttempt'' DeliveryAttempt_Fields) xs \<and>
        (let p = fold change_pending xs no_changes in
         (\<forall>c. DeliveryAttemptMutation_Field c m = pd_value p c \<and> DeliveryAttemptMutation_AddedField c m = pd_added p c \<and>
              DeliveryAttemptMutation_FieldCleared c m = (c \<in> pd_cleared p)) \<and>
         DeliveryAttemptMutation_Fields m = filter (\<lambda>c. pd_value p c \<noteq> None) (tl deliveryattempt_Columns) \<and>
         DeliveryAttemptMutation_AddedFields m =
           filter (\<lambda>c. numeric_column DeliveryAttempt_Fields c \<and> pd_added p c \<noteq> None) (tl deliveryattempt_Columns) \<and>
         DeliveryAttemptMutation_ClearedFields m =
           filter (\<lambda>c. optional_column DeliveryAttempt_Fields c \<and> c \<in> pd_cleared p) (tl deliveryattempt_Columns)))
   \<and> (case OutboxEventMutation_apply xs (newOutboxEventMutation op) of
      Inl e \<Rightarrow> \<not> list_all (allowed ''OutboxEvent'' OutboxEvent_Fields) xs
    | Inr m \<Rightarrow> list_all (allowed ''OutboxEvent'' OutboxEvent_Fields) xs \<and>
        (let p = fold change_pending xs no_changes in
         (\<forall>c. OutboxEventMutation_Field c m = pd_value p c \<and> OutboxEventMutation_AddedField c m = pd_added p c \<and>
              OutboxEventMutation_FieldCleared c m = (c \<in> pd_cleared p)) \<and>
         OutboxEventMutation_Fields m = filter (\<lambda>c. pd_value p c \<noteq> None) (tl outboxevent_Columns) \<and>
         OutboxEventMutation_AddedFields m =
           filter (\<lambda>c. numeric_column OutboxEvent_Fields c \<and> pd_added p c \<noteq> None) (tl outboxevent_Columns) \<and>
         OutboxEventMutation_ClearedFields m =
           filter (\<lambda>c. optional_column OutboxEvent_Fields c \<and> c \<in> pd_cleared p) (tl outboxevent_Columns)))"
  using nml.new_refines [of xs op] dml.new_refines [of xs op] oml.new_refines [of xs op]
  by (simp only: NotificationMutation_apply_def DeliveryAttemptMutation_apply_def
      OutboxEventMutation_apply_def simp_thms)

text \<open>
  C39. Deleting one node by its id, for each entity: if the row exists, it is removed, or the call
  reports an error and removed it or not; if it does not exist, nothing changes and the call
  reports an error. No other row is touched in any case.
\<close>

theorem delete_one_outcome:
  assumes "graph_database db tabs snap g"
  shows "(case NotificationDeleteOne_Exec g db (NotificationClient_DeleteOneID i) w of (res, w') \<Rightarrow>
      snap w' = snap w \<and>
      (if \<exists>r\<in>set (tabs w Table_notifications). has_ID i r
       then tabs w' = without_row Table_notifications i (tabs w) \<or> tabs w' = tabs w \<and> res \<noteq> None
       else tabs w' = tabs w \<and> res \<noteq> None))
   \<and> (case DeliveryAttemptDeleteOne_Exec g db (DeliveryAttemptClient_DeleteOneID i) w of (res, w') \<Rightarrow>
      snap w' = snap w \<and>
      (if \<exists>r\<in>set (tabs w Table_delivery_attempts). has_ID i r
       then tabs w' = without_row Table_delivery_attempts i (tabs w) \<or> tabs w' = tabs w \<and> res \<noteq> None
       else tabs w' = tabs w \<and> res \<noteq> None))
   \<and> (case OutboxEventDeleteOne_Exec g db (OutboxEventClient_DeleteOneID i) w of (res, w') \<Rightarrow>
      snap w' = snap w \<and>
      (if \<exists>r\<in>set (tabs w Table_outbox_events). has_ID i r
       then tabs w' = without_row Table_outbox_events i (tabs w) \<or> tabs w' = tabs w \<and> res \<noteq> None
       else tabs w' = tabs w \<and> res \<noteq> None))"
  using graph_database.NotificationDeleteOne_effect [OF assms prod.collapse [symmetric], of i w]
    graph_database.DeliveryAttemptDeleteOne_effect [OF assms prod.collapse [symmetric], of i w]
    graph_database.OutboxEventDeleteOne_effect [OF assms prod.collapse [symmetric], of i w]
  unfolding case_prod_beta by blast

theorem delete_one_outcome_witness:
  "fst (NotificationDeleteOne_Exec pg_graph pg_db_missing (NotificationClient_DeleteOneID 1) (sample_world [] [])) = None
   \<and> pg_tables (snd (NotificationDeleteOne_Exec pg_graph pg_db_missing (NotificationClient_DeleteOneID 1) (sample_world [] [])))
       = without_row Table_notifications 1 sample_tables
   \<and> fst (OutboxEventDeleteOne_Exec pg_graph pg_db_missing (OutboxEventClient_DeleteOneID 77) (sample_world [] []))
       = Some (NotFoundError ''outbox_event'')"
proof -
  have res: "fst (NotificationDeleteOne_Exec pg_graph pg_db_missing (NotificationClient_DeleteOneID 1) (sample_world [] [])) = None
      \<and> (\<exists>r\<in>set (pg_tables (sample_world [] []) Table_notifications). has_ID 1 r)
      \<and> fst (OutboxEventDeleteOne_Exec pg_graph pg_db_missing (OutboxEventClient_DeleteOneID 77) (sample_world [] []))
       = Some (NotFoundError ''outbox_event'')"
    by code_simp
  show ?thesis
  proof (cases "NotificationDeleteOne_Exec pg_graph pg_db_missing (NotificationClient_DeleteOneID 1) (sample_world [] [])")
    case (Pair r w')
    then show ?thesis
      using res delete_one_outcome [OF pgg.graph_database_axioms, where i = 1 and w = "sample_world [] []"] by auto
  qed
qed



end
